(* ===== verification/Prelude.thy ===== *)
theory Prelude
  imports Main "HOL-Library.Word" "HOL-Library.Sublist"
begin

text \<open>
  The vocabulary the components share: bytes, little and big endian encodings, slices, the result
  type of code that can throw, and the rounding of a JavaScript \<open>number\<close>. Every component theory
  imports this one, directly or through another.

  The collections: \<open>js_simps\<close> runs the exception plumbing and the slices of concrete code;
  \<open>wire_simps\<close> holds the lengths and inverses of the encodings.
\<close>

named_theorems js_simps \<open>evaluation of exception plumbing and of slices\<close>
named_theorems wire_simps \<open>lengths and inverses of byte encodings\<close>

section \<open>Types shared by every component\<close>

type_synonym byte = "8 word"
type_synonym bytes = "8 word list"

text \<open>What a JavaScript operation can throw: errors of the engine, an \<open>Error\<close> of the program with
  a fixed or a computed message, or a value that is no \<open>Error\<close>. \<open>UndefinedRead\<close> is no exception of the language: it
  flags an indexed read outside the array, which yields \<open>undefined\<close>, in code whose types promise
  a number there. The decoders' lemmas show that it does not occur.\<close>

datatype js_error =
    RangeError
  | TypeError
  | SyntaxError
  | ErrorMsg string
  | ErrorText "nat list"
  | NonError "nat list"
  | UndefinedRead

text \<open>\<open>Inl\<close> is the thrown error, \<open>Inr\<close> the returned result.\<close>

type_synonym 'a js = "js_error + 'a"

definition js_bind :: "'a js \<Rightarrow> ('a \<Rightarrow> 'b js) \<Rightarrow> 'b js" where
  "js_bind m f = (case m of Inl e \<Rightarrow> Inl e | Inr x \<Rightarrow> f x)"

lemma js_bind_Inr [js_simps, simp]: "js_bind (Inr x) f = f x"
  by (simp add: js_bind_def)

lemma js_bind_Inl [js_simps, simp]: "js_bind (Inl e) f = Inl e"
  by (simp add: js_bind_def)

lemma js_bind_eq_Inr: "js_bind m f = Inr y \<longleftrightarrow> (\<exists>x. m = Inr x \<and> f x = Inr y)"
  by (cases m) simp_all

lemma js_bind_assoc: "js_bind (js_bind m f) g = js_bind m (\<lambda>x. js_bind (f x) g)"
  by (cases m) simp_all

lemma js_bind_cong [cong]:
  "m = m' \<Longrightarrow> (\<And>x. m' = Inr x \<Longrightarrow> f x = f' x) \<Longrightarrow> js_bind m f = js_bind m' f'"
  by (cases m') simp_all

section \<open>Lists\<close>

lemma take_append_exact: "length xs = n \<Longrightarrow> take n (xs @ ys) = xs"
  by simp

lemma drop_append_exact: "length xs = n \<Longrightarrow> drop n (xs @ ys) = ys"
  by simp

lemma slice_append:
  assumes "length pre = off" and "length xs = n"
  shows "take n (drop off (pre @ xs @ rest)) = xs"
  using assms by simp

lemma replicate_numeral: "replicate (numeral k) x = x # replicate (pred_numeral k) x"
  by (simp add: numeral_eq_Suc)

section \<open>Little and big endian\<close>

text \<open>\<open>le_bytes n x\<close> is the \<open>n\<close> low bytes of \<open>x\<close>, least significant first; \<open>le_val\<close> reads such a
  list back.\<close>

fun le_bytes :: "nat \<Rightarrow> nat \<Rightarrow> bytes" where
  "le_bytes 0 x = []"
| "le_bytes (Suc n) x = word_of_nat x # le_bytes n (x div 256)"

fun le_val :: "bytes \<Rightarrow> nat" where
  "le_val [] = 0"
| "le_val (b # bs) = unat b + 256 * le_val bs"

lemma le_bytes_numeral [js_simps]:
  "le_bytes (numeral k) x = word_of_nat x # le_bytes (pred_numeral k) (x div 256)"
  by (metis le_bytes.simps(2) numeral_eq_Suc)

lemma length_le_bytes [simp, wire_simps]: "length (le_bytes n x) = n"
  by (induction n arbitrary: x) simp_all

lemma unat_byte_lt [simp]: "unat (b :: byte) < 256"
  using unsigned_less [of b] by simp

lemma unat_word_of_nat_byte: "unat (word_of_nat x :: byte) = x mod 256"
  by (simp add: unat_of_nat)

lemma le_val_le_bytes [wire_simps]: "le_val (le_bytes n x) = x mod 256 ^ n"
proof (induction n arbitrary: x)
  case 0
  then show ?case by simp
next
  case (Suc n)
  have "x mod (256 * 256 ^ n) = 256 * (x div 256 mod 256 ^ n) + x mod 256"
    by (rule mod_mult2_eq)
  then show ?case by (simp add: Suc unat_word_of_nat_byte)
qed

lemma le_val_lt: "le_val bs < 256 ^ length bs"
proof (induction bs)
  case Nil
  then show ?case by simp
next
  case (Cons b bs)
  have "unat b + 256 * le_val bs < 256 + 256 * le_val bs" by simp
  also have "\<dots> = 256 * Suc (le_val bs)" by simp
  also have "\<dots> \<le> 256 * 256 ^ length bs" using Cons by (intro mult_le_mono2) simp
  finally show ?case by simp
qed

lemma le_bytes_le_val [simp, wire_simps]: "length bs = n \<Longrightarrow> le_bytes n (le_val bs) = bs"
proof (induction bs arbitrary: n)
  case Nil
  then show ?case by simp
next
  case (Cons b bs)
  have "word_of_nat (unat b + 256 * le_val bs) = b"
    by (rule word_unat_eq_iff [THEN iffD2]) (simp only: unat_word_of_nat_byte, simp)
  with Cons show ?case by auto
qed

lemma le_val_append: "le_val (xs @ ys) = le_val xs + 256 ^ length xs * le_val ys"
  by (induction xs) (simp_all add: algebra_simps)

lemma le_val_inj: "length xs = length ys \<Longrightarrow> le_val xs = le_val ys \<Longrightarrow> xs = ys"
  by (metis le_bytes_le_val)

lemma le_bytes_eq_iff: "le_bytes n x = le_bytes n y \<longleftrightarrow> x mod 256 ^ n = y mod 256 ^ n"
  by (metis le_val_le_bytes le_val_inj length_le_bytes)

lemma le_bytes_append: "le_bytes (m + n) x = le_bytes m x @ le_bytes n (x div 256 ^ m)"
  by (induction m arbitrary: x) (simp_all add: div_mult2_eq)

definition be_bytes :: "nat \<Rightarrow> nat \<Rightarrow> bytes" where
  "be_bytes n x = rev (le_bytes n x)"

definition be_val :: "bytes \<Rightarrow> nat" where
  "be_val bs = le_val (rev bs)"

lemma length_be_bytes [simp, wire_simps]: "length (be_bytes n x) = n"
  by (simp add: be_bytes_def)

lemma be_val_be_bytes [wire_simps]: "be_val (be_bytes n x) = x mod 256 ^ n"
  by (simp add: be_val_def be_bytes_def le_val_le_bytes)

lemma be_bytes_be_val: "length bs = n \<Longrightarrow> be_bytes n (be_val bs) = bs"
  by (simp add: be_val_def be_bytes_def)

lemma be_val_lt: "be_val bs < 256 ^ length bs"
  using le_val_lt [of "rev bs"] by (simp add: be_val_def)

lemma be_val_inj: "length xs = length ys \<Longrightarrow> be_val xs = be_val ys \<Longrightarrow> xs = ys"
  by (metis be_bytes_be_val)

lemma be_val_Cons: "be_val (b # bs) = unat b * 256 ^ length bs + be_val bs"
  by (simp add: be_val_def le_val_append)

lemma be_val_replicate_0: "be_val (replicate n 0 @ bs) = be_val bs"
  by (induction n) (simp_all add: be_val_Cons)

text \<open>The bytes of a machine word, least significant first.\<close>

definition word_le :: "nat \<Rightarrow> 'a::len word \<Rightarrow> bytes" where
  "word_le n w = le_bytes n (unat w)"

lemma length_word_le [simp, wire_simps]: "length (word_le n w) = n"
  by (simp add: word_le_def)

lemma unat_lt_256_pow: "LENGTH('a) \<le> 8 * n \<Longrightarrow> unat (w :: 'a::len word) < 256 ^ n"
proof -
  assume "LENGTH('a) \<le> 8 * n"
  then have "(2::nat) ^ LENGTH('a) \<le> 2 ^ (8 * n)" by (intro power_increasing) simp_all
  also have "\<dots> = 256 ^ n" by (simp add: power_mult)
  finally show ?thesis using unsigned_less [of w, where 'a = nat] by linarith
qed

lemma le_val_word_le:
  "LENGTH('a) \<le> 8 * n \<Longrightarrow> le_val (word_le n (w :: 'a::len word)) = unat w"
  by (simp add: word_le_def le_val_le_bytes unat_lt_256_pow)

lemma le_val_word_le_u8 [simp, wire_simps]: "le_val (word_le (Suc 0) (w :: 8 word)) = unat w"
  by (simp add: le_val_word_le)

lemma le_val_word_le_u16 [simp, wire_simps]: "le_val (word_le 2 (w :: 16 word)) = unat w"
  by (simp add: le_val_word_le)

lemma le_val_word_le_u64 [simp, wire_simps]: "le_val (word_le 8 (w :: 64 word)) = unat w"
  by (simp add: le_val_word_le)

lemma le_val_word_le_u128 [simp, wire_simps]: "le_val (word_le 16 (w :: 128 word)) = unat w"
  by (simp add: le_val_word_le)

section \<open>Public keys\<close>

text \<open>
  A \<open>PublicKey\<close> of @solana/web3.js holds 32 bytes as one big-endian number; so does this type.
  \<open>new_PublicKey\<close> is the constructor on bytes (shorter inputs are left-padded by the number, a number
  of more than 32 bytes is refused) and \<open>to_buffer\<close> the 32 bytes of a key.
\<close>

type_synonym pubkey = "256 word"

definition to_buffer :: "pubkey \<Rightarrow> bytes" where
  "to_buffer k = be_bytes 32 (unat k)"

definition new_PublicKey :: "bytes \<Rightarrow> pubkey js" where
  "new_PublicKey bs =
     (if be_val bs < 256 ^ 32 then Inr (word_of_nat (be_val bs))
      else Inl (ErrorMsg ''Invalid public key input''))"

text \<open>\<open>PublicKey.default\<close>: 32 zero bytes.\<close>

definition PublicKey_default :: pubkey where
  "PublicKey_default = 0"

lemma length_to_buffer [simp, wire_simps]: "length (to_buffer k) = 32"
  by (simp add: to_buffer_def)

lemma be_val_to_buffer: "be_val (to_buffer k) = unat k"
proof -
  have "unat k < 256 ^ 32" by (rule unat_lt_256_pow) simp
  then show ?thesis by (simp add: to_buffer_def be_val_be_bytes)
qed

lemma new_PublicKey_to_buffer [simp, wire_simps]: "new_PublicKey (to_buffer k) = Inr k"
proof -
  have "unat k < 256 ^ 32" by (rule unat_lt_256_pow) simp
  then show ?thesis by (simp add: new_PublicKey_def be_val_to_buffer del: power_numeral)
qed

lemma to_buffer_inject [simp]: "to_buffer j = to_buffer k \<longleftrightarrow> j = k"
  by (metis be_val_to_buffer unsigned_word_eqI)

lemma new_PublicKey_32:
  assumes "length bs = 32"
  shows "\<exists>k. new_PublicKey bs = Inr k \<and> to_buffer k = bs"
proof -
  have lt: "be_val bs < 256 ^ 32" using be_val_lt [of bs] assms by simp
  have "unat (word_of_nat (be_val bs) :: pubkey) = be_val bs"
    using lt by (simp add: unat_of_nat take_bit_eq_mod)
  then have "to_buffer (word_of_nat (be_val bs)) = bs"
    using assms by (simp add: to_buffer_def be_bytes_be_val)
  then show ?thesis using lt by (simp add: new_PublicKey_def del: power_numeral)
qed

end
