(* ===== verification/Js_Runtime.thy ===== *)
theory Js_Runtime
  imports Prelude
begin

text \<open>
  The parts of the JavaScript runtime the code uses: typed arrays and \<open>DataView\<close>, Node's \<open>Buffer\<close>
  readers, \<open>bigint\<close> division, the rounding of a 64-bit integer to a \<open>number\<close>, decimal text and the
  string methods of the amount parsers. Strings are lists of characters with codes below 256.
\<close>

section \<open>Typed arrays\<close>

text \<open>\<open>subarray\<close> and \<open>slice\<close> clamp both ends to the length.\<close>

definition subarray :: "'a list \<Rightarrow> nat \<Rightarrow> nat \<Rightarrow> 'a list" where
  "subarray xs a b = take (b - a) (drop a xs)"

text \<open>\<open>dst.set(src, off)\<close> throws a RangeError when \<open>src\<close> does not fit.\<close>

definition array_set :: "bytes \<Rightarrow> bytes \<Rightarrow> nat \<Rightarrow> bytes js" where
  "array_set dst src off =
     (if off + length src \<le> length dst
      then Inr (take off dst @ src @ drop (off + length src) dst)
      else Inl RangeError)"

text \<open>\<open>xs[i]\<close>: \<open>None\<close> is \<open>undefined\<close>.\<close>

definition get_byte :: "bytes \<Rightarrow> nat \<Rightarrow> int option" where
  "get_byte d i = (if i < length d then Some (uint (d ! i)) else None)"

definition read_u8 :: "bytes \<Rightarrow> nat \<Rightarrow> int js" where
  "read_u8 d i = (case get_byte d i of None \<Rightarrow> Inl UndefinedRead | Some b \<Rightarrow> Inr b)"

text \<open>An element of a \<open>Uint8Array\<close> keeps the low eight bits of the number stored.\<close>

definition to_uint8 :: "int \<Rightarrow> byte" where
  "to_uint8 x = word_of_int x"

lemma length_subarray [simp, wire_simps]:
  "length (subarray xs a b) = min (b - a) (length xs - a)"
  by (simp add: subarray_def)

lemma array_set_snoc:
  "length pre = off \<Longrightarrow> length src \<le> n \<Longrightarrow>
   array_set (pre @ replicate n 0) src off = Inr (pre @ src @ replicate (n - length src) 0)"
  by (simp add: array_set_def)

section \<open>Buffer readers\<close>

definition readUIntLE :: "nat \<Rightarrow> bytes \<Rightarrow> nat \<Rightarrow> int js" where
  "readUIntLE n d off =
     (if off + n \<le> length d then Inr (int (le_val (subarray d off (off + n)))) else Inl RangeError)"

definition readUInt16LE :: "bytes \<Rightarrow> nat \<Rightarrow> int js" where
  "readUInt16LE d off = readUIntLE 2 d off"

definition readBigUInt64LE :: "bytes \<Rightarrow> nat \<Rightarrow> int js" where
  "readBigUInt64LE d off = readUIntLE 8 d off"

definition readBigInt64LE :: "bytes \<Rightarrow> nat \<Rightarrow> int js" where
  "readBigInt64LE d off =
     (if off + 8 \<le> length d
      then Inr (sint (word_of_nat (le_val (subarray d off (off + 8))) :: 64 word))
      else Inl RangeError)"

text \<open>Readers on data that is long enough, and reads through the parts of a concatenation.\<close>

lemma new_PublicKey_long: "length bs = 32 \<Longrightarrow> new_PublicKey bs = Inr (word_of_nat (be_val bs))"
  using be_val_lt [of bs] by (simp add: new_PublicKey_def del: power_numeral)

lemma word_be_val_to_buffer [simp, wire_simps]: "word_of_nat (be_val (to_buffer k)) = k"
  by (simp add: be_val_to_buffer)

lemma readUInt16LE_long:
  "off + 2 \<le> length d \<Longrightarrow> readUInt16LE d off = Inr (int (le_val (subarray d off (off + 2))))"
  by (simp add: readUInt16LE_def readUIntLE_def)

lemma readBigUInt64LE_long:
  "off + 8 \<le> length d \<Longrightarrow> readBigUInt64LE d off = Inr (int (le_val (subarray d off (off + 8))))"
  by (simp add: readBigUInt64LE_def readUIntLE_def)

lemma readBigInt64LE_long:
  "off + 8 \<le> length d \<Longrightarrow>
   readBigInt64LE d off = Inr (sint (word_of_nat (le_val (subarray d off (off + 8))) :: 64 word))"
  by (simp add: readBigInt64LE_def)

lemma get_byte_long: "off < length d \<Longrightarrow> get_byte d off = Some (uint (d ! off))"
  by (simp add: get_byte_def)

lemma read_u8_long: "off < length d \<Longrightarrow> read_u8 d off = Inr (uint (d ! off))"
  by (simp add: read_u8_def get_byte_def)

lemmas reads_long = new_PublicKey_long readUInt16LE_long readBigUInt64LE_long readBigInt64LE_long
  get_byte_long read_u8_long

lemma subarray_skip:
  "length xs \<le> a \<Longrightarrow> subarray (xs @ ys) a b = subarray ys (a - length xs) (b - length xs)"
  by (simp add: subarray_def)

lemma subarray_Cons_skip: "0 < a \<Longrightarrow> subarray (x # ys) a b = subarray ys (a - 1) (b - 1)"
  by (cases a) (auto simp: subarray_def)

lemma subarray_here: "length xs = b \<Longrightarrow> subarray (xs @ ys) 0 b = xs"
  by (simp add: subarray_def)

lemma nth_skip: "length xs \<le> a \<Longrightarrow> (xs @ ys) ! a = ys ! (a - length xs)"
  by (simp add: nth_append)

lemmas reads_through = subarray_skip subarray_Cons_skip subarray_here nth_skip

lemma readBigUInt64LE_bounds:
  assumes "readBigUInt64LE d off = Inr x"
  shows "0 \<le> x \<and> x < 2 ^ 64"
proof -
  from assms have len: "off + 8 \<le> length d" and x: "x = int (le_val (subarray d off (off + 8)))"
    by (auto simp: readBigUInt64LE_def readUIntLE_def split: if_splits)
  have "le_val (subarray d off (off + 8)) < 256 ^ 8"
    using le_val_lt [of "subarray d off (off + 8)"] len by simp
  then show ?thesis using x by simp
qed

lemma readBigInt64LE_bounds:
  "readBigInt64LE d off = Inr x \<Longrightarrow> - (2 ^ 63) \<le> x \<and> x < 2 ^ 63"
  using sint_greater_eq [of "word_of_nat (le_val (subarray d off (off + 8))) :: 64 word"]
    sint_less [of "word_of_nat (le_val (subarray d off (off + 8))) :: 64 word"]
  by (auto simp: readBigInt64LE_def split: if_splits)

section \<open>Numbers\<close>

text \<open>\<open>bigint\<close> division and remainder truncate towards zero; the divisors of the program are positive
  constants.\<close>

definition bigint_div :: "int \<Rightarrow> int \<Rightarrow> int" where
  "bigint_div a b = sgn a * sgn b * (\<bar>a\<bar> div \<bar>b\<bar>)"

definition bigint_rem :: "int \<Rightarrow> int \<Rightarrow> int" where
  "bigint_rem a b = a - b * bigint_div a b"

lemma bigint_div_nonneg [simp]: "0 \<le> a \<Longrightarrow> 0 < b \<Longrightarrow> bigint_div a b = a div b"
  by (cases "a = 0") (simp_all add: bigint_div_def)

lemma bigint_rem_nonneg [simp]: "0 \<le> a \<Longrightarrow> 0 < b \<Longrightarrow> bigint_rem a b = a mod b"
  by (simp add: bigint_rem_def minus_mult_div_eq_mod)

text \<open>\<open>Number(x)\<close> of a \<open>bigint\<close>: the nearest value with a 53-bit significand, ties to even. The
  program converts 64-bit integers only, so the exponent range plays no part.\<close>

fun bit_len :: "nat \<Rightarrow> nat" where
  "bit_len n = (if n = 0 then 0 else Suc (bit_len (n div 2)))"

declare bit_len.simps [simp del]

definition round53 :: "nat \<Rightarrow> nat" where
  "round53 n =
     (if n \<le> 2 ^ 53 then n
      else let k = bit_len n - 53; q = n div 2 ^ k; r = n mod 2 ^ k
           in (if 2 * r > 2 ^ k \<or> (2 * r = 2 ^ k \<and> odd q) then Suc q else q) * 2 ^ k)"

definition js_number :: "int \<Rightarrow> int" where
  "js_number x = (if x < 0 then - int (round53 (nat (- x))) else int (round53 (nat x)))"

lemma bit_len_bounds: "0 < n \<Longrightarrow> 2 ^ (bit_len n - 1) \<le> n \<and> n < 2 ^ bit_len n"
proof (induction n rule: bit_len.induct)
  case (1 n)
  show ?case
  proof (cases "n div 2 = 0")
    case True
    then have "n = 1" using "1.prems" by (simp add: div_eq_0_iff)
    then show ?thesis by (simp add: bit_len.simps)
  next
    case False
    then have IH: "2 ^ (bit_len (n div 2) - 1) \<le> n div 2" "n div 2 < 2 ^ bit_len (n div 2)"
      using "1" by simp_all
    have pos: "0 < bit_len (n div 2)" using False by (simp add: bit_len.simps [of "n div 2"])
    have len: "bit_len n = Suc (bit_len (n div 2))"
      using "1.prems" by (simp add: bit_len.simps [of n])
    obtain m where m: "bit_len (n div 2) = Suc m" using pos by (cases "bit_len (n div 2)") auto
    show ?thesis using IH by (simp add: len m) linarith
  qed
qed

lemma round53_exact [simp]: "n \<le> 2 ^ 53 \<Longrightarrow> round53 n = n"
  by (simp add: round53_def)

lemma round53_ge: "2 ^ 53 \<le> n \<Longrightarrow> 2 ^ 53 \<le> round53 n"
proof (cases "n = 2 ^ 53")
  case True
  then show ?thesis by simp
next
  case False
  assume "2 ^ 53 \<le> n"
  with False have n: "2 ^ 53 < n" by simp
  define k where "k = bit_len n - 53"
  have lo: "2 ^ (bit_len n - 1) \<le> n" and hi: "n < 2 ^ bit_len n"
    using bit_len_bounds [of n] n by simp_all
  have "(2::nat) ^ 53 < 2 ^ bit_len n" using n hi by linarith
  then have len: "53 < bit_len n" by (rule power_less_imp_less_exp [rotated]) simp
  then have k: "bit_len n - 1 = 52 + k" "0 < k" by (simp_all add: k_def)
  have "2 ^ 52 * 2 ^ k \<le> n" using lo by (simp only: k(1) power_add)
  then have "2 ^ 52 \<le> n div 2 ^ k" by (simp add: less_eq_div_iff_mult_less_eq)
  then have "(2::nat) ^ 52 * 2 ^ k \<le> (n div 2 ^ k) * 2 ^ k" by (rule mult_le_mono1)
  moreover have "(2::nat) ^ 53 \<le> 2 ^ 52 * 2 ^ k"
  proof -
    have "(2::nat) ^ 53 \<le> 2 ^ (52 + k)" using k(2) by (intro power_increasing) simp_all
    then show ?thesis by (simp only: power_add)
  qed
  moreover have "(n div 2 ^ k) * 2 ^ k \<le> round53 n"
    using n by (simp add: round53_def k_def Let_def)
  ultimately show ?thesis by linarith
qed

text \<open>The conversion is exact up to \<open>2 ^ 53\<close>, and comparing with a constant below that gives the same
  answer before and after it.\<close>

lemma js_number_exact [simp]: "\<bar>x\<bar> \<le> 2 ^ 53 \<Longrightarrow> js_number x = x"
  by (auto simp: js_number_def nat_le_iff)

lemma js_number_gt_iff:
  assumes "0 \<le> c" and "c < 2 ^ 53"
  shows "c < js_number x \<longleftrightarrow> c < x"
proof (cases "\<bar>x\<bar> \<le> 2 ^ 53")
  case True
  then show ?thesis by simp
next
  case False
  show ?thesis
  proof (cases "x < 0")
    case True
    then show ?thesis using assms by (simp add: js_number_def)
  next
    case pos: False
    with False have "2 ^ 53 \<le> nat x" by simp
    then have "2 ^ 53 \<le> round53 (nat x)" by (rule round53_ge)
    then have "2 ^ 53 \<le> js_number x" using pos by (simp add: js_number_def)
    with pos False assms show ?thesis by simp
  qed
qed

lemma js_number_pos_iff: "0 < js_number x \<longleftrightarrow> 0 < x"
  by (rule js_number_gt_iff) simp_all

lemma js_number_minus: "js_number (- x) = - js_number x"
  by (auto simp: js_number_def)

lemma js_number_0 [simp]: "js_number 0 = 0"
  by simp

lemma js_number_neg_iff: "js_number x < 0 \<longleftrightarrow> x < 0"
  using js_number_pos_iff [of "- x"] by (simp add: js_number_minus)

end
