(* ===== verification/Text_Codec.thy ===== *)
theory Text_Codec
  imports Js_Runtime
begin

text \<open>
  \<open>TextEncoder\<close> and \<open>TextDecoder\<close> as the platform standard defines them: a text is the list of its
  code points, the encoder writes UTF-8 (a lone surrogate becomes U+FFFD), the decoder is the
  standard's state machine, with its replacement character for malformed input and its removal of
  a leading byte order mark.
\<close>

type_synonym jstext = "nat list"

definition ascii :: "string \<Rightarrow> jstext" where
  "ascii s = map of_char s"

section \<open>Encoding\<close>

definition utf8_code_point :: "nat \<Rightarrow> nat list" where
  "utf8_code_point c =
     (if c < 128 then [c]
      else if c < 2048 then [192 + c div 64, 128 + c mod 64]
      else if 55296 \<le> c \<and> c < 57344 then [239, 191, 189]
      else if c < 65536 then [224 + c div 4096, 128 + c div 64 mod 64, 128 + c mod 64]
      else [240 + c div 262144, 128 + c div 4096 mod 64, 128 + c div 64 mod 64, 128 + c mod 64])"

definition text_encode :: "jstext \<Rightarrow> bytes" where
  "text_encode s = map word_of_nat (concat (map utf8_code_point s))"

text \<open>The code points of well-formed text: no surrogates, nothing above U+10FFFF.\<close>

definition scalar_value :: "nat \<Rightarrow> bool" where
  "scalar_value c \<longleftrightarrow> c < 55296 \<or> 57344 \<le> c \<and> c < 1114112"

section \<open>Decoding\<close>

text \<open>The decoder's state: the code point so far, the bytes seen and needed, and the bounds of the
  next continuation byte. A byte out of bounds is read again from the start state.\<close>

function utf8_decode :: "nat \<Rightarrow> nat \<Rightarrow> nat \<Rightarrow> nat \<Rightarrow> nat \<Rightarrow> nat list \<Rightarrow> jstext" where
  "utf8_decode cp seen needed lower upper [] = (if needed = 0 then [] else [65533])"
| "utf8_decode cp seen needed lower upper (b # bs) =
     (if needed = 0 then
        (if b \<le> 127 then b # utf8_decode 0 0 0 128 191 bs
         else if 194 \<le> b \<and> b \<le> 223 then utf8_decode (b mod 32) 0 1 128 191 bs
         else if 224 \<le> b \<and> b \<le> 239 then
           utf8_decode (b mod 16) 0 2 (if b = 224 then 160 else 128) (if b = 237 then 159 else 191) bs
         else if 240 \<le> b \<and> b \<le> 244 then
           utf8_decode (b mod 8) 0 3 (if b = 240 then 144 else 128) (if b = 244 then 143 else 191) bs
         else 65533 # utf8_decode 0 0 0 128 191 bs)
      else if b < lower \<or> upper < b then 65533 # utf8_decode 0 0 0 128 191 (b # bs)
      else if Suc seen = needed then (cp * 64 + b mod 64) # utf8_decode 0 0 0 128 191 bs
      else utf8_decode (cp * 64 + b mod 64) (Suc seen) needed 128 191 bs)"
  by pat_completeness auto
termination
  by (relation "measure (\<lambda>(cp, seen, needed, lower, upper, bs).
        2 * length bs + (if needed = 0 then 0 else 1))") auto

definition strip_bom :: "nat list \<Rightarrow> nat list" where
  "strip_bom bs = (if take 3 bs = [239, 187, 191] then drop 3 bs else bs)"

definition text_decode :: "bytes \<Rightarrow> jstext" where
  "text_decode bs = utf8_decode 0 0 0 128 191 (strip_bom (map unat bs))"

section \<open>Round trip\<close>

lemma utf8_code_point_bytes: "scalar_value c \<Longrightarrow> b \<in> set (utf8_code_point c) \<Longrightarrow> b < 256"
  by (auto simp: utf8_code_point_def scalar_value_def split: if_splits)

lemma low_bits:
  fixes x :: nat
  shows "x < 64 \<Longrightarrow> (128 + x) mod 64 = x" and "x < 32 \<Longrightarrow> (192 + x) mod 32 = x"
    and "x < 16 \<Longrightarrow> (224 + x) mod 16 = x" and "x \<le> 4 \<Longrightarrow> (240 + x) mod 8 = x"
  using mod_mult_self2 [of x 64 2] mod_mult_self2 [of x 32 6] mod_mult_self2 [of x 16 14]
    mod_mult_self2 [of x 8 30]
  by (simp_all add: add.commute)

lemma utf8_decode_code_point:
  assumes "scalar_value c"
  shows "utf8_decode 0 0 0 128 191 (utf8_code_point c @ bs) = c # utf8_decode 0 0 0 128 191 bs"
proof -
  define q r where q_def: "q = c div 64" and r_def: "r = c mod 64"
  define a b where a_def: "a = q div 64" and b_def: "b = q mod 64"
  define d e where d_def: "d = a div 64" and e_def: "e = a mod 64"
  have qr: "c = 64 * q + r" "r < 64" by (simp_all add: q_def r_def)
  have ab: "q = 64 * a + b" "b < 64" by (simp_all add: a_def b_def)
  have de: "a = 64 * d + e" "e < 64" by (simp_all add: d_def e_def)
  have c4096: "c div 4096 = a" by (simp add: a_def q_def flip: div_mult2_eq)
  have c262144: "c div 262144 = d" by (simp add: d_def a_def q_def flip: div_mult2_eq)
  consider "c < 128" | "128 \<le> c" "c < 2048" | "2048 \<le> c" "c < 65536" "c < 55296 \<or> 57344 \<le> c"
    | "65536 \<le> c" "c < 1114112"
    using assms by (auto simp: scalar_value_def) linarith+
  then show ?thesis
  proof cases
    case 1
    then show ?thesis by (simp add: utf8_code_point_def)
  next
    case 2
    have u: "utf8_code_point c = [192 + q, 128 + r]"
      using 2 by (simp add: utf8_code_point_def q_def r_def)
    have "192 + q \<le> 223" "194 \<le> 192 + q" "q < 32" using 2 qr by linarith+
    moreover have "q * 64 + r = c" using qr(1) by simp
    ultimately show ?thesis
      using qr(2) by (simp add: u low_bits)
  next
    case 3
    have u: "utf8_code_point c = [224 + a, 128 + b, 128 + r]"
      using 3 by (auto simp: utf8_code_point_def c4096 r_def b_def q_def)
    have "a < 16" "a = 0 \<longrightarrow> 32 \<le> b" "a = 13 \<longrightarrow> b < 32" using 3 qr ab by linarith+
    moreover have "(a * 64 + b) * 64 + r = c" using qr(1) ab(1) by simp
    ultimately show ?thesis
      using qr(2) ab(2) by (auto simp: u low_bits)
  next
    case 4
    have u: "utf8_code_point c = [240 + d, 128 + e, 128 + b, 128 + r]"
      using 4 by (simp add: utf8_code_point_def c4096 c262144 r_def b_def q_def e_def)
    have "d \<le> 4" "d = 0 \<longrightarrow> 16 \<le> e" "d = 4 \<longrightarrow> e < 16" using 4 qr ab de by linarith+
    moreover have "((d * 64 + e) * 64 + b) * 64 + r = c" using qr(1) ab(1) de(1) by simp
    ultimately show ?thesis
      using qr(2) ab(2) de(2) by (auto simp: u low_bits)
  qed
qed

lemma utf8_decode_concat:
  "list_all scalar_value s \<Longrightarrow> utf8_decode 0 0 0 128 191 (concat (map utf8_code_point s)) = s"
  by (induction s) (simp_all add: utf8_decode_code_point)

lemma unat_text_encode:
  assumes "list_all scalar_value s"
  shows "map unat (text_encode s) = concat (map utf8_code_point s)"
proof -
  have "\<forall>b \<in> set (concat (map utf8_code_point s)). b < 256"
    using assms utf8_code_point_bytes by (fastforce simp: list_all_iff)
  then show ?thesis
    by (auto simp: text_encode_def unat_word_of_nat_byte intro!: map_idI)
qed

lemma strip_bom_no_bom: "xs \<noteq> [] \<longrightarrow> hd xs \<noteq> 239 \<Longrightarrow> strip_bom xs = xs"
  by (cases xs) (auto simp: strip_bom_def numeral_3_eq_3)

lemma text_decode_encode_ascii:
  assumes "list_all (\<lambda>c. c < 128) s"
  shows "text_decode (text_encode s) = s"
proof -
  have sv: "list_all scalar_value s"
    using assms by (auto simp: list_all_iff scalar_value_def)
  have id: "concat (map utf8_code_point s) = s"
    using assms by (induction s) (simp_all add: utf8_code_point_def)
  have "strip_bom s = s"
    using assms by (intro strip_bom_no_bom) (cases s, auto)
  then show ?thesis
    using utf8_decode_concat [OF sv] by (simp add: text_decode_def unat_text_encode [OF sv] id)
qed

lemma length_text_encode_ascii:
  "list_all (\<lambda>c. c < 128) s \<Longrightarrow> length (text_encode s) = length s"
  by (induction s) (simp_all add: text_encode_def utf8_code_point_def)

lemma text_encode_ascii: "list_all (\<lambda>c. c < 128) s \<Longrightarrow> text_encode s = map word_of_nat s"
  by (induction s) (simp_all add: text_encode_def utf8_code_point_def)

end
