(* ===== verification/Platform.thy ===== *)
theory Platform
  imports Text_Codec
begin

text \<open>
  What the code takes from outside the repository, as the fields of one record that every
  definition using it receives: the SHA-256 of the Web Crypto API, \<open>findProgramAddressSync\<close> and
  \<open>isOnCurve\<close> of @solana/web3.js, and the process environment. Also the two data containers of
  @solana/web3.js the builders fill, and the program ids written in base58.
\<close>

record platform =
  digest_sha256 :: "bytes \<Rightarrow> bytes"
  find_program_address :: "bytes list \<Rightarrow> pubkey \<Rightarrow> (pubkey \<times> nat) js"
  is_on_curve :: "bytes \<Rightarrow> bool"
  process_env :: "string \<Rightarrow> string option"

record account_meta =
  meta_pubkey :: pubkey
  is_signer :: bool
  is_writable :: bool

record transaction_instruction =
  ix_program_id :: pubkey
  ix_keys :: "account_meta list"
  ix_data :: bytes

definition meta :: "pubkey \<Rightarrow> bool \<Rightarrow> bool \<Rightarrow> account_meta" where
  "meta k s w = \<lparr>meta_pubkey = k, is_signer = s, is_writable = w\<rparr>"

lemma meta_sel [simp]:
  "meta_pubkey (meta k s w) = k" "is_signer (meta k s w) = s" "is_writable (meta k s w) = w"
  by (simp_all add: meta_def)

section \<open>Base58\<close>

definition base58_alphabet :: string where
  "base58_alphabet = ''123456789ABCDEFGHJKLMNPQRSTUVWXYZabcdefghijkmnopqrstuvwxyz''"

fun index_of :: "'a \<Rightarrow> 'a list \<Rightarrow> nat option" where
  "index_of x [] = None"
| "index_of x (y # ys) = (if x = y then Some 0 else map_option Suc (index_of x ys))"

definition base58_digit :: "char \<Rightarrow> nat option" where
  "base58_digit c = index_of c base58_alphabet"

text \<open>The number a base58 string denotes, most significant digit first.\<close>

definition base58_value :: "string \<Rightarrow> nat" where
  "base58_value s =
     foldl (\<lambda>v c. v * 58 + (case base58_digit c of None \<Rightarrow> 0 | Some d \<Rightarrow> d)) 0 s"

definition pubkey_of_base58 :: "string \<Rightarrow> pubkey" where
  "pubkey_of_base58 s = word_of_nat (base58_value s)"

text \<open>\<open>new PublicKey(process.env.NAME ?? fallback)\<close>; a module whose setting is not a key fails to load.\<close>

definition env_pubkey :: "platform \<Rightarrow> string \<Rightarrow> string \<Rightarrow> pubkey" where
  "env_pubkey P name fallback =
     pubkey_of_base58 (case process_env P name of None \<Rightarrow> fallback | Some s \<Rightarrow> s)"

definition SystemProgram_programId :: pubkey where
  "SystemProgram_programId = pubkey_of_base58 ''11111111111111111111111111111111''"

lemma index_of_Some: "index_of x ys = Some i \<Longrightarrow> i < length ys \<and> ys ! i = x"
  by (induction ys arbitrary: i) (auto split: if_splits)

lemma base58_digit_lt: "base58_digit c = Some d \<Longrightarrow> d < 58"
  using index_of_Some [of c base58_alphabet d] by (simp add: base58_digit_def base58_alphabet_def)

section \<open>A concrete platform\<close>

text \<open>
  Used by the witnesses only: the hash is a byte sum repeated, an address the big-endian value of
  the seeds (cut to 32 bytes), refused as web3.js documents when a seed is longer than 32 bytes.
\<close>

definition demo_platform :: platform where
  "demo_platform =
     \<lparr>digest_sha256 = (\<lambda>bs. replicate 32 (sum_list bs)),
      find_program_address =
        (\<lambda>seeds prog. if list_all (\<lambda>s. length s \<le> 32) seeds
                      then Inr (word_of_nat (be_val (concat seeds)), 255) else Inl TypeError),
      is_on_curve = (\<lambda>_. True),
      process_env = (\<lambda>_. None)\<rparr>"

end
