(* ===== verification/Wire.thy ===== *)
theory Wire
  imports Platform
begin

text \<open>
  The helpers that assemble instruction data (\<open>web/lib/program-actions.ts\<close>, repeated in the SDK's
  \<open>instructions.ts\<close> and \<open>btc-instructions.ts\<close>): Anchor discriminators, concatenation, little-endian
  numbers, length-prefixed vectors and eight-byte labels.
\<close>

text \<open>\<open>sighash\<close>: the first eight bytes of SHA-256 of \<open>global:<name>\<close>.\<close>

definition sighash :: "platform \<Rightarrow> string \<Rightarrow> bytes" where
  "sighash P name = take 8 (digest_sha256 P (text_encode (ascii (''global:'' @ name))))"

text \<open>\<open>concat\<close>: the total length by \<open>reduce\<close>, then one \<open>out.set\<close> per array at a running offset.\<close>

fun concat_set :: "bytes \<Rightarrow> nat \<Rightarrow> bytes list \<Rightarrow> bytes js" where
  "concat_set out offset [] = Inr out"
| "concat_set out offset (a # arrays) =
     js_bind (array_set out a offset) (\<lambda>out'. concat_set out' (offset + length a) arrays)"

definition concat_arrays :: "bytes list \<Rightarrow> bytes js" where
  "concat_arrays arrays =
     (let total = foldl (\<lambda>acc a. acc + length a) 0 arrays
      in concat_set (replicate total 0) 0 arrays)"

text \<open>\<open>setBigUint64\<close> and \<open>setUint16\<close> on a fresh buffer keep the low 64 and 16 bits.\<close>

definition u64ToLe :: "int \<Rightarrow> bytes" where
  "u64ToLe v = le_bytes 8 (nat (v mod 2 ^ 64))"

definition u32ToLe :: "int \<Rightarrow> bytes" where
  "u32ToLe v = le_bytes 4 (nat (v mod 2 ^ 32))"

definition u16ToLe :: "int \<Rightarrow> bytes" where
  "u16ToLe v = le_bytes 2 (nat (v mod 2 ^ 16))"

definition vecU8 :: "bytes \<Rightarrow> bytes" where
  "vecU8 bs = u32ToLe (int (length bs)) @ bs"

definition labelToBytes8 :: "jstext \<Rightarrow> bytes" where
  "labelToBytes8 s =
     (let enc = take 8 (text_encode s) in enc @ replicate (8 - length enc) 0)"

section \<open>The loop is list concatenation\<close>

lemma foldl_total: "foldl (\<lambda>acc a. acc + length a) n arrays = n + length (concat arrays)"
  by (induction arrays arbitrary: n) simp_all

lemma concat_set_prefix:
  "concat_set (pre @ replicate (length (concat arrays)) 0) (length pre) arrays
   = Inr (pre @ concat arrays)"
proof (induction arrays arbitrary: pre)
  case Nil
  then show ?case by simp
next
  case (Cons a arrays)
  from Cons [of "pre @ a"] show ?case by (simp add: array_set_snoc)
qed

lemma concat_arrays_eq [simp, wire_simps]: "concat_arrays arrays = Inr (concat arrays)"
  using concat_set_prefix [of "[]" arrays] by (simp add: concat_arrays_def foldl_total)

section \<open>Lengths and inverses\<close>

lemma length_u64ToLe [simp, wire_simps]: "length (u64ToLe v) = 8"
  by (simp add: u64ToLe_def)

lemma length_u32ToLe [simp, wire_simps]: "length (u32ToLe v) = 4"
  by (simp add: u32ToLe_def)

lemma length_u16ToLe [simp, wire_simps]: "length (u16ToLe v) = 2"
  by (simp add: u16ToLe_def)

lemma length_vecU8 [simp, wire_simps]: "length (vecU8 bs) = 4 + length bs"
  by (simp add: vecU8_def)

lemma length_labelToBytes8 [simp, wire_simps]: "length (labelToBytes8 s) = 8"
  by (simp add: labelToBytes8_def Let_def)

lemma le_val_u64ToLe [wire_simps]: "int (le_val (u64ToLe v)) = v mod 2 ^ 64"
  by (simp add: u64ToLe_def le_val_le_bytes nat_mod_distrib zmod_int)

lemma le_val_u32ToLe [wire_simps]: "int (le_val (u32ToLe v)) = v mod 2 ^ 32"
  by (simp add: u32ToLe_def le_val_le_bytes nat_mod_distrib zmod_int)

lemma le_val_u16ToLe [wire_simps]: "int (le_val (u16ToLe v)) = v mod 2 ^ 16"
  by (simp add: u16ToLe_def le_val_le_bytes nat_mod_distrib zmod_int)

lemma u64ToLe_eq_iff: "u64ToLe v = u64ToLe w \<longleftrightarrow> v mod 2 ^ 64 = w mod 2 ^ 64"
  by (metis le_val_u64ToLe u64ToLe_def)

lemma u64ToLe_word: "u64ToLe v = word_le 8 (word_of_int v :: 64 word)"
  by (simp add: u64ToLe_def word_le_def unat_eq_nat_uint uint_word_of_int)

lemma u16ToLe_word: "u16ToLe v = word_le 2 (word_of_int v :: 16 word)"
  by (simp add: u16ToLe_def word_le_def unat_eq_nat_uint uint_word_of_int)

lemma u32ToLe_word: "u32ToLe v = word_le 4 (word_of_int v :: 32 word)"
  by (simp add: u32ToLe_def word_le_def unat_eq_nat_uint uint_word_of_int)

end
