(* ===== verification/Chain_Layout.thy ===== *)
theory Chain_Layout
  imports Platform
begin

text \<open>
  The accounts of the on-chain program (\<open>contracts/src/state\<close>) as records of machine words, and the
  bytes Anchor stores for them after the eight-byte discriminator: the fields in order, integers in
  little endian, a \<open>bool\<close> as one byte, arrays as they are. The locale \<open>account_layout\<close> is the contract
  between such a layout and a decoder of the frontend or the SDK.
\<close>

section \<open>Account structs\<close>

record LendingPool =
  pool_borrow_asset :: pubkey
  pool_borrow_asset_mint :: pubkey
  pool_token_vault :: pubkey
  pool_total_liquidity :: "64 word"
  pool_total_borrowed :: "64 word"
  pool_admin :: pubkey
  pool_ltv_basis_points :: "16 word"
  pool_liquidation_threshold_bps :: "16 word"
  pool_liquidation_bonus_bps :: "16 word"
  pool_mint_decimals :: byte
  pool_borrow_index :: "128 word"
  pool_last_update_slot :: "64 word"
  pool_base_rate_bps :: "16 word"
  pool_rate_slope_bps :: "16 word"
  pool_bump :: byte

record AdminPriceFeed =
  feed_asset_type :: byte
  feed_price_usd :: "64 word"
  feed_updated_at :: "64 word"
  feed_admin :: pubkey
  feed_bump :: byte

record BorrowPosition =
  pos_vault :: pubkey
  pos_owner :: pubkey
  pos_borrow_asset :: pubkey
  pos_principal :: "64 word"
  pos_borrowed_at :: "64 word"
  pos_last_updated_at :: "64 word"
  pos_borrow_index_snapshot :: "128 word"
  pos_health_ciphertext :: pubkey
  pos_bump :: byte

record BtcVaultState =
  btc_vault_id :: pubkey
  btc_owner :: pubkey
  btc_ika_dwallet :: pubkey
  btc_dwallet_pubkey :: bytes
  btc_bitcoin_address :: bytes
  btc_bitcoin_address_len :: byte
  btc_deposited_satoshis :: "64 word"
  btc_last_attestation_slot :: "64 word"
  btc_proof_status :: byte
  btc_proof_timestamp :: "64 word"
  btc_frozen :: bool
  btc_liquidation_initiated_at :: "64 word"
  btc_liquidation_sighash :: bytes
  btc_bump :: byte

record BitcoinBalanceAttestation =
  att_btc_vault :: pubkey
  att_bitcoin_address :: bytes
  att_bitcoin_address_len :: byte
  att_satoshis :: "64 word"
  att_bitcoin_block_height :: "64 word"
  att_bitcoin_block_hash :: bytes
  att_attested_at_slot :: "64 word"
  att_attested_at_unix :: "64 word"
  att_keeper :: pubkey
  att_bump :: byte

record VaultState =
  vault_vault_id :: pubkey
  vault_owner :: pubkey
  vault_dwallet_id :: bytes
  vault_asset_type :: byte
  vault_deposited_amount :: "64 word"
  vault_proof_status :: byte
  vault_proof_timestamp :: "64 word"
  vault_frozen :: bool
  vault_bump :: byte

record RiskStateAccount =
  risk_vault_id :: pubkey
  risk_backing_ciphertext :: pubkey
  risk_threshold_ciphertext :: pubkey
  risk_last_check_result :: bool
  risk_last_check_timestamp :: "64 word"
  risk_bump :: byte

record ProtocolStateAccount =
  proto_admin :: pubkey
  proto_frozen :: bool
  proto_total_vaults :: "64 word"
  proto_total_verified :: "64 word"
  proto_total_rejected :: "64 word"
  proto_total_collateral_verified :: "128 word"
  proto_bump :: byte

section \<open>Stored bytes\<close>

definition bool_byte :: "bool \<Rightarrow> byte" where
  "bool_byte b = (if b then 1 else 0)"

definition body_LendingPool :: "LendingPool \<Rightarrow> bytes" where
  "body_LendingPool p =
     to_buffer (pool_borrow_asset p) @ to_buffer (pool_borrow_asset_mint p)
     @ to_buffer (pool_token_vault p) @ word_le 8 (pool_total_liquidity p)
     @ word_le 8 (pool_total_borrowed p) @ to_buffer (pool_admin p)
     @ word_le 2 (pool_ltv_basis_points p) @ word_le 2 (pool_liquidation_threshold_bps p)
     @ word_le 2 (pool_liquidation_bonus_bps p) @ [pool_mint_decimals p]
     @ word_le 16 (pool_borrow_index p) @ word_le 8 (pool_last_update_slot p)
     @ word_le 2 (pool_base_rate_bps p) @ word_le 2 (pool_rate_slope_bps p) @ [pool_bump p]"

definition body_AdminPriceFeed :: "AdminPriceFeed \<Rightarrow> bytes" where
  "body_AdminPriceFeed f =
     [feed_asset_type f] @ word_le 8 (feed_price_usd f) @ word_le 8 (feed_updated_at f)
     @ to_buffer (feed_admin f) @ [feed_bump f]"

definition body_BorrowPosition :: "BorrowPosition \<Rightarrow> bytes" where
  "body_BorrowPosition p =
     to_buffer (pos_vault p) @ to_buffer (pos_owner p) @ to_buffer (pos_borrow_asset p)
     @ word_le 8 (pos_principal p) @ word_le 8 (pos_borrowed_at p)
     @ word_le 8 (pos_last_updated_at p) @ word_le 16 (pos_borrow_index_snapshot p)
     @ to_buffer (pos_health_ciphertext p) @ [pos_bump p]"

definition body_BtcVault :: "BtcVaultState \<Rightarrow> bytes" where
  "body_BtcVault v =
     to_buffer (btc_vault_id v) @ to_buffer (btc_owner v) @ to_buffer (btc_ika_dwallet v)
     @ btc_dwallet_pubkey v @ btc_bitcoin_address v @ [btc_bitcoin_address_len v]
     @ word_le 8 (btc_deposited_satoshis v) @ word_le 8 (btc_last_attestation_slot v)
     @ [btc_proof_status v] @ word_le 8 (btc_proof_timestamp v) @ [bool_byte (btc_frozen v)]
     @ word_le 8 (btc_liquidation_initiated_at v) @ btc_liquidation_sighash v @ [btc_bump v]"

definition body_BtcAttestation :: "BitcoinBalanceAttestation \<Rightarrow> bytes" where
  "body_BtcAttestation a =
     to_buffer (att_btc_vault a) @ att_bitcoin_address a @ [att_bitcoin_address_len a]
     @ word_le 8 (att_satoshis a) @ word_le 8 (att_bitcoin_block_height a)
     @ att_bitcoin_block_hash a @ word_le 8 (att_attested_at_slot a)
     @ word_le 8 (att_attested_at_unix a) @ to_buffer (att_keeper a) @ [att_bump a]"

definition body_Vault :: "VaultState \<Rightarrow> bytes" where
  "body_Vault v =
     to_buffer (vault_vault_id v) @ to_buffer (vault_owner v) @ vault_dwallet_id v
     @ [vault_asset_type v] @ word_le 8 (vault_deposited_amount v) @ [vault_proof_status v]
     @ word_le 8 (vault_proof_timestamp v) @ [bool_byte (vault_frozen v)] @ [vault_bump v]"

definition body_ProtocolState :: "ProtocolStateAccount \<Rightarrow> bytes" where
  "body_ProtocolState p =
     to_buffer (proto_admin p) @ [bool_byte (proto_frozen p)] @ word_le 8 (proto_total_vaults p)
     @ word_le 8 (proto_total_verified p) @ word_le 8 (proto_total_rejected p)
     @ word_le 16 (proto_total_collateral_verified p) @ [proto_bump p]"

definition body_RiskState :: "RiskStateAccount \<Rightarrow> bytes" where
  "body_RiskState r =
     to_buffer (risk_vault_id r) @ to_buffer (risk_backing_ciphertext r)
     @ to_buffer (risk_threshold_ciphertext r) @ [bool_byte (risk_last_check_result r)]
     @ word_le 8 (risk_last_check_timestamp r) @ [risk_bump r]"

text \<open>The arrays of the Rust types have the lengths their types give them.\<close>

definition wf_BtcVault :: "BtcVaultState \<Rightarrow> bool" where
  "wf_BtcVault v \<longleftrightarrow> length (btc_dwallet_pubkey v) = 33 \<and> length (btc_bitcoin_address v) = 64
     \<and> length (btc_liquidation_sighash v) = 32"

definition wf_BtcAttestation :: "BitcoinBalanceAttestation \<Rightarrow> bool" where
  "wf_BtcAttestation a \<longleftrightarrow> length (att_bitcoin_address a) = 64 \<and> length (att_bitcoin_block_hash a) = 32"

definition wf_Vault :: "VaultState \<Rightarrow> bool" where
  "wf_Vault v \<longleftrightarrow> length (vault_dwallet_id v) = 32"

section \<open>The \<open>LEN\<close> constants\<close>

definition LendingPool_LEN :: nat where
  "LendingPool_LEN = 8 + 32 + 32 + 32 + 8 + 8 + 32 + 2 + 2 + 2 + 1 + 16 + 8 + 2 + 2 + 1"

definition AdminPriceFeed_LEN :: nat where
  "AdminPriceFeed_LEN = 8 + 1 + 8 + 8 + 32 + 1"

definition BorrowPosition_LEN :: nat where
  "BorrowPosition_LEN = 8 + 32 + 32 + 32 + 8 + 8 + 8 + 16 + 32 + 1"

definition BtcVaultAccount_LEN :: nat where
  "BtcVaultAccount_LEN = 8 + 32 + 32 + 32 + 33 + 64 + 1 + 8 + 8 + 1 + 8 + 1 + 8 + 32 + 1"

definition BitcoinBalanceAttestation_LEN :: nat where
  "BitcoinBalanceAttestation_LEN = 8 + 32 + 64 + 1 + 8 + 8 + 32 + 8 + 8 + 32 + 1"

definition VaultAccount_LEN :: nat where
  "VaultAccount_LEN = 8 + 32 + 32 + 32 + 1 + 8 + 1 + 8 + 1 + 1"

definition ProtocolStateAccount_LEN :: nat where
  "ProtocolStateAccount_LEN = 8 + 32 + 1 + 8 + 8 + 8 + 16 + 1"

definition RiskStateAccount_LEN :: nat where
  "RiskStateAccount_LEN = 8 + 32 + 32 + 32 + 1 + 8 + 1"

section \<open>Layout and decoder\<close>

text \<open>A decoder of an account type: \<open>null\<close> for short data, a value for any data that is long enough,
  and for the stored bytes of an account the view of it, whatever follows them.\<close>

locale account_layout =
  fixes len :: nat
    and body :: "'a \<Rightarrow> bytes"
    and wf :: "'a \<Rightarrow> bool"
    and dec :: "bytes \<Rightarrow> 'v option js"
    and view :: "'a \<Rightarrow> 'v"
  assumes body_length: "wf x \<Longrightarrow> 8 + length (body x) = len"
    and dec_short: "length d < len \<Longrightarrow> dec d = Inr None"
    and dec_long: "len \<le> length d \<Longrightarrow> \<exists>v. dec d = Inr (Some v)"
    and dec_body: "wf x \<Longrightarrow> length disc = 8 \<Longrightarrow> dec (disc @ body x @ rest) = Inr (Some (view x))"
begin

lemma dec_total: "\<exists>r. dec d = Inr r"
  using dec_short [of d] dec_long [of d] by (cases "length d < len") auto

lemma dec_None_iff: "dec d = Inr None \<longleftrightarrow> length d < len"
  using dec_short [of d] dec_long [of d] by (cases "length d < len") auto

lemma dec_Some_iff: "(\<exists>v. dec d = Inr (Some v)) \<longleftrightarrow> len \<le> length d"
  using dec_short [of d] dec_long [of d] by (cases "length d < len") auto

text \<open>An account whose Rust \<open>LEN\<close> is the decoder's is read whole: no proper prefix decodes.\<close>

lemma dec_prefix: "wf x \<Longrightarrow> length disc = 8 \<Longrightarrow> n < len \<Longrightarrow> dec (take n (disc @ body x)) = Inr None"
  using body_length [of x] by (intro dec_short) simp

lemma spec:
  assumes "wf x" "length disc = 8"
  shows "dec (disc @ body x @ rest) = Inr (Some (view x)) \<and> (dec d = Inr None \<longleftrightarrow> length d < len)
    \<and> (\<exists>r. dec d = Inr r)"
  using assms dec_body dec_None_iff dec_total by blast

end

end
