(* ===== verification/Accounts.thy ===== *)
theory Accounts
  imports Pda Chain_Layout
begin

text \<open>
  The account decoders and readers of \<open>web/lib/lending-client.ts\<close>. Each decoder walks the data with a
  cursor \<open>off\<close>, as the code does; the connection's answers are parameters of the readers. The
  interpretations of \<open>account_layout\<close> show that every decoder is total, answers \<open>null\<close> exactly on
  short data, and reads back what the on-chain program stored.
\<close>

section \<open>Decoded accounts\<close>

record LendingPoolAccount =
  lp_borrowAsset :: pubkey
  lp_borrowAssetMint :: pubkey
  lp_poolTokenVault :: pubkey
  lp_totalLiquidity :: int
  lp_totalBorrowed :: int
  lp_admin :: pubkey
  lp_ltvBasisPoints :: int
  lp_liquidationThresholdBps :: int
  lp_liquidationBonusBps :: int
  lp_mintDecimals :: int
  lp_borrowIndex :: int
  lp_lastUpdateSlot :: int
  lp_baseRateBps :: int
  lp_rateSlopeBps :: int
  lp_bump :: int

record AdminPriceFeedAccount =
  pf_assetType :: int
  pf_priceUsd :: int
  pf_updatedAt :: int
  pf_admin :: pubkey
  pf_bump :: int

record BorrowPositionAccount =
  bp_vault :: pubkey
  bp_owner :: pubkey
  bp_borrowAsset :: pubkey
  bp_principal :: int
  bp_borrowedAt :: int
  bp_lastUpdatedAt :: int
  bp_borrowIndexSnapshot :: int
  bp_healthCiphertext :: pubkey
  bp_bump :: int

record BorrowPositionListing =
  bl_positionPda :: pubkey
  bl_position :: BorrowPositionAccount

record BtcVaultAccount =
  bv_vaultId :: pubkey
  bv_owner :: pubkey
  bv_ikaDwallet :: pubkey
  bv_dwalletPubkey :: bytes
  bv_bitcoinAddress :: jstext
  bv_depositedSatoshis :: int
  bv_lastAttestationSlot :: int
  bv_proofStatus :: int
  bv_proofTimestamp :: int
  bv_frozen :: bool
  bv_liquidationInitiatedAt :: int
  bv_liquidationSighash :: bytes
  bv_bump :: int

record BitcoinBalanceAttestationAccount =
  ba_btcVault :: pubkey
  ba_bitcoinAddress :: jstext
  ba_satoshis :: int
  ba_bitcoinBlockHeight :: int
  ba_bitcoinBlockHash :: bytes
  ba_attestedAtSlot :: int
  ba_attestedAtUnix :: int
  ba_keeper :: pubkey
  ba_bump :: int

definition LENDING_POOL_LEN :: nat where
  "LENDING_POOL_LEN = 8 + 32 + 32 + 32 + 8 + 8 + 32 + 2 + 2 + 2 + 1 + 16 + 8 + 2 + 2 + 1"

definition ADMIN_PRICE_FEED_LEN :: nat where
  "ADMIN_PRICE_FEED_LEN = 8 + 1 + 8 + 8 + 32 + 1"

definition BORROW_POSITION_LEN :: nat where
  "BORROW_POSITION_LEN = 8 + 32 + 32 + 32 + 8 + 8 + 8 + 16 + 32 + 1"

definition BTC_VAULT_LEN :: nat where
  "BTC_VAULT_LEN = 8 + 32 + 32 + 32 + 33 + 64 + 1 + 8 + 8 + 1 + 8 + 1 + 8 + 32 + 1"

definition BTC_ATTESTATION_LEN :: nat where
  "BTC_ATTESTATION_LEN = 8 + 32 + 64 + 1 + 8 + 8 + 32 + 8 + 8 + 32 + 1"

section \<open>Decoders\<close>

definition readBigUInt128LE :: "bytes \<Rightarrow> nat \<Rightarrow> int js" where
  "readBigUInt128LE buf off =
     js_bind (readBigUInt64LE buf off) (\<lambda>lo.
     js_bind (readBigUInt64LE buf (off + 8)) (\<lambda>hi.
     Inr (or (push_bit 64 hi) lo)))"

definition decodeLendingPool :: "bytes \<Rightarrow> LendingPoolAccount option js" where
  "decodeLendingPool data =
     (if length data < LENDING_POOL_LEN then Inr None else
      let off = 8 in
      js_bind (new_PublicKey (subarray data off (off + 32))) (\<lambda>borrowAsset. let off = off + 32 in
      js_bind (new_PublicKey (subarray data off (off + 32))) (\<lambda>borrowAssetMint. let off = off + 32 in
      js_bind (new_PublicKey (subarray data off (off + 32))) (\<lambda>poolTokenVault. let off = off + 32 in
      js_bind (readBigUInt64LE data off) (\<lambda>totalLiquidity. let off = off + 8 in
      js_bind (readBigUInt64LE data off) (\<lambda>totalBorrowed. let off = off + 8 in
      js_bind (new_PublicKey (subarray data off (off + 32))) (\<lambda>admin. let off = off + 32 in
      js_bind (readUInt16LE data off) (\<lambda>ltvBasisPoints. let off = off + 2 in
      js_bind (readUInt16LE data off) (\<lambda>liquidationThresholdBps. let off = off + 2 in
      js_bind (readUInt16LE data off) (\<lambda>liquidationBonusBps. let off = off + 2 in
      js_bind (read_u8 data off) (\<lambda>mintDecimals. let off = off + 1 in
      js_bind (readBigUInt128LE data off) (\<lambda>borrowIndex. let off = off + 16 in
      js_bind (readBigUInt64LE data off) (\<lambda>lastUpdateSlot. let off = off + 8 in
      js_bind (readUInt16LE data off) (\<lambda>baseRateBps. let off = off + 2 in
      js_bind (readUInt16LE data off) (\<lambda>rateSlopeBps. let off = off + 2 in
      js_bind (read_u8 data off) (\<lambda>bump.
      Inr (Some \<lparr>lp_borrowAsset = borrowAsset, lp_borrowAssetMint = borrowAssetMint,
        lp_poolTokenVault = poolTokenVault, lp_totalLiquidity = totalLiquidity,
        lp_totalBorrowed = totalBorrowed, lp_admin = admin, lp_ltvBasisPoints = ltvBasisPoints,
        lp_liquidationThresholdBps = liquidationThresholdBps,
        lp_liquidationBonusBps = liquidationBonusBps, lp_mintDecimals = mintDecimals,
        lp_borrowIndex = borrowIndex, lp_lastUpdateSlot = lastUpdateSlot,
        lp_baseRateBps = baseRateBps, lp_rateSlopeBps = rateSlopeBps, lp_bump = bump\<rparr>)))))))))))))))))"

definition decodeAdminPriceFeed :: "bytes \<Rightarrow> AdminPriceFeedAccount option js" where
  "decodeAdminPriceFeed data =
     (if length data < ADMIN_PRICE_FEED_LEN then Inr None else
      let off = 8 in
      js_bind (read_u8 data off) (\<lambda>assetType. let off = off + 1 in
      js_bind (readBigUInt64LE data off) (\<lambda>priceUsd. let off = off + 8 in
      js_bind (readBigInt64LE data off) (\<lambda>updatedAt. let off = off + 8 in
      js_bind (new_PublicKey (subarray data off (off + 32))) (\<lambda>admin. let off = off + 32 in
      js_bind (read_u8 data off) (\<lambda>bump.
      Inr (Some \<lparr>pf_assetType = assetType, pf_priceUsd = priceUsd,
        pf_updatedAt = js_number updatedAt, pf_admin = admin, pf_bump = bump\<rparr>)))))))"

definition decodeBorrowPosition :: "bytes \<Rightarrow> BorrowPositionAccount option js" where
  "decodeBorrowPosition data =
     (if length data < BORROW_POSITION_LEN then Inr None else
      let off = 8 in
      js_bind (new_PublicKey (subarray data off (off + 32))) (\<lambda>vault. let off = off + 32 in
      js_bind (new_PublicKey (subarray data off (off + 32))) (\<lambda>owner. let off = off + 32 in
      js_bind (new_PublicKey (subarray data off (off + 32))) (\<lambda>borrowAsset. let off = off + 32 in
      js_bind (readBigUInt64LE data off) (\<lambda>principal. let off = off + 8 in
      js_bind (readBigInt64LE data off) (\<lambda>borrowedAt. let off = off + 8 in
      js_bind (readBigInt64LE data off) (\<lambda>lastUpdatedAt. let off = off + 8 in
      js_bind (readBigUInt128LE data off) (\<lambda>borrowIndexSnapshot. let off = off + 16 in
      js_bind (new_PublicKey (subarray data off (off + 32))) (\<lambda>healthCiphertext. let off = off + 32 in
      js_bind (read_u8 data off) (\<lambda>bump.
      Inr (Some \<lparr>bp_vault = vault, bp_owner = owner, bp_borrowAsset = borrowAsset,
        bp_principal = principal, bp_borrowedAt = js_number borrowedAt,
        bp_lastUpdatedAt = js_number lastUpdatedAt, bp_borrowIndexSnapshot = borrowIndexSnapshot,
        bp_healthCiphertext = healthCiphertext, bp_bump = bump\<rparr>)))))))))))"

definition decodeBtcVault :: "bytes \<Rightarrow> BtcVaultAccount option js" where
  "decodeBtcVault data =
     (if length data < BTC_VAULT_LEN then Inr None else
      let off = 8 in
      js_bind (new_PublicKey (subarray data off (off + 32))) (\<lambda>vaultId. let off = off + 32 in
      js_bind (new_PublicKey (subarray data off (off + 32))) (\<lambda>owner. let off = off + 32 in
      js_bind (new_PublicKey (subarray data off (off + 32))) (\<lambda>ikaDwallet. let off = off + 32 in
      let dwalletPubkey = subarray data off (off + 33); off = off + 33;
          addressBytes = subarray data off (off + 64); off = off + 64 in
      js_bind (read_u8 data off) (\<lambda>bitcoinAddressLen. let off = off + 1;
          bitcoinAddress = text_decode (subarray addressBytes 0 (nat bitcoinAddressLen)) in
      js_bind (readBigUInt64LE data off) (\<lambda>depositedSatoshis. let off = off + 8 in
      js_bind (readBigUInt64LE data off) (\<lambda>lastAttestationSlot. let off = off + 8 in
      js_bind (read_u8 data off) (\<lambda>proofStatus. let off = off + 1 in
      js_bind (readBigInt64LE data off) (\<lambda>proofTimestamp. let off = off + 8;
          frozen = (get_byte data off = Some 1); off = off + 1 in
      js_bind (readBigInt64LE data off) (\<lambda>liquidationInitiatedAt. let off = off + 8;
          liquidationSighash = subarray data off (off + 32); off = off + 32 in
      js_bind (read_u8 data off) (\<lambda>bump.
      Inr (Some \<lparr>bv_vaultId = vaultId, bv_owner = owner, bv_ikaDwallet = ikaDwallet,
        bv_dwalletPubkey = dwalletPubkey, bv_bitcoinAddress = bitcoinAddress,
        bv_depositedSatoshis = depositedSatoshis, bv_lastAttestationSlot = lastAttestationSlot,
        bv_proofStatus = proofStatus, bv_proofTimestamp = js_number proofTimestamp,
        bv_frozen = frozen, bv_liquidationInitiatedAt = js_number liquidationInitiatedAt,
        bv_liquidationSighash = liquidationSighash, bv_bump = bump\<rparr>))))))))))))"

definition decodeBitcoinBalanceAttestation ::
    "bytes \<Rightarrow> BitcoinBalanceAttestationAccount option js" where
  "decodeBitcoinBalanceAttestation data =
     (if length data < BTC_ATTESTATION_LEN then Inr None else
      let off = 8 in
      js_bind (new_PublicKey (subarray data off (off + 32))) (\<lambda>btcVault. let off = off + 32;
          addressBytes = subarray data off (off + 64); off = off + 64 in
      js_bind (read_u8 data off) (\<lambda>bitcoinAddressLen. let off = off + 1;
          bitcoinAddress = text_decode (subarray addressBytes 0 (nat bitcoinAddressLen)) in
      js_bind (readBigUInt64LE data off) (\<lambda>satoshis. let off = off + 8 in
      js_bind (readBigUInt64LE data off) (\<lambda>bitcoinBlockHeight. let off = off + 8;
          bitcoinBlockHash = subarray data off (off + 32); off = off + 32 in
      js_bind (readBigUInt64LE data off) (\<lambda>attestedAtSlot. let off = off + 8 in
      js_bind (readBigInt64LE data off) (\<lambda>attestedAtUnix. let off = off + 8 in
      js_bind (new_PublicKey (subarray data off (off + 32))) (\<lambda>keeper. let off = off + 32 in
      js_bind (read_u8 data off) (\<lambda>bump.
      Inr (Some \<lparr>ba_btcVault = btcVault, ba_bitcoinAddress = bitcoinAddress,
        ba_satoshis = satoshis, ba_bitcoinBlockHeight = bitcoinBlockHeight,
        ba_bitcoinBlockHash = bitcoinBlockHash, ba_attestedAtSlot = attestedAtSlot,
        ba_attestedAtUnix = js_number attestedAtUnix, ba_keeper = keeper,
        ba_bump = bump\<rparr>))))))))))"

section \<open>What a decoder makes of a stored account\<close>

definition view_LendingPool :: "LendingPool \<Rightarrow> LendingPoolAccount" where
  "view_LendingPool p =
     \<lparr>lp_borrowAsset = pool_borrow_asset p, lp_borrowAssetMint = pool_borrow_asset_mint p,
      lp_poolTokenVault = pool_token_vault p, lp_totalLiquidity = uint (pool_total_liquidity p),
      lp_totalBorrowed = uint (pool_total_borrowed p), lp_admin = pool_admin p,
      lp_ltvBasisPoints = uint (pool_ltv_basis_points p),
      lp_liquidationThresholdBps = uint (pool_liquidation_threshold_bps p),
      lp_liquidationBonusBps = uint (pool_liquidation_bonus_bps p),
      lp_mintDecimals = uint (pool_mint_decimals p), lp_borrowIndex = uint (pool_borrow_index p),
      lp_lastUpdateSlot = uint (pool_last_update_slot p),
      lp_baseRateBps = uint (pool_base_rate_bps p), lp_rateSlopeBps = uint (pool_rate_slope_bps p),
      lp_bump = uint (pool_bump p)\<rparr>"

definition view_AdminPriceFeed :: "AdminPriceFeed \<Rightarrow> AdminPriceFeedAccount" where
  "view_AdminPriceFeed f =
     \<lparr>pf_assetType = uint (feed_asset_type f), pf_priceUsd = uint (feed_price_usd f),
      pf_updatedAt = js_number (sint (feed_updated_at f)), pf_admin = feed_admin f,
      pf_bump = uint (feed_bump f)\<rparr>"

definition view_BorrowPosition :: "BorrowPosition \<Rightarrow> BorrowPositionAccount" where
  "view_BorrowPosition p =
     \<lparr>bp_vault = pos_vault p, bp_owner = pos_owner p, bp_borrowAsset = pos_borrow_asset p,
      bp_principal = uint (pos_principal p),
      bp_borrowedAt = js_number (sint (pos_borrowed_at p)),
      bp_lastUpdatedAt = js_number (sint (pos_last_updated_at p)),
      bp_borrowIndexSnapshot = uint (pos_borrow_index_snapshot p),
      bp_healthCiphertext = pos_health_ciphertext p, bp_bump = uint (pos_bump p)\<rparr>"

definition view_BtcVault :: "BtcVaultState \<Rightarrow> BtcVaultAccount" where
  "view_BtcVault v =
     \<lparr>bv_vaultId = btc_vault_id v, bv_owner = btc_owner v, bv_ikaDwallet = btc_ika_dwallet v,
      bv_dwalletPubkey = btc_dwallet_pubkey v,
      bv_bitcoinAddress =
        text_decode (take (unat (btc_bitcoin_address_len v)) (btc_bitcoin_address v)),
      bv_depositedSatoshis = uint (btc_deposited_satoshis v),
      bv_lastAttestationSlot = uint (btc_last_attestation_slot v),
      bv_proofStatus = uint (btc_proof_status v),
      bv_proofTimestamp = js_number (sint (btc_proof_timestamp v)), bv_frozen = btc_frozen v,
      bv_liquidationInitiatedAt = js_number (sint (btc_liquidation_initiated_at v)),
      bv_liquidationSighash = btc_liquidation_sighash v, bv_bump = uint (btc_bump v)\<rparr>"

definition view_BtcAttestation :: "BitcoinBalanceAttestation \<Rightarrow> BitcoinBalanceAttestationAccount" where
  "view_BtcAttestation a =
     \<lparr>ba_btcVault = att_btc_vault a,
      ba_bitcoinAddress =
        text_decode (take (unat (att_bitcoin_address_len a)) (att_bitcoin_address a)),
      ba_satoshis = uint (att_satoshis a),
      ba_bitcoinBlockHeight = uint (att_bitcoin_block_height a),
      ba_bitcoinBlockHash = att_bitcoin_block_hash a,
      ba_attestedAtSlot = uint (att_attested_at_slot a),
      ba_attestedAtUnix = js_number (sint (att_attested_at_unix a)), ba_keeper = att_keeper a,
      ba_bump = uint (att_bump a)\<rparr>"

text \<open>The 128-bit reader glues two halves.\<close>

lemma le_val_split_16:
  "off + 16 \<le> length d \<Longrightarrow> le_val (subarray d off (off + 16)) =
     le_val (subarray d off (off + 8)) + 2 ^ 64 * le_val (subarray d (off + 8) (off + 16))"
proof -
  assume len: "off + 16 \<le> length d"
  have "take 16 (drop off d) = take 8 (drop off d) @ take 8 (drop (off + 8) d)"
    using take_add [of 8 8 "drop off d"] by (simp add: add.commute)
  then show ?thesis using len by (simp add: subarray_def le_val_append)
qed

lemma readBigUInt128LE_long:
  assumes "off + 16 \<le> length d"
  shows "readBigUInt128LE d off = Inr (int (le_val (subarray d off (off + 16))))"
proof -
  define lo where "lo = le_val (subarray d off (off + 8))"
  define hi where "hi = le_val (subarray d (off + 8) (off + 16))"
  have "lo < 2 ^ 64" using le_val_lt [of "subarray d off (off + 8)"] assms by (simp add: lo_def)
  then have lo: "int lo = take_bit 64 (int lo)" by (simp add: take_bit_int_eq_self)
  have "and (push_bit 64 (int hi)) (take_bit 64 (int lo)) = 0"
    by (rule bit_eqI) (auto simp: bit_simps)
  then have "or (push_bit 64 (int hi)) (int lo) = int lo + 2 ^ 64 * int hi"
    by (subst lo) (simp add: disjunctive_add_eq_or [symmetric] push_bit_eq_mult lo [symmetric])
  then show ?thesis
    using assms
    by (simp add: readBigUInt128LE_def readBigUInt64LE_long lo_def hi_def le_val_split_16
        add.commute [of 16 off])
qed

lemmas decode_long = reads_long readBigUInt128LE_long

lemma bool_byte_1 [simp]: "uint (bool_byte b) = 1 \<longleftrightarrow> b"
  by (simp add: bool_byte_def)

lemma subarray_0: "subarray xs 0 n = take n xs"
  by (simp add: subarray_def)



section \<open>Every decoder meets the layout contract\<close>

lemma body_lengths:
  "8 + length (body_LendingPool p) = LENDING_POOL_LEN"
  "8 + length (body_AdminPriceFeed f) = ADMIN_PRICE_FEED_LEN"
  "8 + length (body_BorrowPosition b) = BORROW_POSITION_LEN"
  "wf_BtcVault v \<Longrightarrow> 8 + length (body_BtcVault v) = BTC_VAULT_LEN"
  "wf_BtcAttestation a \<Longrightarrow> 8 + length (body_BtcAttestation a) = BTC_ATTESTATION_LEN"
  by (simp_all add: body_LendingPool_def LENDING_POOL_LEN_def
      body_AdminPriceFeed_def ADMIN_PRICE_FEED_LEN_def body_BorrowPosition_def BORROW_POSITION_LEN_def
      body_BtcVault_def wf_BtcVault_def BTC_VAULT_LEN_def
      body_BtcAttestation_def wf_BtcAttestation_def BTC_ATTESTATION_LEN_def)

lemma decodeLendingPool_long:
  "LENDING_POOL_LEN \<le> length d \<Longrightarrow> \<exists>v. decodeLendingPool d = Inr (Some v)"
  by (simp add: decodeLendingPool_def LENDING_POOL_LEN_def Let_def decode_long)

lemma decodeLendingPool_body:
  "length disc = 8 \<Longrightarrow>
   decodeLendingPool (disc @ body_LendingPool p @ rest) = Inr (Some (view_LendingPool p))"
  by (simp add: decodeLendingPool_def body_LendingPool_def LENDING_POOL_LEN_def Let_def
      decode_long reads_through view_LendingPool_def)

lemma decodeAdminPriceFeed_long: "ADMIN_PRICE_FEED_LEN \<le> length d \<Longrightarrow> \<exists>v. decodeAdminPriceFeed d = Inr (Some v)"
  by (simp add: decodeAdminPriceFeed_def ADMIN_PRICE_FEED_LEN_def Let_def decode_long)

lemma decodeAdminPriceFeed_body:
  "length disc = 8 \<Longrightarrow>
   decodeAdminPriceFeed (disc @ body_AdminPriceFeed x @ rest) = Inr (Some (view_AdminPriceFeed x))"
  by (simp add: decodeAdminPriceFeed_def body_AdminPriceFeed_def ADMIN_PRICE_FEED_LEN_def Let_def
      decode_long reads_through view_AdminPriceFeed_def subarray_0 flip: unat_eq_nat_uint)

lemma decodeBorrowPosition_long: "BORROW_POSITION_LEN \<le> length d \<Longrightarrow> \<exists>v. decodeBorrowPosition d = Inr (Some v)"
  by (simp add: decodeBorrowPosition_def BORROW_POSITION_LEN_def Let_def decode_long)

lemma decodeBorrowPosition_body:
  "length disc = 8 \<Longrightarrow>
   decodeBorrowPosition (disc @ body_BorrowPosition x @ rest) = Inr (Some (view_BorrowPosition x))"
  by (simp add: decodeBorrowPosition_def body_BorrowPosition_def BORROW_POSITION_LEN_def Let_def
      decode_long reads_through view_BorrowPosition_def subarray_0 flip: unat_eq_nat_uint)

lemma decodeBtcVault_long: "BTC_VAULT_LEN \<le> length d \<Longrightarrow> \<exists>v. decodeBtcVault d = Inr (Some v)"
  by (simp add: decodeBtcVault_def BTC_VAULT_LEN_def Let_def decode_long)

lemma decodeBtcVault_body:
  "wf_BtcVault x \<Longrightarrow> length disc = 8 \<Longrightarrow>
   decodeBtcVault (disc @ body_BtcVault x @ rest) = Inr (Some (view_BtcVault x))"
  by (simp add: decodeBtcVault_def body_BtcVault_def BTC_VAULT_LEN_def Let_def
      decode_long reads_through view_BtcVault_def wf_BtcVault_def subarray_0 flip: unat_eq_nat_uint)

lemma decodeBitcoinBalanceAttestation_long: "BTC_ATTESTATION_LEN \<le> length d \<Longrightarrow> \<exists>v. decodeBitcoinBalanceAttestation d = Inr (Some v)"
  by (simp add: decodeBitcoinBalanceAttestation_def BTC_ATTESTATION_LEN_def Let_def decode_long)

lemma decodeBitcoinBalanceAttestation_body:
  "wf_BtcAttestation x \<Longrightarrow> length disc = 8 \<Longrightarrow>
   decodeBitcoinBalanceAttestation (disc @ body_BtcAttestation x @ rest) = Inr (Some (view_BtcAttestation x))"
  by (simp add: decodeBitcoinBalanceAttestation_def body_BtcAttestation_def BTC_ATTESTATION_LEN_def Let_def
      decode_long reads_through view_BtcAttestation_def wf_BtcAttestation_def subarray_0 flip: unat_eq_nat_uint)

lemma decode_short:
  "length d < LENDING_POOL_LEN \<Longrightarrow> decodeLendingPool d = Inr None"
  "length d < ADMIN_PRICE_FEED_LEN \<Longrightarrow> decodeAdminPriceFeed d = Inr None"
  "length d < BORROW_POSITION_LEN \<Longrightarrow> decodeBorrowPosition d = Inr None"
  "length d < BTC_VAULT_LEN \<Longrightarrow> decodeBtcVault d = Inr None"
  "length d < BTC_ATTESTATION_LEN \<Longrightarrow> decodeBitcoinBalanceAttestation d = Inr None"
  by (simp_all add: decodeLendingPool_def decodeAdminPriceFeed_def decodeBorrowPosition_def
      decodeBtcVault_def decodeBitcoinBalanceAttestation_def)

interpretation pool_layout: account_layout LENDING_POOL_LEN body_LendingPool "\<lambda>_. True" decodeLendingPool view_LendingPool
  by unfold_locales (blast intro: body_lengths decode_short decodeLendingPool_long decodeLendingPool_body)+

interpretation feed_layout: account_layout ADMIN_PRICE_FEED_LEN body_AdminPriceFeed "\<lambda>_. True" decodeAdminPriceFeed view_AdminPriceFeed
  by unfold_locales (blast intro: body_lengths decode_short decodeAdminPriceFeed_long decodeAdminPriceFeed_body)+

interpretation position_layout: account_layout BORROW_POSITION_LEN body_BorrowPosition "\<lambda>_. True" decodeBorrowPosition view_BorrowPosition
  by unfold_locales (blast intro: body_lengths decode_short decodeBorrowPosition_long decodeBorrowPosition_body)+

interpretation btc_vault_layout: account_layout BTC_VAULT_LEN body_BtcVault wf_BtcVault decodeBtcVault view_BtcVault
  by unfold_locales (blast intro: body_lengths decode_short decodeBtcVault_long decodeBtcVault_body)+

interpretation btc_attestation_layout: account_layout BTC_ATTESTATION_LEN body_BtcAttestation wf_BtcAttestation decodeBitcoinBalanceAttestation view_BtcAttestation
  by unfold_locales (blast intro: body_lengths decode_short decodeBitcoinBalanceAttestation_long decodeBitcoinBalanceAttestation_body)+

end
