(* ===== verification/Readers.thy ===== *)
theory Readers
  imports Accounts "HOL-Library.Multiset"
begin

text \<open>
  The readers of \<open>web/lib/lending-client.ts\<close>: they derive addresses, ask the connection for the
  accounts and decode the answers. The connection is a record of the two answers the code asks for.
  What is proved rests on one documented behaviour of the RPC, that the accounts it returns match
  the filters of the request.
\<close>

section \<open>The connection\<close>

text \<open>\<open>memcmp\<close> carries its bytes in base58; the model keeps the bytes.\<close>

datatype account_filter = DataSize nat | Memcmp nat bytes

record connection =
  getAccountInfo :: "pubkey \<Rightarrow> bytes option js"
  getProgramAccounts :: "pubkey \<Rightarrow> account_filter list \<Rightarrow> (pubkey \<times> bytes) list js"

fun filter_matches :: "bytes \<Rightarrow> account_filter \<Rightarrow> bool" where
  "filter_matches d (DataSize n) \<longleftrightarrow> length d = n"
| "filter_matches d (Memcmp off bs) \<longleftrightarrow>
     off + length bs \<le> length d \<and> subarray d off (off + length bs) = bs"

definition honours_filters :: "connection \<Rightarrow> bool" where
  "honours_filters conn \<longleftrightarrow>
     (\<forall>prog filters accs. getProgramAccounts conn prog filters = Inr accs
        \<longrightarrow> list_all (\<lambda>(_, d). list_all (filter_matches d) filters) accs)"

text \<open>\<open>info ? decode(info.data) : null\<close>\<close>

definition decode_info :: "(bytes \<Rightarrow> 'v option js) \<Rightarrow> bytes option \<Rightarrow> 'v option js" where
  "decode_info dec info = (case info of None \<Rightarrow> Inr None | Some data \<Rightarrow> dec data)"

section \<open>Readers\<close>

definition ASSET_BTC :: int where "ASSET_BTC = 0"

definition defaultBorrowAssetMint :: "platform \<Rightarrow> pubkey" where
  "defaultBorrowAssetMint P = LGUSD_MINT P"

record default_pool_read =
  dp_poolPda :: pubkey
  dp_priceFeedPda :: pubkey
  dp_pool :: "LendingPoolAccount option"
  dp_priceFeed :: "AdminPriceFeedAccount option"

definition readDefaultLendingPool :: "platform \<Rightarrow> connection \<Rightarrow> default_pool_read js" where
  "readDefaultLendingPool P conn =
     (let mint = defaultBorrowAssetMint P in
      js_bind (deriveLendingPoolPda P mint) (\<lambda>(poolPda, _).
      js_bind (deriveAdminPriceFeedPda P ASSET_BTC) (\<lambda>(priceFeedPda, _).
      js_bind (getAccountInfo conn poolPda) (\<lambda>poolInfo.
      js_bind (getAccountInfo conn priceFeedPda) (\<lambda>priceInfo.
      js_bind (decode_info decodeLendingPool poolInfo) (\<lambda>pool.
      js_bind (decode_info decodeAdminPriceFeed priceInfo) (\<lambda>priceFeed.
      Inr \<lparr>dp_poolPda = poolPda, dp_priceFeedPda = priceFeedPda, dp_pool = pool,
        dp_priceFeed = priceFeed\<rparr>)))))))"

definition readBorrowPosition ::
    "platform \<Rightarrow> connection \<Rightarrow> pubkey \<Rightarrow> (pubkey \<times> BorrowPositionAccount option) js" where
  "readBorrowPosition P conn vaultPda =
     js_bind (deriveBorrowPositionPda P vaultPda) (\<lambda>(positionPda, _).
     js_bind (getAccountInfo conn positionPda) (\<lambda>info.
     js_bind (decode_info decodeBorrowPosition info) (\<lambda>position.
     Inr (positionPda, position))))"

record btc_vault_read =
  br_btcVaultPda :: pubkey
  br_btcVault :: "BtcVaultAccount option"
  br_btcAttestationPda :: pubkey
  br_btcAttestation :: "BitcoinBalanceAttestationAccount option"
  br_borrowPositionPda :: pubkey
  br_borrowPosition :: "BorrowPositionAccount option"

definition readBtcVault :: "platform \<Rightarrow> connection \<Rightarrow> pubkey \<Rightarrow> btc_vault_read js" where
  "readBtcVault P conn btcVaultPda =
     js_bind (deriveBtcAttestationPda P btcVaultPda) (\<lambda>(btcAttestationPda, _).
     js_bind (deriveBtcBorrowPositionPda P btcVaultPda) (\<lambda>(borrowPositionPda, _).
     js_bind (getAccountInfo conn btcVaultPda) (\<lambda>vaultInfo.
     js_bind (getAccountInfo conn btcAttestationPda) (\<lambda>attestInfo.
     js_bind (getAccountInfo conn borrowPositionPda) (\<lambda>positionInfo.
     js_bind (decode_info decodeBtcVault vaultInfo) (\<lambda>btcVault.
     js_bind (decode_info decodeBitcoinBalanceAttestation attestInfo) (\<lambda>btcAttestation.
     js_bind (decode_info decodeBorrowPosition positionInfo) (\<lambda>borrowPosition.
     Inr \<lparr>br_btcVaultPda = btcVaultPda, br_btcVault = btcVault,
       br_btcAttestationPda = btcAttestationPda, br_btcAttestation = btcAttestation,
       br_borrowPositionPda = borrowPositionPda, br_borrowPosition = borrowPosition\<rparr>))))))))"

text \<open>The loop of both listings: an account that does not decode is skipped.\<close>

fun push_positions :: "(pubkey \<times> bytes) list \<Rightarrow> BorrowPositionListing list \<Rightarrow> BorrowPositionListing list js" where
  "push_positions [] out = Inr out"
| "push_positions ((pk, data) # accounts) out =
     js_bind (decodeBorrowPosition data) (\<lambda>position.
       case position of
         None \<Rightarrow> push_positions accounts out
       | Some p \<Rightarrow> push_positions accounts (out @ [\<lparr>bl_positionPda = pk, bl_position = p\<rparr>]))"

text \<open>\<open>sort\<close> is stable; its comparator \<open>b.borrowedAt - a.borrowedAt\<close> orders by descending time.\<close>

definition listBorrowPositionsForOwner ::
    "platform \<Rightarrow> connection \<Rightarrow> pubkey \<Rightarrow> BorrowPositionListing list js" where
  "listBorrowPositionsForOwner P conn owner =
     js_bind (getProgramAccounts conn (PROGRAM_ID P)
        [DataSize BORROW_POSITION_LEN, Memcmp (8 + 32) (to_buffer owner)]) (\<lambda>accounts.
     js_bind (push_positions accounts []) (\<lambda>out.
     Inr (sort_key (\<lambda>a. - bp_borrowedAt (bl_position a)) out)))"

definition listAllBorrowPositions :: "platform \<Rightarrow> connection \<Rightarrow> BorrowPositionListing list js" where
  "listAllBorrowPositions P conn =
     js_bind (getProgramAccounts conn (PROGRAM_ID P) [DataSize BORROW_POSITION_LEN]) (\<lambda>accounts.
     push_positions accounts [])"

section \<open>What the readers return\<close>

text \<open>Decoding never throws, so a reader throws only where a derivation or the connection does.\<close>

lemma decode_info_total:
  "\<exists>r. decode_info decodeLendingPool i = Inr r"
  "\<exists>r. decode_info decodeAdminPriceFeed i = Inr r"
  "\<exists>r. decode_info decodeBorrowPosition i = Inr r"
  "\<exists>r. decode_info decodeBtcVault i = Inr r"
  "\<exists>r. decode_info decodeBitcoinBalanceAttestation i = Inr r"
  using pool_layout.dec_total feed_layout.dec_total position_layout.dec_total
    btc_vault_layout.dec_total btc_attestation_layout.dec_total
  by (cases i; simp add: decode_info_def)+

definition position_of :: "pubkey \<times> bytes \<Rightarrow> BorrowPositionListing option" where
  "position_of a = (case decodeBorrowPosition (snd a) of
     Inr (Some p) \<Rightarrow> Some \<lparr>bl_positionPda = fst a, bl_position = p\<rparr> | _ \<Rightarrow> None)"

lemma push_positions_eq:
  "push_positions accounts out = Inr (out @ List.map_filter position_of accounts)"
proof (induction accounts arbitrary: out)
  case Nil
  then show ?case by (simp add: List.map_filter_def)
next
  case (Cons a accounts)
  obtain pk d where a: "a = (pk, d)" by (cases a)
  obtain r where "decodeBorrowPosition d = Inr r" using position_layout.dec_total by blast
  then show ?case
    by (cases r) (simp_all add: a Cons position_of_def map_filter_simps)
qed

lemma decodeBorrowPosition_owner:
  "decodeBorrowPosition d = Inr (Some p) \<Longrightarrow> bp_owner p = word_of_nat (be_val (subarray d 40 72))"
  by (cases "length d < BORROW_POSITION_LEN")
    (auto simp: decodeBorrowPosition_def BORROW_POSITION_LEN_def Let_def decode_long)

text \<open>Every account of the requested size is listed, in the order of the answer.\<close>

lemma map_filter_position_of:
  assumes "list_all (\<lambda>(_, d). length d = BORROW_POSITION_LEN) accs"
  shows "map bl_positionPda (List.map_filter position_of accs) = map fst accs"
  using assms
proof (induction accs)
  case Nil
  then show ?case by (simp add: List.map_filter_def)
next
  case (Cons a accs)
  then have "length (snd a) = BORROW_POSITION_LEN" by auto
  then obtain p where "decodeBorrowPosition (snd a) = Inr (Some p)"
    using position_layout.dec_long by force
  then have "position_of a = Some \<lparr>bl_positionPda = fst a, bl_position = p\<rparr>"
    by (simp add: position_of_def)
  then show ?case using Cons by (simp add: map_filter_simps)
qed

lemma map_filter_position_owner:
  assumes "list_all (\<lambda>(_, d). subarray d 40 72 = to_buffer owner) accs"
  shows "list_all (\<lambda>l. bp_owner (bl_position l) = owner) (List.map_filter position_of accs)"
  using assms
  by (auto simp: list_all_iff List.map_filter_def position_of_def
      dest!: decodeBorrowPosition_owner split: sum.splits option.splits)

lemma listAllBorrowPositions_order:
  assumes "honours_filters conn"
    and acc: "getProgramAccounts conn (PROGRAM_ID P) [DataSize BORROW_POSITION_LEN] = Inr accs"
  shows "\<exists>out. listAllBorrowPositions P conn = Inr out \<and> map bl_positionPda out = map fst accs"
proof -
  have "list_all (\<lambda>(_, d). length d = BORROW_POSITION_LEN) accs"
    using assms by (fastforce simp: honours_filters_def list_all_iff)
  then show ?thesis
    using acc by (simp add: listAllBorrowPositions_def push_positions_eq map_filter_position_of)
qed

section \<open>Properties\<close>

text \<open>The positions listed for an owner are complete, are the owner's, and come newest first: when
  the RPC answers with accounts matching the request's filters, the listing succeeds, its addresses
  are the answer's, every listed position names the owner and the borrow times never increase along
  the list.\<close>

theorem listBorrowPositionsForOwner_complete:
  assumes "honours_filters conn"
    and "getProgramAccounts conn (PROGRAM_ID P)
           [DataSize BORROW_POSITION_LEN, Memcmp (8 + 32) (to_buffer owner)] = Inr accs"
  shows "\<exists>out. listBorrowPositionsForOwner P conn owner = Inr out
     \<and> mset (map bl_positionPda out) = mset (map fst accs)
     \<and> list_all (\<lambda>l. bp_owner (bl_position l) = owner) out
     \<and> sorted_wrt (\<lambda>a b. bp_borrowedAt (bl_position b) \<le> bp_borrowedAt (bl_position a)) out"
proof -
  define ps where "ps = List.map_filter position_of accs"
  define out where "out = sort_key (\<lambda>a. - bp_borrowedAt (bl_position a)) ps"
  have size: "list_all (\<lambda>(_, d). length d = BORROW_POSITION_LEN) accs"
    and mem: "list_all (\<lambda>(_, d). subarray d 40 72 = to_buffer owner) accs"
    using assms by (fastforce simp: honours_filters_def list_all_iff)+
  have pda: "map bl_positionPda ps = map fst accs"
    unfolding ps_def by (rule map_filter_position_of [OF size])
  have own: "list_all (\<lambda>l. bp_owner (bl_position l) = owner) ps"
    unfolding ps_def by (rule map_filter_position_owner [OF mem])
  have "listBorrowPositionsForOwner P conn owner = Inr out"
    using assms by (simp add: listBorrowPositionsForOwner_def push_positions_eq out_def ps_def)
  moreover have "mset (map bl_positionPda out) = mset (map fst accs)"
    by (simp add: out_def pda [symmetric])
  moreover have "list_all (\<lambda>l. bp_owner (bl_position l) = owner) out"
    using own by (simp add: out_def list_all_iff)
  moreover have "sorted_wrt (\<lambda>a b. bp_borrowedAt (bl_position b) \<le> bp_borrowedAt (bl_position a)) out"
    using sorted_sort_key [of "\<lambda>a. - bp_borrowedAt (bl_position a)" ps]
    by (simp add: out_def sorted_map)
  ultimately show ?thesis by blast
qed

definition one_position_connection :: connection where
  "one_position_connection =
     \<lparr>getAccountInfo = (\<lambda>_. Inr None),
      getProgramAccounts = (\<lambda>_ fs. if list_all (filter_matches (replicate 177 0)) fs
                                   then Inr [(7, replicate 177 0)] else Inr [])\<rparr>"

lemma listBorrowPositionsForOwner_complete_witness:
  "\<exists>out. listBorrowPositionsForOwner demo_platform one_position_connection 0 = Inr out
     \<and> mset (map bl_positionPda out) = {#7#}"
proof -
  have h: "honours_filters one_position_connection"
    by (auto simp: honours_filters_def one_position_connection_def split: if_splits)
  have z: "to_buffer 0 = replicate 32 0"
    by (simp add: to_buffer_def be_bytes_def le_bytes_numeral replicate_numeral)
  have a: "getProgramAccounts one_position_connection (PROGRAM_ID demo_platform)
     [DataSize BORROW_POSITION_LEN, Memcmp (8 + 32) (to_buffer 0)] = Inr [(7, replicate 177 0)]"
    by (simp add: one_position_connection_def BORROW_POSITION_LEN_def subarray_def z)
  show ?thesis using listBorrowPositionsForOwner_complete [OF h a] by auto
qed

end
