(* ===== verification/Sdk_Accounts.thy ===== *)
theory Sdk_Accounts
  imports Readers
begin

text \<open>
  \<open>packages/sdk/src/lending/accounts.ts\<close>: the SDK's own copies of the pool, price feed and position
  decoders and its readers, which take the program id as a parameter. The copies are translated
  separately and proved to be the frontend's functions, so that the layout contract carries over.
\<close>

section \<open>Decoders\<close>

definition sdk_LENDING_POOL_LEN :: nat where
  "sdk_LENDING_POOL_LEN = 8 + 32 + 32 + 32 + 8 + 8 + 32 + 2 + 2 + 2 + 1 + 16 + 8 + 2 + 2 + 1"

definition sdk_ADMIN_PRICE_FEED_LEN :: nat where
  "sdk_ADMIN_PRICE_FEED_LEN = 8 + 1 + 8 + 8 + 32 + 1"

definition sdk_BORROW_POSITION_LEN :: nat where
  "sdk_BORROW_POSITION_LEN = 8 + 32 + 32 + 32 + 8 + 8 + 8 + 16 + 32 + 1"

definition sdk_readBigUInt128LE :: "bytes \<Rightarrow> nat \<Rightarrow> int js" where
  "sdk_readBigUInt128LE buf off =
     js_bind (readBigUInt64LE buf off) (\<lambda>lo.
     js_bind (readBigUInt64LE buf (off + 8)) (\<lambda>hi.
     Inr (or (push_bit 64 hi) lo)))"

definition sdk_decodeLendingPool :: "bytes \<Rightarrow> LendingPoolAccount option js" where
  "sdk_decodeLendingPool data =
     (if length data < sdk_LENDING_POOL_LEN then Inr None else
      let off = 8 in
      js_bind (new_PublicKey (subarray data off (off + 32))) (\<lambda>borrowAsset. let off = off + 32 in
      js_bind (new_PublicKey (subarray data off (off + 32))) (\<lambda>borrowAssetMint. let off = off + 32 in
      js_bind (new_PublicKey (subarray data off (off + 32))) (\<lambda>poolTokenVault. let off = off + 32 in
      js_bind (readBigUInt64LE data off) (\<lambda>totalLiquidity. let off = off + 8 in
      js_bind (readBigUInt64LE data off) (\<lambda>totalBorrowed. let off = off + 8 in
      js_bind (new_PublicKey (subarray data off (off + 32))) (\<lambda>admin. let off = off + 32 in
      js_bind (readUInt16LE data off) (\<lambda>ltvBasisPoints. let off = off + 2 in
      js_bind (readUInt16LE data off) (\<lambda>liquidationThresholdBps. let off = off + 2 in
      js_bind (readUInt16LE data off) (\<lambda>liquidationBonusBps. let off = off + 2 in
      js_bind (read_u8 data off) (\<lambda>mintDecimals. let off = off + 1 in
      js_bind (sdk_readBigUInt128LE data off) (\<lambda>borrowIndex. let off = off + 16 in
      js_bind (readBigUInt64LE data off) (\<lambda>lastUpdateSlot. let off = off + 8 in
      js_bind (readUInt16LE data off) (\<lambda>baseRateBps. let off = off + 2 in
      js_bind (readUInt16LE data off) (\<lambda>rateSlopeBps. let off = off + 2 in
      js_bind (read_u8 data off) (\<lambda>bump.
      Inr (Some \<lparr>lp_borrowAsset = borrowAsset, lp_borrowAssetMint = borrowAssetMint,
        lp_poolTokenVault = poolTokenVault, lp_totalLiquidity = totalLiquidity,
        lp_totalBorrowed = totalBorrowed, lp_admin = admin, lp_ltvBasisPoints = ltvBasisPoints,
        lp_liquidationThresholdBps = liquidationThresholdBps,
        lp_liquidationBonusBps = liquidationBonusBps, lp_mintDecimals = mintDecimals,
        lp_borrowIndex = borrowIndex, lp_lastUpdateSlot = lastUpdateSlot,
        lp_baseRateBps = baseRateBps, lp_rateSlopeBps = rateSlopeBps, lp_bump = bump\<rparr>)))))))))))))))))"

definition sdk_decodeAdminPriceFeed :: "bytes \<Rightarrow> AdminPriceFeedAccount option js" where
  "sdk_decodeAdminPriceFeed data =
     (if length data < sdk_ADMIN_PRICE_FEED_LEN then Inr None else
      let off = 8 in
      js_bind (read_u8 data off) (\<lambda>assetType. let off = off + 1 in
      js_bind (readBigUInt64LE data off) (\<lambda>priceUsd. let off = off + 8 in
      js_bind (readBigInt64LE data off) (\<lambda>updatedAt. let off = off + 8 in
      js_bind (new_PublicKey (subarray data off (off + 32))) (\<lambda>admin. let off = off + 32 in
      js_bind (read_u8 data off) (\<lambda>bump.
      Inr (Some \<lparr>pf_assetType = assetType, pf_priceUsd = priceUsd,
        pf_updatedAt = js_number updatedAt, pf_admin = admin, pf_bump = bump\<rparr>)))))))"

definition sdk_decodeBorrowPosition :: "bytes \<Rightarrow> BorrowPositionAccount option js" where
  "sdk_decodeBorrowPosition data =
     (if length data < sdk_BORROW_POSITION_LEN then Inr None else
      let off = 8 in
      js_bind (new_PublicKey (subarray data off (off + 32))) (\<lambda>vault. let off = off + 32 in
      js_bind (new_PublicKey (subarray data off (off + 32))) (\<lambda>owner. let off = off + 32 in
      js_bind (new_PublicKey (subarray data off (off + 32))) (\<lambda>borrowAsset. let off = off + 32 in
      js_bind (readBigUInt64LE data off) (\<lambda>principal. let off = off + 8 in
      js_bind (readBigInt64LE data off) (\<lambda>borrowedAt. let off = off + 8 in
      js_bind (readBigInt64LE data off) (\<lambda>lastUpdatedAt. let off = off + 8 in
      js_bind (sdk_readBigUInt128LE data off) (\<lambda>borrowIndexSnapshot. let off = off + 16 in
      js_bind (new_PublicKey (subarray data off (off + 32))) (\<lambda>healthCiphertext. let off = off + 32 in
      js_bind (read_u8 data off) (\<lambda>bump.
      Inr (Some \<lparr>bp_vault = vault, bp_owner = owner, bp_borrowAsset = borrowAsset,
        bp_principal = principal, bp_borrowedAt = js_number borrowedAt,
        bp_lastUpdatedAt = js_number lastUpdatedAt, bp_borrowIndexSnapshot = borrowIndexSnapshot,
        bp_healthCiphertext = healthCiphertext, bp_bump = bump\<rparr>)))))))))))"

section \<open>Readers\<close>

definition sdk_ASSET_BTC :: int where "sdk_ASSET_BTC = 0"

definition sdk_readLendingPool ::
    "platform \<Rightarrow> connection \<Rightarrow> pubkey \<Rightarrow> pubkey \<Rightarrow> (pubkey \<times> LendingPoolAccount option) js" where
  "sdk_readLendingPool P conn borrowAssetMint programId =
     js_bind (sdk_deriveLendingPoolPda P borrowAssetMint programId) (\<lambda>(poolPda, _).
     js_bind (getAccountInfo conn poolPda) (\<lambda>info.
     js_bind (decode_info sdk_decodeLendingPool info) (\<lambda>pool.
     Inr (poolPda, pool))))"

definition sdk_readAdminPriceFeed ::
    "platform \<Rightarrow> connection \<Rightarrow> int \<Rightarrow> pubkey \<Rightarrow> (pubkey \<times> AdminPriceFeedAccount option) js" where
  "sdk_readAdminPriceFeed P conn assetType programId =
     js_bind (sdk_deriveAdminPriceFeedPda P assetType programId) (\<lambda>(priceFeedPda, _).
     js_bind (getAccountInfo conn priceFeedPda) (\<lambda>info.
     js_bind (decode_info sdk_decodeAdminPriceFeed info) (\<lambda>priceFeed.
     Inr (priceFeedPda, priceFeed))))"

definition sdk_readBorrowPosition ::
    "platform \<Rightarrow> connection \<Rightarrow> pubkey \<Rightarrow> pubkey \<Rightarrow> (pubkey \<times> BorrowPositionAccount option) js" where
  "sdk_readBorrowPosition P conn vaultPda programId =
     js_bind (sdk_deriveBorrowPositionPda P vaultPda programId) (\<lambda>(positionPda, _).
     js_bind (getAccountInfo conn positionPda) (\<lambda>info.
     js_bind (decode_info sdk_decodeBorrowPosition info) (\<lambda>position.
     Inr (positionPda, position))))"

fun sdk_push_positions ::
    "(pubkey \<times> bytes) list \<Rightarrow> BorrowPositionListing list \<Rightarrow> BorrowPositionListing list js" where
  "sdk_push_positions [] out = Inr out"
| "sdk_push_positions ((pk, data) # accounts) out =
     js_bind (sdk_decodeBorrowPosition data) (\<lambda>position.
       case position of
         None \<Rightarrow> sdk_push_positions accounts out
       | Some p \<Rightarrow> sdk_push_positions accounts (out @ [\<lparr>bl_positionPda = pk, bl_position = p\<rparr>]))"

definition sdk_listAllBorrowPositions ::
    "platform \<Rightarrow> connection \<Rightarrow> pubkey \<Rightarrow> BorrowPositionListing list js" where
  "sdk_listAllBorrowPositions P conn programId =
     js_bind (getProgramAccounts conn programId [DataSize sdk_BORROW_POSITION_LEN]) (\<lambda>accounts.
     sdk_push_positions accounts [])"

section \<open>The copies agree\<close>

lemma sdk_readBigUInt128LE_eq: "sdk_readBigUInt128LE = readBigUInt128LE"
  by (simp add: fun_eq_iff sdk_readBigUInt128LE_def readBigUInt128LE_def)

lemma sdk_LEN_eq:
  "sdk_LENDING_POOL_LEN = LENDING_POOL_LEN" "sdk_ADMIN_PRICE_FEED_LEN = ADMIN_PRICE_FEED_LEN"
  "sdk_BORROW_POSITION_LEN = BORROW_POSITION_LEN"
  by (simp_all add: sdk_LENDING_POOL_LEN_def LENDING_POOL_LEN_def sdk_ADMIN_PRICE_FEED_LEN_def
      ADMIN_PRICE_FEED_LEN_def sdk_BORROW_POSITION_LEN_def BORROW_POSITION_LEN_def)

lemma sdk_decoders_eq:
  "sdk_decodeLendingPool = decodeLendingPool"
  "sdk_decodeAdminPriceFeed = decodeAdminPriceFeed"
  "sdk_decodeBorrowPosition = decodeBorrowPosition"
  by (simp_all only: fun_eq_iff sdk_decodeLendingPool_def decodeLendingPool_def
      sdk_decodeAdminPriceFeed_def decodeAdminPriceFeed_def
      sdk_decodeBorrowPosition_def decodeBorrowPosition_def sdk_readBigUInt128LE_eq sdk_LEN_eq simp_thms)

interpretation sdk_pool_layout: account_layout sdk_LENDING_POOL_LEN body_LendingPool "\<lambda>_. True"
    sdk_decodeLendingPool view_LendingPool
  unfolding sdk_LEN_eq sdk_decoders_eq by (rule pool_layout.account_layout_axioms)

interpretation sdk_feed_layout: account_layout sdk_ADMIN_PRICE_FEED_LEN body_AdminPriceFeed "\<lambda>_. True"
    sdk_decodeAdminPriceFeed view_AdminPriceFeed
  unfolding sdk_LEN_eq sdk_decoders_eq by (rule feed_layout.account_layout_axioms)

interpretation sdk_position_layout: account_layout sdk_BORROW_POSITION_LEN body_BorrowPosition "\<lambda>_. True"
    sdk_decodeBorrowPosition view_BorrowPosition
  unfolding sdk_LEN_eq sdk_decoders_eq by (rule position_layout.account_layout_axioms)

lemma sdk_push_positions_eq: "sdk_push_positions accounts out = push_positions accounts out"
  by (induction accounts out rule: push_positions.induct)
    (simp_all add: sdk_decoders_eq split: option.splits cong: option.case_cong)

section \<open>Properties\<close>

text \<open>The SDK's readers, given the frontend's program id and asset, return what the frontend's
  readers return: the pool and price feed of the default read, the position of a vault, and the
  same listing of all positions, errors included.\<close>

theorem sdk_readers_agree:
  "readBorrowPosition P conn v = sdk_readBorrowPosition P conn v (PROGRAM_ID P)
   \<and> listAllBorrowPositions P conn = sdk_listAllBorrowPositions P conn (PROGRAM_ID P)
   \<and> (\<forall>r. readDefaultLendingPool P conn = Inr r
        \<longrightarrow> sdk_readLendingPool P conn (LGUSD_MINT P) (PROGRAM_ID P) = Inr (dp_poolPda r, dp_pool r)
          \<and> sdk_readAdminPriceFeed P conn sdk_ASSET_BTC (PROGRAM_ID P)
              = Inr (dp_priceFeedPda r, dp_priceFeed r))"
  by (auto simp: readBorrowPosition_def sdk_readBorrowPosition_def listAllBorrowPositions_def
      sdk_listAllBorrowPositions_def readDefaultLendingPool_def sdk_readLendingPool_def
      sdk_readAdminPriceFeed_def sdk_pda_eq sdk_decoders_eq sdk_LEN_eq sdk_push_positions_eq
      defaultBorrowAssetMint_def ASSET_BTC_def sdk_ASSET_BTC_def js_bind_eq_Inr split: prod.splits)

lemma sdk_readers_agree_witness:
  "\<exists>a b. sdk_readLendingPool demo_platform one_position_connection (LGUSD_MINT demo_platform)
       (PROGRAM_ID demo_platform) = Inr (a, None)
     \<and> sdk_readAdminPriceFeed demo_platform one_position_connection sdk_ASSET_BTC
       (PROGRAM_ID demo_platform) = Inr (b, None)"
proof -
  obtain r where "readDefaultLendingPool demo_platform one_position_connection = Inr r"
    and "dp_pool r = None" "dp_priceFeed r = None"
    by (simp add: readDefaultLendingPool_def demo_platform_def one_position_connection_def
        deriveLendingPoolPda_def deriveAdminPriceFeedPda_def decode_info_def)
  then show ?thesis
    using sdk_readers_agree [of demo_platform one_position_connection] by auto
qed

end
