(* ===== verification/Chain_Math.thy ===== *)
theory Chain_Math
  imports Prelude
begin

text \<open>
  The arithmetic of the on-chain program: \<open>contracts/src/instructions/lending.rs\<close> and
  \<open>btc_lending.rs\<close>, on words of the widths Rust gives them. Every \<open>checked_...\<close> operation is written
  with the \<open>ok_or(ArithmeticOverflow)\<close> that follows it, so that an overflow is a value of the result.
\<close>

section \<open>Errors and checked operations\<close>

datatype lendguard_error =
    VaultNotVerified | VaultFrozen | ProtocolFrozen | ProofExpired | InvalidProofAmount
  | DWalletMismatch | InvalidMessageApproval | InsufficientCollateral | InvalidAssetType
  | UnauthorizedCaller | RiskCheckFailed | InvalidIkaProgram | InvalidEncryptProgram
  | InvalidCiphertextAccount | ArithmeticOverflow | InvalidTimestamp | VaultAlreadyVerified
  | VaultNotFound | InvalidWithdrawalAmount | InvalidDepositAmount | InvalidLendingPoolParameter
  | InvalidBorrowAmount | InsufficientPoolLiquidity | BorrowExceedsCollateralLtv | OutstandingDebt
  | InvalidRepayAmount | PriceFeedStale | PositionHealthy | NoOutstandingDebt | SelfLiquidation
  | PoolTokenVaultMismatch | BorrowAssetMintMismatch | TokenAccountOwnerMismatch
  | InsufficientCollateralLamports | LiquidationNotAuthorised | InvalidDwalletPubkey
  | InvalidBitcoinAddress | BitcoinAttestationStale | BitcoinAttestationMismatch
  | KeeperNotAuthorised | BtcVaultNotVerified | BtcVaultFrozen | BtcVaultHasOpenDebt
  | BtcLiquidationNotInitiated | BtcLiquidationAlreadyInitiated
  | BitcoinLiquidationSighashMismatch | BitcoinConfirmationsInsufficient
  | InsufficientBtcCollateral

type_synonym 'a chain = "lendguard_error + 'a"

definition chain_bind :: "'a chain \<Rightarrow> ('a \<Rightarrow> 'b chain) \<Rightarrow> 'b chain" where
  "chain_bind m f = (case m of Inl e \<Rightarrow> Inl e | Inr x \<Rightarrow> f x)"

lemma chain_bind_simps [simp]:
  "chain_bind (Inl e) f = Inl e" "chain_bind (Inr x) f = f x"
  by (simp_all add: chain_bind_def)

lemma chain_bind_eq_Inr: "chain_bind m f = Inr y \<longleftrightarrow> (\<exists>x. m = Inr x \<and> f x = Inr y)"
  by (cases m) simp_all

definition require :: "bool \<Rightarrow> lendguard_error \<Rightarrow> unit chain" where
  "require c e = (if c then Inr () else Inl e)"

lemma require_simps [simp]: "require True e = Inr ()" "require False e = Inl e"
  by (simp_all add: require_def)

lemma require_eq_Inr [simp]: "require c e = Inr u \<longleftrightarrow> c"
  by (simp add: require_def)

definition checked_add :: "'a::len word \<Rightarrow> 'a word \<Rightarrow> 'a word chain" where
  "checked_add a b =
     (if unat a + unat b < 2 ^ LENGTH('a) then Inr (a + b) else Inl ArithmeticOverflow)"

definition checked_sub :: "'a::len word \<Rightarrow> 'a word \<Rightarrow> 'a word chain" where
  "checked_sub a b = (if b \<le> a then Inr (a - b) else Inl ArithmeticOverflow)"

definition checked_mul :: "'a::len word \<Rightarrow> 'a word \<Rightarrow> 'a word chain" where
  "checked_mul a b =
     (if unat a * unat b < 2 ^ LENGTH('a) then Inr (a * b) else Inl ArithmeticOverflow)"

definition checked_div :: "'a::len word \<Rightarrow> 'a word \<Rightarrow> 'a word chain" where
  "checked_div a b = (if b = 0 then Inl ArithmeticOverflow else Inr (a div b))"

text \<open>\<open>as u128\<close> and \<open>u64::try_from\<close>.\<close>

definition u128 :: "'a::len word \<Rightarrow> 128 word" where
  "u128 x = word_of_nat (unat x)"

definition u64_try_from :: "128 word \<Rightarrow> 64 word chain" where
  "u64_try_from x = (if unat x < 2 ^ 64 then Inr (word_of_nat (unat x)) else Inl ArithmeticOverflow)"

section \<open>What the checked operations compute\<close>

lemma unat_word_of_nat_lt: "n < 2 ^ LENGTH('a) \<Longrightarrow> unat (word_of_nat n :: 'a::len word) = n"
  by (simp add: unat_of_nat)

lemma checked_add_eq:
  "checked_add (a :: 'a::len word) b =
     (if unat a + unat b < 2 ^ LENGTH('a) then Inr (word_of_nat (unat a + unat b))
      else Inl ArithmeticOverflow)"
  by (simp add: checked_add_def)

lemma checked_mul_eq:
  "checked_mul (a :: 'a::len word) b =
     (if unat a * unat b < 2 ^ LENGTH('a) then Inr (word_of_nat (unat a * unat b))
      else Inl ArithmeticOverflow)"
  by (simp add: checked_mul_def)

lemma checked_div_eq:
  "checked_div (a :: 'a::len word) b =
     (if unat b = 0 then Inl ArithmeticOverflow else Inr (word_of_nat (unat a div unat b)))"
proof -
  have "a div b = word_of_nat (unat a div unat b)"
    by (rule word_unat_eq_iff [THEN iffD2])
      (simp add: unat_div_distrib unat_of_nat take_bit_nat_eq_self le_less_trans [OF div_le_dividend])
  then show ?thesis by (simp add: checked_div_def unat_eq_zero)
qed

lemma checked_sub_eq:
  "checked_sub (a :: 'a::len word) b =
     (if unat b \<le> unat a then Inr (word_of_nat (unat a - unat b)) else Inl ArithmeticOverflow)"
proof -
  have "a - b = word_of_nat (unat a - unat b)" if "b \<le> a"
    using that by (simp add: word_le_nat_alt of_nat_diff)
  then show ?thesis by (simp add: checked_sub_def word_le_nat_alt)
qed

text \<open>The same on 128-bit words given by their numbers.\<close>

lemma mul_w:
  "m < 2 ^ 128 \<Longrightarrow> n < 2 ^ 128 \<Longrightarrow> m * n < 2 ^ 128 \<Longrightarrow>
   checked_mul (word_of_nat m :: 128 word) (word_of_nat n) = Inr (word_of_nat (m * n))"
  by (simp add: checked_mul_eq unat_word_of_nat_lt del: of_nat_mult)

lemma mul_w_overflow:
  "m < 2 ^ 128 \<Longrightarrow> n < 2 ^ 128 \<Longrightarrow> \<not> m * n < 2 ^ 128 \<Longrightarrow>
   checked_mul (word_of_nat m :: 128 word) (word_of_nat n) = Inl ArithmeticOverflow"
  by (simp add: checked_mul_eq unat_word_of_nat_lt del: of_nat_mult)

lemma div_w:
  "m < 2 ^ 128 \<Longrightarrow> n < 2 ^ 128 \<Longrightarrow> 0 < n \<Longrightarrow>
   checked_div (word_of_nat m :: 128 word) (word_of_nat n) = Inr (word_of_nat (m div n))"
  by (simp add: checked_div_eq unat_word_of_nat_lt)

lemma add_w:
  "m < 2 ^ 128 \<Longrightarrow> n < 2 ^ 128 \<Longrightarrow> m + n < 2 ^ 128 \<Longrightarrow>
   checked_add (word_of_nat m :: 128 word) (word_of_nat n) = Inr (word_of_nat (m + n))"
  by (simp add: checked_add_eq unat_word_of_nat_lt del: of_nat_add)

lemma u64_try_from_w:
  "n < 2 ^ 128 \<Longrightarrow> u64_try_from (word_of_nat n) =
     (if n < 2 ^ 64 then Inr (word_of_nat n) else Inl ArithmeticOverflow)"
  by (simp add: u64_try_from_def unat_word_of_nat_lt)

lemma less_w:
  "m < 2 ^ 128 \<Longrightarrow> n < 2 ^ 128 \<Longrightarrow> (word_of_nat m :: 128 word) < word_of_nat n \<longleftrightarrow> m < n"
  by (simp add: word_less_nat_alt unat_word_of_nat_lt)

lemma unat_u64_lt [simp]: "unat (x :: 64 word) < 18446744073709551616"
  using unsigned_less [of x, where 'a = nat] by simp

lemma unat_u16_lt [simp]: "unat (x :: 16 word) < 65536"
  using unsigned_less [of x, where 'a = nat] by simp

lemma unat_u128_lt [simp]: "unat (x :: 128 word) < 340282366920938463463374607431768211456"
  using unsigned_less [of x, where 'a = nat] by simp

section \<open>Constants\<close>

definition BASIS_POINTS_DENOMINATOR :: "64 word" where "BASIS_POINTS_DENOMINATOR = 10000"
definition PRICE_DECIMALS :: "64 word" where "PRICE_DECIMALS = 100000000"
definition BORROW_ASSET_DECIMALS :: "64 word" where "BORROW_ASSET_DECIMALS = 1000000"
definition COLLATERAL_DECIMALS :: "64 word" where "COLLATERAL_DECIMALS = 1000000000"
definition PRICE_STALENESS_SECONDS :: int where "PRICE_STALENESS_SECONDS = 60 * 60"
definition PROOF_EXPIRY_SECONDS :: int where "PROOF_EXPIRY_SECONDS = 600"
definition chain_SATOSHIS_PER_BTC :: "64 word" where "chain_SATOSHIS_PER_BTC = 100000000"
definition LendingPool_RAY :: "128 word" where "LendingPool_RAY = 1000000000000000000"

lemma u128_constants:
  "u128 BASIS_POINTS_DENOMINATOR = word_of_nat 10000"
  "u128 PRICE_DECIMALS = word_of_nat 100000000"
  "u128 BORROW_ASSET_DECIMALS = word_of_nat 1000000"
  "u128 COLLATERAL_DECIMALS = word_of_nat 1000000000"
  "u128 chain_SATOSHIS_PER_BTC = word_of_nat 100000000"
  "LendingPool_RAY = word_of_nat 1000000000000000000"
  by (simp_all add: u128_def BASIS_POINTS_DENOMINATOR_def PRICE_DECIMALS_def
      BORROW_ASSET_DECIMALS_def COLLATERAL_DECIMALS_def chain_SATOSHIS_PER_BTC_def
      LendingPool_RAY_def)

section \<open>Helpers of \<open>lending.rs\<close>\<close>

definition to_scaled :: "64 word \<Rightarrow> 128 word \<Rightarrow> 64 word chain" where
  "to_scaled amount borrow_index =
     chain_bind (checked_mul (u128 amount) LendingPool_RAY) (\<lambda>m.
     chain_bind (checked_div m borrow_index) (\<lambda>scaled.
     u64_try_from scaled))"

definition current_debt :: "64 word \<Rightarrow> 128 word \<Rightarrow> 64 word chain" where
  "current_debt scaled_principal borrow_index =
     chain_bind (checked_mul (u128 scaled_principal) borrow_index) (\<lambda>m.
     chain_bind (checked_div m LendingPool_RAY) (\<lambda>raw.
     u64_try_from raw))"

definition validate_asset_type :: "byte \<Rightarrow> unit chain" where
  "validate_asset_type asset_type =
     require (asset_type = 0 \<or> asset_type = 1 \<or> asset_type = 2) InvalidAssetType"

definition validate_bps :: "16 word \<Rightarrow> 16 word \<Rightarrow> 16 word \<Rightarrow> unit chain" where
  "validate_bps ltv liquidation_threshold liquidation_bonus =
     chain_bind (require (ltv > 0) InvalidLendingPoolParameter) (\<lambda>_.
     chain_bind (require (ucast ltv < BASIS_POINTS_DENOMINATOR) InvalidLendingPoolParameter) (\<lambda>_.
     chain_bind (require ((ucast liquidation_threshold :: 64 word) > ucast ltv
         \<and> ucast liquidation_threshold \<le> BASIS_POINTS_DENOMINATOR) InvalidLendingPoolParameter) (\<lambda>_.
     require (ucast liquidation_bonus \<le> BASIS_POINTS_DENOMINATOR div 2)
       InvalidLendingPoolParameter)))"

definition calculate_max_borrow :: "64 word \<Rightarrow> 64 word \<Rightarrow> 16 word \<Rightarrow> 64 word chain" where
  "calculate_max_borrow deposited_amount price_usd ltv_basis_points =
     chain_bind (checked_mul (u128 deposited_amount) (u128 price_usd)) (\<lambda>a.
     chain_bind (checked_div a (u128 COLLATERAL_DECIMALS)) (\<lambda>collateral_value_usd_8.
     chain_bind (checked_mul collateral_value_usd_8 (u128 ltv_basis_points)) (\<lambda>b.
     chain_bind (checked_div b (u128 BASIS_POINTS_DENOMINATOR)) (\<lambda>max_borrow_usd_8.
     chain_bind (checked_mul max_borrow_usd_8 (u128 BORROW_ASSET_DECIMALS)) (\<lambda>c.
     chain_bind (checked_div c (u128 PRICE_DECIMALS)) (\<lambda>max_borrow_units.
     u64_try_from max_borrow_units))))))"

definition is_liquidatable :: "64 word \<Rightarrow> 64 word \<Rightarrow> 64 word \<Rightarrow> 16 word \<Rightarrow> bool chain" where
  "is_liquidatable deposited_amount price_usd debt liquidation_threshold_bps =
     chain_bind (checked_mul (u128 deposited_amount) (u128 price_usd)) (\<lambda>a.
     chain_bind (checked_div a (u128 COLLATERAL_DECIMALS)) (\<lambda>b.
     chain_bind (checked_mul b (u128 BORROW_ASSET_DECIMALS)) (\<lambda>c.
     chain_bind (checked_div c (u128 PRICE_DECIMALS)) (\<lambda>collateral_value_borrow_units.
     chain_bind (checked_mul collateral_value_borrow_units (u128 liquidation_threshold_bps)) (\<lambda>d.
     chain_bind (checked_div d (u128 BASIS_POINTS_DENOMINATOR)) (\<lambda>liquidation_value.
     Inr (u128 debt > liquidation_value)))))))"

definition collateral_with_bonus :: "64 word \<Rightarrow> 16 word \<Rightarrow> 64 word chain" where
  "collateral_with_bonus deposited_amount bonus_bps =
     chain_bind (checked_add (u128 BASIS_POINTS_DENOMINATOR) (u128 bonus_bps)) (\<lambda>bonus_factor.
     chain_bind (checked_mul (u128 deposited_amount) bonus_factor) (\<lambda>a.
     chain_bind (checked_div a (u128 BASIS_POINTS_DENOMINATOR)) (\<lambda>with_bonus.
     u64_try_from with_bonus)))"

section \<open>Helpers of \<open>btc_lending.rs\<close>\<close>

definition calculate_max_btc_borrow :: "64 word \<Rightarrow> 64 word \<Rightarrow> 16 word \<Rightarrow> 64 word chain" where
  "calculate_max_btc_borrow satoshis price_usd ltv_basis_points =
     chain_bind (checked_mul (u128 satoshis) (u128 price_usd)) (\<lambda>a.
     chain_bind (checked_div a (u128 chain_SATOSHIS_PER_BTC)) (\<lambda>collateral_value_usd_8.
     chain_bind (checked_mul collateral_value_usd_8 (u128 ltv_basis_points)) (\<lambda>b.
     chain_bind (checked_div b (u128 BASIS_POINTS_DENOMINATOR)) (\<lambda>max_borrow_usd_8.
     chain_bind (checked_mul max_borrow_usd_8 (u128 BORROW_ASSET_DECIMALS)) (\<lambda>c.
     chain_bind (checked_div c (u128 PRICE_DECIMALS)) (\<lambda>max_borrow_units.
     u64_try_from max_borrow_units))))))"

definition is_btc_liquidatable :: "64 word \<Rightarrow> 64 word \<Rightarrow> 64 word \<Rightarrow> 16 word \<Rightarrow> bool chain" where
  "is_btc_liquidatable satoshis price_usd debt liquidation_threshold_bps =
     chain_bind (checked_mul (u128 satoshis) (u128 price_usd)) (\<lambda>a.
     chain_bind (checked_div a (u128 chain_SATOSHIS_PER_BTC)) (\<lambda>b.
     chain_bind (checked_mul b (u128 BORROW_ASSET_DECIMALS)) (\<lambda>c.
     chain_bind (checked_div c (u128 PRICE_DECIMALS)) (\<lambda>collateral_value_borrow_units.
     chain_bind (checked_mul collateral_value_borrow_units (u128 liquidation_threshold_bps)) (\<lambda>d.
     chain_bind (checked_div d (u128 BASIS_POINTS_DENOMINATOR)) (\<lambda>liquidation_value.
     Inr (u128 debt > liquidation_value)))))))"

definition debt_to_satoshis_with_bonus :: "64 word \<Rightarrow> 64 word \<Rightarrow> 16 word \<Rightarrow> 64 word chain" where
  "debt_to_satoshis_with_bonus debt price_usd liquidation_bonus_bps =
     chain_bind (checked_mul (u128 debt) (u128 PRICE_DECIMALS)) (\<lambda>a.
     chain_bind (checked_mul a (u128 chain_SATOSHIS_PER_BTC)) (\<lambda>b.
     chain_bind (checked_div b (u128 BORROW_ASSET_DECIMALS)) (\<lambda>c.
     chain_bind (checked_div c (u128 price_usd)) (\<lambda>satoshis.
     chain_bind (checked_add (u128 BASIS_POINTS_DENOMINATOR) (u128 liquidation_bonus_bps)) (\<lambda>f.
     chain_bind (checked_mul satoshis f) (\<lambda>d.
     chain_bind (checked_div d (u128 BASIS_POINTS_DENOMINATOR)) (\<lambda>with_bonus.
     u64_try_from with_bonus)))))))"

section \<open>Closed forms\<close>

text \<open>Products of two 64-bit amounts, and what is left of them after the divisions of the program.\<close>

lemma mult_u64_bound:
  assumes "d < 2 ^ 64" "p < (2::nat) ^ 64"
  shows "d * p < 2 ^ 128"
proof -
  have "d * p < 2 ^ 64 * 2 ^ 64" using assms by (intro mult_strict_mono) simp_all
  then show ?thesis by simp
qed

lemma value_bounds:
  assumes "a < (2::nat) ^ 128" "10 ^ 8 \<le> K"
  shows "a div K < 2 ^ 102" "a div K * 10 ^ 6 < 2 ^ 128" "a div K * 10 ^ 6 div 10 ^ 8 < 2 ^ 96"
proof -
  have "a div K \<le> a div 10 ^ 8" using assms(2) by (intro div_le_mono2) simp_all
  moreover have "a div 10 ^ 8 < 2 ^ 102"
    using assms(1) by (simp add: div_less_iff_less_mult)
  ultimately show "a div K < 2 ^ 102" by linarith
  then show "a div K * 10 ^ 6 < 2 ^ 128" "a div K * 10 ^ 6 div 10 ^ 8 < 2 ^ 96"
    by simp_all
qed

text \<open>The value, in borrow units, below which debt is safe; \<open>K\<close> is the collateral's unit.\<close>

definition liquidation_value_nat :: "nat \<Rightarrow> nat \<Rightarrow> nat \<Rightarrow> nat \<Rightarrow> nat" where
  "liquidation_value_nat K d p t = (d * p div K * 10 ^ 6 div 10 ^ 8) * t div 10 ^ 4"

definition max_borrow_nat :: "nat \<Rightarrow> nat \<Rightarrow> nat \<Rightarrow> nat \<Rightarrow> nat" where
  "max_borrow_nat K d p l = (d * p div K * l div 10 ^ 4) * 10 ^ 6 div 10 ^ 8"

lemma liquidation_chain:
  assumes d: "d < 2 ^ 64" and p: "p < 2 ^ 64" and t: "t < 2 ^ 16" and x: "x < 2 ^ 64"
    and K: "10 ^ 8 \<le> K" "K < 2 ^ 128"
  shows "chain_bind (checked_mul (word_of_nat d :: 128 word) (word_of_nat p)) (\<lambda>a.
     chain_bind (checked_div a (word_of_nat K)) (\<lambda>b.
     chain_bind (checked_mul b (word_of_nat 1000000)) (\<lambda>c.
     chain_bind (checked_div c (word_of_nat 100000000)) (\<lambda>q.
     chain_bind (checked_mul q (word_of_nat t)) (\<lambda>m.
     chain_bind (checked_div m (word_of_nat 10000)) (\<lambda>v.
     Inr (word_of_nat x > v))))))) = Inr (x > liquidation_value_nat K d p t)"
proof -
  define a where "a = d * p"
  define b where "b = a div K"
  define q where "q = b * 1000000 div 100000000"
  have a: "a < 2 ^ 128" using mult_u64_bound [OF d p] by (simp add: a_def)
  have b: "b < 2 ^ 128" "b * 1000000 < 2 ^ 128" and q: "q < 2 ^ 96"
    using value_bounds [OF a K(1)] by (simp_all add: b_def q_def)
  have "q * t < 2 ^ 96 * 2 ^ 16" using q t by (intro mult_strict_mono) simp_all
  then have qt: "q * t < 2 ^ 128" "q < 2 ^ 128" using q by simp_all
  have v: "q * t div 10000 < 2 ^ 128" using qt(1) by (rule le_less_trans [OF div_le_dividend])
  have big: "d < 2 ^ 128" "p < 2 ^ 128" "t < 2 ^ 128" "x < 2 ^ 128" "0 < K"
    using d p t x K by simp_all
  show ?thesis
    using a b qt v big K
    by (simp add: mul_w div_w less_w liquidation_value_nat_def flip: a_def b_def q_def
        del: of_nat_mult of_nat_numeral)
qed

lemma max_borrow_chain:
  assumes d: "d < 2 ^ 64" and p: "p < 2 ^ 64" and l: "l < 2 ^ 16"
    and K: "10 ^ 8 \<le> K" "K < 2 ^ 128"
  shows "chain_bind (checked_mul (word_of_nat d :: 128 word) (word_of_nat p)) (\<lambda>a.
     chain_bind (checked_div a (word_of_nat K)) (\<lambda>b.
     chain_bind (checked_mul b (word_of_nat l)) (\<lambda>c.
     chain_bind (checked_div c (word_of_nat 10000)) (\<lambda>u.
     chain_bind (checked_mul u (word_of_nat 1000000)) (\<lambda>m.
     chain_bind (checked_div m (word_of_nat 100000000)) (\<lambda>v.
     u64_try_from v)))))) =
     (if max_borrow_nat K d p l < 2 ^ 64 then Inr (word_of_nat (max_borrow_nat K d p l))
      else Inl ArithmeticOverflow)"
proof -
  define a where "a = d * p"
  define b where "b = a div K"
  define c where "c = b * l"
  define u where "u = c div 10000"
  have a: "a < 2 ^ 128" using mult_u64_bound [OF d p] by (simp add: a_def)
  have b: "b < 2 ^ 102" using value_bounds(1) [OF a K(1)] by (simp add: b_def)
  have "b * l < 2 ^ 102 * 2 ^ 16" using b l by (intro mult_strict_mono) simp_all
  then have c: "c < 2 ^ 118" by (simp add: c_def)
  then have u: "u * 1000000 < 2 ^ 128" "u < 2 ^ 128" by (simp_all add: u_def)
  have v: "u * 1000000 div 100000000 < 2 ^ 128"
    using u(1) by (rule le_less_trans [OF div_le_dividend])
  have big: "d < 2 ^ 128" "p < 2 ^ 128" "l < 2 ^ 128" "b < 2 ^ 128" "c < 2 ^ 128" "0 < K"
    using d p l b c K by simp_all
  show ?thesis
    using a b c u v big K
    by (simp add: mul_w div_w u64_try_from_w max_borrow_nat_def
        flip: a_def b_def c_def u_def del: of_nat_mult of_nat_numeral)
qed

lemma is_liquidatable_eq:
  "is_liquidatable dep price debt thr =
     Inr (unat debt > liquidation_value_nat (10 ^ 9) (unat dep) (unat price) (unat thr))"
  using liquidation_chain [of "unat dep" "unat price" "unat thr" "unat debt" "10 ^ 9"]
  by (simp add: is_liquidatable_def u128_constants del: of_nat_numeral flip: u128_def)
    (simp add: u128_def)

lemma is_btc_liquidatable_eq:
  "is_btc_liquidatable sats price debt thr =
     Inr (unat debt > liquidation_value_nat (10 ^ 8) (unat sats) (unat price) (unat thr))"
  using liquidation_chain [of "unat sats" "unat price" "unat thr" "unat debt" "10 ^ 8"]
  by (simp add: is_btc_liquidatable_def u128_constants del: of_nat_numeral flip: u128_def)
    (simp add: u128_def)

lemma calculate_max_borrow_eq:
  "calculate_max_borrow dep price ltv =
     (let m = max_borrow_nat (10 ^ 9) (unat dep) (unat price) (unat ltv)
      in if m < 2 ^ 64 then Inr (word_of_nat m) else Inl ArithmeticOverflow)"
  using max_borrow_chain [of "unat dep" "unat price" "unat ltv" "10 ^ 9"]
  by (simp add: calculate_max_borrow_def u128_constants Let_def del: of_nat_numeral flip: u128_def)
    (simp add: u128_def)

lemma calculate_max_btc_borrow_eq:
  "calculate_max_btc_borrow sats price ltv =
     (let m = max_borrow_nat (10 ^ 8) (unat sats) (unat price) (unat ltv)
      in if m < 2 ^ 64 then Inr (word_of_nat m) else Inl ArithmeticOverflow)"
  using max_borrow_chain [of "unat sats" "unat price" "unat ltv" "10 ^ 8"]
  by (simp add: calculate_max_btc_borrow_def u128_constants Let_def del: of_nat_numeral flip: u128_def)
    (simp add: u128_def)

lemma div_u128_lt: "m < 2 ^ 128 \<Longrightarrow> m div n < (2::nat) ^ 128"
  by (rule le_less_trans [OF div_le_dividend])

lemma current_debt_eq:
  "current_debt prin index =
     (let m = unat prin * unat index; r = m div 10 ^ 18
      in if m < 2 ^ 128 \<and> r < 2 ^ 64 then Inr (word_of_nat r) else Inl ArithmeticOverflow)"
proof -
  have "checked_mul (u128 prin) index =
      (if unat prin * unat index < 2 ^ 128 then Inr (word_of_nat (unat prin * unat index))
       else Inl ArithmeticOverflow)"
    using mul_w [of "unat prin" "unat index"] mul_w_overflow [of "unat prin" "unat index"]
      unat_u64_lt [of prin] by (simp add: u128_def)
  then show ?thesis
    using div_w [of "unat prin * unat index" "10 ^ 18"]
      div_u128_lt [of "unat prin * unat index" "10 ^ 18"]
    by (simp add: current_debt_def u128_constants u64_try_from_w Let_def
        del: of_nat_mult of_nat_numeral)
qed

lemma to_scaled_eq:
  "to_scaled amount index =
     (let r = unat amount * 10 ^ 18 div unat index
      in if 0 < unat index \<and> r < 2 ^ 64 then Inr (word_of_nat r) else Inl ArithmeticOverflow)"
proof -
  have "unat amount * 10 ^ 18 < 18446744073709551616 * (10::nat) ^ 18"
    using unat_u64_lt [of amount] by (intro mult_strict_right_mono) simp_all
  also have "\<dots> < 2 ^ 128" by simp
  finally have m: "unat amount * 10 ^ 18 < 2 ^ 128" .
  have "checked_mul (u128 amount) LendingPool_RAY = Inr (word_of_nat (unat amount * 10 ^ 18))"
    using mul_w [of "unat amount" "10 ^ 18"] m unat_u64_lt [of amount]
    by (simp add: u128_def u128_constants del: of_nat_mult of_nat_numeral)
  then show ?thesis
    using div_w [of "unat amount * 10 ^ 18" "unat index"] m
      div_u128_lt [OF m, of "unat index"]
    by (simp add: to_scaled_def checked_div_eq u64_try_from_w Let_def unat_word_of_nat_lt
        del: of_nat_mult of_nat_numeral)
qed

end
