(* ===== verification/Lending_Math.thy ===== *)
theory Lending_Math
  imports Js_Runtime Chain_Math
begin

text \<open>
  The debt and liquidation formulas of \<open>web/lib/lending-client.ts\<close> and of the SDK's
  \<open>accounts.ts\<close>, on \<open>bigint\<close>s, against the program's \<open>lending.rs\<close> and \<open>btc_lending.rs\<close>, on words.
  The monitor that decides which positions to liquidate runs the first, the chain enforces the
  second; the theorems show that they decide alike on everything the chain can store, and that a
  loan at the pool's limit does not start out liquidatable.
\<close>

section \<open>Constants\<close>

definition PRICE_SCALE :: int where "PRICE_SCALE = 100000000"
definition LGUSD_SCALE :: int where "LGUSD_SCALE = 1000000"
definition SATOSHIS_PER_BTC :: int where "SATOSHIS_PER_BTC = 100000000"
definition RAY :: int where "RAY = 1000000000000000000"
definition sdk_LGUSD_SCALE :: int where "sdk_LGUSD_SCALE = 1000000"
definition sdk_PRICE_SCALE :: int where "sdk_PRICE_SCALE = 100000000"
definition sdk_RAY :: int where "sdk_RAY = 1000000000000000000"
definition sdk_COLLATERAL_DECIMALS :: int where "sdk_COLLATERAL_DECIMALS = 1000000000"

section \<open>The frontend's formulas\<close>

definition currentDebt :: "int \<Rightarrow> int \<Rightarrow> int" where
  "currentDebt scaledPrincipal borrowIndex = bigint_div (scaledPrincipal * borrowIndex) RAY"

definition isLiquidatable :: "int \<Rightarrow> int \<Rightarrow> int \<Rightarrow> int \<Rightarrow> bool" where
  "isLiquidatable depositedLamports priceUsd debt liquidationThresholdBps =
     (let COLLATERAL_DECIMALS = 1000000000;
          collateralValueBorrowUnits =
            bigint_div (bigint_div (depositedLamports * priceUsd) COLLATERAL_DECIMALS * LGUSD_SCALE)
              PRICE_SCALE;
          liquidationValue = bigint_div (collateralValueBorrowUnits * liquidationThresholdBps) 10000
      in debt > liquidationValue)"

definition isBtcLiquidatable :: "int \<Rightarrow> int \<Rightarrow> int \<Rightarrow> int \<Rightarrow> bool" where
  "isBtcLiquidatable satoshis priceUsd debt liquidationThresholdBps =
     (let collateralValueBorrowUnits =
            bigint_div (bigint_div (satoshis * priceUsd) SATOSHIS_PER_BTC * LGUSD_SCALE) PRICE_SCALE;
          liquidationValue = bigint_div (collateralValueBorrowUnits * liquidationThresholdBps) 10000
      in debt > liquidationValue)"

section \<open>The SDK's formulas\<close>

definition sdk_currentDebt :: "int \<Rightarrow> int \<Rightarrow> int" where
  "sdk_currentDebt scaledPrincipal borrowIndex = bigint_div (scaledPrincipal * borrowIndex) sdk_RAY"

definition sdk_isLiquidatable :: "int \<Rightarrow> int \<Rightarrow> int \<Rightarrow> int \<Rightarrow> bool" where
  "sdk_isLiquidatable depositedLamports priceUsd debt liquidationThresholdBps =
     (let collateralValue =
            bigint_div
              (bigint_div (depositedLamports * priceUsd) sdk_COLLATERAL_DECIMALS * sdk_LGUSD_SCALE)
              sdk_PRICE_SCALE;
          liquidationValue = bigint_div (collateralValue * liquidationThresholdBps) 10000
      in debt > liquidationValue)"

lemma sdk_math_eq: "sdk_currentDebt = currentDebt" "sdk_isLiquidatable = isLiquidatable"
  by (simp_all add: fun_eq_iff sdk_currentDebt_def currentDebt_def sdk_RAY_def RAY_def
      sdk_isLiquidatable_def isLiquidatable_def sdk_COLLATERAL_DECIMALS_def sdk_LGUSD_SCALE_def
      LGUSD_SCALE_def sdk_PRICE_SCALE_def PRICE_SCALE_def Let_def)

section \<open>Over natural numbers\<close>

lemma isLiquidatable_nat:
  "isLiquidatable (int d) (int p) (int x) (int t) \<longleftrightarrow> x > liquidation_value_nat (10 ^ 9) d p t"
proof -
  have "int (liquidation_value_nat (10 ^ 9) d p t)
      = int d * int p div 1000000000 * 1000000 div 100000000 * int t div 10000"
    by (simp add: liquidation_value_nat_def zdiv_int)
  then show ?thesis
    by (simp add: isLiquidatable_def LGUSD_SCALE_def PRICE_SCALE_def Let_def
        pos_imp_zdiv_nonneg_iff) linarith
qed

lemma isBtcLiquidatable_nat:
  "isBtcLiquidatable (int d) (int p) (int x) (int t) \<longleftrightarrow> x > liquidation_value_nat (10 ^ 8) d p t"
proof -
  have "int (liquidation_value_nat (10 ^ 8) d p t)
      = int d * int p div 100000000 * 1000000 div 100000000 * int t div 10000"
    by (simp add: liquidation_value_nat_def zdiv_int)
  then show ?thesis
    by (simp add: isBtcLiquidatable_def SATOSHIS_PER_BTC_def LGUSD_SCALE_def PRICE_SCALE_def Let_def
        pos_imp_zdiv_nonneg_iff) linarith
qed

lemma currentDebt_nat: "currentDebt (int a) (int i) = int (a * i div 10 ^ 18)"
  by (simp add: currentDebt_def RAY_def zdiv_int)

lemma isLiquidatable_words:
  "isLiquidatable (uint dep) (uint price) (uint debt) (uint thr) \<longleftrightarrow>
     unat debt > liquidation_value_nat (10 ^ 9) (unat dep) (unat price) (unat thr)"
  using isLiquidatable_nat [of "unat dep" "unat price" "unat debt" "unat thr"] by simp

lemma isBtcLiquidatable_words:
  "isBtcLiquidatable (uint sats) (uint price) (uint debt) (uint thr) \<longleftrightarrow>
     unat debt > liquidation_value_nat (10 ^ 8) (unat sats) (unat price) (unat thr)"
  using isBtcLiquidatable_nat [of "unat sats" "unat price" "unat debt" "unat thr"] by simp

lemma liquidation_value_mono:
  "d \<le> d' \<Longrightarrow> p \<le> p' \<Longrightarrow> t \<le> t' \<Longrightarrow> liquidation_value_nat K d p t \<le> liquidation_value_nat K d' p' t'"
  by (simp add: liquidation_value_nat_def div_le_mono mult_le_mono)

text \<open>A pool's limit lies below its threshold by at least a basis point, which outweighs the two
  roundings as soon as the collateral is worth \<open>l\<close> borrow units.\<close>

lemma max_borrow_le_liquidation_value:
  assumes lt: "l < t" and worth: "l \<le> d * p div K div 100"
  shows "max_borrow_nat K d p l \<le> liquidation_value_nat K d p t"
proof -
  define V where "V = d * p div K"
  define q where "q = V div 100"
  have "(V * 10 ^ 6) div 10 ^ 8 = q"
    using div_mult2_eq [of "V * 10 ^ 6" "10 ^ 6" 100] by (simp add: q_def)
  then have lv: "liquidation_value_nat K d p t = q * t div 10000"
    by (simp add: liquidation_value_nat_def V_def)
  have "(V * l div 10000) * 10 ^ 6 div 10 ^ 8 = V * l div 10000 div 100"
    using div_mult2_eq [of "(V * l div 10000) * 10 ^ 6" "10 ^ 6" 100] by simp
  then have mb: "max_borrow_nat K d p l = V * l div 10 ^ 6"
    by (simp add: max_borrow_nat_def V_def flip: div_mult2_eq)
  have "V = 100 * q + V mod 100" by (simp add: q_def)
  moreover have "V mod 100 \<le> 99" by linarith
  ultimately have "V \<le> 100 * q + 99" by linarith
  then have "V * l \<le> (100 * q + 99) * l" by (rule mult_le_mono1)
  also have "\<dots> \<le> 100 * (q * l) + 100 * q"
    using worth by (simp add: algebra_simps q_def V_def)
  also have "\<dots> = 100 * (q * Suc l)" by (simp add: algebra_simps)
  also have "\<dots> \<le> 100 * (q * t)" using lt by (intro mult_le_mono2) simp
  finally have "V * l div 10 ^ 6 \<le> 100 * (q * t) div 10 ^ 6" by (rule div_le_mono)
  also have "\<dots> = q * t div 10000"
    using div_mult2_eq [of "100 * (q * t)" 100 10000] by simp
  finally show ?thesis by (simp add: lv mb)
qed

lemma validate_bps_iff:
  "validate_bps ltv thr bonus = Inr () \<longleftrightarrow>
     0 < unat ltv \<and> unat ltv < unat thr \<and> unat thr \<le> 10000 \<and> unat bonus \<le> 5000"
proof -
  have u: "unat (ucast x :: 64 word) = unat x" for x :: "16 word"
    by (simp add: unsigned_ucast_eq take_bit_nat_eq_self less_trans [OF unat_u16_lt])
  show ?thesis
    by (auto simp: validate_bps_def chain_bind_eq_Inr BASIS_POINTS_DENOMINATOR_def
        word_less_nat_alt word_le_nat_alt u unat_div_distrib)
qed

section \<open>Properties\<close>

text \<open>C6: the liquidation test of the frontend and of the SDK is the program's: on every deposit,
  price, debt and threshold the chain can hold, the program's checked 128-bit computation does not
  overflow, and its answer is the one the \<open>bigint\<close> formulas give.\<close>

theorem liquidation_test_agrees:
  "is_liquidatable dep price debt thr
     = Inr (isLiquidatable (uint dep) (uint price) (uint debt) (uint thr))
   \<and> is_liquidatable dep price debt thr
     = Inr (sdk_isLiquidatable (uint dep) (uint price) (uint debt) (uint thr))"
  by (simp add: sdk_math_eq is_liquidatable_eq isLiquidatable_words)

text \<open>The same for collateral in Bitcoin.\<close>

theorem btc_liquidation_test_agrees:
  "is_btc_liquidatable sats price debt thr
     = Inr (isBtcLiquidatable (uint sats) (uint price) (uint debt) (uint thr))"
  by (simp add: is_btc_liquidatable_eq isBtcLiquidatable_words)

text \<open>The debt the frontend shows is the debt the program settles: the program computes
  \<open>currentDebt\<close> of the stored principal and index, unless the product leaves 128 bits or the debt 64
  bits, where it reports an arithmetic overflow.\<close>

theorem current_debt_agrees:
  "current_debt prin index =
     (if uint prin * uint index < 2 ^ 128 \<and> currentDebt (uint prin) (uint index) < 2 ^ 64
      then Inr (word_of_int (currentDebt (uint prin) (uint index)))
      else Inl ArithmeticOverflow)"
proof -
  define m where "m = unat prin * unat index"
  have c: "currentDebt (uint prin) (uint index) = int (m div 10 ^ 18)"
    using currentDebt_nat [of "unat prin" "unat index"] by (simp add: m_def)
  have "uint prin * uint index = int m" by (simp add: m_def)
  then have u: "uint prin * uint index < 2 ^ 128 \<longleftrightarrow> m < 2 ^ 128" by (simp only:) simp
  have r: "int (m div 10 ^ 18) < 2 ^ 64 \<longleftrightarrow> m div 10 ^ 18 < 2 ^ 64"
    using of_nat_less_iff [of "m div 10 ^ 18" "2 ^ 64", where 'a = int] by simp
  show ?thesis
    unfolding current_debt_eq c u r Let_def m_def [symmetric] by simp
qed

text \<open>A loan within the pool's limit does not start out liquidatable: for parameters the pool's
  initialisation accepts and collateral worth at least \<open>ltv\<close> borrow units (at most a cent), any debt up
  to the program's maximum is below the liquidation value at the same price, for the program and
  for the frontend's test.\<close>

theorem fresh_loan_is_safe:
  assumes "validate_bps ltv thr bonus = Inr ()"
    and "calculate_max_borrow dep price ltv = Inr limit"
    and "debt \<le> limit"
    and "unat ltv \<le> unat dep * unat price div 10 ^ 9 div 100"
  shows "is_liquidatable dep price debt thr = Inr False
    \<and> \<not> isLiquidatable (uint dep) (uint price) (uint debt) (uint thr)"
proof -
  have "unat limit = max_borrow_nat (10 ^ 9) (unat dep) (unat price) (unat ltv)"
    using assms(2) by (auto simp: calculate_max_borrow_eq Let_def unat_word_of_nat_lt split: if_splits)
  moreover have "max_borrow_nat (10 ^ 9) (unat dep) (unat price) (unat ltv)
      \<le> liquidation_value_nat (10 ^ 9) (unat dep) (unat price) (unat thr)"
    using assms(1,4) by (intro max_borrow_le_liquidation_value) (simp_all add: validate_bps_iff)
  moreover have "unat debt \<le> unat limit" using assms(3) by (simp add: word_le_nat_alt)
  ultimately show ?thesis by (simp add: is_liquidatable_eq isLiquidatable_words)
qed

lemma fresh_loan_is_safe_witness:
  "is_liquidatable 2000000000 6000000000000 60000000000 8000 = Inr False"
proof -
  have "is_liquidatable 2000000000 6000000000000 60000000000 8000 = Inr False
    \<and> \<not> isLiquidatable (uint (2000000000 :: 64 word)) (uint (6000000000000 :: 64 word))
        (uint (60000000000 :: 64 word)) (uint (8000 :: 16 word))"
    by (rule fresh_loan_is_safe [of 5000 8000 500 _ _ 60000000000])
      (simp_all add: validate_bps_iff calculate_max_borrow_eq max_borrow_nat_def)
  then show ?thesis ..
qed

text \<open>Without that floor on the collateral the two roundings can cross: with a limit of 9998
  and a threshold of 9999 basis points, one coin priced at 199 hundred-millionths of a dollar allows
  a debt of one unit, which is liquidatable at once.\<close>

theorem fresh_dust_loan_unsafe:
  "validate_bps 9998 9999 0 = Inr () \<and> calculate_max_borrow 1000000000 199 9998 = Inr 1
   \<and> is_liquidatable 1000000000 199 1 9999 = Inr True"
  by (simp add: validate_bps_iff calculate_max_borrow_eq max_borrow_nat_def is_liquidatable_eq
      liquidation_value_nat_def)

text \<open>The frontend's test is monotone in the direction each input should push it: more
  collateral, a higher price or a higher threshold never makes a position liquidatable, and less
  debt never does either.\<close>

theorem isLiquidatable_mono:
  assumes "0 \<le> d" "d \<le> d'" "0 \<le> p" "p \<le> p'" "0 \<le> t" "t \<le> t'" "0 \<le> x" "x \<le> x'"
  shows "(isLiquidatable d' p' x t' \<longrightarrow> isLiquidatable d p x' t)
    \<and> (isBtcLiquidatable d' p' x t' \<longrightarrow> isBtcLiquidatable d p x' t)"
proof -
  note nat = isLiquidatable_nat [of "nat d" "nat p" "nat x'" "nat t"]
    isLiquidatable_nat [of "nat d'" "nat p'" "nat x" "nat t'"]
    isBtcLiquidatable_nat [of "nat d" "nat p" "nat x'" "nat t"]
    isBtcLiquidatable_nat [of "nat d'" "nat p'" "nat x" "nat t'"]
  have mono: "liquidation_value_nat K (nat d) (nat p) (nat t)
      \<le> liquidation_value_nat K (nat d') (nat p') (nat t')" for K
    using assms by (intro liquidation_value_mono) simp_all
  have "nat x \<le> nat x'" using assms by simp
  then show ?thesis
    using nat mono [of "10 ^ 9"] mono [of "10 ^ 8"] assms by auto
qed

lemma isLiquidatable_mono_witness:
  "isLiquidatable 1000000000 100000000 2000000 10000"
proof -
  have "isLiquidatable 1000000000 100000000 1000001 10000"
    by (simp add: isLiquidatable_def LGUSD_SCALE_def PRICE_SCALE_def)
  then show ?thesis
    using isLiquidatable_mono [of 1000000000 1000000000 100000000 100000000 10000 10000 1000001 2000000]
    by simp
qed

text \<open>Scaling a loan rounds in the borrower's favour: the debt read back at the same index is at
  most the amount, and falls short of it by at most one unit plus the index in rays.\<close>

theorem scaled_debt_bounds:
  assumes "to_scaled amount index = Inr prin" and "current_debt prin index = Inr debt"
  shows "unat debt \<le> unat amount \<and> unat amount \<le> unat debt + unat index div 10 ^ 18 + 1"
proof -
  define a i where "a = unat amount" and "i = unat index"
  have i: "0 < i" and p: "unat prin = a * 10 ^ 18 div i"
    using assms(1) by (auto simp: to_scaled_eq Let_def unat_word_of_nat_lt a_def i_def split: if_splits)
  have d: "unat debt = (a * 10 ^ 18 div i) * i div 10 ^ 18"
    using assms(2) p by (auto simp: current_debt_eq Let_def unat_word_of_nat_lt i_def split: if_splits)
  define m where "m = (a * 10 ^ 18 div i) * i"
  have m: "m \<le> a * 10 ^ 18" "a * 10 ^ 18 < m + i"
    using dividend_less_div_times [OF i, of "a * 10 ^ 18"]
    by (simp_all add: m_def div_times_less_eq_dividend add.commute)
  have up: "m div 10 ^ 18 \<le> a" using div_le_mono [OF m(1), of "10 ^ 18"] by simp
  have "a * 10 ^ 18 \<le> m + i" using m(2) by simp
  then have "a \<le> (m + i) div 10 ^ 18" using div_le_mono [of "a * 10 ^ 18" "m + i" "10 ^ 18"] by simp
  also have "\<dots> \<le> m div 10 ^ 18 + i div 10 ^ 18 + 1"
    by (simp add: div_add1_eq [of m i])
  finally show ?thesis using up by (simp add: d m_def a_def i_def)
qed

lemma scaled_debt_bounds_witness:
  "unat (999999 :: 64 word) \<le> unat (1000000 :: 64 word)"
proof -
  have s: "to_scaled 1000000 1100000000000000000 = Inr 909090"
    by (simp add: to_scaled_eq)
  have d: "current_debt 909090 1100000000000000000 = Inr 999999"
    by (simp add: current_debt_eq)
  show ?thesis using scaled_debt_bounds [OF s d] by blast
qed

end
