(* ===== verification/Amounts.thy ===== *)
theory Amounts
  imports Text_Codec Lending_Math
begin

text \<open>
  The decimal text of amounts: \<open>formatLgUsd\<close>, \<open>parseLgUsd\<close> and \<open>formatBtc\<close> of
  \<open>web/lib/lending-client.ts\<close> and the SDK's copies, with the string methods they use
  (\<open>trim\<close>, \<open>split\<close>, \<open>slice\<close>, \<open>padStart\<close>, the \<open>/0+$/\<close> replacement), \<open>bigint\<close> to text, and \<open>BigInt(text)\<close>
  as the language standard parses it: white space around, a sign before decimal digits, or a
  \<open>0x\<close>, \<open>0o\<close> or \<open>0b\<close> prefix. What is shown: every amount of the chain is read back from its text.
\<close>

section \<open>Text of the runtime\<close>

definition is_white_space :: "nat \<Rightarrow> bool" where
  "is_white_space c \<longleftrightarrow> 9 \<le> c \<and> c \<le> 13 \<or> c = 32 \<or> c = 160 \<or> c = 5760 \<or> 8192 \<le> c \<and> c \<le> 8202
     \<or> c = 8232 \<or> c = 8233 \<or> c = 8239 \<or> c = 8287 \<or> c = 12288 \<or> c = 65279"

definition js_trim :: "jstext \<Rightarrow> jstext" where
  "js_trim s = rev (dropWhile is_white_space (rev (dropWhile is_white_space s)))"

text \<open>\<open>split\<close> by a separator of one character: always at least one piece.\<close>

fun js_split :: "nat \<Rightarrow> jstext \<Rightarrow> jstext list" where
  "js_split sep [] = [[]]"
| "js_split sep (c # cs) =
     (if c = sep then [] # js_split sep cs
      else case js_split sep cs of [] \<Rightarrow> [[c]] | p # ps \<Rightarrow> (c # p) # ps)"

definition padStart :: "nat \<Rightarrow> nat \<Rightarrow> jstext \<Rightarrow> jstext" where
  "padStart n fill s = replicate (n - length s) fill @ s"

text \<open>\<open>replace(/0+$/, "")\<close>\<close>

definition strip_zeros :: "jstext \<Rightarrow> jstext" where
  "strip_zeros s = rev (dropWhile (\<lambda>c. c = 48) (rev s))"

fun nat_to_text :: "nat \<Rightarrow> jstext" where
  "nat_to_text n = (if n < 10 then [48 + n] else nat_to_text (n div 10) @ [48 + n mod 10])"

declare nat_to_text.simps [simp del]

definition bigint_to_text :: "int \<Rightarrow> jstext" where
  "bigint_to_text x = (if x < 0 then 45 # nat_to_text (nat (- x)) else nat_to_text (nat x))"

text \<open>The value of a digit in a radix, and of digits most significant first.\<close>

definition digit_value :: "nat \<Rightarrow> nat \<Rightarrow> nat option" where
  "digit_value radix c =
     (let d = if 48 \<le> c \<and> c \<le> 57 then c - 48 else if 97 \<le> c \<and> c \<le> 122 then c - 87
              else if 65 \<le> c \<and> c \<le> 90 then c - 55 else radix
      in if d < radix then Some d else None)"

fun digits_value :: "nat \<Rightarrow> nat \<Rightarrow> jstext \<Rightarrow> nat option" where
  "digits_value radix v [] = Some v"
| "digits_value radix v (c # cs) =
     (case digit_value radix c of None \<Rightarrow> None | Some d \<Rightarrow> digits_value radix (v * radix + d) cs)"

definition literal :: "nat \<Rightarrow> jstext \<Rightarrow> int js" where
  "literal radix s =
     (if s = [] then Inl SyntaxError
      else case digits_value radix 0 s of None \<Rightarrow> Inl SyntaxError | Some v \<Rightarrow> Inr (int v))"

text \<open>\<open>BigInt(s)\<close>: white space alone is zero; a prefix excludes a sign.\<close>

definition js_BigInt :: "jstext \<Rightarrow> int js" where
  "js_BigInt s =
     (case js_trim s of
        [] \<Rightarrow> Inr 0
      | c # cs \<Rightarrow>
          if c = 45 then js_bind (literal 10 cs) (\<lambda>v. Inr (- v))
          else if c = 43 then literal 10 cs
          else if c = 48 \<and> cs \<noteq> [] \<and> hd cs \<in> {120, 88} then literal 16 (tl cs)
          else if c = 48 \<and> cs \<noteq> [] \<and> hd cs \<in> {111, 79} then literal 8 (tl cs)
          else if c = 48 \<and> cs \<noteq> [] \<and> hd cs \<in> {98, 66} then literal 2 (tl cs)
          else literal 10 (c # cs))"

text \<open>\<open>s || t\<close> on strings.\<close>

definition text_or :: "jstext \<Rightarrow> jstext \<Rightarrow> jstext" where
  "text_or s t = (if s = [] then t else s)"

section \<open>The amounts of the frontend and the SDK\<close>

definition formatLgUsd :: "int \<Rightarrow> jstext" where
  "formatLgUsd amount =
     (let whole = bigint_div amount LGUSD_SCALE;
          frac = bigint_rem amount LGUSD_SCALE;
          fracText = strip_zeros (padStart 6 48 (bigint_to_text frac))
      in if fracText \<noteq> [] then bigint_to_text whole @ 46 # fracText else bigint_to_text whole)"

definition parseLgUsd :: "jstext \<Rightarrow> int js" where
  "parseLgUsd amount =
     (let pieces = js_split 46 (js_trim amount);
          wholeRaw = hd pieces;
          fracRaw = (case tl pieces of [] \<Rightarrow> [] | p # ps \<Rightarrow> p)
      in js_bind (js_BigInt (text_or wholeRaw [48])) (\<lambda>w.
         let whole = w * LGUSD_SCALE;
             fracPadded = take 6 (fracRaw @ replicate 6 48)
         in js_bind (js_BigInt (text_or fracPadded [48])) (\<lambda>f. Inr (whole + f))))"

definition formatBtc :: "int \<Rightarrow> jstext" where
  "formatBtc satoshis =
     (let whole = bigint_div satoshis SATOSHIS_PER_BTC;
          frac = bigint_rem satoshis SATOSHIS_PER_BTC;
          fracText = strip_zeros (padStart 8 48 (bigint_to_text frac))
      in if fracText \<noteq> [] then bigint_to_text whole @ 46 # fracText else bigint_to_text whole)"

definition sdk_formatLgUsd :: "int \<Rightarrow> jstext" where
  "sdk_formatLgUsd amount =
     (let whole = bigint_div amount sdk_LGUSD_SCALE;
          frac = bigint_rem amount sdk_LGUSD_SCALE;
          fracText = strip_zeros (padStart 6 48 (bigint_to_text frac))
      in if fracText \<noteq> [] then bigint_to_text whole @ 46 # fracText else bigint_to_text whole)"

definition sdk_parseLgUsd :: "jstext \<Rightarrow> int js" where
  "sdk_parseLgUsd amount =
     (let pieces = js_split 46 (js_trim amount);
          wholeRaw = hd pieces;
          fracRaw = (case tl pieces of [] \<Rightarrow> [] | p # ps \<Rightarrow> p)
      in js_bind (js_BigInt (text_or wholeRaw [48])) (\<lambda>w.
         let whole = w * sdk_LGUSD_SCALE;
             fracPadded = take 6 (fracRaw @ replicate 6 48)
         in js_bind (js_BigInt (text_or fracPadded [48])) (\<lambda>f. Inr (whole + f))))"

section \<open>Digits\<close>

definition is_digit :: "nat \<Rightarrow> bool" where
  "is_digit c \<longleftrightarrow> 48 \<le> c \<and> c \<le> 57"

lemma is_digit_add: "d < 10 \<Longrightarrow> is_digit (48 + d)"
  by (simp add: is_digit_def)

lemma nat_to_text_digits: "list_all is_digit (nat_to_text n)"
proof (induction n rule: nat_to_text.induct)
  case (1 n)
  then show ?case
    by (cases "n < 10") (simp_all add: nat_to_text.simps [of n] is_digit_add)
qed

lemma nat_to_text_nonempty [simp]: "nat_to_text n \<noteq> []"
  by (subst nat_to_text.simps) simp

lemma digits_value_append:
  "digits_value r v (xs @ ys) =
     (case digits_value r v xs of None \<Rightarrow> None | Some w \<Rightarrow> digits_value r w ys)"
  by (induction xs arbitrary: v) (auto split: option.splits)

lemma digit_value_10: "d < 10 \<Longrightarrow> digit_value 10 (48 + d) = Some d"
  by (simp add: digit_value_def)

lemma digits_value_zeros: "digits_value 10 0 (replicate k 48 @ s) = digits_value 10 0 s"
  by (induction k) (simp_all add: digit_value_def)

lemma digits_value_nat_to_text: "digits_value 10 0 (nat_to_text n) = Some n"
proof (induction n rule: nat_to_text.induct)
  case (1 n)
  show ?case
  proof (cases "n < 10")
    case True
    then show ?thesis by (simp add: nat_to_text.simps [of n] digit_value_10)
  next
    case False
    then show ?thesis
      using "1" by (simp add: nat_to_text.simps [of n] digits_value_append digit_value_10)
  qed
qed

lemma length_nat_to_text: "0 < k \<Longrightarrow> n < 10 ^ k \<Longrightarrow> length (nat_to_text n) \<le> k"
proof (induction n arbitrary: k rule: nat_to_text.induct)
  case (1 n)
  show ?case
  proof (cases "n < 10")
    case True
    then show ?thesis using "1.prems" by (simp add: nat_to_text.simps [of n])
  next
    case False
    obtain j where k: "k = Suc j" using "1.prems" by (cases k) auto
    have j: "n div 10 < 10 ^ j" using "1.prems" by (simp add: k less_mult_imp_div_less mult.commute)
    then have "0 < j" using False by (cases j) simp_all
    with j have "length (nat_to_text (n div 10)) \<le> j" using "1.IH" False by blast
    then show ?thesis using False by (simp add: nat_to_text.simps [of n] k)
  qed
qed

lemma dropWhile_hd: "xs \<noteq> [] \<Longrightarrow> \<not> P (hd xs) \<Longrightarrow> dropWhile P xs = xs"
  by (cases xs) simp_all

lemma js_trim_id: "list_all (\<lambda>c. \<not> is_white_space c) s \<Longrightarrow> js_trim s = s"
proof (cases "s = []")
  case False
  assume "list_all (\<lambda>c. \<not> is_white_space c) s"
  then have "\<not> is_white_space (hd s)" "\<not> is_white_space (hd (rev s))"
    using False by (simp_all add: list_all_iff hd_rev)
  then show ?thesis using False by (simp add: js_trim_def dropWhile_hd)
qed (simp add: js_trim_def)

lemma digit_not_white: "is_digit c \<Longrightarrow> \<not> is_white_space c"
  by (auto simp: is_digit_def is_white_space_def)

lemma dot_not_white: "\<not> is_white_space 46"
  by (simp add: is_white_space_def)

lemma js_trim_digits: "list_all is_digit s \<Longrightarrow> js_trim s = s"
  by (rule js_trim_id) (auto simp: list_all_iff digit_not_white)

text \<open>\<open>BigInt\<close> reads plain digits, leading zeros included.\<close>

lemma js_BigInt_digits:
  assumes "list_all is_digit s" "s \<noteq> []" "digits_value 10 0 s = Some v"
  shows "js_BigInt s = Inr (int v)"
proof -
  obtain c cs where s: "s = c # cs" using assms(2) by (cases s) auto
  have c: "is_digit c" "cs \<noteq> [] \<Longrightarrow> is_digit (hd cs)"
    using assms(1) by (auto simp: s list_all_iff)
  have "js_BigInt s = literal 10 s"
    using c js_trim_digits [OF assms(1)] by (auto simp: js_BigInt_def s is_digit_def)
  then show ?thesis using assms(3) by (simp add: literal_def s)
qed

lemma js_split_no_sep: "sep \<notin> set s \<Longrightarrow> js_split sep s = [s]"
  by (induction s) simp_all

lemma js_split_at: "sep \<notin> set s \<Longrightarrow> js_split sep (s @ sep # t) = s # js_split sep t"
  by (induction s) simp_all

lemma strip_zeros_pad: "\<exists>k. s = strip_zeros s @ replicate k 48"
proof -
  have "s = rev (dropWhile (\<lambda>c. c = 48) (rev s)) @ rev (takeWhile (\<lambda>c. c = 48) (rev s))"
    by (metis rev_append rev_rev_ident takeWhile_dropWhile_id)
  moreover have "takeWhile (\<lambda>c. c = 48) (rev s) = replicate (length (takeWhile (\<lambda>c. c = 48) (rev s))) 48"
    by (rule replicate_length_same [symmetric]) (auto dest: set_takeWhileD)
  ultimately show ?thesis unfolding strip_zeros_def by (metis rev_replicate)
qed

text \<open>The fraction: padded to its width, stripped, and padded again on the right.\<close>

lemma strip_zeros_refill:
  assumes "length s = n"
  shows "take n (strip_zeros s @ replicate n 48) = s"
proof -
  obtain k where k: "s = strip_zeros s @ replicate k 48" using strip_zeros_pad by blast
  then have n: "n = length (strip_zeros s) + k" using assms by (metis length_append length_replicate)
  have "take n (strip_zeros s @ replicate n 48) = strip_zeros s @ replicate k 48"
    by (simp add: n min_def)
  then show ?thesis using k by simp
qed

lemma strip_zeros_digits: "list_all is_digit s \<Longrightarrow> list_all is_digit (strip_zeros s)"
  by (auto simp: strip_zeros_def list_all_iff dest: set_dropWhileD)

text \<open>A formatted amount, over natural numbers, for a scale of \<open>k\<close> digits.\<close>

definition decimal_text :: "nat \<Rightarrow> nat \<Rightarrow> jstext" where
  "decimal_text k n =
     (let f = strip_zeros (padStart k 48 (nat_to_text (n mod 10 ^ k)))
      in if f \<noteq> [] then nat_to_text (n div 10 ^ k) @ 46 # f else nat_to_text (n div 10 ^ k))"

lemma bigint_to_text_nat [simp]: "bigint_to_text (int n) = nat_to_text n"
  by (simp add: bigint_to_text_def)

lemma bigint_parts:
  "0 < k \<Longrightarrow> bigint_div (int n) (int k) = int (n div k)"
  "0 < k \<Longrightarrow> bigint_rem (int n) (int k) = int (n mod k)"
  by (simp_all add: zdiv_int zmod_int)

lemma formatLgUsd_nat: "formatLgUsd (int n) = decimal_text 6 n"
  using bigint_parts [of 1000000 n]
  by (simp add: formatLgUsd_def decimal_text_def LGUSD_SCALE_def Let_def
      del: bigint_div_nonneg bigint_rem_nonneg)

lemma formatBtc_nat: "formatBtc (int n) = decimal_text 8 n"
  using bigint_parts [of 100000000 n]
  by (simp add: formatBtc_def decimal_text_def SATOSHIS_PER_BTC_def Let_def
      del: bigint_div_nonneg bigint_rem_nonneg)

lemma sdk_amounts_eq: "sdk_formatLgUsd = formatLgUsd" "sdk_parseLgUsd = parseLgUsd"
  by (simp_all add: fun_eq_iff sdk_formatLgUsd_def formatLgUsd_def sdk_parseLgUsd_def
      parseLgUsd_def sdk_LGUSD_SCALE_def LGUSD_SCALE_def)

text \<open>The pieces of such a text: the whole part, and the fraction if it is not zero.\<close>

definition decimal_frac :: "nat \<Rightarrow> nat \<Rightarrow> jstext" where
  "decimal_frac k n = strip_zeros (padStart k 48 (nat_to_text (n mod 10 ^ k)))"

lemma decimal_pad_length:
  "0 < k \<Longrightarrow> length (padStart k 48 (nat_to_text (n mod 10 ^ k))) = k"
  using length_nat_to_text [of k "n mod 10 ^ k"] by (simp add: padStart_def)

lemma decimal_frac_refill:
  "0 < k \<Longrightarrow> take k (decimal_frac k n @ replicate k 48) = padStart k 48 (nat_to_text (n mod 10 ^ k))"
  using strip_zeros_refill [OF decimal_pad_length [of k n]] by (simp add: decimal_frac_def)

lemma padStart_digits: "list_all is_digit s \<Longrightarrow> list_all is_digit (padStart k 48 s)"
  by (auto simp: padStart_def list_all_iff is_digit_def)

lemma decimal_frac_digits: "list_all is_digit (decimal_frac k n)"
  by (simp add: decimal_frac_def strip_zeros_digits padStart_digits nat_to_text_digits)

lemma no_dot_in_digits: "list_all is_digit s \<Longrightarrow> 46 \<notin> set s"
  by (auto simp: list_all_iff is_digit_def)

lemma decimal_text_trim: "js_trim (decimal_text k n) = decimal_text k n"
proof (rule js_trim_id)
  have "\<not> is_white_space 46" by (simp add: is_white_space_def)
  then show "list_all (\<lambda>c. \<not> is_white_space c) (decimal_text k n)"
    using decimal_frac_digits [of k n] nat_to_text_digits [of "n div 10 ^ k"]
    by (auto simp: decimal_text_def list_all_iff digit_not_white Let_def simp flip: decimal_frac_def)
qed

lemma decimal_text_split:
  "js_split 46 (decimal_text k n) =
     nat_to_text (n div 10 ^ k) # (if decimal_frac k n = [] then [] else [decimal_frac k n])"
  using no_dot_in_digits [OF nat_to_text_digits [of "n div 10 ^ k"]]
    no_dot_in_digits [OF decimal_frac_digits [of k n]]
  by (simp add: decimal_text_def Let_def js_split_no_sep js_split_at flip: decimal_frac_def)

lemma js_BigInt_nat_to_text: "js_BigInt (nat_to_text n) = Inr (int n)"
  by (simp add: js_BigInt_digits nat_to_text_digits digits_value_nat_to_text)

lemma js_BigInt_padStart: "js_BigInt (padStart k 48 (nat_to_text n)) = Inr (int n)"
proof (rule js_BigInt_digits)
  show "list_all is_digit (padStart k 48 (nat_to_text n))"
    by (rule padStart_digits [OF nat_to_text_digits])
qed (simp_all add: digits_value_zeros digits_value_nat_to_text padStart_def)

section \<open>Any decimal text\<close>

fun dec_value :: "jstext \<Rightarrow> nat" where
  "dec_value [] = 0"
| "dec_value (c # cs) = (c - 48) * 10 ^ length cs + dec_value cs"

lemma digit_value_digit: "is_digit c \<Longrightarrow> digit_value 10 c = Some (c - 48)"
  by (auto simp: digit_value_def is_digit_def Let_def)

lemma digits_value_dec:
  "list_all is_digit s \<Longrightarrow> digits_value 10 v s = Some (v * 10 ^ length s + dec_value s)"
proof (induction s arbitrary: v)
  case (Cons c cs)
  define d where "d = c - 48"
  show ?case
    using Cons by (simp add: digit_value_digit flip: d_def) (simp add: algebra_simps)
qed simp

lemma dec_value_append: "dec_value (xs @ ys) = dec_value xs * 10 ^ length ys + dec_value ys"
  by (induction xs) (simp_all add: power_add algebra_simps)

lemma dec_value_lt: "list_all is_digit s \<Longrightarrow> dec_value s < 10 ^ length s"
proof (induction s)
  case (Cons c cs)
  then have "c - 48 \<le> 9" "dec_value cs < 10 ^ length cs" by (auto simp: is_digit_def)
  then have "(c - 48) * 10 ^ length cs + dec_value cs < 9 * 10 ^ length cs + 10 ^ length cs"
    by (intro add_le_less_mono mult_le_mono1)
  then show ?case by simp
qed simp

lemma dec_value_zeros: "dec_value (replicate k 48) = 0"
  by (induction k) simp_all

lemma js_BigInt_dec: "list_all is_digit s \<Longrightarrow> s \<noteq> [] \<Longrightarrow> js_BigInt s = Inr (int (dec_value s))"
  by (rule js_BigInt_digits) (simp_all add: digits_value_dec)

lemma js_trim_decimal:
  "list_all is_digit w \<Longrightarrow> list_all is_digit f \<Longrightarrow> js_trim (w @ 46 # f) = w @ 46 # f"
  by (rule js_trim_id) (auto simp: list_all_iff digit_not_white dot_not_white)

lemma parse_decimal:
  assumes w: "list_all is_digit w" and f: "list_all is_digit f"
  shows "parseLgUsd (w @ 46 # f)
    = Inr (int (dec_value w * 10 ^ 6 + dec_value (take 6 (f @ replicate 6 48))))"
proof -
  have pieces: "js_split 46 (w @ 46 # f) = [w, f]"
    using no_dot_in_digits [OF w] no_dot_in_digits [OF f] by (simp add: js_split_at js_split_no_sep)
  have whole: "js_BigInt (text_or w [48]) = Inr (int (dec_value w))"
    using js_BigInt_dec [OF w] js_BigInt_dec [of "[48]"] by (auto simp: text_or_def is_digit_def)
  have "take 6 (f @ replicate 6 48) \<noteq> []" by simp
  moreover have "list_all is_digit (take 6 (f @ replicate 6 48))"
    using f by (auto simp: list_all_iff is_digit_def simp del: take_append dest!: in_set_takeD)
  ultimately have "js_BigInt (text_or (take 6 (f @ replicate 6 48)) [48])
      = Inr (int (dec_value (take 6 (f @ replicate 6 48))))"
    by (simp add: text_or_def js_BigInt_dec del: take_append)
  with whole show ?thesis
    by (simp add: parseLgUsd_def js_trim_decimal [OF w f] pieces LGUSD_SCALE_def
        del: take_append)
qed

lemma dec_value_six:
  assumes f: "list_all is_digit f"
  defines "m \<equiv> dec_value (take 6 (f @ replicate 6 48))"
  shows "m * 10 ^ length f \<le> dec_value f * 10 ^ 6 \<and> dec_value f * 10 ^ 6 < (m + 1) * 10 ^ length f"
proof (cases "length f \<le> 6")
  case True
  then have "take 6 (f @ replicate 6 48) = f @ replicate (6 - length f) 48" by simp
  then have "m = dec_value f * 10 ^ (6 - length f)"
    by (simp only: m_def dec_value_append dec_value_zeros length_replicate)
  then have "m * 10 ^ length f = dec_value f * 10 ^ 6"
    using True by (simp flip: power_add)
  then show ?thesis by simp
next
  case False
  define k where "k = length f - 6"
  have len: "length f = 6 + k" "length (drop 6 f) = k" using False by (simp_all add: k_def)
  have m: "m = dec_value (take 6 f)" using False by (simp add: m_def)
  have "dec_value f = m * 10 ^ k + dec_value (drop 6 f)"
    using dec_value_append [of "take 6 f" "drop 6 f"] by (simp add: m len)
  moreover have "dec_value (drop 6 f) < 10 ^ k"
    using dec_value_lt [of "drop 6 f"] f len by (simp add: list_all_iff in_set_dropD)
  ultimately have "m * 10 ^ k \<le> dec_value f" "dec_value f < (m + 1) * 10 ^ k" by simp_all
  then have "m * 10 ^ k * 10 ^ 6 \<le> dec_value f * 10 ^ 6"
    "dec_value f * 10 ^ 6 < (m + 1) * 10 ^ k * 10 ^ 6" by simp_all
  then show ?thesis by (simp add: len power_add algebra_simps)
qed

section \<open>Properties\<close>

text \<open>C31: an amount survives its text: parsing what \<open>formatLgUsd\<close> prints gives the amount back, for
  every amount the chain can hold and beyond, in the frontend and in the SDK.\<close>

theorem parse_format_LgUsd:
  "parseLgUsd (formatLgUsd (int n)) = Inr (int n)
   \<and> sdk_parseLgUsd (sdk_formatLgUsd (int n)) = Inr (int n)"
proof -
  have frac: "take 6 (decimal_frac 6 n @ replicate 6 48) = padStart 6 48 (nat_to_text (n mod 10 ^ 6))"
    by (rule decimal_frac_refill) simp
  have "padStart 6 48 (nat_to_text (n mod 10 ^ 6)) \<noteq> []" by (simp add: padStart_def)
  then have "js_BigInt (text_or (take 6 (decimal_frac 6 n @ replicate 6 48)) [48])
      = Inr (int (n mod 10 ^ 6))"
    unfolding frac by (simp add: text_or_def js_BigInt_padStart)
  moreover have "(case if decimal_frac 6 n = [] then [] else [decimal_frac 6 n] of
      [] \<Rightarrow> [] | p # ps \<Rightarrow> p) = decimal_frac 6 n" by simp
  moreover have "int (n div 10 ^ 6) * 1000000 + int (n mod 10 ^ 6) = int n"
  proof -
    have "int (n div 1000000 * 1000000 + n mod 1000000) = int n" by (simp only: div_mult_mod_eq)
    then show ?thesis by (simp only: of_nat_add of_nat_mult of_nat_numeral) simp
  qed
  ultimately have "parseLgUsd (decimal_text 6 n) = Inr (int n)"
    by (simp only: parseLgUsd_def decimal_text_trim decimal_text_split Let_def list.sel
        text_or_def nat_to_text_nonempty if_False js_BigInt_nat_to_text js_bind_Inr LGUSD_SCALE_def)
  then show ?thesis by (simp add: sdk_amounts_eq formatLgUsd_nat)
qed

text \<open>A decimal text, however long its fraction, is read as the largest amount not above it:
  for a number \<open>v\<close> written with \<open>k\<close> digits after the point, the result \<open>m\<close> satisfies
  \<open>m / 10^6 \<le> v / 10^k < (m + 1) / 10^6\<close>. The digits before or after the point may be missing.\<close>

theorem parseLgUsd_truncates:
  assumes "list_all is_digit w" and "list_all is_digit f"
  shows "\<exists>m. parseLgUsd (w @ 46 # f) = Inr (int m)
    \<and> m * 10 ^ length f \<le> dec_value (w @ f) * 10 ^ 6
    \<and> dec_value (w @ f) * 10 ^ 6 < (m + 1) * 10 ^ length f"
  using parse_decimal [OF assms] dec_value_six [OF assms(2)]
  by (intro exI [of _ "dec_value w * 10 ^ 6 + dec_value (take 6 (f @ replicate 6 48))"])
    (simp add: dec_value_append algebra_simps del: take_append)

lemma parseLgUsd_truncates_witness:
  "\<exists>m. parseLgUsd (ascii ''1.2345678'') = Inr (int m) \<and> m * 10 ^ 7 \<le> 12345678 * 10 ^ 6
     \<and> 12345678 * 10 ^ 6 < (m + 1) * 10 ^ 7"
  using parseLgUsd_truncates [of "ascii ''1''" "ascii ''2345678''"]
  by (simp add: ascii_def is_digit_def)

lemmas amount_eval = parseLgUsd_def ascii_def js_trim_def is_white_space_def text_or_def
  js_BigInt_def literal_def digit_value_def LGUSD_SCALE_def replicate_numeral

lemma negative_text:
  "bigint_to_text (- 500000) = [45, 53, 48, 48, 48, 48, 48]" "bigint_to_text (- 1) = [45, 49]"
  by (simp_all add: bigint_to_text_def nat_to_text.simps)

lemma formatLgUsd_negative: "formatLgUsd (- 1500000) = ascii ''-1.-5''"
proof -
  have d: "bigint_div (- 1500000) LGUSD_SCALE = - 1"
    by (simp add: bigint_div_def LGUSD_SCALE_def)
  have r: "bigint_rem (- 1500000) LGUSD_SCALE = - 500000"
    by (simp add: bigint_rem_def d) (simp add: LGUSD_SCALE_def)
  show ?thesis
    by (simp add: formatLgUsd_def d r negative_text padStart_def strip_zeros_def ascii_def)
qed

text \<open>What the parser lets through besides: the sign applies to the whole part only, so
  \<open>-1.5\<close> is minus half a dollar; a fraction is parsed as a number of its own, prefix included;
  a second point is dropped; an exponent is refused. Negative amounts do not print as decimals.\<close>

theorem parseLgUsd_quirks:
  "parseLgUsd (ascii ''-1.5'') = Inr (- 500000) \<and> parseLgUsd (ascii ''1.0x1'') = Inr 1004096
   \<and> parseLgUsd (ascii ''1.2.9'') = Inr 1200000 \<and> parseLgUsd (ascii ''1e3'') = Inl SyntaxError
   \<and> parseLgUsd (ascii '' '') = Inr 0 \<and> formatLgUsd (- 1500000) = ascii ''-1.-5''"
  by (simp add: amount_eval formatLgUsd_negative [unfolded ascii_def])

end
