(* ===== verification/Builders_Web.thy ===== *)
theory Builders_Web
  imports Readers
begin

text \<open>
  The instruction builders of \<open>web/lib/program-actions.ts\<close>. Each derives the addresses it needs,
  in the code's order, joins the instruction's discriminator and arguments, and lists the accounts
  with their signer and writable flags. The object of parameters is a list of arguments in its
  order; an optional one is an \<open>option\<close>. A builder that returns addresses beside the instruction
  returns a tuple.
\<close>

text \<open>\<open>x ?? y\<close>\<close>

definition js_default :: "'a option \<Rightarrow> 'a \<Rightarrow> 'a" where
  "js_default x y = (case x of None \<Rightarrow> y | Some v \<Rightarrow> v)"

lemma js_default_simps [simp]: "js_default None y = y" "js_default (Some v) y = v"
  by (simp_all add: js_default_def)

definition web_ASSET_BTC :: int where "web_ASSET_BTC = 0"

section \<open>Reads\<close>

definition accountExists :: "connection \<Rightarrow> pubkey \<Rightarrow> bool js" where
  "accountExists conn address =
     js_bind (getAccountInfo conn address) (\<lambda>info. Inr (info \<noteq> None))"

text \<open>\<open>info.data[40] === 1\<close>: false as well on data too short to hold the flag.\<close>

definition readProtocolFrozen :: "platform \<Rightarrow> connection \<Rightarrow> bool option js" where
  "readProtocolFrozen P conn =
     js_bind (deriveProtocolStatePda P) (\<lambda>(protocolStatePda, _).
     js_bind (getAccountInfo conn protocolStatePda) (\<lambda>info.
       case info of
         None \<Rightarrow> Inr None
       | Some data \<Rightarrow> Inr (Some (get_byte data 40 = Some 1))))"

section \<open>Builders\<close>

definition buildInitializeProtocolIx ::
    "platform \<Rightarrow> pubkey \<Rightarrow> transaction_instruction js" where
  "buildInitializeProtocolIx P admin =
     js_bind (deriveProtocolStatePda P) (\<lambda>(protocolStatePda, _).
     let disc = sighash P ''initialize_protocol'' in
     Inr \<lparr>ix_program_id = PROGRAM_ID P,
        ix_keys =
         [meta protocolStatePda False True, meta admin True True,
          meta SystemProgram_programId False False],
        ix_data = disc\<rparr>)"

definition buildRegisterVaultIx ::
    "platform \<Rightarrow> pubkey \<Rightarrow> bytes \<Rightarrow> int
     \<Rightarrow> (transaction_instruction \<times> pubkey) js" where
  "buildRegisterVaultIx P owner dwalletId assetType =
     js_bind (deriveProtocolStatePda P) (\<lambda>(protocolStatePda, _).
     js_bind (deriveVaultPda P owner dwalletId) (\<lambda>(vaultPda, _).
     let disc = sighash P ''register_vault'' in
     js_bind (concat_arrays [disc, take 32 dwalletId, [to_uint8 assetType]]) (\<lambda>data.
     let ix = \<lparr>ix_program_id = PROGRAM_ID P,
        ix_keys =
         [meta vaultPda False True, meta protocolStatePda False True, meta owner True True,
          meta SystemProgram_programId False False],
        ix_data = data\<rparr> in
     Inr (ix, vaultPda))))"

definition buildDepositCollateralIx ::
    "platform \<Rightarrow> pubkey \<Rightarrow> pubkey \<Rightarrow> int
     \<Rightarrow> transaction_instruction js" where
  "buildDepositCollateralIx P owner vaultPda amountLamports =
     js_bind (deriveProtocolStatePda P) (\<lambda>(protocolStatePda, _).
     let disc = sighash P ''deposit_collateral'' in
     js_bind (concat_arrays [disc, u64ToLe amountLamports]) (\<lambda>data.
     Inr \<lparr>ix_program_id = PROGRAM_ID P,
        ix_keys =
         [meta vaultPda False True, meta protocolStatePda False True, meta owner True True,
          meta SystemProgram_programId False False],
        ix_data = data\<rparr>))"

definition buildVerifyCustodyProofIx ::
    "platform \<Rightarrow> pubkey \<Rightarrow> pubkey \<Rightarrow> pubkey \<Rightarrow> bytes
     \<Rightarrow> transaction_instruction js" where
  "buildVerifyCustodyProofIx P owner vaultPda messageApprovalPda expectedDwalletId =
     (let disc = sighash P ''verify_custody_proof'' in
     js_bind (concat_arrays [disc, take 32 expectedDwalletId]) (\<lambda>data.
     Inr \<lparr>ix_program_id = PROGRAM_ID P,
        ix_keys =
         [meta vaultPda False True, meta messageApprovalPda False False, meta owner True True],
        ix_data = data\<rparr>))"

definition buildInitializeRiskStateIx ::
    "platform \<Rightarrow> pubkey \<Rightarrow> pubkey \<Rightarrow> pubkey
     \<Rightarrow> transaction_instruction js" where
  "buildInitializeRiskStateIx P owner vaultPda thresholdCiphertext =
     js_bind (deriveRiskStatePda P vaultPda) (\<lambda>(riskStatePda, _).
     let disc = sighash P ''initialize_risk_state'' in
     js_bind (concat_arrays [disc, to_buffer thresholdCiphertext]) (\<lambda>data.
     Inr \<lparr>ix_program_id = PROGRAM_ID P,
        ix_keys =
         [meta riskStatePda False True, meta vaultPda False False, meta owner True True,
          meta SystemProgram_programId False False],
        ix_data = data\<rparr>))"

definition buildUpdateBackingStateIx ::
    "platform \<Rightarrow> pubkey \<Rightarrow> pubkey \<Rightarrow> pubkey \<Rightarrow> int
     \<Rightarrow> transaction_instruction js" where
  "buildUpdateBackingStateIx P owner vaultPda backingCiphertextPda newBackingAmount =
     js_bind (deriveProtocolStatePda P) (\<lambda>(protocolStatePda, _).
     js_bind (deriveRiskStatePda P vaultPda) (\<lambda>(riskStatePda, _).
     let disc = sighash P ''update_backing_state'' in
     js_bind (concat_arrays [disc, u64ToLe newBackingAmount]) (\<lambda>data.
     Inr \<lparr>ix_program_id = PROGRAM_ID P,
        ix_keys =
         [meta vaultPda False False, meta riskStatePda False True,
          meta protocolStatePda False False, meta (PROGRAM_ID P) False False,
          meta backingCiphertextPda False True, meta owner True False, meta owner True True,
          meta SystemProgram_programId False False],
        ix_data = data\<rparr>)))"

definition buildTriggerRiskCheckIx ::
    "platform \<Rightarrow> pubkey \<Rightarrow> pubkey \<Rightarrow> pubkey \<Rightarrow> pubkey
     \<Rightarrow> pubkey \<Rightarrow> transaction_instruction js" where
  "buildTriggerRiskCheckIx P owner vaultPda backingCiphertextPda thresholdCiphertextPda
      resultCiphertextPda =
     js_bind (deriveProtocolStatePda P) (\<lambda>(protocolStatePda, _).
     js_bind (deriveRiskStatePda P vaultPda) (\<lambda>(riskStatePda, _).
     let disc = sighash P ''trigger_risk_check'' in
     Inr \<lparr>ix_program_id = PROGRAM_ID P,
        ix_keys =
         [meta vaultPda False True, meta riskStatePda False True,
          meta protocolStatePda False True, meta (PROGRAM_ID P) False False,
          meta backingCiphertextPda False False, meta thresholdCiphertextPda False False,
          meta resultCiphertextPda False True, meta owner True True,
          meta SystemProgram_programId False False],
        ix_data = disc\<rparr>))"

definition buildUnfreezeProtocolStateIx ::
    "platform \<Rightarrow> pubkey \<Rightarrow> transaction_instruction js" where
  "buildUnfreezeProtocolStateIx P admin =
     js_bind (deriveProtocolStatePda P) (\<lambda>(protocolStatePda, _).
     let disc = sighash P ''unfreeze_protocol_state'' in
     Inr \<lparr>ix_program_id = PROGRAM_ID P,
        ix_keys =
         [meta protocolStatePda False True, meta admin True False],
        ix_data = disc\<rparr>)"

definition buildApproveCustodySignatureIx ::
    "platform \<Rightarrow> pubkey \<Rightarrow> pubkey \<Rightarrow> pubkey \<Rightarrow> pubkey
     \<Rightarrow> pubkey \<Rightarrow> pubkey \<Rightarrow> pubkey \<Rightarrow> pubkey
     \<Rightarrow> int \<Rightarrow> bytes \<Rightarrow> bytes option \<Rightarrow> bytes
     \<Rightarrow> int \<Rightarrow> transaction_instruction js" where
  "buildApproveCustodySignatureIx P owner vaultPda callerProgram cpiAuthority dwalletProgram
      coordinator dwallet messageApproval messageApprovalBump messageDigest messageMetadataDigest
      userPubkey signatureScheme =
     (let disc = sighash P ''approve_custody_signature'' in
     let metaDigest = js_default messageMetadataDigest (replicate 32 0) in
     let schemeBytes = u16ToLe signatureScheme in
     js_bind (concat_arrays [disc, take 32 messageDigest, take 32 metaDigest, take 32 userPubkey,
       schemeBytes, [to_uint8 messageApprovalBump]]) (\<lambda>data.
     Inr \<lparr>ix_program_id = PROGRAM_ID P,
        ix_keys =
         [meta vaultPda False True, meta callerProgram False False,
          meta cpiAuthority False False, meta dwalletProgram False False,
          meta coordinator False False, meta dwallet False False,
          meta messageApproval False True, meta owner True True,
          meta SystemProgram_programId False False],
        ix_data = data\<rparr>))"

definition buildCreateAssociatedTokenAccountIx ::
    "platform \<Rightarrow> pubkey \<Rightarrow> pubkey \<Rightarrow> pubkey
     \<Rightarrow> (transaction_instruction \<times> pubkey) js" where
  "buildCreateAssociatedTokenAccountIx P payer owner mint =
     js_bind (deriveAssociatedTokenAddress P owner mint True) (\<lambda>ataAddress.
     let ix = \<lparr>ix_program_id = ASSOCIATED_TOKEN_PROGRAM_ID,
        ix_keys =
         [meta payer True True, meta ataAddress False True, meta owner False False,
          meta mint False False, meta SystemProgram_programId False False,
          meta TOKEN_PROGRAM_ID False False],
        ix_data = [1]\<rparr> in
     Inr (ix, ataAddress))"

definition buildInitializeLendingPoolIx ::
    "platform \<Rightarrow> pubkey \<Rightarrow> pubkey \<Rightarrow> pubkey \<Rightarrow> int
     \<Rightarrow> int \<Rightarrow> int \<Rightarrow> int \<Rightarrow> int \<Rightarrow> int
     \<Rightarrow> int \<Rightarrow> int
     \<Rightarrow> (transaction_instruction \<times> pubkey \<times> pubkey) js" where
  "buildInitializeLendingPoolIx P admin borrowAssetMint poolTokenVault assetType initialLiquidity
      initialPriceUsd ltvBasisPoints liquidationThresholdBps liquidationBonusBps baseRateBps
      rateSlopeBps =
     js_bind (deriveLendingPoolPda P borrowAssetMint) (\<lambda>(lendingPoolPda, _).
     js_bind (deriveAdminPriceFeedPda P assetType) (\<lambda>(priceFeedPda, _).
     let disc = sighash P ''initialize_lending_pool'' in
     js_bind (concat_arrays [disc, [to_uint8 (and assetType 255)], u64ToLe initialLiquidity,
       u64ToLe initialPriceUsd, u16ToLe ltvBasisPoints, u16ToLe liquidationThresholdBps,
       u16ToLe liquidationBonusBps, u16ToLe baseRateBps,
       u16ToLe rateSlopeBps]) (\<lambda>data.
     let ix = \<lparr>ix_program_id = PROGRAM_ID P,
        ix_keys =
         [meta lendingPoolPda False True, meta priceFeedPda False True,
          meta borrowAssetMint False False, meta poolTokenVault False True,
          meta admin True True, meta SystemProgram_programId False False,
          meta TOKEN_PROGRAM_ID False False],
        ix_data = data\<rparr> in
     Inr (ix, lendingPoolPda, priceFeedPda))))"

definition buildCloseAdminPriceFeedIx ::
    "platform \<Rightarrow> pubkey \<Rightarrow> int
     \<Rightarrow> (transaction_instruction \<times> pubkey) js" where
  "buildCloseAdminPriceFeedIx P admin assetType =
     js_bind (deriveAdminPriceFeedPda P assetType) (\<lambda>(priceFeedPda, _).
     let disc = sighash P ''close_admin_price_feed'' in
     let ix = \<lparr>ix_program_id = PROGRAM_ID P,
        ix_keys =
         [meta priceFeedPda False True, meta admin True True],
        ix_data = disc\<rparr> in
     Inr (ix, priceFeedPda))"

definition buildUpdateAdminPriceIx ::
    "platform \<Rightarrow> pubkey \<Rightarrow> int \<Rightarrow> int
     \<Rightarrow> (transaction_instruction \<times> pubkey) js" where
  "buildUpdateAdminPriceIx P admin assetType newPriceUsd =
     js_bind (deriveAdminPriceFeedPda P assetType) (\<lambda>(priceFeedPda, _).
     let disc = sighash P ''update_admin_price'' in
     js_bind (concat_arrays [disc, u64ToLe newPriceUsd]) (\<lambda>data.
     let ix = \<lparr>ix_program_id = PROGRAM_ID P,
        ix_keys =
         [meta priceFeedPda False True, meta admin True False],
        ix_data = data\<rparr> in
     Inr (ix, priceFeedPda)))"

definition buildBorrowAgainstCollateralIx ::
    "platform \<Rightarrow> pubkey \<Rightarrow> pubkey \<Rightarrow> int \<Rightarrow> pubkey
     \<Rightarrow> pubkey \<Rightarrow> pubkey \<Rightarrow> int \<Rightarrow> pubkey option
     \<Rightarrow> (transaction_instruction \<times> pubkey \<times> pubkey \<times> pubkey) js" where
  "buildBorrowAgainstCollateralIx P owner vaultPda assetType borrowAssetMint poolTokenVault
      borrowerTokenAccount amount healthCiphertext =
     js_bind (deriveProtocolStatePda P) (\<lambda>(protocolStatePda, _).
     js_bind (deriveLendingPoolPda P borrowAssetMint) (\<lambda>(lendingPoolPda, _).
     js_bind (deriveAdminPriceFeedPda P assetType) (\<lambda>(priceFeedPda, _).
     js_bind (deriveBorrowPositionPda P vaultPda) (\<lambda>(borrowPositionPda, _).
     let disc = sighash P ''borrow_against_collateral'' in
     js_bind (concat_arrays [disc, u64ToLe amount,
       to_buffer (js_default healthCiphertext PublicKey_default)]) (\<lambda>data.
     let ix = \<lparr>ix_program_id = PROGRAM_ID P,
        ix_keys =
         [meta vaultPda False True, meta protocolStatePda False False,
          meta lendingPoolPda False True, meta priceFeedPda False False,
          meta borrowPositionPda False True, meta poolTokenVault False True,
          meta borrowerTokenAccount False True, meta owner True True,
          meta TOKEN_PROGRAM_ID False False, meta SystemProgram_programId False False],
        ix_data = data\<rparr> in
     Inr (ix, lendingPoolPda, priceFeedPda, borrowPositionPda))))))"

definition buildRepayBorrowIx ::
    "platform \<Rightarrow> pubkey \<Rightarrow> pubkey \<Rightarrow> pubkey \<Rightarrow> pubkey
     \<Rightarrow> pubkey \<Rightarrow> int
     \<Rightarrow> (transaction_instruction \<times> pubkey \<times> pubkey) js" where
  "buildRepayBorrowIx P owner vaultPda borrowAssetMint poolTokenVault borrowerTokenAccount amount =
     js_bind (deriveLendingPoolPda P borrowAssetMint) (\<lambda>(lendingPoolPda, _).
     js_bind (deriveBorrowPositionPda P vaultPda) (\<lambda>(borrowPositionPda, _).
     let disc = sighash P ''repay_borrow'' in
     js_bind (concat_arrays [disc, u64ToLe amount]) (\<lambda>data.
     let ix = \<lparr>ix_program_id = PROGRAM_ID P,
        ix_keys =
         [meta vaultPda False False, meta lendingPoolPda False True,
          meta borrowPositionPda False True, meta poolTokenVault False True,
          meta borrowerTokenAccount False True, meta owner True True,
          meta TOKEN_PROGRAM_ID False False],
        ix_data = data\<rparr> in
     Inr (ix, lendingPoolPda, borrowPositionPda))))"

definition buildLiquidatePositionIx ::
    "platform \<Rightarrow> pubkey \<Rightarrow> pubkey \<Rightarrow> int \<Rightarrow> pubkey
     \<Rightarrow> pubkey \<Rightarrow> pubkey
     \<Rightarrow> (transaction_instruction \<times> pubkey \<times> pubkey \<times> pubkey) js" where
  "buildLiquidatePositionIx P liquidator vaultPda assetType borrowAssetMint poolTokenVault
      liquidatorTokenAccount =
     js_bind (deriveProtocolStatePda P) (\<lambda>(protocolStatePda, _).
     js_bind (deriveLendingPoolPda P borrowAssetMint) (\<lambda>(lendingPoolPda, _).
     js_bind (deriveAdminPriceFeedPda P assetType) (\<lambda>(priceFeedPda, _).
     js_bind (deriveBorrowPositionPda P vaultPda) (\<lambda>(borrowPositionPda, _).
     let disc = sighash P ''liquidate_position'' in
     let ix = \<lparr>ix_program_id = PROGRAM_ID P,
        ix_keys =
         [meta vaultPda False True, meta protocolStatePda False False,
          meta lendingPoolPda False True, meta priceFeedPda False False,
          meta borrowPositionPda False True, meta poolTokenVault False True,
          meta liquidatorTokenAccount False True, meta liquidator True True,
          meta TOKEN_PROGRAM_ID False False],
        ix_data = disc\<rparr> in
     Inr (ix, lendingPoolPda, priceFeedPda, borrowPositionPda)))))"

definition buildDemoCreateMessageApprovalIx ::
    "platform \<Rightarrow> pubkey \<Rightarrow> bytes \<Rightarrow> bool
     \<Rightarrow> (transaction_instruction \<times> pubkey) js" where
  "buildDemoCreateMessageApprovalIx P payer dwalletId isSigned =
     js_bind (deriveDemoMessageApprovalPda P payer dwalletId) (\<lambda>(messageApprovalPda, _).
     let disc = sighash P ''demo_create_message_approval'' in
     js_bind (concat_arrays [disc, take 32 dwalletId,
       [to_uint8 (if isSigned then 1 else 0)]]) (\<lambda>data.
     let ix = \<lparr>ix_program_id = PROGRAM_ID P,
        ix_keys =
         [meta messageApprovalPda False True, meta payer True True,
          meta SystemProgram_programId False False],
        ix_data = data\<rparr> in
     Inr (ix, messageApprovalPda)))"

definition buildDemoCreateCiphertextIx ::
    "platform \<Rightarrow> pubkey \<Rightarrow> jstext \<Rightarrow> int
     \<Rightarrow> (transaction_instruction \<times> pubkey) js" where
  "buildDemoCreateCiphertextIx P payer label byteValue =
     js_bind (deriveDemoCiphertextPda P payer label) (\<lambda>(ciphertextPda, _).
     let disc = sighash P ''demo_create_ciphertext'' in
     let labelBytes = labelToBytes8 label in
     js_bind (concat_arrays [disc, labelBytes, [to_uint8 (and byteValue 255)]]) (\<lambda>data.
     let ix = \<lparr>ix_program_id = PROGRAM_ID P,
        ix_keys =
         [meta ciphertextPda False True, meta payer True True,
          meta SystemProgram_programId False False],
        ix_data = data\<rparr> in
     Inr (ix, ciphertextPda)))"

definition buildRegisterBtcVaultIx ::
    "platform \<Rightarrow> pubkey \<Rightarrow> pubkey \<Rightarrow> bytes \<Rightarrow> jstext
     \<Rightarrow> (transaction_instruction \<times> pubkey \<times> pubkey) js" where
  "buildRegisterBtcVaultIx P owner ikaDwallet dwalletPubkey bitcoinAddress =
     (if length dwalletPubkey \<noteq> 33 
       then Inl (ErrorMsg ''dwalletPubkey must be 33 bytes (compressed Secp256k1)'') else
     js_bind (deriveBtcVaultPda P owner ikaDwallet) (\<lambda>(btcVaultPda, _).
     js_bind (deriveBtcAttestationPda P btcVaultPda) (\<lambda>(btcAttestationPda, _).
     js_bind (deriveProtocolStatePda P) (\<lambda>(protocolStatePda, _).
     let disc = sighash P ''register_btc_vault'' in
     let addrBytes = text_encode bitcoinAddress in
     js_bind (concat_arrays [disc, to_buffer ikaDwallet, dwalletPubkey,
       vecU8 addrBytes]) (\<lambda>data.
     let ix = \<lparr>ix_program_id = PROGRAM_ID P,
        ix_keys =
         [meta btcVaultPda False True, meta btcAttestationPda False True,
          meta protocolStatePda False True, meta owner True True,
          meta SystemProgram_programId False False],
        ix_data = data\<rparr> in
     Inr (ix, btcVaultPda, btcAttestationPda))))))"

definition buildAttestBtcBalanceIx ::
    "platform \<Rightarrow> pubkey \<Rightarrow> pubkey \<Rightarrow> int \<Rightarrow> int
     \<Rightarrow> bytes \<Rightarrow> transaction_instruction js" where
  "buildAttestBtcBalanceIx P keeper btcVaultPda satoshis bitcoinBlockHeight bitcoinBlockHash =
     (if length bitcoinBlockHash \<noteq> 32 
       then Inl (ErrorMsg ''bitcoinBlockHash must be 32 bytes'') else
     js_bind (deriveBtcAttestationPda P btcVaultPda) (\<lambda>(btcAttestationPda, _).
     js_bind (deriveProtocolStatePda P) (\<lambda>(protocolStatePda, _).
     let disc = sighash P ''attest_btc_balance'' in
     js_bind (concat_arrays [disc, u64ToLe satoshis, u64ToLe bitcoinBlockHeight,
       bitcoinBlockHash]) (\<lambda>data.
     Inr \<lparr>ix_program_id = PROGRAM_ID P,
        ix_keys =
         [meta btcVaultPda False True, meta btcAttestationPda False True,
          meta protocolStatePda False False, meta keeper True True],
        ix_data = data\<rparr>))))"

definition buildVerifyBtcCustodyProofIx ::
    "platform \<Rightarrow> pubkey \<Rightarrow> pubkey \<Rightarrow> pubkey
     \<Rightarrow> transaction_instruction js" where
  "buildVerifyBtcCustodyProofIx P owner btcVaultPda messageApprovalPda =
     (let disc = sighash P ''verify_btc_custody_proof'' in
     Inr \<lparr>ix_program_id = PROGRAM_ID P,
        ix_keys =
         [meta btcVaultPda False True, meta messageApprovalPda False False,
          meta owner True False],
        ix_data = disc\<rparr>)"

definition buildRefreshBtcCustodyProofIx ::
    "platform \<Rightarrow> pubkey \<Rightarrow> pubkey \<Rightarrow> pubkey
     \<Rightarrow> transaction_instruction js" where
  "buildRefreshBtcCustodyProofIx P owner btcVaultPda messageApprovalPda =
     (let disc = sighash P ''refresh_btc_custody_proof'' in
     Inr \<lparr>ix_program_id = PROGRAM_ID P,
        ix_keys =
         [meta btcVaultPda False True, meta messageApprovalPda False False,
          meta owner True False],
        ix_data = disc\<rparr>)"

definition buildBorrowAgainstBtcCollateralIx ::
    "platform \<Rightarrow> pubkey \<Rightarrow> pubkey \<Rightarrow> pubkey \<Rightarrow> pubkey
     \<Rightarrow> pubkey \<Rightarrow> int \<Rightarrow> pubkey option
     \<Rightarrow> (transaction_instruction \<times> pubkey \<times> pubkey \<times> pubkey \<times> pubkey) js" where
  "buildBorrowAgainstBtcCollateralIx P owner btcVaultPda borrowAssetMint poolTokenVault
      borrowerTokenAccount amount healthCiphertext =
     js_bind (deriveProtocolStatePda P) (\<lambda>(protocolStatePda, _).
     js_bind (deriveLendingPoolPda P borrowAssetMint) (\<lambda>(lendingPoolPda, _).
     js_bind (deriveAdminPriceFeedPda P web_ASSET_BTC) (\<lambda>(priceFeedPda, _).
     js_bind (deriveBtcAttestationPda P btcVaultPda) (\<lambda>(btcAttestationPda, _).
     js_bind (deriveBtcBorrowPositionPda P btcVaultPda) (\<lambda>(borrowPositionPda, _).
     let disc = sighash P ''borrow_against_btc_collateral'' in
     let healthCt = js_default healthCiphertext PublicKey_default in
     js_bind (concat_arrays [disc, u64ToLe amount, to_buffer healthCt]) (\<lambda>data.
     let ix = \<lparr>ix_program_id = PROGRAM_ID P,
        ix_keys =
         [meta btcVaultPda False True, meta protocolStatePda False False,
          meta lendingPoolPda False True, meta priceFeedPda False False,
          meta btcAttestationPda False False, meta borrowPositionPda False True,
          meta poolTokenVault False True, meta borrowerTokenAccount False True,
          meta owner True True, meta TOKEN_PROGRAM_ID False False,
          meta SystemProgram_programId False False],
        ix_data = data\<rparr> in
     Inr (ix, lendingPoolPda, priceFeedPda, btcAttestationPda, borrowPositionPda)))))))"

definition buildRepayBtcBorrowIx ::
    "platform \<Rightarrow> pubkey \<Rightarrow> pubkey \<Rightarrow> pubkey \<Rightarrow> pubkey
     \<Rightarrow> pubkey \<Rightarrow> int \<Rightarrow> transaction_instruction js" where
  "buildRepayBtcBorrowIx P owner btcVaultPda borrowAssetMint poolTokenVault borrowerTokenAccount
      amount =
     js_bind (deriveLendingPoolPda P borrowAssetMint) (\<lambda>(lendingPoolPda, _).
     js_bind (deriveBtcBorrowPositionPda P btcVaultPda) (\<lambda>(borrowPositionPda, _).
     let disc = sighash P ''repay_btc_borrow'' in
     js_bind (concat_arrays [disc, u64ToLe amount]) (\<lambda>data.
     Inr \<lparr>ix_program_id = PROGRAM_ID P,
        ix_keys =
         [meta btcVaultPda False False, meta lendingPoolPda False True,
          meta borrowPositionPda False True, meta poolTokenVault False True,
          meta borrowerTokenAccount False True, meta owner True True,
          meta TOKEN_PROGRAM_ID False False],
        ix_data = data\<rparr>)))"

definition buildLiquidateBtcPositionIx ::
    "platform \<Rightarrow> pubkey \<Rightarrow> pubkey \<Rightarrow> pubkey \<Rightarrow> pubkey
     \<Rightarrow> pubkey \<Rightarrow> pubkey \<Rightarrow> pubkey \<Rightarrow> pubkey
     \<Rightarrow> bytes \<Rightarrow> bytes option \<Rightarrow> bytes \<Rightarrow> int
     \<Rightarrow> transaction_instruction js" where
  "buildLiquidateBtcPositionIx P liquidator btcVaultPda ikaDwallet borrowAssetMint poolTokenVault
      liquidatorTokenAccount coordinator messageApproval bitcoinSighash messageMetadataDigest
      userPubkey messageApprovalBump =
     (if length bitcoinSighash \<noteq> 32 
       then Inl (ErrorMsg ''bitcoinSighash must be 32 bytes'') else
     if length userPubkey \<noteq> 32 
       then Inl (ErrorMsg ''userPubkey must be 32 bytes'') else
     js_bind (deriveProtocolStatePda P) (\<lambda>(protocolStatePda, _).
     js_bind (deriveLendingPoolPda P borrowAssetMint) (\<lambda>(lendingPoolPda, _).
     js_bind (deriveAdminPriceFeedPda P web_ASSET_BTC) (\<lambda>(priceFeedPda, _).
     js_bind (deriveBtcAttestationPda P btcVaultPda) (\<lambda>(btcAttestationPda, _).
     js_bind (deriveBtcBorrowPositionPda P btcVaultPda) (\<lambda>(borrowPositionPda, _).
     js_bind (deriveIkaCpiAuthority P) (\<lambda>(cpiAuthority, _).
     let disc = sighash P ''liquidate_btc_position'' in
     let metaBytes = js_default messageMetadataDigest (replicate 32 0) in
     js_bind (concat_arrays [disc, bitcoinSighash, take 32 metaBytes, take 32 userPubkey,
       [to_uint8 messageApprovalBump]]) (\<lambda>data.
     Inr \<lparr>ix_program_id = PROGRAM_ID P,
        ix_keys =
         [meta btcVaultPda False True, meta protocolStatePda False False,
          meta lendingPoolPda False True, meta priceFeedPda False False,
          meta btcAttestationPda False False, meta borrowPositionPda False True,
          meta poolTokenVault False True, meta liquidatorTokenAccount False True,
          meta (PROGRAM_ID P) False False, meta cpiAuthority False False,
          meta (IKA_DWALLET_PROGRAM_ID P) False False, meta coordinator False False,
          meta ikaDwallet False False, meta messageApproval False True,
          meta liquidator True True, meta TOKEN_PROGRAM_ID False False,
          meta SystemProgram_programId False False],
        ix_data = data\<rparr>))))))))"

definition buildFinalizeBtcLiquidationIx ::
    "platform \<Rightarrow> pubkey \<Rightarrow> pubkey \<Rightarrow> bytes \<Rightarrow> int
     \<Rightarrow> int \<Rightarrow> int \<Rightarrow> transaction_instruction js" where
  "buildFinalizeBtcLiquidationIx P keeper btcVaultPda bitcoinTxId bitcoinBlockHeight confirmations
      remainingSatoshis =
     (if length bitcoinTxId \<noteq> 32 
       then Inl (ErrorMsg ''bitcoinTxId must be 32 bytes'') else
     js_bind (deriveBtcAttestationPda P btcVaultPda) (\<lambda>(btcAttestationPda, _).
     js_bind (deriveBtcBorrowPositionPda P btcVaultPda) (\<lambda>(borrowPositionPda, _).
     js_bind (deriveProtocolStatePda P) (\<lambda>(protocolStatePda, _).
     let disc = sighash P ''finalize_btc_liquidation'' in
     let confBytes = u32ToLe confirmations in
     js_bind (concat_arrays [disc, bitcoinTxId, u64ToLe bitcoinBlockHeight, confBytes,
       u64ToLe remainingSatoshis]) (\<lambda>data.
     Inr \<lparr>ix_program_id = PROGRAM_ID P,
        ix_keys =
         [meta btcVaultPda False True, meta btcAttestationPda False True,
          meta borrowPositionPda False True, meta protocolStatePda False False,
          meta keeper True True],
        ix_data = data\<rparr>)))))"

end
