(* ===== verification/Builders_Sdk.thy ===== *)
theory Builders_Sdk
  imports Builders_Web Sdk_Accounts
begin

text \<open>
  The SDK's instruction builders, \<open>packages/sdk/src/lending/instructions.ts\<close> and
  \<open>btc-instructions.ts\<close>: the frontend's builders with the program id, and for the Bitcoin
  liquidation the Ika program id, as optional parameters. The helpers the two files repeat
  (\<open>sighash\<close>, \<open>concat\<close>, \<open>u64ToLe\<close>, \<open>u16ToLe\<close>, \<open>vecU8\<close>) are those of \<open>Wire\<close>.
\<close>

definition sdk_buildCreateAssociatedTokenAccountIx ::
    "platform \<Rightarrow> pubkey \<Rightarrow> pubkey \<Rightarrow> pubkey
     \<Rightarrow> (transaction_instruction \<times> pubkey) js" where
  "sdk_buildCreateAssociatedTokenAccountIx P payer owner mint =
     js_bind (sdk_deriveAssociatedTokenAddress P owner mint True) (\<lambda>ataAddress.
     let ix = \<lparr>ix_program_id = ASSOCIATED_TOKEN_PROGRAM_ID,
        ix_keys =
         [meta payer True True, meta ataAddress False True, meta owner False False,
          meta mint False False, meta SystemProgram_programId False False,
          meta TOKEN_PROGRAM_ID False False],
        ix_data = [1]\<rparr> in
     Inr (ix, ataAddress))"

definition sdk_buildBorrowAgainstCollateralIx ::
    "platform \<Rightarrow> pubkey \<Rightarrow> pubkey \<Rightarrow> int \<Rightarrow> pubkey
     \<Rightarrow> pubkey \<Rightarrow> pubkey \<Rightarrow> int \<Rightarrow> pubkey option
     \<Rightarrow> pubkey option
     \<Rightarrow> (transaction_instruction \<times> pubkey \<times> pubkey \<times> pubkey) js" where
  "sdk_buildBorrowAgainstCollateralIx P owner vaultPda assetType borrowAssetMint poolTokenVault
      borrowerTokenAccount amount healthCiphertext programId =
     (let programId = js_default programId LENDGUARD_PROGRAM_ID in
     js_bind (sdk_deriveProtocolStatePda P programId) (\<lambda>(protocolStatePda, _).
     js_bind (sdk_deriveLendingPoolPda P borrowAssetMint programId) (\<lambda>(lendingPoolPda, _).
     js_bind (sdk_deriveAdminPriceFeedPda P assetType programId) (\<lambda>(priceFeedPda, _).
     js_bind (sdk_deriveBorrowPositionPda P vaultPda programId) (\<lambda>(borrowPositionPda, _).
     js_bind (concat_arrays [sighash P ''borrow_against_collateral'', u64ToLe amount,
       to_buffer (js_default healthCiphertext PublicKey_default)]) (\<lambda>data.
     let ix = \<lparr>ix_program_id = programId,
        ix_keys =
         [meta vaultPda False True, meta protocolStatePda False False,
          meta lendingPoolPda False True, meta priceFeedPda False False,
          meta borrowPositionPda False True, meta poolTokenVault False True,
          meta borrowerTokenAccount False True, meta owner True True,
          meta TOKEN_PROGRAM_ID False False, meta SystemProgram_programId False False],
        ix_data = data\<rparr> in
     Inr (ix, lendingPoolPda, priceFeedPda, borrowPositionPda)))))))"

definition sdk_buildRepayBorrowIx ::
    "platform \<Rightarrow> pubkey \<Rightarrow> pubkey \<Rightarrow> pubkey \<Rightarrow> pubkey
     \<Rightarrow> pubkey \<Rightarrow> int \<Rightarrow> pubkey option
     \<Rightarrow> (transaction_instruction \<times> pubkey \<times> pubkey) js" where
  "sdk_buildRepayBorrowIx P owner vaultPda borrowAssetMint poolTokenVault borrowerTokenAccount
      amount programId =
     (let programId = js_default programId LENDGUARD_PROGRAM_ID in
     js_bind (sdk_deriveLendingPoolPda P borrowAssetMint programId) (\<lambda>(lendingPoolPda, _).
     js_bind (sdk_deriveBorrowPositionPda P vaultPda programId) (\<lambda>(borrowPositionPda, _).
     js_bind (concat_arrays [sighash P ''repay_borrow'', u64ToLe amount]) (\<lambda>data.
     let ix = \<lparr>ix_program_id = programId,
        ix_keys =
         [meta vaultPda False False, meta lendingPoolPda False True,
          meta borrowPositionPda False True, meta poolTokenVault False True,
          meta borrowerTokenAccount False True, meta owner True True,
          meta TOKEN_PROGRAM_ID False False],
        ix_data = data\<rparr> in
     Inr (ix, lendingPoolPda, borrowPositionPda)))))"

definition sdk_buildLiquidatePositionIx ::
    "platform \<Rightarrow> pubkey \<Rightarrow> pubkey \<Rightarrow> int \<Rightarrow> pubkey
     \<Rightarrow> pubkey \<Rightarrow> pubkey \<Rightarrow> pubkey option
     \<Rightarrow> (transaction_instruction \<times> pubkey \<times> pubkey \<times> pubkey) js" where
  "sdk_buildLiquidatePositionIx P liquidator vaultPda assetType borrowAssetMint poolTokenVault
      liquidatorTokenAccount programId =
     (let programId = js_default programId LENDGUARD_PROGRAM_ID in
     js_bind (sdk_deriveProtocolStatePda P programId) (\<lambda>(protocolStatePda, _).
     js_bind (sdk_deriveLendingPoolPda P borrowAssetMint programId) (\<lambda>(lendingPoolPda, _).
     js_bind (sdk_deriveAdminPriceFeedPda P assetType programId) (\<lambda>(priceFeedPda, _).
     js_bind (sdk_deriveBorrowPositionPda P vaultPda programId) (\<lambda>(borrowPositionPda, _).
     let data = sighash P ''liquidate_position'' in
     let ix = \<lparr>ix_program_id = programId,
        ix_keys =
         [meta vaultPda False True, meta protocolStatePda False False,
          meta lendingPoolPda False True, meta priceFeedPda False False,
          meta borrowPositionPda False True, meta poolTokenVault False True,
          meta liquidatorTokenAccount False True, meta liquidator True True,
          meta TOKEN_PROGRAM_ID False False],
        ix_data = data\<rparr> in
     Inr (ix, lendingPoolPda, priceFeedPda, borrowPositionPda))))))"

definition sdk_buildUpdateAdminPriceIx ::
    "platform \<Rightarrow> pubkey \<Rightarrow> int \<Rightarrow> int \<Rightarrow> pubkey option
     \<Rightarrow> (transaction_instruction \<times> pubkey) js" where
  "sdk_buildUpdateAdminPriceIx P admin assetType newPriceUsd programId =
     (let programId = js_default programId LENDGUARD_PROGRAM_ID in
     js_bind (sdk_deriveAdminPriceFeedPda P assetType programId) (\<lambda>(priceFeedPda, _).
     js_bind (concat_arrays [sighash P ''update_admin_price'', u64ToLe newPriceUsd]) (\<lambda>data.
     let ix = \<lparr>ix_program_id = programId,
        ix_keys =
         [meta priceFeedPda False True, meta admin True False],
        ix_data = data\<rparr> in
     Inr (ix, priceFeedPda))))"

definition sdk_buildInitializeLendingPoolIx ::
    "platform \<Rightarrow> pubkey \<Rightarrow> pubkey \<Rightarrow> pubkey \<Rightarrow> int
     \<Rightarrow> int \<Rightarrow> int \<Rightarrow> int \<Rightarrow> int \<Rightarrow> int
     \<Rightarrow> int \<Rightarrow> int \<Rightarrow> pubkey option
     \<Rightarrow> (transaction_instruction \<times> pubkey \<times> pubkey) js" where
  "sdk_buildInitializeLendingPoolIx P admin borrowAssetMint poolTokenVault assetType
      initialLiquidity initialPriceUsd ltvBasisPoints liquidationThresholdBps liquidationBonusBps
      baseRateBps rateSlopeBps programId =
     (let programId = js_default programId LENDGUARD_PROGRAM_ID in
     js_bind (sdk_deriveLendingPoolPda P borrowAssetMint programId) (\<lambda>(lendingPoolPda, _).
     js_bind (sdk_deriveAdminPriceFeedPda P assetType programId) (\<lambda>(priceFeedPda, _).
     js_bind (concat_arrays [sighash P ''initialize_lending_pool'',
       [to_uint8 (and assetType 255)], u64ToLe initialLiquidity, u64ToLe initialPriceUsd,
       u16ToLe ltvBasisPoints, u16ToLe liquidationThresholdBps, u16ToLe liquidationBonusBps,
       u16ToLe baseRateBps, u16ToLe rateSlopeBps]) (\<lambda>data.
     let ix = \<lparr>ix_program_id = programId,
        ix_keys =
         [meta lendingPoolPda False True, meta priceFeedPda False True,
          meta borrowAssetMint False False, meta poolTokenVault False True,
          meta admin True True, meta SystemProgram_programId False False,
          meta TOKEN_PROGRAM_ID False False],
        ix_data = data\<rparr> in
     Inr (ix, lendingPoolPda, priceFeedPda)))))"

definition sdk_buildInitializeAdminPriceFeedIx ::
    "platform \<Rightarrow> pubkey \<Rightarrow> int \<Rightarrow> int \<Rightarrow> pubkey option
     \<Rightarrow> (transaction_instruction \<times> pubkey) js" where
  "sdk_buildInitializeAdminPriceFeedIx P admin assetType initialPriceUsd programId =
     (let programId = js_default programId LENDGUARD_PROGRAM_ID in
     js_bind (sdk_deriveAdminPriceFeedPda P assetType programId) (\<lambda>(priceFeedPda, _).
     js_bind (concat_arrays [sighash P ''initialize_admin_price_feed'',
       [to_uint8 (and assetType 255)], u64ToLe initialPriceUsd]) (\<lambda>data.
     let ix = \<lparr>ix_program_id = programId,
        ix_keys =
         [meta priceFeedPda False True, meta admin True True,
          meta SystemProgram_programId False False],
        ix_data = data\<rparr> in
     Inr (ix, priceFeedPda))))"

definition sdk_buildRegisterBtcVaultIx ::
    "platform \<Rightarrow> pubkey \<Rightarrow> pubkey \<Rightarrow> bytes \<Rightarrow> jstext
     \<Rightarrow> pubkey option
     \<Rightarrow> (transaction_instruction \<times> pubkey \<times> pubkey) js" where
  "sdk_buildRegisterBtcVaultIx P owner ikaDwallet dwalletPubkey bitcoinAddress programId =
     (if length dwalletPubkey \<noteq> 33 
       then Inl (ErrorMsg ''dwalletPubkey must be 33 bytes (compressed Secp256k1)'') else
     let programId = js_default programId LENDGUARD_PROGRAM_ID in
     js_bind (sdk_deriveBtcVaultPda P owner ikaDwallet programId) (\<lambda>(btcVaultPda, _).
     js_bind (sdk_deriveBtcAttestationPda P btcVaultPda programId) (\<lambda>(btcAttestationPda, _).
     js_bind (sdk_deriveProtocolStatePda P programId) (\<lambda>(protocolStatePda, _).
     js_bind (concat_arrays [sighash P ''register_btc_vault'', to_buffer ikaDwallet,
       dwalletPubkey, vecU8 (text_encode bitcoinAddress)]) (\<lambda>data.
     let ix = \<lparr>ix_program_id = programId,
        ix_keys =
         [meta btcVaultPda False True, meta btcAttestationPda False True,
          meta protocolStatePda False True, meta owner True True,
          meta SystemProgram_programId False False],
        ix_data = data\<rparr> in
     Inr (ix, btcVaultPda, btcAttestationPda))))))"

definition sdk_buildVerifyBtcCustodyProofIx ::
    "platform \<Rightarrow> pubkey \<Rightarrow> pubkey \<Rightarrow> pubkey \<Rightarrow> pubkey option
     \<Rightarrow> transaction_instruction js" where
  "sdk_buildVerifyBtcCustodyProofIx P owner btcVaultPda messageApprovalPda programId =
     (let programId = js_default programId LENDGUARD_PROGRAM_ID in
     Inr \<lparr>ix_program_id = programId,
        ix_keys =
         [meta btcVaultPda False True, meta messageApprovalPda False False,
          meta owner True False],
        ix_data = sighash P ''verify_btc_custody_proof''\<rparr>)"

definition sdk_buildRefreshBtcCustodyProofIx ::
    "platform \<Rightarrow> pubkey \<Rightarrow> pubkey \<Rightarrow> pubkey \<Rightarrow> pubkey option
     \<Rightarrow> transaction_instruction js" where
  "sdk_buildRefreshBtcCustodyProofIx P owner btcVaultPda messageApprovalPda programId =
     (let programId = js_default programId LENDGUARD_PROGRAM_ID in
     Inr \<lparr>ix_program_id = programId,
        ix_keys =
         [meta btcVaultPda False True, meta messageApprovalPda False False,
          meta owner True False],
        ix_data = sighash P ''refresh_btc_custody_proof''\<rparr>)"

definition sdk_buildAttestBtcBalanceIx ::
    "platform \<Rightarrow> pubkey \<Rightarrow> pubkey \<Rightarrow> int \<Rightarrow> int
     \<Rightarrow> bytes \<Rightarrow> pubkey option \<Rightarrow> transaction_instruction js" where
  "sdk_buildAttestBtcBalanceIx P keeper btcVaultPda satoshis bitcoinBlockHeight bitcoinBlockHash
      programId =
     (if length bitcoinBlockHash \<noteq> 32 
       then Inl (ErrorMsg ''bitcoinBlockHash must be 32 bytes'') else
     let programId = js_default programId LENDGUARD_PROGRAM_ID in
     js_bind (sdk_deriveBtcAttestationPda P btcVaultPda programId) (\<lambda>(btcAttestationPda, _).
     js_bind (sdk_deriveProtocolStatePda P programId) (\<lambda>(protocolStatePda, _).
     js_bind (concat_arrays [sighash P ''attest_btc_balance'', u64ToLe satoshis,
       u64ToLe bitcoinBlockHeight, bitcoinBlockHash]) (\<lambda>data.
     Inr \<lparr>ix_program_id = programId,
        ix_keys =
         [meta btcVaultPda False True, meta btcAttestationPda False True,
          meta protocolStatePda False False, meta keeper True True],
        ix_data = data\<rparr>))))"

definition sdk_buildBorrowAgainstBtcCollateralIx ::
    "platform \<Rightarrow> pubkey \<Rightarrow> pubkey \<Rightarrow> pubkey \<Rightarrow> pubkey
     \<Rightarrow> pubkey \<Rightarrow> int \<Rightarrow> pubkey option \<Rightarrow> pubkey option
     \<Rightarrow> (transaction_instruction \<times> pubkey \<times> pubkey \<times> pubkey \<times> pubkey) js" where
  "sdk_buildBorrowAgainstBtcCollateralIx P owner btcVaultPda borrowAssetMint poolTokenVault
      borrowerTokenAccount amount healthCiphertext programId =
     (let programId = js_default programId LENDGUARD_PROGRAM_ID in
     js_bind (sdk_deriveProtocolStatePda P programId) (\<lambda>(protocolStatePda, _).
     js_bind (sdk_deriveLendingPoolPda P borrowAssetMint programId) (\<lambda>(lendingPoolPda, _).
     js_bind (sdk_deriveAdminPriceFeedPda P sdk_ASSET_BTC programId) (\<lambda>(priceFeedPda, _).
     js_bind (sdk_deriveBtcAttestationPda P btcVaultPda programId) (\<lambda>(btcAttestationPda, _).
     js_bind (sdk_deriveBtcBorrowPositionPda P btcVaultPda programId) (\<lambda>(borrowPositionPda, _).
     js_bind (concat_arrays [sighash P ''borrow_against_btc_collateral'', u64ToLe amount,
       to_buffer (js_default healthCiphertext PublicKey_default)]) (\<lambda>data.
     let ix = \<lparr>ix_program_id = programId,
        ix_keys =
         [meta btcVaultPda False True, meta protocolStatePda False False,
          meta lendingPoolPda False True, meta priceFeedPda False False,
          meta btcAttestationPda False False, meta borrowPositionPda False True,
          meta poolTokenVault False True, meta borrowerTokenAccount False True,
          meta owner True True, meta TOKEN_PROGRAM_ID False False,
          meta SystemProgram_programId False False],
        ix_data = data\<rparr> in
     Inr (ix, lendingPoolPda, priceFeedPda, btcAttestationPda, borrowPositionPda))))))))"

definition sdk_buildRepayBtcBorrowIx ::
    "platform \<Rightarrow> pubkey \<Rightarrow> pubkey \<Rightarrow> pubkey \<Rightarrow> pubkey
     \<Rightarrow> pubkey \<Rightarrow> int \<Rightarrow> pubkey option
     \<Rightarrow> transaction_instruction js" where
  "sdk_buildRepayBtcBorrowIx P owner btcVaultPda borrowAssetMint poolTokenVault
      borrowerTokenAccount amount programId =
     (let programId = js_default programId LENDGUARD_PROGRAM_ID in
     js_bind (sdk_deriveLendingPoolPda P borrowAssetMint programId) (\<lambda>(lendingPoolPda, _).
     js_bind (sdk_deriveBtcBorrowPositionPda P btcVaultPda programId) (\<lambda>(borrowPositionPda, _).
     js_bind (concat_arrays [sighash P ''repay_btc_borrow'', u64ToLe amount]) (\<lambda>data.
     Inr \<lparr>ix_program_id = programId,
        ix_keys =
         [meta btcVaultPda False False, meta lendingPoolPda False True,
          meta borrowPositionPda False True, meta poolTokenVault False True,
          meta borrowerTokenAccount False True, meta owner True True,
          meta TOKEN_PROGRAM_ID False False],
        ix_data = data\<rparr>))))"

definition sdk_buildLiquidateBtcPositionIx ::
    "platform \<Rightarrow> pubkey \<Rightarrow> pubkey \<Rightarrow> pubkey \<Rightarrow> pubkey
     \<Rightarrow> pubkey \<Rightarrow> pubkey \<Rightarrow> pubkey \<Rightarrow> pubkey
     \<Rightarrow> bytes \<Rightarrow> bytes option \<Rightarrow> bytes \<Rightarrow> int
     \<Rightarrow> pubkey option \<Rightarrow> pubkey option \<Rightarrow> transaction_instruction js" where
  "sdk_buildLiquidateBtcPositionIx P liquidator btcVaultPda ikaDwallet borrowAssetMint
      poolTokenVault liquidatorTokenAccount coordinator messageApproval bitcoinSighash
      messageMetadataDigest userPubkey messageApprovalBump ikaDwalletProgramId programId =
     (if length bitcoinSighash \<noteq> 32 
       then Inl (ErrorMsg ''bitcoinSighash must be 32 bytes'') else
     if length userPubkey \<noteq> 32 
       then Inl (ErrorMsg ''userPubkey must be 32 bytes'') else
     let programId = js_default programId LENDGUARD_PROGRAM_ID in
     let ikaProgram = js_default ikaDwalletProgramId sdk_IKA_DWALLET_PROGRAM_ID in
     js_bind (sdk_deriveProtocolStatePda P programId) (\<lambda>(protocolStatePda, _).
     js_bind (sdk_deriveLendingPoolPda P borrowAssetMint programId) (\<lambda>(lendingPoolPda, _).
     js_bind (sdk_deriveAdminPriceFeedPda P sdk_ASSET_BTC programId) (\<lambda>(priceFeedPda, _).
     js_bind (sdk_deriveBtcAttestationPda P btcVaultPda programId) (\<lambda>(btcAttestationPda, _).
     js_bind (sdk_deriveBtcBorrowPositionPda P btcVaultPda programId) (\<lambda>(borrowPositionPda, _).
     js_bind (sdk_deriveIkaCpiAuthority P programId) (\<lambda>(cpiAuthority, _).
     let metaBytes = js_default messageMetadataDigest (replicate 32 0) in
     js_bind (concat_arrays [sighash P ''liquidate_btc_position'', bitcoinSighash,
       take 32 metaBytes, take 32 userPubkey,
       [to_uint8 messageApprovalBump]]) (\<lambda>data.
     Inr \<lparr>ix_program_id = programId,
        ix_keys =
         [meta btcVaultPda False True, meta protocolStatePda False False,
          meta lendingPoolPda False True, meta priceFeedPda False False,
          meta btcAttestationPda False False, meta borrowPositionPda False True,
          meta poolTokenVault False True, meta liquidatorTokenAccount False True,
          meta programId False False, meta cpiAuthority False False,
          meta ikaProgram False False, meta coordinator False False,
          meta ikaDwallet False False, meta messageApproval False True,
          meta liquidator True True, meta TOKEN_PROGRAM_ID False False,
          meta SystemProgram_programId False False],
        ix_data = data\<rparr>))))))))"

definition sdk_buildFinalizeBtcLiquidationIx ::
    "platform \<Rightarrow> pubkey \<Rightarrow> pubkey \<Rightarrow> bytes \<Rightarrow> int
     \<Rightarrow> int \<Rightarrow> int \<Rightarrow> pubkey option
     \<Rightarrow> transaction_instruction js" where
  "sdk_buildFinalizeBtcLiquidationIx P keeper btcVaultPda bitcoinTxId bitcoinBlockHeight
      confirmations remainingSatoshis programId =
     (if length bitcoinTxId \<noteq> 32 
       then Inl (ErrorMsg ''bitcoinTxId must be 32 bytes'') else
     let programId = js_default programId LENDGUARD_PROGRAM_ID in
     js_bind (sdk_deriveBtcAttestationPda P btcVaultPda programId) (\<lambda>(btcAttestationPda, _).
     js_bind (sdk_deriveBtcBorrowPositionPda P btcVaultPda programId) (\<lambda>(borrowPositionPda, _).
     js_bind (sdk_deriveProtocolStatePda P programId) (\<lambda>(protocolStatePda, _).
     let confBytes = u32ToLe confirmations in
     js_bind (concat_arrays [sighash P ''finalize_btc_liquidation'', bitcoinTxId,
       u64ToLe bitcoinBlockHeight, confBytes, u64ToLe remainingSatoshis]) (\<lambda>data.
     Inr \<lparr>ix_program_id = programId,
        ix_keys =
         [meta btcVaultPda False True, meta btcAttestationPda False True,
          meta borrowPositionPda False True, meta protocolStatePda False False,
          meta keeper True True],
        ix_data = data\<rparr>)))))"

section \<open>The SDK builds the frontend's instructions\<close>

lemma sdk_ASSET_BTC_eq: "sdk_ASSET_BTC = web_ASSET_BTC"
  by (simp add: sdk_ASSET_BTC_def web_ASSET_BTC_def)

lemmas sdk_builder_eqs = sdk_pda_eq sdk_ASSET_BTC_eq js_default_simps Let_def

lemma sdk_buildCreateAssociatedTokenAccountIx_eq:
  "sdk_buildCreateAssociatedTokenAccountIx P payer owner mint =
       buildCreateAssociatedTokenAccountIx P payer owner mint"
  by (simp only: sdk_buildCreateAssociatedTokenAccountIx_def buildCreateAssociatedTokenAccountIx_def sdk_builder_eqs)

lemma sdk_buildBorrowAgainstCollateralIx_eq:
  "sdk_buildBorrowAgainstCollateralIx P owner vaultPda assetType borrowAssetMint
       poolTokenVault borrowerTokenAccount amount healthCiphertext (Some (PROGRAM_ID P))
       = buildBorrowAgainstCollateralIx P owner vaultPda assetType borrowAssetMint
       poolTokenVault borrowerTokenAccount amount healthCiphertext"
  by (simp only: sdk_buildBorrowAgainstCollateralIx_def buildBorrowAgainstCollateralIx_def sdk_builder_eqs)

lemma sdk_buildRepayBorrowIx_eq:
  "sdk_buildRepayBorrowIx P owner vaultPda borrowAssetMint poolTokenVault
       borrowerTokenAccount amount (Some (PROGRAM_ID P)) = buildRepayBorrowIx P owner
       vaultPda borrowAssetMint poolTokenVault borrowerTokenAccount amount"
  by (simp only: sdk_buildRepayBorrowIx_def buildRepayBorrowIx_def sdk_builder_eqs)

lemma sdk_buildLiquidatePositionIx_eq:
  "sdk_buildLiquidatePositionIx P liquidator vaultPda assetType borrowAssetMint
       poolTokenVault liquidatorTokenAccount (Some (PROGRAM_ID P)) =
       buildLiquidatePositionIx P liquidator vaultPda assetType borrowAssetMint
       poolTokenVault liquidatorTokenAccount"
  by (simp only: sdk_buildLiquidatePositionIx_def buildLiquidatePositionIx_def sdk_builder_eqs)

lemma sdk_buildUpdateAdminPriceIx_eq:
  "sdk_buildUpdateAdminPriceIx P admin assetType newPriceUsd (Some (PROGRAM_ID P)) =
       buildUpdateAdminPriceIx P admin assetType newPriceUsd"
  by (simp only: sdk_buildUpdateAdminPriceIx_def buildUpdateAdminPriceIx_def sdk_builder_eqs)

lemma sdk_buildInitializeLendingPoolIx_eq:
  "sdk_buildInitializeLendingPoolIx P admin borrowAssetMint poolTokenVault assetType
       initialLiquidity initialPriceUsd ltvBasisPoints liquidationThresholdBps
       liquidationBonusBps baseRateBps rateSlopeBps (Some (PROGRAM_ID P)) =
       buildInitializeLendingPoolIx P admin borrowAssetMint poolTokenVault assetType
       initialLiquidity initialPriceUsd ltvBasisPoints liquidationThresholdBps
       liquidationBonusBps baseRateBps rateSlopeBps"
  by (simp only: sdk_buildInitializeLendingPoolIx_def buildInitializeLendingPoolIx_def sdk_builder_eqs)

lemma sdk_buildRegisterBtcVaultIx_eq:
  "sdk_buildRegisterBtcVaultIx P owner ikaDwallet dwalletPubkey bitcoinAddress (Some
       (PROGRAM_ID P)) = buildRegisterBtcVaultIx P owner ikaDwallet dwalletPubkey
       bitcoinAddress"
  by (simp only: sdk_buildRegisterBtcVaultIx_def buildRegisterBtcVaultIx_def sdk_builder_eqs)

lemma sdk_buildVerifyBtcCustodyProofIx_eq:
  "sdk_buildVerifyBtcCustodyProofIx P owner btcVaultPda messageApprovalPda (Some (PROGRAM_ID
       P)) = buildVerifyBtcCustodyProofIx P owner btcVaultPda messageApprovalPda"
  by (simp only: sdk_buildVerifyBtcCustodyProofIx_def buildVerifyBtcCustodyProofIx_def sdk_builder_eqs)

lemma sdk_buildRefreshBtcCustodyProofIx_eq:
  "sdk_buildRefreshBtcCustodyProofIx P owner btcVaultPda messageApprovalPda (Some
       (PROGRAM_ID P)) = buildRefreshBtcCustodyProofIx P owner btcVaultPda
       messageApprovalPda"
  by (simp only: sdk_buildRefreshBtcCustodyProofIx_def buildRefreshBtcCustodyProofIx_def sdk_builder_eqs)

lemma sdk_buildAttestBtcBalanceIx_eq:
  "sdk_buildAttestBtcBalanceIx P keeper btcVaultPda satoshis bitcoinBlockHeight
       bitcoinBlockHash (Some (PROGRAM_ID P)) = buildAttestBtcBalanceIx P keeper
       btcVaultPda satoshis bitcoinBlockHeight bitcoinBlockHash"
  by (simp only: sdk_buildAttestBtcBalanceIx_def buildAttestBtcBalanceIx_def sdk_builder_eqs)

lemma sdk_buildBorrowAgainstBtcCollateralIx_eq:
  "sdk_buildBorrowAgainstBtcCollateralIx P owner btcVaultPda borrowAssetMint poolTokenVault
       borrowerTokenAccount amount healthCiphertext (Some (PROGRAM_ID P)) =
       buildBorrowAgainstBtcCollateralIx P owner btcVaultPda borrowAssetMint
       poolTokenVault borrowerTokenAccount amount healthCiphertext"
  by (simp only: sdk_buildBorrowAgainstBtcCollateralIx_def buildBorrowAgainstBtcCollateralIx_def sdk_builder_eqs)

lemma sdk_buildRepayBtcBorrowIx_eq:
  "sdk_buildRepayBtcBorrowIx P owner btcVaultPda borrowAssetMint poolTokenVault
       borrowerTokenAccount amount (Some (PROGRAM_ID P)) = buildRepayBtcBorrowIx P owner
       btcVaultPda borrowAssetMint poolTokenVault borrowerTokenAccount amount"
  by (simp only: sdk_buildRepayBtcBorrowIx_def buildRepayBtcBorrowIx_def sdk_builder_eqs)

lemma sdk_buildLiquidateBtcPositionIx_eq:
  "sdk_buildLiquidateBtcPositionIx P liquidator btcVaultPda ikaDwallet borrowAssetMint
       poolTokenVault liquidatorTokenAccount coordinator messageApproval bitcoinSighash
       messageMetadataDigest userPubkey messageApprovalBump (Some (IKA_DWALLET_PROGRAM_ID
       P)) (Some (PROGRAM_ID P)) = buildLiquidateBtcPositionIx P liquidator btcVaultPda
       ikaDwallet borrowAssetMint poolTokenVault liquidatorTokenAccount coordinator
       messageApproval bitcoinSighash messageMetadataDigest userPubkey
       messageApprovalBump"
  by (simp only: sdk_buildLiquidateBtcPositionIx_def buildLiquidateBtcPositionIx_def sdk_builder_eqs)

lemma sdk_buildFinalizeBtcLiquidationIx_eq:
  "sdk_buildFinalizeBtcLiquidationIx P keeper btcVaultPda bitcoinTxId bitcoinBlockHeight
       confirmations remainingSatoshis (Some (PROGRAM_ID P)) =
       buildFinalizeBtcLiquidationIx P keeper btcVaultPda bitcoinTxId bitcoinBlockHeight
       confirmations remainingSatoshis"
  by (simp only: sdk_buildFinalizeBtcLiquidationIx_def buildFinalizeBtcLiquidationIx_def sdk_builder_eqs)

section \<open>Properties\<close>

text \<open>C20: given the frontend's program id, and its Ika program id where one is needed, the SDK builds
  instruction for instruction what the frontend builds: the same program, accounts with the same
  flags in the same order, and data, or the same error.\<close>

theorem sdk_builders_agree:
  "sdk_buildCreateAssociatedTokenAccountIx P payer owner mint =
       buildCreateAssociatedTokenAccountIx P payer owner mint
   \<and> sdk_buildBorrowAgainstCollateralIx P owner vaultPda assetType borrowAssetMint
       poolTokenVault borrowerTokenAccount amount healthCiphertext (Some (PROGRAM_ID P))
       = buildBorrowAgainstCollateralIx P owner vaultPda assetType borrowAssetMint
       poolTokenVault borrowerTokenAccount amount healthCiphertext
   \<and> sdk_buildRepayBorrowIx P owner vaultPda borrowAssetMint poolTokenVault
       borrowerTokenAccount amount (Some (PROGRAM_ID P)) = buildRepayBorrowIx P owner
       vaultPda borrowAssetMint poolTokenVault borrowerTokenAccount amount
   \<and> sdk_buildLiquidatePositionIx P liquidator vaultPda assetType borrowAssetMint
       poolTokenVault liquidatorTokenAccount (Some (PROGRAM_ID P)) =
       buildLiquidatePositionIx P liquidator vaultPda assetType borrowAssetMint
       poolTokenVault liquidatorTokenAccount
   \<and> sdk_buildUpdateAdminPriceIx P admin assetType newPriceUsd (Some (PROGRAM_ID P)) =
       buildUpdateAdminPriceIx P admin assetType newPriceUsd
   \<and> sdk_buildInitializeLendingPoolIx P admin borrowAssetMint poolTokenVault assetType
       initialLiquidity initialPriceUsd ltvBasisPoints liquidationThresholdBps
       liquidationBonusBps baseRateBps rateSlopeBps (Some (PROGRAM_ID P)) =
       buildInitializeLendingPoolIx P admin borrowAssetMint poolTokenVault assetType
       initialLiquidity initialPriceUsd ltvBasisPoints liquidationThresholdBps
       liquidationBonusBps baseRateBps rateSlopeBps
   \<and> sdk_buildRegisterBtcVaultIx P owner ikaDwallet dwalletPubkey bitcoinAddress (Some
       (PROGRAM_ID P)) = buildRegisterBtcVaultIx P owner ikaDwallet dwalletPubkey
       bitcoinAddress
   \<and> sdk_buildVerifyBtcCustodyProofIx P owner btcVaultPda messageApprovalPda (Some (PROGRAM_ID
       P)) = buildVerifyBtcCustodyProofIx P owner btcVaultPda messageApprovalPda
   \<and> sdk_buildRefreshBtcCustodyProofIx P owner btcVaultPda messageApprovalPda (Some
       (PROGRAM_ID P)) = buildRefreshBtcCustodyProofIx P owner btcVaultPda
       messageApprovalPda
   \<and> sdk_buildAttestBtcBalanceIx P keeper btcVaultPda satoshis bitcoinBlockHeight
       bitcoinBlockHash (Some (PROGRAM_ID P)) = buildAttestBtcBalanceIx P keeper
       btcVaultPda satoshis bitcoinBlockHeight bitcoinBlockHash
   \<and> sdk_buildBorrowAgainstBtcCollateralIx P owner btcVaultPda borrowAssetMint poolTokenVault
       borrowerTokenAccount amount healthCiphertext (Some (PROGRAM_ID P)) =
       buildBorrowAgainstBtcCollateralIx P owner btcVaultPda borrowAssetMint
       poolTokenVault borrowerTokenAccount amount healthCiphertext
   \<and> sdk_buildRepayBtcBorrowIx P owner btcVaultPda borrowAssetMint poolTokenVault
       borrowerTokenAccount amount (Some (PROGRAM_ID P)) = buildRepayBtcBorrowIx P owner
       btcVaultPda borrowAssetMint poolTokenVault borrowerTokenAccount amount
   \<and> sdk_buildLiquidateBtcPositionIx P liquidator btcVaultPda ikaDwallet borrowAssetMint
       poolTokenVault liquidatorTokenAccount coordinator messageApproval bitcoinSighash
       messageMetadataDigest userPubkey messageApprovalBump (Some (IKA_DWALLET_PROGRAM_ID
       P)) (Some (PROGRAM_ID P)) = buildLiquidateBtcPositionIx P liquidator btcVaultPda
       ikaDwallet borrowAssetMint poolTokenVault liquidatorTokenAccount coordinator
       messageApproval bitcoinSighash messageMetadataDigest userPubkey
       messageApprovalBump
   \<and> sdk_buildFinalizeBtcLiquidationIx P keeper btcVaultPda bitcoinTxId bitcoinBlockHeight
       confirmations remainingSatoshis (Some (PROGRAM_ID P)) =
       buildFinalizeBtcLiquidationIx P keeper btcVaultPda bitcoinTxId bitcoinBlockHeight
       confirmations remainingSatoshis"
  by (intro conjI sdk_buildCreateAssociatedTokenAccountIx_eq
    sdk_buildBorrowAgainstCollateralIx_eq
    sdk_buildRepayBorrowIx_eq
    sdk_buildLiquidatePositionIx_eq
    sdk_buildUpdateAdminPriceIx_eq
    sdk_buildInitializeLendingPoolIx_eq
    sdk_buildRegisterBtcVaultIx_eq
    sdk_buildVerifyBtcCustodyProofIx_eq
    sdk_buildRefreshBtcCustodyProofIx_eq
    sdk_buildAttestBtcBalanceIx_eq
    sdk_buildBorrowAgainstBtcCollateralIx_eq
    sdk_buildRepayBtcBorrowIx_eq
    sdk_buildLiquidateBtcPositionIx_eq
    sdk_buildFinalizeBtcLiquidationIx_eq)

end
