(* ===== verification/Chain_Interface.thy ===== *)
theory Chain_Interface
  imports Builders_Sdk
begin

text \<open>
  The other side of the builders: what the program's instructions ask of a transaction. A rule lists,
  in the order of an Anchor \<open>Accounts\<close> struct, which accounts must sign, which must be writable and
  which address each must have (a constant, or derived from seeds that may name the key of another
  account of the instruction), and the Borsh types of the arguments that follow the discriminator.
  Rules follow the structs under \<open>contracts/src/instructions\<close> and the signatures in \<open>lib.rs\<close>.

  The theorem is that every instruction the frontend builds is admitted by its rule, with the
  arguments decoding to the builder's parameters at the width of their Rust types.
\<close>

section \<open>Seeds of the program\<close>

definition byte_string :: "string \<Rightarrow> bytes" where
  "byte_string s = map (\<lambda>c. word_of_nat (of_char c)) s"

definition VAULT_PDA_SEED :: bytes where "VAULT_PDA_SEED = byte_string ''vault''"
definition PROTOCOL_STATE_PDA_SEED :: bytes where
  "PROTOCOL_STATE_PDA_SEED = byte_string ''protocol_state''"
definition RISK_STATE_PDA_SEED :: bytes where "RISK_STATE_PDA_SEED = byte_string ''risk_state''"
definition LENDING_POOL_PDA_SEED :: bytes where
  "LENDING_POOL_PDA_SEED = byte_string ''lending_pool''"
definition BORROW_POSITION_PDA_SEED :: bytes where
  "BORROW_POSITION_PDA_SEED = byte_string ''borrow_position''"
definition ADMIN_PRICE_FEED_PDA_SEED :: bytes where
  "ADMIN_PRICE_FEED_PDA_SEED = byte_string ''admin_price''"
definition BTC_VAULT_PDA_SEED :: bytes where "BTC_VAULT_PDA_SEED = byte_string ''btc_vault''"
definition BTC_ATTESTATION_PDA_SEED :: bytes where
  "BTC_ATTESTATION_PDA_SEED = byte_string ''btc_attestation''"
definition BTC_BORROW_POSITION_PDA_SEED :: bytes where
  "BTC_BORROW_POSITION_PDA_SEED = byte_string ''btc_borrow_position''"
definition DEMO_MESSAGE_APPROVAL_SEED :: bytes where
  "DEMO_MESSAGE_APPROVAL_SEED = byte_string ''demo_msg_approval''"
definition CIPHERTEXT_SEED :: bytes where "CIPHERTEXT_SEED = byte_string ''demo_ciphertext''"

text \<open>\<open>CPI_AUTHORITY_SEED\<close> is a constant of Ika's crate; the comments in \<open>approve_custody_signature.rs\<close>
  give its text.\<close>

definition CPI_AUTHORITY_SEED :: bytes where
  "CPI_AUTHORITY_SEED = byte_string ''__ika_cpi_authority''"

lemma byte_string_eq: "list_all (\<lambda>c. of_char c < (128::nat)) s \<Longrightarrow> byte_string s = buffer_from s"
  by (simp add: byte_string_def buffer_from_ascii)

lemma program_seeds:
  "VAULT_PDA_SEED = VAULT_SEED" "PROTOCOL_STATE_PDA_SEED = PROTOCOL_STATE_SEED"
  "RISK_STATE_PDA_SEED = RISK_STATE_SEED" "LENDING_POOL_PDA_SEED = LENDING_POOL_SEED"
  "BORROW_POSITION_PDA_SEED = BORROW_POSITION_SEED"
  "ADMIN_PRICE_FEED_PDA_SEED = ADMIN_PRICE_FEED_SEED" "BTC_VAULT_PDA_SEED = BTC_VAULT_SEED"
  "BTC_ATTESTATION_PDA_SEED = BTC_ATTESTATION_SEED"
  "BTC_BORROW_POSITION_PDA_SEED = BTC_BORROW_POSITION_SEED"
  "DEMO_MESSAGE_APPROVAL_SEED = DEMO_MSG_APPROVAL_SEED" "CIPHERTEXT_SEED = DEMO_CIPHERTEXT_SEED"
  "CPI_AUTHORITY_SEED = IKA_CPI_AUTHORITY_SEED"
  by (simp_all add: seed_defs VAULT_PDA_SEED_def PROTOCOL_STATE_PDA_SEED_def RISK_STATE_PDA_SEED_def
      LENDING_POOL_PDA_SEED_def BORROW_POSITION_PDA_SEED_def ADMIN_PRICE_FEED_PDA_SEED_def
      BTC_VAULT_PDA_SEED_def BTC_ATTESTATION_PDA_SEED_def BTC_BORROW_POSITION_PDA_SEED_def
      DEMO_MESSAGE_APPROVAL_SEED_def CIPHERTEXT_SEED_def CPI_AUTHORITY_SEED_def byte_string_eq)

section \<open>Borsh arguments\<close>

datatype borsh_type = TyUInt nat | TyBool | TyArray nat | TyVec | TyString

datatype borsh_value = VInt nat | VBool bool | VBytes bytes

text \<open>A \<open>String\<close> must be UTF-8: decoding, which replaces what is not, and encoding again gives it back.\<close>

definition valid_utf8 :: "bytes \<Rightarrow> bool" where
  "valid_utf8 bs \<longleftrightarrow> text_encode (utf8_decode 0 0 0 128 191 (map unat bs)) = bs"

definition borsh_vec :: "bytes \<Rightarrow> (bytes \<times> bytes) option" where
  "borsh_vec d =
     (if 4 \<le> length d
      then let n = le_val (take 4 d); r = drop 4 d
           in if n \<le> length r then Some (take n r, drop n r) else None
      else None)"

fun borsh_read :: "borsh_type \<Rightarrow> bytes \<Rightarrow> (borsh_value \<times> bytes) option" where
  "borsh_read (TyUInt n) d =
     (if n \<le> length d then Some (VInt (le_val (take n d)), drop n d) else None)"
| "borsh_read TyBool d =
     (case d of [] \<Rightarrow> None
      | b # r \<Rightarrow> if b = 0 then Some (VBool False, r) else if b = 1 then Some (VBool True, r) else None)"
| "borsh_read (TyArray n) d =
     (if n \<le> length d then Some (VBytes (take n d), drop n d) else None)"
| "borsh_read TyVec d = (case borsh_vec d of None \<Rightarrow> None | Some (bs, r) \<Rightarrow> Some (VBytes bs, r))"
| "borsh_read TyString d =
     (case borsh_vec d of None \<Rightarrow> None
      | Some (bs, r) \<Rightarrow> if valid_utf8 bs then Some (VBytes bs, r) else None)"

fun borsh_args :: "borsh_type list \<Rightarrow> bytes \<Rightarrow> (borsh_value list \<times> bytes) option" where
  "borsh_args [] d = Some ([], d)"
| "borsh_args (t # ts) d =
     (case borsh_read t d of
        None \<Rightarrow> None
      | Some (v, r) \<Rightarrow> map_option (\<lambda>(vs, r'). (v # vs, r')) (borsh_args ts r))"

section \<open>Rules and admission\<close>

datatype seed_rule = SeedBytes bytes | SeedKey nat

datatype address_rule = AnyKey | FixedKey pubkey | PdaOf "seed_rule list"

record account_rule =
  ar_signer :: bool
  ar_mut :: bool
  ar_address :: address_rule

record instruction_rule =
  ir_name :: string
  ir_accounts :: "account_rule list"
  ir_args :: "borsh_type list"

definition acc :: "bool \<Rightarrow> bool \<Rightarrow> address_rule \<Rightarrow> account_rule" where
  "acc s m a = \<lparr>ar_signer = s, ar_mut = m, ar_address = a\<rparr>"

fun seed_bytes :: "pubkey list \<Rightarrow> seed_rule \<Rightarrow> bytes" where
  "seed_bytes keys (SeedBytes bs) = bs"
| "seed_bytes keys (SeedKey i) = to_buffer (keys ! i)"

fun address_ok :: "platform \<Rightarrow> pubkey list \<Rightarrow> address_rule \<Rightarrow> pubkey \<Rightarrow> bool" where
  "address_ok P keys AnyKey k \<longleftrightarrow> True"
| "address_ok P keys (FixedKey k') k \<longleftrightarrow> k = k'"
| "address_ok P keys (PdaOf seeds) k \<longleftrightarrow>
     (case find_program_address P (map (seed_bytes keys) seeds) (PROGRAM_ID P) of
        Inl e \<Rightarrow> False | Inr (pda, bump) \<Rightarrow> k = pda)"

definition account_ok :: "platform \<Rightarrow> pubkey list \<Rightarrow> account_rule \<Rightarrow> account_meta \<Rightarrow> bool" where
  "account_ok P keys r k \<longleftrightarrow>
     (ar_signer r \<longrightarrow> is_signer k) \<and> (ar_mut r \<longrightarrow> is_writable k)
     \<and> address_ok P keys (ar_address r) (meta_pubkey k)"

definition admits :: "platform \<Rightarrow> instruction_rule \<Rightarrow> transaction_instruction \<Rightarrow> borsh_value list \<Rightarrow> bool" where
  "admits P r ix vals \<longleftrightarrow>
     ix_program_id ix = PROGRAM_ID P
     \<and> list_all2 (account_ok P (map meta_pubkey (ix_keys ix))) (ir_accounts r) (ix_keys ix)
     \<and> take 8 (ix_data ix) = sighash P (ir_name r)
     \<and> borsh_args (ir_args r) (drop 8 (ix_data ix)) = Some (vals, [])"

section \<open>The program's instructions\<close>

definition rule_initialize_protocol :: "instruction_rule" where
  "rule_initialize_protocol =
     \<lparr>ir_name = ''initialize_protocol'',
      ir_accounts =
       [acc False True (PdaOf [SeedBytes PROTOCOL_STATE_PDA_SEED]), acc True True AnyKey,
        acc False False (FixedKey SystemProgram_programId)],
      ir_args = []\<rparr>"

definition rule_register_vault :: "bytes \<Rightarrow> instruction_rule" where
  "rule_register_vault dwalletId =
     \<lparr>ir_name = ''register_vault'',
      ir_accounts =
       [acc False True (PdaOf [SeedBytes VAULT_PDA_SEED, SeedKey 2, SeedBytes dwalletId]),
        acc False True (PdaOf [SeedBytes PROTOCOL_STATE_PDA_SEED]), acc True True AnyKey,
        acc False False (FixedKey SystemProgram_programId)],
      ir_args = [TyArray 32, TyUInt 1]\<rparr>"

definition rule_deposit_collateral :: "instruction_rule" where
  "rule_deposit_collateral =
     \<lparr>ir_name = ''deposit_collateral'',
      ir_accounts =
       [acc False True AnyKey, acc False True (PdaOf [SeedBytes PROTOCOL_STATE_PDA_SEED]),
        acc True True AnyKey, acc False False (FixedKey SystemProgram_programId)],
      ir_args = [TyUInt 8]\<rparr>"

definition rule_verify_custody_proof :: "instruction_rule" where
  "rule_verify_custody_proof =
     \<lparr>ir_name = ''verify_custody_proof'',
      ir_accounts =
       [acc False True AnyKey, acc False False AnyKey, acc True True AnyKey],
      ir_args = [TyArray 32]\<rparr>"

definition rule_initialize_risk_state :: "instruction_rule" where
  "rule_initialize_risk_state =
     \<lparr>ir_name = ''initialize_risk_state'',
      ir_accounts =
       [acc False True (PdaOf [SeedBytes RISK_STATE_PDA_SEED, SeedKey 1]), acc False False AnyKey,
        acc True True AnyKey, acc False False (FixedKey SystemProgram_programId)],
      ir_args = [TyArray 32]\<rparr>"

definition rule_update_backing_state :: "instruction_rule" where
  "rule_update_backing_state =
     \<lparr>ir_name = ''update_backing_state'',
      ir_accounts =
       [acc False False AnyKey, acc False True (PdaOf [SeedBytes RISK_STATE_PDA_SEED, SeedKey 0]),
        acc False False (PdaOf [SeedBytes PROTOCOL_STATE_PDA_SEED]),
        acc False False AnyKey, acc False True AnyKey, acc True False AnyKey,
        acc True True AnyKey, acc False False (FixedKey SystemProgram_programId)],
      ir_args = [TyUInt 8]\<rparr>"

definition rule_trigger_risk_check :: "instruction_rule" where
  "rule_trigger_risk_check =
     \<lparr>ir_name = ''trigger_risk_check'',
      ir_accounts =
       [acc False True AnyKey, acc False True (PdaOf [SeedBytes RISK_STATE_PDA_SEED, SeedKey 0]),
        acc False True (PdaOf [SeedBytes PROTOCOL_STATE_PDA_SEED]), acc False False AnyKey,
        acc False False AnyKey, acc False False AnyKey, acc False True AnyKey,
        acc True True AnyKey, acc False False (FixedKey SystemProgram_programId)],
      ir_args = []\<rparr>"

definition rule_unfreeze_protocol_state :: "instruction_rule" where
  "rule_unfreeze_protocol_state =
     \<lparr>ir_name = ''unfreeze_protocol_state'',
      ir_accounts =
       [acc False True (PdaOf [SeedBytes PROTOCOL_STATE_PDA_SEED]), acc True False AnyKey],
      ir_args = []\<rparr>"

definition rule_approve_custody_signature :: "platform \<Rightarrow> instruction_rule" where
  "rule_approve_custody_signature P =
     \<lparr>ir_name = ''approve_custody_signature'',
      ir_accounts =
       [acc False True AnyKey, acc False False (FixedKey (PROGRAM_ID P)),
        acc False False (PdaOf [SeedBytes CPI_AUTHORITY_SEED]), acc False False AnyKey,
        acc False False AnyKey, acc False False AnyKey, acc False True AnyKey,
        acc True True AnyKey, acc False False (FixedKey SystemProgram_programId)],
      ir_args = [TyArray 32, TyArray 32, TyArray 32, TyUInt 2, TyUInt 1]\<rparr>"

definition rule_initialize_lending_pool :: "int \<Rightarrow> instruction_rule" where
  "rule_initialize_lending_pool assetType =
     \<lparr>ir_name = ''initialize_lending_pool'',
      ir_accounts =
       [acc False True (PdaOf [SeedBytes LENDING_POOL_PDA_SEED, SeedKey 2]),
        acc False True (PdaOf [SeedBytes ADMIN_PRICE_FEED_PDA_SEED, SeedBytes [to_uint8 assetType]]),
        acc False False AnyKey, acc False True AnyKey, acc True True AnyKey,
        acc False False (FixedKey SystemProgram_programId),
        acc False False (FixedKey TOKEN_PROGRAM_ID)],
      ir_args = [TyUInt 1, TyUInt 8, TyUInt 8, TyUInt 2, TyUInt 2, TyUInt 2, TyUInt 2, TyUInt 2]\<rparr>"

definition rule_close_admin_price_feed :: "int \<Rightarrow> instruction_rule" where
  "rule_close_admin_price_feed assetType =
     \<lparr>ir_name = ''close_admin_price_feed'',
      ir_accounts =
       [acc False True (PdaOf [SeedBytes ADMIN_PRICE_FEED_PDA_SEED, SeedBytes [to_uint8 assetType]]),
        acc True True AnyKey],
      ir_args = []\<rparr>"

definition rule_update_admin_price :: "int \<Rightarrow> instruction_rule" where
  "rule_update_admin_price assetType =
     \<lparr>ir_name = ''update_admin_price'',
      ir_accounts =
       [acc False True (PdaOf [SeedBytes ADMIN_PRICE_FEED_PDA_SEED, SeedBytes [to_uint8 assetType]]),
        acc True False AnyKey],
      ir_args = [TyUInt 8]\<rparr>"

definition rule_borrow_against_collateral :: "int \<Rightarrow> pubkey \<Rightarrow> instruction_rule" where
  "rule_borrow_against_collateral assetType borrowAssetMint =
     \<lparr>ir_name = ''borrow_against_collateral'',
      ir_accounts =
       [acc False True AnyKey, acc False False (PdaOf [SeedBytes PROTOCOL_STATE_PDA_SEED]),
        acc False True (PdaOf [SeedBytes LENDING_POOL_PDA_SEED, SeedBytes (to_buffer borrowAssetMint)]),
        acc False False (PdaOf [SeedBytes ADMIN_PRICE_FEED_PDA_SEED, SeedBytes [to_uint8 assetType]]),
        acc False True (PdaOf [SeedBytes BORROW_POSITION_PDA_SEED, SeedKey 0]),
        acc False True AnyKey, acc False True AnyKey, acc True True AnyKey,
        acc False False (FixedKey TOKEN_PROGRAM_ID),
        acc False False (FixedKey SystemProgram_programId)],
      ir_args = [TyUInt 8, TyArray 32]\<rparr>"

definition rule_repay_borrow :: "pubkey \<Rightarrow> instruction_rule" where
  "rule_repay_borrow borrowAssetMint =
     \<lparr>ir_name = ''repay_borrow'',
      ir_accounts =
       [acc False False AnyKey,
        acc False True (PdaOf [SeedBytes LENDING_POOL_PDA_SEED, SeedBytes (to_buffer borrowAssetMint)]),
        acc False True (PdaOf [SeedBytes BORROW_POSITION_PDA_SEED, SeedKey 0]),
        acc False True AnyKey, acc False True AnyKey, acc True True AnyKey,
        acc False False (FixedKey TOKEN_PROGRAM_ID)],
      ir_args = [TyUInt 8]\<rparr>"

definition rule_liquidate_position :: "int \<Rightarrow> pubkey \<Rightarrow> instruction_rule" where
  "rule_liquidate_position assetType borrowAssetMint =
     \<lparr>ir_name = ''liquidate_position'',
      ir_accounts =
       [acc False True AnyKey, acc False False (PdaOf [SeedBytes PROTOCOL_STATE_PDA_SEED]),
        acc False True (PdaOf [SeedBytes LENDING_POOL_PDA_SEED, SeedBytes (to_buffer borrowAssetMint)]),
        acc False False (PdaOf [SeedBytes ADMIN_PRICE_FEED_PDA_SEED, SeedBytes [to_uint8 assetType]]),
        acc False True (PdaOf [SeedBytes BORROW_POSITION_PDA_SEED, SeedKey 0]),
        acc False True AnyKey, acc False True AnyKey, acc True True AnyKey,
        acc False False (FixedKey TOKEN_PROGRAM_ID)],
      ir_args = []\<rparr>"

definition rule_demo_create_message_approval :: "bytes \<Rightarrow> instruction_rule" where
  "rule_demo_create_message_approval dwalletId =
     \<lparr>ir_name = ''demo_create_message_approval'',
      ir_accounts =
       [acc False True (PdaOf [SeedBytes DEMO_MESSAGE_APPROVAL_SEED, SeedKey 1, SeedBytes dwalletId]),
        acc True True AnyKey, acc False False (FixedKey SystemProgram_programId)],
      ir_args = [TyArray 32, TyBool]\<rparr>"

definition rule_demo_create_ciphertext :: "bytes \<Rightarrow> instruction_rule" where
  "rule_demo_create_ciphertext label =
     \<lparr>ir_name = ''demo_create_ciphertext'',
      ir_accounts =
       [acc False True (PdaOf [SeedBytes CIPHERTEXT_SEED, SeedKey 1, SeedBytes label]),
        acc True True AnyKey, acc False False (FixedKey SystemProgram_programId)],
      ir_args = [TyArray 8, TyUInt 1]\<rparr>"

definition rule_register_btc_vault :: "pubkey \<Rightarrow> instruction_rule" where
  "rule_register_btc_vault ikaDwallet =
     \<lparr>ir_name = ''register_btc_vault'',
      ir_accounts =
       [acc False True (PdaOf [SeedBytes BTC_VAULT_PDA_SEED, SeedKey 3, SeedBytes (to_buffer ikaDwallet)]),
        acc False True (PdaOf [SeedBytes BTC_ATTESTATION_PDA_SEED, SeedKey 0]),
        acc False True (PdaOf [SeedBytes PROTOCOL_STATE_PDA_SEED]), acc True True AnyKey,
        acc False False (FixedKey SystemProgram_programId)],
      ir_args = [TyArray 32, TyArray 33, TyVec]\<rparr>"

definition rule_attest_btc_balance :: "instruction_rule" where
  "rule_attest_btc_balance =
     \<lparr>ir_name = ''attest_btc_balance'',
      ir_accounts =
       [acc False True AnyKey,
        acc False True (PdaOf [SeedBytes BTC_ATTESTATION_PDA_SEED, SeedKey 0]),
        acc False False (PdaOf [SeedBytes PROTOCOL_STATE_PDA_SEED]), acc True False AnyKey],
      ir_args = [TyUInt 8, TyUInt 8, TyArray 32]\<rparr>"

definition rule_verify_btc_custody_proof :: "instruction_rule" where
  "rule_verify_btc_custody_proof =
     \<lparr>ir_name = ''verify_btc_custody_proof'',
      ir_accounts =
       [acc False True AnyKey, acc False False AnyKey, acc True False AnyKey],
      ir_args = []\<rparr>"

definition rule_refresh_btc_custody_proof :: "instruction_rule" where
  "rule_refresh_btc_custody_proof =
     \<lparr>ir_name = ''refresh_btc_custody_proof'',
      ir_accounts =
       [acc False True AnyKey, acc False False AnyKey, acc True False AnyKey],
      ir_args = []\<rparr>"

definition rule_borrow_against_btc_collateral :: "pubkey \<Rightarrow> instruction_rule" where
  "rule_borrow_against_btc_collateral borrowAssetMint =
     \<lparr>ir_name = ''borrow_against_btc_collateral'',
      ir_accounts =
       [acc False True AnyKey, acc False False (PdaOf [SeedBytes PROTOCOL_STATE_PDA_SEED]),
        acc False True (PdaOf [SeedBytes LENDING_POOL_PDA_SEED, SeedBytes (to_buffer borrowAssetMint)]),
        acc False False (PdaOf [SeedBytes ADMIN_PRICE_FEED_PDA_SEED, SeedBytes [0]]),
        acc False False (PdaOf [SeedBytes BTC_ATTESTATION_PDA_SEED, SeedKey 0]),
        acc False True (PdaOf [SeedBytes BTC_BORROW_POSITION_PDA_SEED, SeedKey 0]),
        acc False True AnyKey, acc False True AnyKey, acc True True AnyKey,
        acc False False (FixedKey TOKEN_PROGRAM_ID),
        acc False False (FixedKey SystemProgram_programId)],
      ir_args = [TyUInt 8, TyArray 32]\<rparr>"

definition rule_repay_btc_borrow :: "pubkey \<Rightarrow> instruction_rule" where
  "rule_repay_btc_borrow borrowAssetMint =
     \<lparr>ir_name = ''repay_btc_borrow'',
      ir_accounts =
       [acc False False AnyKey,
        acc False True (PdaOf [SeedBytes LENDING_POOL_PDA_SEED, SeedBytes (to_buffer borrowAssetMint)]),
        acc False True (PdaOf [SeedBytes BTC_BORROW_POSITION_PDA_SEED, SeedKey 0]),
        acc False True AnyKey, acc False True AnyKey, acc True True AnyKey,
        acc False False (FixedKey TOKEN_PROGRAM_ID)],
      ir_args = [TyUInt 8]\<rparr>"

definition rule_liquidate_btc_position :: "platform \<Rightarrow> pubkey \<Rightarrow> pubkey \<Rightarrow> instruction_rule" where
  "rule_liquidate_btc_position P ikaDwallet borrowAssetMint =
     \<lparr>ir_name = ''liquidate_btc_position'',
      ir_accounts =
       [acc False True AnyKey, acc False False (PdaOf [SeedBytes PROTOCOL_STATE_PDA_SEED]),
        acc False True (PdaOf [SeedBytes LENDING_POOL_PDA_SEED, SeedBytes (to_buffer borrowAssetMint)]),
        acc False False (PdaOf [SeedBytes ADMIN_PRICE_FEED_PDA_SEED, SeedBytes [0]]),
        acc False False (PdaOf [SeedBytes BTC_ATTESTATION_PDA_SEED, SeedKey 0]),
        acc False True (PdaOf [SeedBytes BTC_BORROW_POSITION_PDA_SEED, SeedKey 0]),
        acc False True AnyKey, acc False True AnyKey,
        acc False False (FixedKey (PROGRAM_ID P)),
        acc False False (PdaOf [SeedBytes CPI_AUTHORITY_SEED]), acc False False AnyKey,
        acc False False AnyKey, acc False False (FixedKey ikaDwallet),
        acc False True AnyKey, acc True True AnyKey,
        acc False False (FixedKey TOKEN_PROGRAM_ID),
        acc False False (FixedKey SystemProgram_programId)],
      ir_args = [TyArray 32, TyArray 32, TyArray 32, TyUInt 1]\<rparr>"

definition rule_finalize_btc_liquidation :: "instruction_rule" where
  "rule_finalize_btc_liquidation =
     \<lparr>ir_name = ''finalize_btc_liquidation'',
      ir_accounts =
       [acc False True AnyKey,
        acc False True (PdaOf [SeedBytes BTC_ATTESTATION_PDA_SEED, SeedKey 0]),
        acc False True (PdaOf [SeedBytes BTC_BORROW_POSITION_PDA_SEED, SeedKey 0]),
        acc False False (PdaOf [SeedBytes PROTOCOL_STATE_PDA_SEED]), acc True True AnyKey],
      ir_args = [TyArray 32, TyUInt 8, TyUInt 4, TyUInt 8]\<rparr>"

text \<open>The instructions the frontend sends none of.\<close>

definition rule_refresh_custody_proof :: "instruction_rule" where
  "rule_refresh_custody_proof =
     \<lparr>ir_name = ''refresh_custody_proof'',
      ir_accounts =
       [acc False True AnyKey, acc False False AnyKey, acc True True AnyKey],
      ir_args = [TyArray 32]\<rparr>"

definition rule_withdraw_collateral :: "instruction_rule" where
  "rule_withdraw_collateral =
     \<lparr>ir_name = ''withdraw_collateral'',
      ir_accounts =
       [acc False True AnyKey, acc False True (PdaOf [SeedBytes PROTOCOL_STATE_PDA_SEED]),
        acc True True AnyKey, acc False False (FixedKey SystemProgram_programId)],
      ir_args = [TyUInt 8]\<rparr>"

definition rule_reject_unverified_deposit :: "instruction_rule" where
  "rule_reject_unverified_deposit =
     \<lparr>ir_name = ''reject_unverified_deposit'',
      ir_accounts =
       [acc False True AnyKey, acc False True (PdaOf [SeedBytes PROTOCOL_STATE_PDA_SEED]),
        acc True True AnyKey, acc False False (FixedKey SystemProgram_programId)],
      ir_args = [TyUInt 8, TyString]\<rparr>"

definition rule_circuit_breaker_freeze :: "instruction_rule" where
  "rule_circuit_breaker_freeze =
     \<lparr>ir_name = ''circuit_breaker_freeze'',
      ir_accounts =
       [acc False True AnyKey, acc False True (PdaOf [SeedBytes PROTOCOL_STATE_PDA_SEED]),
        acc True False AnyKey],
      ir_args = [TyString]\<rparr>"

definition rule_admin_unfreeze :: "instruction_rule" where
  "rule_admin_unfreeze =
     \<lparr>ir_name = ''admin_unfreeze'',
      ir_accounts =
       [acc False True AnyKey, acc False True (PdaOf [SeedBytes PROTOCOL_STATE_PDA_SEED]),
        acc True False AnyKey],
      ir_args = []\<rparr>"

definition rule_close_vault :: "instruction_rule" where
  "rule_close_vault =
     \<lparr>ir_name = ''close_vault'',
      ir_accounts = [acc False True AnyKey, acc True True AnyKey],
      ir_args = []\<rparr>"

definition rule_initialize_admin_price_feed :: "int \<Rightarrow> instruction_rule" where
  "rule_initialize_admin_price_feed assetType =
     \<lparr>ir_name = ''initialize_admin_price_feed'',
      ir_accounts =
       [acc False True (PdaOf [SeedBytes ADMIN_PRICE_FEED_PDA_SEED, SeedBytes [to_uint8 assetType]]),
        acc True True AnyKey, acc False False (FixedKey SystemProgram_programId)],
      ir_args = [TyUInt 1, TyUInt 8]\<rparr>"

section \<open>The frontend's calls\<close>

datatype builder_call =
    CallInitializeProtocol pubkey
  | CallRegisterVault pubkey bytes int
  | CallDepositCollateral pubkey pubkey int
  | CallVerifyCustodyProof pubkey pubkey pubkey bytes
  | CallInitializeRiskState pubkey pubkey pubkey
  | CallUpdateBackingState pubkey pubkey pubkey int
  | CallTriggerRiskCheck pubkey pubkey pubkey pubkey pubkey
  | CallUnfreezeProtocolState pubkey
  | CallApproveCustodySignature pubkey pubkey pubkey pubkey pubkey pubkey pubkey pubkey int bytes "bytes option" bytes int
  | CallInitializeLendingPool pubkey pubkey pubkey int int int int int int int int
  | CallCloseAdminPriceFeed pubkey int
  | CallUpdateAdminPrice pubkey int int
  | CallBorrowAgainstCollateral pubkey pubkey int pubkey pubkey pubkey int "pubkey option"
  | CallRepayBorrow pubkey pubkey pubkey pubkey pubkey int
  | CallLiquidatePosition pubkey pubkey int pubkey pubkey pubkey
  | CallDemoCreateMessageApproval pubkey bytes bool
  | CallDemoCreateCiphertext pubkey jstext int
  | CallRegisterBtcVault pubkey pubkey bytes jstext
  | CallAttestBtcBalance pubkey pubkey int int bytes
  | CallVerifyBtcCustodyProof pubkey pubkey pubkey
  | CallRefreshBtcCustodyProof pubkey pubkey pubkey
  | CallBorrowAgainstBtcCollateral pubkey pubkey pubkey pubkey pubkey int "pubkey option"
  | CallRepayBtcBorrow pubkey pubkey pubkey pubkey pubkey int
  | CallLiquidateBtcPosition pubkey pubkey pubkey pubkey pubkey pubkey pubkey pubkey bytes "bytes option" bytes int
  | CallFinalizeBtcLiquidation pubkey pubkey bytes int int int

definition first_of :: "('a \<times> 'b) js \<Rightarrow> 'a js" where
  "first_of r = js_bind r (\<lambda>(ix, _). Inr ix)"

fun build_call :: "platform \<Rightarrow> builder_call \<Rightarrow> transaction_instruction js" where
  "build_call P (CallInitializeProtocol admin) =
     buildInitializeProtocolIx P admin"
| "build_call P (CallRegisterVault owner dwalletId assetType) =
     first_of (buildRegisterVaultIx P owner dwalletId assetType)"
| "build_call P (CallDepositCollateral owner vaultPda amountLamports) =
     buildDepositCollateralIx P owner vaultPda amountLamports"
| "build_call P (CallVerifyCustodyProof owner vaultPda messageApprovalPda
       expectedDwalletId) =
     buildVerifyCustodyProofIx P owner vaultPda messageApprovalPda expectedDwalletId"
| "build_call P (CallInitializeRiskState owner vaultPda thresholdCiphertext) =
     buildInitializeRiskStateIx P owner vaultPda thresholdCiphertext"
| "build_call P (CallUpdateBackingState owner vaultPda backingCiphertextPda
       newBackingAmount) =
     buildUpdateBackingStateIx P owner vaultPda backingCiphertextPda newBackingAmount"
| "build_call P (CallTriggerRiskCheck owner vaultPda backingCiphertextPda
       thresholdCiphertextPda resultCiphertextPda) =
     buildTriggerRiskCheckIx P owner vaultPda backingCiphertextPda thresholdCiphertextPda
       resultCiphertextPda"
| "build_call P (CallUnfreezeProtocolState admin) =
     buildUnfreezeProtocolStateIx P admin"
| "build_call P (CallApproveCustodySignature owner vaultPda callerProgram cpiAuthority
       dwalletProgram coordinator dwallet messageApproval messageApprovalBump
       messageDigest messageMetadataDigest userPubkey signatureScheme) =
     buildApproveCustodySignatureIx P owner vaultPda callerProgram cpiAuthority
       dwalletProgram coordinator dwallet messageApproval messageApprovalBump
       messageDigest messageMetadataDigest userPubkey signatureScheme"
| "build_call P (CallInitializeLendingPool admin borrowAssetMint poolTokenVault assetType
       initialLiquidity initialPriceUsd ltvBasisPoints liquidationThresholdBps
       liquidationBonusBps baseRateBps rateSlopeBps) =
     first_of (buildInitializeLendingPoolIx P admin borrowAssetMint poolTokenVault assetType
       initialLiquidity initialPriceUsd ltvBasisPoints liquidationThresholdBps
       liquidationBonusBps baseRateBps rateSlopeBps)"
| "build_call P (CallCloseAdminPriceFeed admin assetType) =
     first_of (buildCloseAdminPriceFeedIx P admin assetType)"
| "build_call P (CallUpdateAdminPrice admin assetType newPriceUsd) =
     first_of (buildUpdateAdminPriceIx P admin assetType newPriceUsd)"
| "build_call P (CallBorrowAgainstCollateral owner vaultPda assetType borrowAssetMint
       poolTokenVault borrowerTokenAccount amount healthCiphertext) =
     first_of (buildBorrowAgainstCollateralIx P owner vaultPda assetType borrowAssetMint
       poolTokenVault borrowerTokenAccount amount healthCiphertext)"
| "build_call P (CallRepayBorrow owner vaultPda borrowAssetMint poolTokenVault
       borrowerTokenAccount amount) =
     first_of (buildRepayBorrowIx P owner vaultPda borrowAssetMint poolTokenVault borrowerTokenAccount
       amount)"
| "build_call P (CallLiquidatePosition liquidator vaultPda assetType borrowAssetMint
       poolTokenVault liquidatorTokenAccount) =
     first_of (buildLiquidatePositionIx P liquidator vaultPda assetType borrowAssetMint poolTokenVault
       liquidatorTokenAccount)"
| "build_call P (CallDemoCreateMessageApproval payer dwalletId isSigned) =
     first_of (buildDemoCreateMessageApprovalIx P payer dwalletId isSigned)"
| "build_call P (CallDemoCreateCiphertext payer label byteValue) =
     first_of (buildDemoCreateCiphertextIx P payer label byteValue)"
| "build_call P (CallRegisterBtcVault owner ikaDwallet dwalletPubkey bitcoinAddress) =
     first_of (buildRegisterBtcVaultIx P owner ikaDwallet dwalletPubkey bitcoinAddress)"
| "build_call P (CallAttestBtcBalance keeper btcVaultPda satoshis bitcoinBlockHeight
       bitcoinBlockHash) =
     buildAttestBtcBalanceIx P keeper btcVaultPda satoshis bitcoinBlockHeight
       bitcoinBlockHash"
| "build_call P (CallVerifyBtcCustodyProof owner btcVaultPda messageApprovalPda) =
     buildVerifyBtcCustodyProofIx P owner btcVaultPda messageApprovalPda"
| "build_call P (CallRefreshBtcCustodyProof owner btcVaultPda messageApprovalPda) =
     buildRefreshBtcCustodyProofIx P owner btcVaultPda messageApprovalPda"
| "build_call P (CallBorrowAgainstBtcCollateral owner btcVaultPda borrowAssetMint
       poolTokenVault borrowerTokenAccount amount healthCiphertext) =
     first_of (buildBorrowAgainstBtcCollateralIx P owner btcVaultPda borrowAssetMint poolTokenVault
       borrowerTokenAccount amount healthCiphertext)"
| "build_call P (CallRepayBtcBorrow owner btcVaultPda borrowAssetMint poolTokenVault
       borrowerTokenAccount amount) =
     buildRepayBtcBorrowIx P owner btcVaultPda borrowAssetMint poolTokenVault
       borrowerTokenAccount amount"
| "build_call P (CallLiquidateBtcPosition liquidator btcVaultPda ikaDwallet
       borrowAssetMint poolTokenVault liquidatorTokenAccount coordinator
       messageApproval bitcoinSighash messageMetadataDigest userPubkey
       messageApprovalBump) =
     buildLiquidateBtcPositionIx P liquidator btcVaultPda ikaDwallet borrowAssetMint
       poolTokenVault liquidatorTokenAccount coordinator messageApproval bitcoinSighash
       messageMetadataDigest userPubkey messageApprovalBump"
| "build_call P (CallFinalizeBtcLiquidation keeper btcVaultPda bitcoinTxId
       bitcoinBlockHeight confirmations remainingSatoshis) =
     buildFinalizeBtcLiquidationIx P keeper btcVaultPda bitcoinTxId bitcoinBlockHeight
       confirmations remainingSatoshis"

fun call_rule :: "platform \<Rightarrow> builder_call \<Rightarrow> instruction_rule" where
  "call_rule P (CallInitializeProtocol admin) = rule_initialize_protocol"
| "call_rule P (CallRegisterVault owner dwalletId assetType) = rule_register_vault dwalletId"
| "call_rule P (CallDepositCollateral owner vaultPda amountLamports) = rule_deposit_collateral"
| "call_rule P (CallVerifyCustodyProof owner vaultPda messageApprovalPda
       expectedDwalletId) = rule_verify_custody_proof"
| "call_rule P (CallInitializeRiskState owner vaultPda thresholdCiphertext) = rule_initialize_risk_state"
| "call_rule P (CallUpdateBackingState owner vaultPda backingCiphertextPda
       newBackingAmount) = rule_update_backing_state"
| "call_rule P (CallTriggerRiskCheck owner vaultPda backingCiphertextPda
       thresholdCiphertextPda resultCiphertextPda) = rule_trigger_risk_check"
| "call_rule P (CallUnfreezeProtocolState admin) = rule_unfreeze_protocol_state"
| "call_rule P (CallApproveCustodySignature owner vaultPda callerProgram cpiAuthority
       dwalletProgram coordinator dwallet messageApproval messageApprovalBump
       messageDigest messageMetadataDigest userPubkey signatureScheme) = rule_approve_custody_signature P"
| "call_rule P (CallInitializeLendingPool admin borrowAssetMint poolTokenVault assetType
       initialLiquidity initialPriceUsd ltvBasisPoints liquidationThresholdBps
       liquidationBonusBps baseRateBps rateSlopeBps) = rule_initialize_lending_pool assetType"
| "call_rule P (CallCloseAdminPriceFeed admin assetType) = rule_close_admin_price_feed assetType"
| "call_rule P (CallUpdateAdminPrice admin assetType newPriceUsd) = rule_update_admin_price assetType"
| "call_rule P (CallBorrowAgainstCollateral owner vaultPda assetType borrowAssetMint
       poolTokenVault borrowerTokenAccount amount healthCiphertext) = rule_borrow_against_collateral assetType borrowAssetMint"
| "call_rule P (CallRepayBorrow owner vaultPda borrowAssetMint poolTokenVault
       borrowerTokenAccount amount) = rule_repay_borrow borrowAssetMint"
| "call_rule P (CallLiquidatePosition liquidator vaultPda assetType borrowAssetMint
       poolTokenVault liquidatorTokenAccount) = rule_liquidate_position assetType borrowAssetMint"
| "call_rule P (CallDemoCreateMessageApproval payer dwalletId isSigned) = rule_demo_create_message_approval dwalletId"
| "call_rule P (CallDemoCreateCiphertext payer label byteValue) = rule_demo_create_ciphertext (labelToBytes8 label)"
| "call_rule P (CallRegisterBtcVault owner ikaDwallet dwalletPubkey bitcoinAddress) = rule_register_btc_vault ikaDwallet"
| "call_rule P (CallAttestBtcBalance keeper btcVaultPda satoshis bitcoinBlockHeight
       bitcoinBlockHash) = rule_attest_btc_balance"
| "call_rule P (CallVerifyBtcCustodyProof owner btcVaultPda messageApprovalPda) = rule_verify_btc_custody_proof"
| "call_rule P (CallRefreshBtcCustodyProof owner btcVaultPda messageApprovalPda) = rule_refresh_btc_custody_proof"
| "call_rule P (CallBorrowAgainstBtcCollateral owner btcVaultPda borrowAssetMint
       poolTokenVault borrowerTokenAccount amount healthCiphertext) = rule_borrow_against_btc_collateral borrowAssetMint"
| "call_rule P (CallRepayBtcBorrow owner btcVaultPda borrowAssetMint poolTokenVault
       borrowerTokenAccount amount) = rule_repay_btc_borrow borrowAssetMint"
| "call_rule P (CallLiquidateBtcPosition liquidator btcVaultPda ikaDwallet borrowAssetMint
       poolTokenVault liquidatorTokenAccount coordinator messageApproval bitcoinSighash
       messageMetadataDigest userPubkey messageApprovalBump) = rule_liquidate_btc_position P ikaDwallet borrowAssetMint"
| "call_rule P (CallFinalizeBtcLiquidation keeper btcVaultPda bitcoinTxId
       bitcoinBlockHeight confirmations remainingSatoshis) = rule_finalize_btc_liquidation"

fun call_args :: "builder_call \<Rightarrow> borsh_value list" where
  "call_args (CallInitializeProtocol admin) =
     []"
| "call_args (CallRegisterVault owner dwalletId assetType) =
     [VBytes dwalletId, VInt (nat (assetType mod 2 ^ 8))]"
| "call_args (CallDepositCollateral owner vaultPda amountLamports) =
     [VInt (nat (amountLamports mod 2 ^ 64))]"
| "call_args (CallVerifyCustodyProof owner vaultPda messageApprovalPda expectedDwalletId)
       =
     [VBytes expectedDwalletId]"
| "call_args (CallInitializeRiskState owner vaultPda thresholdCiphertext) =
     [VBytes (to_buffer thresholdCiphertext)]"
| "call_args (CallUpdateBackingState owner vaultPda backingCiphertextPda newBackingAmount)
       =
     [VInt (nat (newBackingAmount mod 2 ^ 64))]"
| "call_args (CallTriggerRiskCheck owner vaultPda backingCiphertextPda
       thresholdCiphertextPda resultCiphertextPda) =
     []"
| "call_args (CallUnfreezeProtocolState admin) =
     []"
| "call_args (CallApproveCustodySignature owner vaultPda callerProgram cpiAuthority
       dwalletProgram coordinator dwallet messageApproval messageApprovalBump
       messageDigest messageMetadataDigest userPubkey signatureScheme) =
     [VBytes messageDigest, VBytes (js_default messageMetadataDigest (replicate 32 0)),
      VBytes userPubkey, VInt (nat (signatureScheme mod 2 ^ 16)),
      VInt (nat (messageApprovalBump mod 2 ^ 8))]"
| "call_args (CallInitializeLendingPool admin borrowAssetMint poolTokenVault assetType
       initialLiquidity initialPriceUsd ltvBasisPoints liquidationThresholdBps
       liquidationBonusBps baseRateBps rateSlopeBps) =
     [VInt (nat (assetType mod 2 ^ 8)), VInt (nat (initialLiquidity mod 2 ^ 64)),
      VInt (nat (initialPriceUsd mod 2 ^ 64)), VInt (nat (ltvBasisPoints mod 2 ^ 16)),
      VInt (nat (liquidationThresholdBps mod 2 ^ 16)),
      VInt (nat (liquidationBonusBps mod 2 ^ 16)), VInt (nat (baseRateBps mod 2 ^ 16)),
      VInt (nat (rateSlopeBps mod 2 ^ 16))]"
| "call_args (CallCloseAdminPriceFeed admin assetType) =
     []"
| "call_args (CallUpdateAdminPrice admin assetType newPriceUsd) =
     [VInt (nat (newPriceUsd mod 2 ^ 64))]"
| "call_args (CallBorrowAgainstCollateral owner vaultPda assetType borrowAssetMint
       poolTokenVault borrowerTokenAccount amount healthCiphertext) =
     [VInt (nat (amount mod 2 ^ 64)),
      VBytes (to_buffer (js_default healthCiphertext PublicKey_default))]"
| "call_args (CallRepayBorrow owner vaultPda borrowAssetMint poolTokenVault
       borrowerTokenAccount amount) =
     [VInt (nat (amount mod 2 ^ 64))]"
| "call_args (CallLiquidatePosition liquidator vaultPda assetType borrowAssetMint
       poolTokenVault liquidatorTokenAccount) =
     []"
| "call_args (CallDemoCreateMessageApproval payer dwalletId isSigned) =
     [VBytes dwalletId, VBool isSigned]"
| "call_args (CallDemoCreateCiphertext payer label byteValue) =
     [VBytes (labelToBytes8 label), VInt (nat (byteValue mod 2 ^ 8))]"
| "call_args (CallRegisterBtcVault owner ikaDwallet dwalletPubkey bitcoinAddress) =
     [VBytes (to_buffer ikaDwallet), VBytes dwalletPubkey, VBytes (text_encode bitcoinAddress)]"
| "call_args (CallAttestBtcBalance keeper btcVaultPda satoshis bitcoinBlockHeight
       bitcoinBlockHash) =
     [VInt (nat (satoshis mod 2 ^ 64)), VInt (nat (bitcoinBlockHeight mod 2 ^ 64)),
      VBytes bitcoinBlockHash]"
| "call_args (CallVerifyBtcCustodyProof owner btcVaultPda messageApprovalPda) =
     []"
| "call_args (CallRefreshBtcCustodyProof owner btcVaultPda messageApprovalPda) =
     []"
| "call_args (CallBorrowAgainstBtcCollateral owner btcVaultPda borrowAssetMint
       poolTokenVault borrowerTokenAccount amount healthCiphertext) =
     [VInt (nat (amount mod 2 ^ 64)),
      VBytes (to_buffer (js_default healthCiphertext PublicKey_default))]"
| "call_args (CallRepayBtcBorrow owner btcVaultPda borrowAssetMint poolTokenVault
       borrowerTokenAccount amount) =
     [VInt (nat (amount mod 2 ^ 64))]"
| "call_args (CallLiquidateBtcPosition liquidator btcVaultPda ikaDwallet borrowAssetMint
       poolTokenVault liquidatorTokenAccount coordinator messageApproval bitcoinSighash
       messageMetadataDigest userPubkey messageApprovalBump) =
     [VBytes bitcoinSighash, VBytes (js_default messageMetadataDigest (replicate 32 0)),
      VBytes userPubkey, VInt (nat (messageApprovalBump mod 2 ^ 8))]"
| "call_args (CallFinalizeBtcLiquidation keeper btcVaultPda bitcoinTxId bitcoinBlockHeight
       confirmations remainingSatoshis) =
     [VBytes bitcoinTxId, VInt (nat (bitcoinBlockHeight mod 2 ^ 64)),
      VInt (nat (confirmations mod 2 ^ 32)), VInt (nat (remainingSatoshis mod 2 ^ 64))]"

text \<open>What a call must satisfy: byte strings of the length their Rust arrays have (the builders check
  some of these themselves), and for the custody signature the two accounts the program fixes.\<close>

fun call_ok :: "platform \<Rightarrow> builder_call \<Rightarrow> bool" where
  "call_ok P (CallRegisterVault owner dwalletId assetType) \<longleftrightarrow>
     length dwalletId = 32"
| "call_ok P (CallVerifyCustodyProof owner vaultPda messageApprovalPda expectedDwalletId)
       \<longleftrightarrow>
     length expectedDwalletId = 32"
| "call_ok P (CallApproveCustodySignature owner vaultPda callerProgram cpiAuthority
       dwalletProgram coordinator dwallet messageApproval messageApprovalBump
       messageDigest messageMetadataDigest userPubkey signatureScheme)
       \<longleftrightarrow>
     length messageDigest = 32 \<and> length (js_default messageMetadataDigest (replicate 32
       0)) = 32 \<and> length userPubkey = 32 \<and> callerProgram = PROGRAM_ID P
       \<and> map_sum id fst (deriveIkaCpiAuthority P) = Inr cpiAuthority"
| "call_ok P (CallDemoCreateMessageApproval payer dwalletId isSigned)
       \<longleftrightarrow>
     length dwalletId = 32"
| "call_ok P (CallRegisterBtcVault owner ikaDwallet dwalletPubkey bitcoinAddress)
       \<longleftrightarrow>
     length (text_encode bitcoinAddress) < 2 ^ 32"
| "call_ok P (CallLiquidateBtcPosition liquidator btcVaultPda ikaDwallet borrowAssetMint
       poolTokenVault liquidatorTokenAccount coordinator messageApproval bitcoinSighash
       messageMetadataDigest userPubkey messageApprovalBump) \<longleftrightarrow>
     length (js_default messageMetadataDigest (replicate 32 0)) = 32"
| "call_ok P _ \<longleftrightarrow> True"

text \<open>SHA-256 digests are longer than a discriminator.\<close>

definition digests_long :: "platform \<Rightarrow> bool" where
  "digests_long P \<longleftrightarrow> (\<forall>m. 8 \<le> length (digest_sha256 P m))"

definition admitted :: "platform \<Rightarrow> builder_call \<Rightarrow> bool" where
  "admitted P c \<longleftrightarrow>
     (digests_long P \<longrightarrow> call_ok P c \<longrightarrow>
        (\<forall>ix. build_call P c = Inr ix \<longrightarrow> admits P (call_rule P c) ix (call_args c)))"

section \<open>Admission of each builder\<close>

lemma length_sighash: "digests_long P \<Longrightarrow> length (sighash P n) = 8"
  by (simp add: sighash_def digests_long_def min_absorb2)

lemma le_val_nat:
  "le_val (u64ToLe v) = nat (v mod 2 ^ 64)"
  "le_val (u32ToLe v) = nat (v mod 2 ^ 32)"
  "le_val (u16ToLe v) = nat (v mod 2 ^ 16)"
  using le_val_u64ToLe [of v] le_val_u32ToLe [of v] le_val_u16ToLe [of v]
  by (simp_all add: nat_eq_iff2)

lemma unat_to_uint8: "unat (to_uint8 v) = nat (v mod 2 ^ 8)"
  by (simp add: to_uint8_def unat_eq_nat_uint uint_word_of_int)

lemma map_sum_fst_Inr: "map_sum id fst r = Inr k \<longleftrightarrow> (\<exists>b. r = Inr (k, b))"
  by (cases r) auto

lemma to_uint8_01 [simp]: "to_uint8 0 = 0" "to_uint8 1 = 1"
  by (simp_all add: to_uint8_def)

lemma borsh_read_uint:
  "borsh_read (TyUInt 8) (u64ToLe v @ r) = Some (VInt (nat (v mod 2 ^ 64)), r)"
  "borsh_read (TyUInt 8) (u64ToLe v) = Some (VInt (nat (v mod 2 ^ 64)), [])"
  "borsh_read (TyUInt 4) (u32ToLe v @ r) = Some (VInt (nat (v mod 2 ^ 32)), r)"
  "borsh_read (TyUInt 2) (u16ToLe v @ r) = Some (VInt (nat (v mod 2 ^ 16)), r)"
  "borsh_read (TyUInt 2) (u16ToLe v) = Some (VInt (nat (v mod 2 ^ 16)), [])"
  "borsh_read (TyUInt 1) (to_uint8 v # r) = Some (VInt (nat (v mod 2 ^ 8)), r)"
  by (simp_all add: le_val_nat unat_to_uint8 del: One_nat_def) (simp_all add: unat_to_uint8)

lemma borsh_read_array:
  "length bs = n \<Longrightarrow> borsh_read (TyArray n) (bs @ r) = Some (VBytes bs, r)"
  "length bs = n \<Longrightarrow> borsh_read (TyArray n) bs = Some (VBytes bs, [])"
  by simp_all

lemma borsh_read_bool:
  "borsh_read TyBool (1 # r) = Some (VBool True, r)"
  "borsh_read TyBool (0 # r) = Some (VBool False, r)"
  by simp_all

lemma borsh_read_vec:
  assumes "length bs < 2 ^ 32"
  shows "borsh_read TyVec (vecU8 bs) = Some (VBytes bs, [])"
proof -
  have "le_val (u32ToLe (int (length bs))) = length bs"
    using assms by (simp add: le_val_nat)
  then show ?thesis by (simp add: vecU8_def borsh_vec_def Let_def)
qed

declare borsh_read.simps [simp del]

lemma to_uint8_and [simp]: "to_uint8 (and x 255) = to_uint8 x"
proof -
  have "and x 255 = take_bit 8 x"
    by (simp add: take_bit_eq_mask mask_numeral)
  then show ?thesis by (simp add: to_uint8_def word_of_int_eq_iff)
qed

lemma address_ok_pda:
  "address_ok P keys (PdaOf seeds) k \<longleftrightarrow>
     (\<exists>b. find_program_address P (map (seed_bytes keys) seeds) (PROGRAM_ID P) = Inr (k, b))"
  by (auto split: sum.splits prod.splits)

lemma first_of_eq_Inr: "first_of r = Inr x \<longleftrightarrow> (\<exists>y. r = Inr (x, y))"
  by (auto simp: first_of_def js_bind_eq_Inr)

lemmas derivation_defs = deriveProtocolStatePda_def deriveVaultPda_def deriveRiskStatePda_def
  deriveLendingPoolPda_def deriveAdminPriceFeedPda_def deriveBorrowPositionPda_def
  deriveBtcVaultPda_def deriveBtcAttestationPda_def deriveBtcBorrowPositionPda_def
  deriveIkaCpiAuthority_def deriveDemoMessageApprovalPda_def deriveDemoCiphertextPda_def

lemmas interface_simps = admits_def account_ok_def acc_def address_ok_pda program_seeds
  derivation_defs first_of_eq_Inr js_bind_eq_Inr Let_def length_sighash map_sum_fst_Inr
  borsh_read_uint borsh_read_array borsh_read_bool borsh_read_vec web_ASSET_BTC_def

lemma initialize_protocol_admitted:
  "admitted P (CallInitializeProtocol admin)"
  by (auto simp: admitted_def buildInitializeProtocolIx_def rule_initialize_protocol_def interface_simps
      simp del: One_nat_def)

lemma register_vault_admitted:
  "admitted P (CallRegisterVault owner dwalletId assetType)"
  by (auto simp: admitted_def buildRegisterVaultIx_def rule_register_vault_def interface_simps
      simp del: One_nat_def)

lemma deposit_collateral_admitted:
  "admitted P (CallDepositCollateral owner vaultPda amountLamports)"
  by (auto simp: admitted_def buildDepositCollateralIx_def rule_deposit_collateral_def interface_simps
      simp del: One_nat_def)

lemma verify_custody_proof_admitted:
  "admitted P (CallVerifyCustodyProof owner vaultPda messageApprovalPda expectedDwalletId)"
  by (auto simp: admitted_def buildVerifyCustodyProofIx_def rule_verify_custody_proof_def interface_simps
      simp del: One_nat_def)

lemma initialize_risk_state_admitted:
  "admitted P (CallInitializeRiskState owner vaultPda thresholdCiphertext)"
  by (auto simp: admitted_def buildInitializeRiskStateIx_def rule_initialize_risk_state_def interface_simps
      simp del: One_nat_def)

lemma update_backing_state_admitted:
  "admitted P (CallUpdateBackingState owner vaultPda backingCiphertextPda newBackingAmount)"
  by (auto simp: admitted_def buildUpdateBackingStateIx_def rule_update_backing_state_def interface_simps
      simp del: One_nat_def)

lemma trigger_risk_check_admitted:
  "admitted P (CallTriggerRiskCheck owner vaultPda backingCiphertextPda thresholdCiphertextPda
       resultCiphertextPda)"
  by (auto simp: admitted_def buildTriggerRiskCheckIx_def rule_trigger_risk_check_def interface_simps
      simp del: One_nat_def)

lemma unfreeze_protocol_state_admitted:
  "admitted P (CallUnfreezeProtocolState admin)"
  by (auto simp: admitted_def buildUnfreezeProtocolStateIx_def rule_unfreeze_protocol_state_def interface_simps
      simp del: One_nat_def)

lemma approve_custody_signature_admitted:
  "admitted P (CallApproveCustodySignature owner vaultPda callerProgram cpiAuthority dwalletProgram
       coordinator dwallet messageApproval messageApprovalBump messageDigest
       messageMetadataDigest userPubkey signatureScheme)"
  by (auto simp: admitted_def buildApproveCustodySignatureIx_def rule_approve_custody_signature_def interface_simps
      simp del: One_nat_def)

lemma initialize_lending_pool_admitted:
  "admitted P (CallInitializeLendingPool admin borrowAssetMint poolTokenVault assetType
       initialLiquidity initialPriceUsd ltvBasisPoints liquidationThresholdBps
       liquidationBonusBps baseRateBps rateSlopeBps)"
  by (auto simp: admitted_def buildInitializeLendingPoolIx_def rule_initialize_lending_pool_def interface_simps
      simp del: One_nat_def)

lemma close_admin_price_feed_admitted:
  "admitted P (CallCloseAdminPriceFeed admin assetType)"
  by (auto simp: admitted_def buildCloseAdminPriceFeedIx_def rule_close_admin_price_feed_def interface_simps
      simp del: One_nat_def)

lemma update_admin_price_admitted:
  "admitted P (CallUpdateAdminPrice admin assetType newPriceUsd)"
  by (auto simp: admitted_def buildUpdateAdminPriceIx_def rule_update_admin_price_def interface_simps
      simp del: One_nat_def)

lemma borrow_against_collateral_admitted:
  "admitted P (CallBorrowAgainstCollateral owner vaultPda assetType borrowAssetMint poolTokenVault
       borrowerTokenAccount amount healthCiphertext)"
  by (auto simp: admitted_def buildBorrowAgainstCollateralIx_def rule_borrow_against_collateral_def interface_simps
      simp del: One_nat_def)

lemma repay_borrow_admitted:
  "admitted P (CallRepayBorrow owner vaultPda borrowAssetMint poolTokenVault borrowerTokenAccount
       amount)"
  by (auto simp: admitted_def buildRepayBorrowIx_def rule_repay_borrow_def interface_simps
      simp del: One_nat_def)

lemma liquidate_position_admitted:
  "admitted P (CallLiquidatePosition liquidator vaultPda assetType borrowAssetMint poolTokenVault
       liquidatorTokenAccount)"
  by (auto simp: admitted_def buildLiquidatePositionIx_def rule_liquidate_position_def interface_simps
      simp del: One_nat_def)

lemma demo_create_message_approval_admitted:
  "admitted P (CallDemoCreateMessageApproval payer dwalletId isSigned)"
  by (auto simp: admitted_def buildDemoCreateMessageApprovalIx_def rule_demo_create_message_approval_def interface_simps
      simp del: One_nat_def)

lemma demo_create_ciphertext_admitted:
  "admitted P (CallDemoCreateCiphertext payer label byteValue)"
  by (auto simp: admitted_def buildDemoCreateCiphertextIx_def rule_demo_create_ciphertext_def interface_simps
      simp del: One_nat_def)

lemma register_btc_vault_admitted:
  "admitted P (CallRegisterBtcVault owner ikaDwallet dwalletPubkey bitcoinAddress)"
  by (auto simp: admitted_def buildRegisterBtcVaultIx_def rule_register_btc_vault_def interface_simps
      simp del: One_nat_def)

lemma attest_btc_balance_admitted:
  "admitted P (CallAttestBtcBalance keeper btcVaultPda satoshis bitcoinBlockHeight bitcoinBlockHash)"
  by (auto simp: admitted_def buildAttestBtcBalanceIx_def rule_attest_btc_balance_def interface_simps
      simp del: One_nat_def)

lemma verify_btc_custody_proof_admitted:
  "admitted P (CallVerifyBtcCustodyProof owner btcVaultPda messageApprovalPda)"
  by (auto simp: admitted_def buildVerifyBtcCustodyProofIx_def rule_verify_btc_custody_proof_def interface_simps
      simp del: One_nat_def)

lemma refresh_btc_custody_proof_admitted:
  "admitted P (CallRefreshBtcCustodyProof owner btcVaultPda messageApprovalPda)"
  by (auto simp: admitted_def buildRefreshBtcCustodyProofIx_def rule_refresh_btc_custody_proof_def interface_simps
      simp del: One_nat_def)

lemma borrow_against_btc_collateral_admitted:
  "admitted P (CallBorrowAgainstBtcCollateral owner btcVaultPda borrowAssetMint poolTokenVault
       borrowerTokenAccount amount healthCiphertext)"
  by (auto simp: admitted_def buildBorrowAgainstBtcCollateralIx_def rule_borrow_against_btc_collateral_def interface_simps
      simp del: One_nat_def)

lemma repay_btc_borrow_admitted:
  "admitted P (CallRepayBtcBorrow owner btcVaultPda borrowAssetMint poolTokenVault
       borrowerTokenAccount amount)"
  by (auto simp: admitted_def buildRepayBtcBorrowIx_def rule_repay_btc_borrow_def interface_simps
      simp del: One_nat_def)

lemma liquidate_btc_position_admitted:
  "admitted P (CallLiquidateBtcPosition liquidator btcVaultPda ikaDwallet borrowAssetMint
       poolTokenVault liquidatorTokenAccount coordinator messageApproval bitcoinSighash
       messageMetadataDigest userPubkey messageApprovalBump)"
  by (auto simp: admitted_def buildLiquidateBtcPositionIx_def rule_liquidate_btc_position_def interface_simps
      simp del: One_nat_def)

lemma finalize_btc_liquidation_admitted:
  "admitted P (CallFinalizeBtcLiquidation keeper btcVaultPda bitcoinTxId bitcoinBlockHeight
       confirmations remainingSatoshis)"
  by (auto simp: admitted_def buildFinalizeBtcLiquidationIx_def rule_finalize_btc_liquidation_def interface_simps
      simp del: One_nat_def)

lemma call_admitted: "admitted P c"
  by (cases c; simp only: initialize_protocol_admitted
    register_vault_admitted
    deposit_collateral_admitted
    verify_custody_proof_admitted
    initialize_risk_state_admitted
    update_backing_state_admitted
    trigger_risk_check_admitted
    unfreeze_protocol_state_admitted
    approve_custody_signature_admitted
    initialize_lending_pool_admitted
    close_admin_price_feed_admitted
    update_admin_price_admitted
    borrow_against_collateral_admitted
    repay_borrow_admitted
    liquidate_position_admitted
    demo_create_message_approval_admitted
    demo_create_ciphertext_admitted
    register_btc_vault_admitted
    attest_btc_balance_admitted
    verify_btc_custody_proof_admitted
    refresh_btc_custody_proof_admitted
    borrow_against_btc_collateral_admitted
    repay_btc_borrow_admitted
    liquidate_btc_position_admitted
    finalize_btc_liquidation_admitted)

section \<open>Privileges\<close>

definition flags :: "account_meta \<Rightarrow> bool \<times> bool" where
  "flags k = (is_signer k, is_writable k)"

definition rule_flags :: "account_rule \<Rightarrow> bool \<times> bool" where
  "rule_flags r = (ar_signer r, ar_mut r)"

definition asks_exactly :: "platform \<Rightarrow> builder_call \<Rightarrow> bool" where
  "asks_exactly P c \<longleftrightarrow>
     (\<forall>ix. build_call P c = Inr ix \<longrightarrow> map flags (ix_keys ix) = map rule_flags (ir_accounts (call_rule P c)))"

lemmas privilege_simps = asks_exactly_def flags_def rule_flags_def acc_def first_of_eq_Inr
  js_bind_eq_Inr Let_def

lemma initialize_protocol_flags:
  "asks_exactly P (CallInitializeProtocol admin)"
  by (auto simp: buildInitializeProtocolIx_def rule_initialize_protocol_def privilege_simps)

lemma register_vault_flags:
  "asks_exactly P (CallRegisterVault owner dwalletId assetType)"
  by (auto simp: buildRegisterVaultIx_def rule_register_vault_def privilege_simps)

lemma deposit_collateral_flags:
  "asks_exactly P (CallDepositCollateral owner vaultPda amountLamports)"
  by (auto simp: buildDepositCollateralIx_def rule_deposit_collateral_def privilege_simps)

lemma verify_custody_proof_flags:
  "asks_exactly P (CallVerifyCustodyProof owner vaultPda messageApprovalPda expectedDwalletId)"
  by (auto simp: buildVerifyCustodyProofIx_def rule_verify_custody_proof_def privilege_simps)

lemma initialize_risk_state_flags:
  "asks_exactly P (CallInitializeRiskState owner vaultPda thresholdCiphertext)"
  by (auto simp: buildInitializeRiskStateIx_def rule_initialize_risk_state_def privilege_simps)

lemma update_backing_state_flags:
  "asks_exactly P (CallUpdateBackingState owner vaultPda backingCiphertextPda newBackingAmount)"
  by (auto simp: buildUpdateBackingStateIx_def rule_update_backing_state_def privilege_simps)

lemma trigger_risk_check_flags:
  "asks_exactly P (CallTriggerRiskCheck owner vaultPda backingCiphertextPda thresholdCiphertextPda
       resultCiphertextPda)"
  by (auto simp: buildTriggerRiskCheckIx_def rule_trigger_risk_check_def privilege_simps)

lemma unfreeze_protocol_state_flags:
  "asks_exactly P (CallUnfreezeProtocolState admin)"
  by (auto simp: buildUnfreezeProtocolStateIx_def rule_unfreeze_protocol_state_def privilege_simps)

lemma approve_custody_signature_flags:
  "asks_exactly P (CallApproveCustodySignature owner vaultPda callerProgram cpiAuthority dwalletProgram
       coordinator dwallet messageApproval messageApprovalBump messageDigest
       messageMetadataDigest userPubkey signatureScheme)"
  by (auto simp: buildApproveCustodySignatureIx_def rule_approve_custody_signature_def privilege_simps)

lemma initialize_lending_pool_flags:
  "asks_exactly P (CallInitializeLendingPool admin borrowAssetMint poolTokenVault assetType
       initialLiquidity initialPriceUsd ltvBasisPoints liquidationThresholdBps
       liquidationBonusBps baseRateBps rateSlopeBps)"
  by (auto simp: buildInitializeLendingPoolIx_def rule_initialize_lending_pool_def privilege_simps)

lemma close_admin_price_feed_flags:
  "asks_exactly P (CallCloseAdminPriceFeed admin assetType)"
  by (auto simp: buildCloseAdminPriceFeedIx_def rule_close_admin_price_feed_def privilege_simps)

lemma update_admin_price_flags:
  "asks_exactly P (CallUpdateAdminPrice admin assetType newPriceUsd)"
  by (auto simp: buildUpdateAdminPriceIx_def rule_update_admin_price_def privilege_simps)

lemma borrow_against_collateral_flags:
  "asks_exactly P (CallBorrowAgainstCollateral owner vaultPda assetType borrowAssetMint poolTokenVault
       borrowerTokenAccount amount healthCiphertext)"
  by (auto simp: buildBorrowAgainstCollateralIx_def rule_borrow_against_collateral_def privilege_simps)

lemma repay_borrow_flags:
  "asks_exactly P (CallRepayBorrow owner vaultPda borrowAssetMint poolTokenVault borrowerTokenAccount
       amount)"
  by (auto simp: buildRepayBorrowIx_def rule_repay_borrow_def privilege_simps)

lemma liquidate_position_flags:
  "asks_exactly P (CallLiquidatePosition liquidator vaultPda assetType borrowAssetMint poolTokenVault
       liquidatorTokenAccount)"
  by (auto simp: buildLiquidatePositionIx_def rule_liquidate_position_def privilege_simps)

lemma demo_create_message_approval_flags:
  "asks_exactly P (CallDemoCreateMessageApproval payer dwalletId isSigned)"
  by (auto simp: buildDemoCreateMessageApprovalIx_def rule_demo_create_message_approval_def privilege_simps)

lemma demo_create_ciphertext_flags:
  "asks_exactly P (CallDemoCreateCiphertext payer label byteValue)"
  by (auto simp: buildDemoCreateCiphertextIx_def rule_demo_create_ciphertext_def privilege_simps)

lemma register_btc_vault_flags:
  "asks_exactly P (CallRegisterBtcVault owner ikaDwallet dwalletPubkey bitcoinAddress)"
  by (auto simp: buildRegisterBtcVaultIx_def rule_register_btc_vault_def privilege_simps)

lemma verify_btc_custody_proof_flags:
  "asks_exactly P (CallVerifyBtcCustodyProof owner btcVaultPda messageApprovalPda)"
  by (auto simp: buildVerifyBtcCustodyProofIx_def rule_verify_btc_custody_proof_def privilege_simps)

lemma refresh_btc_custody_proof_flags:
  "asks_exactly P (CallRefreshBtcCustodyProof owner btcVaultPda messageApprovalPda)"
  by (auto simp: buildRefreshBtcCustodyProofIx_def rule_refresh_btc_custody_proof_def privilege_simps)

lemma borrow_against_btc_collateral_flags:
  "asks_exactly P (CallBorrowAgainstBtcCollateral owner btcVaultPda borrowAssetMint poolTokenVault
       borrowerTokenAccount amount healthCiphertext)"
  by (auto simp: buildBorrowAgainstBtcCollateralIx_def rule_borrow_against_btc_collateral_def privilege_simps)

lemma repay_btc_borrow_flags:
  "asks_exactly P (CallRepayBtcBorrow owner btcVaultPda borrowAssetMint poolTokenVault
       borrowerTokenAccount amount)"
  by (auto simp: buildRepayBtcBorrowIx_def rule_repay_btc_borrow_def privilege_simps)

lemma liquidate_btc_position_flags:
  "asks_exactly P (CallLiquidateBtcPosition liquidator btcVaultPda ikaDwallet borrowAssetMint
       poolTokenVault liquidatorTokenAccount coordinator messageApproval bitcoinSighash
       messageMetadataDigest userPubkey messageApprovalBump)"
  by (auto simp: buildLiquidateBtcPositionIx_def rule_liquidate_btc_position_def privilege_simps)

lemma finalize_btc_liquidation_flags:
  "asks_exactly P (CallFinalizeBtcLiquidation keeper btcVaultPda bitcoinTxId bitcoinBlockHeight
       confirmations remainingSatoshis)"
  by (auto simp: buildFinalizeBtcLiquidationIx_def rule_finalize_btc_liquidation_def privilege_simps)

lemma call_asks_exactly:
  "(\<forall>k v s h b. c \<noteq> CallAttestBtcBalance k v s h b) \<Longrightarrow> asks_exactly P c"
  by (cases c; simp only: initialize_protocol_flags
    register_vault_flags
    deposit_collateral_flags
    verify_custody_proof_flags
    initialize_risk_state_flags
    update_backing_state_flags
    trigger_risk_check_flags
    unfreeze_protocol_state_flags
    approve_custody_signature_flags
    initialize_lending_pool_flags
    close_admin_price_feed_flags
    update_admin_price_flags
    borrow_against_collateral_flags
    repay_borrow_flags
    liquidate_position_flags
    demo_create_message_approval_flags
    demo_create_ciphertext_flags
    register_btc_vault_flags
    verify_btc_custody_proof_flags
    refresh_btc_custody_proof_flags
    borrow_against_btc_collateral_flags
    repay_btc_borrow_flags
    liquidate_btc_position_flags
    finalize_btc_liquidation_flags builder_call.simps) blast

section \<open>Properties\<close>

text \<open>Every instruction the frontend builds is one the program accepts at its border: it goes to
  the program, its accounts match the instruction's list one by one (signatures, writability, fixed
  and derived addresses), its data starts with the instruction's discriminator, and the rest decodes
  to the builder's parameters with nothing left over, numbers reduced to their Rust width.\<close>

theorem frontend_instructions_admitted:
  assumes "digests_long P" and "call_ok P c" and "build_call P c = Inr ix"
  shows "admits P (call_rule P c) ix (call_args c)"
  using assms call_admitted [of P c] by (simp add: admitted_def)

lemma frontend_instructions_admitted_witness:
  "\<exists>ix. build_call demo_platform (CallRepayBorrow 1 2 3 4 5 (- 1)) = Inr ix
     \<and> admits demo_platform (rule_repay_borrow 3) ix [VInt 18446744073709551615]"
proof -
  have d: "digests_long demo_platform" by (simp add: digests_long_def demo_platform_def)
  have ok: "call_ok demo_platform (CallRepayBorrow 1 2 3 4 5 (- 1))" by simp
  obtain ix where ix: "build_call demo_platform (CallRepayBorrow 1 2 3 4 5 (- 1)) = Inr ix"
    by (simp add: buildRepayBorrowIx_def derivation_defs demo_platform_def first_of_def)
  show ?thesis
    using frontend_instructions_admitted [OF d ok ix] ix by auto
qed

text \<open>The frontend asks the wallet for no more than the program needs: signer and writable flags
  are exactly those of the instruction's account list, for every call but the keeper's attestation,
  where the keeper's account is marked writable although the program only reads its signature.\<close>

theorem no_excess_privilege:
  "(\<forall>k v s h b. c \<noteq> CallAttestBtcBalance k v s h b) \<longrightarrow> build_call P c = Inr ix
     \<longrightarrow> map flags (ix_keys ix) = map rule_flags (ir_accounts (call_rule P c))"
  using call_asks_exactly [of c P] by (auto simp: asks_exactly_def)

lemma no_excess_privilege_witness:
  "\<exists>ix. build_call demo_platform (CallUpdateAdminPrice 1 0 7) = Inr ix
     \<and> map flags (ix_keys ix) = [(False, True), (True, False)]"
proof -
  obtain ix where ix: "build_call demo_platform (CallUpdateAdminPrice 1 0 7) = Inr ix"
    by (simp add: buildUpdateAdminPriceIx_def derivation_defs demo_platform_def first_of_def)
  then show ?thesis
    using no_excess_privilege [of "CallUpdateAdminPrice 1 0 7" demo_platform ix]
    by (simp add: rule_update_admin_price_def rule_flags_def acc_def)
qed

end
