(* ===== verification/Gate.thy ===== *)
theory Gate
  imports Readers Amounts
begin

text \<open>
  The collateral gate of \<open>web/lib/lendguard-gate.ts\<close>: the decision a lender asks for before accepting
  collateral, and the listing of a wallet's vaults. The connection's answers and the clock
  (\<open>Date.now()\<close>, in milliseconds) are parameters. \<open>Gate_To_Chain\<close> compares its answer with what the
  program does with the deposit.
\<close>

section \<open>Results\<close>

datatype gate_block_reason =
    WALLET_NOT_CONNECTED
  | PROTOCOL_NOT_INITIALIZED
  | PROTOCOL_FROZEN
  | VAULT_NOT_REGISTERED
  | PROOF_PENDING
  | PROOF_EXPIRED
  | VAULT_FROZEN

record gate_allowed =
  ga_vaultPda :: pubkey
  ga_proofStatus :: jstext
  ga_proofTimestamp :: int
  ga_proofAgeSeconds :: int
  ga_depositedLamports :: int

record gate_blocked =
  gb_reason :: gate_block_reason
  gb_humanMessage :: jstext
  gb_vaultPda :: "pubkey option"

datatype gate_result = Allowed gate_allowed | Blocked gate_blocked

definition PROOF_FRESHNESS_SECONDS :: int where
  "PROOF_FRESHNESS_SECONDS = 24 * 60 * 60"

section \<open>Vault accounts\<close>

record VaultAccountLayout =
  va_vaultId :: pubkey
  va_owner :: pubkey
  va_dwalletId :: bytes
  va_assetType :: int
  va_depositedAmount :: int
  va_proofStatus :: int
  va_proofTimestamp :: int
  va_frozen :: bool
  va_bump :: int

definition decodeVaultAccount :: "bytes \<Rightarrow> VaultAccountLayout option js" where
  "decodeVaultAccount data =
     (if length data < 8 + 32 + 32 + 32 + 1 + 8 + 1 + 8 + 1 + 1 then Inr None else
      let off = 8 in
      js_bind (new_PublicKey (subarray data off (off + 32))) (\<lambda>vaultId. let off = off + 32 in
      js_bind (new_PublicKey (subarray data off (off + 32))) (\<lambda>owner. let off = off + 32;
          dwalletId = subarray data off (off + 32); off = off + 32 in
      js_bind (read_u8 data off) (\<lambda>assetType. let off = off + 1 in
      js_bind (readBigUInt64LE data off) (\<lambda>depositedAmount. let off = off + 8 in
      js_bind (read_u8 data off) (\<lambda>ps. let off = off + 1;
          proofStatus = (if ps = 0 \<or> ps = 1 \<or> ps = 2 then ps else 0) in
      js_bind (readBigInt64LE data off) (\<lambda>proofTimestamp. let off = off + 8;
          frozen = (get_byte data off = Some 1); off = off + 1 in
      js_bind (read_u8 data off) (\<lambda>bump.
      Inr (Some \<lparr>va_vaultId = vaultId, va_owner = owner, va_dwalletId = dwalletId,
        va_assetType = assetType, va_depositedAmount = depositedAmount,
        va_proofStatus = proofStatus, va_proofTimestamp = js_number proofTimestamp,
        va_frozen = frozen, va_bump = bump\<rparr>)))))))))"

definition readProtocolState :: "platform \<Rightarrow> connection \<Rightarrow> (bool \<times> bool) js" where
  "readProtocolState P conn =
     js_bind (deriveProtocolStatePda P) (\<lambda>(pda, _).
     js_bind (getAccountInfo conn pda) (\<lambda>info.
       case info of
         None \<Rightarrow> Inr (False, False)
       | Some data \<Rightarrow> Inr (True, get_byte data 40 = Some 1)))"

section \<open>The gate\<close>

text \<open>The message of an expired proof quotes its age in whole hours; the quotient is exact for ages up
  to \<open>2 ^ 53\<close> seconds.\<close>

definition expired_message :: "int \<Rightarrow> jstext" where
  "expired_message age =
     ascii ''Custody proof is '' @ bigint_to_text (age div 3600)
     @ ascii ''h old (>24h). Re-run verify_custody_proof.''"

definition blocked :: "gate_block_reason \<Rightarrow> jstext \<Rightarrow> pubkey option \<Rightarrow> gate_result js" where
  "blocked r m v = Inr (Blocked \<lparr>gb_reason = r, gb_humanMessage = m, gb_vaultPda = v\<rparr>)"

definition checkLendGuardGate ::
    "platform \<Rightarrow> connection \<Rightarrow> int \<Rightarrow> pubkey option \<Rightarrow> jstext + bytes \<Rightarrow> gate_result js" where
  "checkLendGuardGate P conn date_now wallet dwalletId =
     (case wallet of
        None \<Rightarrow> blocked WALLET_NOT_CONNECTED
          (ascii ''Connect a Solana wallet so LendGuard can locate your vault PDA.'') None
      | Some w \<Rightarrow>
        js_bind (readProtocolState P conn) (\<lambda>(exists, frozen).
        if \<not> exists then blocked PROTOCOL_NOT_INITIALIZED
          (ascii ''LendGuard protocol_state PDA is not initialized on this cluster.'') None
        else if frozen then blocked PROTOCOL_FROZEN
          (ascii ''Protocol is frozen '' @ [8212]
           @ ascii '' LendGuard tripped its circuit breaker, no deposits allowed.'') None
        else
          let dwalletIdBytes = (case dwalletId of Inl s \<Rightarrow> dwalletIdToBytes s | Inr bs \<Rightarrow> bs) in
          js_bind (deriveVaultPda P w dwalletIdBytes) (\<lambda>(vaultPda, _).
          js_bind (getAccountInfo conn vaultPda) (\<lambda>info.
          case info of
            None \<Rightarrow> blocked VAULT_NOT_REGISTERED
              (ascii ''No LendGuard vault found for this wallet + dWallet ID. Run the LendGuard demo first to create one.'')
              (Some vaultPda)
          | Some data \<Rightarrow>
            js_bind (decodeVaultAccount data) (\<lambda>decoded.
            case decoded of
              None \<Rightarrow> blocked VAULT_NOT_REGISTERED
                (ascii ''Vault PDA exists but its data is not LendGuard-shaped.'') (Some vaultPda)
            | Some vault \<Rightarrow>
              if va_frozen vault then blocked VAULT_FROZEN
                (ascii ''This vault was frozen by an admin / circuit breaker.'') (Some vaultPda)
              else if va_proofStatus vault \<noteq> 1 then blocked PROOF_PENDING
                (ascii ''Vault has no Ika MessageApproval yet '' @ [8212]
                 @ ascii '' call verify_custody_proof before depositing.'') (Some vaultPda)
              else
                let nowSec = date_now div 1000;
                    proofAgeSeconds = js_number (nowSec - va_proofTimestamp vault) in
                if proofAgeSeconds > PROOF_FRESHNESS_SECONDS then blocked PROOF_EXPIRED
                  (expired_message proofAgeSeconds) (Some vaultPda)
                else Inr (Allowed \<lparr>ga_vaultPda = vaultPda, ga_proofStatus = ascii ''VERIFIED'',
                  ga_proofTimestamp = va_proofTimestamp vault,
                  ga_proofAgeSeconds = proofAgeSeconds,
                  ga_depositedLamports = va_depositedAmount vault\<rparr>))))))"

fun blockReasonLabel :: "gate_block_reason \<Rightarrow> jstext" where
  "blockReasonLabel WALLET_NOT_CONNECTED = ascii ''Wallet not connected''"
| "blockReasonLabel PROTOCOL_NOT_INITIALIZED = ascii ''Protocol not initialized''"
| "blockReasonLabel PROTOCOL_FROZEN =
     ascii ''Protocol frozen '' @ [8212] @ ascii '' circuit breaker tripped''"
| "blockReasonLabel VAULT_NOT_REGISTERED = ascii ''No registered vault''"
| "blockReasonLabel PROOF_PENDING = ascii ''No Ika custody proof''"
| "blockReasonLabel PROOF_EXPIRED = ascii ''Custody proof expired''"
| "blockReasonLabel VAULT_FROZEN = ascii ''Vault frozen''"

section \<open>Vault discovery\<close>

definition VAULT_ACCOUNT_LEN :: nat where
  "VAULT_ACCOUNT_LEN = 8 + 32 + 32 + 32 + 1 + 8 + 1 + 8 + 1 + 1"

definition OWNER_OFFSET_IN_VAULT :: nat where "OWNER_OFFSET_IN_VAULT = 8 + 32"

record VaultListing =
  vl_vaultPda :: pubkey
  vl_vault :: VaultAccountLayout

fun push_vaults :: "(pubkey \<times> bytes) list \<Rightarrow> VaultListing list \<Rightarrow> VaultListing list js" where
  "push_vaults [] out = Inr out"
| "push_vaults ((pk, data) # accounts) out =
     js_bind (decodeVaultAccount data) (\<lambda>decoded.
       case decoded of
         None \<Rightarrow> push_vaults accounts out
       | Some v \<Rightarrow> push_vaults accounts (out @ [\<lparr>vl_vaultPda = pk, vl_vault = v\<rparr>]))"

definition listVaultsForOwner :: "platform \<Rightarrow> connection \<Rightarrow> pubkey \<Rightarrow> VaultListing list js" where
  "listVaultsForOwner P conn wallet =
     js_bind (getProgramAccounts conn (PROGRAM_ID P)
        [DataSize VAULT_ACCOUNT_LEN, Memcmp OWNER_OFFSET_IN_VAULT (to_buffer wallet)]) (\<lambda>accounts.
     js_bind (push_vaults accounts []) (\<lambda>out.
     Inr (sort_key (\<lambda>a. - va_proofTimestamp (vl_vault a)) out)))"

section \<open>The vault decoder meets the layout contract\<close>

text \<open>A status byte outside the three known ones is shown as pending.\<close>

definition view_Vault :: "VaultState \<Rightarrow> VaultAccountLayout" where
  "view_Vault v =
     \<lparr>va_vaultId = vault_vault_id v, va_owner = vault_owner v, va_dwalletId = vault_dwallet_id v,
      va_assetType = uint (vault_asset_type v), va_depositedAmount = uint (vault_deposited_amount v),
      va_proofStatus = (if uint (vault_proof_status v) \<le> 2 then uint (vault_proof_status v) else 0),
      va_proofTimestamp = js_number (sint (vault_proof_timestamp v)), va_frozen = vault_frozen v,
      va_bump = uint (vault_bump v)\<rparr>"

lemma decodeVaultAccount_long:
  "VAULT_ACCOUNT_LEN \<le> length d \<Longrightarrow> \<exists>v. decodeVaultAccount d = Inr (Some v)"
  by (simp add: decodeVaultAccount_def VAULT_ACCOUNT_LEN_def Let_def decode_long)

lemma decodeVaultAccount_short:
  "length d < VAULT_ACCOUNT_LEN \<Longrightarrow> decodeVaultAccount d = Inr None"
  by (simp add: decodeVaultAccount_def VAULT_ACCOUNT_LEN_def)

lemma small_status: "(ps = 0 \<or> ps = 1 \<or> ps = 2) \<longleftrightarrow> ps \<le> 2" if "0 \<le> ps" for ps :: int
  using that by auto

lemma decodeVaultAccount_body:
  "wf_Vault v \<Longrightarrow> length disc = 8 \<Longrightarrow>
   decodeVaultAccount (disc @ body_Vault v @ rest) = Inr (Some (view_Vault v))"
  by (simp add: decodeVaultAccount_def body_Vault_def Let_def decode_long reads_through
      view_Vault_def wf_Vault_def small_status flip: unat_eq_nat_uint)

lemma body_Vault_length: "wf_Vault v \<Longrightarrow> 8 + length (body_Vault v) = VAULT_ACCOUNT_LEN"
  by (simp add: body_Vault_def wf_Vault_def VAULT_ACCOUNT_LEN_def)

interpretation vault_layout: account_layout VAULT_ACCOUNT_LEN body_Vault wf_Vault
    decodeVaultAccount view_Vault
  by unfold_locales
    (blast intro: body_Vault_length decodeVaultAccount_short decodeVaultAccount_long
      decodeVaultAccount_body)+

section \<open>Verdicts\<close>

fun gate_reason :: "gate_result \<Rightarrow> gate_block_reason option" where
  "gate_reason (Allowed a) = None"
| "gate_reason (Blocked b) = Some (gb_reason b)"

lemma js_number_ge: "2 ^ 53 \<le> x \<Longrightarrow> 2 ^ 53 \<le> js_number x"
  using round53_ge [of "nat x"] by (simp add: js_number_def)

text \<open>The two roundings of the age do not change the comparison.\<close>

lemma age_comparison:
  assumes "0 \<le> now" "now < 2 ^ 53"
  shows "js_number (now - js_number t) > PROOF_FRESHNESS_SECONDS \<longleftrightarrow> now - t > PROOF_FRESHNESS_SECONDS"
proof -
  have outer: "js_number x > PROOF_FRESHNESS_SECONDS \<longleftrightarrow> x > PROOF_FRESHNESS_SECONDS" for x
    by (rule js_number_gt_iff) (simp_all add: PROOF_FRESHNESS_SECONDS_def)
  consider "\<bar>t\<bar> \<le> 2 ^ 53" | "2 ^ 53 < t" | "2 ^ 53 < - t" by linarith
  then show ?thesis
  proof cases
    case 1
    then show ?thesis by (simp add: outer)
  next
    case 2
    then have "2 ^ 53 \<le> js_number t" using js_number_ge by simp
    then show ?thesis
      using 2 assms unfolding outer by (simp add: PROOF_FRESHNESS_SECONDS_def)
  next
    case 3
    then have "2 ^ 53 \<le> js_number (- t)" using js_number_ge [of "- t"] by simp
    then have "js_number t \<le> - (2 ^ 53)" by (simp add: js_number_minus)
    then show ?thesis
      using 3 assms unfolding outer by (simp add: PROOF_FRESHNESS_SECONDS_def)
  qed
qed

lemma protocol_frozen_byte:
  "length disc = 8 \<Longrightarrow>
   get_byte (disc @ body_ProtocolState ps @ rest) 40 = Some 1 \<longleftrightarrow> proto_frozen ps"
  by (simp add: body_ProtocolState_def get_byte_def nth_skip)

lemma status_is_1: "(if uint (b :: byte) \<le> 2 then uint b else 0) = 1 \<longleftrightarrow> b = 1"
proof -
  have "uint b = 1 \<longleftrightarrow> b = 1" by (metis uint_1 word_uint_eqI)
  then show ?thesis by (cases "b = 1") simp_all
qed

text \<open>The fields of a decoded vault, on any data.\<close>

lemma decodeVaultAccount_fields:
  assumes "decodeVaultAccount d = Inr (Some v)"
  shows "VAULT_ACCOUNT_LEN \<le> length d"
    and "va_owner v = word_of_nat (be_val (subarray d 40 72))"
    and "va_proofStatus v = 1 \<longleftrightarrow> d ! 113 = 1"
    and "va_frozen v \<longleftrightarrow> d ! 122 = 1"
    and "va_proofTimestamp v =
      js_number (sint (word_of_nat (le_val (subarray d 114 122)) :: 64 word))"
proof -
  show len: "VAULT_ACCOUNT_LEN \<le> length d"
    using assms vault_layout.dec_Some_iff by blast
  have u: "uint (b :: byte) = 1 \<longleftrightarrow> b = 1" for b by (metis uint_1 word_uint_eqI)
  show "va_owner v = word_of_nat (be_val (subarray d 40 72))"
    and "va_proofStatus v = 1 \<longleftrightarrow> d ! 113 = 1" and "va_frozen v \<longleftrightarrow> d ! 122 = 1"
    and "va_proofTimestamp v =
      js_number (sint (word_of_nat (le_val (subarray d 114 122)) :: 64 word))"
    using assms len
    by (auto simp: decodeVaultAccount_def VAULT_ACCOUNT_LEN_def Let_def decode_long u
        split: if_splits)
qed

section \<open>Listing vaults\<close>

definition vault_of :: "pubkey \<times> bytes \<Rightarrow> VaultListing option" where
  "vault_of a = (case decodeVaultAccount (snd a) of
     Inr (Some v) \<Rightarrow> Some \<lparr>vl_vaultPda = fst a, vl_vault = v\<rparr> | _ \<Rightarrow> None)"

lemma push_vaults_eq: "push_vaults accounts out = Inr (out @ List.map_filter vault_of accounts)"
proof (induction accounts arbitrary: out)
  case Nil
  then show ?case by (simp add: List.map_filter_def)
next
  case (Cons a accounts)
  obtain pk d where a: "a = (pk, d)" by (cases a)
  obtain r where "decodeVaultAccount d = Inr r" using vault_layout.dec_total by blast
  then show ?case by (cases r) (simp_all add: a Cons vault_of_def map_filter_simps)
qed

lemma map_filter_vault_of:
  assumes "list_all (\<lambda>(_, d). length d = VAULT_ACCOUNT_LEN) accs"
  shows "map vl_vaultPda (List.map_filter vault_of accs) = map fst accs"
  using assms
proof (induction accs)
  case Nil
  then show ?case by (simp add: List.map_filter_def)
next
  case (Cons a accs)
  then have "length (snd a) = VAULT_ACCOUNT_LEN" by auto
  then obtain v where "decodeVaultAccount (snd a) = Inr (Some v)"
    using vault_layout.dec_long by force
  then have "vault_of a = Some \<lparr>vl_vaultPda = fst a, vl_vault = v\<rparr>" by (simp add: vault_of_def)
  then show ?case using Cons by (simp add: map_filter_simps)
qed

lemma map_filter_vault_owner:
  assumes "list_all (\<lambda>(_, d). subarray d 40 72 = to_buffer owner) accs"
  shows "list_all (\<lambda>l. va_owner (vl_vault l) = owner) (List.map_filter vault_of accs)"
  using assms
  by (auto simp: list_all_iff List.map_filter_def vault_of_def
      dest!: decodeVaultAccount_fields(2) split: sum.splits option.splits)

section \<open>Properties\<close>

text \<open>The answer on the accounts the program stores, without the decoding. The freshness of a proof is
  written out: one day, not the 600 seconds of the program.\<close>

lemma gate_on_stored_accounts:
  assumes "length d1 = 8" "length d2 = 8" "wf_Vault v"
    and clock: "0 \<le> date_now" "date_now < 2 ^ 53"
    and "deriveProtocolStatePda P = Inr (pp, b1)" "deriveVaultPda P w dwallet = Inr (vp, b2)"
    and "getAccountInfo conn pp = Inr (Some (d1 @ body_ProtocolState ps))"
    and "getAccountInfo conn vp = Inr (Some (d2 @ body_Vault v))"
  shows "\<exists>r. checkLendGuardGate P conn date_now (Some w) (Inr dwallet) = Inr r
    \<and> gate_reason r = (if proto_frozen ps then Some PROTOCOL_FROZEN
        else if vault_frozen v then Some VAULT_FROZEN
        else if vault_proof_status v \<noteq> 1 then Some PROOF_PENDING
        else if date_now div 1000 - sint (vault_proof_timestamp v) > 86400 then Some PROOF_EXPIRED
        else None)
    \<and> (\<forall>a. r = Allowed a \<longrightarrow> ga_vaultPda a = vp
        \<and> ga_depositedLamports a = uint (vault_deposited_amount v)
        \<and> ga_proofTimestamp a = js_number (sint (vault_proof_timestamp v)))"
proof -
  have f: "get_byte (d1 @ body_ProtocolState ps) 40 = Some 1 \<longleftrightarrow> proto_frozen ps"
    using protocol_frozen_byte [of d1 ps "[]"] assms(1) by simp
  have v: "decodeVaultAccount (d2 @ body_Vault v) = Inr (Some (view_Vault v))"
    using decodeVaultAccount_body [of v d2 "[]"] assms(2,3) by simp
  have age: "js_number (date_now div 1000 - js_number t) > PROOF_FRESHNESS_SECONDS
      \<longleftrightarrow> date_now div 1000 - t > 86400" for t
    using clock zdiv_mono2 [of date_now 1 1000] age_comparison [of "date_now div 1000" t]
    by (simp add: pos_imp_zdiv_nonneg_iff PROOF_FRESHNESS_SECONDS_def)
  show ?thesis
    using assms(6-9) f v status_is_1 [of "vault_proof_status v"]
    by (simp add: checkLendGuardGate_def readProtocolState_def blocked_def Let_def
        view_Vault_def age del: subarray_0)
qed

text \<open>A platform that numbers addresses by their seeds, with a verified vault proved at time 1000.\<close>

definition counting_platform :: platform where
  "counting_platform =
     demo_platform\<lparr>find_program_address := (\<lambda>seeds _. Inr (word_of_nat (length seeds), 255))\<rparr>"

definition sample_protocol :: ProtocolStateAccount where
  "sample_protocol = \<lparr>proto_admin = 9, proto_frozen = False, proto_total_vaults = 1,
     proto_total_verified = 0, proto_total_rejected = 0, proto_total_collateral_verified = 0,
     proto_bump = 255\<rparr>"

definition sample_vault :: VaultState where
  "sample_vault = \<lparr>vault_vault_id = 3, vault_owner = 7, vault_dwallet_id = replicate 32 1,
     vault_asset_type = 0, vault_deposited_amount = 5, vault_proof_status = 1,
     vault_proof_timestamp = 1000, vault_frozen = False, vault_bump = 255\<rparr>"

definition sample_connection :: connection where
  "sample_connection =
     \<lparr>getAccountInfo = (\<lambda>k. Inr (if k = 1 then Some (replicate 8 0 @ body_ProtocolState sample_protocol)
         else if k = 3 then Some (replicate 8 0 @ body_Vault sample_vault) else None)),
      getProgramAccounts = (\<lambda>_ fs. if list_all (filter_matches (replicate 124 0)) fs
         then Inr [(7, replicate 124 0)] else Inr [])\<rparr>"

text \<open>C19: a positive answer is never given without its evidence, whatever bytes the accounts hold: the
  protocol account exists and is not frozen, the vault at the wallet's derived address is long
  enough, not frozen, verified, and its proof is at most a day old.\<close>

theorem gate_allowed_evidence:
  assumes "checkLendGuardGate P conn date_now wallet dwalletId = Inr (Allowed a)"
  shows "\<exists>w pp b p b' d. wallet = Some w
    \<and> deriveProtocolStatePda P = Inr (pp, b) \<and> getAccountInfo conn pp = Inr (Some p)
    \<and> get_byte p 40 \<noteq> Some 1
    \<and> deriveVaultPda P w (case dwalletId of Inl s \<Rightarrow> dwalletIdToBytes s | Inr bs \<Rightarrow> bs)
        = Inr (ga_vaultPda a, b')
    \<and> getAccountInfo conn (ga_vaultPda a) = Inr (Some d)
    \<and> VAULT_ACCOUNT_LEN \<le> length d \<and> d ! 113 = 1 \<and> d ! 122 \<noteq> 1
    \<and> js_number (date_now div 1000 - js_number (sint (word_of_nat (le_val (subarray d 114 122)) :: 64 word)))
        \<le> PROOF_FRESHNESS_SECONDS"
  using assms
  by (auto simp: checkLendGuardGate_def readProtocolState_def blocked_def Let_def js_bind_eq_Inr
      decodeVaultAccount_fields split: option.splits if_splits prod.splits)

lemma gate_allowed_evidence_witness:
  "\<exists>a d. checkLendGuardGate counting_platform sample_connection 2000000 (Some 7)
       (Inr (replicate 32 1)) = Inr (Allowed a)
     \<and> getAccountInfo sample_connection (ga_vaultPda a) = Inr (Some d) \<and> d ! 113 = 1"
proof -
  have p: "get_byte (replicate 8 0 @ body_ProtocolState sample_protocol) 40 \<noteq> Some 1"
    using protocol_frozen_byte [of "replicate 8 0" sample_protocol "[]"]
    by (simp add: sample_protocol_def)
  have v: "decodeVaultAccount (replicate 8 0 @ body_Vault sample_vault) = Inr (Some (view_Vault sample_vault))"
    using decodeVaultAccount_body [of sample_vault "replicate 8 0" "[]"]
    by (simp add: wf_Vault_def sample_vault_def)
  obtain a where "checkLendGuardGate counting_platform sample_connection 2000000 (Some 7)
       (Inr (replicate 32 1)) = Inr (Allowed a)"
    using p v
    by (simp add: checkLendGuardGate_def readProtocolState_def deriveProtocolStatePda_def
        deriveVaultPda_def counting_platform_def sample_connection_def Let_def view_Vault_def
        sample_vault_def PROOF_FRESHNESS_SECONDS_def)
  from gate_allowed_evidence [OF this] this show ?thesis by blast
qed

text \<open>The vaults listed for a wallet are complete, are the wallet's, and come with the latest
  proof first, when the RPC honours the filters.\<close>

theorem listVaultsForOwner_complete:
  assumes "honours_filters conn"
    and "getProgramAccounts conn (PROGRAM_ID P)
           [DataSize VAULT_ACCOUNT_LEN, Memcmp OWNER_OFFSET_IN_VAULT (to_buffer wallet)] = Inr accs"
  shows "\<exists>out. listVaultsForOwner P conn wallet = Inr out
     \<and> mset (map vl_vaultPda out) = mset (map fst accs)
     \<and> list_all (\<lambda>l. va_owner (vl_vault l) = wallet) out
     \<and> sorted_wrt (\<lambda>a b. va_proofTimestamp (vl_vault b) \<le> va_proofTimestamp (vl_vault a)) out"
proof -
  define vs where "vs = List.map_filter vault_of accs"
  define out where "out = sort_key (\<lambda>a. - va_proofTimestamp (vl_vault a)) vs"
  have size: "list_all (\<lambda>(_, d). length d = VAULT_ACCOUNT_LEN) accs"
    and mem: "list_all (\<lambda>(_, d). subarray d 40 72 = to_buffer wallet) accs"
    using assms by (fastforce simp: honours_filters_def list_all_iff OWNER_OFFSET_IN_VAULT_def)+
  have pda: "map vl_vaultPda vs = map fst accs"
    unfolding vs_def by (rule map_filter_vault_of [OF size])
  have own: "list_all (\<lambda>l. va_owner (vl_vault l) = wallet) vs"
    unfolding vs_def by (rule map_filter_vault_owner [OF mem])
  have "listVaultsForOwner P conn wallet = Inr out"
    using assms by (simp add: listVaultsForOwner_def push_vaults_eq out_def vs_def)
  moreover have "mset (map vl_vaultPda out) = mset (map fst accs)"
    by (simp add: out_def pda [symmetric])
  moreover have "list_all (\<lambda>l. va_owner (vl_vault l) = wallet) out"
    using own by (simp add: out_def list_all_iff)
  moreover have "sorted_wrt (\<lambda>a b. va_proofTimestamp (vl_vault b) \<le> va_proofTimestamp (vl_vault a)) out"
    using sorted_sort_key [of "\<lambda>a. - va_proofTimestamp (vl_vault a)" vs]
    by (simp add: out_def sorted_map)
  ultimately show ?thesis by blast
qed

lemma listVaultsForOwner_complete_witness:
  "\<exists>out. listVaultsForOwner counting_platform sample_connection 0 = Inr out
     \<and> mset (map vl_vaultPda out) = {#7#}"
proof -
  have h: "honours_filters sample_connection"
    by (auto simp: honours_filters_def sample_connection_def split: if_splits)
  have z: "to_buffer 0 = replicate 32 0"
    by (simp add: to_buffer_def be_bytes_def le_bytes_numeral replicate_numeral)
  have a: "getProgramAccounts sample_connection (PROGRAM_ID counting_platform)
     [DataSize VAULT_ACCOUNT_LEN, Memcmp OWNER_OFFSET_IN_VAULT (to_buffer 0)] = Inr [(7, replicate 124 0)]"
    by (simp add: sample_connection_def VAULT_ACCOUNT_LEN_def OWNER_OFFSET_IN_VAULT_def subarray_def z)
  show ?thesis using listVaultsForOwner_complete [OF h a] by auto
qed

end
