(* ===== verification/Services.thy ===== *)
theory Services
  imports Complex_Main Readers
begin

text \<open>
  Asynchronous code as computations over the history of the requests made to the world outside:
  the Solana RPC, the wallet, the Ika and Encrypt executors, the network of \<open>fetch\<close>, timers and the
  log. An answer of the outside may depend on everything asked before, so a service is a function of
  the history; a thrown error keeps the requests made until then.
\<close>

record transaction =
  tx_instructions :: "transaction_instruction list"
  tx_feePayer :: "pubkey option"
  tx_recentBlockhash :: "jstext option"

text \<open>What a wallet returns: a transaction, which need not be the one it was given, with its
  signatures.\<close>

record signed_transaction =
  signed_message :: transaction
  signed_with :: "(pubkey \<times> bytes) list"

text \<open>The \<open>err\<close> field of a simulation or confirmation: \<open>null\<close>, a string, or an object, which the
  code only prints with \<open>JSON.stringify\<close>: the text it prints stands for it.\<close>

datatype rpc_err = NullErr | StringErr jstext | ObjectErr jstext

record simulation =
  sim_err :: rpc_err
  sim_logs :: "jstext list option"

record ciphertext_input =
  ci_ciphertextBytes :: bytes
  ci_fheType :: int

text \<open>The values the SDK's client passes to the Anchor program object it is given.\<close>

datatype sdk_value = SdkText jstext | SdkNumber int | SdkBytes "nat list" | SdkUndefined

text \<open>The calls of the SPL token library (a mint's authority and decimals; the mint, owner or address of a
  token account; the authority that signs).\<close>

datatype token_call =
    CreateMint pubkey int
  | CreateTokenAccount pubkey pubkey
  | ReadTokenAccount pubkey
  | ReadMint pubkey
  | MintTo pubkey pubkey pubkey int
  | SetMintAuthority pubkey pubkey pubkey

datatype request =
    GetLatestBlockhash
  | SimulateTransaction transaction
  | SignTransaction transaction
  | SendRawTransaction bytes
  | ConfirmTransaction jstext jstext int
  | Warn jstext
  | Fetch
  | Wait int
  | NewIkaClient jstext
  | IkaRequestDKG bytes
  | IkaRequestPresign bytes bytes
  | IkaRequestSign bytes bytes bytes bytes bytes
  | NewEncryptClient jstext
  | EncryptCreateInput "ciphertext_input list" bytes bytes
  | ReadAccounts
  | HttpGet jstext
  | HttpPost jstext jstext
  | SendAndConfirm transaction
  | ProgramCall string "sdk_value list" "(string \<times> sdk_value) list"
  | Log jstext "(string \<times> jstext) list"
  | TokenCall token_call
  | ReadFile jstext
  | WriteFile jstext jstext
  | ChangeMode jstext int
  | MakeDirectory jstext
  | Exec jstext
  | GenerateKeypair
  | GetRent nat

record http_response =
  http_status :: int
  http_body :: jstext

text \<open>What the JSON of the mempool API says, as the scripts read it: an absent field is \<open>None\<close>.\<close>

record txo_stats =
  funded_txo_sum :: "int option"
  spent_txo_sum :: "int option"

record address_summary =
  chain_stats :: "txo_stats option"
  mempool_stats :: "txo_stats option"

record tx_status =
  st_confirmed :: bool
  st_block_height :: "int option"

type_synonym history = "request list"

type_synonym 'a io = "history \<Rightarrow> 'a js \<times> history"

definition io_return :: "'a \<Rightarrow> 'a io" where
  "io_return x = (\<lambda>h. (Inr x, h))"

definition io_throw :: "js_error \<Rightarrow> 'a io" where
  "io_throw e = (\<lambda>h. (Inl e, h))"

definition io_of :: "'a js \<Rightarrow> 'a io" where
  "io_of r = (\<lambda>h. (r, h))"

definition io_bind :: "'a io \<Rightarrow> ('a \<Rightarrow> 'b io) \<Rightarrow> 'b io" where
  "io_bind m f = (\<lambda>h. case m h of (Inl e, h') \<Rightarrow> (Inl e, h') | (Inr x, h') \<Rightarrow> f x h')"

text \<open>\<open>try { m } catch (e) { handler }\<close>\<close>

definition io_catch :: "'a io \<Rightarrow> (js_error \<Rightarrow> 'a io) \<Rightarrow> 'a io" where
  "io_catch m handler = (\<lambda>h. case m h of (Inl e, h') \<Rightarrow> handler e h' | (Inr x, h') \<Rightarrow> (Inr x, h'))"

text \<open>A computation with its outcome, value or error, as a value.\<close>

definition io_try :: "'a io \<Rightarrow> 'a js io" where
  "io_try m = (\<lambda>h. case m h of (r, h') \<Rightarrow> (Inr r, h'))"

text \<open>A request whose answer is awaited, and one that is not.\<close>

definition ask :: "request \<Rightarrow> (history \<Rightarrow> 'a js) \<Rightarrow> 'a io" where
  "ask r answer = (\<lambda>h. (answer h, h @ [r]))"

definition tell :: "request \<Rightarrow> unit io" where
  "tell r = (\<lambda>h. (Inr (), h @ [r]))"

text \<open>The services and the facts of the runtime the code reads. \<open>message_of\<close> is the text of the
  engine's own errors, \<open>random_text\<close> a random number written in a radix, \<open>number_of_text\<close> the finite
  number \<open>Number(text)\<close> gives, \<open>locale_quotient\<close> a quotient of two integers as \<open>toLocaleString\<close> writes it.\<close>

record services =
  rpc_getLatestBlockhash :: "history \<Rightarrow> (jstext \<times> int) js"
  rpc_simulateTransaction :: "history \<Rightarrow> transaction \<Rightarrow> simulation js"
  rpc_sendRawTransaction :: "history \<Rightarrow> bytes \<Rightarrow> jstext js"
  rpc_confirmTransaction :: "history \<Rightarrow> jstext \<Rightarrow> rpc_err js"
  wallet_signTransaction :: "history \<Rightarrow> transaction \<Rightarrow> signed_transaction js"
  transaction_serialize :: "signed_transaction \<Rightarrow> bytes js"
  in_browser :: bool
  ika_requestDKG :: "history \<Rightarrow> bytes \<Rightarrow> (bytes \<times> bytes) js"
  ika_requestPresign :: "history \<Rightarrow> bytes \<Rightarrow> bytes \<Rightarrow> bytes js"
  ika_requestSign :: "history \<Rightarrow> bytes \<Rightarrow> bytes \<Rightarrow> bytes \<Rightarrow> bytes \<Rightarrow> bytes \<Rightarrow> bytes js"
  encrypt_createInput :: "history \<Rightarrow> ciphertext_input list \<Rightarrow> bytes \<Rightarrow> bytes \<Rightarrow> bytes list option js"
  encryptValue :: "int \<Rightarrow> int \<Rightarrow> bytes"
  http_fetch :: "history \<Rightarrow> http_response js"
  program_rpc :: "history \<Rightarrow> string \<Rightarrow> sdk_value list \<Rightarrow> (string \<times> sdk_value) list \<Rightarrow> jstext js"
  date_now :: "history \<Rightarrow> int"
  rpc_accounts :: "history \<Rightarrow> connection"
  rpc_sendAndConfirm :: "history \<Rightarrow> transaction \<Rightarrow> jstext js"
  http_get :: "history \<Rightarrow> jstext \<Rightarrow> http_response js"
  http_post :: "history \<Rightarrow> jstext \<Rightarrow> jstext \<Rightarrow> http_response js"
  json_summary :: "jstext \<Rightarrow> address_summary js"
  json_tx_status :: "jstext \<Rightarrow> tx_status option js"
  math_random :: "history \<Rightarrow> rat"
  random_text :: "history \<Rightarrow> nat \<Rightarrow> jstext"
  number_of_text :: "jstext \<Rightarrow> rat option"
  locale_quotient :: "int \<Rightarrow> int \<Rightarrow> jstext"
  message_of :: "js_error \<Rightarrow> jstext"

section \<open>Errors\<close>

text \<open>\<open>e.message\<close> of an \<open>Error\<close>; a thrown value that is no \<open>Error\<close> has none.\<close>

definition error_message :: "services \<Rightarrow> js_error \<Rightarrow> jstext option" where
  "error_message S e = (case e of
       ErrorMsg s \<Rightarrow> Some (ascii s)
     | ErrorText t \<Rightarrow> Some t
     | NonError t \<Rightarrow> None
     | _ \<Rightarrow> Some (message_of S e))"

text \<open>Services that answer every request.\<close>

definition demo_services :: services where
  "demo_services =
     \<lparr>rpc_getLatestBlockhash = (\<lambda>_. Inr ([65], 100)),
      rpc_simulateTransaction = (\<lambda>_ _. Inr \<lparr>sim_err = NullErr, sim_logs = None\<rparr>),
      rpc_sendRawTransaction = (\<lambda>_ _. Inr [50]),
      rpc_confirmTransaction = (\<lambda>_ _. Inr NullErr),
      wallet_signTransaction = (\<lambda>_ tx. Inr \<lparr>signed_message = tx, signed_with = []\<rparr>),
      transaction_serialize = (\<lambda>_. Inr [1]),
      in_browser = True,
      ika_requestDKG = (\<lambda>_ _. Inr (replicate 32 5, replicate 32 7)),
      ika_requestPresign = (\<lambda>_ _ _. Inr [1, 2]),
      ika_requestSign = (\<lambda>_ _ _ _ _ _. Inr [9]),
      encrypt_createInput = (\<lambda>_ ins _ _. Inr (Some (map (\<lambda>_. replicate 32 6) ins))),
      encryptValue = (\<lambda>v t. [word_of_int v]),
      http_fetch = (\<lambda>_. Inr \<lparr>http_status = 200, http_body = []\<rparr>),
      program_rpc = (\<lambda>_ _ _ _. Inr [116]),
      date_now = (\<lambda>_. 1000),
      rpc_accounts = (\<lambda>_. \<lparr>getAccountInfo = (\<lambda>_. Inr None), getProgramAccounts = (\<lambda>_ _. Inr [])\<rparr>),
      rpc_sendAndConfirm = (\<lambda>_ _. Inr [51]),
      http_get = (\<lambda>_ _. Inr \<lparr>http_status = 200, http_body = [49]\<rparr>),
      http_post = (\<lambda>_ _ _. Inr \<lparr>http_status = 200, http_body = []\<rparr>),
      json_summary = (\<lambda>_. Inr \<lparr>chain_stats = None, mempool_stats = None\<rparr>),
      json_tx_status = (\<lambda>_. Inr None),
      math_random = (\<lambda>_. 0),
      random_text = (\<lambda>_ _. [48, 46, 53]),
      number_of_text = (\<lambda>_. None),
      locale_quotient = (\<lambda>_ _. [49]),
      message_of = (\<lambda>_. [])\<rparr>"

section \<open>Laws\<close>

lemma io_try_run [simp]: "io_try m h = (Inr (fst (m h)), snd (m h))"
  by (simp add: io_try_def split: prod.splits)

lemma io_simps [simp]:
  "io_bind (io_return x) f = f x" "io_bind (io_throw e) f = io_throw e"
  "io_bind (io_of (Inr x)) f = f x" "io_bind (io_of (Inl e)) f = io_throw e"
  "io_catch (io_return x) k = io_return x" "io_catch (io_throw e) k = k e"
  by (simp_all add: fun_eq_iff io_bind_def io_return_def io_throw_def io_of_def io_catch_def)

lemma io_bind_assoc: "io_bind (io_bind m f) g = io_bind m (\<lambda>x. io_bind (f x) g)"
  by (auto simp: fun_eq_iff io_bind_def split: prod.splits sum.splits)

lemma io_run [simp]:
  "io_return x h = (Inr x, h)" "io_throw e h = (Inl e, h)" "io_of r h = (r, h)"
  "ask q a h = (a h, h @ [q])" "tell q h = (Inr (), h @ [q])"
  by (simp_all add: io_return_def io_throw_def io_of_def ask_def tell_def)

lemma io_bind_eq_Inr:
  "io_bind m f h = (Inr y, h') \<longleftrightarrow> (\<exists>x h1. m h = (Inr x, h1) \<and> f x h1 = (Inr y, h'))"
  by (auto simp: io_bind_def split: prod.splits sum.splits)

lemma io_bind_run:
  "m h = (Inr x, h1) \<Longrightarrow> io_bind m f h = f x h1"
  "m h = (Inl e, h1) \<Longrightarrow> io_bind m f h = (Inl e, h1)"
  by (simp_all add: io_bind_def)

lemma io_catch_run:
  "m h = (Inr x, h1) \<Longrightarrow> io_catch m k h = (Inr x, h1)"
  "m h = (Inl e, h1) \<Longrightarrow> io_catch m k h = k e h1"
  by (simp_all add: io_catch_def)

text \<open>The requests a computation makes when it starts from a history: histories only grow.\<close>

definition grows :: "(request \<Rightarrow> bool) \<Rightarrow> 'a io \<Rightarrow> bool" where
  "grows P m \<longleftrightarrow> (\<forall>h. \<exists>k. snd (m h) = h @ k \<and> list_all P k)"

named_theorems grows_intros

lemma grows_pure [grows_intros]: "grows P (io_return x)" "grows P (io_throw e)" "grows P (io_of r)"
  by (auto simp: grows_def)

lemma grows_ask [grows_intros]: "P q \<Longrightarrow> grows P (ask q a)" "P q \<Longrightarrow> grows P (tell q)"
  by (auto simp: grows_def)

lemma grows_bind [grows_intros]:
  assumes "grows P m" "\<And>x. grows P (f x)"
  shows "grows P (io_bind m f)"
  unfolding grows_def
proof
  fix h
  obtain r k where m: "m h = (r, h @ k)" "list_all P k"
    using assms(1) by (metis grows_def prod.collapse)
  show "\<exists>k. snd (io_bind m f h) = h @ k \<and> list_all P k"
  proof (cases r)
    case (Inl e)
    then show ?thesis using m by (simp add: io_bind_def)
  next
    case (Inr x)
    obtain k' where "snd (f x (h @ k)) = (h @ k) @ k'" "list_all P k'"
      using assms(2) [of x] grows_def by blast
    then show ?thesis using m Inr by (intro exI [of _ "k @ k'"]) (simp add: io_bind_def)
  qed
qed

lemma grows_catch [grows_intros]:
  assumes "grows P m" "\<And>e. grows P (k e)"
  shows "grows P (io_catch m k)"
  unfolding grows_def
proof
  fix h
  obtain r j where m: "m h = (r, h @ j)" "list_all P j"
    using assms(1) by (metis grows_def prod.collapse)
  show "\<exists>j. snd (io_catch m k h) = h @ j \<and> list_all P j"
  proof (cases r)
    case (Inr x)
    then show ?thesis using m by (simp add: io_catch_def)
  next
    case (Inl e)
    obtain j' where "snd (k e (h @ j)) = (h @ j) @ j'" "list_all P j'"
      using assms(2) [of e] grows_def by blast
    then show ?thesis using m Inl by (intro exI [of _ "j @ j'"]) (simp add: io_catch_def)
  qed
qed

lemma grows_if [grows_intros]: "grows P m \<Longrightarrow> grows P n \<Longrightarrow> grows P (if c then m else n)"
  by simp

lemma growsD:
  assumes "grows P m" "m h = (r, h')"
  shows "\<exists>k. h' = h @ k \<and> list_all P k"
  using assms by (metis grows_def snd_conv)

section \<open>Counting requests\<close>

definition requests_of :: "(request \<Rightarrow> bool) \<Rightarrow> history \<Rightarrow> nat" where
  "requests_of P h = length (filter P h)"

definition at_most :: "nat \<Rightarrow> (request \<Rightarrow> bool) \<Rightarrow> 'a io \<Rightarrow> bool" where
  "at_most n P m \<longleftrightarrow> (\<forall>h. requests_of P (snd (m h)) \<le> requests_of P h + n)"

lemma at_most_pure: "at_most 0 P (io_return x)" "at_most 0 P (io_throw e)" "at_most 0 P (io_of r)"
  by (simp_all add: at_most_def)

lemma at_most_ask:
  "\<not> P q \<Longrightarrow> at_most 0 P (ask q a)" "\<not> P q \<Longrightarrow> at_most 0 P (tell q)" "at_most (Suc 0) P (ask q a)"
  by (simp_all add: at_most_def requests_of_def)

lemma at_most_bind: "at_most m P a \<Longrightarrow> (\<And>x. at_most n P (f x)) \<Longrightarrow> at_most (m + n) P (io_bind a f)"
  unfolding at_most_def io_bind_def
  by (auto split: prod.splits sum.splits)
    (metis (no_types, opaque_lifting) add.assoc add_le_mono1 le_add1 order_trans snd_conv)+

lemma at_most_catch: "at_most m P a \<Longrightarrow> (\<And>e. at_most n P (k e)) \<Longrightarrow> at_most (m + n) P (io_catch a k)"
  unfolding at_most_def io_catch_def
  by (auto split: prod.splits sum.splits)
    (metis (no_types, opaque_lifting) add.assoc add_le_mono1 le_add1 order_trans snd_conv)+

lemma at_most_mono: "at_most m P a \<Longrightarrow> m \<le> n \<Longrightarrow> at_most n P a"
  unfolding at_most_def by (meson add_left_mono order_trans)

lemma at_most_0_bind:
  "at_most 0 P a \<Longrightarrow> (\<And>x. at_most n P (f x)) \<Longrightarrow> at_most n P (io_bind a f)"
  using at_most_bind [of 0 P a n f] by simp

lemma at_most_bind_0:
  "at_most n P a \<Longrightarrow> (\<And>x. at_most 0 P (f x)) \<Longrightarrow> at_most n P (io_bind a f)"
  using at_most_bind [of n P a 0 f] by simp

lemma at_most_catch_le:
  "at_most m P a \<Longrightarrow> (\<And>e. at_most n P (k e)) \<Longrightarrow> m + n \<le> l \<Longrightarrow> at_most l P (io_catch a k)"
  using at_most_catch at_most_mono by blast

end
