(* ===== verification/Send_Tx.thy ===== *)
theory Send_Tx
  imports Services Chain_Math
begin

text \<open>
  \<open>sendIx\<close> of \<open>web/lib/program-actions.ts\<close>, through which every transaction of the frontend goes:
  blockhash, simulation against the own RPC, the wallet's signature, submission, confirmation. And
  \<open>web/lib/rpc-fetch.ts\<close>, the retrying transport under every RPC call.
\<close>

section \<open>The regular expression for Anchor's error line\<close>

text \<open>\<open>/Program log: AnchorError.*Error Message: (.*)\./\<close>: the leftmost place where it matches, the
  first \<open>.*\<close> as long as possible, then the second; a dot of the expression stands for any
  character that does not end the line.\<close>

definition line_terminator :: "nat \<Rightarrow> bool" where
  "line_terminator c \<longleftrightarrow> c \<in> {10, 13, 8232, 8233}"

fun strip_prefix :: "'a list \<Rightarrow> 'a list \<Rightarrow> 'a list option" where
  "strip_prefix [] s = Some s"
| "strip_prefix (p # ps) [] = None"
| "strip_prefix (p # ps) (c # s) = (if p = c then strip_prefix ps s else None)"

definition up_to_last_dot :: "jstext \<Rightarrow> jstext option" where
  "up_to_last_dot r =
     (if 46 \<in> set r then Some (rev (tl (dropWhile (\<lambda>c. c \<noteq> 46) (rev r)))) else None)"

fun last_error_message :: "jstext \<Rightarrow> jstext option" where
  "last_error_message [] = None"
| "last_error_message (c # cs) =
     (case last_error_message cs of
        Some t \<Rightarrow> Some t
      | None \<Rightarrow> (case strip_prefix (ascii ''Error Message: '') (c # cs) of
          None \<Rightarrow> None | Some r \<Rightarrow> up_to_last_dot r))"

fun anchor_error_exec :: "jstext \<Rightarrow> jstext option" where
  "anchor_error_exec [] = None"
| "anchor_error_exec (c # cs) =
     (case strip_prefix (ascii ''Program log: AnchorError'') (c # cs) of
        None \<Rightarrow> anchor_error_exec cs
      | Some r \<Rightarrow> (case last_error_message (takeWhile (\<lambda>c. \<not> line_terminator c) r) of
          None \<Rightarrow> anchor_error_exec cs | Some t \<Rightarrow> Some t))"

section \<open>\<open>sendIx\<close>\<close>

text \<open>\<open>if (sim.value.err)\<close>: an empty string counts as no error.\<close>

fun truthy_err :: "rpc_err \<Rightarrow> bool" where
  "truthy_err NullErr = False"
| "truthy_err (StringErr t) = (t \<noteq> [])"
| "truthy_err (ObjectErr t) = True"

fun err_text :: "rpc_err \<Rightarrow> jstext" where
  "err_text NullErr = ascii ''null''"
| "err_text (StringErr t) = t"
| "err_text (ObjectErr t) = t"

text \<open>\<open>.map(exec).find(Boolean)\<close>: the first capture that is not empty.\<close>

definition program_error :: "jstext list \<Rightarrow> jstext option" where
  "program_error logs =
     List.find (\<lambda>t. t \<noteq> []) (List.map_filter anchor_error_exec logs)"

definition preflight_advice :: jstext where
  "preflight_advice = ascii ''. '' @ ascii ''(If your wallet's simulation also failed but this one passed, ''
     @ ascii ''enable Testnet Mode in your wallet '' @ [8212]
     @ ascii '' it's simulating against mainnet.)''"

definition preflight_text :: "simulation \<Rightarrow> jstext" where
  "preflight_text sim =
     (let logs = (case sim_logs sim of None \<Rightarrow> [] | Some l \<Rightarrow> l);
          errStr = (case program_error logs of Some t \<Rightarrow> t | None \<Rightarrow> err_text (sim_err sim))
      in ascii ''On-chain pre-flight simulation failed: '' @ errStr
         @ preflight_advice)"

definition preflight :: "services \<Rightarrow> transaction \<Rightarrow> unit io" where
  "preflight S tx =
     io_catch
       (io_bind (ask (SimulateTransaction tx) (\<lambda>h. rpc_simulateTransaction S h tx)) (\<lambda>sim.
        if truthy_err (sim_err sim) then io_throw (ErrorText (preflight_text sim))
        else io_return ()))
       (\<lambda>e. case error_message S e of
          Some m \<Rightarrow> (case strip_prefix (ascii ''On-chain pre-flight'') m of
              Some r \<Rightarrow> io_throw e
            | None \<Rightarrow> tell (Warn (ascii ''[sendIx] pre-flight sim could not run:'')))
        | None \<Rightarrow> tell (Warn (ascii ''[sendIx] pre-flight sim could not run:'')))"

definition new_transaction ::
    "transaction_instruction list \<Rightarrow> pubkey \<Rightarrow> jstext \<Rightarrow> transaction" where
  "new_transaction ixs payer blockhash =
     \<lparr>tx_instructions = ixs, tx_feePayer = Some payer, tx_recentBlockhash = Some blockhash\<rparr>"

definition sendIx ::
    "services \<Rightarrow> transaction_instruction + transaction_instruction list \<Rightarrow> pubkey \<Rightarrow> jstext io" where
  "sendIx S ix payer =
     (let ixs = (case ix of Inl i \<Rightarrow> [i] | Inr is \<Rightarrow> is) in
      io_bind (ask GetLatestBlockhash (rpc_getLatestBlockhash S)) (\<lambda>(blockhash, lastValidBlockHeight).
      let tx = new_transaction ixs payer blockhash in
      io_bind (preflight S tx) (\<lambda>_.
      io_bind (ask (SignTransaction tx) (\<lambda>h. wallet_signTransaction S h tx)) (\<lambda>signed.
      io_bind (io_of (transaction_serialize S signed)) (\<lambda>raw.
      io_bind (ask (SendRawTransaction raw) (\<lambda>h. rpc_sendRawTransaction S h raw)) (\<lambda>sig.
      io_bind (ask (ConfirmTransaction sig blockhash lastValidBlockHeight)
                 (\<lambda>h. rpc_confirmTransaction S h sig)) (\<lambda>_.
      io_return sig)))))))"

section \<open>\<open>retryingFetch\<close>\<close>

definition MAX_ATTEMPTS :: nat where "MAX_ATTEMPTS = 4"
definition BASE_DELAY_MS :: int where "BASE_DELAY_MS = 200"
definition RETRY_STATUSES :: "int set" where "RETRY_STATUSES = {429, 502, 503, 504}"

definition shouldRetryStatus :: "int \<Rightarrow> bool" where
  "shouldRetryStatus status \<longleftrightarrow> status \<in> RETRY_STATUSES"

definition jitter :: "services \<Rightarrow> history \<Rightarrow> int \<Rightarrow> int" where
  "jitter S h ms = ms + \<lfloor>math_random S h * 200\<rfloor>"

definition back_off :: "services \<Rightarrow> nat \<Rightarrow> unit io" where
  "back_off S attempt = (\<lambda>h. tell (Wait (jitter S h (BASE_DELAY_MS * 2 ^ attempt))) h)"

function fetch_loop :: "services \<Rightarrow> nat \<Rightarrow> js_error option \<Rightarrow> http_response io" where
  "fetch_loop S attempt lastError =
     (if attempt < MAX_ATTEMPTS then
        io_bind (io_try (ask Fetch (http_fetch S))) (\<lambda>outcome.
        case outcome of
          Inr response \<Rightarrow>
            if shouldRetryStatus (http_status response) \<and> attempt < MAX_ATTEMPTS - 1 then
              io_bind (back_off S attempt) (\<lambda>_. fetch_loop S (attempt + 1) lastError)
            else io_return response
        | Inl err \<Rightarrow>
            if attempt < MAX_ATTEMPTS - 1 then
              io_bind (back_off S attempt) (\<lambda>_. fetch_loop S (attempt + 1) (Some err))
            else fetch_loop S (attempt + 1) (Some err))
      else io_throw (case lastError of
          Some err \<Rightarrow> err
        | None \<Rightarrow> ErrorText (ascii ''RPC unreachable after 4 attempts. Set NEXT_PUBLIC_SOLANA_RPC_URL to a private endpoint (Helius/Triton/QuickNode) in web/.env.local if this persists.'')))"
  by pat_completeness auto
termination
  by (relation "measure (\<lambda>(S, attempt, lastError). MAX_ATTEMPTS - attempt)")
    (auto simp: MAX_ATTEMPTS_def)

declare fetch_loop.simps [simp del]

definition retryingFetch :: "services \<Rightarrow> http_response io" where
  "retryingFetch S = fetch_loop S 0 None"

section \<open>Anchor's error line\<close>

text \<open>The messages of the program's errors, \<open>contracts/src/errors.rs\<close>.\<close>

fun error_msg :: "lendguard_error \<Rightarrow> jstext" where
  "error_msg VaultNotVerified =
     ascii ''Vault is not verified''"
| "error_msg VaultFrozen =
     ascii ''Vault is frozen''"
| "error_msg ProtocolFrozen =
     ascii ''Protocol is frozen''"
| "error_msg ProofExpired =
     ascii ''Proof has expired''"
| "error_msg InvalidProofAmount =
     ascii ''Invalid proof amount''"
| "error_msg DWalletMismatch =
     ascii ''DWallet ID mismatch''"
| "error_msg InvalidMessageApproval =
     ascii ''Invalid message approval account''"
| "error_msg InsufficientCollateral =
     ascii ''Insufficient collateral amount''"
| "error_msg InvalidAssetType =
     ascii ''Invalid asset type''"
| "error_msg UnauthorizedCaller =
     ascii ''Unauthorized caller''"
| "error_msg RiskCheckFailed =
     ascii ''Risk check failed''"
| "error_msg InvalidIkaProgram =
     ascii ''Invalid Ika program''"
| "error_msg InvalidEncryptProgram =
     ascii ''Invalid Encrypt program''"
| "error_msg InvalidCiphertextAccount =
     ascii ''Invalid ciphertext account''"
| "error_msg ArithmeticOverflow =
     ascii ''Arithmetic overflow''"
| "error_msg InvalidTimestamp =
     ascii ''Invalid timestamp''"
| "error_msg VaultAlreadyVerified =
     ascii ''Vault already verified''"
| "error_msg VaultNotFound =
     ascii ''Vault not found''"
| "error_msg InvalidWithdrawalAmount =
     ascii ''Invalid withdrawal amount''"
| "error_msg InvalidDepositAmount =
     ascii ''Invalid deposit amount''"
| "error_msg InvalidLendingPoolParameter =
     ascii ''Invalid lending pool parameter''"
| "error_msg InvalidBorrowAmount =
     ascii ''Invalid borrow amount''"
| "error_msg InsufficientPoolLiquidity =
     ascii ''Insufficient pool liquidity''"
| "error_msg BorrowExceedsCollateralLtv =
     ascii ''Borrow would exceed collateral LTV''"
| "error_msg OutstandingDebt =
     ascii ''Borrow position has outstanding debt''"
| "error_msg InvalidRepayAmount =
     ascii ''Invalid repay amount''"
| "error_msg PriceFeedStale =
     ascii ''Price feed is stale''"
| "error_msg PositionHealthy =
     ascii ''Position is healthy and cannot be liquidated''"
| "error_msg NoOutstandingDebt =
     ascii ''Position has no outstanding debt''"
| "error_msg SelfLiquidation =
     ascii ''Liquidator cannot liquidate their own position''"
| "error_msg PoolTokenVaultMismatch =
     ascii ''Pool token vault mismatch''"
| "error_msg BorrowAssetMintMismatch =
     ascii ''Borrow asset mint mismatch''"
| "error_msg TokenAccountOwnerMismatch =
     ascii ''Token account owner mismatch''"
| "error_msg InsufficientCollateralLamports =
     ascii ''Insufficient collateral lamports for liquidation''"
| "error_msg LiquidationNotAuthorised =
     ascii ''Encrypted liquidation gate did not authorise the liquidation''"
| "error_msg InvalidDwalletPubkey =
     ascii ''Invalid Secp256k1 dWallet public key (must be 33 bytes compressed)''"
| "error_msg InvalidBitcoinAddress =
     ascii ''Invalid Bitcoin testnet address (must be non-empty bech32 'tb'' @ [8230] @ ascii ''' under 63 bytes)''"
| "error_msg BitcoinAttestationStale =
     ascii ''Bitcoin balance attestation is stale; ask the keeper to refresh before borrowing''"
| "error_msg BitcoinAttestationMismatch =
     ascii ''Attestation refers to a different vault or address than the one supplied''"
| "error_msg KeeperNotAuthorised =
     ascii ''Caller is not the authorised BTC balance keeper''"
| "error_msg BtcVaultNotVerified =
     ascii ''BTC vault custody proof has not been verified yet''"
| "error_msg BtcVaultFrozen =
     ascii ''BTC vault is frozen''"
| "error_msg BtcVaultHasOpenDebt =
     ascii ''BTC vault already has an outstanding borrow position''"
| "error_msg BtcLiquidationNotInitiated =
     ascii ''BTC liquidation has not been initiated for this position''"
| "error_msg BtcLiquidationAlreadyInitiated =
     ascii ''BTC liquidation is already in flight; wait for the broadcaster keeper to finalise''"
| "error_msg BitcoinLiquidationSighashMismatch =
     ascii ''Bitcoin tx sighash submitted does not match the one committed on-chain at liquidation time''"
| "error_msg BitcoinConfirmationsInsufficient =
     ascii ''Bitcoin tx confirmations submitted are below the protocol minimum''"
| "error_msg InsufficientBtcCollateral =
     ascii ''Insufficient tBTC collateral for the requested borrow''"

text \<open>The line Anchor logs for an error: between the two markers stand the place, the error's name
  and its number.\<close>

definition anchor_log :: "jstext \<Rightarrow> jstext \<Rightarrow> jstext" where
  "anchor_log details msg =
     ascii ''Program log: AnchorError'' @ details @ ascii ''Error Message: '' @ msg @ [46]"

lemma strip_prefix_append [simp]: "strip_prefix p (p @ s) = Some s"
  by (induction p) simp_all

lemma last_error_message_append:
  "last_error_message s = Some t \<Longrightarrow> last_error_message (pre @ s) = Some t"
  by (induction pre) simp_all

lemma up_to_last_dot_snoc: "up_to_last_dot (m @ [46]) = Some m"
  by (simp add: up_to_last_dot_def)

lemma ascii_error_message:
  "ascii ''Error Message: '' =
     [69, 114, 114, 111, 114, 32, 77, 101, 115, 115, 97, 103, 101, 58, 32]"
  by (simp add: ascii_def)

lemma last_error_message_here:
  assumes "last_error_message (m @ [46]) = None"
  shows "last_error_message (ascii ''Error Message: '' @ m @ [46]) = Some m"
  using assms by (simp add: ascii_error_message up_to_last_dot_snoc)

lemma anchor_log_exec:
  assumes "list_all (\<lambda>c. \<not> line_terminator c) (details @ msg)"
    and "last_error_message (msg @ [46]) = None"
  shows "anchor_error_exec (anchor_log details msg) = Some msg"
proof -
  let ?r = "details @ ascii ''Error Message: '' @ msg @ [46]"
  have "list_all (\<lambda>c. \<not> line_terminator c) ?r"
    using assms(1) by (simp add: ascii_error_message line_terminator_def)
  then have line: "takeWhile (\<lambda>c. \<not> line_terminator c) ?r = ?r"
    by (simp add: takeWhile_eq_all_conv list_all_iff)
  have "last_error_message ?r = Some msg"
    by (rule last_error_message_append [OF last_error_message_here [OF assms(2)]])
  moreover obtain c cs where cs: "anchor_log details msg = c # cs"
    by (simp add: anchor_log_def ascii_def)
  ultimately show ?thesis
    using line strip_prefix_append [of "ascii ''Program log: AnchorError''" ?r]
    by (simp add: cs anchor_log_def [symmetric] del: strip_prefix_append)
qed

lemma error_msg_plain:
  "last_error_message (error_msg e @ [46]) = None"
  by (cases e) (simp_all add: ascii_def)

lemma error_msg_line: "list_all (\<lambda>c. \<not> line_terminator c) (error_msg e)"
  by (cases e) (simp_all add: ascii_def line_terminator_def)

lemma error_msg_nonempty: "error_msg e \<noteq> []"
  by (cases e) (simp_all add: ascii_def)

section \<open>Lemmas on the two routines\<close>

lemma program_error_logged:
  assumes "sim_logs sim = Some (before @ [anchor_log details (error_msg e)] @ after)"
    and "\<forall>l \<in> set before. anchor_error_exec l = None"
    and "list_all (\<lambda>c. \<not> line_terminator c) details"
  shows "preflight_text sim =
    ascii ''On-chain pre-flight simulation failed: '' @ error_msg e @ preflight_advice"
proof -
  have "anchor_error_exec (anchor_log details (error_msg e)) = Some (error_msg e)"
    using assms(3) error_msg_line error_msg_plain by (intro anchor_log_exec) auto
  moreover have "List.map_filter anchor_error_exec before = []"
    using assms(2) by (auto simp: List.map_filter_def filter_empty_conv)
  ultimately have "program_error (before @ [anchor_log details (error_msg e)] @ after)
      = Some (error_msg e)"
    using error_msg_nonempty by (simp add: program_error_def List.map_filter_def)
  then show ?thesis using assms(1) by (simp add: preflight_text_def)
qed

lemma preflight_prefix:
  "strip_prefix (ascii ''On-chain pre-flight'') (preflight_text sim) \<noteq> None"
  by (simp add: preflight_text_def Let_def ascii_def)

lemma preflight_rejects:
  assumes "rpc_simulateTransaction S h tx = Inr sim" "truthy_err (sim_err sim)"
  shows "preflight S tx h = (Inl (ErrorText (preflight_text sim)), h @ [SimulateTransaction tx])"
  using assms preflight_prefix [of sim]
  by (auto simp: preflight_def io_catch_def io_bind_def error_message_def)

lemma preflight_passes:
  assumes "rpc_simulateTransaction S h tx = Inr sim" "\<not> truthy_err (sim_err sim)"
  shows "preflight S tx h = (Inr (), h @ [SimulateTransaction tx])"
  using assms by (simp add: preflight_def io_catch_def io_bind_def)

lemma preflight_ok_requests:
  assumes "preflight S tx h = (Inr (), h')"
  shows "h' = h @ [SimulateTransaction tx]
       \<and> (\<exists>sim. rpc_simulateTransaction S h tx = Inr sim \<and> \<not> truthy_err (sim_err sim))
     \<or> (\<exists>w e. h' = h @ [SimulateTransaction tx, Warn w] \<and> rpc_simulateTransaction S h tx = Inl e)"
proof (cases "rpc_simulateTransaction S h tx")
  case (Inl e)
  then show ?thesis
    using assms
    by (auto simp: preflight_def io_catch_def io_bind_def split: option.splits)
next
  case (Inr sim)
  then show ?thesis
    using assms preflight_rejects [OF Inr] preflight_passes [OF Inr]
    by (cases "truthy_err (sim_err sim)") auto
qed

lemma preflight_confirm_update:
  "preflight (S\<lparr>rpc_confirmTransaction := c\<rparr>) = preflight S"
proof -
  have "error_message (S\<lparr>rpc_confirmTransaction := c\<rparr>) = error_message S"
    by (auto simp: fun_eq_iff error_message_def split: js_error.splits)
  then show ?thesis by (simp add: fun_eq_iff preflight_def)
qed

text \<open>The trace of the retrying transport: fetches separated by the given delays.\<close>

definition fetches :: "int list \<Rightarrow> history" where
  "fetches ds = concat (map (\<lambda>d. [Fetch, Wait d]) ds)"

lemma fetches_simps [simp]: "fetches [] = []" "fetches (d # ds) = Fetch # Wait d # fetches ds"
  by (simp_all add: fetches_def)

definition delay_ok :: "nat \<Rightarrow> int \<Rightarrow> bool" where
  "delay_ok attempt d \<longleftrightarrow> 200 * 2 ^ attempt \<le> d \<and> d < 200 * 2 ^ attempt + 200"

definition random_ok :: "services \<Rightarrow> bool" where
  "random_ok S \<longleftrightarrow> (\<forall>h. 0 \<le> math_random S h \<and> math_random S h < 1)"

lemma back_off_run:
  assumes "random_ok S"
  shows "\<exists>d. back_off S attempt h = (Inr (), h @ [Wait d]) \<and> delay_ok attempt d"
proof -
  have "0 \<le> math_random S h * 200" "math_random S h * 200 < 200"
    using assms by (simp_all add: random_ok_def)
  then have "0 \<le> \<lfloor>math_random S h * 200\<rfloor>" "\<lfloor>math_random S h * 200\<rfloor> < 200"
    by (simp_all add: floor_less_iff)
  then show ?thesis
    by (simp add: back_off_def jitter_def BASE_DELAY_MS_def delay_ok_def)
qed

text \<open>One more attempt after a wait.\<close>

definition fetch_shape :: "services \<Rightarrow> nat \<Rightarrow> history \<Rightarrow> http_response js \<times> history \<Rightarrow> int list \<Rightarrow> bool" where
  "fetch_shape S attempt h out ds \<longleftrightarrow>
     snd out = h @ fetches ds @ [Fetch] \<and> fst out = http_fetch S (h @ fetches ds)
     \<and> attempt + length ds < MAX_ATTEMPTS
     \<and> (\<forall>i < length ds. delay_ok (attempt + i) (ds ! i))
     \<and> (attempt + length ds = MAX_ATTEMPTS - 1
        \<or> (\<exists>r. fst out = Inr r \<and> \<not> shouldRetryStatus (http_status r)))"

lemma fetch_shape_step:
  assumes "fetch_shape S (attempt + 1) (h @ [Fetch, Wait d]) out ds" "delay_ok attempt d"
  shows "fetch_shape S attempt h out (d # ds)"
  using assms unfolding fetch_shape_def
  by (auto simp: nth_Cons split: nat.splits)

lemma fetch_loop_shape:
  assumes "random_ok S"
  shows "attempt < MAX_ATTEMPTS \<Longrightarrow> \<exists>ds. fetch_shape S attempt h (fetch_loop S attempt lastError h) ds"
proof (induction "MAX_ATTEMPTS - attempt" arbitrary: attempt h lastError)
  case 0
  then show ?case by simp
next
  case (Suc n)
  obtain d where d: "back_off S attempt (h @ [Fetch]) = (Inr (), h @ [Fetch, Wait d])"
    "delay_ok attempt d"
    using back_off_run [OF assms, of attempt "h @ [Fetch]"] by auto
  have step: "\<exists>ds. fetch_shape S attempt h (fetch_loop S (attempt + 1) le (h @ [Fetch, Wait d])) ds"
    if "attempt < MAX_ATTEMPTS - 1" for le
  proof -
    have "n = MAX_ATTEMPTS - (attempt + 1)" "attempt + 1 < MAX_ATTEMPTS"
      using Suc.hyps(2) that by simp_all
    from Suc.hyps(1) [OF this] show ?thesis using fetch_shape_step d(2) by blast
  qed
  have stop: "fetch_shape S attempt h (http_fetch S h, h @ [Fetch]) []"
    if "attempt = MAX_ATTEMPTS - 1 \<or> (\<exists>r. http_fetch S h = Inr r \<and> \<not> shouldRetryStatus (http_status r))"
    using that Suc.prems by (simp add: fetch_shape_def)
  have last: "fetch_loop S (attempt + 1) (Some err) g = (Inl err, g)" if "attempt = MAX_ATTEMPTS - 1" for err g
  proof -
    have "attempt + 1 = MAX_ATTEMPTS" using that by (simp add: MAX_ATTEMPTS_def)
    then show ?thesis using fetch_loop.simps [of S MAX_ATTEMPTS] by simp
  qed
  show ?case
  proof (cases "http_fetch S h")
    case (Inl err)
    show ?thesis
    proof (cases "attempt < MAX_ATTEMPTS - 1")
      case True
      then show ?thesis
        using Suc.prems step [of "Some err"] d Inl
        by (simp add: fetch_loop.simps [of S attempt] io_bind_def)
    next
      case False
      then have a: "attempt = MAX_ATTEMPTS - 1" using Suc.prems by simp
      then have "fetch_loop S attempt lastError h = (Inl err, h @ [Fetch])"
        using last [OF a] Suc.prems Inl
        by (simp add: a fetch_loop.simps [of S "MAX_ATTEMPTS - Suc 0"] io_bind_def)
      then show ?thesis using stop a Inl by auto
    qed
  next
    case (Inr r)
    show ?thesis
    proof (cases "shouldRetryStatus (http_status r) \<and> attempt < MAX_ATTEMPTS - 1")
      case True
      then show ?thesis
        using Suc.prems step [of lastError] d Inr
        by (simp add: fetch_loop.simps [of S attempt] io_bind_def)
    next
      case False
      then have "fetch_loop S attempt lastError h = (Inr r, h @ [Fetch])"
        using Suc.prems Inr by (auto simp: fetch_loop.simps [of S attempt] io_bind_def)
      moreover have "attempt = MAX_ATTEMPTS - 1 \<or> \<not> shouldRetryStatus (http_status r)"
        using False Suc.prems by auto
      ultimately show ?thesis using stop Inr by auto
    qed
  qed
qed

lemma delays_sum:
  assumes "length ds < 4" "\<forall>i < length ds. delay_ok i (ds ! i)"
  shows "sum_list ds < 2000"
proof -
  consider "ds = []" | a where "ds = [a]" | a b where "ds = [a, b]"
    | a b c where "ds = [a, b, c]"
    using assms(1) by (auto simp: less_Suc_eq numeral_eq_Suc length_Suc_conv)
  then show ?thesis
    using assms(2) by cases (auto simp: delay_ok_def All_less_Suc)
qed

section \<open>Properties\<close>

text \<open>C16: when the simulation reports an error \<open>sendIx\<close> throws, after exactly the two RPC requests:
  the wallet is never asked and nothing is sent. For an error of the program the thrown text shows
  its message, whatever lines stand around Anchor's in the log.\<close>

theorem sendIx_stops_at_failing_simulation:
  assumes "rpc_getLatestBlockhash S h = Inr (blockhash, height)"
    and tx: "tx = new_transaction ixs payer blockhash"
    and sim: "rpc_simulateTransaction S (h @ [GetLatestBlockhash]) tx = Inr sim"
      "truthy_err (sim_err sim)"
    and logs: "sim_logs sim = Some (before @ [anchor_log details (error_msg e)] @ after)"
      "\<forall>l \<in> set before. anchor_error_exec l = None"
      "list_all (\<lambda>c. \<not> line_terminator c) details"
  shows "sendIx S (Inr ixs) payer h =
      (Inl (ErrorText (ascii ''On-chain pre-flight simulation failed: '' @ error_msg e @ preflight_advice)),
       h @ [GetLatestBlockhash, SimulateTransaction tx])"
  using assms(1) preflight_rejects [OF sim] program_error_logged [OF logs]
  by (simp add: sendIx_def io_bind_def tx Let_def)

lemma sendIx_stops_at_failing_simulation_witness:
  "sendIx (demo_services\<lparr>rpc_simulateTransaction := (\<lambda>_ _. Inr \<lparr>sim_err = ObjectErr [],
        sim_logs = Some [ascii ''Program log: Instruction: BorrowAgainstCollateral'',
          anchor_log (ascii '' occurred. '') (error_msg VaultFrozen)]\<rparr>)\<rparr>) (Inr []) 7 []
     = (Inl (ErrorText (ascii ''On-chain pre-flight simulation failed: '' @ error_msg VaultFrozen @ preflight_advice)),
        [GetLatestBlockhash, SimulateTransaction (new_transaction [] 7 [65])])"
  using sendIx_stops_at_failing_simulation [where h = "[]" and ixs = "[]" and payer = 7
      and blockhash = "[65]" and e = VaultFrozen and after = "[]" and details = "ascii '' occurred. ''"
      and before = "[ascii ''Program log: Instruction: BorrowAgainstCollateral'']",
      OF _ refl, of "demo_services\<lparr>rpc_simulateTransaction := (\<lambda>_ _. Inr \<lparr>sim_err = ObjectErr [],
        sim_logs = Some [ascii ''Program log: Instruction: BorrowAgainstCollateral'',
          anchor_log (ascii '' occurred. '') (error_msg VaultFrozen)]\<rparr>)\<rparr>" 100]
  by (simp add: demo_services_def ascii_def line_terminator_def)

text \<open>Whenever \<open>sendIx\<close> returns, the wallet signed exactly once, the transaction that was simulated,
  what was sent is the serialisation of what the wallet returned, sent once, and it was confirmed
  under the returned signature; and the simulation had passed or could not be run.\<close>

theorem sendIx_success:
  assumes "sendIx S ix payer h = (Inr sig, h')"
  shows "\<exists>blockhash height tx pre signed raw r.
      rpc_getLatestBlockhash S h = Inr (blockhash, height)
    \<and> tx = new_transaction (case ix of Inl i \<Rightarrow> [i] | Inr is \<Rightarrow> is) payer blockhash
    \<and> (pre = h @ [GetLatestBlockhash, SimulateTransaction tx]
          \<and> (\<exists>sim. rpc_simulateTransaction S (h @ [GetLatestBlockhash]) tx = Inr sim
                \<and> \<not> truthy_err (sim_err sim))
        \<or> (\<exists>w e. pre = h @ [GetLatestBlockhash, SimulateTransaction tx, Warn w]
                \<and> rpc_simulateTransaction S (h @ [GetLatestBlockhash]) tx = Inl e))
    \<and> wallet_signTransaction S pre tx = Inr signed
    \<and> transaction_serialize S signed = Inr raw
    \<and> rpc_sendRawTransaction S (pre @ [SignTransaction tx]) raw = Inr sig
    \<and> rpc_confirmTransaction S (pre @ [SignTransaction tx, SendRawTransaction raw]) sig = Inr r
    \<and> h' = pre @ [SignTransaction tx, SendRawTransaction raw, ConfirmTransaction sig blockhash height]"
proof -
  obtain blockhash height where bh: "rpc_getLatestBlockhash S h = Inr (blockhash, height)"
    using assms by (auto simp: sendIx_def io_bind_eq_Inr Let_def)
  define tx where "tx = new_transaction (case ix of Inl i \<Rightarrow> [i] | Inr is \<Rightarrow> is) payer blockhash"
  obtain pre where pre: "preflight S tx (h @ [GetLatestBlockhash]) = (Inr (), pre)"
    and rest: "\<exists>signed raw r. wallet_signTransaction S pre tx = Inr signed
      \<and> transaction_serialize S signed = Inr raw
      \<and> rpc_sendRawTransaction S (pre @ [SignTransaction tx]) raw = Inr sig
      \<and> rpc_confirmTransaction S (pre @ [SignTransaction tx, SendRawTransaction raw]) sig = Inr r
      \<and> h' = pre @ [SignTransaction tx, SendRawTransaction raw, ConfirmTransaction sig blockhash height]"
    using assms bh by (auto simp: sendIx_def io_bind_eq_Inr Let_def tx_def)
  then show ?thesis
    using bh preflight_ok_requests [OF pre] tx_def by auto
qed

lemma demo_sendIx:
  "sendIx demo_services (Inr []) 7 [] = (Inr [50],
     [GetLatestBlockhash, SimulateTransaction (new_transaction [] 7 [65]),
      SignTransaction (new_transaction [] 7 [65]), SendRawTransaction [1],
      ConfirmTransaction [50] [65] 100])"
  by (simp add: sendIx_def demo_services_def io_bind_def preflight_def io_catch_def Let_def)

lemma sendIx_success_witness:
  "\<exists>signed. wallet_signTransaction demo_services
      [GetLatestBlockhash, SimulateTransaction (new_transaction [] 7 [65])]
      (new_transaction [] 7 [65]) = Inr signed
    \<and> transaction_serialize demo_services signed = Inr [1]"
  using sendIx_success [OF demo_sendIx] by auto

text \<open>A transaction the RPC confirms as failed is reported as sent all the same: what the
  confirmation says is not looked at.\<close>

theorem sendIx_ignores_confirmation_error:
  assumes "sendIx S ix payer h = (Inr sig, h')"
  shows "sendIx (S\<lparr>rpc_confirmTransaction := (\<lambda>_ _. Inr err)\<rparr>) ix payer h = (Inr sig, h')"
  using assms
  by (auto simp: sendIx_def io_bind_eq_Inr Let_def preflight_confirm_update)

lemma sendIx_ignores_confirmation_error_witness:
  "fst (sendIx (demo_services\<lparr>rpc_confirmTransaction := (\<lambda>_ _. Inr (ObjectErr (ascii ''{}'')))\<rparr>)
     (Inr []) 7 []) = Inr [50]"
  using sendIx_ignores_confirmation_error [OF demo_sendIx, of "ObjectErr (ascii ''{}'')"] by simp

text \<open>C30: the retrying transport fetches at most four times, waits between two fetches for
  \<open>200 * 2^i\<close> milliseconds plus less than 200, so less than two seconds in all, and returns or
  throws what the last fetch did; it stops early only at a response whose status is not to be
  retried.\<close>

theorem retryingFetch_outcome:
  assumes "random_ok S"
  shows "\<exists>ds. retryingFetch S h = (http_fetch S (h @ fetches ds), h @ fetches ds @ [Fetch])
    \<and> length ds < MAX_ATTEMPTS
    \<and> (\<forall>i < length ds. 200 * 2 ^ i \<le> ds ! i \<and> ds ! i < 200 * 2 ^ i + 200)
    \<and> sum_list ds < 2000
    \<and> (length ds = MAX_ATTEMPTS - 1
       \<or> (\<exists>r. fst (retryingFetch S h) = Inr r \<and> http_status r \<notin> {429, 502, 503, 504}))"
proof -
  obtain ds where ds: "fetch_shape S 0 h (retryingFetch S h) ds"
    using fetch_loop_shape [OF assms, of 0] by (auto simp: retryingFetch_def MAX_ATTEMPTS_def)
  moreover have "sum_list ds < 2000"
    using ds by (intro delays_sum) (simp_all add: fetch_shape_def MAX_ATTEMPTS_def)
  moreover have "retryingFetch S h = (http_fetch S (h @ fetches ds), h @ fetches ds @ [Fetch])"
    using ds by (simp add: fetch_shape_def prod_eq_iff)
  ultimately show ?thesis
    by (intro exI [of _ ds])
      (simp add: fetch_shape_def delay_ok_def shouldRetryStatus_def RETRY_STATUSES_def)
qed

lemma retryingFetch_outcome_witness:
  "\<exists>ds. retryingFetch demo_services [] =
     (Inr \<lparr>http_status = 200, http_body = []\<rparr>, fetches ds @ [Fetch]) \<and> length ds < MAX_ATTEMPTS"
proof -
  have r: "random_ok demo_services" by (simp add: random_ok_def demo_services_def)
  have f: "http_fetch demo_services h = Inr \<lparr>http_status = 200, http_body = []\<rparr>" for h
    by (simp add: demo_services_def)
  show ?thesis using retryingFetch_outcome [OF r, of "[]"] by (auto simp: f)
qed

end
