(* ===== verification/Base58.thy ===== *)
theory Base58
  imports Platform
begin

text \<open>
  \<open>bs58Decode\<close> of \<open>web/lib/ika-flow.ts\<close>, with which the frontend turns the text of a transaction
  signature into the bytes the Ika network takes as its approval proof; and base58 encoding, the
  documented format of the texts that RPC and wallet return.
\<close>

section \<open>The decoder\<close>

definition alphabet58 :: jstext where
  "alphabet58 = ascii base58_alphabet"

fun lookup58 :: "jstext \<Rightarrow> nat list js" where
  "lookup58 [] = Inr []"
| "lookup58 (c # cs) =
     (case index_of c alphabet58 of
        None \<Rightarrow> Inl (ErrorText (ascii ''Invalid base58 char: '' @ [c]))
      | Some v \<Rightarrow> js_bind (lookup58 cs) (\<lambda>vs. Inr (v # vs)))"

text \<open>The inner loop over \<open>out\<close>, least significant byte first, and the loop that pushes what is left
  of the carry.\<close>

fun carry_pass :: "bytes \<Rightarrow> nat \<Rightarrow> bytes \<times> nat" where
  "carry_pass [] carry = ([], carry)"
| "carry_pass (b # bs) carry =
     (let carry = carry + unat b * 58;
          (bs', carry') = carry_pass bs (carry div 256)
      in (word_of_nat (carry mod 256) # bs', carry'))"

fun push_carry :: "nat \<Rightarrow> bytes" where
  "push_carry carry =
     (if carry > 0 then word_of_nat (carry mod 256) # push_carry (carry div 256) else [])"

declare push_carry.simps [simp del]

definition step58 :: "bytes \<Rightarrow> nat \<Rightarrow> bytes" where
  "step58 out v = (let (out', carry) = carry_pass out v in out' @ push_carry carry)"

definition bs58Decode :: "jstext \<Rightarrow> bytes js" where
  "bs58Decode s =
     (let zeros = length (takeWhile (\<lambda>c. c = 49) s) in
      js_bind (lookup58 (drop zeros s)) (\<lambda>b58.
      let out = foldl step58 [] b58 in
      Inr (replicate zeros 0 @ rev out)))"

section \<open>The encoder\<close>

fun digits58 :: "nat \<Rightarrow> nat list" where
  "digits58 n = (if n = 0 then [] else digits58 (n div 58) @ [n mod 58])"

declare digits58.simps [simp del]

definition base58_encode :: "bytes \<Rightarrow> jstext" where
  "base58_encode bs =
     replicate (length (takeWhile (\<lambda>b. b = 0) bs)) 49 @ map (\<lambda>d. alphabet58 ! d) (digits58 (be_val bs))"

definition to_base58 :: "pubkey \<Rightarrow> jstext" where
  "to_base58 k = base58_encode (to_buffer k)"

section \<open>The accumulator holds the number read so far\<close>

lemma carry_pass_length: "length (fst (carry_pass bs c)) = length bs"
  by (induction bs arbitrary: c) (simp_all add: Let_def split: prod.splits, metis fst_conv)

lemma unat_byte_mod: "unat (word_of_nat (n mod 256) :: byte) = n mod 256"
  by (simp add: unat_word_of_nat_byte)

lemma carry_pass_val:
  "le_val (fst (carry_pass bs c)) + 256 ^ length bs * snd (carry_pass bs c) = 58 * le_val bs + c"
proof (induction bs arbitrary: c)
  case Nil
  then show ?case by simp
next
  case (Cons b bs)
  let ?c = "c + unat b * 58"
  obtain bs' c' where p: "carry_pass bs (?c div 256) = (bs', c')" by fastforce
  have ih: "le_val bs' + 256 ^ length bs * c' = 58 * le_val bs + ?c div 256"
    using Cons [of "?c div 256"] p by simp
  have "le_val (fst (carry_pass (b # bs) c)) + 256 ^ length (b # bs) * snd (carry_pass (b # bs) c)
      = ?c mod 256 + 256 * (le_val bs' + 256 ^ length bs * c')"
    using p by (simp add: Let_def unat_byte_mod algebra_simps)
  also have "\<dots> = ?c mod 256 + 256 * (?c div 256) + 58 * (256 * le_val bs)"
    unfolding ih by (simp only: distrib_left ac_simps)
  also have "?c mod 256 + 256 * (?c div 256) = ?c" by (simp only: mod_mult_div_eq)
  finally show ?case by simp
qed

lemma push_carry_0 [simp]: "push_carry 0 = []"
  by (simp add: push_carry.simps [of 0])

lemma push_carry_val: "le_val (push_carry c) = c"
proof (induction c rule: push_carry.induct)
  case (1 c)
  then show ?case
    by (cases "c = 0") (simp_all add: push_carry.simps [of c] unat_byte_mod mod_mult_div_eq)
qed

lemma step58_val: "le_val (step58 out v) = 58 * le_val out + v"
proof -
  obtain out' c where p: "carry_pass out v = (out', c)" by fastforce
  then show ?thesis
    using carry_pass_val [of out v] carry_pass_length [of out v]
    by (simp add: step58_def le_val_append push_carry_val)
qed

text \<open>The running carry stays far below 32 bits, so the code's shift and mask are division and
  remainder.\<close>

lemma carry_pass_bound: "c < 58 \<Longrightarrow> snd (carry_pass bs c) < 58"
proof (induction bs arbitrary: c)
  case (Cons b bs)
  have "unat b < 256" by (rule unat_byte_lt)
  then have "c + unat b * 58 < 58 * 256" using Cons.prems by linarith
  then have "(c + unat b * 58) div 256 < 58" by (rule less_mult_imp_div_less)
  from Cons.IH [OF this] show ?case
    by (cases "carry_pass bs ((c + unat b * 58) div 256)") (simp add: Let_def)
qed simp

section \<open>No leading zero byte\<close>

text \<open>A little-endian number without superfluous zeros at its end.\<close>

definition minimal :: "bytes \<Rightarrow> bool" where
  "minimal bs \<longleftrightarrow> bs = [] \<or> 256 ^ (length bs - 1) \<le> le_val bs"

lemma minimal_Nil: "minimal []"
  by (simp add: minimal_def)

lemma minimal_unique:
  assumes "minimal xs" "minimal ys" "le_val xs = le_val ys"
  shows "xs = ys"
proof -
  have le: "length as \<le> length bs" if "minimal as" "le_val as = le_val bs" for as bs
  proof (rule ccontr)
    assume "\<not> length as \<le> length bs"
    then have "(256 :: nat) ^ length bs \<le> 256 ^ (length as - 1)" "as \<noteq> []"
      by (auto intro: power_increasing)
    moreover have "256 ^ (length as - 1) \<le> le_val bs"
      using that \<open>as \<noteq> []\<close> by (simp add: minimal_def)
    ultimately show False using le_val_lt [of bs] by linarith
  qed
  then show ?thesis using assms by (metis le_val_inj order_antisym)
qed

lemma push_carry_minimal: "push_carry c \<noteq> [] \<Longrightarrow> minimal (push_carry c)"
proof (induction c rule: push_carry.induct)
  case (1 c)
  then have c: "0 < c" by (simp add: push_carry.simps [of c] split: if_splits)
  show ?case
  proof (cases "c div 256 = 0")
    case True
    then show ?thesis
      using c push_carry_val [of c]
      by (simp add: minimal_def push_carry.simps [of c])
  next
    case False
    then have ne: "push_carry (c div 256) \<noteq> []" by (simp add: push_carry.simps [of "c div 256"])
    then have "256 ^ (length (push_carry (c div 256)) - 1) \<le> c div 256"
      using 1(1) [OF c] push_carry_val by (simp add: minimal_def)
    then have "256 * 256 ^ (length (push_carry (c div 256)) - 1) \<le> c"
      by (meson div_times_less_eq_dividend mult_le_mono2 order_trans times_div_less_eq_dividend)
    then have "256 ^ length (push_carry (c div 256)) \<le> c"
      using ne by (cases "push_carry (c div 256)") simp_all
    then show ?thesis
      using c push_carry_val [of c] by (simp add: minimal_def push_carry.simps [of c])
  qed
qed

lemma step58_minimal:
  assumes "minimal out"
  shows "minimal (step58 out v)"
proof -
  obtain out' c where p: "carry_pass out v = (out', c)" by fastforce
  then have len: "length out' = length out" using carry_pass_length [of out v] by simp
  have s: "step58 out v = out' @ push_carry c" by (simp add: step58_def p)
  consider "out = []" | "out \<noteq> []" "c = 0" | "out \<noteq> []" "push_carry c \<noteq> []" "0 < c"
    by (cases "c = 0") (auto simp: push_carry.simps [of c])
  then show ?thesis
  proof cases
    case 1
    then have "step58 out v = push_carry v" by (simp add: step58_def)
    then show ?thesis
      using push_carry_minimal [of v] by (cases "push_carry v = []") (auto simp: minimal_def)
  next
    case 2
    then have "256 ^ (length out - 1) \<le> le_val (step58 out v)"
      using assms unfolding step58_val by (simp add: minimal_def)
    then show ?thesis using 2 len by (simp add: minimal_def s)
  next
    case 3
    then have "256 ^ (length (push_carry c) - 1) \<le> c"
      using push_carry_minimal push_carry_val by (simp add: minimal_def)
    then have "256 ^ length out * 256 ^ (length (push_carry c) - 1) \<le> le_val (step58 out v)"
      by (simp add: s le_val_append push_carry_val len trans_le_add2)
    moreover have "length out + (length (push_carry c) - 1) = length (step58 out v) - 1"
      using 3 len by (cases "push_carry c") (simp_all add: s)
    ultimately show ?thesis by (simp add: minimal_def flip: power_add)
  qed
qed

lemma foldl_step58:
  "minimal out \<Longrightarrow> minimal (foldl step58 out vs)
     \<and> le_val (foldl step58 out vs) = foldl (\<lambda>n d. n * 58 + d) (le_val out) vs"
  by (induction vs arbitrary: out) (simp_all add: step58_minimal step58_val mult.commute)

section \<open>Encoding and decoding\<close>

lemma index_of_nth: "distinct xs \<Longrightarrow> i < length xs \<Longrightarrow> index_of (xs ! i) xs = Some i"
proof (induction xs arbitrary: i)
  case (Cons x xs)
  then show ?case by (cases i) auto
qed simp

lemma alphabet58: "distinct alphabet58" "length alphabet58 = 58" "alphabet58 ! 0 = 49"
  by (simp_all add: alphabet58_def ascii_def base58_alphabet_def)

lemma lookup58_digits: "list_all (\<lambda>d. d < 58) ds \<Longrightarrow> lookup58 (map (\<lambda>d. alphabet58 ! d) ds) = Inr ds"
  by (induction ds) (simp_all add: index_of_nth alphabet58)

lemma digits58_lt: "list_all (\<lambda>d. d < 58) (digits58 n)"
proof (induction n rule: digits58.induct)
  case (1 n)
  then show ?case by (cases "n = 0") (simp_all add: digits58.simps [of n] digits58.simps [of 0])
qed

lemma digits58_val: "foldl (\<lambda>n d. n * 58 + d) 0 (digits58 n) = n"
proof (induction n rule: digits58.induct)
  case (1 n)
  then show ?case
    by (cases "n = 0") (simp_all add: digits58.simps [of n] digits58.simps [of 0])
qed

lemma digits58_hd: "digits58 n \<noteq> [] \<Longrightarrow> hd (digits58 n) \<noteq> 0"
proof (induction n rule: digits58.induct)
  case (1 n)
  then have n: "n \<noteq> 0" using digits58.simps [of 0] by (metis (full_types))
  show ?case
  proof (cases "n div 58 = 0")
    case True
    then have "digits58 n = [n mod 58]" using n digits58.simps [of n] digits58.simps [of 0] by simp
    then show ?thesis using True n by simp
  next
    case False
    then have ne: "digits58 (n div 58) \<noteq> []" using digits58.simps [of "n div 58"] by simp
    then show ?thesis using 1(1) [OF n ne] n by (simp add: digits58.simps [of n])
  qed
qed

lemma leading_ones:
  "takeWhile (\<lambda>c. c = 49) (replicate z 49 @ map (\<lambda>d. alphabet58 ! d) (digits58 n)) = replicate z 49"
proof (cases "digits58 n")
  case Nil
  then show ?thesis by (simp add: takeWhile_eq_all_conv)
next
  case (Cons d ds)
  then have "d \<noteq> 0" "d < 58" using digits58_hd [of n] digits58_lt [of n] by auto
  then have "alphabet58 ! d \<noteq> 49"
    using alphabet58 nth_eq_iff_index_eq [of alphabet58 d 0] by simp
  then show ?thesis by (simp add: Cons takeWhile_append)
qed

lemma minimal_rev:
  assumes "bs \<noteq> [] \<Longrightarrow> hd bs \<noteq> 0"
  shows "minimal (rev bs)"
proof (cases bs)
  case (Cons b cs)
  then have "0 < unat b" using assms by (simp add: unat_gt_0)
  then have "256 ^ length cs \<le> unat b * 256 ^ length cs" by simp
  then show ?thesis
    using be_val_Cons [of b cs] by (simp add: minimal_def Cons be_val_def trans_le_add1)
qed (simp add: minimal_def)

section \<open>Decoding what was encoded\<close>

lemma bs58Decode_base58_encode: "bs58Decode (base58_encode bs) = Inr bs"
proof -
  define z where "z = length (takeWhile (\<lambda>b. b = 0) bs)"
  define rest where "rest = dropWhile (\<lambda>b. b = 0) bs"
  have "takeWhile (\<lambda>b. b = 0) bs = replicate z 0"
    unfolding z_def by (rule replicate_eqI) (auto dest: set_takeWhileD)
  then have bs: "bs = replicate z 0 @ rest"
    using takeWhile_dropWhile_id [of "\<lambda>b. b = 0" bs] by (simp add: rest_def)
  let ?out = "foldl step58 [] (digits58 (be_val bs))"
  have "minimal ?out" "le_val ?out = be_val bs"
    using foldl_step58 [of "[]" "digits58 (be_val bs)"] digits58_val by (simp_all add: minimal_Nil)
  moreover have "minimal (rev rest)"
    by (rule minimal_rev) (use hd_dropWhile [of "\<lambda>b. b = 0" bs] in \<open>auto simp: rest_def\<close>)
  moreover have "le_val (rev rest) = be_val bs"
    by (subst bs) (simp only: be_val_replicate_0, simp add: be_val_def)
  ultimately have "?out = rev rest" by (simp add: minimal_unique)
  then have out: "rev ?out = rest" by simp
  have "bs58Decode (base58_encode bs) = Inr (replicate z 0 @ rev ?out)"
    by (simp add: bs58Decode_def base58_encode_def leading_ones lookup58_digits digits58_lt Let_def
        flip: z_def)
  then show ?thesis using bs out by simp
qed

lemma to_base58_inject [simp]: "to_base58 k = to_base58 l \<longleftrightarrow> k = l"
  by (metis bs58Decode_base58_encode sum.inject(2) to_base58_def to_buffer_inject)

section \<open>Properties\<close>

text \<open>Decoding gives back every byte string whose base58 text it is given, leading zero bytes
  included: the proof the Ika network receives is the signature the RPC returned.\<close>

theorem bs58Decode_encode: "bs58Decode (base58_encode bs) = Inr bs"
  by (rule bs58Decode_base58_encode)

text \<open>\<open>new PublicKey(text)\<close>: base58 of exactly 32 bytes.\<close>

definition new_PublicKey_base58 :: "jstext \<Rightarrow> pubkey js" where
  "new_PublicKey_base58 value =
     (case bs58Decode value of
        Inl e \<Rightarrow> Inl (ErrorMsg ''Non-base58 character'')
      | Inr decoded \<Rightarrow>
          if length decoded \<noteq> 32 then Inl (ErrorMsg ''Invalid public key input'')
          else new_PublicKey decoded)"

lemma new_PublicKey_to_base58 [simp]: "new_PublicKey_base58 (to_base58 k) = Inr k"
  by (simp add: new_PublicKey_base58_def to_base58_def bs58Decode_base58_encode)

end
