(* ===== verification/Executors.thy ===== *)
theory Executors
  imports Services Amounts
begin

text \<open>
  The clients of the two executors outside the chain: \<open>web/lib/ika-client.ts\<close> (dWallet key generation,
  presigning and signing) and \<open>web/lib/encrypt-client.ts\<close> (encrypted inputs). Both create their gRPC
  client on first use and keep it.
\<close>

section \<open>Ika\<close>

definition env_text :: "platform \<Rightarrow> string \<Rightarrow> string \<Rightarrow> jstext" where
  "env_text P name fallback =
     ascii (case process_env P name of None \<Rightarrow> fallback | Some s \<Rightarrow> s)"

definition IKA_GRPC_URL :: "platform \<Rightarrow> jstext" where
  "IKA_GRPC_URL P = env_text P ''NEXT_PUBLIC_IKA_GRPC_URL''
     ''https://pre-alpha-dev-1.ika.ika-network.net:443''"

text \<open>The module's \<open>cachedClient\<close> is set from its creation on, which the history records.\<close>

definition ika_getClient :: "platform \<Rightarrow> services \<Rightarrow> unit io" where
  "ika_getClient P S = (\<lambda>h.
     if \<not> in_browser S then
       (Inl (ErrorMsg ''Ika gRPC-Web client can only be created in the browser.''), h)
     else if NewIkaClient (IKA_GRPC_URL P) \<in> set h then (Inr (), h)
     else (Inr (), h @ [NewIkaClient (IKA_GRPC_URL P)]))"

record dkg_result =
  dkg_dwalletAddr :: bytes
  dkg_publicKey :: bytes

definition requestDkg :: "platform \<Rightarrow> services \<Rightarrow> pubkey \<Rightarrow> dkg_result io" where
  "requestDkg P S senderPubkey =
     io_bind (ika_getClient P S) (\<lambda>_.
     io_bind (ask (IkaRequestDKG (to_buffer senderPubkey))
                (\<lambda>h. ika_requestDKG S h (to_buffer senderPubkey))) (\<lambda>(dwalletAddr, publicKey).
     io_return \<lparr>dkg_dwalletAddr = dwalletAddr, dkg_publicKey = publicKey\<rparr>))"

definition requestPresign :: "platform \<Rightarrow> services \<Rightarrow> pubkey \<Rightarrow> bytes \<Rightarrow> bytes io" where
  "requestPresign P S senderPubkey dwalletAddr =
     io_bind (ika_getClient P S) (\<lambda>_.
     ask (IkaRequestPresign (to_buffer senderPubkey) dwalletAddr)
       (\<lambda>h. ika_requestPresign S h (to_buffer senderPubkey) dwalletAddr))"

definition requestSign ::
    "platform \<Rightarrow> services \<Rightarrow> pubkey \<Rightarrow> bytes \<Rightarrow> bytes \<Rightarrow> bytes \<Rightarrow> bytes \<Rightarrow> bytes io" where
  "requestSign P S senderPubkey dwalletAddr message presignId txSignature =
     io_bind (ika_getClient P S) (\<lambda>_.
     ask (IkaRequestSign (to_buffer senderPubkey) dwalletAddr message presignId txSignature)
       (\<lambda>h. ika_requestSign S h (to_buffer senderPubkey) dwalletAddr message presignId txSignature))"

section \<open>Encrypt\<close>

definition ENCRYPT_GRPC_URL :: "platform \<Rightarrow> jstext" where
  "ENCRYPT_GRPC_URL P = env_text P ''NEXT_PUBLIC_ENCRYPT_GRPC_URL''
     ''https://pre-alpha-dev-1.encrypt.ika-network.net:443''"

definition ENCRYPT_PROGRAM_ID :: "platform \<Rightarrow> pubkey" where
  "ENCRYPT_PROGRAM_ID P = env_pubkey P ''NEXT_PUBLIC_ENCRYPT_PROGRAM''
     ''4ebfzWdKnrnGseuQpezXdG8yCdHqwQ1SSBHD3bWArND8''"

definition NETWORK_ENCRYPTION_KEY :: bytes where
  "NETWORK_ENCRYPTION_KEY = replicate 32 0x55"

datatype fhe_type = EBool | EUint8 | EUint16 | EUint32 | EUint64

fun FHE_TYPES :: "fhe_type \<Rightarrow> int" where
  "FHE_TYPES EBool = 0" | "FHE_TYPES EUint8 = 1" | "FHE_TYPES EUint16 = 2"
| "FHE_TYPES EUint32 = 3" | "FHE_TYPES EUint64 = 4"

definition encrypt_getClient :: "platform \<Rightarrow> services \<Rightarrow> unit io" where
  "encrypt_getClient P S = (\<lambda>h.
     if \<not> in_browser S then
       (Inl (ErrorMsg ''Encrypt gRPC-Web client can only be created in the browser.''), h)
     else if NewEncryptClient (ENCRYPT_GRPC_URL P) \<in> set h then (Inr (), h)
     else (Inr (), h @ [NewEncryptClient (ENCRYPT_GRPC_URL P)]))"

record encrypt_input =
  ei_value :: int
  ei_fheType :: "int option"
  ei_authorizedProgram :: pubkey

definition fhe_type_of :: "encrypt_input \<Rightarrow> int" where
  "fhe_type_of p = (case ei_fheType p of None \<Rightarrow> FHE_TYPES EUint64 | Some t \<Rightarrow> t)"

definition ciphertext_of :: "services \<Rightarrow> encrypt_input \<Rightarrow> ciphertext_input" where
  "ciphertext_of S p =
     \<lparr>ci_ciphertextBytes = encryptValue S (ei_value p) (fhe_type_of p), ci_fheType = fhe_type_of p\<rparr>"

definition createInput :: "services \<Rightarrow> ciphertext_input list \<Rightarrow> bytes \<Rightarrow> bytes list option io" where
  "createInput S inputs authorized =
     ask (EncryptCreateInput inputs authorized NETWORK_ENCRYPTION_KEY)
       (\<lambda>h. encrypt_createInput S h inputs authorized NETWORK_ENCRYPTION_KEY)"

definition createEncryptInput :: "platform \<Rightarrow> services \<Rightarrow> encrypt_input \<Rightarrow> pubkey io" where
  "createEncryptInput P S params =
     io_bind (encrypt_getClient P S) (\<lambda>_.
     io_bind (createInput S [ciphertext_of S params] (to_buffer (ei_authorizedProgram params))) (\<lambda>ids.
     case ids of
       None \<Rightarrow> io_throw (ErrorMsg ''Encrypt executor returned no ciphertext identifiers'')
     | Some [] \<Rightarrow> io_throw (ErrorMsg ''Encrypt executor returned no ciphertext identifiers'')
     | Some (i # _) \<Rightarrow> io_of (new_PublicKey i)))"

fun new_PublicKeys :: "bytes list \<Rightarrow> pubkey list js" where
  "new_PublicKeys [] = Inr []"
| "new_PublicKeys (b # bs) =
     js_bind (new_PublicKey b) (\<lambda>k. js_bind (new_PublicKeys bs) (\<lambda>ks. Inr (k # ks)))"

definition createEncryptInputs :: "platform \<Rightarrow> services \<Rightarrow> encrypt_input list \<Rightarrow> pubkey list io" where
  "createEncryptInputs P S inputs =
     (case inputs of [] \<Rightarrow> io_return [] | first # _ \<Rightarrow>
      io_bind (encrypt_getClient P S) (\<lambda>_.
      io_bind (createInput S (map (ciphertext_of S) inputs)
                 (to_buffer (ei_authorizedProgram first))) (\<lambda>ids.
      case ids of
        None \<Rightarrow> io_throw TypeError
      | Some ids \<Rightarrow>
          if length ids \<noteq> length inputs then
            io_throw (ErrorText (ascii ''Encrypt executor returned '' @ nat_to_text (length ids)
              @ ascii '' ids for '' @ nat_to_text (length inputs) @ ascii '' inputs''))
          else io_of (new_PublicKeys ids))))"

section \<open>Clients created once\<close>

text \<open>What both \<open>getClient\<close>s promise: they fail without a trace, or leave the client created, creating
  it only when it is not there.\<close>

definition once :: "request \<Rightarrow> 'a io \<Rightarrow> bool" where
  "once new m \<longleftrightarrow> (\<forall>h. count_list h new \<le> 1 \<longrightarrow> count_list (snd (m h)) new \<le> 1)"

lemma onceD: "once new m \<Longrightarrow> count_list h new \<le> 1 \<Longrightarrow> count_list (snd (m h)) new \<le> 1"
  by (simp add: once_def)

lemma once_pure: "once new (io_return x)" "once new (io_throw e)" "once new (io_of r)"
  by (simp_all add: once_def)

lemma once_ask: "q \<noteq> new \<Longrightarrow> once new (ask q a)" "q \<noteq> new \<Longrightarrow> once new (tell q)"
  by (simp_all add: once_def)

lemma once_bind: "once new m \<Longrightarrow> (\<And>x. once new (f x)) \<Longrightarrow> once new (io_bind m f)"
  by (auto simp: once_def io_bind_def split: prod.splits sum.splits)

lemma once_catch: "once new m \<Longrightarrow> (\<And>e. once new (k e)) \<Longrightarrow> once new (io_catch m k)"
  by (auto simp: once_def io_catch_def split: prod.splits sum.splits)

lemma once_if: "once new m \<Longrightarrow> once new n \<Longrightarrow> once new (if c then m else n)"
  by simp

lemmas once_intros = once_pure once_ask once_bind once_catch once_if

locale lazy_client =
  fixes new :: request and get :: "unit io"
  assumes get_cases: "(\<exists>e. get h = (Inl e, h)) \<or> get h = (Inr (), h) \<and> new \<in> set h
      \<or> get h = (Inr (), h @ [new]) \<and> new \<notin> set h"
begin

lemma once_get: "once new get"
  unfolding once_def using get_cases by (metis One_nat_def add.left_neutral count_list.simps
      count_list_0_iff count_list_append le_refl snd_conv)

text \<open>A computation that calls the client and then makes requests of its own.\<close>

lemma once_call: "(\<And>x. once new (f x)) \<Longrightarrow> once new (io_bind get f)"
  by (rule once_bind [OF once_get])

text \<open>A successful call leaves the client there.\<close>

lemma get_ok: "get h = (Inr u, h') \<Longrightarrow> new \<in> set h'"
  using get_cases [of h] by auto

end

interpretation ika: lazy_client "NewIkaClient (IKA_GRPC_URL P)" "ika_getClient P S" for P S
  by unfold_locales (auto simp: ika_getClient_def)

interpretation encrypt: lazy_client "NewEncryptClient (ENCRYPT_GRPC_URL P)" "encrypt_getClient P S" for P S
  by unfold_locales (auto simp: encrypt_getClient_def)

section \<open>Properties\<close>

text \<open>Whatever is called, and however often, each gRPC client is created at most once.\<close>

theorem clients_created_once:
  assumes "count_list h (NewIkaClient (IKA_GRPC_URL P)) \<le> 1"
    and "count_list h (NewEncryptClient (ENCRYPT_GRPC_URL P)) \<le> 1"
    and "h' \<in> {snd (requestDkg P S sender h), snd (requestPresign P S sender d h),
      snd (requestSign P S sender d msg pre sig h), snd (createEncryptInput P S inp h),
      snd (createEncryptInputs P S inps h)}"
  shows "count_list h' (NewIkaClient (IKA_GRPC_URL P)) \<le> 1
    \<and> count_list h' (NewEncryptClient (ENCRYPT_GRPC_URL P)) \<le> 1"
proof -
  have i: "once (NewIkaClient u) (encrypt_getClient P S)"
    and e: "once (NewEncryptClient u) (ika_getClient P S)" for u
    by (simp_all add: once_def encrypt_getClient_def ika_getClient_def)
  let ?i = "NewIkaClient (IKA_GRPC_URL P)" and ?e = "NewEncryptClient (ENCRYPT_GRPC_URL P)"
  have "once ?i (requestDkg P S sender)" "once ?i (requestPresign P S sender d)"
    "once ?i (requestSign P S sender d msg pre sig)"
    unfolding requestDkg_def requestPresign_def requestSign_def
    by (auto intro!: ika.once_call once_bind once_ask once_pure split: prod.splits)
  moreover have "once ?e (requestDkg P S sender)" "once ?e (requestPresign P S sender d)"
    "once ?e (requestSign P S sender d msg pre sig)"
    unfolding requestDkg_def requestPresign_def requestSign_def
    by (auto intro!: once_bind e once_ask once_pure split: prod.splits)
  moreover have "once ?i (createEncryptInput P S inp)" "once ?i (createEncryptInputs P S inps)"
    unfolding createEncryptInput_def createEncryptInputs_def createInput_def
    by (auto intro!: once_bind i once_ask once_pure split: option.splits list.splits)
  moreover have "once ?e (createEncryptInput P S inp)" "once ?e (createEncryptInputs P S inps)"
    unfolding createEncryptInput_def createEncryptInputs_def createInput_def
    by (auto intro!: encrypt.once_call once_bind once_ask once_pure split: option.splits list.splits)
  ultimately show ?thesis using assms by (auto dest: onceD)
qed

lemma clients_created_once_witness:
  "count_list (snd (requestDkg demo_platform demo_services 3
       [NewIkaClient (IKA_GRPC_URL demo_platform)])) (NewIkaClient (IKA_GRPC_URL demo_platform)) \<le> 1"
  using clients_created_once [of "[NewIkaClient (IKA_GRPC_URL demo_platform)]" demo_platform
      _ demo_services 3 "[]" "[]" "[]" "[]" "\<lparr>ei_value = 0, ei_fheType = None, ei_authorizedProgram = 0\<rparr>" "[]"]
  by (simp add: count_list_0_iff)

text \<open>A batch that succeeds was one request, every input's ciphertext in order under the first
  input's program, and yields one key per input, in order.\<close>

theorem createEncryptInputs_success:
  assumes "createEncryptInputs P S inputs h = (Inr ks, h')" "inputs \<noteq> []"
  shows "\<exists>h1 ids. set h1 \<subseteq> insert (NewEncryptClient (ENCRYPT_GRPC_URL P)) (set h)
    \<and> h' = h1 @ [EncryptCreateInput (map (ciphertext_of S) inputs)
                    (to_buffer (ei_authorizedProgram (hd inputs))) NETWORK_ENCRYPTION_KEY]
    \<and> encrypt_createInput S h1 (map (ciphertext_of S) inputs)
         (to_buffer (ei_authorizedProgram (hd inputs))) NETWORK_ENCRYPTION_KEY = Inr (Some ids)
    \<and> length ids = length inputs \<and> length ks = length inputs
    \<and> (\<forall>i < length inputs. new_PublicKey (ids ! i) = Inr (ks ! i))"
proof -
  have keys: "length ks = length ids \<and> (\<forall>i < length ids. new_PublicKey (ids ! i) = Inr (ks ! i))"
    if "new_PublicKeys ids = Inr ks" for ids ks
    using that
  proof (induction ids arbitrary: ks)
    case (Cons b bs)
    then show ?case by (auto simp: js_bind_eq_Inr nth_Cons split: nat.splits)
  qed simp
  obtain p ps where inputs: "inputs = p # ps" using assms(2) by (cases inputs) auto
  obtain h1 ids where h1: "encrypt_getClient P S h = (Inr (), h1)"
    and ids: "encrypt_createInput S h1 (map (ciphertext_of S) inputs)
         (to_buffer (ei_authorizedProgram p)) NETWORK_ENCRYPTION_KEY = Inr (Some ids)"
    and rest: "length ids = length inputs" "new_PublicKeys ids = Inr ks"
      "h' = h1 @ [EncryptCreateInput (map (ciphertext_of S) inputs)
              (to_buffer (ei_authorizedProgram p)) NETWORK_ENCRYPTION_KEY]"
    using assms(1)
    by (auto simp: createEncryptInputs_def createInput_def inputs io_bind_eq_Inr
        split: option.splits if_splits)
  have "set h1 \<subseteq> insert (NewEncryptClient (ENCRYPT_GRPC_URL P)) (set h)"
    using h1 by (auto simp: encrypt_getClient_def split: if_splits)
  then show ?thesis
    using ids rest keys [OF rest(2)] by (intro exI [of _ h1] exI [of _ ids]) (simp add: inputs)
qed

lemma createEncryptInputs_success_witness:
  "\<exists>k h'. createEncryptInputs demo_platform demo_services
      [\<lparr>ei_value = 5, ei_fheType = None, ei_authorizedProgram = 9\<rparr>] [] = (Inr [k], h')
    \<and> last h' = EncryptCreateInput [\<lparr>ci_ciphertextBytes = [5], ci_fheType = 4\<rparr>] (to_buffer 9)
        (replicate 32 0x55)"
proof -
  let ?p = "\<lparr>ei_value = 5, ei_fheType = None, ei_authorizedProgram = 9\<rparr>"
  obtain k h' where r: "createEncryptInputs demo_platform demo_services [?p] [] = (Inr [k], h')"
    using new_PublicKey_32 [of "replicate 32 6"]
    by (auto simp: createEncryptInputs_def createInput_def encrypt_getClient_def demo_services_def
        io_bind_def)
  from createEncryptInputs_success [OF r] show ?thesis
    using r by (auto simp: ciphertext_of_def fhe_type_of_def demo_services_def NETWORK_ENCRYPTION_KEY_def)
qed

end
