(* ===== verification/Ika_Flow.thy ===== *)
theory Ika_Flow
  imports Executors Send_Tx Base58 Builders_Web
begin

text \<open>
  \<open>web/lib/ika-flow.ts\<close>: from key generation through the custody approval, with its fall-back to the
  demo helper, to the network's signature.
\<close>

section \<open>The flow\<close>

text \<open>\<open>String.prototype.toLowerCase\<close> on the characters that become an ASCII letter, the ASCII letters
  and the Kelvin sign: the searched words have no others.\<close>

definition js_toLowerCase :: "jstext \<Rightarrow> jstext" where
  "js_toLowerCase = map (\<lambda>c. if 65 \<le> c \<and> c \<le> 90 then c + 32 else if c = 8490 then 107 else c)"

fun text_includes :: "jstext \<Rightarrow> jstext \<Rightarrow> bool" where
  "text_includes needle [] = (needle = [])"
| "text_includes needle (c # cs) =
     (strip_prefix needle (c # cs) \<noteq> None \<or> text_includes needle cs)"

definition isPreAlphaInfraGap :: "jstext \<Rightarrow> bool" where
  "isPreAlphaInfraGap msg =
     (let m = js_toLowerCase msg in
      text_includes (ascii ''invalid account owner'') m
      \<or> text_includes (ascii ''accountnotfound'') m
      \<or> text_includes (ascii ''account does not exist'') m
      \<or> text_includes (ascii ''custom program error: 0x'') m)"

definition DEFAULT_CURVE :: int where "DEFAULT_CURVE = 0"
definition DEFAULT_SIGNATURE_SCHEME :: int where "DEFAULT_SIGNATURE_SCHEME = 0"

definition CURVE_LABELS :: "int \<Rightarrow> string option" where
  "CURVE_LABELS k = (if k = 0 then Some ''Curve25519'' else if k = 1 then Some ''Secp256k1''
     else if k = 2 then Some ''Secp256r1'' else None)"

definition SIGNATURE_SCHEME_LABELS :: "int \<Rightarrow> string option" where
  "SIGNATURE_SCHEME_LABELS k = (if k = 0 then Some ''Ed25519'' else if k = 1 then Some ''Secp256k1''
     else if k = 2 then Some ''Secp256r1'' else None)"

definition label_text :: "string option \<Rightarrow> jstext" where
  "label_text l = ascii (case l of Some s \<Rightarrow> s | None \<Rightarrow> ''undefined'')"

text \<open>\<open>(err as Error).message ?? String(err)\<close>, and the message inside a template.\<close>

definition thrown_text :: "services \<Rightarrow> js_error \<Rightarrow> jstext" where
  "thrown_text S e = (case e of NonError t \<Rightarrow> t
     | _ \<Rightarrow> (case error_message S e of Some m \<Rightarrow> m | None \<Rightarrow> []))"

definition message_in_template :: "services \<Rightarrow> js_error \<Rightarrow> jstext" where
  "message_in_template S e = (case error_message S e of Some m \<Rightarrow> m | None \<Rightarrow> ascii ''undefined'')"

datatype approval_source = RealIkaCpi | SimulatedFallback

record ika_flow_result =
  fr_cpiAuthority :: pubkey
  fr_dwallet :: pubkey
  fr_publicKey :: bytes
  fr_messageApproval :: pubkey
  fr_approveTxSig :: jstext
  fr_signature :: "bytes option"
  fr_approvalSource :: approval_source

text \<open>Step 5: submit the approval; when the pre-alpha network cannot take it, the demo helper's.\<close>

definition submit_approval ::
    "platform \<Rightarrow> services \<Rightarrow> transaction_instruction \<Rightarrow> pubkey \<Rightarrow> pubkey \<Rightarrow> pubkey
     \<Rightarrow> (jstext \<times> pubkey \<times> approval_source) io" where
  "submit_approval P S ix owner dwallet messageApproval =
     io_catch
       (io_bind (tell (Log (ascii ''Submitting LendGuard approve_custody_signature '' @ [8594]
                   @ ascii '' Ika CPI'') [])) (\<lambda>_.
        io_bind (sendIx S (Inl ix) owner) (\<lambda>approveTxSig.
        io_bind (tell (Log (ascii ''Real Ika MessageApproval PDA created on-chain (status=Pending)'')
                  [(''tx'', approveTxSig), (''messageApproval'', to_base58 messageApproval)])) (\<lambda>_.
        io_return (approveTxSig, messageApproval, RealIkaCpi)))))
       (\<lambda>err.
        if isPreAlphaInfraGap (thrown_text S err) then
          io_bind (tell (Log (ascii ''Ika pre-alpha gap: dWallet account not materialized on devnet (DKG returns pubkey only). Falling back to LendGuard MessageApproval helper ''
                    @ [8212] @ ascii '' same byte layout the real Ika executor will write once mainnet ships.'') [])) (\<lambda>_.
          io_bind (io_of (buildDemoCreateMessageApprovalIx P owner (to_buffer dwallet) True))
            (\<lambda>(fallback_ix, fallback_pda).
          io_bind (sendIx S (Inl fallback_ix) owner) (\<lambda>approveTxSig.
          io_bind (tell (Log (ascii ''Simulated MessageApproval written on-chain (signed)'')
                    [(''tx'', approveTxSig), (''messageApproval'', to_base58 fallback_pda)])) (\<lambda>_.
          io_return (approveTxSig, fallback_pda, SimulatedFallback)))))
        else io_throw err)"

text \<open>Step 6: the network's signature, best effort.\<close>

definition network_sign ::
    "platform \<Rightarrow> services \<Rightarrow> pubkey \<Rightarrow> pubkey \<Rightarrow> bytes \<Rightarrow> jstext \<Rightarrow> bytes option io" where
  "network_sign P S cpiAuthority dwallet messageDigest approveTxSig =
     io_catch
       (io_bind (tell (Log (ascii ''Ika gRPC: requestPresign'') [])) (\<lambda>_.
        io_bind (requestPresign P S cpiAuthority (to_buffer dwallet)) (\<lambda>presignId.
        io_bind (tell (Log (ascii ''Ika gRPC: requestSign ('' @ label_text
                   (SIGNATURE_SCHEME_LABELS DEFAULT_SIGNATURE_SCHEME) @ ascii '')'') [])) (\<lambda>_.
        io_bind (io_of (bs58Decode approveTxSig)) (\<lambda>txSigBytes.
        io_bind (requestSign P S cpiAuthority (to_buffer dwallet) messageDigest presignId txSigBytes)
          (\<lambda>signature.
        io_bind (tell (Log (ascii ''Ika network signature ('' @ nat_to_text (length signature)
                   @ ascii '' bytes received)'') [])) (\<lambda>_.
        io_return (Some signature))))))))
       (\<lambda>err.
        io_bind (tell (Log (ascii ''Ika sign step skipped '' @ [8212]
                   @ ascii '' MessageApproval still on-chain. '' @ message_in_template S err) [])) (\<lambda>_.
        io_return None))"

definition runRealIkaFlow ::
    "platform \<Rightarrow> services \<Rightarrow> pubkey \<Rightarrow> pubkey \<Rightarrow> bytes \<Rightarrow> ika_flow_result io" where
  "runRealIkaFlow P S owner vaultPda messageDigest =
     io_bind (io_of (deriveIkaCpiAuthorityPda P)) (\<lambda>(cpiAuthority, cpiAuthorityBump).
     io_bind (tell (Log (ascii ''LendGuard CPI authority PDA derived'')
        [(''cpiAuthority'', to_base58 cpiAuthority), (''bump'', nat_to_text cpiAuthorityBump)])) (\<lambda>_.
     io_bind (tell (Log (ascii ''Ika gRPC: requestDKG (intended_chain_sender = cpiAuthority)'') [])) (\<lambda>_.
     io_bind (requestDkg P S cpiAuthority) (\<lambda>dkg.
     let publicKey = dkg_publicKey dkg in
     io_bind (tell (Log (ascii ''Ika DKG complete ('' @ label_text (CURVE_LABELS DEFAULT_CURVE)
        @ ascii '', pubkey '' @ nat_to_text (length publicKey) @ ascii '' bytes)'') [])) (\<lambda>_.
     io_bind (io_of (deriveDwalletPda P DEFAULT_CURVE publicKey)) (\<lambda>(dwallet, _).
     io_bind (io_of (deriveDwalletCoordinatorPda P)) (\<lambda>(coordinator, _).
     io_bind (io_of (deriveMessageApprovalPda P dwallet messageDigest))
       (\<lambda>(messageApproval, messageApprovalBump).
     io_bind (tell (Log (ascii ''Ika PDAs derived'')
        [(''dwallet'', to_base58 dwallet), (''coordinator'', to_base58 coordinator),
         (''messageApproval'', to_base58 messageApproval),
         (''messageApprovalBump'', nat_to_text messageApprovalBump)])) (\<lambda>_.
     io_bind (io_of (buildApproveCustodySignatureIx P owner vaultPda (PROGRAM_ID P) cpiAuthority
        (IKA_PROGRAM_ID P) coordinator dwallet messageApproval (int messageApprovalBump)
        messageDigest None (to_buffer owner) DEFAULT_SIGNATURE_SCHEME)) (\<lambda>ix.
     io_bind (submit_approval P S ix owner dwallet messageApproval)
       (\<lambda>(approveTxSig, finalMessageApproval, approvalSource).
     io_bind (case approvalSource of
        RealIkaCpi \<Rightarrow> network_sign P S cpiAuthority dwallet messageDigest approveTxSig
      | SimulatedFallback \<Rightarrow>
          io_bind (tell (Log (ascii ''Ika network sign skipped (simulation mode). On real Ika this is where requestPresign + requestSign would commit a real signature on-chain.'') [])) (\<lambda>_.
          io_return None)) (\<lambda>signature.
     io_return \<lparr>fr_cpiAuthority = cpiAuthority, fr_dwallet = dwallet, fr_publicKey = publicKey,
        fr_messageApproval = finalMessageApproval, fr_approveTxSig = approveTxSig,
        fr_signature = signature, fr_approvalSource = approvalSource\<rparr>))))))))))))"

section \<open>Which errors are taken for the gap\<close>

lemma program_errors_are_no_gap:
  "\<not> isPreAlphaInfraGap (ascii ''On-chain pre-flight simulation failed: '' @ error_msg e
     @ preflight_advice)"
  by (cases e) (simp_all add: isPreAlphaInfraGap_def js_toLowerCase_def ascii_def preflight_advice_def)

section \<open>How often the wallet is asked\<close>

fun is_wallet :: "request \<Rightarrow> bool" where
  "is_wallet (SignTransaction tx) = True" | "is_wallet (SendRawTransaction raw) = True"
| "is_wallet _ = False"

fun is_sign :: "request \<Rightarrow> bool" where
  "is_sign (SignTransaction tx) = True" | "is_sign _ = False"


lemma preflight_at_most: "at_most 0 is_sign (preflight S tx)"
  unfolding preflight_def
  by (rule at_most_catch_le [of 0 _ _ 0])
    (auto intro!: at_most_0_bind at_most_ask at_most_pure split: option.splits)

lemma sendIx_at_most: "at_most (Suc 0) is_sign (sendIx S ix payer)"
proof -
  have send: "at_most (Suc 0) is_sign (io_bind (ask (SignTransaction tx) a) (\<lambda>signed.
      io_bind (io_of (r signed)) (\<lambda>raw. io_bind (ask (SendRawTransaction raw) (b raw)) (\<lambda>sig.
      io_bind (ask (ConfirmTransaction sig bh n) (c sig)) (\<lambda>_. io_return sig)))))" for tx a r b bh n c
    by (rule at_most_bind_0 [OF at_most_ask(3)])
      (auto intro!: at_most_0_bind at_most_ask at_most_pure)
  show ?thesis
    unfolding sendIx_def Let_def
    by (rule at_most_0_bind [OF at_most_ask(1)])
      (auto intro!: at_most_0_bind [OF preflight_at_most] send)
qed

lemma builders_at_most:
  "at_most 0 is_sign (requestDkg P S k)" "at_most 0 is_sign (requestPresign P S k d)"
  "at_most 0 is_sign (requestSign P S k d m p s)"
proof -
  have c: "at_most 0 is_sign (ika_getClient P S)"
    by (simp add: at_most_def ika_getClient_def requests_of_def)
  show "at_most 0 is_sign (requestDkg P S k)" "at_most 0 is_sign (requestPresign P S k d)"
    "at_most 0 is_sign (requestSign P S k d m p s)"
    unfolding requestDkg_def requestPresign_def requestSign_def
    by (auto intro!: c at_most_0_bind at_most_ask at_most_pure split: prod.splits)
qed

lemma submit_approval_at_most: "at_most 2 is_sign (submit_approval P S ix owner dwallet ma)"
proof -
  have one: "at_most (Suc 0) is_sign (io_bind (sendIx S i owner) f)"
    if "\<And>x. at_most 0 is_sign (f x)" for i and f :: "jstext \<Rightarrow> 'b io"
    by (rule at_most_bind_0 [OF sendIx_at_most that])
  have throw: "at_most (Suc 0) is_sign (io_throw e)" for e
    by (rule at_most_mono [OF at_most_pure(2)]) simp
  show ?thesis
    unfolding submit_approval_def
    by (rule at_most_catch_le [of "Suc 0" _ _ "Suc 0"])
      (auto intro!: at_most_0_bind [OF at_most_ask(2)] at_most_0_bind [OF at_most_pure(3)] one throw
        at_most_pure at_most_ask split: prod.splits)
qed

lemma network_sign_at_most: "at_most 0 is_sign (network_sign P S c d m s)"
  unfolding network_sign_def
  by (rule at_most_catch_le [of 0 _ _ 0])
    (auto intro!: at_most_0_bind at_most_ask at_most_pure builders_at_most)

lemma runRealIkaFlow_at_most:
  "at_most 2 is_sign (runRealIkaFlow P S owner vaultPda messageDigest)"
proof -
  have sig: "at_most 0 is_sign (case src of RealIkaCpi \<Rightarrow> network_sign P S c d m s
      | SimulatedFallback \<Rightarrow> io_bind (tell (Log x [])) (\<lambda>_. io_return None))" for src c d m s x
    by (cases src) (auto intro!: network_sign_at_most at_most_0_bind at_most_ask at_most_pure)
  have last: "at_most 2 is_sign (io_bind (submit_approval P S ix owner dwallet ma) f)"
    if "\<And>x. at_most 0 is_sign (f x)"
    for ix dwallet ma and f :: "jstext \<times> pubkey \<times> approval_source \<Rightarrow> ika_flow_result io"
    by (rule at_most_bind_0 [OF submit_approval_at_most that])
  show ?thesis
    unfolding runRealIkaFlow_def Let_def
    by (auto intro!: at_most_0_bind [OF at_most_pure(3)] at_most_0_bind [OF at_most_ask(2)]
        at_most_0_bind [OF builders_at_most(1)] last at_most_0_bind [OF sig] at_most_pure
        split: prod.splits)
qed

section \<open>What the steps answer\<close>

lemma submit_approval_ok:
  assumes "submit_approval P S ix owner dwallet ma h = (Inr (tx, final, source), h')"
  shows "source = RealIkaCpi \<and> final = ma \<and> (\<exists>h1 h2. sendIx S (Inl ix) owner h1 = (Inr tx, h2))
    \<or> source = SimulatedFallback \<and> (\<exists>h1 h2 h3 h4 e fb.
         sendIx S (Inl ix) owner h1 = (Inl e, h2) \<and> isPreAlphaInfraGap (thrown_text S e)
         \<and> buildDemoCreateMessageApprovalIx P owner (to_buffer dwallet) True = Inr (fb, final)
         \<and> sendIx S (Inl fb) owner h3 = (Inr tx, h4))"
proof -
  let ?h = "h @ [Log (ascii ''Submitting LendGuard approve_custody_signature '' @ [8594]
              @ ascii '' Ika CPI'') []]"
  obtain r h2 where send: "sendIx S (Inl ix) owner ?h = (r, h2)" by fastforce
  show ?thesis
  proof (cases r)
    case (Inr s)
    then have "source = RealIkaCpi" "final = ma" "tx = s"
      using assms send by (simp_all add: submit_approval_def io_catch_def io_bind_def)
    then show ?thesis using send Inr by auto
  next
    case (Inl e)
    have gap: "isPreAlphaInfraGap (thrown_text S e)"
      using assms send Inl
      by (auto simp: submit_approval_def io_catch_def io_bind_def split: if_splits)
    obtain fb h3 h4 where "source = SimulatedFallback"
      "buildDemoCreateMessageApprovalIx P owner (to_buffer dwallet) True = Inr (fb, final)"
      "sendIx S (Inl fb) owner h3 = (Inr tx, h4)"
      using assms send Inl gap
      by (auto simp: submit_approval_def io_catch_def io_bind_def split: sum.splits prod.splits)
    then show ?thesis using send Inl gap by blast
  qed
qed

lemma network_sign_answers: "\<exists>sig h'. network_sign P S c d m s h = (Inr sig, h')"
  by (auto simp: network_sign_def io_catch_def io_bind_def split: prod.splits sum.splits)

section \<open>Properties\<close>

text \<open>C17: what a finished flow reports is what happened: as real only the derived approval account,
  whose instruction was sent; as simulated, with no signature, the demo helper's account, sent after
  the real instruction had failed with one of the network's known gaps.\<close>

theorem runRealIkaFlow_reports:
  assumes "runRealIkaFlow P S owner vaultPda digest h = (Inr r, h')"
  shows "\<exists>bump ix coordinator cb ab.
      deriveIkaCpiAuthorityPda P = Inr (fr_cpiAuthority r, cb)
    \<and> deriveDwalletPda P DEFAULT_CURVE (fr_publicKey r) = Inr (fr_dwallet r, bump)
    \<and> (\<exists>derived. deriveMessageApprovalPda P (fr_dwallet r) digest = Inr (derived, ab)
      \<and> buildApproveCustodySignatureIx P owner vaultPda (PROGRAM_ID P) (fr_cpiAuthority r)
          (IKA_PROGRAM_ID P) coordinator (fr_dwallet r) derived (int ab) digest None
          (to_buffer owner) DEFAULT_SIGNATURE_SCHEME = Inr ix
      \<and> (case fr_approvalSource r of
          RealIkaCpi \<Rightarrow> fr_messageApproval r = derived
            \<and> (\<exists>h1 h2. sendIx S (Inl ix) owner h1 = (Inr (fr_approveTxSig r), h2))
        | SimulatedFallback \<Rightarrow> fr_signature r = None
            \<and> (\<exists>h1 h2 h3 h4 e fb. sendIx S (Inl ix) owner h1 = (Inl e, h2)
              \<and> isPreAlphaInfraGap (thrown_text S e)
              \<and> buildDemoCreateMessageApprovalIx P owner (to_buffer (fr_dwallet r)) True
                  = Inr (fb, fr_messageApproval r)
              \<and> sendIx S (Inl fb) owner h3 = (Inr (fr_approveTxSig r), h4))))"
proof -
  have "\<exists>bump ix coordinator cb ab derived h1 h2.
      deriveIkaCpiAuthorityPda P = Inr (fr_cpiAuthority r, cb)
    \<and> deriveDwalletPda P DEFAULT_CURVE (fr_publicKey r) = Inr (fr_dwallet r, bump)
    \<and> deriveMessageApprovalPda P (fr_dwallet r) digest = Inr (derived, ab)
    \<and> buildApproveCustodySignatureIx P owner vaultPda (PROGRAM_ID P) (fr_cpiAuthority r)
          (IKA_PROGRAM_ID P) coordinator (fr_dwallet r) derived (int ab) digest None
          (to_buffer owner) DEFAULT_SIGNATURE_SCHEME = Inr ix
    \<and> submit_approval P S ix owner (fr_dwallet r) derived h1
        = (Inr (fr_approveTxSig r, fr_messageApproval r, fr_approvalSource r), h2)
    \<and> (fr_approvalSource r = SimulatedFallback \<longrightarrow> fr_signature r = None)"
    using assms
    by (clarsimp simp: runRealIkaFlow_def Let_def io_bind_eq_Inr)
      (intro exI conjI impI; (assumption | simp add: io_bind_def))
  then show ?thesis
    using submit_approval_ok by (cases "fr_approvalSource r") (fastforce dest!: submit_approval_ok)+
qed

text \<open>A platform that derives one address from every seed list, and a run of the flow on it.\<close>

definition flat_platform :: platform where
  "flat_platform = demo_platform\<lparr>find_program_address := (\<lambda>_ _. Inr (0, 255))\<rparr>"

lemma flat_derivations:
  "deriveIkaCpiAuthorityPda flat_platform = Inr (0, 255)"
  "deriveDwalletPda flat_platform c k = Inr (0, 255)"
  "deriveDwalletCoordinatorPda flat_platform = Inr (0, 255)"
  "deriveMessageApprovalPda flat_platform d m = Inr (0, 255)"
  by (simp_all add: flat_platform_def deriveIkaCpiAuthorityPda_def deriveDwalletPda_def
      deriveDwalletCoordinatorPda_def deriveMessageApprovalPda_def)

lemma demo_flow:
  "\<exists>r h'. runRealIkaFlow flat_platform demo_services 1 2 (replicate 32 3) [] = (Inr r, h')
     \<and> fr_approvalSource r = RealIkaCpi \<and> fr_approveTxSig r = [50]"
proof -
  let ?P = flat_platform and ?S = demo_services
  obtain ix where ix: "buildApproveCustodySignatureIx ?P 1 2 (PROGRAM_ID ?P) 0 (IKA_PROGRAM_ID ?P) 0 0 0
      255 (replicate 32 3) None (to_buffer 1) DEFAULT_SIGNATURE_SCHEME = Inr ix"
    by (simp add: buildApproveCustodySignatureIx_def Let_def)
  have "\<exists>h'. sendIx ?S (Inl ix) 1 h = (Inr [50], h')" for h
    by (simp add: sendIx_def demo_services_def io_bind_def preflight_def io_catch_def Let_def)
  then obtain h2 where send: "\<And>h. sendIx ?S (Inl ix) 1 h = (Inr [50], h2 h)" by metis
  obtain sg h3 where sign: "\<And>h. network_sign ?P ?S 0 0 (replicate 32 3) [50] h = (Inr (sg h), h3 h)"
    using network_sign_answers by metis
  have "\<exists>d h'. requestDkg ?P ?S 0 h = (Inr d, h')" for h
    by (simp add: requestDkg_def io_bind_def ika_getClient_def demo_services_def)
  then obtain d h1 where dkg: "\<And>h. requestDkg ?P ?S 0 h = (Inr (d h), h1 h)" by metis
  show ?thesis
    by (simp add: runRealIkaFlow_def submit_approval_def io_bind_def io_catch_def Let_def
        flat_derivations ix send sign dkg)
qed

lemma runRealIkaFlow_reports_witness:
  "\<exists>r h' h1 h2 ix. runRealIkaFlow flat_platform demo_services 1 2 (replicate 32 3) [] = (Inr r, h')
     \<and> fr_messageApproval r = 0 \<and> sendIx demo_services (Inl ix) 1 h1 = (Inr [50], h2)"
proof -
  obtain r h' where r: "runRealIkaFlow flat_platform demo_services 1 2 (replicate 32 3) [] = (Inr r, h')"
      "fr_approvalSource r = RealIkaCpi" "fr_approveTxSig r = [50]"
    using demo_flow by blast
  then show ?thesis using runRealIkaFlow_reports [OF r(1)] by (auto simp: flat_derivations)
qed

text \<open>Once the approval's transaction went through, nothing the executor does can lose it: the
  signing step always returns, and never asks the wallet or the RPC for anything.\<close>

theorem approval_survives_signing:
  "\<exists>sig k. network_sign P S cpiAuthority dwallet digest approveTxSig h = (Inr sig, h @ k)
     \<and> list_all (\<lambda>q. \<not> is_wallet q \<and> q \<noteq> GetLatestBlockhash) k"
proof -
  let ?P = "\<lambda>q. \<not> is_wallet q \<and> q \<noteq> GetLatestBlockhash"
  have c: "grows ?P (ika_getClient P S)" by (simp add: grows_def ika_getClient_def)
  have "grows ?P (network_sign P S cpiAuthority dwallet digest approveTxSig)"
    unfolding network_sign_def requestPresign_def requestSign_def
    by (intro grows_intros c) simp_all
  then show ?thesis
    using network_sign_answers [of P S cpiAuthority dwallet digest approveTxSig h] growsD by metis
qed

text \<open>C33: an error of the program that the simulation of the approval reports is not taken for a gap of the
  network: the step throws it, and there is neither a signature nor a simulated approval in its place. The
  simulation must have run: an error the RPC reports only when the transaction is sent is taken for a gap,
  \<open>sent_program_error_is_a_gap\<close> below.\<close>

theorem program_error_stops_approval:
  assumes "\<And>h. \<exists>blockhash height. rpc_getLatestBlockhash S h = Inr (blockhash, height)"
    and "\<And>h tx. rpc_simulateTransaction S h tx = Inr sim" and "truthy_err (sim_err sim)"
    and logs: "sim_logs sim = Some (before @ [anchor_log details (error_msg e)] @ after)"
      "\<forall>l \<in> set before. anchor_error_exec l = None"
      "list_all (\<lambda>c. \<not> line_terminator c) details"
  shows "\<exists>k. submit_approval P S ix owner dwallet messageApproval h =
      (Inl (ErrorText (ascii ''On-chain pre-flight simulation failed: '' @ error_msg e @ preflight_advice)),
       h @ k) \<and> list_all (\<lambda>q. \<not> is_wallet q) k"
proof -
  let ?h = "h @ [Log (ascii ''Submitting LendGuard approve_custody_signature '' @ [8594]
              @ ascii '' Ika CPI'') []]"
  obtain bh n where bh: "rpc_getLatestBlockhash S ?h = Inr (bh, n)" using assms(1) by blast
  have "sendIx S (Inl ix) owner ?h =
      (Inl (ErrorText (ascii ''On-chain pre-flight simulation failed: '' @ error_msg e @ preflight_advice)),
       ?h @ [GetLatestBlockhash, SimulateTransaction (new_transaction [ix] owner bh)])"
    using bh preflight_rejects [OF assms(2,3)] program_error_logged [OF logs]
    by (simp add: sendIx_def io_bind_def Let_def)
  then show ?thesis
    using program_errors_are_no_gap
    by (simp add: submit_approval_def io_catch_def io_bind_def thrown_text_def error_message_def)
qed

lemma program_error_stops_approval_witness:
  "\<exists>k. submit_approval flat_platform (demo_services\<lparr>rpc_simulateTransaction := (\<lambda>_ _. Inr
        \<lparr>sim_err = ObjectErr [], sim_logs = Some [anchor_log [] (error_msg VaultFrozen)]\<rparr>)\<rparr>)
        \<lparr>ix_program_id = 0, ix_keys = [], ix_data = []\<rparr> 1 2 3 []
     = (Inl (ErrorText (ascii ''On-chain pre-flight simulation failed: '' @ error_msg VaultFrozen
          @ preflight_advice)), k)"
  using program_error_stops_approval [of "demo_services\<lparr>rpc_simulateTransaction := (\<lambda>_ _. Inr
        \<lparr>sim_err = ObjectErr [], sim_logs = Some [anchor_log [] (error_msg VaultFrozen)]\<rparr>)\<rparr>"
      "\<lparr>sim_err = ObjectErr [], sim_logs = Some [anchor_log [] (error_msg VaultFrozen)]\<rparr>"
      "[]" "[]" VaultFrozen "[]" flat_platform "\<lparr>ix_program_id = 0, ix_keys = [], ix_data = []\<rparr>" 1 2 3 "[]"]
  by (auto simp: demo_services_def)

text \<open>When the simulation could not run, which \<open>sendIx\<close> only logs, the same error of the program comes from
  \<open>sendRawTransaction\<close> as \<open>custom program error: 0x\<close>, and the flow puts the simulated approval in its place.\<close>

lemma sent_program_error_is_a_gap:
  assumes "\<And>h. rpc_getLatestBlockhash S h = Inr (bh, n)"
    and "\<And>h tx. rpc_simulateTransaction S h tx = Inl down"
    and "\<And>m. error_message S down = Some m \<Longrightarrow> strip_prefix (ascii ''On-chain pre-flight'') m = None"
    and "\<And>h tx. wallet_signTransaction S h tx = Inr (sg tx)"
    and "\<And>tx. transaction_serialize S (sg tx) = Inr (raw tx)"
    and "buildDemoCreateMessageApprovalIx P owner (to_buffer dwallet) True = Inr (fb, pda)"
    and "\<And>h. rpc_sendRawTransaction S h (raw (new_transaction [ix] owner bh)) = Inl (ErrorText t)"
    and "text_includes (ascii ''custom program error: 0x'') (js_toLowerCase t)"
    and "\<And>h. rpc_sendRawTransaction S h (raw (new_transaction [fb] owner bh)) = Inr sig"
    and "\<And>h. rpc_confirmTransaction S h sig = Inr ok"
  shows "\<exists>h'. submit_approval P S ix owner dwallet messageApproval h = (Inr (sig, pda, SimulatedFallback), h')"
proof -
  have pre: "preflight S tx h = (Inr (), h @ [SimulateTransaction tx,
      Warn (ascii ''[sendIx] pre-flight sim could not run:'')])" for tx h
    using assms(2,3) by (simp add: preflight_def io_catch_def io_bind_def split: option.split)
  have "\<forall>h. \<exists>h'. sendIx S (Inl ix) owner h = (Inl (ErrorText t), h')"
    using assms by (simp add: sendIx_def io_bind_def Let_def pre)
  then obtain sent where "\<And>h. sendIx S (Inl ix) owner h = (Inl (ErrorText t), sent h)" by metis
  moreover have "\<forall>h. \<exists>h'. sendIx S (Inl fb) owner h = (Inr sig, h')"
    using assms by (simp add: sendIx_def io_bind_def Let_def pre)
  then obtain sent' where "\<And>h. sendIx S (Inl fb) owner h = (Inr sig, sent' h)" by metis
  moreover have "isPreAlphaInfraGap (thrown_text S (ErrorText t))"
    using assms(8) by (simp add: isPreAlphaInfraGap_def thrown_text_def error_message_def)
  ultimately show ?thesis
    using assms(6) by (simp add: submit_approval_def io_catch_def io_bind_def)
qed

text \<open>One run of the flow asks the wallet for at most two signatures, and sending one transaction
  for at most one.\<close>

theorem flow_signature_bound:
  "requests_of is_sign (snd (runRealIkaFlow P S owner vaultPda digest h)) \<le> requests_of is_sign h + 2
   \<and> requests_of is_sign (snd (sendIx S ix payer h)) \<le> requests_of is_sign h + 1"
  using runRealIkaFlow_at_most [of P S owner vaultPda digest] sendIx_at_most [of S ix payer]
  by (simp add: at_most_def)

end
