(* ===== verification/Keepers.thy ===== *)
theory Keepers
  imports Ika_Flow
begin

text \<open>
  The operators' daemons under \<open>contracts/scripts\<close>: \<open>btc-balance-keeper.mjs\<close> posts Bitcoin balances,
  \<open>btc-liquidation-broadcaster.mjs\<close> broadcasts a signed liquidation and finalises it after its
  confirmations, \<open>refresh-prices.mjs\<close> renews the price feeds. They build their instructions with
  helpers of their own; where \<open>u64ToLe\<close> of the frontend wraps, theirs throws.
\<close>

section \<open>Shared helpers\<close>

definition scripts_PROGRAM_ID :: pubkey where
  "scripts_PROGRAM_ID = pubkey_of_base58 ''GQia1ewyLgtkgX7HSfuttJ42qNPpYJhUbxeyCPXtcJFR''"

definition MEMPOOL_API :: "platform \<Rightarrow> jstext" where
  "MEMPOOL_API P = env_text P ''BTC_TESTNET_API'' ''https://mempool.space/testnet/api''"

text \<open>\<open>writeBigUInt64LE\<close> and \<open>writeUInt32LE\<close> reject what does not fit.\<close>

definition keeper_u64ToLe :: "int \<Rightarrow> bytes js" where
  "keeper_u64ToLe n = (if 0 \<le> n \<and> n < 2 ^ 64 then Inr (le_bytes 8 (nat n)) else Inl RangeError)"

definition keeper_u32ToLe :: "int \<Rightarrow> bytes js" where
  "keeper_u32ToLe n = (if 0 \<le> n \<and> n < 2 ^ 32 then Inr (le_bytes 4 (nat n)) else Inl RangeError)"

text \<open>\<open>Buffer.from(text, 'hex')\<close> reads pairs of digits up to the first that is none.\<close>

fun hex_decode :: "jstext \<Rightarrow> bytes" where
  "hex_decode (a # b # cs) =
     (case (digit_value 16 a, digit_value 16 b) of
        (Some x, Some y) \<Rightarrow> word_of_nat (16 * x + y) # hex_decode cs
      | _ \<Rightarrow> [])"
| "hex_decode _ = []"

definition keeper_pda :: "platform \<Rightarrow> bytes \<Rightarrow> pubkey \<Rightarrow> pubkey js" where
  "keeper_pda P seed key =
     js_bind (find_program_address P [seed, to_buffer key] scripts_PROGRAM_ID) (\<lambda>r. Inr (fst r))"

definition keeper_protocolStatePda :: "platform \<Rightarrow> pubkey js" where
  "keeper_protocolStatePda P =
     js_bind (find_program_address P [PROTOCOL_STATE_SEED] scripts_PROGRAM_ID) (\<lambda>r. Inr (fst r))"

definition response_ok :: "http_response \<Rightarrow> bool" where
  "response_ok res \<longleftrightarrow> 200 \<le> http_status res \<and> http_status res \<le> 299"

definition fetchText :: "services \<Rightarrow> jstext \<Rightarrow> jstext io" where
  "fetchText S url =
     io_bind (ask (HttpGet url) (\<lambda>h. http_get S h url)) (\<lambda>res.
     if response_ok res then io_return (http_body res)
     else io_throw (ErrorText (url @ ascii '' failed: '' @ bigint_to_text (http_status res)
            @ 32 # http_body res)))"

text \<open>\<open>fetchJson\<close>, with the shape the caller reads.\<close>

definition fetchJson :: "(jstext \<Rightarrow> 'a js) \<Rightarrow> services \<Rightarrow> jstext \<Rightarrow> 'a io" where
  "fetchJson parse S url = io_bind (fetchText S url) (\<lambda>body. io_of (parse body))"

text \<open>The balance of an address: confirmed and unconfirmed outputs, funded less spent.\<close>

definition stats_sum :: "(txo_stats \<Rightarrow> int option) \<Rightarrow> address_summary \<Rightarrow> int" where
  "stats_sum field summary =
     (let part = (\<lambda>s. case s of None \<Rightarrow> 0 | Some t \<Rightarrow> (case field t of None \<Rightarrow> 0 | Some n \<Rightarrow> n))
      in part (chain_stats summary) + part (mempool_stats summary))"

definition net_satoshis :: "address_summary \<Rightarrow> int" where
  "net_satoshis summary =
     (let funded = stats_sum funded_txo_sum summary; spent = stats_sum spent_txo_sum summary
      in if funded > spent then funded - spent else 0)"

section \<open>The balance keeper\<close>

definition keeper_BTC_VAULT_LEN :: nat where
  "keeper_BTC_VAULT_LEN = 8 + 32 + 32 + 32 + 33 + 64 + 1 + 8 + 8 + 1 + 8 + 1 + 8 + 32 + 1"

record keeper_vault =
  kv_pubkey :: pubkey
  kv_address :: jstext

definition parseBtcVault :: "pubkey \<Rightarrow> bytes \<Rightarrow> keeper_vault option js" where
  "parseBtcVault pubkey data =
     (if length data < keeper_BTC_VAULT_LEN then Inr None else
      let addressOffset = 8 + 32 + 32 + 32 + 33;
          addressBytes = subarray data addressOffset (addressOffset + 64) in
      js_bind (read_u8 data (addressOffset + 64)) (\<lambda>addressLen.
      let address = text_decode (subarray addressBytes 0 (nat addressLen)) in
      if take 3 address = ascii ''tb1'' then Inr (Some \<lparr>kv_pubkey = pubkey, kv_address = address\<rparr>)
      else Inr None))"

fun parse_vaults :: "(pubkey \<times> bytes) list \<Rightarrow> keeper_vault list js" where
  "parse_vaults [] = Inr []"
| "parse_vaults ((k, d) # as) =
     js_bind (parseBtcVault k d) (\<lambda>r. js_bind (parse_vaults as) (\<lambda>vs.
     Inr (case r of None \<Rightarrow> vs | Some v \<Rightarrow> v # vs)))"

record address_snapshot =
  sn_satoshis :: int
  sn_blockHeight :: int
  sn_blockHash :: bytes

definition snapshot_of :: "address_summary js \<Rightarrow> jstext js \<Rightarrow> jstext js \<Rightarrow> address_snapshot js" where
  "snapshot_of r1 r2 r3 =
     js_bind r1 (\<lambda>summary. js_bind r2 (\<lambda>tipHeight. js_bind r3 (\<lambda>tipHash.
       let satoshis = net_satoshis summary;
           blockHash = hex_decode (js_trim tipHash) in
       if length blockHash \<noteq> 32 then
         Inl (ErrorText (ascii ''Unexpected Bitcoin testnet block hash length ''
                @ nat_to_text (length blockHash)))
       else js_bind (js_BigInt (js_trim tipHeight)) (\<lambda>blockHeight.
         Inr \<lparr>sn_satoshis = satoshis, sn_blockHeight = blockHeight, sn_blockHash = blockHash\<rparr>))))"

text \<open>The three requests of \<open>Promise.all\<close> are all made; the first rejection is the result's.\<close>

definition fetchAddressSnapshot :: "platform \<Rightarrow> services \<Rightarrow> jstext \<Rightarrow> address_snapshot io" where
  "fetchAddressSnapshot P S address =
     io_bind (io_try (fetchJson (json_summary S) S (MEMPOOL_API P @ ascii ''/address/'' @ address))) (\<lambda>r1.
     io_bind (io_try (fetchText S (MEMPOOL_API P @ ascii ''/blocks/tip/height''))) (\<lambda>r2.
     io_bind (io_try (fetchText S (MEMPOOL_API P @ ascii ''/blocks/tip/hash''))) (\<lambda>r3.
     io_of (snapshot_of r1 r2 r3))))"

definition keeper_buildAttestIx ::
    "platform \<Rightarrow> pubkey \<Rightarrow> pubkey \<Rightarrow> int \<Rightarrow> int \<Rightarrow> bytes \<Rightarrow> transaction_instruction js" where
  "keeper_buildAttestIx P keeper btcVault satoshis blockHeight blockHash =
     js_bind (keeper_pda P BTC_ATTESTATION_SEED btcVault) (\<lambda>attestation.
     js_bind (keeper_protocolStatePda P) (\<lambda>protocolState.
     js_bind (keeper_u64ToLe satoshis) (\<lambda>s.
     js_bind (keeper_u64ToLe blockHeight) (\<lambda>b.
     Inr \<lparr>ix_program_id = scripts_PROGRAM_ID,
       ix_keys = [meta btcVault False True, meta attestation False True,
         meta protocolState False False, meta keeper True True],
       ix_data = concat [sighash P ''attest_btc_balance'', s, b, blockHash]\<rparr>))))"

definition send_and_confirm :: "services \<Rightarrow> transaction_instruction list \<Rightarrow> jstext io" where
  "send_and_confirm S ixs =
     (let tx = \<lparr>tx_instructions = ixs, tx_feePayer = None, tx_recentBlockhash = None\<rparr> in
      ask (SendAndConfirm tx) (\<lambda>h. rpc_sendAndConfirm S h tx))"

definition attest_vault :: "platform \<Rightarrow> services \<Rightarrow> pubkey \<Rightarrow> keeper_vault \<Rightarrow> unit io" where
  "attest_vault P S admin vault =
     io_catch
       (io_bind (fetchAddressSnapshot P S (kv_address vault)) (\<lambda>snap.
        io_bind (io_of (keeper_buildAttestIx P admin (kv_pubkey vault) (sn_satoshis snap)
                   (sn_blockHeight snap) (sn_blockHash snap))) (\<lambda>ix.
        io_bind (send_and_confirm S [ix]) (\<lambda>sig.
        tell (Log (ascii ''[btc-keeper] '' @ kv_address vault @ ascii '' = ''
          @ bigint_to_text (sn_satoshis snap) @ ascii '' sats @ '' @ bigint_to_text (sn_blockHeight snap)
          @ ascii '' -> '' @ sig) [])))))
       (\<lambda>err. tell (Warn (ascii ''[btc-keeper] '' @ kv_address vault @ ascii '' failed'')))"

fun attest_vaults :: "platform \<Rightarrow> services \<Rightarrow> pubkey \<Rightarrow> keeper_vault list \<Rightarrow> unit io" where
  "attest_vaults P S admin [] = io_return ()"
| "attest_vaults P S admin (v # vs) =
     io_bind (attest_vault P S admin v) (\<lambda>_. attest_vaults P S admin vs)"

definition keeperTick :: "platform \<Rightarrow> services \<Rightarrow> pubkey \<Rightarrow> unit io" where
  "keeperTick P S admin =
     io_bind (ask ReadAccounts (\<lambda>h. getProgramAccounts (rpc_accounts S h) scripts_PROGRAM_ID
                [DataSize keeper_BTC_VAULT_LEN])) (\<lambda>accounts.
     io_bind (io_of (parse_vaults accounts)) (\<lambda>vaults.
     if vaults = [] then tell (Log (ascii ''[btc-keeper] no BTC vaults found'') [])
     else
       io_bind (tell (Log (ascii ''[btc-keeper] '' @ nat_to_text (length vaults)
                  @ ascii '' BTC vault(s) found'') [])) (\<lambda>_.
       attest_vaults P S admin vaults)))"

text \<open>The outer loop, cut after \<open>n\<close> rounds.\<close>

fun keeper_loop :: "nat \<Rightarrow> platform \<Rightarrow> services \<Rightarrow> pubkey \<Rightarrow> bool \<Rightarrow> int \<Rightarrow> unit io" where
  "keeper_loop 0 P S admin ONCE POLL_MS = io_return ()"
| "keeper_loop (Suc n) P S admin ONCE POLL_MS =
     io_bind (io_catch (keeperTick P S admin)
       (\<lambda>err. tell (Warn (ascii ''[btc-keeper] tick failed (will retry):'')))) (\<lambda>_.
     if ONCE then io_return ()
     else io_bind (tell (Wait POLL_MS)) (\<lambda>_. keeper_loop n P S admin ONCE POLL_MS))"

section \<open>The liquidation broadcaster\<close>

definition broadcast :: "platform \<Rightarrow> services \<Rightarrow> jstext \<Rightarrow> jstext io" where
  "broadcast P S rawTxHex =
     io_bind (ask (HttpPost (MEMPOOL_API P @ ascii ''/tx'') rawTxHex)
                (\<lambda>h. http_post S h (MEMPOOL_API P @ ascii ''/tx'') rawTxHex)) (\<lambda>res.
     let text = http_body res in
     if \<not> response_ok res \<and> \<not> text_includes (ascii ''already in block chain'') (js_toLowerCase text)
     then io_throw (ErrorText (ascii ''broadcast failed '' @ bigint_to_text (http_status res)
            @ ascii '': '' @ text))
     else io_return (js_trim text))"

text \<open>\<open>Number(text)\<close> of a block height, as the engine reads it, \<open>1e6\<close> included: an integer, or \<open>NaN\<close>, with
  which every comparison is false. A number that is no integer, which no height is, counts as \<open>NaN\<close>.\<close>

definition text_number :: "services \<Rightarrow> jstext \<Rightarrow> int option" where
  "text_number S s =
     (case number_of_text S s of
        None \<Rightarrow> None
      | Some r \<Rightarrow> if of_int \<lfloor>r\<rfloor> = r then Some \<lfloor>r\<rfloor> else None)"

definition confirmations_of :: "int option \<Rightarrow> int \<Rightarrow> int option" where
  "confirmations_of tip blockHeight =
     (if blockHeight > 0 then map_option (\<lambda>t. t - blockHeight + 1) tip else Some 0)"

text \<open>One poll: the height and the confirmations, or what the script logs before it waits.\<close>

definition poll_confirmations ::
    "platform \<Rightarrow> services \<Rightarrow> int \<Rightarrow> jstext \<Rightarrow> (jstext + int \<times> int) io" where
  "poll_confirmations P S MIN_CONFIRMATIONS txid =
     io_bind (fetchJson (json_tx_status S) S (MEMPOOL_API P @ ascii ''/tx/'' @ txid)) (\<lambda>status.
     let confirmed = (case status of None \<Rightarrow> False | Some s \<Rightarrow> st_confirmed s) in
     if confirmed then
       io_bind (ask (HttpGet (MEMPOOL_API P @ ascii ''/blocks/tip/height''))
         (\<lambda>h. http_get S h (MEMPOOL_API P @ ascii ''/blocks/tip/height''))) (\<lambda>res.
       let tip = text_number S (http_body res);
           blockHeight = (case status of None \<Rightarrow> 0 | Some s \<Rightarrow>
             (case st_block_height s of None \<Rightarrow> 0 | Some b \<Rightarrow> b)) in
       case confirmations_of tip blockHeight of
         Some confs \<Rightarrow>
           if confs \<ge> MIN_CONFIRMATIONS then io_return (Inr (blockHeight, confs))
           else io_return (Inl (ascii ''[btc-broadcaster] tx '' @ txid @ ascii '' confirmed with ''
                  @ bigint_to_text confs @ ascii '', waiting...''))
       | None \<Rightarrow> io_return (Inl (ascii ''[btc-broadcaster] tx '' @ txid
                  @ ascii '' confirmed with NaN, waiting...'')))
     else io_return (Inl (ascii ''[btc-broadcaster] tx '' @ txid @ ascii '' in mempool, waiting...'')))"

text \<open>The endless loop, cut after \<open>n\<close> polls: \<open>None\<close> when the transaction is still waited for.\<close>

fun waitForConfirmations ::
    "nat \<Rightarrow> platform \<Rightarrow> services \<Rightarrow> int \<Rightarrow> jstext \<Rightarrow> (int \<times> int) option io" where
  "waitForConfirmations 0 P S MIN_CONFIRMATIONS txid = io_return None"
| "waitForConfirmations (Suc n) P S MIN_CONFIRMATIONS txid =
     io_bind (poll_confirmations P S MIN_CONFIRMATIONS txid) (\<lambda>poll.
     case poll of
       Inr found \<Rightarrow> io_return (Some found)
     | Inl msg \<Rightarrow>
         io_bind (tell (Log msg [])) (\<lambda>_.
         io_bind (tell (Wait 30000)) (\<lambda>_.
         waitForConfirmations n P S MIN_CONFIRMATIONS txid)))"

definition addressBalance :: "platform \<Rightarrow> services \<Rightarrow> jstext \<Rightarrow> int io" where
  "addressBalance P S address =
     io_bind (fetchJson (json_summary S) S (MEMPOOL_API P @ ascii ''/address/'' @ address)) (\<lambda>summary.
     io_return (net_satoshis summary))"

definition keeper_buildFinalizeIx ::
    "platform \<Rightarrow> pubkey \<Rightarrow> pubkey \<Rightarrow> jstext \<Rightarrow> int \<Rightarrow> int \<Rightarrow> int \<Rightarrow> transaction_instruction js" where
  "keeper_buildFinalizeIx P keeper btcVault txid blockHeight confirmations remainingSats =
     (let txidBytes = hex_decode txid in
      if length txidBytes \<noteq> 32 then Inl (ErrorMsg ''txid must be 32-byte hex'') else
      js_bind (keeper_pda P BTC_ATTESTATION_SEED btcVault) (\<lambda>attestation.
      js_bind (keeper_pda P BTC_BORROW_POSITION_SEED btcVault) (\<lambda>position.
      js_bind (keeper_protocolStatePda P) (\<lambda>protocolState.
      js_bind (keeper_u64ToLe blockHeight) (\<lambda>b.
      js_bind (keeper_u32ToLe confirmations) (\<lambda>c.
      js_bind (keeper_u64ToLe remainingSats) (\<lambda>r.
      Inr \<lparr>ix_program_id = scripts_PROGRAM_ID,
        ix_keys = [meta btcVault False True, meta attestation False True, meta position False True,
          meta protocolState False False, meta keeper True True],
        ix_data = concat [sighash P ''finalize_btc_liquidation'', txidBytes, b, c, r]\<rparr>)))))))"

definition text_set :: "jstext option \<Rightarrow> bool" where
  "text_set t \<longleftrightarrow> (case t of None \<Rightarrow> False | Some s \<Rightarrow> s \<noteq> [])"

text \<open>The script, with the number of polls it may make.\<close>

definition broadcaster_main ::
    "nat \<Rightarrow> platform \<Rightarrow> services \<Rightarrow> pubkey \<Rightarrow> pubkey option \<Rightarrow> jstext option \<Rightarrow> jstext option
     \<Rightarrow> jstext option \<Rightarrow> int \<Rightarrow> jstext option io" where
  "broadcaster_main n P S admin BTC_VAULT BTC_ADDRESS RAW_TX_HEX BTC_TXID MIN_CONFIRMATIONS =
     (if BTC_VAULT = None \<or> \<not> text_set BTC_ADDRESS then
        io_throw (ErrorMsg ''Set BTC_VAULT and BTC_ADDRESS'')
      else if \<not> text_set BTC_TXID \<and> \<not> text_set RAW_TX_HEX then
        io_throw (ErrorMsg ''Set RAW_TX_HEX or BTC_TXID'')
      else
        io_bind (if \<not> text_set BTC_TXID then
            io_bind (tell (Log (ascii ''[btc-broadcaster] broadcasting raw tx...'') [])) (\<lambda>_.
            broadcast P S (the RAW_TX_HEX))
          else io_return (the BTC_TXID)) (\<lambda>txid.
        io_bind (tell (Log (ascii ''[btc-broadcaster] txid='' @ txid) [])) (\<lambda>_.
        io_bind (waitForConfirmations n P S MIN_CONFIRMATIONS txid) (\<lambda>waited.
        case waited of None \<Rightarrow> io_return None | Some (blockHeight, confirmations) \<Rightarrow>
        io_bind (addressBalance P S (the BTC_ADDRESS)) (\<lambda>remainingSats.
        io_bind (tell (Log (ascii ''[btc-broadcaster] confirmed='' @ bigint_to_text confirmations
           @ ascii '' block='' @ bigint_to_text blockHeight @ ascii '' remaining=''
           @ bigint_to_text remainingSats) [])) (\<lambda>_.
        io_bind (io_of (keeper_buildFinalizeIx P admin (the BTC_VAULT) txid blockHeight confirmations
                   remainingSats)) (\<lambda>ix.
        io_bind (send_and_confirm S [ix]) (\<lambda>sig.
        io_bind (tell (Log (ascii ''[btc-broadcaster] finalized on Solana: '' @ sig) [])) (\<lambda>_.
        io_return (Some sig))))))))))"

section \<open>The price refresher\<close>

definition priceFeedPda :: "platform \<Rightarrow> int \<Rightarrow> pubkey js" where
  "priceFeedPda P assetType =
     js_bind (find_program_address P [ADMIN_PRICE_FEED_SEED, [to_uint8 assetType]] scripts_PROGRAM_ID)
       (\<lambda>r. Inr (fst r))"

definition buildUpdatePriceIx :: "platform \<Rightarrow> pubkey \<Rightarrow> int \<Rightarrow> int \<Rightarrow> transaction_instruction js" where
  "buildUpdatePriceIx P admin assetType priceScaled =
     js_bind (priceFeedPda P assetType) (\<lambda>feed.
     js_bind (keeper_u64ToLe priceScaled) (\<lambda>p.
     Inr \<lparr>ix_program_id = scripts_PROGRAM_ID,
       ix_keys = [meta feed False True, meta admin True False],
       ix_data = concat [sighash P ''update_admin_price'', p]\<rparr>))"

definition refresh_PRICE_SCALE :: int where "refresh_PRICE_SCALE = 100000000"

record price_update =
  pu_name :: string
  pu_assetType :: int
  pu_priceUsd :: int
  pu_scaled :: int

definition price_updates :: "int \<Rightarrow> int \<Rightarrow> int \<Rightarrow> price_update list" where
  "price_updates BTC_USD ETH_USD SOL_USD =
     [\<lparr>pu_name = ''BTC'', pu_assetType = 0, pu_priceUsd = BTC_USD, pu_scaled = BTC_USD * refresh_PRICE_SCALE\<rparr>,
      \<lparr>pu_name = ''ETH'', pu_assetType = 1, pu_priceUsd = ETH_USD, pu_scaled = ETH_USD * refresh_PRICE_SCALE\<rparr>,
      \<lparr>pu_name = ''SOL'', pu_assetType = 2, pu_priceUsd = SOL_USD, pu_scaled = SOL_USD * refresh_PRICE_SCALE\<rparr>]"

fun missing_feeds :: "platform \<Rightarrow> services \<Rightarrow> price_update list \<Rightarrow> string list io" where
  "missing_feeds P S [] = io_return []"
| "missing_feeds P S (u # us) =
     io_bind (io_of (priceFeedPda P (pu_assetType u))) (\<lambda>feed.
     io_bind (ask ReadAccounts (\<lambda>h. getAccountInfo (rpc_accounts S h) feed)) (\<lambda>info.
     io_bind (missing_feeds P S us) (\<lambda>missing.
     io_return (if info = None then pu_name u # missing else missing))))"

fun update_instructions :: "platform \<Rightarrow> pubkey \<Rightarrow> price_update list \<Rightarrow> transaction_instruction list js" where
  "update_instructions P admin [] = Inr []"
| "update_instructions P admin (u # us) =
     js_bind (buildUpdatePriceIx P admin (pu_assetType u) (pu_scaled u)) (\<lambda>ix.
     js_bind (update_instructions P admin us) (\<lambda>ixs. Inr (ix # ixs)))"

definition refreshOnce :: "platform \<Rightarrow> services \<Rightarrow> pubkey \<Rightarrow> price_update list \<Rightarrow> unit io" where
  "refreshOnce P S admin updates =
     io_bind (io_of (update_instructions P admin updates)) (\<lambda>ixs.
     io_bind (tell (Log (ascii ''[refresh-prices]'') (map (\<lambda>u. (pu_name u, bigint_to_text (pu_priceUsd u))) updates)))
       (\<lambda>_.
     io_catch
       (io_bind (send_and_confirm S ixs) (\<lambda>sig.
        tell (Log (ascii ''[refresh-prices] ok tx='' @ sig) [])))
       (\<lambda>err. tell (Warn (ascii ''[refresh-prices] failed:'')))))"

section \<open>Lemmas\<close>

lemma keeper_u64ToLe_ok [simp]: "0 \<le> n \<Longrightarrow> n < 2 ^ 64 \<Longrightarrow> keeper_u64ToLe n = Inr (u64ToLe n)"
  by (simp add: keeper_u64ToLe_def u64ToLe_def)

lemma keeper_u32ToLe_ok [simp]: "0 \<le> n \<Longrightarrow> n < 2 ^ 32 \<Longrightarrow> keeper_u32ToLe n = Inr (u32ToLe n)"
  by (simp add: keeper_u32ToLe_def u32ToLe_def)

lemma keeper_derivations:
  assumes "PROGRAM_ID P = scripts_PROGRAM_ID"
  shows "keeper_pda P BTC_ATTESTATION_SEED v = js_bind (deriveBtcAttestationPda P v) (\<lambda>r. Inr (fst r))"
    and "keeper_pda P BTC_BORROW_POSITION_SEED v = js_bind (deriveBtcBorrowPositionPda P v) (\<lambda>r. Inr (fst r))"
    and "keeper_protocolStatePda P = js_bind (deriveProtocolStatePda P) (\<lambda>r. Inr (fst r))"
    and "priceFeedPda P a = js_bind (deriveAdminPriceFeedPda P a) (\<lambda>r. Inr (fst r))"
  by (simp_all add: keeper_pda_def keeper_protocolStatePda_def priceFeedPda_def assms
      deriveBtcAttestationPda_def deriveBtcBorrowPositionPda_def deriveProtocolStatePda_def
      deriveAdminPriceFeedPda_def)

text \<open>The vaults the keeper finds are those the frontend's decoder shows with a \<open>tb1\<close> address.\<close>

lemma parseBtcVault_total: "\<exists>r. parseBtcVault k d = Inr r"
  by (simp add: parseBtcVault_def keeper_BTC_VAULT_LEN_def read_u8_long Let_def)

lemma parseBtcVault_agrees:
  "parseBtcVault k d = js_bind (decodeBtcVault d) (\<lambda>r. Inr (case r of None \<Rightarrow> None
     | Some v \<Rightarrow> if take 3 (bv_bitcoinAddress v) = ascii ''tb1''
         then Some \<lparr>kv_pubkey = k, kv_address = bv_bitcoinAddress v\<rparr> else None))"
  by (simp add: parseBtcVault_def keeper_BTC_VAULT_LEN_def decodeBtcVault_def BTC_VAULT_LEN_def
      reads_long Let_def)

lemma parse_vaults_total: "\<exists>vs. parse_vaults as = Inr vs \<and> length vs \<le> length as"
proof (induction as)
  case (Cons a as)
  obtain k d where a: "a = (k, d)" by fastforce
  obtain r where "parseBtcVault k d = Inr r" using parseBtcVault_total by blast
  then show ?case using Cons a by (auto split: option.splits)
qed simp

fun is_wait :: "request \<Rightarrow> bool" where
  "is_wait (Wait d) = True" | "is_wait _ = False"

fun is_send :: "request \<Rightarrow> bool" where
  "is_send (SendAndConfirm tx) = True" | "is_send _ = False"

lemma fetchText_run: "\<exists>r. fetchText S url h = (r, h @ [HttpGet url])"
  by (cases "http_get S h url") (simp_all add: fetchText_def io_bind_def)

lemma fetchJson_run: "\<exists>r. fetchJson parse S url h = (r, h @ [HttpGet url])"
proof -
  obtain r where "fetchText S url h = (r, h @ [HttpGet url])" using fetchText_run by blast
  then show ?thesis by (cases r) (simp_all add: fetchJson_def io_bind_def)
qed

lemma fetchAddressSnapshot_run:
  "\<exists>r k. fetchAddressSnapshot P S a h = (r, h @ HttpGet (MEMPOOL_API P @ ascii ''/address/'' @ a) # k)
     \<and> filter is_send k = []"
proof -
  let ?u = "MEMPOOL_API P @ ascii ''/address/'' @ a"
  let ?t = "MEMPOOL_API P @ ascii ''/blocks/tip/height''" and ?b = "MEMPOOL_API P @ ascii ''/blocks/tip/hash''"
  obtain r1 where r1: "fetchJson (json_summary S) S ?u h = (r1, h @ [HttpGet ?u])"
    using fetchJson_run by blast
  obtain r2 where r2: "fetchText S ?t (h @ [HttpGet ?u]) = (r2, h @ [HttpGet ?u, HttpGet ?t])"
    using fetchText_run [of S ?t "h @ [HttpGet ?u]"] by auto
  obtain r3 where r3: "fetchText S ?b (h @ [HttpGet ?u, HttpGet ?t])
      = (r3, h @ [HttpGet ?u, HttpGet ?t, HttpGet ?b])"
    using fetchText_run [of S ?b "h @ [HttpGet ?u, HttpGet ?t]"] by auto
  have "fetchAddressSnapshot P S a h = (snapshot_of r1 r2 r3, h @ [HttpGet ?u, HttpGet ?t, HttpGet ?b])"
    using r1 r2 r3 by (simp add: fetchAddressSnapshot_def io_bind_def)
  then show ?thesis by auto
qed

text \<open>What the explorer shows of an address, whenever it is asked: the four sums of the address, the height of
  the tip and its hash. The balance is what was received, confirmed or not, less what was spent.\<close>

definition explorer_shows ::
    "platform \<Rightarrow> services \<Rightarrow> jstext \<Rightarrow> int \<Rightarrow> int \<Rightarrow> bytes \<Rightarrow> bool" where
  "explorer_shows P S address balance height hash \<longleftrightarrow>
     (\<exists>res f s f' s'. (\<forall>g. http_get S g (MEMPOOL_API P @ ascii ''/address/'' @ address) = Inr res)
        \<and> response_ok res \<and> json_summary S (http_body res)
            = Inr \<lparr>chain_stats = Some \<lparr>funded_txo_sum = Some f, spent_txo_sum = Some s\<rparr>,
                mempool_stats = Some \<lparr>funded_txo_sum = Some f', spent_txo_sum = Some s'\<rparr>\<rparr>
        \<and> balance = max 0 (f + f' - s - s'))
     \<and> (\<exists>res. (\<forall>g. http_get S g (MEMPOOL_API P @ ascii ''/blocks/tip/height'') = Inr res)
        \<and> response_ok res \<and> js_BigInt (js_trim (http_body res)) = Inr height)
     \<and> (\<exists>res. (\<forall>g. http_get S g (MEMPOOL_API P @ ascii ''/blocks/tip/hash'') = Inr res)
        \<and> response_ok res \<and> hex_decode (js_trim (http_body res)) = hash \<and> length hash = 32)"

lemma fetchText_shown: "http_get S h url = Inr res \<Longrightarrow> response_ok res \<Longrightarrow>
    fetchText S url h = (Inr (http_body res), h @ [HttpGet url])"
  by (simp add: fetchText_def io_bind_def)

lemma snapshot_shown:
  assumes "explorer_shows P S a balance height hash"
  shows "\<exists>k. fetchAddressSnapshot P S a h = (Inr \<lparr>sn_satoshis = balance, sn_blockHeight = height,
      sn_blockHash = hash\<rparr>, h @ HttpGet (MEMPOOL_API P @ ascii ''/address/'' @ a) # k)
    \<and> filter is_send k = []"
  using assms
  by (auto simp: explorer_shows_def fetchAddressSnapshot_def fetchJson_def fetchText_shown io_bind_def
      snapshot_of_def net_satoshis_def stats_sum_def Let_def)

text \<open>The requests of the keeper for one vault: first its balance, then at most one transaction; and exactly
  the attestation of what the explorer shows, once the explorer shows it and its numbers fit.\<close>

definition served :: "platform \<Rightarrow> services \<Rightarrow> pubkey \<Rightarrow> keeper_vault \<Rightarrow> history \<Rightarrow> bool" where
  "served P S admin v k \<longleftrightarrow>
     (\<exists>rest. k = HttpGet (MEMPOOL_API P @ ascii ''/address/'' @ kv_address v) # rest)
     \<and> length (filter is_send k) \<le> 1
     \<and> (\<forall>balance height hash ix. explorer_shows P S (kv_address v) balance height hash
          \<and> keeper_buildAttestIx P admin (kv_pubkey v) balance height hash = Inr ix
        \<longrightarrow> filter is_send k
            = [SendAndConfirm \<lparr>tx_instructions = [ix], tx_feePayer = None, tx_recentBlockhash = None\<rparr>])"

lemma attest_vault_bounded:
  "\<exists>k. attest_vault P S admin v h
      = (Inr (), h @ HttpGet (MEMPOOL_API P @ ascii ''/address/'' @ kv_address v) # k)
    \<and> length (filter is_send k) \<le> 1"
proof -
  obtain r k where s: "fetchAddressSnapshot P S (kv_address v) h
      = (r, h @ HttpGet (MEMPOOL_API P @ ascii ''/address/'' @ kv_address v) # k)"
    "filter is_send k = []"
    using fetchAddressSnapshot_run by blast
  then show ?thesis
    by (cases r) (auto simp: attest_vault_def io_catch_def io_bind_def send_and_confirm_def Let_def
        split: sum.splits)
qed

lemma attest_vault_posts:
  assumes "explorer_shows P S (kv_address v) balance height hash"
    and "keeper_buildAttestIx P admin (kv_pubkey v) balance height hash = Inr ix"
    and "attest_vault P S admin v h = (r, h @ k)"
  shows "filter is_send k
    = [SendAndConfirm \<lparr>tx_instructions = [ix], tx_feePayer = None, tx_recentBlockhash = None\<rparr>]"
proof -
  obtain k' where "fetchAddressSnapshot P S (kv_address v) h = (Inr \<lparr>sn_satoshis = balance,
      sn_blockHeight = height, sn_blockHash = hash\<rparr>,
      h @ HttpGet (MEMPOOL_API P @ ascii ''/address/'' @ kv_address v) # k')" "filter is_send k' = []"
    using snapshot_shown [OF assms(1)] by blast
  then show ?thesis
    using assms(2,3)
    by (auto simp: attest_vault_def io_catch_def io_bind_def send_and_confirm_def Let_def split: sum.splits)
qed

lemma attest_vault_run: "\<exists>k. attest_vault P S admin v h = (Inr (), h @ k) \<and> served P S admin v k"
proof -
  obtain k where k: "attest_vault P S admin v h
      = (Inr (), h @ HttpGet (MEMPOOL_API P @ ascii ''/address/'' @ kv_address v) # k)"
    "length (filter is_send k) \<le> 1"
    using attest_vault_bounded by blast
  then show ?thesis
    using attest_vault_posts [OF _ _ k(1)] unfolding served_def
    by (intro exI [of _ "HttpGet (MEMPOOL_API P @ ascii ''/address/'' @ kv_address v) # k"]) auto
qed

lemma attest_vaults_run:
  "\<exists>ks. attest_vaults P S admin vs h = (Inr (), h @ concat ks) \<and> list_all2 (served P S admin) vs ks"
proof (induction vs arbitrary: h)
  case (Cons v vs)
  obtain k where k: "attest_vault P S admin v h = (Inr (), h @ k)" "served P S admin v k"
    using attest_vault_run by blast
  obtain ks where "attest_vaults P S admin vs (h @ k) = (Inr (), (h @ k) @ concat ks)"
    "list_all2 (served P S admin) vs ks"
    using Cons by blast
  then show ?case
    using k by (intro exI [of _ "k # ks"]) (simp add: io_bind_def)
qed simp

lemma keeper_loop_never_throws: "\<exists>h'. keeper_loop n P S admin single poll h = (Inr (), h')"
proof (induction n arbitrary: h)
  case (Suc n)
  obtain r g where "keeperTick P S admin h = (r, g)" by fastforce
  then obtain h1 where "io_catch (keeperTick P S admin)
      (\<lambda>err. tell (Warn (ascii ''[btc-keeper] tick failed (will retry):''))) h = (Inr (), h1)"
    by (cases r) (simp_all add: io_catch_def)
  then show ?case using Suc [of "h1 @ [Wait poll]"] by (cases single) (simp_all add: io_bind_def)
qed simp

text \<open>Polls do not wait.\<close>

lemma poll_confirmations_waits:
  assumes "poll_confirmations P S m txid h = (r, h')"
  shows "requests_of is_wait h' = requests_of is_wait h"
proof -
  obtain q where q: "fetchJson (json_tx_status S) S (MEMPOOL_API P @ ascii ''/tx/'' @ txid) h
      = (q, h @ [HttpGet (MEMPOOL_API P @ ascii ''/tx/'' @ txid)])"
    using fetchJson_run by blast
  show ?thesis
    using assms q
    by (cases q) (auto simp: poll_confirmations_def io_bind_def requests_of_def Let_def
        split: if_splits option.splits sum.splits)
qed

text \<open>The explorer as the broadcaster asks it about a transaction: it always answers with a status the script
  can read, and once confirmed in block \<open>b\<close>; the tip is always a number; from the \<open>n\<close>-th wait on the
  transaction is confirmed and the tip has \<open>m\<close> blocks from block \<open>b\<close> on.\<close>

definition explorer_confirms ::
    "platform \<Rightarrow> services \<Rightarrow> jstext \<Rightarrow> nat \<Rightarrow> int \<Rightarrow> int \<Rightarrow> bool" where
  "explorer_confirms P S txid n b m \<longleftrightarrow>
     (\<forall>g. \<exists>res st. http_get S g (MEMPOOL_API P @ ascii ''/tx/'' @ txid) = Inr res \<and> response_ok res
        \<and> json_tx_status S (http_body res) = Inr st
        \<and> (\<forall>s. st = Some s \<and> st_confirmed s \<longrightarrow> st_block_height s = Some b)
        \<and> (n \<le> requests_of is_wait g \<longrightarrow> (\<exists>s. st = Some s \<and> st_confirmed s)))
     \<and> (\<forall>g. \<exists>res t. http_get S g (MEMPOOL_API P @ ascii ''/blocks/tip/height'') = Inr res
        \<and> number_of_text S (http_body res) = Some (of_int t)
        \<and> (n \<le> requests_of is_wait g \<longrightarrow> b + m - 1 \<le> t))"

lemma poll_answered:
  assumes "explorer_confirms P S txid n b m" "0 < b"
  shows "(\<exists>msg g'. poll_confirmations P S m txid g = (Inr (Inl msg), g') \<and> requests_of is_wait g < n)
    \<or> (\<exists>c g1 res. poll_confirmations P S m txid g
          = (Inr (Inr (b, c)), g1 @ [HttpGet (MEMPOOL_API P @ ascii ''/blocks/tip/height'')])
        \<and> m \<le> c \<and> http_get S g1 (MEMPOOL_API P @ ascii ''/blocks/tip/height'') = Inr res
        \<and> number_of_text S (http_body res) = Some (of_int (b + c - 1)))"
proof -
  let ?u = "MEMPOOL_API P @ ascii ''/tx/'' @ txid" and ?t = "MEMPOOL_API P @ ascii ''/blocks/tip/height''"
  obtain res st where st: "http_get S g ?u = Inr res" "response_ok res"
      "json_tx_status S (http_body res) = Inr st"
      "\<forall>s. st = Some s \<and> st_confirmed s \<longrightarrow> st_block_height s = Some b"
      "n \<le> requests_of is_wait g \<longrightarrow> (\<exists>s. st = Some s \<and> st_confirmed s)"
    using assms(1) unfolding explorer_confirms_def by blast
  have status: "fetchJson (json_tx_status S) S ?u g = (Inr st, g @ [HttpGet ?u])"
    using st(3) by (simp add: fetchJson_def fetchText_shown [OF st(1,2)] io_bind_def)
  show ?thesis
  proof (cases "\<exists>s. st = Some s \<and> st_confirmed s")
    case False
    then show ?thesis
      using st(5) by (auto simp: poll_confirmations_def io_bind_def status Let_def split: option.splits)
  next
    case True
    then obtain s where s: "st = Some s" "st_confirmed s" "st_block_height s = Some b" using st(4) by blast
    have waits: "requests_of is_wait (g @ [HttpGet ?u]) = requests_of is_wait g" by (simp add: requests_of_def)
    obtain tip t where tip: "http_get S (g @ [HttpGet ?u]) ?t = Inr tip"
        "number_of_text S (http_body tip) = Some (of_int t)"
        "n \<le> requests_of is_wait g \<longrightarrow> b + m - 1 \<le> t"
      using assms(1) waits unfolding explorer_confirms_def by metis
    have "poll_confirmations P S m txid g = (if t - b + 1 \<ge> m then Inr (Inr (b, t - b + 1)) else
        Inr (Inl (ascii ''[btc-broadcaster] tx '' @ txid @ ascii '' confirmed with ''
                  @ bigint_to_text (t - b + 1) @ ascii '', waiting...'')), (g @ [HttpGet ?u]) @ [HttpGet ?t])"
      using s tip(1,2) assms(2)
      by (simp add: poll_confirmations_def io_bind_def status text_number_def confirmations_of_def)
    then show ?thesis using tip by (cases "t - b + 1 \<ge> m") auto
  qed
qed

lemma waitForConfirmations_reaches:
  assumes "explorer_confirms P S txid n b m" "0 < b"
  shows "n \<le> requests_of is_wait h + j \<Longrightarrow>
    \<exists>c g res. waitForConfirmations (Suc j) P S m txid h
        = (Inr (Some (b, c)), g @ [HttpGet (MEMPOOL_API P @ ascii ''/blocks/tip/height'')])
      \<and> m \<le> c \<and> http_get S g (MEMPOOL_API P @ ascii ''/blocks/tip/height'') = Inr res
      \<and> number_of_text S (http_body res) = Some (of_int (b + c - 1))"
proof (induction j arbitrary: h)
  case 0
  then show ?case using poll_answered [OF assms, of h] by (auto simp: io_bind_def)
next
  case (Suc j)
  from poll_answered [OF assms, of h] show ?case
  proof (elim disjE exE conjE)
    fix msg g' assume p: "poll_confirmations P S m txid h = (Inr (Inl msg), g')"
    have "n \<le> requests_of is_wait (g' @ [Log msg [], Wait 30000]) + j"
      using Suc.prems poll_confirmations_waits [OF p] by (simp add: requests_of_def)
    from Suc.IH [OF this] show ?thesis using p by (simp add: io_bind_def)
  qed (auto simp: io_bind_def)
qed

section \<open>Properties\<close>

text \<open>Where their numbers fit, the scripts build the instructions the frontend builds, so what is
  shown of those holds of what the daemons send.\<close>

theorem scripts_builders_agree:
  assumes "PROGRAM_ID P = scripts_PROGRAM_ID" "length hash = 32" "length (hex_decode txid) = 32"
    and "0 \<le> sats" "sats < 2 ^ 64" "0 \<le> height" "height < 2 ^ 64" "0 \<le> confs" "confs < 2 ^ 32"
  shows "keeper_buildAttestIx P keeper vault sats height hash
       = buildAttestBtcBalanceIx P keeper vault sats height hash
    \<and> keeper_buildFinalizeIx P keeper vault txid height confs sats
       = buildFinalizeBtcLiquidationIx P keeper vault (hex_decode txid) height confs sats
    \<and> buildUpdatePriceIx P admin assetType sats
       = js_bind (buildUpdateAdminPriceIx P admin assetType sats) (\<lambda>(ix, feed). Inr ix)"
proof -
  have "keeper_buildAttestIx P keeper vault sats height hash
       = buildAttestBtcBalanceIx P keeper vault sats height hash"
    using assms
    by (simp add: keeper_buildAttestIx_def buildAttestBtcBalanceIx_def keeper_derivations js_bind_assoc
        case_prod_beta Let_def)
  moreover have "keeper_buildFinalizeIx P keeper vault txid height confs sats
       = buildFinalizeBtcLiquidationIx P keeper vault (hex_decode txid) height confs sats"
    using assms
    by (simp add: keeper_buildFinalizeIx_def buildFinalizeBtcLiquidationIx_def keeper_derivations
        js_bind_assoc case_prod_beta Let_def)
  moreover have "buildUpdatePriceIx P admin assetType sats
       = js_bind (buildUpdateAdminPriceIx P admin assetType sats) (\<lambda>(ix, feed). Inr ix)"
    using assms
    by (simp add: buildUpdatePriceIx_def buildUpdateAdminPriceIx_def keeper_derivations js_bind_assoc
        case_prod_beta Let_def)
  ultimately show ?thesis by blast
qed

lemma scripts_builders_agree_witness:
  "keeper_buildAttestIx demo_platform 1 2 5 7 (replicate 32 9)
     = buildAttestBtcBalanceIx demo_platform 1 2 5 7 (replicate 32 9)"
proof -
  have p: "PROGRAM_ID demo_platform = scripts_PROGRAM_ID"
    by (simp add: PROGRAM_ID_def env_pubkey_def demo_platform_def scripts_PROGRAM_ID_def)
  have x: "length (hex_decode (replicate 64 48)) = 32"
    by (simp add: replicate_numeral digit_value_def)
  show ?thesis
    using scripts_builders_agree [OF p _ x, of "replicate 32 9" 5 7 1 1 2 3 0] by simp
qed

text \<open>C21: a tick of the balance keeper serves every vault it finds, whatever goes wrong with the others: it
  never throws once the accounts are listed, and after its log line its requests are those for the vaults, one
  group each, in their order. A group asks for the balance of the vault's address first and sends at most one
  transaction; when the explorer shows the address and the tip, and the builder takes the numbers, it sends
  exactly one, the attestation of that balance, height and hash for that vault.\<close>

theorem keeperTick_serves_all:
  assumes "getProgramAccounts (rpc_accounts S h) scripts_PROGRAM_ID [DataSize keeper_BTC_VAULT_LEN]
             = Inr accounts"
  shows "\<exists>vaults msg ks. parse_vaults accounts = Inr vaults
    \<and> keeperTick P S admin h = (Inr (), h @ [ReadAccounts, Log msg []] @ concat ks)
    \<and> list_all2 (served P S admin) vaults ks"
proof -
  obtain vaults where v: "parse_vaults accounts = Inr vaults" using parse_vaults_total by blast
  let ?n = "ascii ''[btc-keeper] '' @ nat_to_text (length vaults) @ ascii '' BTC vault(s) found''"
  obtain ks where "attest_vaults P S admin vaults (h @ [ReadAccounts, Log ?n []])
      = (Inr (), (h @ [ReadAccounts, Log ?n []]) @ concat ks)" "list_all2 (served P S admin) vaults ks"
    using attest_vaults_run by blast
  then show ?thesis
    using assms v
    by (cases "vaults = []")
      (simp add: keeperTick_def io_bind_def, intro exI [of _ vaults] exI [of _ ?n] exI [of _ ks],
       simp add: keeperTick_def io_bind_def)
qed

definition one_vault_data :: bytes where
  "one_vault_data = replicate 137 0 @ [116, 98, 49] @ replicate 61 0 @ [3] @ replicate 67 0"

text \<open>An explorer that shows five satoshis, the tip at height zero.\<close>

definition exploring :: services where
  "exploring = demo_services\<lparr>
     rpc_accounts := (\<lambda>_. \<lparr>getAccountInfo = (\<lambda>_. Inr None),
       getProgramAccounts = (\<lambda>_ _. Inr [(8, one_vault_data)])\<rparr>),
     http_get := (\<lambda>_ _. Inr \<lparr>http_status = 200, http_body = replicate 64 48\<rparr>),
     json_summary := (\<lambda>_. Inr \<lparr>chain_stats = Some \<lparr>funded_txo_sum = Some 6, spent_txo_sum = Some 3\<rparr>,
       mempool_stats = Some \<lparr>funded_txo_sum = Some 2, spent_txo_sum = Some 0\<rparr>\<rparr>)\<rparr>"

lemma exploring_shows: "explorer_shows demo_platform exploring a 5 0 (replicate 32 0)"
  by (simp add: explorer_shows_def exploring_def response_ok_def js_BigInt_def js_trim_def is_white_space_def
      literal_def digit_value_def replicate_numeral)

lemma one_vault_parsed: "parse_vaults [(8, one_vault_data)] = Inr [\<lparr>kv_pubkey = 8, kv_address = [116, 98, 49]\<rparr>]"
proof -
  have d: "subarray one_vault_data 137 201 = [116, 98, 49] @ replicate 61 0" "one_vault_data ! 201 = 3"
    "length one_vault_data = 269" "take 3 (drop 137 one_vault_data) = [116, 98, 49]"
    by (simp_all add: one_vault_data_def subarray_def nth_append)
  have "text_decode [116, 98, 49] = [116, 98, 49]"
    by (simp add: text_decode_def strip_bom_def)
  then show ?thesis
    using d by (simp add: parseBtcVault_def keeper_BTC_VAULT_LEN_def read_u8_long subarray_def ascii_def Let_def)
qed

lemma keeperTick_serves_all_witness:
  "\<exists>k ix. keeperTick demo_platform exploring 1 [] = (Inr (), k)
   \<and> keeper_buildAttestIx demo_platform 1 8 5 0 (replicate 32 0) = Inr ix
   \<and> SendAndConfirm \<lparr>tx_instructions = [ix], tx_feePayer = None, tx_recentBlockhash = None\<rparr> \<in> set k"
proof -
  obtain ix where ix: "keeper_buildAttestIx demo_platform 1 8 5 0 (replicate 32 0) = Inr ix"
    by (simp add: keeper_buildAttestIx_def keeper_pda_def keeper_protocolStatePda_def demo_platform_def
        keeper_u64ToLe_def)
  have "getProgramAccounts (rpc_accounts exploring []) scripts_PROGRAM_ID [DataSize keeper_BTC_VAULT_LEN]
      = Inr [(8, one_vault_data)]"
    by (simp add: exploring_def)
  from keeperTick_serves_all [OF this, of demo_platform 1] obtain msg ks where
    t: "keeperTick demo_platform exploring 1 [] = (Inr (), [ReadAccounts, Log msg []] @ concat ks)"
    "list_all2 (served demo_platform exploring 1) [\<lparr>kv_pubkey = 8, kv_address = [116, 98, 49]\<rparr>] ks"
    by (auto simp only: one_vault_parsed append_Nil sum.inject)
  then obtain k where "ks = [k]" "served demo_platform exploring 1 \<lparr>kv_pubkey = 8, kv_address = [116, 98, 49]\<rparr> k"
    by (auto simp: list_all2_Cons1)
  moreover from this(2) have "filter is_send k
      = [SendAndConfirm \<lparr>tx_instructions = [ix], tx_feePayer = None, tx_recentBlockhash = None\<rparr>]"
    using exploring_shows ix unfolding served_def keeper_vault.select_convs by blast
  then have "SendAndConfirm \<lparr>tx_instructions = [ix], tx_feePayer = None, tx_recentBlockhash = None\<rparr> \<in> set k"
    by (metis filter_is_subset list.set_intros(1) subsetD)
  ultimately show ?thesis using t(1) ix by auto
qed

text \<open>C29: the wait for confirmations ends, and with the right numbers: when the explorer answers every poll,
  and from the \<open>n\<close>-th wait on shows the transaction confirmed in block \<open>b\<close> with \<open>m\<close> confirmations, the loop
  returns within \<open>n + 1\<close> polls, with that block and with at least \<open>m\<close> confirmations, counted from the tip
  the explorer gave in answer to the last request made.\<close>

theorem waitForConfirmations_returns:
  assumes "explorer_confirms P S txid n b m" "0 < b"
  shows "\<exists>c g res. waitForConfirmations (n + 1) P S m txid h
        = (Inr (Some (b, c)), g @ [HttpGet (MEMPOOL_API P @ ascii ''/blocks/tip/height'')])
      \<and> m \<le> c \<and> http_get S g (MEMPOOL_API P @ ascii ''/blocks/tip/height'') = Inr res
      \<and> number_of_text S (http_body res) = Some (of_int (b + c - 1))"
  using waitForConfirmations_reaches [OF assms, of h n] by simp

text \<open>A transaction unseen at first, and in block 7 of 9 after a wait.\<close>

definition confirming :: services where
  "confirming = demo_services\<lparr>
     http_get := (\<lambda>g url. Inr \<lparr>http_status = 200, http_body = (if requests_of is_wait g = 0 then [] else [57])\<rparr>),
     json_tx_status := (\<lambda>t. Inr (if t = [] then None else Some \<lparr>st_confirmed = True, st_block_height = Some 7\<rparr>)),
     number_of_text := (\<lambda>t. Some (if t = [] then 0 else 9))\<rparr>"

lemma waitForConfirmations_returns_witness:
  "\<exists>c h'. waitForConfirmations 2 demo_platform confirming 3 [] [] = (Inr (Some (7, c)), h') \<and> 3 \<le> c"
proof -
  have "explorer_confirms demo_platform confirming [] 1 7 3"
    unfolding explorer_confirms_def
  proof (intro conjI allI)
    fix g
    show "\<exists>res t. http_get confirming g (MEMPOOL_API demo_platform @ ascii ''/blocks/tip/height'') = Inr res
        \<and> number_of_text confirming (http_body res) = Some (of_int t)
        \<and> (1 \<le> requests_of is_wait g \<longrightarrow> 7 + 3 - 1 \<le> t)"
      by (cases "requests_of is_wait g = 0")
        (simp add: confirming_def exI [of _ 0], simp add: confirming_def exI [of _ 9])
  qed (simp add: confirming_def response_ok_def)
  from waitForConfirmations_returns [OF this, of "[]"] show ?thesis by (auto simp: numeral_2_eq_2)
qed

section \<open>Two behaviours worth knowing\<close>

text \<open>A transaction that is in the chain already is not finalised: the text of the refusal is taken
  for its id.\<close>

lemma broadcast_returns_refusal:
  assumes "http_post S h (MEMPOOL_API P @ ascii ''/tx'') raw
      = Inr \<lparr>http_status = 400, http_body = ascii ''Transaction already in block chain''\<rparr>"
  shows "fst (broadcast P S raw h) = Inr (ascii ''Transaction already in block chain'')"
  using assms
  by (simp add: broadcast_def io_bind_def response_ok_def js_toLowerCase_def ascii_def js_trim_def
      is_white_space_def Let_def)

text \<open>An amount that is only in the mempool is attested like a confirmed one.\<close>

lemma unconfirmed_is_attested:
  "net_satoshis \<lparr>chain_stats = Some \<lparr>funded_txo_sum = Some 0, spent_txo_sum = Some 0\<rparr>,
      mempool_stats = Some \<lparr>funded_txo_sum = Some (int n), spent_txo_sum = Some 0\<rparr>\<rparr> = int n"
  by (simp add: net_satoshis_def stats_sum_def Let_def)

end
