(* ===== verification/Sdk_Client.thy ===== *)
theory Sdk_Client
  imports Services
begin

text \<open>
  The class \<open>LendGuard\<close> of \<open>packages/sdk/src/client.ts\<close> and the parameter types of \<open>types.ts\<close>: checks of
  the required fields, then a call of the Anchor program object, or without one a made-up answer.
\<close>

section \<open>Configuration\<close>

datatype cluster = devnet | testnet | mainnet_beta

record client_config =
  cfg_wallet :: sdk_value
  cfg_cluster :: "cluster option"
  cfg_programId :: "jstext option"
  cfg_program :: bool

record lendguard =
  lg_wallet :: sdk_value
  lg_cluster :: cluster
  lg_programId :: jstext
  lg_program :: bool

definition DEFAULT_PROGRAM_ID :: jstext where
  "DEFAULT_PROGRAM_ID = ascii ''GQia1ewyLgtkgX7HSfuttJ42qNPpYJhUbxeyCPXtcJFR''"

definition new_LendGuard :: "client_config \<Rightarrow> lendguard" where
  "new_LendGuard config =
     \<lparr>lg_wallet = cfg_wallet config,
      lg_cluster = (case cfg_cluster config of None \<Rightarrow> devnet | Some c \<Rightarrow> c),
      lg_programId = (case cfg_programId config of None \<Rightarrow> DEFAULT_PROGRAM_ID | Some p \<Rightarrow> p),
      lg_program = cfg_program config\<rparr>"

section \<open>Helpers\<close>

text \<open>A parameter as it arrives at run time: \<open>undefined\<close> or a text.\<close>

definition value_of :: "jstext option \<Rightarrow> sdk_value" where
  "value_of t = (case t of None \<Rightarrow> SdkUndefined | Some s \<Rightarrow> SdkText s)"

definition absent :: "jstext option \<Rightarrow> bool" where
  "absent v \<longleftrightarrow> v = None \<or> v = Some []"

definition assertRequired :: "string \<Rightarrow> jstext option \<Rightarrow> unit io" where
  "assertRequired field v =
     (if absent v then
        io_throw (ErrorText (ascii ''Missing required field: '' @ ascii field))
      else io_return ())"

definition toAssetType :: "jstext option \<Rightarrow> int" where
  "toAssetType asset =
     (if asset = Some (ascii ''BTC'') then 0 else if asset = Some (ascii ''ETH'') then 1 else 2)"

text \<open>The loop that copies at most 32 bytes into 32 zeros.\<close>

fun copy_bytes :: "nat \<Rightarrow> nat list \<Rightarrow> bytes \<Rightarrow> nat list" where
  "copy_bytes i out [] = out"
| "copy_bytes i out (b # bs) = copy_bytes (i + 1) (out[i := unat b]) bs"

definition toBytes32 :: "jstext \<Rightarrow> nat list" where
  "toBytes32 s =
     (let bytes = text_encode s; len = min (length bytes) 32
      in copy_bytes 0 (replicate 32 0) (take len bytes))"

definition program_call ::
    "services \<Rightarrow> string \<Rightarrow> sdk_value list \<Rightarrow> (string \<times> sdk_value) list \<Rightarrow> jstext io" where
  "program_call S method args accounts =
     ask (ProgramCall method args accounts) (\<lambda>h. program_rpc S h method args accounts)"

section \<open>Methods\<close>

definition sdk_initializeProtocol :: "services \<Rightarrow> lendguard \<Rightarrow> jstext io" where
  "sdk_initializeProtocol S c =
     (if lg_program c then program_call S ''initializeProtocol'' [] [(''admin'', lg_wallet c)]
      else io_return (ascii ''mock:initialize_protocol''))"

definition sdk_initializeRiskState ::
    "services \<Rightarrow> lendguard \<Rightarrow> jstext option \<Rightarrow> jstext option \<Rightarrow> jstext io" where
  "sdk_initializeRiskState S c vaultId thresholdCiphertext =
     io_bind (assertRequired ''vaultId'' vaultId) (\<lambda>_.
     io_bind (assertRequired ''thresholdCiphertext'' thresholdCiphertext) (\<lambda>_.
     if lg_program c then
       program_call S ''initializeRiskState'' [value_of thresholdCiphertext]
         [(''vault'', value_of vaultId), (''owner'', lg_wallet c)]
     else io_return (ascii ''mock:initialize_risk_state'')))"

definition sdk_depositCollateral ::
    "services \<Rightarrow> lendguard \<Rightarrow> jstext option \<Rightarrow> jstext option \<Rightarrow> int \<Rightarrow> jstext io" where
  "sdk_depositCollateral S c vaultId protocolState amount =
     io_bind (assertRequired ''vaultId'' vaultId) (\<lambda>_.
     io_bind (assertRequired ''protocolState'' protocolState) (\<lambda>_.
     if lg_program c then
       program_call S ''depositCollateral'' [SdkNumber amount]
         [(''vault'', value_of vaultId), (''protocolState'', value_of protocolState),
          (''depositor'', lg_wallet c)]
     else io_return (ascii ''mock:deposit_collateral'')))"

definition sdk_adminUnfreeze ::
    "services \<Rightarrow> lendguard \<Rightarrow> jstext option \<Rightarrow> jstext option \<Rightarrow> jstext io" where
  "sdk_adminUnfreeze S c vaultId protocolState =
     io_bind (assertRequired ''vaultId'' vaultId) (\<lambda>_.
     io_bind (assertRequired ''protocolState'' protocolState) (\<lambda>_.
     if lg_program c then
       program_call S ''adminUnfreeze'' []
         [(''vault'', value_of vaultId), (''protocolState'', value_of protocolState),
          (''admin'', lg_wallet c)]
     else io_return (ascii ''mock:admin_unfreeze'')))"

definition sdk_registerVault ::
    "services \<Rightarrow> lendguard \<Rightarrow> jstext option \<Rightarrow> jstext option \<Rightarrow> jstext io" where
  "sdk_registerVault S c dwalletId assetType =
     io_bind (assertRequired ''dwalletId'' dwalletId) (\<lambda>_.
     io_bind (assertRequired ''assetType'' assetType) (\<lambda>_.
     if lg_program c then
       program_call S ''registerVault''
         [SdkBytes (toBytes32 (the dwalletId)), SdkNumber (toAssetType assetType)]
         [(''owner'', lg_wallet c)]
     else io_return (ascii ''vault:'' @ the dwalletId)))"

record verify_custody_result =
  vc_isValid :: bool
  vc_checkedAt :: int

definition sdk_verifyCustodyProof ::
    "services \<Rightarrow> lendguard \<Rightarrow> jstext option \<Rightarrow> jstext option \<Rightarrow> jstext option \<Rightarrow> verify_custody_result io" where
  "sdk_verifyCustodyProof S c vaultId expectedDwalletId messageApproval =
     io_bind (assertRequired ''vaultId'' vaultId) (\<lambda>_.
     io_bind (assertRequired ''expectedDwalletId'' expectedDwalletId) (\<lambda>_.
     io_bind (assertRequired ''messageApproval'' messageApproval) (\<lambda>_.
     io_bind (if lg_program c then
         io_bind (program_call S ''verifyCustodyProof'' [SdkBytes (toBytes32 (the expectedDwalletId))]
           [(''vault'', value_of vaultId), (''messageApproval'', value_of messageApproval),
            (''signer'', lg_wallet c)]) (\<lambda>_. io_return ())
       else io_return ()) (\<lambda>_.
     (\<lambda>h. io_return \<lparr>vc_isValid = True, vc_checkedAt = date_now S h\<rparr> h)))))"

definition sdk_updateBackingState ::
    "services \<Rightarrow> lendguard \<Rightarrow> jstext option \<Rightarrow> jstext option \<Rightarrow> jstext option \<Rightarrow> int \<Rightarrow> jstext io" where
  "sdk_updateBackingState S c vaultId riskState backingCiphertext newBackingAmount =
     io_bind (assertRequired ''vaultId'' vaultId) (\<lambda>_.
     io_bind (assertRequired ''riskState'' riskState) (\<lambda>_.
     io_bind (assertRequired ''backingCiphertext'' backingCiphertext) (\<lambda>_.
     if lg_program c then
       program_call S ''updateBackingState'' [SdkNumber newBackingAmount]
         [(''vault'', value_of vaultId), (''riskState'', value_of riskState),
          (''backingCiphertext'', value_of backingCiphertext), (''oracle'', lg_wallet c),
          (''payer'', lg_wallet c)]
     else io_return (ascii ''mock:update_backing_state''))))"

record risk_check_result =
  rc_isSafe :: bool
  rc_checkedAt :: int

definition sdk_triggerRiskCheck ::
    "services \<Rightarrow> lendguard \<Rightarrow> jstext option \<Rightarrow> jstext option \<Rightarrow> jstext option \<Rightarrow> jstext option
     \<Rightarrow> jstext option \<Rightarrow> risk_check_result io" where
  "sdk_triggerRiskCheck S c vaultId riskState backingCiphertext thresholdCiphertext resultCiphertext =
     io_bind (assertRequired ''vaultId'' vaultId) (\<lambda>_.
     io_bind (assertRequired ''riskState'' riskState) (\<lambda>_.
     io_bind (assertRequired ''backingCiphertext'' backingCiphertext) (\<lambda>_.
     io_bind (assertRequired ''thresholdCiphertext'' thresholdCiphertext) (\<lambda>_.
     io_bind (assertRequired ''resultCiphertext'' resultCiphertext) (\<lambda>_.
     io_bind (if lg_program c then
         io_bind (program_call S ''triggerRiskCheck'' []
           [(''vault'', value_of vaultId), (''riskState'', value_of riskState),
            (''backingCiphertext'', value_of backingCiphertext),
            (''thresholdCiphertext'', value_of thresholdCiphertext),
            (''resultCiphertext'', value_of resultCiphertext), (''payer'', lg_wallet c)])
           (\<lambda>_. io_return ())
       else io_return ()) (\<lambda>_.
     (\<lambda>h. io_return \<lparr>rc_isSafe = True, rc_checkedAt = date_now S h\<rparr> h)))))))"

section \<open>Lemmas\<close>

lemma copy_bytes_take:
  "i + length bs \<le> length out \<Longrightarrow>
   copy_bytes i out bs = take i out @ map unat bs @ drop (i + length bs) out"
proof (induction bs arbitrary: i out)
  case (Cons b bs)
  have "take (Suc i) (out[i := unat b]) = take i out @ [unat b]"
    using Cons.prems by (simp add: take_Suc_conv_app_nth)
  then show ?case using Cons.prems Cons.IH [of "i + 1" "out[i := unat b]"] by simp
qed simp

text \<open>The first required field of a list that is absent or empty.\<close>

fun first_missing :: "(string \<times> jstext option) list \<Rightarrow> string option" where
  "first_missing [] = None"
| "first_missing ((f, v) # fs) = (if absent v then Some f else first_missing fs)"

definition missing_error :: "string \<Rightarrow> js_error" where
  "missing_error f = ErrorText (ascii ''Missing required field: '' @ ascii f)"

lemma bind_assertRequired:
  "io_bind (assertRequired f v) k =
     (if absent v then io_throw (missing_error f) else k ())"
  by (cases "absent v") (simp_all only: assertRequired_def missing_error_def io_simps if_True if_False)

lemma value_of_present: "\<not> absent v \<Longrightarrow> value_of v = SdkText (the v)"
  by (auto simp: value_of_def absent_def)

lemma toBytes32_dwallet: "toBytes32 s = map unat (dwalletIdToBytes s)"
proof -
  let ?b = "take 32 (text_encode s)"
  have "toBytes32 s = copy_bytes 0 (replicate 32 0) ?b"
    by (simp add: toBytes32_def Let_def min_def)
  also have "\<dots> = map unat ?b @ drop (length ?b) (replicate 32 0)"
    by (subst copy_bytes_take) (simp_all add: min_def)
  also have "drop (length ?b) (replicate 32 0) = replicate (32 - length ?b) (0 :: nat)"
    by (simp only: drop_replicate)
  finally show ?thesis
    by (simp add: dwalletIdToBytes_def Let_def)
qed

section \<open>Outcomes\<close>

text \<open>A risk check with an absent or empty parameter throws for the first such one before any
  request; otherwise exactly one call reaches the program (none without a program object), its error
  is passed on, and any answer it gives is reported as a safe vault.\<close>

theorem sdk_triggerRiskCheck_outcome:
  "sdk_triggerRiskCheck S c vault risk backing threshold result h =
     (case first_missing [(''vaultId'', vault), (''riskState'', risk), (''backingCiphertext'', backing),
        (''thresholdCiphertext'', threshold), (''resultCiphertext'', result)] of
      Some f \<Rightarrow> (Inl (missing_error f), h)
    | None \<Rightarrow>
        (if \<not> lg_program c then (Inr \<lparr>rc_isSafe = True, rc_checkedAt = date_now S h\<rparr>, h)
         else
           (let accounts = [(''vault'', SdkText (the vault)), (''riskState'', SdkText (the risk)),
                (''backingCiphertext'', SdkText (the backing)),
                (''thresholdCiphertext'', SdkText (the threshold)),
                (''resultCiphertext'', SdkText (the result)), (''payer'', lg_wallet c)];
                h' = h @ [ProgramCall ''triggerRiskCheck'' [] accounts]
            in case program_rpc S h ''triggerRiskCheck'' [] accounts of
                 Inl e \<Rightarrow> (Inl e, h')
               | Inr _ \<Rightarrow> (Inr \<lparr>rc_isSafe = True, rc_checkedAt = date_now S h'\<rparr>, h'))))"
  unfolding sdk_triggerRiskCheck_def bind_assertRequired first_missing.simps
  by (cases "absent vault", simp, cases "absent risk", simp,
      cases "absent backing", simp,
      cases "absent threshold", simp,
      cases "absent result", simp)
    (simp add: value_of_present program_call_def Let_def io_bind_def split: sum.split)

text \<open>The registration of a vault passes the program the 32 bytes the page derives the vault's
  address from.\<close>

lemma sdk_registerVault_bytes:
  assumes "lg_program c" "d \<noteq> []" "a \<noteq> []"
  shows "sdk_registerVault S c (Some d) (Some a) h =
    (program_rpc S h ''registerVault''
       [SdkBytes (map unat (dwalletIdToBytes d)), SdkNumber (toAssetType (Some a))]
       [(''owner'', lg_wallet c)],
     h @ [ProgramCall ''registerVault''
       [SdkBytes (map unat (dwalletIdToBytes d)), SdkNumber (toAssetType (Some a))]
       [(''owner'', lg_wallet c)]])"
  using assms by (simp add: sdk_registerVault_def bind_assertRequired absent_def program_call_def toBytes32_dwallet)

text \<open>A custody proof the program refuses is an error; one it accepts, or one never shown to a
  program, is reported as valid.\<close>

lemma sdk_verifyCustodyProof_valid:
  "sdk_verifyCustodyProof S c v d m h = (Inr r, h') \<Longrightarrow> vc_isValid r"
  by (auto simp: sdk_verifyCustodyProof_def bind_assertRequired io_bind_eq_Inr split: if_splits)

end
