(* ===== verification/Torque.thy ===== *)
theory Torque
  imports Complex_Main Amounts
begin

text \<open>
  The Torque loyalty events: \<open>web/lib/torque-events.ts\<close> (names and the guardian's steps),
  \<open>web/lib/torque-client.ts\<close> (the events kept in \<open>localStorage\<close> and sent to the proxy) and the proxy,
  \<open>web/app/api/torque/events/route.ts\<close>. A text that is JSON is represented by the value it denotes.
\<close>

section \<open>JSON\<close>

datatype json =
    JNull
  | JBool bool
  | JNumber rat
  | JText jstext
  | JArray "json list"
  | JObject "(jstext \<times> json) list"

datatype stored_text = JsonText json | OtherText jstext

text \<open>\<open>JSON.parse\<close>\<close>

fun json_parse :: "stored_text \<Rightarrow> json js" where
  "json_parse (JsonText v) = Inr v"
| "json_parse (OtherText t) = Inl SyntaxError"

text \<open>Property access on a value other than \<open>null\<close>: an absent property is \<open>undefined\<close>.\<close>

fun json_field :: "jstext \<Rightarrow> json \<Rightarrow> json option" where
  "json_field k (JObject fs) = map_of fs k"
| "json_field k _ = None"

text \<open>\<open>value ?? fallback\<close>\<close>

definition json_or :: "json option \<Rightarrow> json \<Rightarrow> json" where
  "json_or v d = (case v of None \<Rightarrow> d | Some x \<Rightarrow> if x = JNull then d else x)"

fun json_truthy :: "json \<Rightarrow> bool" where
  "json_truthy JNull = False"
| "json_truthy (JBool b) = b"
| "json_truthy (JNumber r) = (r \<noteq> 0)"
| "json_truthy (JText t) = (t \<noteq> [])"
| "json_truthy _ = True"

section \<open>Names and steps\<close>

definition TORQUE_EVENT_NAMES :: "jstext list" where
  "TORQUE_EVENT_NAMES =
     [ascii ''lendguard_wallet_connected'', ascii ''lendguard_sol_vault_registered'',
      ascii ''lendguard_btc_vault_registered'', ascii ''lendguard_custody_proof_verified'',
      ascii ''lendguard_btc_attestation_posted'', ascii ''lendguard_lgusd_borrow_opened'',
      ascii ''lendguard_lgusd_repaid'', ascii ''lendguard_attack_demo_completed'']"

definition isTorqueEventName :: "jstext \<Rightarrow> bool" where
  "isTorqueEventName v \<longleftrightarrow> v \<in> set TORQUE_EVENT_NAMES"

datatype step_category = cat_onboarding | cat_security | cat_lending | cat_btc

record GuardianStep =
  gs_id :: jstext
  gs_title :: jstext
  gs_description :: jstext
  gs_eventName :: jstext
  gs_category :: step_category

definition TORQUE_GUARDIAN_STEPS :: "GuardianStep list" where
  "TORQUE_GUARDIAN_STEPS =
     [\<lparr>gs_id = ascii ''connect'', gs_title = ascii ''Connect wallet'',
       gs_description = ascii ''Start the LendGuard flow with a Solana wallet.'',
       gs_eventName = ascii ''lendguard_wallet_connected'', gs_category = cat_onboarding\<rparr>,
      \<lparr>gs_id = ascii ''proof'', gs_title = ascii ''Verify custody proof'',
       gs_description = ascii ''Register a vault and prove collateral provenance.'',
       gs_eventName = ascii ''lendguard_custody_proof_verified'', gs_category = cat_security\<rparr>,
      \<lparr>gs_id = ascii ''borrow'', gs_title = ascii ''Borrow LGUSD'',
       gs_description = ascii ''Open a real borrow position against verified collateral.'',
       gs_eventName = ascii ''lendguard_lgusd_borrow_opened'', gs_category = cat_lending\<rparr>,
      \<lparr>gs_id = ascii ''repay'', gs_title = ascii ''Repay safely'',
       gs_description = ascii ''Close or reduce debt without leaving dust positions.'',
       gs_eventName = ascii ''lendguard_lgusd_repaid'', gs_category = cat_lending\<rparr>,
      \<lparr>gs_id = ascii ''btc'', gs_title = ascii ''Register BTC testnet collateral'',
       gs_description = ascii ''Exercise the Ika Secp256k1-shaped Bitcoin collateral path.'',
       gs_eventName = ascii ''lendguard_btc_vault_registered'', gs_category = cat_btc\<rparr>,
      \<lparr>gs_id = ascii ''attack-demo'', gs_title = ascii ''Complete attack demo'',
       gs_description = ascii ''Show fake collateral prevention and private risk response.'',
       gs_eventName = ascii ''lendguard_attack_demo_completed'', gs_category = cat_security\<rparr>]"

datatype field_type = string_field | number_field | boolean_field

text \<open>The fields of every event the dashboard of the service is configured with.\<close>

definition TORQUE_CUSTOM_EVENT_SCHEMAS :: "(jstext \<times> (jstext \<times> field_type) list) list" where
  "TORQUE_CUSTOM_EVENT_SCHEMAS =
     [(ascii ''lendguard_wallet_connected'',
        [(ascii ''cluster'', string_field), (ascii ''source'', string_field)]),
      (ascii ''lendguard_sol_vault_registered'',
        [(ascii ''vault'', string_field), (ascii ''tx'', string_field),
         (ascii ''collateral_type'', string_field)]),
      (ascii ''lendguard_btc_vault_registered'',
        [(ascii ''vault'', string_field), (ascii ''tx'', string_field),
         (ascii ''collateral_type'', string_field), (ascii ''bitcoin_address'', string_field),
         (ascii ''ika_mode'', string_field)]),
      (ascii ''lendguard_custody_proof_verified'',
        [(ascii ''vault'', string_field), (ascii ''tx'', string_field),
         (ascii ''collateral_type'', string_field), (ascii ''proof_source'', string_field)]),
      (ascii ''lendguard_btc_attestation_posted'',
        [(ascii ''vault'', string_field), (ascii ''tx'', string_field),
         (ascii ''satoshis'', number_field), (ascii ''bitcoin_block_height'', number_field)]),
      (ascii ''lendguard_lgusd_borrow_opened'',
        [(ascii ''position'', string_field), (ascii ''vault'', string_field),
         (ascii ''tx'', string_field), (ascii ''amount_lgusd'', number_field),
         (ascii ''collateral_type'', string_field)]),
      (ascii ''lendguard_lgusd_repaid'',
        [(ascii ''position'', string_field), (ascii ''vault'', string_field),
         (ascii ''tx'', string_field), (ascii ''amount_lgusd'', number_field),
         (ascii ''repay_all'', boolean_field), (ascii ''collateral_type'', string_field)]),
      (ascii ''lendguard_attack_demo_completed'',
        [(ascii ''vault'', string_field), (ascii ''tx'', string_field),
         (ascii ''attack_type'', string_field), (ascii ''blocked'', boolean_field)])]"

section \<open>The events kept in the browser\<close>

text \<open>The data of an event: \<open>undefined\<close> is \<open>None\<close>. A value's JSON form is what is stored, so a number
  that is not finite is \<open>JNull\<close>.\<close>

record torque_input =
  ti_eventName :: jstext
  ti_userPubkey :: jstext
  ti_data :: "(jstext \<times> json option) list"

record TorqueEventRecord =
  te_eventName :: jstext
  te_userPubkey :: jstext
  te_timestamp :: int
  te_data :: "(jstext \<times> json) list"

type_synonym storage = "jstext \<Rightarrow> stored_text option"

text \<open>The browser around the client: whether there is a window, when \<open>setItem\<close> has room, the clock,
  the answer of \<open>fetch\<close> to the body posted, and the text of an \<open>Error\<close>.\<close>

record browser =
  has_window :: bool
  has_room :: "storage \<Rightarrow> jstext \<Rightarrow> json \<Rightarrow> bool"
  browser_clock :: int
  post_event :: "json \<Rightarrow> (int \<times> stored_text) js"
  error_text :: "js_error \<Rightarrow> jstext option"

definition storageKey :: "jstext \<Rightarrow> jstext" where
  "storageKey userPubkey = ascii ''lendguard:torque-events:'' @ userPubkey"

fun sanitizeData :: "(jstext \<times> json option) list \<Rightarrow> (jstext \<times> json) list" where
  "sanitizeData [] = []"
| "sanitizeData ((key, None) # kvs) = sanitizeData kvs"
| "sanitizeData ((key, Some value) # kvs) = (key, value) # sanitizeData kvs"

definition record_json :: "TorqueEventRecord \<Rightarrow> json" where
  "record_json r = JObject [(ascii ''eventName'', JText (te_eventName r)),
     (ascii ''userPubkey'', JText (te_userPubkey r)),
     (ascii ''timestamp'', JNumber (of_int (te_timestamp r))), (ascii ''data'', JObject (te_data r))]"

text \<open>What was stored is taken for a list of events without a look at its elements.\<close>

definition readLocalTorqueEvents :: "browser \<Rightarrow> storage \<Rightarrow> jstext option \<Rightarrow> json list" where
  "readLocalTorqueEvents B st userPubkey =
     (case userPubkey of None \<Rightarrow> [] | Some u \<Rightarrow>
      if u = [] \<or> \<not> has_window B then [] else
      (case st (storageKey u) of
         None \<Rightarrow> []
       | Some raw \<Rightarrow> (case json_parse raw of Inr (JArray vs) \<Rightarrow> vs | _ \<Rightarrow> [])))"

definition persistLocalTorqueEvent :: "browser \<Rightarrow> storage \<Rightarrow> TorqueEventRecord \<Rightarrow> storage js" where
  "persistLocalTorqueEvent B st r =
     (if \<not> has_window B then Inr st else
      let current = readLocalTorqueEvents B st (Some (te_userPubkey r));
          items = JArray (take 100 (record_json r # current));
          key = storageKey (te_userPubkey r) in
      if has_room B st key items then Inr (st(key \<mapsto> JsonText items))
      else Inl (ErrorMsg ''QuotaExceededError''))"

record emit_result =
  er_forwarded :: bool
  er_reason :: "json option"

definition torque_record :: "browser \<Rightarrow> torque_input \<Rightarrow> TorqueEventRecord" where
  "torque_record B input =
     \<lparr>te_eventName = ti_eventName input, te_userPubkey = ti_userPubkey input,
      te_timestamp = browser_clock B, te_data = sanitizeData (ti_data input)\<rparr>"

definition read_response :: "int \<times> stored_text \<Rightarrow> emit_result js" where
  "read_response res =
     (let json = (case json_parse (snd res) of Inr v \<Rightarrow> v | Inl _ \<Rightarrow> JObject []) in
      if \<not> (200 \<le> fst res \<and> fst res \<le> 299) then
        Inr \<lparr>er_forwarded = False,
          er_reason = Some (json_or (json_field (ascii ''error'') json)
            (JText (ascii ''Torque proxy rejected event'')))\<rparr>
      else if json = JNull then Inl TypeError
      else Inr \<lparr>er_forwarded =
            (case json_field (ascii ''forwarded'') json of None \<Rightarrow> False | Some v \<Rightarrow> json_truthy v),
          er_reason = json_field (ascii ''reason'') json\<rparr>)"

definition emitTorqueEvent :: "browser \<Rightarrow> storage \<Rightarrow> torque_input \<Rightarrow> emit_result js \<times> storage" where
  "emitTorqueEvent B st input =
     (let r = torque_record B input in
      case persistLocalTorqueEvent B st r of
        Inl e \<Rightarrow> (Inl e, st)
      | Inr st' \<Rightarrow>
          (case js_bind (post_event B (record_json r)) read_response of
             Inr res \<Rightarrow> (Inr res, st')
           | Inl err \<Rightarrow>
               (Inr \<lparr>er_forwarded = False, er_reason = Some (JText
                  (case error_text B err of Some m \<Rightarrow> m
                   | None \<Rightarrow> ascii ''Failed to call Torque proxy''))\<rparr>, st')))"

record guardian_gates =
  canBorrow :: bool
  canUseBtcFlow :: bool
  readyForLiquidatorBeta :: bool

record GuardianSnapshot =
  sn_completed :: nat
  sn_total :: nat
  sn_completionPct :: int
  sn_completedStepIds :: "jstext list"
  sn_events :: "json list"
  sn_gates :: guardian_gates

text \<open>\<open>events.map((event) => event.eventName)\<close> reads a property of every element.\<close>

fun event_names :: "json list \<Rightarrow> json option list js" where
  "event_names [] = Inr []"
| "event_names (e # es) =
     (if e = JNull then Inl TypeError
      else js_bind (event_names es) (\<lambda>ns. Inr (json_field (ascii ''eventName'') e # ns)))"

definition getGuardianSnapshot :: "browser \<Rightarrow> storage \<Rightarrow> jstext option \<Rightarrow> GuardianSnapshot js" where
  "getGuardianSnapshot B st userPubkey =
     (let events = readLocalTorqueEvents B st userPubkey in
      js_bind (event_names events) (\<lambda>names.
      let has = (\<lambda>n. Some (JText n) \<in> set names);
          completedStepIds = remdups (map gs_id (filter (\<lambda>s. has (gs_eventName s)) TORQUE_GUARDIAN_STEPS));
          completed = length completedStepIds;
          total = length TORQUE_GUARDIAN_STEPS in
      Inr \<lparr>sn_completed = completed, sn_total = total,
        sn_completionPct = (if total = 0 then 0
          else \<lfloor>of_nat completed / of_nat total * 100 + (1 / 2 :: rat)\<rfloor>),
        sn_completedStepIds = completedStepIds, sn_events = events,
        sn_gates = \<lparr>canBorrow = has (ascii ''lendguard_custody_proof_verified''),
          canUseBtcFlow = has (ascii ''lendguard_wallet_connected''),
          readyForLiquidatorBeta = has (ascii ''lendguard_custody_proof_verified'')
            \<and> has (ascii ''lendguard_attack_demo_completed'')\<rparr>\<rparr>))"

section \<open>The proxy\<close>

text \<open>\<open>String(value)\<close> and \<open>Number(value)\<close>; how numbers are written and read is the engine's.\<close>

record number_format =
  number_text :: "rat \<Rightarrow> jstext"
  number_read :: "jstext \<Rightarrow> rat option"

fun join_commas :: "jstext list \<Rightarrow> jstext" where
  "join_commas [] = []"
| "join_commas [t] = t"
| "join_commas (t # ts) = t @ 44 # join_commas ts"

fun js_String :: "number_format \<Rightarrow> json \<Rightarrow> jstext" where
  "js_String F JNull = ascii ''null''"
| "js_String F (JBool b) = (if b then ascii ''true'' else ascii ''false'')"
| "js_String F (JNumber r) = number_text F r"
| "js_String F (JText t) = t"
| "js_String F (JArray vs) = join_commas (map (\<lambda>v. if v = JNull then [] else js_String F v) vs)"
| "js_String F (JObject fs) = ascii ''[object Object]''"

fun js_Number :: "number_format \<Rightarrow> json \<Rightarrow> rat option" where
  "js_Number F JNull = Some 0"
| "js_Number F (JBool b) = Some (if b then 1 else 0)"
| "js_Number F (JNumber r) = Some r"
| "js_Number F v = number_read F (js_String F v)"

fun plain_value :: "json \<Rightarrow> bool" where
  "plain_value (JArray vs) = False" | "plain_value (JObject fs) = False" | "plain_value _ = True"

fun isEventData :: "json \<Rightarrow> bool" where
  "isEventData (JObject fs) = list_all (\<lambda>(_, v). plain_value v) fs"
| "isEventData _ = False"

text \<open>The server: its key, its clock, and the ingester's answer, a status and a body, to what it is
  sent.\<close>

record proxy =
  api_key :: "jstext option"
  server_clock :: int
  server_numbers :: number_format
  ingest :: "json \<Rightarrow> (int \<times> jstext) js"

definition bad_request :: "string \<Rightarrow> int \<times> json" where
  "bad_request reason = (400, JObject [(ascii ''error'', JText (ascii reason))])"

text \<open>The response, and what was sent to the ingester. A throwing \<open>fetch\<close> is not caught.\<close>

definition torque_POST :: "proxy \<Rightarrow> stored_text \<Rightarrow> (int \<times> json) js \<times> json option" where
  "torque_POST X text =
     (let body = (case json_parse text of Inr v \<Rightarrow> v | Inl _ \<Rightarrow> JNull) in
      case body of
        JObject fs \<Rightarrow>
          (let field = (\<lambda>k. json_field (ascii k) body);
               F = server_numbers X;
               eventName = js_String F (json_or (field ''eventName'') (JText []));
               userPubkey = js_String F (json_or (field ''userPubkey'') (JText []));
               timestamp = js_Number F (json_or (field ''timestamp'') (JNumber (of_int (server_clock X))));
               data = json_or (field ''data'') (JObject []) in
           if \<not> isTorqueEventName eventName then (Inr (bad_request ''Unknown Torque event''), None)
           else if userPubkey = [] then (Inr (bad_request ''Missing userPubkey''), None)
           else (case timestamp of
             None \<Rightarrow> (Inr (bad_request ''Invalid timestamp''), None)
           | Some ts \<Rightarrow>
               if \<not> isEventData data then (Inr (bad_request ''Invalid event data''), None)
               else if api_key X = None \<or> api_key X = Some [] then
                 (Inr (200, JObject [(ascii ''forwarded'', JBool False),
                    (ascii ''reason'', JText (ascii ''TORQUE_API_KEY is not configured; event recorded locally only.''))]), None)
               else
                 (let sent = JObject [(ascii ''userPubkey'', JText userPubkey), (ascii ''timestamp'', JNumber ts),
                        (ascii ''eventName'', JText eventName), (ascii ''data'', data)] in
                  case ingest X sent of
                    Inl e \<Rightarrow> (Inl e, Some sent)
                  | Inr (status, res_text) \<Rightarrow>
                      if 200 \<le> status \<and> status \<le> 299 then
                        (Inr (200, JObject [(ascii ''forwarded'', JBool True)]), Some sent)
                      else
                        (Inr (502, JObject [(ascii ''forwarded'', JBool False),
                           (ascii ''error'', JText (ascii ''Torque ingestion failed: '' @ bigint_to_text status)),
                           (ascii ''details'', JText (take 500 res_text))]), Some sent))))
      | _ \<Rightarrow> (Inr (bad_request ''Invalid JSON body''), None))"

section \<open>Lemmas\<close>

lemma storageKey_inject [simp]: "storageKey u = storageKey v \<longleftrightarrow> u = v"
  by (simp add: storageKey_def)

lemma sanitizeData_values: "sanitizeData kvs = [(k, v). (k, Some v) \<leftarrow> kvs]"
  by (induction kvs rule: sanitizeData.induct) simp_all

text \<open>What the emissions of a session leave in the storage.\<close>

fun emit_all :: "(browser \<times> torque_input) list \<Rightarrow> storage \<Rightarrow> storage" where
  "emit_all [] st = st"
| "emit_all ((B, i) # es) st = emit_all es (snd (emitTorqueEvent B st i))"

lemma emit_all_append: "emit_all (es @ fs) st = emit_all fs (emit_all es st)"
  by (induction es st rule: emit_all.induct) simp_all

definition spacious :: "browser \<Rightarrow> bool" where
  "spacious B \<longleftrightarrow> has_window B \<and> (\<forall>st k v. has_room B st k v)"

definition events_of :: "jstext \<Rightarrow> (browser \<times> torque_input) list \<Rightarrow> json list" where
  "events_of u es =
     map (\<lambda>(B, i). record_json (torque_record B i)) (filter (\<lambda>(B, i). ti_userPubkey i = u) es)"

lemma torque_record_user [simp]: "te_userPubkey (torque_record B i) = ti_userPubkey i"
  by (simp add: torque_record_def)

text \<open>A record is kept before the proxy is called, whatever the call does.\<close>

lemma emit_storage:
  assumes "spacious B"
  shows "snd (emitTorqueEvent B st i) = st(storageKey (ti_userPubkey i) \<mapsto> JsonText (JArray
     (take 100 (record_json (torque_record B i) # readLocalTorqueEvents B st (Some (ti_userPubkey i))))))"
  using assms
  by (simp add: emitTorqueEvent_def persistLocalTorqueEvent_def spacious_def Let_def split: sum.split)

lemma read_after_emit:
  assumes "spacious B" "has_window B'" "u \<noteq> []"
  shows "readLocalTorqueEvents B' (snd (emitTorqueEvent B st i)) (Some u) =
     (if ti_userPubkey i = u then take 100 (record_json (torque_record B i) # readLocalTorqueEvents B' st (Some u))
      else readLocalTorqueEvents B' st (Some u))"
  using assms by (simp add: emit_storage readLocalTorqueEvents_def spacious_def)

text \<open>What the proxy does with a record the client posts.\<close>

lemma json_or_text [simp]: "json_or (Some (JText t)) d = JText t" "json_or (Some (JNumber r)) d = JNumber r"
  "json_or (Some (JObject fs)) d = JObject fs"
  by (simp_all add: json_or_def)

lemma ascii_keys [simp]: "ascii s = ascii t \<longleftrightarrow> s = t"
  unfolding ascii_def by (subst inj_map_eq_map) (simp_all add: inj_def)

lemma torque_POST_record:
  assumes "isTorqueEventName (ti_eventName i)" "ti_userPubkey i \<noteq> []"
    "list_all (\<lambda>(_, v). plain_value v) (sanitizeData (ti_data i))"
  shows "torque_POST X (JsonText (record_json (torque_record B i))) =
    (if api_key X = None \<or> api_key X = Some [] then
       (Inr (200, JObject [(ascii ''forwarded'', JBool False),
          (ascii ''reason'', JText (ascii ''TORQUE_API_KEY is not configured; event recorded locally only.''))]), None)
     else
       (let sent = JObject [(ascii ''userPubkey'', JText (ti_userPubkey i)),
          (ascii ''timestamp'', JNumber (of_int (browser_clock B))),
          (ascii ''eventName'', JText (ti_eventName i)), (ascii ''data'', JObject (sanitizeData (ti_data i)))] in
        case ingest X sent of
          Inl e \<Rightarrow> (Inl e, Some sent)
        | Inr (status, res_text) \<Rightarrow>
            (Inr (if 200 \<le> status \<and> status \<le> 299 then (200, JObject [(ascii ''forwarded'', JBool True)])
               else (502, JObject [(ascii ''forwarded'', JBool False),
                 (ascii ''error'', JText (ascii ''Torque ingestion failed: '' @ bigint_to_text status)),
                 (ascii ''details'', JText (take 500 res_text))])), Some sent)))"
  using assms
  by (cases "api_key X = None \<or> api_key X = Some []")
    (auto simp: torque_POST_def record_json_def torque_record_def Let_def split: sum.split)

text \<open>The client's answer is what it makes of the response, and it always answers.\<close>

lemma emit_answer:
  assumes "spacious B"
  shows "fst (emitTorqueEvent B st i) =
    Inr (case js_bind (post_event B (record_json (torque_record B i))) read_response of
       Inr res \<Rightarrow> res
     | Inl err \<Rightarrow> \<lparr>er_forwarded = False, er_reason = Some (JText
          (case error_text B err of Some m \<Rightarrow> m | None \<Rightarrow> ascii ''Failed to call Torque proxy''))\<rparr>)"
  using assms
  by (simp add: emitTorqueEvent_def persistLocalTorqueEvent_def spacious_def Let_def split: sum.split)

lemma events_kept:
  assumes "\<forall>(B, i) \<in> set es. spacious B" and "has_window B" "u \<noteq> []"
  shows "readLocalTorqueEvents B (emit_all es Map.empty) (Some u) = take 100 (rev (events_of u es))"
  using assms(1)
proof (induction es rule: rev_induct)
  case Nil
  then show ?case by (simp add: readLocalTorqueEvents_def events_of_def)
next
  case (snoc e es)
  obtain B' i where e: "e = (B', i)" by (cases e)
  show ?case
    using snoc e assms(2,3)
    by (simp add: emit_all_append read_after_emit events_of_def take_Cons')
qed

section \<open>Properties\<close>

text \<open>C28: a session's events are kept as the log they are: after any emissions of any users, delivered
  or not, a user's list holds that user's last hundred events, the newest first.\<close>

theorem torque_events_kept:
  assumes "\<forall>(B, i) \<in> set es. spacious B" and "has_window B" "u \<noteq> []"
  shows "readLocalTorqueEvents B (emit_all es Map.empty) (Some u) = take 100 (rev (events_of u es))"
  using assms by (rule events_kept)

definition demo_browser :: browser where
  "demo_browser = \<lparr>has_window = True, has_room = (\<lambda>_ _ _. True), browser_clock = 5,
     post_event = (\<lambda>_. Inl TypeError), error_text = (\<lambda>_. None)\<rparr>"

lemma spacious_demo: "spacious demo_browser"
  by (simp add: spacious_def demo_browser_def)

lemma torque_events_kept_witness:
  "readLocalTorqueEvents demo_browser (emit_all
     [(demo_browser, \<lparr>ti_eventName = [1], ti_userPubkey = [9], ti_data = []\<rparr>),
      (demo_browser, \<lparr>ti_eventName = [2], ti_userPubkey = [8], ti_data = []\<rparr>),
      (demo_browser, \<lparr>ti_eventName = [3], ti_userPubkey = [9], ti_data = [([7], None)]\<rparr>)] Map.empty) (Some [9])
   = [record_json \<lparr>te_eventName = [3], te_userPubkey = [9], te_timestamp = 5, te_data = []\<rparr>,
      record_json \<lparr>te_eventName = [1], te_userPubkey = [9], te_timestamp = 5, te_data = []\<rparr>]"
  by (subst torque_events_kept)
    (simp_all add: spacious_demo events_of_def torque_record_def, simp_all add: demo_browser_def)

text \<open>An event of a known name with plain data reaches the ingester through the proxy with the
  fields it was recorded with, and the client reports it as forwarded exactly when the ingester
  took it; without a key it stays in the browser.\<close>

theorem torque_delivery:
  assumes proxy: "\<And>v. post_event B v = map_sum id (map_prod id JsonText) (fst (torque_POST X (JsonText v)))"
    and B: "spacious B"
    and ok: "isTorqueEventName (ti_eventName i)" "ti_userPubkey i \<noteq> []"
      "list_all (\<lambda>(_, v). plain_value v) (sanitizeData (ti_data i))"
    and taken: "\<And>v. ingest X v = Inr (status, answer)"
  shows "snd (torque_POST X (JsonText (record_json (torque_record B i)))) =
      (if api_key X = None \<or> api_key X = Some [] then None
       else Some (JObject [(ascii ''userPubkey'', JText (ti_userPubkey i)),
         (ascii ''timestamp'', JNumber (of_int (browser_clock B))),
         (ascii ''eventName'', JText (ti_eventName i)), (ascii ''data'', JObject (sanitizeData (ti_data i)))]))
    \<and> (\<exists>res. fst (emitTorqueEvent B st i) = Inr res
         \<and> (er_forwarded res \<longleftrightarrow> \<not> (api_key X = None \<or> api_key X = Some []) \<and> 200 \<le> status \<and> status \<le> 299))"
proof (cases "api_key X = None \<or> api_key X = Some []")
  case True
  then have "torque_POST X (JsonText (record_json (torque_record B i))) =
      (Inr (200, JObject [(ascii ''forwarded'', JBool False),
         (ascii ''reason'', JText (ascii ''TORQUE_API_KEY is not configured; event recorded locally only.''))]), None)"
    using torque_POST_record [OF ok, of X B] by simp
  then show ?thesis using True emit_answer [OF B, of st i] by (simp add: proxy read_response_def Let_def)
next
  case False
  then have "torque_POST X (JsonText (record_json (torque_record B i))) =
      (Inr (if 200 \<le> status \<and> status \<le> 299 then (200, JObject [(ascii ''forwarded'', JBool True)])
         else (502, JObject [(ascii ''forwarded'', JBool False),
           (ascii ''error'', JText (ascii ''Torque ingestion failed: '' @ bigint_to_text status)),
           (ascii ''details'', JText (take 500 answer))])),
       Some (JObject [(ascii ''userPubkey'', JText (ti_userPubkey i)),
         (ascii ''timestamp'', JNumber (of_int (browser_clock B))),
         (ascii ''eventName'', JText (ti_eventName i)), (ascii ''data'', JObject (sanitizeData (ti_data i)))]))"
    using torque_POST_record [OF ok, of X B] taken by simp
  then show ?thesis using False emit_answer [OF B, of st i] by (simp add: proxy read_response_def Let_def)
qed

definition demo_proxy :: proxy where
  "demo_proxy = \<lparr>api_key = Some [107], server_clock = 0,
     server_numbers = \<lparr>number_text = (\<lambda>_. []), number_read = (\<lambda>_. None)\<rparr>,
     ingest = (\<lambda>_. Inr (200, []))\<rparr>"

lemma torque_delivery_witness:
  "snd (torque_POST demo_proxy (JsonText (record_json (torque_record demo_browser
      \<lparr>ti_eventName = ascii ''lendguard_lgusd_repaid'', ti_userPubkey = [9],
       ti_data = [(ascii ''repay_all'', Some (JBool True)), (ascii ''tx'', None)]\<rparr>))))
   = Some (JObject [(ascii ''userPubkey'', JText [9]), (ascii ''timestamp'', JNumber 5),
       (ascii ''eventName'', JText (ascii ''lendguard_lgusd_repaid'')),
       (ascii ''data'', JObject [(ascii ''repay_all'', JBool True)])])"
proof -
  let ?i = "\<lparr>ti_eventName = ascii ''lendguard_lgusd_repaid'', ti_userPubkey = [9 :: nat],
       ti_data = [(ascii ''repay_all'', Some (JBool True)), (ascii ''tx'', None)]\<rparr>"
  let ?B = "demo_browser\<lparr>post_event := \<lambda>v. map_sum id (map_prod id JsonText) (fst (torque_POST demo_proxy (JsonText v)))\<rparr>"
  have B: "spacious ?B" using spacious_demo by (simp add: spacious_def)
  have r: "torque_record ?B ?i = torque_record demo_browser ?i" by (simp add: torque_record_def)
  show ?thesis
    using torque_delivery [of ?B demo_proxy ?i 200 "[]" Map.empty, unfolded r] B
    by (simp add: isTorqueEventName_def TORQUE_EVENT_NAMES_def demo_proxy_def demo_browser_def)
qed

section \<open>Progress that is forgotten\<close>

text \<open>The list is also the memory of the guardian's progress, and every visit of a page with a
  connected wallet adds an event: after a hundred visits a verified custody proof is forgotten.\<close>

lemma guardian_progress_lost:
  fixes u :: jstext
  assumes "u \<noteq> []"
  defines "proof \<equiv> \<lparr>ti_eventName = ascii ''lendguard_custody_proof_verified'', ti_userPubkey = u, ti_data = []\<rparr>"
    and "visit \<equiv> \<lparr>ti_eventName = ascii ''lendguard_wallet_connected'', ti_userPubkey = u, ti_data = []\<rparr>"
  shows "\<exists>s. getGuardianSnapshot demo_browser
      (emit_all ((demo_browser, proof) # replicate 100 (demo_browser, visit)) Map.empty) (Some u) = Inr s
    \<and> \<not> canBorrow (sn_gates s)"
proof -
  let ?es = "(demo_browser, proof) # replicate 100 (demo_browser, visit)"
  have "has_window demo_browser" using spacious_demo by (simp add: spacious_def)
  then have "readLocalTorqueEvents demo_browser (emit_all ?es Map.empty) (Some u) = take 100 (rev (events_of u ?es))"
    using assms(1) spacious_demo by (intro events_kept) (auto simp: set_replicate_conv_if)
  also have "\<dots> = replicate 100 (record_json (torque_record demo_browser visit))"
    by (simp add: events_of_def proof_def visit_def filter_replicate map_replicate)
  finally have r: "readLocalTorqueEvents demo_browser (emit_all ?es Map.empty) (Some u)
      = replicate 100 (record_json (torque_record demo_browser visit))" .
  have "event_names (replicate n (record_json (torque_record demo_browser visit)))
      = Inr (replicate n (Some (JText (ascii ''lendguard_wallet_connected''))))" for n
    by (induction n) (simp_all add: record_json_def torque_record_def visit_def)
  then show ?thesis unfolding getGuardianSnapshot_def r by (simp add: Let_def)
qed

end
