(* ===== verification/Btc_Wallet.thy ===== *)
theory Btc_Wallet
  imports Services Pda Amounts
begin

text \<open>
  \<open>web/lib/btc-address.ts\<close> and \<open>web/lib/btc-dwallet.ts\<close>: the testnet address of a compressed public
  key and the bundle the registration form is filled with. The libraries bech32, @noble/hashes and
  @noble/curves are the fields of one record.
\<close>

record btc_libs =
  noble_sha256 :: "bytes \<Rightarrow> bytes"
  noble_ripemd160 :: "bytes \<Rightarrow> bytes"
  bech32_toWords :: "bytes \<Rightarrow> nat list"
  bech32_fromWords :: "nat list \<Rightarrow> bytes js"
  bech32_encode :: "jstext \<Rightarrow> nat list \<Rightarrow> jstext js"
  bech32_decode :: "jstext \<Rightarrow> (jstext \<times> nat list) js"
  random_private_key :: "history \<Rightarrow> bytes"
  secp256k1_getPublicKey :: "bytes \<Rightarrow> bytes js"

section \<open>Addresses\<close>

definition BTC_TESTNET_HRP :: jstext where
  "BTC_TESTNET_HRP = ascii ''tb''"

text \<open>\<open>toString(16)\<close> of a byte.\<close>

definition hex_digit :: "nat \<Rightarrow> nat" where
  "hex_digit d = (if d < 10 then 48 + d else 87 + d)"

definition byte_to_hex :: "byte \<Rightarrow> jstext" where
  "byte_to_hex b = (if unat b < 16 then [hex_digit (unat b)]
     else [hex_digit (unat b div 16), hex_digit (unat b mod 16)])"

definition secp256k1PubkeyToTestnetP2WPKH :: "btc_libs \<Rightarrow> bytes \<Rightarrow> jstext js" where
  "secp256k1PubkeyToTestnetP2WPKH L compressedPubkey =
     (if length compressedPubkey \<noteq> 33 then
        Inl (ErrorText (ascii ''Expected 33-byte compressed Secp256k1 pubkey, got ''
          @ nat_to_text (length compressedPubkey)))
      else if compressedPubkey ! 0 \<noteq> 0x02 \<and> compressedPubkey ! 0 \<noteq> 0x03 then
        Inl (ErrorText (ascii ''Compressed pubkey must start with 0x02 or 0x03, got 0x''
          @ byte_to_hex (compressedPubkey ! 0)))
      else
        let sha = noble_sha256 L compressedPubkey;
            hash160 = noble_ripemd160 L sha in
        if length hash160 \<noteq> 20 then
          Inl (ErrorText (ascii ''hash160 must be 20 bytes, got '' @ nat_to_text (length hash160)))
        else bech32_encode L BTC_TESTNET_HRP (0 # bech32_toWords L hash160))"

text \<open>Every exception of the library is an answer \<open>null\<close>.\<close>

definition testnetP2WPKHToHash160 :: "btc_libs \<Rightarrow> jstext \<Rightarrow> bytes option" where
  "testnetP2WPKHToHash160 L address =
     (case bech32_decode L address of
        Inl e \<Rightarrow> None
      | Inr (hrp, words) \<Rightarrow>
          if hrp \<noteq> BTC_TESTNET_HRP then None
          else (case words of
            [] \<Rightarrow> None
          | w # ws \<Rightarrow>
              if w \<noteq> 0 then None
              else (case bech32_fromWords L ws of
                Inl e \<Rightarrow> None
              | Inr program \<Rightarrow> if length program \<noteq> 20 then None else Some program)))"

definition BTC_TESTNET_FAUCETS :: "jstext list" where
  "BTC_TESTNET_FAUCETS =
     [ascii ''https://coinfaucet.eu/en/btc-testnet/'', ascii ''https://bitcoinfaucet.uo1.net/'',
      ascii ''https://testnet-faucet.com/btc-testnet/'']"

definition MEMPOOL_SPACE_TESTNET :: jstext where
  "MEMPOOL_SPACE_TESTNET = ascii ''https://mempool.space/testnet''"

definition mempoolAddressUrl :: "jstext \<Rightarrow> jstext" where
  "mempoolAddressUrl address = MEMPOOL_SPACE_TESTNET @ ascii ''/address/'' @ address"

definition mempoolTxUrl :: "jstext \<Rightarrow> jstext" where
  "mempoolTxUrl txid = MEMPOOL_SPACE_TESTNET @ ascii ''/tx/'' @ txid"

section \<open>Bundles\<close>

definition IKA_CURVE_SECP256K1 :: int where "IKA_CURVE_SECP256K1 = 1"

datatype dwallet_source = RealIka | Synthetic

record BtcDwalletBundle =
  bb_ikaDwallet :: pubkey
  bb_compressedPubkey :: bytes
  bb_bitcoinAddress :: jstext
  bb_source :: dwallet_source
  bb_fallbackReason :: "jstext option"
  bb_syntheticPrivkey :: "bytes option"

definition default_reason :: jstext where
  "default_reason = ascii ''Ika pre-alpha SDK currently hardcodes Curve25519; using local Secp256k1 keypair.''"

definition generateSyntheticBtcDwallet ::
    "platform \<Rightarrow> btc_libs \<Rightarrow> history \<Rightarrow> jstext \<Rightarrow> BtcDwalletBundle js" where
  "generateSyntheticBtcDwallet P L h reason =
     (let privkey = random_private_key L h in
      js_bind (secp256k1_getPublicKey L privkey) (\<lambda>compressedPubkey.
      if length compressedPubkey \<noteq> 33 then
        Inl (ErrorText (ascii ''unexpected pubkey length '' @ nat_to_text (length compressedPubkey)
          @ ascii '' (want 33)''))
      else
        js_bind (deriveDwalletPda P IKA_CURVE_SECP256K1 compressedPubkey) (\<lambda>(ikaDwallet, _).
        js_bind (secp256k1PubkeyToTestnetP2WPKH L compressedPubkey) (\<lambda>bitcoinAddress.
        Inr \<lparr>bb_ikaDwallet = ikaDwallet, bb_compressedPubkey = compressedPubkey,
          bb_bitcoinAddress = bitcoinAddress, bb_source = Synthetic,
          bb_fallbackReason = Some reason, bb_syntheticPrivkey = Some privkey\<rparr>))))"

definition tryRealIkaSecpDkg :: "BtcDwalletBundle option js" where
  "tryRealIkaSecpDkg = Inr None"

definition createBtcDwallet :: "platform \<Rightarrow> btc_libs \<Rightarrow> history \<Rightarrow> BtcDwalletBundle js" where
  "createBtcDwallet P L h =
     (case tryRealIkaSecpDkg of
        Inl err \<Rightarrow> generateSyntheticBtcDwallet P L h
          (ascii ''Ika pre-alpha Secp256k1 DKG failed ('' @ (case err of ErrorMsg s \<Rightarrow> ascii s
             | ErrorText t \<Rightarrow> t | _ \<Rightarrow> []) @ ascii ''); using local keypair.'')
      | Inr (Some bundle) \<Rightarrow> Inr bundle
      | Inr None \<Rightarrow> generateSyntheticBtcDwallet P L h default_reason)"

fun bytesToHex :: "bytes \<Rightarrow> jstext" where
  "bytesToHex [] = []"
| "bytesToHex (b # bs) =
     (let t = byte_to_hex b in replicate (2 - length t) 48 @ t) @ bytesToHex bs"

section \<open>Properties\<close>

text \<open>What the form is filled with belongs together: the address decodes to the key hash of the
  public key, which has 33 bytes, and the account is the dWallet address of that key on the Secp256k1
  curve, given the documented inverses of the bech32 library.\<close>

theorem createBtcDwallet_consistent:
  assumes inverse: "\<And>p ws a. bech32_encode L p ws = Inr a \<Longrightarrow> bech32_decode L a = Inr (p, ws)"
    and words: "\<And>b. bech32_fromWords L (bech32_toWords L b) = Inr b"
    and run: "createBtcDwallet P L h = Inr b"
  shows "length (bb_compressedPubkey b) = 33
    \<and> testnetP2WPKHToHash160 L (bb_bitcoinAddress b)
        = Some (noble_ripemd160 L (noble_sha256 L (bb_compressedPubkey b)))
    \<and> (\<exists>bump. deriveDwalletPda P IKA_CURVE_SECP256K1 (bb_compressedPubkey b) = Inr (bb_ikaDwallet b, bump))
    \<and> bb_source b = Synthetic"
  using run inverse
  by (auto simp: createBtcDwallet_def tryRealIkaSecpDkg_def generateSyntheticBtcDwallet_def Let_def
      js_bind_eq_Inr secp256k1PubkeyToTestnetP2WPKH_def testnetP2WPKHToHash160_def words
      split: if_splits)

definition demo_libs :: btc_libs where
  "demo_libs =
     \<lparr>noble_sha256 = (\<lambda>_. replicate 32 1), noble_ripemd160 = (\<lambda>_. replicate 20 2),
      bech32_toWords = map unat, bech32_fromWords = (\<lambda>ws. Inr (map word_of_nat ws)),
      bech32_encode = (\<lambda>p ws. Inr (length p # p @ ws)),
      bech32_decode = (\<lambda>a. Inr (take (hd a) (tl a), drop (hd a) (tl a))),
      random_private_key = (\<lambda>_. replicate 32 3),
      secp256k1_getPublicKey = (\<lambda>_. Inr (2 # replicate 32 4))\<rparr>"

lemma createBtcDwallet_consistent_witness:
  "\<exists>b. createBtcDwallet demo_platform demo_libs [] = Inr b
     \<and> testnetP2WPKHToHash160 demo_libs (bb_bitcoinAddress b) = Some (replicate 20 2)"
proof -
  obtain k where k: "deriveDwalletPda demo_platform IKA_CURVE_SECP256K1 (2 # replicate 32 4) = Inr k"
    using dwallet_seeds_bounded by (simp add: deriveDwalletPda_def demo_platform_def)
  then obtain b where b: "createBtcDwallet demo_platform demo_libs [] = Inr b"
    by (cases k) (simp add: createBtcDwallet_def tryRealIkaSecpDkg_def generateSyntheticBtcDwallet_def
        demo_libs_def secp256k1PubkeyToTestnetP2WPKH_def)
  moreover have "noble_ripemd160 demo_libs x = replicate 20 2" for x by (simp add: demo_libs_def)
  ultimately show ?thesis
    using createBtcDwallet_consistent [of demo_libs demo_platform "[]" b]
    by (auto simp: demo_libs_def comp_def)
qed

end
