(* ===== verification/Bootstrap.thy ===== *)
theory Bootstrap
  imports Keepers Builders_Sdk
begin

text \<open>
  \<open>contracts/scripts/bootstrap-devnet.mjs\<close>: the script that brings a fresh deployment to a state one can
  lend from, step by step, each step skipped when its account exists: the protocol state, the LGUSD
  mint, the pool's token vault with its liquidity, the mint authority, the pool, the price feeds. The
  SPL token library and the file system are parameters whose answers may depend on every request made
  before; \<open>JSON.parse\<close> of the mint record gives its \<open>mint\<close> field, \<open>None\<close> for one that is falsy.
\<close>

record token_library =
  spl_associatedTokenAddress :: "pubkey \<Rightarrow> pubkey \<Rightarrow> bool \<Rightarrow> pubkey js"
  spl_createMint :: "history \<Rightarrow> pubkey \<Rightarrow> int \<Rightarrow> pubkey js"
  spl_createTokenAccount :: "history \<Rightarrow> pubkey \<Rightarrow> pubkey \<Rightarrow> pubkey js"
  spl_getAccount :: "history \<Rightarrow> pubkey \<Rightarrow> int js"
  spl_getMint :: "history \<Rightarrow> pubkey \<Rightarrow> pubkey option js"
  spl_mintTo :: "history \<Rightarrow> pubkey \<Rightarrow> pubkey \<Rightarrow> int \<Rightarrow> unit js"
  spl_setAuthority :: "history \<Rightarrow> pubkey \<Rightarrow> pubkey \<Rightarrow> unit js"

record file_system =
  fs_read :: "history \<Rightarrow> jstext \<Rightarrow> jstext js option"
  fs_write :: "history \<Rightarrow> jstext \<Rightarrow> jstext \<Rightarrow> unit js"
  fs_chmod :: "history \<Rightarrow> jstext \<Rightarrow> int \<Rightarrow> unit js"
  json_mint :: "jstext \<Rightarrow> jstext option js"

section \<open>Settings\<close>

definition MINT_RECORD_PATH :: jstext where
  "MINT_RECORD_PATH = ascii ''/mnt/d/Projects/LendGuard/contracts/lgusd-mint.json''"

definition bootstrap_ASSET_BTC :: int where "bootstrap_ASSET_BTC = 0"
definition bootstrap_ASSET_ETH :: int where "bootstrap_ASSET_ETH = 1"
definition bootstrap_ASSET_SOL :: int where "bootstrap_ASSET_SOL = 2"
definition LGUSD_DECIMALS :: int where "LGUSD_DECIMALS = 6"
definition INITIAL_LIQUIDITY :: int where "INITIAL_LIQUIDITY = 1000000000"
definition INITIAL_BTC_PRICE :: int where "INITIAL_BTC_PRICE = 9000000000000"
definition INITIAL_ETH_PRICE :: int where "INITIAL_ETH_PRICE = 350000000000"
definition INITIAL_SOL_PRICE :: int where "INITIAL_SOL_PRICE = 15000000000"
definition LTV_BPS :: int where "LTV_BPS = 6500"
definition LIQUIDATION_THRESHOLD_BPS :: int where "LIQUIDATION_THRESHOLD_BPS = 7500"
definition LIQUIDATION_BONUS_BPS :: int where "LIQUIDATION_BONUS_BPS = 500"
definition BASE_RATE_BPS :: int where "BASE_RATE_BPS = 200"
definition RATE_SLOPE_BPS :: int where "RATE_SLOPE_BPS = 1500"

lemmas bootstrap_settings = bootstrap_ASSET_BTC_def bootstrap_ASSET_ETH_def bootstrap_ASSET_SOL_def
  INITIAL_LIQUIDITY_def INITIAL_BTC_PRICE_def INITIAL_ETH_PRICE_def INITIAL_SOL_PRICE_def
  LTV_BPS_def LIQUIDATION_THRESHOLD_BPS_def LIQUIDATION_BONUS_BPS_def BASE_RATE_BPS_def
  RATE_SLOPE_BPS_def

text \<open>\<open>writeUInt16LE\<close> rejects what does not fit; \<open>u64ToLe\<close> is the one of the keepers.\<close>

definition bootstrap_u16ToLe :: "int \<Rightarrow> bytes js" where
  "bootstrap_u16ToLe n = (if 0 \<le> n \<and> n < 2 ^ 16 then Inr (le_bytes 2 (nat n)) else Inl RangeError)"

section \<open>Instructions\<close>

definition bootstrap_protocol_ix :: "platform \<Rightarrow> pubkey \<Rightarrow> pubkey \<Rightarrow> transaction_instruction" where
  "bootstrap_protocol_ix P admin protocolStatePda =
     \<lparr>ix_program_id = scripts_PROGRAM_ID,
      ix_keys = [meta protocolStatePda False True, meta admin True True,
        meta SystemProgram_programId False False],
      ix_data = sighash P ''initialize_protocol''\<rparr>"

definition bootstrap_pool_ix ::
    "platform \<Rightarrow> pubkey \<Rightarrow> pubkey \<Rightarrow> pubkey \<Rightarrow> pubkey \<Rightarrow> pubkey \<Rightarrow> transaction_instruction js" where
  "bootstrap_pool_ix P admin mintPubkey poolAtaAddress lendingPoolPda feedPda =
     js_bind (keeper_u64ToLe INITIAL_LIQUIDITY) (\<lambda>liquidity.
     js_bind (keeper_u64ToLe INITIAL_BTC_PRICE) (\<lambda>price.
     js_bind (bootstrap_u16ToLe LTV_BPS) (\<lambda>ltv.
     js_bind (bootstrap_u16ToLe LIQUIDATION_THRESHOLD_BPS) (\<lambda>threshold.
     js_bind (bootstrap_u16ToLe LIQUIDATION_BONUS_BPS) (\<lambda>bonus.
     js_bind (bootstrap_u16ToLe BASE_RATE_BPS) (\<lambda>base.
     js_bind (bootstrap_u16ToLe RATE_SLOPE_BPS) (\<lambda>slope.
     Inr \<lparr>ix_program_id = scripts_PROGRAM_ID,
       ix_keys = [meta lendingPoolPda False True, meta feedPda False True,
         meta mintPubkey False False, meta poolAtaAddress False True, meta admin True True,
         meta SystemProgram_programId False False, meta TOKEN_PROGRAM_ID False False],
       ix_data = concat [sighash P ''initialize_lending_pool'',
         [to_uint8 (and bootstrap_ASSET_BTC 255)], liquidity, price, ltv, threshold, bonus, base, slope]\<rparr>)))))))"

definition bootstrap_feed_ix ::
    "platform \<Rightarrow> pubkey \<Rightarrow> pubkey \<Rightarrow> int \<Rightarrow> int \<Rightarrow> transaction_instruction js" where
  "bootstrap_feed_ix P admin feedPda assetType initialPrice =
     js_bind (keeper_u64ToLe initialPrice) (\<lambda>price.
     Inr \<lparr>ix_program_id = scripts_PROGRAM_ID,
       ix_keys = [meta feedPda False True, meta admin True True,
         meta SystemProgram_programId False False],
       ix_data = concat [sighash P ''initialize_admin_price_feed'',
         [to_uint8 (and assetType 255)], price]\<rparr>)"

section \<open>Steps\<close>

definition console_log :: "jstext \<Rightarrow> unit io" where
  "console_log t = tell (Log t [])"

definition account_exists :: "services \<Rightarrow> pubkey \<Rightarrow> bool io" where
  "account_exists S pubkey =
     io_bind (ask ReadAccounts (\<lambda>h. getAccountInfo (rpc_accounts S h) pubkey)) (\<lambda>info.
     io_return (info \<noteq> None))"

definition initializeProtocol :: "platform \<Rightarrow> services \<Rightarrow> pubkey \<Rightarrow> pubkey \<Rightarrow> jstext option io" where
  "initializeProtocol P S admin protocolStatePda =
     io_bind (account_exists S protocolStatePda) (\<lambda>found.
     if found then
       io_bind (console_log (ascii ''protocol_state already exists, skipping'')) (\<lambda>_. io_return None)
     else
       io_bind (send_and_confirm S [bootstrap_protocol_ix P admin protocolStatePda]) (\<lambda>sig.
       io_bind (console_log (ascii ''initialize_protocol tx: '' @ sig)) (\<lambda>_. io_return (Some sig))))"

text \<open>\<open>JSON.stringify(value, null, 2)\<close> of an object whose values are given as they are printed.\<close>

fun json_lines :: "(string \<times> jstext) list \<Rightarrow> jstext" where
  "json_lines [] = []"
| "json_lines [(k, v)] = ascii ''  \"'' @ ascii k @ ascii ''\": '' @ v @ [10]"
| "json_lines ((k, v) # fs) = ascii ''  \"'' @ ascii k @ ascii ''\": '' @ v @ [44, 10] @ json_lines fs"

definition json_object :: "(string \<times> jstext) list \<Rightarrow> jstext" where
  "json_object fs = [123, 10] @ json_lines fs @ [125]"

definition quoted :: "pubkey \<Rightarrow> jstext" where
  "quoted k = [34] @ to_base58 k @ [34]"

text \<open>The record of an earlier run: its file may be missing, unreadable, or without a mint.\<close>

definition recorded_mint :: "file_system \<Rightarrow> pubkey option io" where
  "recorded_mint F =
     io_bind (ask (ReadFile MINT_RECORD_PATH) (\<lambda>h. case fs_read F h MINT_RECORD_PATH of
         None \<Rightarrow> Inr None
       | Some r \<Rightarrow> js_bind r (json_mint F))) (\<lambda>field.
     case field of None \<Rightarrow> io_return None
     | Some t \<Rightarrow> io_bind (io_of (new_PublicKey_base58 t)) (\<lambda>k. io_return (Some k)))"

definition create_mint :: "token_library \<Rightarrow> file_system \<Rightarrow> pubkey \<Rightarrow> pubkey io" where
  "create_mint T F admin =
     io_bind (console_log (ascii ''creating new LGUSD mint'' @ [8230])) (\<lambda>_.
     io_bind (ask (TokenCall (CreateMint admin LGUSD_DECIMALS))
       (\<lambda>h. spl_createMint T h admin LGUSD_DECIMALS)) (\<lambda>mintPubkey.
     let record_text = json_object [(''mint'', quoted mintPubkey),
           (''decimals'', bigint_to_text LGUSD_DECIMALS)] in
     io_bind (ask (WriteFile MINT_RECORD_PATH record_text)
       (\<lambda>h. fs_write F h MINT_RECORD_PATH record_text)) (\<lambda>_.
     io_bind (ask (ChangeMode MINT_RECORD_PATH 384) (\<lambda>h. fs_chmod F h MINT_RECORD_PATH 384)) (\<lambda>_.
     io_bind (console_log (ascii ''LGUSD mint: '' @ to_base58 mintPubkey)) (\<lambda>_.
     io_return mintPubkey)))))"

definition getOrCreateLgUsdMint :: "services \<Rightarrow> token_library \<Rightarrow> file_system \<Rightarrow> pubkey \<Rightarrow> pubkey io" where
  "getOrCreateLgUsdMint S T F admin =
     io_bind (recorded_mint F) (\<lambda>mint.
     case mint of
       None \<Rightarrow> create_mint T F admin
     | Some mintPubkey \<Rightarrow>
         io_bind (account_exists S mintPubkey) (\<lambda>found.
         if found then
           io_bind (console_log (ascii ''reusing existing LGUSD mint: '' @ to_base58 mintPubkey))
             (\<lambda>_. io_return mintPubkey)
         else create_mint T F admin))"

definition read_token_account :: "token_library \<Rightarrow> pubkey \<Rightarrow> int io" where
  "read_token_account T k = ask (TokenCall (ReadTokenAccount k)) (\<lambda>h. spl_getAccount T h k)"

definition read_mint_authority :: "token_library \<Rightarrow> pubkey \<Rightarrow> pubkey option io" where
  "read_mint_authority T mint = ask (TokenCall (ReadMint mint)) (\<lambda>h. spl_getMint T h mint)"

definition authority_error :: "pubkey option \<Rightarrow> pubkey \<Rightarrow> js_error" where
  "authority_error mintAuthority admin = ErrorText (ascii ''Mint authority is ''
     @ (case mintAuthority of None \<Rightarrow> ascii ''undefined'' | Some k \<Rightarrow> to_base58 k)
     @ ascii '' but expected '' @ to_base58 admin @ [32, 8212]
     @ ascii '' cannot mint initial liquidity. Did mint authority transfer happen too early?'')"

definition fill_vault :: "token_library \<Rightarrow> pubkey \<Rightarrow> pubkey \<Rightarrow> pubkey \<Rightarrow> unit io" where
  "fill_vault T admin mintPubkey poolAtaAddress =
     io_bind (read_token_account T poolAtaAddress) (\<lambda>amount.
     if amount < INITIAL_LIQUIDITY then
       io_bind (read_mint_authority T mintPubkey) (\<lambda>mintAuthority.
       if mintAuthority \<noteq> Some admin then io_throw (authority_error mintAuthority admin)
       else
         let toMint = INITIAL_LIQUIDITY - amount in
         io_bind (console_log (ascii ''minting '' @ bigint_to_text toMint
           @ ascii '' base units of LGUSD into pool vault'' @ [8230])) (\<lambda>_.
         ask (TokenCall (MintTo mintPubkey poolAtaAddress admin toMint))
           (\<lambda>h. spl_mintTo T h mintPubkey poolAtaAddress toMint)))
     else console_log (ascii ''pool token vault already has '' @ bigint_to_text amount
       @ ascii '' base units, skipping mint''))"

definition hand_over_mint :: "token_library \<Rightarrow> pubkey \<Rightarrow> pubkey \<Rightarrow> pubkey \<Rightarrow> unit io" where
  "hand_over_mint T admin mintPubkey lendingPoolPda =
     io_bind (read_mint_authority T mintPubkey) (\<lambda>mintAuthority.
     if mintAuthority \<noteq> Some lendingPoolPda then
       io_bind (console_log (ascii ''transferring LGUSD mint authority '' @ [8594]
         @ ascii '' lending_pool PDA'' @ [8230])) (\<lambda>_.
       ask (TokenCall (SetMintAuthority mintPubkey admin lendingPoolPda))
         (\<lambda>h. spl_setAuthority T h mintPubkey lendingPoolPda))
     else console_log (ascii ''LGUSD mint authority already == lending_pool PDA''))"

definition create_vault :: "token_library \<Rightarrow> pubkey \<Rightarrow> pubkey \<Rightarrow> unit io" where
  "create_vault T mintPubkey lendingPoolPda =
     io_bind (console_log (ascii ''creating pool token vault (ATA owned by lending_pool PDA)'' @ [8230]))
       (\<lambda>_.
     io_bind (ask (TokenCall (CreateTokenAccount mintPubkey lendingPoolPda))
       (\<lambda>h. spl_createTokenAccount T h mintPubkey lendingPoolPda)) (\<lambda>ata.
     console_log (ascii ''pool token vault: '' @ to_base58 ata)))"

definition ensurePoolTokenVault ::
    "services \<Rightarrow> token_library \<Rightarrow> pubkey \<Rightarrow> pubkey \<Rightarrow> pubkey \<Rightarrow> pubkey io" where
  "ensurePoolTokenVault S T admin mintPubkey lendingPoolPda =
     io_bind (io_of (spl_associatedTokenAddress T mintPubkey lendingPoolPda True)) (\<lambda>poolAtaAddress.
     io_bind (account_exists S poolAtaAddress) (\<lambda>found.
     io_bind (if found then io_return () else create_vault T mintPubkey lendingPoolPda) (\<lambda>_.
     io_bind (fill_vault T admin mintPubkey poolAtaAddress) (\<lambda>_.
     io_bind (hand_over_mint T admin mintPubkey lendingPoolPda) (\<lambda>_.
     io_return poolAtaAddress)))))"

definition initializeLendingPool ::
    "platform \<Rightarrow> services \<Rightarrow> pubkey \<Rightarrow> pubkey \<Rightarrow> pubkey \<Rightarrow> pubkey \<Rightarrow> pubkey \<Rightarrow> jstext option io" where
  "initializeLendingPool P S admin mintPubkey poolAtaAddress lendingPoolPda feedPda =
     io_bind (account_exists S lendingPoolPda) (\<lambda>found.
     if found then
       io_bind (console_log (ascii ''lending_pool '' @ to_base58 lendingPoolPda
         @ ascii '' already exists, skipping'')) (\<lambda>_. io_return None)
     else
       io_bind (io_of (bootstrap_pool_ix P admin mintPubkey poolAtaAddress lendingPoolPda feedPda)) (\<lambda>ix.
       io_bind (send_and_confirm S [ix]) (\<lambda>sig.
       io_bind (console_log (ascii ''initialize_lending_pool tx: '' @ sig)) (\<lambda>_.
       io_return (Some sig)))))"

definition initializeAdminPriceFeed ::
    "platform \<Rightarrow> services \<Rightarrow> pubkey \<Rightarrow> int \<Rightarrow> int \<Rightarrow> jstext option io" where
  "initializeAdminPriceFeed P S admin assetType initialPrice =
     io_bind (io_of (priceFeedPda P assetType)) (\<lambda>feedPda.
     io_bind (account_exists S feedPda) (\<lambda>found.
     if found then
       io_bind (console_log (ascii ''price feed asset_type='' @ bigint_to_text assetType
         @ ascii '' already exists, skipping'')) (\<lambda>_. io_return None)
     else
       io_bind (io_of (bootstrap_feed_ix P admin feedPda assetType initialPrice)) (\<lambda>ix.
       io_bind (send_and_confirm S [ix]) (\<lambda>sig.
       io_bind (console_log (ascii ''initialize_admin_price_feed asset_type='' @ bigint_to_text assetType
         @ ascii '' tx: '' @ sig)) (\<lambda>_.
       io_return (Some sig))))))"

section \<open>The script\<close>

definition lending_pool_address :: "platform \<Rightarrow> pubkey \<Rightarrow> (pubkey \<times> nat) js" where
  "lending_pool_address P mint =
     find_program_address P [LENDING_POOL_SEED, to_buffer mint] scripts_PROGRAM_ID"

text \<open>From the mint to the last price feed: the vault and the addresses of the three feeds.\<close>

definition bootstrap_accounts ::
    "platform \<Rightarrow> services \<Rightarrow> token_library \<Rightarrow> pubkey \<Rightarrow> pubkey \<Rightarrow> pubkey
      \<Rightarrow> (pubkey \<times> pubkey \<times> pubkey \<times> pubkey) io" where
  "bootstrap_accounts P S T admin mint lendingPoolPda =
     io_bind (io_of (priceFeedPda P bootstrap_ASSET_BTC)) (\<lambda>btcFeedPda.
     io_bind (ensurePoolTokenVault S T admin mint lendingPoolPda) (\<lambda>poolAta.
     io_bind (initializeLendingPool P S admin mint poolAta lendingPoolPda btcFeedPda) (\<lambda>_.
     io_bind (initializeAdminPriceFeed P S admin bootstrap_ASSET_BTC INITIAL_BTC_PRICE) (\<lambda>_.
     io_bind (initializeAdminPriceFeed P S admin bootstrap_ASSET_ETH INITIAL_ETH_PRICE) (\<lambda>_.
     io_bind (initializeAdminPriceFeed P S admin bootstrap_ASSET_SOL INITIAL_SOL_PRICE) (\<lambda>_.
     io_bind (io_of (priceFeedPda P bootstrap_ASSET_ETH)) (\<lambda>ethFeedPda.
     io_bind (io_of (priceFeedPda P bootstrap_ASSET_SOL)) (\<lambda>solFeedPda.
     io_return (poolAta, btcFeedPda, ethFeedPda, solFeedPda)))))))))"

definition bootstrap_summary ::
    "pubkey \<Rightarrow> pubkey \<Rightarrow> pubkey \<Rightarrow> pubkey \<times> nat \<Rightarrow> pubkey \<times> pubkey \<times> pubkey \<times> pubkey \<Rightarrow> jstext" where
  "bootstrap_summary admin protocolStatePda mint pool accounts =
     (case (pool, accounts) of ((lendingPoolPda, lendingPoolBump), (poolAta, btcFeedPda, ethFeedPda, solFeedPda)) \<Rightarrow>
     json_object
       [(''programId'', quoted scripts_PROGRAM_ID), (''admin'', quoted admin),
        (''protocolStatePda'', quoted protocolStatePda), (''lgusdMint'', quoted mint),
        (''lendingPoolPda'', quoted lendingPoolPda),
        (''lendingPoolBump'', bigint_to_text (int lendingPoolBump)),
        (''btcPriceFeedPda'', quoted btcFeedPda), (''ethPriceFeedPda'', quoted ethFeedPda),
        (''solPriceFeedPda'', quoted solFeedPda), (''poolTokenVault'', quoted poolAta)])"

definition bootstrap_main ::
    "platform \<Rightarrow> services \<Rightarrow> token_library \<Rightarrow> file_system \<Rightarrow> pubkey \<Rightarrow> pubkey \<Rightarrow> unit io" where
  "bootstrap_main P S T F admin protocolStatePda =
     io_bind (console_log (ascii ''admin: '' @ to_base58 admin)) (\<lambda>_.
     io_bind (console_log (ascii ''program: '' @ to_base58 scripts_PROGRAM_ID)) (\<lambda>_.
     io_bind (initializeProtocol P S admin protocolStatePda) (\<lambda>_.
     io_bind (getOrCreateLgUsdMint S T F admin) (\<lambda>mint.
     io_bind (io_of (lending_pool_address P mint)) (\<lambda>pool.
     io_bind (bootstrap_accounts P S T admin mint (fst pool)) (\<lambda>accounts.
     io_bind (console_log (10 # ascii ''--- bootstrap summary ---'')) (\<lambda>_.
     console_log (bootstrap_summary admin protocolStatePda mint pool accounts))))))))"

text \<open>The module derives two addresses first; an error of \<open>main\<close> is logged and ends the process with
  code 1.\<close>

definition bootstrap :: "platform \<Rightarrow> services \<Rightarrow> token_library \<Rightarrow> file_system \<Rightarrow> pubkey \<Rightarrow> int io" where
  "bootstrap P S T F admin =
     io_bind (io_of (keeper_protocolStatePda P)) (\<lambda>protocolStatePda.
     io_bind (io_of (priceFeedPda P bootstrap_ASSET_BTC)) (\<lambda>legacyPriceFeedPda.
     io_catch
       (io_bind (bootstrap_main P S T F admin protocolStatePda) (\<lambda>_. io_return 0))
       (\<lambda>e. io_bind (tell (Warn (ascii ''bootstrap failed:''))) (\<lambda>_. io_return 1))))"

end
