(* ===== verification/Deployment.thy ===== *)
theory Deployment
  imports Bootstrap Btc_Wallet
begin

text \<open>
  The scripts around a deployment: \<open>contracts/create-keypair.js\<close> and \<open>contracts/scripts/import-authority.mjs\<close>
  write the key that deploys, \<open>contracts/deploy.js\<close> builds and deploys the program,
  \<open>contracts/scripts/transfer-upgrade-authority.mjs\<close> hands it to another key. A script is a computation
  whose value is its exit code; an error nothing catches ends it with an exception.

  What the scripts take from Node and from web3.js besides the file system: paths, child processes,
  \<open>JSON.parse\<close> and \<open>JSON.stringify\<close> on the values they meet, and key pairs.
\<close>

record node =
  node_dirname :: jstext
  node_homedir :: jstext
  path_join :: "jstext list \<Rightarrow> jstext"
  path_exists :: "history \<Rightarrow> jstext \<Rightarrow> bool"
  exec_sync :: "history \<Rightarrow> jstext \<Rightarrow> unit js"
  make_directory :: "history \<Rightarrow> jstext \<Rightarrow> unit js"
  json_bytes :: "jstext \<Rightarrow> bytes js"
  json_quote :: "jstext \<Rightarrow> jstext"
  keypair_fromSecretKey :: "bytes \<Rightarrow> pubkey js"
  keypair_generate :: "history \<Rightarrow> pubkey \<times> bytes"
  bs58_decode :: "jstext \<Rightarrow> bytes js"

section \<open>Shared by the scripts\<close>

definition existsSync :: "node \<Rightarrow> jstext \<Rightarrow> bool io" where
  "existsSync N p = ask (ReadFile p) (\<lambda>h. Inr (path_exists N h p))"

definition readFile :: "file_system \<Rightarrow> jstext \<Rightarrow> jstext io" where
  "readFile F p = ask (ReadFile p)
     (\<lambda>h. case fs_read F h p of None \<Rightarrow> Inl (ErrorMsg ''ENOENT'') | Some r \<Rightarrow> r)"

definition writeFile :: "file_system \<Rightarrow> jstext \<Rightarrow> jstext \<Rightarrow> unit io" where
  "writeFile F p t = ask (WriteFile p t) (\<lambda>h. fs_write F h p t)"

definition chmodFile :: "file_system \<Rightarrow> jstext \<Rightarrow> int \<Rightarrow> unit io" where
  "chmodFile F p m = ask (ChangeMode p m) (\<lambda>h. fs_chmod F h p m)"

definition execSync :: "node \<Rightarrow> jstext \<Rightarrow> unit io" where
  "execSync N cmd = ask (Exec cmd) (\<lambda>h. exec_sync N h cmd)"

definition console_error :: "jstext \<Rightarrow> unit io" where
  "console_error t = tell (Warn t)"

text \<open>A setting of the environment that is set to something but the empty text.\<close>

definition setting :: "platform \<Rightarrow> string \<Rightarrow> jstext option" where
  "setting P name = (case process_env P name of
       None \<Rightarrow> None | Some s \<Rightarrow> if s = '''' then None else Some (ascii s))"

text \<open>\<open>JSON.stringify\<close> of an array of bytes.\<close>

fun commas :: "bytes \<Rightarrow> jstext" where
  "commas [] = []"
| "commas [b] = nat_to_text (unat b)"
| "commas (b # bs) = nat_to_text (unat b) @ 44 # commas bs"

definition json_byte_array :: "bytes \<Rightarrow> jstext" where
  "json_byte_array bs = 91 # commas bs @ [93]"

section \<open>Key files\<close>

definition config_path :: "node \<Rightarrow> jstext \<Rightarrow> jstext" where
  "config_path N home = path_join N [home, ascii ''.config'', ascii ''solana'', ascii ''lendguard-devnet.json'']"

definition next_steps :: "pubkey \<Rightarrow> jstext \<Rightarrow> jstext list" where
  "next_steps publicKey keypairPath =
     [[10, 9989] @ ascii '' Keypair generated successfully!'',
      [55357, 56513] @ ascii '' Location: '' @ keypairPath,
      [55357, 56593] @ ascii '' Public Key: '' @ to_base58 publicKey,
      [10, 9889] @ ascii '' Next Steps:'',
      ascii ''1. Fund this wallet on devnet with faucet'',
      ascii ''   Visit: https://faucet.solana.com'',
      ascii ''   Paste: '' @ to_base58 publicKey,
      10 # ascii ''2. Build the contract:'',
      ascii ''   cd contracts'',
      ascii ''   anchor build'',
      10 # ascii ''3. Deploy to devnet:'',
      ascii ''   anchor deploy --provider.cluster devnet'']"

fun log_lines :: "jstext list \<Rightarrow> unit io" where
  "log_lines [] = io_return ()"
| "log_lines (t # ts) = io_bind (console_log t) (\<lambda>_. log_lines ts)"

definition create_keypair :: "node \<Rightarrow> file_system \<Rightarrow> unit io" where
  "create_keypair N F =
     io_bind (ask GenerateKeypair (\<lambda>h. Inr (keypair_generate N h))) (\<lambda>(publicKey, secretKey).
     let configDir = path_join N [node_homedir N, ascii ''.config'', ascii ''solana''];
         keypairPath = path_join N [configDir, ascii ''lendguard-devnet.json''] in
     io_bind (existsSync N configDir) (\<lambda>found.
     io_bind (if found then io_return ()
       else ask (MakeDirectory configDir) (\<lambda>h. make_directory N h configDir)) (\<lambda>_.
     io_bind (writeFile F keypairPath (json_byte_array secretKey)) (\<lambda>_.
     log_lines (next_steps publicKey keypairPath)))))"

definition import_authority :: "platform \<Rightarrow> node \<Rightarrow> file_system \<Rightarrow> jstext \<Rightarrow> int io" where
  "import_authority P N F outPath =
     (case setting P ''LENDGUARD_AUTHORITY_B58'' of
        None \<Rightarrow> io_bind (console_error
            (ascii ''Set LENDGUARD_AUTHORITY_B58 env var with the base58 secret key.'')) (\<lambda>_. io_return 1)
      | Some b58 \<Rightarrow>
          io_bind (io_of (bs58_decode N b58)) (\<lambda>bs.
          if length bs \<noteq> 64 then
            io_bind (console_error (ascii ''Unexpected key length: '' @ nat_to_text (length bs)
              @ ascii '' bytes (expected 64).'')) (\<lambda>_. io_return 2)
          else
            io_bind (io_of (keypair_fromSecretKey N bs)) (\<lambda>publicKey.
            io_bind (writeFile F outPath (json_byte_array bs)) (\<lambda>_.
            io_bind (chmodFile F outPath 384) (\<lambda>_.
            io_bind (console_log (ascii ''{\"pubkey\":\"'' @ to_base58 publicKey @ ascii ''\",\"wrote\":''
              @ json_quote N outPath @ [125])) (\<lambda>_. io_return 0))))))"

section \<open>Handing over the upgrade authority\<close>

definition BPF_LOADER_UPGRADEABLE :: pubkey where
  "BPF_LOADER_UPGRADEABLE = pubkey_of_base58 ''BPFLoaderUpgradeab1e11111111111111111111111''"

text \<open>The authority the ProgramData account names: state, slot, option tag, key.\<close>

definition declared_authority :: "bytes \<Rightarrow> pubkey option js" where
  "declared_authority data =
     (if get_byte data 12 = Some 1
      then js_bind (new_PublicKey (subarray data 13 45)) (\<lambda>k. Inr (Some k)) else Inr None)"

definition set_authority_ix :: "pubkey \<Rightarrow> pubkey \<Rightarrow> pubkey \<Rightarrow> transaction_instruction" where
  "set_authority_ix programDataAddress current newAuthority =
     \<lparr>ix_program_id = BPF_LOADER_UPGRADEABLE,
      ix_keys = [meta programDataAddress False True, meta current True False,
        meta newAuthority False False],
      ix_data = [4]\<rparr>"

definition json_bool :: "bool \<Rightarrow> jstext" where
  "json_bool b = (if b then ascii ''true'' else ascii ''false'')"

fun json_keys :: "account_meta list \<Rightarrow> jstext" where
  "json_keys [] = []"
| "json_keys (k # ks) =
     ascii ''    {'' @ [10] @ ascii ''      \"pubkey\": '' @ quoted (meta_pubkey k) @ [44, 10]
     @ ascii ''      \"isSigner\": '' @ json_bool (is_signer k) @ [44, 10]
     @ ascii ''      \"isWritable\": '' @ json_bool (is_writable k) @ [10]
     @ ascii ''    }'' @ (if ks = [] then [10] else [44, 10] @ json_keys ks)"

definition prepared_text :: "transaction_instruction \<Rightarrow> jstext" where
  "prepared_text ix =
     json_object [(''programId'', quoted (ix_program_id ix)),
       (''keys'', [91, 10] @ json_keys (ix_keys ix) @ ascii ''  ]''),
       (''dataHex'', [34] @ bytesToHex (ix_data ix) @ [34])]"

definition authority_mismatch :: "pubkey option \<Rightarrow> pubkey \<Rightarrow> js_error" where
  "authority_mismatch declared current = ErrorText (ascii ''Current on-chain upgrade authority is ''
     @ (case declared of None \<Rightarrow> ascii ''NONE'' | Some k \<Rightarrow> to_base58 k)
     @ ascii '', but our keypair signs as '' @ to_base58 current @ [46])"

definition transfer_checked ::
    "platform \<Rightarrow> services \<Rightarrow> pubkey \<Rightarrow> pubkey \<Rightarrow> pubkey \<Rightarrow> jstext \<Rightarrow> int io" where
  "transfer_checked P S programDataAddress current newAuthority rpc =
     io_bind (ask ReadAccounts (\<lambda>h. getAccountInfo (rpc_accounts S h) programDataAddress)) (\<lambda>info.
     case info of
       None \<Rightarrow> io_throw (ErrorMsg ''ProgramData account not found'')
     | Some data \<Rightarrow>
         io_bind (io_of (declared_authority data)) (\<lambda>declaredAuthority.
         if declaredAuthority \<noteq> Some current then io_throw (authority_mismatch declaredAuthority current)
         else
           let ix = set_authority_ix programDataAddress current newAuthority in
           io_bind (console_log
             (ascii ''preflight OK: current keypair matches on-chain upgrade authority.'')) (\<lambda>_.
           if process_env P ''LENDGUARD_DRY_RUN'' = Some ''1'' then
             io_bind (console_log (ascii ''LENDGUARD_DRY_RUN=1 set '' @ [8212]
               @ ascii '' not sending. Instruction prepared:'')) (\<lambda>_.
             io_bind (console_log (prepared_text ix)) (\<lambda>_. io_return 0))
           else
             io_bind (send_and_confirm S [ix]) (\<lambda>sig.
             io_bind (console_log (ascii ''set_authority confirmed: '' @ sig)) (\<lambda>_.
             io_bind (console_log (ascii ''Verify: solana program show '' @ to_base58 scripts_PROGRAM_ID
               @ ascii '' --url '' @ rpc)) (\<lambda>_. io_return 0))))))"

definition transfer_upgrade_authority :: "platform \<Rightarrow> services \<Rightarrow> node \<Rightarrow> file_system \<Rightarrow> int io" where
  "transfer_upgrade_authority P S N F =
     (let rpc = env_text P ''LENDGUARD_RPC'' ''https://api.devnet.solana.com'' in
      case setting P ''LENDGUARD_AUTHORITY_KEYPAIR'' of
        None \<Rightarrow> io_bind (console_error (ascii ''LENDGUARD_AUTHORITY_KEYPAIR env var is required.''))
            (\<lambda>_. io_return 1)
      | Some keypairPath \<Rightarrow> (case setting P ''LENDGUARD_NEW_AUTHORITY'' of
        None \<Rightarrow> io_bind (console_error (ascii ''LENDGUARD_NEW_AUTHORITY env var is required.''))
            (\<lambda>_. io_return 1)
      | Some newAuthorityText \<Rightarrow>
          io_bind (readFile F keypairPath) (\<lambda>text.
          io_bind (io_of (json_bytes N text)) (\<lambda>secret.
          io_bind (io_of (keypair_fromSecretKey N secret)) (\<lambda>current.
          io_bind (io_of (new_PublicKey_base58 newAuthorityText)) (\<lambda>newAuthority.
          io_bind (io_of (find_program_address P [to_buffer scripts_PROGRAM_ID] BPF_LOADER_UPGRADEABLE))
            (\<lambda>(programDataAddress, _).
          io_bind (console_log (ascii ''--- transfer-upgrade-authority ---'')) (\<lambda>_.
          io_bind (tell (Log [] [(''programId'', to_base58 scripts_PROGRAM_ID),
            (''programDataAddress'', to_base58 programDataAddress),
            (''currentAuthority'', to_base58 current), (''newAuthority'', to_base58 newAuthority),
            (''rpc'', rpc), (''dryRun'', json_bool (process_env P ''LENDGUARD_DRY_RUN'' = Some ''1''))])) (\<lambda>_.
          transfer_checked P S programDataAddress current newAuthority rpc)))))))))"

section \<open>Building and deploying\<close>

text \<open>\<open>s.replace(/pre.*suf/, new)\<close>: the first place where \<open>pre\<close> is followed by \<open>suf\<close> on the same line; the
  dot is greedy, so the match reaches to the last \<open>suf\<close> of the line.\<close>

fun after_last :: "jstext \<Rightarrow> jstext \<Rightarrow> jstext option" where
  "after_last suf [] = strip_prefix suf []"
| "after_last suf (c # cs) = (case after_last suf cs of
       Some r \<Rightarrow> Some r | None \<Rightarrow> strip_prefix suf (c # cs))"

definition match_here :: "jstext \<Rightarrow> jstext \<Rightarrow> jstext \<Rightarrow> jstext option" where
  "match_here pre suf s = (case strip_prefix pre s of
       None \<Rightarrow> None
     | Some t \<Rightarrow> let line = takeWhile (\<lambda>c. \<not> line_terminator c) t in
         (case after_last suf line of None \<Rightarrow> None | Some r \<Rightarrow> Some (r @ drop (length line) t)))"

fun replace_first :: "jstext \<Rightarrow> jstext \<Rightarrow> jstext \<Rightarrow> jstext \<Rightarrow> jstext" where
  "replace_first pre suf new [] = (case match_here pre suf [] of Some rest \<Rightarrow> new @ rest | None \<Rightarrow> [])"
| "replace_first pre suf new (c # cs) = (case match_here pre suf (c # cs) of
       Some rest \<Rightarrow> new @ rest | None \<Rightarrow> c # replace_first pre suf new cs)"

definition toml_key :: jstext where "toml_key = ascii ''lendguard_proof_vault = \"''"
definition declare_id_open :: jstext where "declare_id_open = ascii ''declare_id!(\"''"
definition declare_id_close :: jstext where "declare_id_close = ascii ''\");''"

definition with_toml_id :: "jstext \<Rightarrow> jstext \<Rightarrow> jstext" where
  "with_toml_id programId anchorToml = replace_first toml_key [34] (toml_key @ programId @ [34]) anchorToml"

definition with_declared_id :: "jstext \<Rightarrow> jstext \<Rightarrow> jstext" where
  "with_declared_id programId libRs =
     replace_first declare_id_open declare_id_close (declare_id_open @ programId @ declare_id_close) libRs"

datatype log_type = Success | Error | Warning | Info

fun colors :: "log_type \<Rightarrow> jstext" where
  "colors Success = [27] @ ascii ''[32m'' @ [9989, 27] @ ascii ''[0m''"
| "colors Error = [27] @ ascii ''[31m'' @ [10060, 27] @ ascii ''[0m''"
| "colors Warning = [27] @ ascii ''[33m'' @ [9888, 65039, 27] @ ascii ''[0m''"
| "colors Info = [27] @ ascii ''[36m'' @ [8505, 65039, 27] @ ascii ''[0m''"

definition deploy_log :: "log_type \<Rightarrow> jstext \<Rightarrow> unit io" where
  "deploy_log type msg = console_log (colors type @ 32 # msg)"

definition anchor_version :: jstext where "anchor_version = ascii ''anchor --version''"
definition anchor_build :: jstext where "anchor_build = ascii ''anchor build''"
definition anchor_deploy :: jstext where "anchor_deploy = ascii ''anchor deploy --provider.cluster devnet''"

text \<open>A step of the script: it logs and ends the process with code 1 (\<open>None\<close>), or goes on.\<close>

definition give_up :: "jstext \<Rightarrow> 'a option io" where
  "give_up msg = io_bind (deploy_log Error msg) (\<lambda>_. io_return None)"

definition go_on :: "'a option io \<Rightarrow> ('a \<Rightarrow> 'b option io) \<Rightarrow> 'b option io" where
  "go_on m f = io_bind m (\<lambda>r. case r of None \<Rightarrow> io_return None | Some x \<Rightarrow> f x)"

definition run_command :: "node \<Rightarrow> jstext \<Rightarrow> jstext \<Rightarrow> jstext \<Rightarrow> unit option io" where
  "run_command N cmd done failed =
     io_catch
       (io_bind (execSync N cmd) (\<lambda>_. io_bind (deploy_log Success done) (\<lambda>_. io_return (Some ()))))
       (\<lambda>e. give_up failed)"

text \<open>The home directory; \<open>path.join\<close> refuses \<open>undefined\<close>.\<close>

definition home :: "platform \<Rightarrow> jstext js" where
  "home P = (case setting P ''USERPROFILE'' of
       Some d \<Rightarrow> Inr d
     | None \<Rightarrow> (case process_env P ''HOME'' of None \<Rightarrow> Inl TypeError | Some d \<Rightarrow> Inr (ascii d)))"

definition check_keypair :: "platform \<Rightarrow> node \<Rightarrow> unit option io" where
  "check_keypair P N =
     io_bind (io_of (home P)) (\<lambda>dir.
     let keypairPath = config_path N dir in
     io_bind (existsSync N keypairPath) (\<lambda>found.
     if found then io_bind (deploy_log Success (ascii ''Keypair found'')) (\<lambda>_. io_return (Some ()))
     else
       io_bind (deploy_log Error (ascii ''Keypair not found at '' @ keypairPath)) (\<lambda>_.
       io_bind (deploy_log Warning (ascii ''Generate it first: node create-keypair.js'')) (\<lambda>_.
       io_return None))))"

definition program_id :: "node \<Rightarrow> file_system \<Rightarrow> pubkey option io" where
  "program_id N F =
     (let p = path_join N [node_dirname N, ascii ''target'', ascii ''deploy'',
            ascii ''lendguard_proof_vault-keypair.json''] in
      io_bind (existsSync N p) (\<lambda>found.
      if \<not> found then give_up (ascii ''Program keypair not found after build'')
      else
        io_bind (readFile F p) (\<lambda>text.
        io_bind (io_of (json_bytes N text)) (\<lambda>programKeypair.
        io_bind (io_of (new_PublicKey (drop 32 programKeypair))) (\<lambda>programId.
        io_bind (deploy_log Success (ascii ''Program ID: '' @ to_base58 programId)) (\<lambda>_.
        io_return (Some programId)))))))"

definition update_file :: "file_system \<Rightarrow> jstext \<Rightarrow> (jstext \<Rightarrow> jstext) \<Rightarrow> jstext \<Rightarrow> unit option io" where
  "update_file F p change done =
     io_bind (readFile F p) (\<lambda>text.
     io_bind (writeFile F p (change text)) (\<lambda>_.
     io_bind (deploy_log Success done) (\<lambda>_. io_return (Some ()))))"

definition deploy_steps :: "platform \<Rightarrow> node \<Rightarrow> file_system \<Rightarrow> unit option io" where
  "deploy_steps P N F =
     io_bind (deploy_log Info (ascii ''Starting LendGuard Deployment...'')) (\<lambda>_.
     io_bind (deploy_log Info (ascii ''Step 1: Checking Anchor CLI...'')) (\<lambda>_.
     go_on (run_command N anchor_version (ascii ''Anchor CLI found'')
       (ascii ''Anchor CLI not found. Install with: npm install -g @coral-xyz/anchor'')) (\<lambda>_.
     go_on (check_keypair P N) (\<lambda>_.
     io_bind (deploy_log Info (ascii ''Step 2: Building contract...'')) (\<lambda>_.
     go_on (run_command N anchor_build (ascii ''Build successful'') (ascii ''Build failed'')) (\<lambda>_.
     io_bind (deploy_log Info (ascii ''Step 3: Extracting Program ID...'')) (\<lambda>_.
     go_on (program_id N F) (\<lambda>programId.
     io_bind (deploy_log Info (ascii ''Step 4: Updating Anchor.toml...'')) (\<lambda>_.
     go_on (update_file F (path_join N [node_dirname N, ascii ''Anchor.toml''])
       (with_toml_id (to_base58 programId)) (ascii ''Anchor.toml updated'')) (\<lambda>_.
     io_bind (deploy_log Info (ascii ''Step 5: Updating lib.rs with Program ID...'')) (\<lambda>_.
     go_on (update_file F (path_join N [node_dirname N, ascii ''src'', ascii ''lib.rs''])
       (with_declared_id (to_base58 programId)) (ascii ''lib.rs updated'')) (\<lambda>_.
     io_bind (deploy_log Info (ascii ''Step 6: Deploying to Devnet...'')) (\<lambda>_.
     io_bind (deploy_log Warning
       (ascii ''Make sure your wallet is funded! Visit: https://faucet.solana.com'')) (\<lambda>_.
     io_catch
       (io_bind (execSync N anchor_deploy) (\<lambda>_.
        io_bind (deploy_log Success (ascii ''Deployment successful!'')) (\<lambda>_.
        io_bind (deploy_log Info (ascii ''Program ID: '' @ to_base58 programId)) (\<lambda>_.
        io_bind (deploy_log Info (ascii ''View on Solana Explorer: https://explorer.solana.com/address/''
          @ to_base58 programId @ ascii ''?cluster=devnet'')) (\<lambda>_. io_return (Some ()))))))
       (\<lambda>e. give_up (ascii ''Deployment failed. Check your network and wallet balance''))))))))))))))))"

definition deploy :: "platform \<Rightarrow> services \<Rightarrow> node \<Rightarrow> file_system \<Rightarrow> int io" where
  "deploy P S N F =
     io_catch
       (io_bind (deploy_steps P N F) (\<lambda>r. io_return (if r = None then 1 else 0)))
       (\<lambda>e. io_bind (deploy_log Error (ascii ''Deployment error: ''
          @ (case error_message S e of None \<Rightarrow> ascii ''undefined'' | Some t \<Rightarrow> t))) (\<lambda>_. io_return 1))"

end
