(* ===== verification/Approvals.thy ===== *)
theory Approvals
  imports Chain_Math Chain_Layout Js_Runtime
begin

text \<open>
  MessageApproval accounts: the parser of \<open>contracts/src/integrations/ika.rs\<close> for both layouts, the
  handlers of \<open>verify_custody_proof.rs\<close>, the demo helper that writes such an account
  (\<open>demo_helpers.rs\<close>), and the frontend's mock of it, \<open>web/lib/mock-message-approval.ts\<close>.
\<close>

section \<open>The on-chain parser\<close>

datatype approval_origin = RealIkaApproval | DemoHelper

record ParsedMessageApproval =
  pa_dwallet_id :: bytes
  pa_approved_at :: int
  pa_is_signed :: bool
  pa_source :: approval_origin

text \<open>A handler refuses with an error of the program, panics on an arithmetic overflow (the release
  profile checks), or succeeds.\<close>

datatype 'a outcome = Panicked | Refused lendguard_error | Done 'a

definition REAL_MA_DISCRIMINATOR :: byte where "REAL_MA_DISCRIMINATOR = 14"
definition REAL_MA_VERSION :: byte where "REAL_MA_VERSION = 1"
definition REAL_MA_MIN_LEN :: nat where "REAL_MA_MIN_LEN = 142"
definition REAL_MA_DWALLET_OFFSET :: nat where "REAL_MA_DWALLET_OFFSET = 2"
definition REAL_MA_STATUS_OFFSET :: nat where "REAL_MA_STATUS_OFFSET = 139"
definition REAL_MA_STATUS_SIGNED :: byte where "REAL_MA_STATUS_SIGNED = 1"
definition DEMO_MA_LEN :: nat where "DEMO_MA_LEN = 49"
definition DEMO_MA_DWALLET_OFFSET :: nat where "DEMO_MA_DWALLET_OFFSET = 8"
definition DEMO_MA_APPROVED_AT_OFFSET :: nat where "DEMO_MA_APPROVED_AT_OFFSET = 40"
definition DEMO_MA_SIGNED_OFFSET :: nat where "DEMO_MA_SIGNED_OFFSET = 48"

text \<open>\<open>i64::from_le_bytes\<close>, and the subtraction of two \<open>i64\<close>s with its check.\<close>

definition i64_le :: "bytes \<Rightarrow> int" where
  "i64_le bs = sint (word_of_nat (le_val bs) :: 64 word)"

definition in_i64 :: "int \<Rightarrow> bool" where
  "in_i64 x \<longleftrightarrow> - (2 ^ 63) \<le> x \<and> x < 2 ^ 63"

definition parse_real :: "bytes \<Rightarrow> bytes \<Rightarrow> ParsedMessageApproval outcome" where
  "parse_real data expected_dwallet_id =
     (if \<not> REAL_MA_MIN_LEN \<le> length data then Refused InvalidMessageApproval
      else if data ! 1 \<noteq> REAL_MA_VERSION then Refused InvalidMessageApproval
      else
        let dwallet_id = subarray data REAL_MA_DWALLET_OFFSET (REAL_MA_DWALLET_OFFSET + 32);
            is_signed = (data ! REAL_MA_STATUS_OFFSET = REAL_MA_STATUS_SIGNED) in
        if \<not> is_signed then Refused InvalidMessageApproval
        else if dwallet_id \<noteq> expected_dwallet_id then Refused DWalletMismatch
        else Done \<lparr>pa_dwallet_id = dwallet_id, pa_approved_at = 0, pa_is_signed = is_signed,
               pa_source = RealIkaApproval\<rparr>)"

definition parse_demo :: "bytes \<Rightarrow> bytes \<Rightarrow> int \<Rightarrow> ParsedMessageApproval outcome" where
  "parse_demo data expected_dwallet_id current_time =
     (if length data \<noteq> DEMO_MA_LEN then Refused InvalidMessageApproval
      else
        let dwallet_id = subarray data DEMO_MA_DWALLET_OFFSET (DEMO_MA_DWALLET_OFFSET + 32);
            approved_at = i64_le (subarray data DEMO_MA_APPROVED_AT_OFFSET (DEMO_MA_APPROVED_AT_OFFSET + 8));
            is_signed = (data ! DEMO_MA_SIGNED_OFFSET = 1) in
        if \<not> is_signed then Refused InvalidMessageApproval
        else if dwallet_id \<noteq> expected_dwallet_id then Refused DWalletMismatch
        else if \<not> in_i64 (current_time - approved_at) then Panicked
        else if \<not> current_time - approved_at \<le> PROOF_EXPIRY_SECONDS then Refused ProofExpired
        else Done \<lparr>pa_dwallet_id = dwallet_id, pa_approved_at = approved_at, pa_is_signed = is_signed,
               pa_source = DemoHelper\<rparr>)"

definition parse_message_approval :: "bytes \<Rightarrow> bytes \<Rightarrow> int \<Rightarrow> ParsedMessageApproval outcome" where
  "parse_message_approval data expected_dwallet_id current_time =
     (if data = [] then Refused InvalidMessageApproval
      else if data ! 0 = REAL_MA_DISCRIMINATOR then parse_real data expected_dwallet_id
      else if length data = DEMO_MA_LEN then parse_demo data expected_dwallet_id current_time
      else Refused InvalidMessageApproval)"

section \<open>The demo helper\<close>

text \<open>What \<open>demo_create_message_approval\<close> leaves in the 49 bytes of the account it creates.\<close>

definition MESSAGE_APPROVAL_SIZE :: nat where "MESSAGE_APPROVAL_SIZE = 49"

definition demo_create_message_approval :: "bytes \<Rightarrow> bytes \<Rightarrow> bool \<Rightarrow> int \<Rightarrow> bytes outcome" where
  "demo_create_message_approval data dwallet_id is_signed approved_at =
     (if length data \<noteq> MESSAGE_APPROVAL_SIZE then Refused InvalidMessageApproval
      else Done (replicate 8 0 @ dwallet_id @ word_le 8 (word_of_int approved_at :: 64 word)
             @ [if is_signed then 1 else 0]))"

section \<open>Verifying custody\<close>

definition PROOF_STATUS_PENDING :: byte where "PROOF_STATUS_PENDING = 0"
definition PROOF_STATUS_VERIFIED :: byte where "PROOF_STATUS_VERIFIED = 1"
definition PROOF_STATUS_EXPIRED :: byte where "PROOF_STATUS_EXPIRED = 2"

text \<open>The handlers see the approval account only through its key and its bytes.\<close>

definition verify_custody_proof ::
    "VaultState \<Rightarrow> pubkey \<Rightarrow> pubkey \<Rightarrow> bytes \<Rightarrow> bytes \<Rightarrow> int \<Rightarrow> VaultState outcome" where
  "verify_custody_proof vault signer approval_key approval_data expected_dwallet_id current_time =
     (if \<not> (vault_proof_status vault = PROOF_STATUS_PENDING
            \<or> vault_proof_status vault = PROOF_STATUS_EXPIRED) then Refused VaultAlreadyVerified
      else if vault_dwallet_id vault \<noteq> expected_dwallet_id then Refused DWalletMismatch
      else if vault_owner vault \<noteq> signer then Refused UnauthorizedCaller
      else if approval_key = PublicKey_default then Refused InvalidMessageApproval
      else (case parse_message_approval approval_data expected_dwallet_id current_time of
          Panicked \<Rightarrow> Panicked
        | Refused e \<Rightarrow> Refused e
        | Done parsed \<Rightarrow> Done (vault\<lparr>vault_proof_status := PROOF_STATUS_VERIFIED,
             vault_proof_timestamp := word_of_int current_time\<rparr>)))"

definition refresh_custody_proof ::
    "VaultState \<Rightarrow> pubkey \<Rightarrow> pubkey \<Rightarrow> bytes \<Rightarrow> bytes \<Rightarrow> int \<Rightarrow> VaultState outcome" where
  "refresh_custody_proof vault signer approval_key approval_data expected_dwallet_id current_time =
     (if vault_proof_status vault \<noteq> PROOF_STATUS_VERIFIED then Refused VaultNotVerified
      else if vault_dwallet_id vault \<noteq> expected_dwallet_id then Refused DWalletMismatch
      else if vault_owner vault \<noteq> signer then Refused UnauthorizedCaller
      else if approval_key = PublicKey_default then Refused InvalidMessageApproval
      else
        let since = current_time - sint (vault_proof_timestamp vault) in
        if \<not> in_i64 since then Panicked
        else if \<not> since \<le> PROOF_EXPIRY_SECONDS then Refused ProofExpired
        else (case parse_message_approval approval_data expected_dwallet_id current_time of
            Panicked \<Rightarrow> Panicked
          | Refused e \<Rightarrow> Refused e
          | Done parsed \<Rightarrow> Done (vault\<lparr>vault_proof_timestamp := word_of_int current_time\<rparr>)))"

section \<open>The frontend's mock\<close>

text \<open>\<open>forEach\<close> over the first 32 bytes, \<open>writeUInt8(b, 8 + i)\<close>.\<close>

fun write_bytes :: "bytes \<Rightarrow> nat \<Rightarrow> bytes \<Rightarrow> bytes" where
  "write_bytes buf off [] = buf"
| "write_bytes buf off (b # bs) = write_bytes (buf[off := b]) (off + 1) bs"

definition buildMockMessageApprovalData :: "bytes \<Rightarrow> int \<Rightarrow> bool \<Rightarrow> bytes js" where
  "buildMockMessageApprovalData dwalletId approvedAt isSigned =
     (let buf = write_bytes (replicate 49 0) 8 (take 32 dwalletId) in
      if \<not> in_i64 approvedAt then Inl RangeError
      else
        let buf = write_bytes buf 40 (word_le 8 (word_of_int approvedAt :: 64 word)) in
        Inr (write_bytes buf 48 [if isSigned then 1 else 0]))"

section \<open>Lemmas\<close>

lemma write_bytes_eq:
  "off + length bs \<le> length buf \<Longrightarrow>
   write_bytes buf off bs = take off buf @ bs @ drop (off + length bs) buf"
proof (induction bs arbitrary: buf off)
  case (Cons b bs)
  have "take (Suc off) (buf[off := b]) = take off buf @ [b]"
    using Cons.prems by (simp add: take_Suc_conv_app_nth)
  then show ?case using Cons.prems Cons.IH [of "off + 1" "buf[off := b]"] by simp
qed simp

text \<open>The mock's bytes are those the demo helper writes.\<close>

lemma mock_bytes:
  assumes "length d = 32" "in_i64 t"
  shows "buildMockMessageApprovalData d t s
      = Inr (replicate 8 0 @ d @ word_le 8 (word_of_int t :: 64 word) @ [if s then 1 else 0])"
  using assms
  by (simp add: buildMockMessageApprovalData_def write_bytes_eq list_update_append Let_def)

lemma mock_eq_helper:
  assumes "length d = 32" "in_i64 t"
  shows "demo_create_message_approval (replicate 49 0) d s t
      = (case buildMockMessageApprovalData d t s of Inr bs \<Rightarrow> Done bs | Inl e \<Rightarrow> Panicked)"
  using mock_bytes [OF assms]
  by (simp add: demo_create_message_approval_def MESSAGE_APPROVAL_SIZE_def)

lemma i64_le_word_le: "in_i64 t \<Longrightarrow> i64_le (word_le 8 (word_of_int t :: 64 word)) = t"
  by (simp add: i64_le_def in_i64_def signed_of_int signed_take_bit_int_eq_self)

lemma parse_helper_bytes:
  assumes "length d = 32" "in_i64 t"
  shows "parse_message_approval (replicate 8 0 @ d @ word_le 8 (word_of_int t :: 64 word) @ [if s then 1 else 0]) e now =
    (if \<not> s then Refused InvalidMessageApproval
     else if d \<noteq> e then Refused DWalletMismatch
     else if \<not> in_i64 (now - t) then Panicked
     else if now - t > PROOF_EXPIRY_SECONDS then Refused ProofExpired
     else Done \<lparr>pa_dwallet_id = d, pa_approved_at = t, pa_is_signed = True, pa_source = DemoHelper\<rparr>)"
  using assms
  by (simp add: parse_message_approval_def parse_demo_def DEMO_MA_LEN_def REAL_MA_DISCRIMINATOR_def
      DEMO_MA_DWALLET_OFFSET_def DEMO_MA_APPROVED_AT_OFFSET_def DEMO_MA_SIGNED_OFFSET_def
      subarray_def nth_append i64_le_word_le Let_def)

section \<open>Properties\<close>

text \<open>The program's parser reads the frontend's mock back: signed, for the expected dWallet and at
  most ten minutes old it is accepted with the fields it was built from, and in every other case the
  parser gives the reason.\<close>

theorem mock_approval_parsed:
  assumes "length d = 32" "in_i64 t"
  shows "\<exists>bs. buildMockMessageApprovalData d t s = Inr bs \<and> length bs = DEMO_MA_LEN
    \<and> parse_message_approval bs e now =
      (if \<not> s then Refused InvalidMessageApproval
       else if d \<noteq> e then Refused DWalletMismatch
       else if \<not> in_i64 (now - t) then Panicked
       else if now - t > PROOF_EXPIRY_SECONDS then Refused ProofExpired
       else Done \<lparr>pa_dwallet_id = d, pa_approved_at = t, pa_is_signed = True, pa_source = DemoHelper\<rparr>)"
  using assms mock_bytes [OF assms, of s] parse_helper_bytes [OF assms, of s e now]
  by (simp add: DEMO_MA_LEN_def)

lemma mock_approval_parsed_witness:
  "\<exists>bs. buildMockMessageApprovalData (replicate 32 7) 1000 True = Inr bs
    \<and> parse_message_approval bs (replicate 32 7) 1600
      = Done \<lparr>pa_dwallet_id = replicate 32 7, pa_approved_at = 1000, pa_is_signed = True, pa_source = DemoHelper\<rparr>"
  using mock_approval_parsed [of "replicate 32 7" 1000 True "replicate 32 7" 1600]
  by (auto simp: in_i64_def PROOF_EXPIRY_SECONDS_def)

text \<open>Verifying needs no approval of the Ika network: the bytes anyone can have the program write with
  its own demo helper verify the vault of the same owner at once.\<close>

theorem custody_proof_self_made:
  assumes "length (vault_dwallet_id v) = 32" "in_i64 now"
    and "vault_proof_status v = PROOF_STATUS_PENDING" "k \<noteq> PublicKey_default"
  shows "\<exists>bs. demo_create_message_approval (replicate 49 0) (vault_dwallet_id v) True now = Done bs
    \<and> verify_custody_proof v (vault_owner v) k bs (vault_dwallet_id v) now
      = Done (v\<lparr>vault_proof_status := PROOF_STATUS_VERIFIED, vault_proof_timestamp := word_of_int now\<rparr>)"
  using assms parse_helper_bytes [OF assms(1,2), of True "vault_dwallet_id v" now]
  by (simp add: demo_create_message_approval_def MESSAGE_APPROVAL_SIZE_def verify_custody_proof_def
      in_i64_def PROOF_EXPIRY_SECONDS_def)

lemma custody_proof_self_made_witness:
  "\<exists>bs v. demo_create_message_approval (replicate 49 0) (replicate 32 9) True 5 = Done bs
    \<and> verify_custody_proof
        \<lparr>vault_vault_id = 1, vault_owner = 2, vault_dwallet_id = replicate 32 9, vault_asset_type = 0,
         vault_deposited_amount = 0, vault_proof_status = 0, vault_proof_timestamp = 0,
         vault_frozen = False, vault_bump = 0\<rparr> 2 3 bs (replicate 32 9) 5 = Done v
    \<and> vault_proof_status v = PROOF_STATUS_VERIFIED"
  using custody_proof_self_made [of "\<lparr>vault_vault_id = 1, vault_owner = 2, vault_dwallet_id = replicate 32 9,
      vault_asset_type = 0, vault_deposited_amount = 0, vault_proof_status = 0, vault_proof_timestamp = 0,
      vault_frozen = False, vault_bump = 0\<rparr>" 5 3]
  by (auto simp: in_i64_def PROOF_STATUS_PENDING_def PublicKey_default_def)

end
