(* ===== verification/Approval_Tools.thy ===== *)
theory Approval_Tools
  imports Deployment Approvals
begin

text \<open>
  Tools around MessageApproval accounts that stand beside the application:
  \<open>createMockMessageApprovalAccount\<close> of \<open>web/lib/mock-message-approval.ts\<close>, and the diagnostic scripts
  \<open>web/scripts/read_message_approval_time.js\<close> and \<open>web/scripts/check-ika-coord.mjs\<close>.

  What they take from web3.js, and from JavaScript's dates and numbers, besides what the other parts
  take: \<open>createAccount\<close> of the system program, the rent of a size, the owner of an account and whether it
  is executable, \<open>toISOString\<close>, and a whole number as \<open>console.log\<close> prints it.
\<close>

record web3_tools =
  createAccount_ix :: "pubkey \<Rightarrow> pubkey \<Rightarrow> int \<Rightarrow> nat \<Rightarrow> pubkey \<Rightarrow> transaction_instruction js"
  rent_exemption :: "history \<Rightarrow> nat \<Rightarrow> int js"
  account_owner :: "history \<Rightarrow> pubkey \<Rightarrow> pubkey"
  account_executable :: "history \<Rightarrow> pubkey \<Rightarrow> bool"
  iso_date :: "int \<Rightarrow> jstext js"
  number_text :: "int \<Rightarrow> jstext"

definition current_time_ms :: "services \<Rightarrow> int io" where
  "current_time_ms S = (\<lambda>h. (Inr (date_now S h), h))"

section \<open>The mock account\<close>

definition mock_IKA_PROGRAM_ID :: "platform \<Rightarrow> pubkey" where
  "mock_IKA_PROGRAM_ID P = env_pubkey P ''NEXT_PUBLIC_IKA_PROGRAM_ID''
     ''87W54kGYFQ1rgWqMeu4XTPHWXWmXSQCcjm8vCTfiq1oY''"

definition createMockMessageApprovalAccount ::
    "platform \<Rightarrow> services \<Rightarrow> web3_tools \<Rightarrow> node \<Rightarrow> pubkey \<Rightarrow> bytes \<Rightarrow> bool \<Rightarrow> pubkey io" where
  "createMockMessageApprovalAccount P S W N payer dwalletId isSigned =
     io_bind (ask GenerateKeypair (\<lambda>h. Inr (fst (keypair_generate N h)))) (\<lambda>approvalKey.
     io_bind (current_time_ms S) (\<lambda>now.
     let approvedAt = now div 1000 in
     io_bind (io_of (buildMockMessageApprovalData dwalletId approvedAt isSigned)) (\<lambda>data.
     io_bind (ask (GetRent (length data)) (\<lambda>h. rent_exemption W h (length data))) (\<lambda>lamports.
     io_bind (io_of (createAccount_ix W payer approvalKey lamports (length data)
       (mock_IKA_PROGRAM_ID P))) (\<lambda>ix.
     io_bind (send_and_confirm S [ix]) (\<lambda>_.
     io_return approvalKey))))))"

section \<open>Reading an approval\<close>

text \<open>The second argument of the process, the environment, the default.\<close>

fun first_set :: "jstext option list \<Rightarrow> jstext \<Rightarrow> jstext" where
  "first_set [] fallback = fallback"
| "first_set (x # xs) fallback =
     (case x of None \<Rightarrow> first_set xs fallback
      | Some t \<Rightarrow> if t = [] then first_set xs fallback else t)"

definition default_approval :: jstext where
  "default_approval = ascii ''Hh1YsCow3j4Ch311LaraLP8yLwoM6Kdc1AtHbgkopTGX''"

definition log_approval_time :: "services \<Rightarrow> web3_tools \<Rightarrow> int \<Rightarrow> unit io" where
  "log_approval_time S W approvedAt =
     (let ms = (if approvedAt > 10 ^ 12 then approvedAt else js_number (approvedAt * 1000)) in
     io_bind (console_log (ascii ''approved_at (raw): '' @ number_text W approvedAt)) (\<lambda>_.
     io_bind (io_of (iso_date W ms)) (\<lambda>iso.
     io_bind (console_log (ascii ''approved_at (ISO): '' @ iso)) (\<lambda>_.
     io_bind (current_time_ms S) (\<lambda>now.
     console_log (ascii ''approved_at (now delta seconds): ''
       @ number_text W (js_number (now - ms) div 1000)))))))"

definition show_approval :: "services \<Rightarrow> web3_tools \<Rightarrow> bytes \<Rightarrow> unit io" where
  "show_approval S W data =
     io_bind (if length data < 49
       then console_error (ascii ''Account data shorter than expected (49 bytes). Parsing may fail.'')
       else io_return ()) (\<lambda>_.
     let dwalletBytes = subarray data 8 40;
         dwalletId = (case new_PublicKey dwalletBytes of
             Inr k \<Rightarrow> to_base58 k | Inl e \<Rightarrow> bytesToHex dwalletBytes) in
     io_bind (case readBigInt64LE data 40 of
         Inr raw \<Rightarrow> io_return (Some (js_number raw))
       | Inl e \<Rightarrow> io_bind (console_error (ascii ''Could not read approved_at as i64 LE: ''
           @ (case error_message S e of None \<Rightarrow> ascii ''undefined'' | Some t \<Rightarrow> t)))
           (\<lambda>_. io_return None)) (\<lambda>approvedAt.
     let isSigned = (if length data > 48 then Some (data ! 48 = 1) else None) in
     io_bind (console_log (ascii ''dwallet_id: '' @ dwalletId)) (\<lambda>_.
     io_bind (console_log (ascii ''is_signed: ''
       @ (case isSigned of None \<Rightarrow> ascii ''unknown'' | Some b \<Rightarrow> json_bool b))) (\<lambda>_.
     case approvedAt of
       Some t \<Rightarrow> log_approval_time S W t
     | None \<Rightarrow> console_log (ascii ''approved_at: not available'')))))"

definition read_approval_main ::
    "platform \<Rightarrow> services \<Rightarrow> web3_tools \<Rightarrow> jstext option \<Rightarrow> jstext option \<Rightarrow> int io" where
  "read_approval_main P S W argv2 argv3 =
     (let defaultPubkey = first_set [setting P ''NEXT_PUBLIC_DEMO_MESSAGE_APPROVAL''] default_approval;
          pubkeyArg = first_set [argv2] defaultPubkey;
          rpcArg = first_set [argv3, setting P ''SOLANA_RPC_URL'', setting P ''NEXT_PUBLIC_SOLANA_RPC_URL'']
            (ascii ''https://api.devnet.solana.com'') in
     io_bind (console_log (ascii ''RPC: '' @ rpcArg)) (\<lambda>_.
     io_bind (console_log (ascii ''MessageApproval pubkey: '' @ pubkeyArg)) (\<lambda>_.
     io_bind (io_of (new_PublicKey_base58 pubkeyArg)) (\<lambda>pubkey.
     io_bind (ask ReadAccounts (\<lambda>h. map_sum id (map_option (Pair (account_owner W h pubkey)))
       (getAccountInfo (rpc_accounts S h) pubkey))) (\<lambda>info.
     case info of
       None \<Rightarrow> io_bind (console_error (ascii ''Account not found on chain'')) (\<lambda>_. io_return 2)
     | Some (owner, data) \<Rightarrow>
         io_bind (console_log (ascii ''Account owner: '' @ to_base58 owner)) (\<lambda>_.
         io_bind (console_log (ascii ''Data length: '' @ nat_to_text (length data))) (\<lambda>_.
         io_bind (show_approval S W data) (\<lambda>_. io_return 0))))))))"

definition read_message_approval_time ::
    "platform \<Rightarrow> services \<Rightarrow> web3_tools \<Rightarrow> jstext option \<Rightarrow> jstext option \<Rightarrow> int io" where
  "read_message_approval_time P S W argv2 argv3 =
     io_catch (read_approval_main P S W argv2 argv3)
       (\<lambda>err. io_bind (console_error (ascii ''Error: '' @ (case error_message S err of
            None \<Rightarrow> ascii ''undefined'' | Some t \<Rightarrow> t))) (\<lambda>_. io_return 1))"

section \<open>Looking for Ika's accounts\<close>

definition ika :: pubkey where
  "ika = pubkey_of_base58 ''87W54kGYFQ1rgWqMeu4XTPHWXWmXSQCcjm8vCTfiq1oY''"

definition check_ika_coord :: "platform \<Rightarrow> services \<Rightarrow> web3_tools \<Rightarrow> unit io" where
  "check_ika_coord P S W =
     io_bind (io_of (find_program_address P [buffer_from ''dwallet_coordinator''] ika)) (\<lambda>(coord, _).
     io_bind (console_log (ascii ''DWalletCoordinator PDA: '' @ to_base58 coord)) (\<lambda>_.
     io_bind (ask ReadAccounts (\<lambda>h. map_sum id (map_option (Pair (account_owner W h coord)))
       (getAccountInfo (rpc_accounts S h) coord))) (\<lambda>ci.
     io_bind (case ci of
         None \<Rightarrow> console_log (ascii ''  '' @ 8594 # ascii '' DOES NOT EXIST on devnet'')
       | Some (owner, data) \<Rightarrow> console_log (ascii ''  '' @ 8594 # ascii '' exists, owner: '' @ to_base58 owner
           @ ascii '' data len: '' @ nat_to_text (length data))) (\<lambda>_.
     io_bind (ask ReadAccounts (\<lambda>h. map_sum id (map_option (\<lambda>_. account_executable W h ika))
       (getAccountInfo (rpc_accounts S h) ika))) (\<lambda>ikaInfo.
     console_log (ascii ''Ika dWallet program account: '' @ (case ikaInfo of
         None \<Rightarrow> ascii ''DOES NOT EXIST''
       | Some executable \<Rightarrow> ascii ''exists, executable='' @ json_bool executable)))))))"

section \<open>What they do\<close>

text \<open>The bytes built for the mock account are never written: but for their length nothing depends on
  them, and the account is created the same for every dWallet, signed or not. What the system program
  leaves there is zeros, which the program's parser refuses.\<close>

lemma length_write_bytes [simp]: "length (write_bytes buf off bs) = length buf"
  by (induction buf off bs rule: write_bytes.induct) simp_all

lemma mock_length: "in_i64 t \<Longrightarrow> \<exists>bs. buildMockMessageApprovalData d t s = Inr bs \<and> length bs = 49"
  by (simp add: buildMockMessageApprovalData_def Let_def)

lemma mock_account_blank:
  "createMockMessageApprovalAccount P S W N payer d s = createMockMessageApprovalAccount P S W N payer d' s'"
  "parse_message_approval (replicate 49 0) e now = Refused InvalidMessageApproval"
proof -
  show "createMockMessageApprovalAccount P S W N payer d s = createMockMessageApprovalAccount P S W N payer d' s'"
  proof
    fix h
    let ?t = "date_now S (h @ [GenerateKeypair]) div 1000"
    show "createMockMessageApprovalAccount P S W N payer d s h
        = createMockMessageApprovalAccount P S W N payer d' s' h"
    proof (cases "in_i64 ?t")
      case True
      obtain bs bs' where "buildMockMessageApprovalData d ?t s = Inr bs" "length bs = 49"
          "buildMockMessageApprovalData d' ?t s' = Inr bs'" "length bs' = 49"
        using mock_length [OF True] by metis
      then show ?thesis
        by (simp add: createMockMessageApprovalAccount_def io_bind_def current_time_ms_def Let_def
            cong: sum.case_cong)
    next
      case False
      then show ?thesis
        by (simp add: createMockMessageApprovalAccount_def io_bind_def current_time_ms_def Let_def
            buildMockMessageApprovalData_def)
    qed
  qed
  show "parse_message_approval (replicate 49 0) e now = Refused InvalidMessageApproval"
    by (simp add: parse_message_approval_def parse_demo_def DEMO_MA_LEN_def REAL_MA_DISCRIMINATOR_def
        DEMO_MA_SIGNED_OFFSET_def Let_def nth_Cons')
qed

text \<open>The reading script tells the truth about an approval of the demo helper; of one that Ika wrote it
  prints other bytes of the account as the dWallet.\<close>

lemma show_approval_demo:
  assumes "length d = 32" "in_i64 t" "data = replicate 8 0 @ d @ word_le 8 (word_of_int t :: 64 word) @ [if s then 1 else 0]"
  shows "show_approval S W data = io_bind (console_log (ascii ''dwallet_id: '' @ to_base58 (word_of_nat (be_val d))))
    (\<lambda>_. io_bind (console_log (ascii ''is_signed: '' @ json_bool s)) (\<lambda>_. log_approval_time S W (js_number t)))"
proof -
  have "be_val d < 256 ^ 32" using be_val_lt [of d] assms(1) by simp
  moreover have "readBigInt64LE data 40 = Inr t"
    using i64_le_word_le [OF assms(2)] assms(1)
    by (simp add: assms(3) readBigInt64LE_def subarray_def i64_le_def)
  ultimately show ?thesis
    using assms(1) by (simp add: show_approval_def assms(3) subarray_def new_PublicKey_def nth_append Let_def)
qed

text \<open>The program id of Ika has three names in the environment: setting the documented one moves the
  addresses of the dWallets, and not the program that Bitcoin liquidations call.\<close>

lemma ika_programs_diverge:
  assumes "process_env P = (\<lambda>name. if name = ''NEXT_PUBLIC_IKA_PROGRAM'' then Some k else None)"
  shows "IKA_PROGRAM_ID P = pubkey_of_base58 k" "IKA_DWALLET_PROGRAM_ID P = ika" "mock_IKA_PROGRAM_ID P = ika"
  by (simp_all add: IKA_PROGRAM_ID_def IKA_DWALLET_PROGRAM_ID_def mock_IKA_PROGRAM_ID_def env_pubkey_def
      assms ika_def)

end
