(* ===== verification/Toasts.thy ===== *)
theory Toasts
  imports Amounts
begin

text \<open>
  The toast store of \<open>web/hooks/use-toast.ts\<close>: a reducer, the queue of removal timers, and the
  functions components call. Besides \<open>id\<close> and \<open>open\<close> a toast has properties of any kind, a map. A
  step of the store is a call or a timer that fires.
\<close>

definition TOAST_LIMIT :: nat where "TOAST_LIMIT = 1"
definition TOAST_REMOVE_DELAY :: int where "TOAST_REMOVE_DELAY = 1000000"
definition MAX_SAFE_INTEGER :: nat where "MAX_SAFE_INTEGER = 2 ^ 53 - 1"

record 'p toast =
  to_id :: jstext
  to_open :: "bool option"
  to_props :: "string \<Rightarrow> 'p option"

text \<open>An update carries the id and the properties it overrides.\<close>

datatype 'p action =
    ADD_TOAST "'p toast"
  | UPDATE_TOAST "'p toast"
  | DISMISS_TOAST "jstext option"
  | REMOVE_TOAST "jstext option"

text \<open>The module's variables: \<open>memoryState\<close>, \<open>toastTimeouts\<close> (the ids, each with the delay it was
  started with), \<open>count\<close>.\<close>

record 'p store =
  toasts :: "'p toast list"
  toastTimeouts :: "(jstext \<times> int) list"
  toast_count :: nat

definition genId :: "nat \<Rightarrow> nat \<times> jstext" where
  "genId count = (let c = (count + 1) mod MAX_SAFE_INTEGER in (c, nat_to_text c))"

definition addToRemoveQueue :: "jstext \<Rightarrow> (jstext \<times> int) list \<Rightarrow> (jstext \<times> int) list" where
  "addToRemoveQueue toastId timeouts =
     (if toastId \<in> fst ` set timeouts then timeouts else timeouts @ [(toastId, TOAST_REMOVE_DELAY)])"

definition merge_toast :: "'p toast \<Rightarrow> 'p toast \<Rightarrow> 'p toast" where
  "merge_toast t u =
     \<lparr>to_id = to_id u, to_open = (case to_open u of None \<Rightarrow> to_open t | Some b \<Rightarrow> Some b),
      to_props = to_props t ++ to_props u\<rparr>"

text \<open>The reducer with its side effect on the timers.\<close>

fun reducer :: "'p toast list \<Rightarrow> (jstext \<times> int) list \<Rightarrow> 'p action \<Rightarrow> 'p toast list \<times> (jstext \<times> int) list" where
  "reducer ts q (ADD_TOAST t) = (take TOAST_LIMIT (t # ts), q)"
| "reducer ts q (UPDATE_TOAST u) = (map (\<lambda>t. if to_id t = to_id u then merge_toast t u else t) ts, q)"
| "reducer ts q (DISMISS_TOAST toastId) =
     (map (\<lambda>t. if Some (to_id t) = toastId \<or> toastId = None then t\<lparr>to_open := Some False\<rparr> else t) ts,
      (case toastId of
         Some (c # cs) \<Rightarrow> addToRemoveQueue (c # cs) q
       | _ \<Rightarrow> fold (\<lambda>t. addToRemoveQueue (to_id t)) ts q))"
| "reducer ts q (REMOVE_TOAST None) = ([], q)"
| "reducer ts q (REMOVE_TOAST (Some i)) = (filter (\<lambda>t. to_id t \<noteq> i) ts, q)"

definition dispatch :: "'p store \<Rightarrow> 'p action \<Rightarrow> 'p store" where
  "dispatch s a = (case reducer (toasts s) (toastTimeouts s) a of
     (ts, q) \<Rightarrow> s\<lparr>toasts := ts, toastTimeouts := q\<rparr>)"

text \<open>The functions: \<open>toast\<close> shows a new toast and returns its id, the key of \<open>update\<close> and \<open>dismiss\<close>.\<close>

definition show_toast :: "'p store \<Rightarrow> (string \<Rightarrow> 'p option) \<Rightarrow> jstext \<times> 'p store" where
  "show_toast s props =
     (let (c, i) = genId (toast_count s) in
      (i, dispatch (s\<lparr>toast_count := c\<rparr>) (ADD_TOAST \<lparr>to_id = i, to_open = Some True, to_props = props\<rparr>)))"

definition update_toast :: "'p store \<Rightarrow> jstext \<Rightarrow> bool option \<Rightarrow> (string \<Rightarrow> 'p option) \<Rightarrow> 'p store" where
  "update_toast s i op props = dispatch s (UPDATE_TOAST \<lparr>to_id = i, to_open = op, to_props = props\<rparr>)"

definition dismiss_toast :: "'p store \<Rightarrow> jstext option \<Rightarrow> 'p store" where
  "dismiss_toast s i = dispatch s (DISMISS_TOAST i)"

text \<open>The callback of a timer.\<close>

definition fire_timeout :: "'p store \<Rightarrow> jstext \<Rightarrow> 'p store" where
  "fire_timeout s i =
     dispatch (s\<lparr>toastTimeouts := filter (\<lambda>(j, _). j \<noteq> i) (toastTimeouts s)\<rparr>) (REMOVE_TOAST (Some i))"

inductive toast_step :: "'p store \<Rightarrow> 'p store \<Rightarrow> bool" where
  step_show: "toast_step s (snd (show_toast s props))"
| step_update: "toast_step s (update_toast s i op props)"
| step_dismiss: "toast_step s (dismiss_toast s i)"
| step_fire: "i \<in> fst ` set (toastTimeouts s) \<Longrightarrow> toast_step s (fire_timeout s i)"

definition initial_store :: "'p store" where
  "initial_store = \<lparr>toasts = [], toastTimeouts = [], toast_count = 0\<rparr>"

definition reachable_store :: "'p store \<Rightarrow> bool" where
  "reachable_store s \<longleftrightarrow> toast_step\<^sup>*\<^sup>* initial_store s"

section \<open>Lemmas\<close>

lemma nat_to_text_inject [simp]: "nat_to_text m = nat_to_text n \<longleftrightarrow> m = n"
  by (metis digits_value_nat_to_text option.inject)

lemma queue_distinct:
  "distinct (map fst q) \<Longrightarrow> distinct (map fst (addToRemoveQueue i q))"
  by (auto simp: addToRemoveQueue_def)

lemma queue_fold_distinct:
  "distinct (map fst q) \<Longrightarrow> distinct (map fst (fold (\<lambda>t. addToRemoveQueue (to_id t)) ts q))"
  by (induction ts arbitrary: q) (simp_all add: queue_distinct)

lemma queue_mem: "fst ` set (addToRemoveQueue i q) = insert i (fst ` set q)"
  by (force simp: addToRemoveQueue_def)

lemma queue_fold_mem:
  "fst ` set (fold (\<lambda>t. addToRemoveQueue (to_id t)) ts q) = to_id ` set ts \<union> fst ` set q"
  by (induction ts arbitrary: q) (auto simp: queue_mem)

text \<open>At most one toast is shown, it is the last one made, and no id has two timers.\<close>

definition store_ok :: "'p store \<Rightarrow> bool" where
  "store_ok s \<longleftrightarrow> (toasts s = [] \<or> (\<exists>t. toasts s = [t] \<and> to_id t = nat_to_text (toast_count s)))
     \<and> distinct (map fst (toastTimeouts s)) \<and> toast_count s < MAX_SAFE_INTEGER"

lemma distinct_map_fst_filter: "distinct (map fst q) \<Longrightarrow> distinct (map fst (filter P q))"
  by (induction q) auto

lemma store_ok_step: "toast_step s s' \<Longrightarrow> store_ok s \<Longrightarrow> store_ok s'"
proof (induction rule: toast_step.induct)
  case (step_show s props)
  then show ?case
    by (simp add: show_toast_def genId_def dispatch_def store_ok_def TOAST_LIMIT_def MAX_SAFE_INTEGER_def Let_def)
next
  case (step_update s i op props)
  then show ?case
    by (auto simp: update_toast_def dispatch_def store_ok_def merge_toast_def)
next
  case (step_dismiss s i)
  then show ?case
    by (auto simp: dismiss_toast_def dispatch_def store_ok_def queue_distinct queue_fold_distinct
        split: option.split list.split)
next
  case (step_fire i s)
  from step_fire.prems have "distinct (map fst (toastTimeouts s))" "toast_count s < MAX_SAFE_INTEGER"
    and "toasts s = [] \<or> (\<exists>t. toasts s = [t] \<and> to_id t = nat_to_text (toast_count s))"
    by (simp_all add: store_ok_def)
  from this(3,1,2) show ?case
    by (elim disjE exE conjE) (simp_all add: fire_timeout_def dispatch_def store_ok_def distinct_map_fst_filter)
qed

lemma reachable_ok: "reachable_store s \<Longrightarrow> store_ok s"
  unfolding reachable_store_def
  by (induction rule: rtranclp_induct)
    (simp_all add: store_ok_step, simp add: store_ok_def initial_store_def MAX_SAFE_INTEGER_def)

section \<open>Properties\<close>

text \<open>C36: in every reachable store at most one toast is shown, it is the one made last, and no toast
  has two removal timers, so what an older toast's handle does leaves the shown toast alone.\<close>

theorem toast_store_invariant:
  assumes "reachable_store s"
  shows "length (toasts s) \<le> TOAST_LIMIT \<and> distinct (map fst (toastTimeouts s))
    \<and> (\<forall>i op props. i \<noteq> nat_to_text (toast_count s) \<longrightarrow> i \<noteq> [] \<longrightarrow>
         toasts (dismiss_toast s (Some i)) = toasts s \<and> toasts (update_toast s i op props) = toasts s
         \<and> toasts (fire_timeout s i) = toasts s)"
proof -
  have "distinct (map fst (toastTimeouts s))"
    and "toasts s = [] \<or> (\<exists>t. toasts s = [t] \<and> to_id t = nat_to_text (toast_count s))"
    using reachable_ok [OF assms] by (simp_all add: store_ok_def)
  from this(2,1) show ?thesis
    by (elim disjE exE conjE)
      (simp_all add: TOAST_LIMIT_def dismiss_toast_def update_toast_def fire_timeout_def dispatch_def)
qed

lemma toast_store_invariant_witness:
  "length (toasts (snd (show_toast (snd (show_toast initial_store (\<lambda>_. Some (1 :: nat)))) (\<lambda>_. Some 2))))
     \<le> TOAST_LIMIT"
proof -
  let ?s = "snd (show_toast (snd (show_toast initial_store (\<lambda>_. Some (1 :: nat)))) (\<lambda>_. Some 2))"
  have "reachable_store ?s"
    unfolding reachable_store_def by (meson rtranclp.rtrancl_into_rtrancl rtranclp.rtrancl_refl step_show)
  from toast_store_invariant [OF this] show ?thesis by simp
qed

text \<open>A dismissed toast gets a timer, and when it fires the toast is gone.\<close>

lemma dismissed_is_removed:
  assumes "i \<noteq> []"
  shows "i \<in> fst ` set (toastTimeouts (dismiss_toast s (Some i)))
    \<and> i \<notin> to_id ` set (toasts (fire_timeout (dismiss_toast s (Some i)) i))"
proof -
  obtain c cs where i: "i = c # cs" using assms by (cases i) auto
  have "toastTimeouts (dismiss_toast s (Some i)) = addToRemoveQueue i (toastTimeouts s)"
    by (simp add: i dismiss_toast_def dispatch_def)
  moreover have "toasts (fire_timeout x i) = filter (\<lambda>t. to_id t \<noteq> i) (toasts x)" for x :: "'a store"
    by (simp add: fire_timeout_def dispatch_def)
  ultimately show ?thesis by (auto simp: queue_mem)
qed

end
