(* ===== verification/Toast_Views.thy ===== *)
theory Toast_Views
  imports Toasts
begin

text \<open>
  \<open>useToast\<close> of \<open>web/hooks/use-toast.ts\<close>: the components that show the toasts. A component takes the state
  of the store when it is first rendered, puts its \<open>setState\<close> on the list of listeners in an effect after
  that, again after every change of its state, and off the list when it goes. The effects of React are
  steps of their own: the store can change between a render and its effect.
\<close>

record 'p screen =
  sc_store :: "'p store"
  sc_listeners :: "nat list"
  sc_views :: "nat \<Rightarrow> 'p toast list option"

text \<open>\<open>listeners.push(setState)\<close>, and its cleanup: \<open>indexOf\<close> and \<open>splice\<close> take the first entry away.\<close>

definition subscribe :: "nat \<Rightarrow> 'p screen \<Rightarrow> 'p screen" where
  "subscribe c s = s\<lparr>sc_listeners := sc_listeners s @ [c]\<rparr>"

definition unsubscribe :: "nat \<Rightarrow> 'p screen \<Rightarrow> 'p screen" where
  "unsubscribe c s = s\<lparr>sc_listeners := remove1 c (sc_listeners s)\<rparr>"

text \<open>The end of \<open>dispatch\<close>: every listener gets the new state.\<close>

definition publish :: "'p store \<Rightarrow> 'p screen \<Rightarrow> 'p screen" where
  "publish st s = s\<lparr>sc_store := st,
     sc_views := (\<lambda>c. if c \<in> set (sc_listeners s) then Some (toasts st) else sc_views s c)\<rparr>"

definition render_view :: "nat \<Rightarrow> 'p screen \<Rightarrow> 'p screen" where
  "render_view c s = s\<lparr>sc_views := (sc_views s)(c \<mapsto> toasts (sc_store s))\<rparr>"

definition unmount_view :: "nat \<Rightarrow> 'p screen \<Rightarrow> 'p screen" where
  "unmount_view c s = (unsubscribe c s)\<lparr>sc_views := (sc_views s)(c := None)\<rparr>"

inductive screen_step :: "'p screen \<Rightarrow> 'p screen \<Rightarrow> bool" where
  view_rendered: "sc_views s c = None \<Longrightarrow> screen_step s (render_view c s)"
| view_effect: "sc_views s c \<noteq> None \<Longrightarrow> c \<notin> set (sc_listeners s) \<Longrightarrow> screen_step s (subscribe c s)"
| view_effect_again: "c \<in> set (sc_listeners s) \<Longrightarrow> screen_step s (subscribe c (unsubscribe c s))"
| view_unmounted: "sc_views s c \<noteq> None \<Longrightarrow> screen_step s (unmount_view c s)"
| view_store: "toast_step (sc_store s) st \<Longrightarrow> screen_step s (publish st s)"

inductive_cases screen_stepE: "screen_step s s'"

definition initial_screen :: "'p screen" where
  "initial_screen = \<lparr>sc_store = initial_store, sc_listeners = [], sc_views = Map.empty\<rparr>"

lemmas screen_defs = subscribe_def unsubscribe_def publish_def render_view_def unmount_view_def

text \<open>No component listens twice, and the ones that listen are there.\<close>

definition screen_ok :: "'p screen \<Rightarrow> bool" where
  "screen_ok s \<longleftrightarrow> distinct (sc_listeners s) \<and> list_all (\<lambda>c. sc_views s c \<noteq> None) (sc_listeners s)"

lemma screen_ok_step: "screen_step s s' \<Longrightarrow> screen_ok s \<Longrightarrow> screen_ok s'"
  by (induction rule: screen_step.induct)
    (auto simp: screen_ok_def screen_defs list_all_iff notin_set_remove1)

lemma screen_ok_reachable: "screen_step\<^sup>*\<^sup>* initial_screen s \<Longrightarrow> screen_ok s"
  by (induction rule: rtranclp_induct) (auto simp: screen_ok_step, simp add: screen_ok_def initial_screen_def)

text \<open>A component that listens shows the store after every change of it, until it goes.\<close>

lemma view_after_change: "c \<in> set (sc_listeners s) \<Longrightarrow> sc_views (publish st s) c = Some (toasts st)"
  by (simp add: publish_def)

lemma view_follows:
  assumes "screen_step s s'" "screen_ok s" "c \<in> set (sc_listeners s)"
    and "sc_views s c = Some (toasts (sc_store s))" "sc_views s' c \<noteq> None"
  shows "c \<in> set (sc_listeners s') \<and> sc_views s' c = Some (toasts (sc_store s'))"
  using assms by (elim screen_stepE) (auto simp: screen_defs screen_ok_def)

text \<open>A toast made between the first render of a component and its effect is not shown by it: the
  effect only puts it on the list.\<close>

lemma toast_missed:
  fixes props :: "string \<Rightarrow> 'p option"
  shows "\<exists>s. screen_step\<^sup>*\<^sup>* initial_screen s \<and> c \<in> set (sc_listeners s) \<and> sc_views s c = Some []
    \<and> map to_props (toasts (sc_store s)) = [props]"
proof -
  let ?a = "render_view c initial_screen" and ?st = "snd (show_toast initial_store props)"
  let ?b = "publish ?st ?a" and ?s = "subscribe c (publish ?st ?a)"
  have "screen_step initial_screen ?a" by (rule view_rendered) (simp add: initial_screen_def)
  moreover have "screen_step ?a ?b"
    by (rule view_store) (simp add: render_view_def initial_screen_def step_show)
  moreover have "screen_step ?b ?s" by (rule view_effect) (simp_all add: screen_defs initial_screen_def)
  ultimately have "screen_step\<^sup>*\<^sup>* initial_screen ?s"
    by (blast intro: converse_rtranclp_into_rtranclp)
  moreover have "c \<in> set (sc_listeners ?s)" "sc_views ?s c = Some []"
      "map to_props (toasts (sc_store ?s)) = [props]"
    by (simp_all add: screen_defs initial_screen_def initial_store_def show_toast_def dispatch_def
        TOAST_LIMIT_def Let_def split: prod.split)
  ultimately show ?thesis by (intro exI [of _ ?s] conjI)
qed

end
