(* ===== verification/Page_Io.thy ===== *)
theory Page_Io
  imports Services
begin

text \<open>
  Event handlers of the pages: computations over the requests to the world outside that also write
  the page's state. A handler reads the state its render captured, never what is written meanwhile,
  and a setter only takes effect later, so the writes are an output: a list, in the order of the calls.
  \<open>page_action\<close> is the shape of every handler: busy, body, failure logged, no longer busy. The locale
  \<open>page_state\<close> is the interface of a page's state; \<open>keeps\<close> and \<open>leads\<close> are the rules for what a
  handler requests and writes, and for invariants of the state.
\<close>

type_synonym ('w, 'a) page = "history \<Rightarrow> 'a js \<times> history \<times> 'w list"

definition pg_return :: "'a \<Rightarrow> ('w, 'a) page" where
  "pg_return x = (\<lambda>h. (Inr x, h, []))"

definition pg_throw :: "js_error \<Rightarrow> ('w, 'a) page" where
  "pg_throw e = (\<lambda>h. (Inl e, h, []))"

text \<open>A computation that writes no state, and one that only writes.\<close>

definition pg_io :: "'a io \<Rightarrow> ('w, 'a) page" where
  "pg_io m = (\<lambda>h. case m h of (r, h') \<Rightarrow> (r, h', []))"

definition pg_of :: "'a js \<Rightarrow> ('w, 'a) page" where
  "pg_of r = (\<lambda>h. (r, h, []))"

definition put :: "'w list \<Rightarrow> ('w, unit) page" where
  "put ws = (\<lambda>h. (Inr (), h, ws))"

definition pg_bind :: "('w, 'a) page \<Rightarrow> ('a \<Rightarrow> ('w, 'b) page) \<Rightarrow> ('w, 'b) page" where
  "pg_bind m f = (\<lambda>h. case m h of
       (Inl e, h', ws) \<Rightarrow> (Inl e, h', ws)
     | (Inr x, h', ws) \<Rightarrow> (case f x h' of (r, h'', ws') \<Rightarrow> (r, h'', ws @ ws')))"

definition pg_catch :: "('w, 'a) page \<Rightarrow> (js_error \<Rightarrow> ('w, 'a) page) \<Rightarrow> ('w, 'a) page" where
  "pg_catch m k = (\<lambda>h. case m h of
       (Inl e, h', ws) \<Rightarrow> (case k e h' of (r, h'', ws') \<Rightarrow> (r, h'', ws @ ws'))
     | (Inr x, h', ws) \<Rightarrow> (Inr x, h', ws))"

text \<open>\<open>try { m } finally { writes }\<close>\<close>

definition pg_finally :: "('w, 'a) page \<Rightarrow> 'w list \<Rightarrow> ('w, 'a) page" where
  "pg_finally m final = (\<lambda>h. case m h of (r, h', ws) \<Rightarrow> (r, h', ws @ final))"

definition page_action ::
    "(bool \<Rightarrow> 'w) \<Rightarrow> (js_error \<Rightarrow> 'w list) \<Rightarrow> ('w, unit) page \<Rightarrow> ('w, unit) page" where
  "page_action busy failed body =
     pg_bind (put [busy True]) (\<lambda>_.
     pg_finally (pg_catch body (\<lambda>e. put (failed e))) [busy False])"

section \<open>Laws\<close>

lemma pg_run [simp]:
  "pg_return x h = (Inr x, h, [])" "pg_throw e h = (Inl e, h, [])" "pg_of r h = (r, h, [])"
  "put ws h = (Inr (), h, ws)"
  by (simp_all add: pg_return_def pg_throw_def pg_of_def put_def)

lemma pg_simps [simp]:
  "pg_bind (pg_return x) f = f x" "pg_bind (pg_throw e) f = pg_throw e"
  "pg_bind (pg_of (Inr x)) f = f x" "pg_bind (pg_of (Inl e)) f = pg_throw e"
  by (auto simp: fun_eq_iff pg_bind_def pg_return_def pg_throw_def pg_of_def split: prod.splits)

lemma pg_bind_put: "pg_bind (put ws) f h = (case f () h of (r, h', ws') \<Rightarrow> (r, h', ws @ ws'))"
  by (simp add: pg_bind_def)

text \<open>A handler never throws, and its last write clears the busy flag its first one set.\<close>

lemma page_action_ends:
  "\<exists>h' ws. page_action busy failed body h = (Inr (), h', busy True # ws @ [busy False])"
  by (auto simp: page_action_def pg_bind_def pg_finally_def pg_catch_def split: prod.splits sum.splits)

lemma page_action_fails:
  "body h = (Inl e, h', ws) \<Longrightarrow>
   page_action busy failed body h = (Inr (), h', busy True # ws @ failed e @ [busy False])"
  by (simp add: page_action_def pg_bind_def pg_finally_def pg_catch_def)

lemma page_action_runs:
  "body h = (Inr (), h', ws) \<Longrightarrow>
   page_action busy failed body h = (Inr (), h', busy True # ws @ [busy False])"
  by (simp add: page_action_def pg_bind_def pg_finally_def pg_catch_def)

section \<open>What a handler may request and write\<close>

text \<open>Every request a computation makes satisfies \<open>P\<close>, every write \<open>Q\<close>.\<close>

definition keeps :: "(request \<Rightarrow> bool) \<Rightarrow> ('w \<Rightarrow> bool) \<Rightarrow> ('w, 'a) page \<Rightarrow> bool" where
  "keeps P Q m \<longleftrightarrow>
     (\<forall>h r h' ws. m h = (r, h', ws) \<longrightarrow> (\<exists>k. h' = h @ k \<and> list_all P k) \<and> list_all Q ws)"

named_theorems keeps_intros

lemma keepsD:
  assumes "keeps P Q m" "m h = (r, h', ws)"
  shows "\<exists>k. h' = h @ k \<and> list_all P k" "list_all Q ws"
  using assms unfolding keeps_def by blast+

lemma keeps_pure [keeps_intros]: "keeps P Q (pg_return x)" "keeps P Q (pg_throw e)" "keeps P Q (pg_of r)"
  by (simp_all add: keeps_def)

lemma keeps_put [keeps_intros]: "list_all Q ws \<Longrightarrow> keeps P Q (put ws)"
  by (simp add: keeps_def)

lemma keeps_io [keeps_intros]: "grows P m \<Longrightarrow> keeps P Q (pg_io m)"
  by (auto simp: keeps_def pg_io_def dest: growsD split: prod.splits)

lemma keeps_bind_run:
  assumes "keeps P Q m" "\<And>h x h' ws. m h = (Inr x, h', ws) \<Longrightarrow> keeps P Q (f x)"
  shows "keeps P Q (pg_bind m f)"
  unfolding keeps_def
proof (intro allI impI)
  fix h r h' ws
  assume run: "pg_bind m f h = (r, h', ws)"
  obtain q h1 ws1 where m: "m h = (q, h1, ws1)" by (metis prod_cases3)
  obtain k1 where k1: "h1 = h @ k1" "list_all P k1" and w1: "list_all Q ws1"
    using keepsD [OF assms(1) m] by blast
  show "(\<exists>k. h' = h @ k \<and> list_all P k) \<and> list_all Q ws"
  proof (cases q)
    case (Inl e)
    then show ?thesis using run m k1 w1 by (auto simp: pg_bind_def)
  next
    case (Inr x)
    obtain r2 h2 ws2 where f: "f x h1 = (r2, h2, ws2)" by (metis prod_cases3)
    have "keeps P Q (f x)" using assms(2) m Inr by blast
    then obtain k2 where "h2 = h1 @ k2" "list_all P k2" and w2: "list_all Q ws2"
      using keepsD f by blast
    then show ?thesis
      using run m f Inr k1 w1 by (auto simp: pg_bind_def)
  qed
qed

lemma keeps_bind [keeps_intros]:
  "keeps P Q m \<Longrightarrow> (\<And>x. keeps P Q (f x)) \<Longrightarrow> keeps P Q (pg_bind m f)"
  by (rule keeps_bind_run)

text \<open>After a pure computation its result is known.\<close>

lemma keeps_bind_of: "(\<And>x. r = Inr x \<Longrightarrow> keeps P Q (f x)) \<Longrightarrow> keeps P Q (pg_bind (pg_of r) f)"
  by (rule keeps_bind_run) (auto intro: keeps_pure)

lemma keeps_catch [keeps_intros]:
  assumes "keeps P Q m" "\<And>e. keeps P Q (k e)"
  shows "keeps P Q (pg_catch m k)"
  unfolding keeps_def
proof (intro allI impI)
  fix h r h' ws
  assume run: "pg_catch m k h = (r, h', ws)"
  obtain q h1 ws1 where m: "m h = (q, h1, ws1)" by (metis prod_cases3)
  obtain k1 where k1: "h1 = h @ k1" "list_all P k1" and w1: "list_all Q ws1"
    using keepsD [OF assms(1) m] by blast
  show "(\<exists>j. h' = h @ j \<and> list_all P j) \<and> list_all Q ws"
  proof (cases q)
    case (Inr x)
    then show ?thesis using run m k1 w1 by (auto simp: pg_catch_def)
  next
    case (Inl e)
    obtain r2 h2 ws2 where f: "k e h1 = (r2, h2, ws2)" by (metis prod_cases3)
    obtain k2 where "h2 = h1 @ k2" "list_all P k2" and w2: "list_all Q ws2"
      using keepsD [OF assms(2) f] by blast
    then show ?thesis
      using run m f Inl k1 w1 by (auto simp: pg_catch_def)
  qed
qed

lemma keeps_finally [keeps_intros]:
  assumes "keeps P Q m" "list_all Q final"
  shows "keeps P Q (pg_finally m final)"
  using assms by (auto simp: keeps_def pg_finally_def split: prod.splits)

lemma keeps_if [keeps_intros]: "keeps P Q m \<Longrightarrow> keeps P Q n \<Longrightarrow> keeps P Q (if c then m else n)"
  by simp

lemma keeps_action [keeps_intros]:
  assumes "keeps P Q body" "\<And>b. Q (busy b)" "\<And>e. list_all Q (failed e)"
  shows "keeps P Q (page_action busy failed body)"
  unfolding page_action_def using assms by (auto intro!: keeps_intros)

section \<open>Pages\<close>

text \<open>A page: how a write changes its state, its busy flag, and which writes touch the flag.\<close>

locale page_state =
  fixes update_state :: "'w \<Rightarrow> 's \<Rightarrow> 's" and busy :: "bool \<Rightarrow> 'w" and running :: "'s \<Rightarrow> bool"
  assumes running_busy [simp]: "running (update_state (busy b) s) = b"
begin

definition writes :: "'w list \<Rightarrow> 's \<Rightarrow> 's" where
  "writes ws s = fold update_state ws s"

lemma writes_simps [simp]:
  "writes [] s = s" "writes (w # ws) s = writes ws (update_state w s)" "writes (a @ b) s = writes b (writes a s)"
  by (simp_all add: writes_def)

text \<open>After a handler the page takes input again.\<close>

lemma action_ends:
  "\<exists>h' ws. page_action busy failed body h = (Inr (), h', ws) \<and> \<not> running (writes ws s)"
proof -
  obtain h' ws where "page_action busy failed body h = (Inr (), h', busy True # ws @ [busy False])"
    using page_action_ends by blast
  then show ?thesis by auto
qed

text \<open>An invariant every write keeps holds after any writes.\<close>

lemma writes_invariant:
  "(\<And>w s. Q w \<Longrightarrow> I s \<Longrightarrow> I (update_state w s)) \<Longrightarrow> list_all Q ws \<Longrightarrow> I s \<Longrightarrow> I (writes ws s)"
  by (induction ws arbitrary: s) simp_all

text \<open>From a state with \<open>J\<close> the computation leads to one with \<open>K\<close>, whatever fails on the way.\<close>

definition leads :: "('s \<Rightarrow> bool) \<Rightarrow> ('s \<Rightarrow> bool) \<Rightarrow> ('w, 'a) page \<Rightarrow> bool" where
  "leads J K m \<longleftrightarrow> (\<forall>h r h' ws s. m h = (r, h', ws) \<longrightarrow> J s \<longrightarrow> K (writes ws s))"

lemma leadsD: "leads J K m \<Longrightarrow> m h = (r, h', ws) \<Longrightarrow> J s \<Longrightarrow> K (writes ws s)"
  unfolding leads_def by blast

lemma leads_put: "(\<And>s. J s \<Longrightarrow> K (writes ws s)) \<Longrightarrow> leads J K (put ws)"
  by (simp add: leads_def)

lemma leads_pure:
  assumes "\<And>s. J s \<Longrightarrow> K s"
  shows "leads J K (pg_return x)" "leads J K (pg_throw e)" "leads J K (pg_of r)"
  using assms by (simp_all add: leads_def)

lemma leads_io: "(\<And>s. J s \<Longrightarrow> K s) \<Longrightarrow> leads J K (pg_io m)"
  by (auto simp: leads_def pg_io_def split: prod.splits)

lemma leads_seq:
  assumes m: "leads J L m" and f: "\<And>x. leads L K (f x)" and LK: "\<And>s. L s \<Longrightarrow> K s"
  shows "leads J K (pg_bind m f)"
  unfolding leads_def pg_bind_def
  using leadsD [OF m] leadsD [OF f] LK by (fastforce split: prod.splits sum.splits)

lemma leads_bind:
  "leads J J m \<Longrightarrow> (\<And>x. leads J K (f x)) \<Longrightarrow> (\<And>s. J s \<Longrightarrow> K s) \<Longrightarrow> leads J K (pg_bind m f)"
  by (rule leads_seq)

lemma leads_bind_of:
  assumes "\<And>x. r = Inr x \<Longrightarrow> leads J K (f x)" "\<And>s. J s \<Longrightarrow> K s"
  shows "leads J K (pg_bind (pg_of r) f)"
  using assms by (cases r) (simp_all add: leads_pure)

lemma leads_catch:
  assumes m: "leads J K m" and k: "\<And>e. leads K K (k e)"
  shows "leads J K (pg_catch m k)"
  unfolding leads_def pg_catch_def
  using leadsD [OF m] leadsD [OF k] by (fastforce split: prod.splits sum.splits)

lemma leads_finally:
  assumes m: "leads J K m" and final: "\<And>s. K s \<Longrightarrow> K (writes final s)"
  shows "leads J K (pg_finally m final)"
  unfolding leads_def pg_finally_def
  using leadsD [OF m] final by (auto split: prod.splits)

lemma leads_action:
  assumes "leads J K body" "\<And>s. J s \<Longrightarrow> K s"
    and "\<And>b s. J s \<Longrightarrow> J (update_state (busy b) s)" "\<And>b s. K s \<Longrightarrow> K (update_state (busy b) s)"
    and "\<And>e s. K s \<Longrightarrow> K (writes (failed e) s)"
  shows "leads J K (page_action busy failed body)"
  unfolding page_action_def
  using assms by (auto intro!: leads_bind leads_finally leads_catch leads_put)

text \<open>A computation that ends by clearing the flag leaves the page free.\<close>

lemma finally_free: "leads J (\<lambda>s. \<not> running s) (pg_bind (put [busy True]) (\<lambda>_. pg_finally m [busy False]))"
  by (auto simp: leads_def pg_bind_put pg_finally_def split: prod.splits)

lemma action_free: "leads J (\<lambda>s. \<not> running s) (page_action busy failed body)"
  unfolding page_action_def by (rule finally_free)

end

end
