(* ===== verification/Lend_State.thy ===== *)
theory Lend_State
  imports Page_Io Torque Btc_Wallet Executors Send_Tx Base58 Builders_Web Gate Lending_Math Ika_Flow
begin

text \<open>
  The lending page, \<open>web/app/lend/page.tsx\<close>: its state (one field per \<open>useState\<close>), its writes (one per
  setter, plus the jobs it starts without waiting), what it computes of its state, and its reads of
  the chain. The handlers are in \<open>Lend_Page\<close>. One \<open>ReadAccounts\<close> stands for each call of a reader.
\<close>

section \<open>State\<close>

datatype log_status = LogOk | LogWarn | LogFail

record log_entry =
  log_status :: log_status
  log_message :: jstext
  log_tx :: "jstext option"
  log_account :: "jstext option"

record lend_page =
  ls_poolPda :: "jstext option"
  ls_priceFeedPda :: "jstext option"
  ls_pool :: "LendingPoolAccount option"
  ls_priceFeed :: "AdminPriceFeedAccount option"
  ls_vaults :: "VaultListing list"
  ls_allVaults :: "jstext \<Rightarrow> VaultListing option"
  ls_selectedVault :: "VaultListing option"
  ls_position :: "BorrowPositionAccount option"
  ls_positionPda :: "jstext option"
  ls_allPositions :: "BorrowPositionListing list"
  ls_lgUsdBalance :: int
  ls_amount :: jstext
  ls_btcIkaDwallet :: jstext
  ls_btcDwalletPubkeyHex :: jstext
  ls_btcAddress :: jstext
  ls_btcVaultInput :: jstext
  ls_btcMessageApproval :: jstext
  ls_btcVault :: "BtcVaultAccount option"
  ls_btcVaultPda :: "pubkey option"
  ls_btcAttestation :: "BitcoinBalanceAttestationAccount option"
  ls_btcPosition :: "BorrowPositionAccount option"
  ls_btcBorrowAmount :: jstext
  ls_running :: bool
  ls_protocolFrozen :: "bool option"
  ls_log :: "log_entry list"

definition initial_lend_page :: lend_page where
  "initial_lend_page =
     \<lparr>ls_poolPda = None, ls_priceFeedPda = None, ls_pool = None, ls_priceFeed = None, ls_vaults = [],
      ls_allVaults = Map.empty, ls_selectedVault = None, ls_position = None, ls_positionPda = None,
      ls_allPositions = [], ls_lgUsdBalance = 0, ls_amount = ascii ''25'', ls_btcIkaDwallet = [],
      ls_btcDwalletPubkeyHex = [], ls_btcAddress = [], ls_btcVaultInput = [], ls_btcMessageApproval = [],
      ls_btcVault = None, ls_btcVaultPda = None, ls_btcAttestation = None, ls_btcPosition = None,
      ls_btcBorrowAmount = ascii ''25'', ls_running = False, ls_protocolFrozen = None, ls_log = []\<rparr>"

text \<open>The setters, and the three jobs started with \<open>void\<close>: a Torque event, a balance, a refresh.\<close>

datatype lend_write =
    SetPoolPda "jstext option"
  | SetPriceFeedPda "jstext option"
  | SetPool "LendingPoolAccount option"
  | SetPriceFeed "AdminPriceFeedAccount option"
  | SetVaults "VaultListing list"
  | SetAllVaults "jstext \<Rightarrow> VaultListing option"
  | SetSelectedVault "VaultListing option"
  | SetPosition "BorrowPositionAccount option"
  | SetPositionPda "jstext option"
  | SetAllPositions "BorrowPositionListing list"
  | SetLgUsdBalance int
  | SetAmount jstext
  | SetBtcIkaDwallet jstext
  | SetBtcDwalletPubkeyHex jstext
  | SetBtcAddress jstext
  | SetBtcVaultInput jstext
  | SetBtcMessageApproval jstext
  | SetBtcVault "BtcVaultAccount option"
  | SetBtcVaultPda "pubkey option"
  | SetBtcAttestation "BitcoinBalanceAttestationAccount option"
  | SetBtcPosition "BorrowPositionAccount option"
  | SetBtcBorrowAmount jstext
  | SetRunning bool
  | SetProtocolFrozen "bool option"
  | AddLog log_entry
  | StartTorque torque_input
  | StartBalanceRefresh pubkey
  | StartRefresh

fun apply_write :: "lend_write \<Rightarrow> lend_page \<Rightarrow> lend_page" where
  "apply_write (SetPoolPda v) s = s\<lparr>ls_poolPda := v\<rparr>"
| "apply_write (SetPriceFeedPda v) s = s\<lparr>ls_priceFeedPda := v\<rparr>"
| "apply_write (SetPool v) s = s\<lparr>ls_pool := v\<rparr>"
| "apply_write (SetPriceFeed v) s = s\<lparr>ls_priceFeed := v\<rparr>"
| "apply_write (SetVaults v) s = s\<lparr>ls_vaults := v\<rparr>"
| "apply_write (SetAllVaults v) s = s\<lparr>ls_allVaults := v\<rparr>"
| "apply_write (SetSelectedVault v) s = s\<lparr>ls_selectedVault := v\<rparr>"
| "apply_write (SetPosition v) s = s\<lparr>ls_position := v\<rparr>"
| "apply_write (SetPositionPda v) s = s\<lparr>ls_positionPda := v\<rparr>"
| "apply_write (SetAllPositions v) s = s\<lparr>ls_allPositions := v\<rparr>"
| "apply_write (SetLgUsdBalance v) s = s\<lparr>ls_lgUsdBalance := v\<rparr>"
| "apply_write (SetAmount v) s = s\<lparr>ls_amount := v\<rparr>"
| "apply_write (SetBtcIkaDwallet v) s = s\<lparr>ls_btcIkaDwallet := v\<rparr>"
| "apply_write (SetBtcDwalletPubkeyHex v) s = s\<lparr>ls_btcDwalletPubkeyHex := v\<rparr>"
| "apply_write (SetBtcAddress v) s = s\<lparr>ls_btcAddress := v\<rparr>"
| "apply_write (SetBtcVaultInput v) s = s\<lparr>ls_btcVaultInput := v\<rparr>"
| "apply_write (SetBtcMessageApproval v) s = s\<lparr>ls_btcMessageApproval := v\<rparr>"
| "apply_write (SetBtcVault v) s = s\<lparr>ls_btcVault := v\<rparr>"
| "apply_write (SetBtcVaultPda v) s = s\<lparr>ls_btcVaultPda := v\<rparr>"
| "apply_write (SetBtcAttestation v) s = s\<lparr>ls_btcAttestation := v\<rparr>"
| "apply_write (SetBtcPosition v) s = s\<lparr>ls_btcPosition := v\<rparr>"
| "apply_write (SetBtcBorrowAmount v) s = s\<lparr>ls_btcBorrowAmount := v\<rparr>"
| "apply_write (SetRunning v) s = s\<lparr>ls_running := v\<rparr>"
| "apply_write (SetProtocolFrozen v) s = s\<lparr>ls_protocolFrozen := v\<rparr>"
| "apply_write (AddLog e) s = s\<lparr>ls_log := take 12 (e # ls_log s)\<rparr>"
| "apply_write (StartTorque i) s = s"
| "apply_write (StartBalanceRefresh k) s = s"
| "apply_write StartRefresh s = s"

interpretation lend: page_state apply_write SetRunning ls_running
  by unfold_locales simp

text \<open>What a render captures besides the state: the wallet.\<close>

record wallet_env =
  we_owner :: "pubkey option"
  we_signTransaction :: bool
  we_connected :: bool

section \<open>Derived values\<close>

definition verifiedVaults :: "lend_page \<Rightarrow> VaultListing list" where
  "verifiedVaults c = filter (\<lambda>v. va_proofStatus (vl_vault v) = 1) (ls_vaults c)"

definition position_liquidatable ::
    "(jstext \<Rightarrow> VaultListing option) \<Rightarrow> LendingPoolAccount \<Rightarrow> AdminPriceFeedAccount
     \<Rightarrow> BorrowPositionListing \<Rightarrow> bool" where
  "position_liquidatable allVaults pool priceFeed p =
     (case allVaults (to_base58 (bp_vault (bl_position p))) of
        None \<Rightarrow> False
      | Some v \<Rightarrow>
          (let debt = currentDebt (bp_principal (bl_position p)) (lp_borrowIndex pool) in
           debt > 0 \<and> isLiquidatable (va_depositedAmount (vl_vault v)) (pf_priceUsd priceFeed) debt
             (lp_liquidationThresholdBps pool)))"

definition liquidatablePositions :: "lend_page \<Rightarrow> BorrowPositionListing list" where
  "liquidatablePositions c =
     (case (ls_pool c, ls_priceFeed c) of
        (Some pool, Some priceFeed) \<Rightarrow>
          filter (position_liquidatable (ls_allVaults c) pool priceFeed) (ls_allPositions c)
      | _ \<Rightarrow> [])"

fun collect_debts ::
    "LendingPoolAccount \<Rightarrow> pubkey \<Rightarrow> BorrowPositionListing list \<Rightarrow> (jstext \<Rightarrow> int option) \<Rightarrow> (jstext \<Rightarrow> int option)" where
  "collect_debts pool owner [] m = m"
| "collect_debts pool owner (p # ps) m =
     (if bp_owner (bl_position p) \<noteq> owner then collect_debts pool owner ps m
      else
        let debt = currentDebt (bp_principal (bl_position p)) (lp_borrowIndex pool) in
        collect_debts pool owner ps
          (if debt > 0 then m(to_base58 (bp_vault (bl_position p)) \<mapsto> debt) else m))"

definition vaultsWithOpenDebt :: "wallet_env \<Rightarrow> lend_page \<Rightarrow> (jstext \<Rightarrow> int option)" where
  "vaultsWithOpenDebt E c =
     (case (ls_pool c, we_owner E) of
        (Some pool, Some owner) \<Rightarrow> collect_debts pool owner (ls_allPositions c) Map.empty
      | _ \<Rightarrow> Map.empty)"

definition selectedVaultHasDebt :: "wallet_env \<Rightarrow> lend_page \<Rightarrow> bool" where
  "selectedVaultHasDebt E c =
     (case ls_selectedVault c of
        None \<Rightarrow> False
      | Some v \<Rightarrow> vaultsWithOpenDebt E c (to_base58 (vl_vaultPda v)) \<noteq> None)"

section \<open>Texts of the forms\<close>

text \<open>\<open>parseInt(s, 16)\<close>: white space, a sign and \<open>0x\<close> are skipped, then the longest run of digits is
  read; \<open>None\<close> is \<open>NaN\<close>.\<close>

definition parseInt16 :: "jstext \<Rightarrow> int option" where
  "parseInt16 s =
     (let t = dropWhile is_white_space s;
          neg = (take 1 t = [45]);
          t = (if take 1 t = [45] \<or> take 1 t = [43] then drop 1 t else t);
          t = (if take 2 t = [48, 120] \<or> take 2 t = [48, 88] then drop 2 t else t);
          digits = takeWhile (\<lambda>c. digit_value 16 c \<noteq> None) t in
      if digits = [] then None
      else (case digits_value 16 0 digits of
              None \<Rightarrow> None
            | Some v \<Rightarrow> Some (if neg then - int v else int v)))"

fun hex_pairs :: "jstext \<Rightarrow> bytes" where
  "hex_pairs (a # b # cs) =
     to_uint8 (case parseInt16 [a, b] of None \<Rightarrow> 0 | Some n \<Rightarrow> n) # hex_pairs cs"
| "hex_pairs _ = []"

definition hexToBytes :: "jstext \<Rightarrow> bytes js" where
  "hexToBytes hex =
     (let clean = (if take 2 hex = ascii ''0x'' then drop 2 hex else hex) in
      if length clean mod 2 \<noteq> 0 then Inl (ErrorMsg ''hex length must be even'')
      else Inr (hex_pairs clean))"

definition formatPriceUsd :: "services \<Rightarrow> int \<Rightarrow> jstext" where
  "formatPriceUsd S price = 36 # locale_quotient S price PRICE_SCALE"

text \<open>The JSON form of \<open>Number(text)\<close> and of \<open>Number(bigint)\<close>.\<close>

definition number_json :: "services \<Rightarrow> jstext \<Rightarrow> json" where
  "number_json S t = (case number_of_text S t of None \<Rightarrow> JNull | Some r \<Rightarrow> JNumber r)"

definition bigint_number_json :: "int \<Rightarrow> json" where
  "bigint_number_json n = JNumber (of_int (js_number n))"

definition friendlyError :: "services \<Rightarrow> js_error \<Rightarrow> jstext" where
  "friendlyError S e = (case e of NonError t \<Rightarrow> t
     | _ \<Rightarrow> (case error_message S e of Some m \<Rightarrow> m | None \<Rightarrow> []))"

section \<open>Small actions\<close>

definition entry :: "log_status \<Rightarrow> jstext \<Rightarrow> jstext option \<Rightarrow> jstext option \<Rightarrow> lend_write" where
  "entry st m tx acc =
     AddLog \<lparr>log_status = st, log_message = m, log_tx = tx, log_account = acc\<rparr>"

definition recordTorque :: "wallet_env \<Rightarrow> string \<Rightarrow> (jstext \<times> json option) list \<Rightarrow> lend_write list" where
  "recordTorque E eventName data =
     (case we_owner E of
        None \<Rightarrow> []
      | Some owner \<Rightarrow> [StartTorque \<lparr>ti_eventName = ascii eventName, ti_userPubkey = to_base58 owner,
           ti_data = data\<rparr>])"

text \<open>What the page does with the answer to an event.\<close>

definition torque_answered :: "number_format \<Rightarrow> emit_result \<Rightarrow> lend_write list" where
  "torque_answered F res =
     (case er_reason res of
        Some reason \<Rightarrow>
          if \<not> er_forwarded res \<and> json_truthy reason then
            [entry LogWarn (ascii ''Torque event recorded locally only: ''
               @ js_String F reason) None None]
          else []
      | None \<Rightarrow> [])"

definition field :: "string \<Rightarrow> jstext \<Rightarrow> jstext \<times> json option" where
  "field k t = (ascii k, Some (JText t))"

section \<open>Reading the chain\<close>

definition read_accounts :: "services \<Rightarrow> (connection \<Rightarrow> 'a js) \<Rightarrow> 'a io" where
  "read_accounts S f = ask ReadAccounts (\<lambda>h. f (rpc_accounts S h))"

fun getMultipleAccountsInfo :: "connection \<Rightarrow> pubkey list \<Rightarrow> bytes option list js" where
  "getMultipleAccountsInfo conn [] = Inr []"
| "getMultipleAccountsInfo conn (k # ks) =
     js_bind (getAccountInfo conn k) (\<lambda>i. js_bind (getMultipleAccountsInfo conn ks) (\<lambda>is. Inr (i # is)))"

definition refreshLgUsdBalance :: "platform \<Rightarrow> services \<Rightarrow> pubkey \<Rightarrow> (lend_write, unit) page" where
  "refreshLgUsdBalance P S ownerPk =
     pg_catch
       (pg_bind (pg_of (deriveAssociatedTokenAddress P ownerPk (LGUSD_MINT P) False)) (\<lambda>ata.
        pg_bind (pg_io (read_accounts S (\<lambda>conn. getAccountInfo conn ata))) (\<lambda>info.
        case info of
          None \<Rightarrow> put [SetLgUsdBalance 0]
        | Some data \<Rightarrow>
            pg_bind (pg_of (readBigUInt64LE data 64)) (\<lambda>amount. put [SetLgUsdBalance amount]))))
       (\<lambda>_. put [SetLgUsdBalance 0])"

definition pick_vault :: "VaultListing list \<Rightarrow> VaultListing option" where
  "pick_vault found =
     (case find (\<lambda>v. va_proofStatus (vl_vault v) = 1) found of
        Some v \<Rightarrow> Some v
      | None \<Rightarrow> (case found of [] \<Rightarrow> None | v # _ \<Rightarrow> Some v))"

definition index_vaults :: "VaultListing list \<Rightarrow> (jstext \<Rightarrow> VaultListing option)" where
  "index_vaults found = fold (\<lambda>v m. m(to_base58 (vl_vaultPda v) \<mapsto> v)) found Map.empty"

text \<open>The vaults of positions of other wallets; an account that does not decode is ignored.\<close>

fun add_missing ::
    "(pubkey \<times> bytes option) list \<Rightarrow> (jstext \<Rightarrow> VaultListing option) \<Rightarrow> (jstext \<Rightarrow> VaultListing option)" where
  "add_missing [] m = m"
| "add_missing ((k, info) # rest) m =
     add_missing rest
       (case info of
          None \<Rightarrow> m
        | Some data \<Rightarrow>
            (case decodeVaultAccount data of
               Inr (Some vault) \<Rightarrow> m(to_base58 k \<mapsto> \<lparr>vl_vaultPda = k, vl_vault = vault\<rparr>)
             | _ \<Rightarrow> m))"

definition missing_keys ::
    "(jstext \<Rightarrow> VaultListing option) \<Rightarrow> BorrowPositionListing list \<Rightarrow> pubkey list" where
  "missing_keys m allPos =
     filter (\<lambda>k. m (to_base58 k) = None) (map (\<lambda>p. bp_vault (bl_position p)) allPos)"

definition refresh :: "platform \<Rightarrow> services \<Rightarrow> wallet_env \<Rightarrow> (lend_write, unit) page" where
  "refresh P S E =
     pg_bind (pg_io (io_try (read_accounts S (readDefaultLendingPool P)))) (\<lambda>r1.
     pg_bind (pg_io (io_try (read_accounts S (readProtocolFrozen P)))) (\<lambda>r2.
     pg_bind (pg_io (io_try (read_accounts S (listAllBorrowPositions P)))) (\<lambda>r3.
     pg_bind (pg_of (js_bind r1 (\<lambda>d. js_bind r2 (\<lambda>frozen. js_bind r3 (\<lambda>allPos. Inr (d, frozen, allPos))))))
       (\<lambda>(d, frozen, allPos).
     pg_bind (put [SetPoolPda (Some (to_base58 (dp_poolPda d))),
        SetPriceFeedPda (Some (to_base58 (dp_priceFeedPda d))), SetPool (dp_pool d),
        SetPriceFeed (dp_priceFeed d), SetProtocolFrozen frozen, SetAllPositions allPos]) (\<lambda>_.
     case we_owner E of
       None \<Rightarrow> put [SetVaults [], SetSelectedVault None, SetPosition None, SetPositionPda None,
         SetLgUsdBalance 0, SetAllVaults Map.empty]
     | Some owner \<Rightarrow>
         pg_bind (pg_io (read_accounts S (\<lambda>conn. listVaultsForOwner P conn owner))) (\<lambda>foundVaults.
         pg_bind (put [SetVaults foundVaults, SetSelectedVault (pick_vault foundVaults)]) (\<lambda>_.
         let vaultsByKey = index_vaults foundVaults;
             missingKeys = missing_keys vaultsByKey allPos in
         pg_bind (if missingKeys \<noteq> [] then
             pg_bind (pg_io (read_accounts S (\<lambda>conn. getMultipleAccountsInfo conn missingKeys))) (\<lambda>infos.
             pg_return (add_missing (zip missingKeys infos) vaultsByKey))
           else pg_return vaultsByKey) (\<lambda>byKey.
         put [SetAllVaults byKey, StartBalanceRefresh owner]))))))))"

text \<open>The effect that follows the selected vault, and the one that follows the BTC vault.\<close>

definition load_position :: "platform \<Rightarrow> services \<Rightarrow> lend_page \<Rightarrow> (lend_write, unit) page" where
  "load_position P S c =
     (case ls_selectedVault c of
        None \<Rightarrow> put [SetPositionPda None, SetPosition None]
      | Some v \<Rightarrow>
          pg_bind (pg_io (read_accounts S (\<lambda>conn. readBorrowPosition P conn (vl_vaultPda v))))
            (\<lambda>(positionPda, position).
          put [SetPositionPda (Some (to_base58 positionPda)), SetPosition position]))"

definition poll_btc_vault :: "platform \<Rightarrow> services \<Rightarrow> lend_page \<Rightarrow> (lend_write, unit) page" where
  "poll_btc_vault P S c =
     (case ls_btcVaultPda c of
        None \<Rightarrow> pg_return ()
      | Some pda \<Rightarrow>
          pg_bind (pg_io (read_accounts S (\<lambda>conn. readBtcVault P conn pda))) (\<lambda>res.
          put [SetBtcVault (br_btcVault res), SetBtcAttestation (br_btcAttestation res),
            SetBtcPosition (br_borrowPosition res)]))"

text \<open>The log listener: \<open>/Event\s*=\s*(\w+)/\<close> names the event.\<close>

definition word_char :: "nat \<Rightarrow> bool" where
  "word_char c \<longleftrightarrow> 48 \<le> c \<and> c \<le> 57 \<or> 65 \<le> c \<and> c \<le> 90 \<or> c = 95 \<or> 97 \<le> c \<and> c \<le> 122"

definition event_here :: "jstext \<Rightarrow> jstext option" where
  "event_here s =
     (case strip_prefix (ascii ''Event'') s of
        None \<Rightarrow> None
      | Some t \<Rightarrow>
          (case dropWhile is_white_space t of
             [] \<Rightarrow> None
           | c # cs \<Rightarrow>
               if c \<noteq> 61 then None
               else (case takeWhile word_char (dropWhile is_white_space cs) of
                       [] \<Rightarrow> None | w # ws \<Rightarrow> Some (w # ws))))"

fun event_name :: "jstext \<Rightarrow> jstext option" where
  "event_name [] = None"
| "event_name (c # cs) = (case event_here (c # cs) of Some n \<Rightarrow> Some n | None \<Rightarrow> event_name cs)"

definition interesting_log :: "jstext \<Rightarrow> bool" where
  "interesting_log l \<longleftrightarrow>
     text_includes (ascii ''BorrowOpened'') l \<or> text_includes (ascii ''BorrowRepaid'') l
     \<or> text_includes (ascii ''PositionLiquidated'') l \<or> text_includes (ascii ''InterestAccrued'') l
     \<or> text_includes (ascii ''AdminPriceUpdated'') l"

definition on_program_logs :: "bool \<Rightarrow> bool \<Rightarrow> jstext list \<Rightarrow> jstext \<Rightarrow> lend_write list" where
  "on_program_logs cancelled err logs signature =
     (if cancelled \<or> err then [] else
      (case find interesting_log logs of
         None \<Rightarrow> []
       | Some l \<Rightarrow>
           [entry LogOk (ascii ''live: ''
              @ (case event_name l of Some n \<Rightarrow> n | None \<Rightarrow> ascii ''program-event'')
              @ ascii '' on program '' @ [8212] @ ascii '' refreshing state'') (Some signature) None,
            StartRefresh]))"

end
