(* ===== verification/Lend_Page.thy ===== *)
theory Lend_Page
  imports Lend_State
begin

text \<open>
  The handlers of \<open>web/app/lend/page.tsx\<close>, each on the state \<open>c\<close> and the wallet \<open>E\<close> its render
  captured, and the conditions under which their buttons are enabled. What is shown of them is in
  \<open>Lend_Safety\<close>.
\<close>

definition with_wallet :: "wallet_env \<Rightarrow> (pubkey \<Rightarrow> (lend_write, unit) page) \<Rightarrow> (lend_write, unit) page" where
  "with_wallet E f =
     (case we_owner E of
        None \<Rightarrow> pg_return ()
      | Some owner \<Rightarrow> if we_signTransaction E then f owner else pg_return ())"

definition lend_action :: "services \<Rightarrow> (lend_write, unit) page \<Rightarrow> (lend_write, unit) page" where
  "lend_action S body =
     page_action SetRunning (\<lambda>e. [entry LogFail (friendlyError S e) None None]) body"

definition send :: "services \<Rightarrow> transaction_instruction + transaction_instruction list \<Rightarrow> pubkey
     \<Rightarrow> (lend_write, jstext) page" where
  "send S ix payer = pg_io (sendIx S ix payer)"

section \<open>Controls\<close>

definition setPrice :: "platform \<Rightarrow> services \<Rightarrow> wallet_env \<Rightarrow> int \<Rightarrow> (lend_write, unit) page" where
  "setPrice P S E priceUsd =
     with_wallet E (\<lambda>owner. lend_action S
       (pg_bind (pg_of (buildUpdateAdminPriceIx P owner ASSET_BTC priceUsd)) (\<lambda>(ix, priceFeedPda).
        pg_bind (send S (Inl ix) owner) (\<lambda>sig.
        pg_bind (put [entry LogOk (ascii ''BTC price updated to '' @ formatPriceUsd S priceUsd)
                   (Some sig) (Some (to_base58 priceFeedPda))]) (\<lambda>_.
        refresh P S E)))))"

definition unfreeze :: "platform \<Rightarrow> services \<Rightarrow> wallet_env \<Rightarrow> (lend_write, unit) page" where
  "unfreeze P S E =
     with_wallet E (\<lambda>owner. lend_action S
       (pg_bind (pg_of (buildUnfreezeProtocolStateIx P owner)) (\<lambda>ix.
        pg_bind (send S (Inl ix) owner) (\<lambda>sig.
        pg_bind (put [entry LogOk (ascii ''unfreeze_protocol_state() confirmed'') (Some sig) None]) (\<lambda>_.
        refresh P S E)))))"

definition DEFAULT_BTC_PRICE :: int where "DEFAULT_BTC_PRICE = 9000000000000"
definition CRASH_BTC_PRICE :: int where "CRASH_BTC_PRICE = 5000000000000"

section \<open>Borrowing\<close>

text \<open>The instruction that creates the token account, when there is none.\<close>

definition ata_instructions ::
    "platform \<Rightarrow> services \<Rightarrow> pubkey \<Rightarrow> pubkey \<Rightarrow> (lend_write, transaction_instruction list) page" where
  "ata_instructions P S owner ataAddress =
     pg_bind (pg_io (read_accounts S (\<lambda>conn. getAccountInfo conn ataAddress))) (\<lambda>ataInfo.
     if ataInfo = None then
       pg_bind (pg_of (buildCreateAssociatedTokenAccountIx P owner owner (LGUSD_MINT P))) (\<lambda>(createAtaIx, _).
       pg_return [createAtaIx])
     else pg_return [])"

definition health_inputs :: "platform \<Rightarrow> int \<Rightarrow> int \<Rightarrow> int \<Rightarrow> encrypt_input list" where
  "health_inputs P debt collateral threshold =
     [\<lparr>ei_value = debt, ei_fheType = Some (FHE_TYPES EUint64), ei_authorizedProgram = PROGRAM_ID P\<rparr>,
      \<lparr>ei_value = collateral, ei_fheType = Some (FHE_TYPES EUint64), ei_authorizedProgram = PROGRAM_ID P\<rparr>,
      \<lparr>ei_value = threshold, ei_fheType = Some (FHE_TYPES EUint64), ei_authorizedProgram = PROGRAM_ID P\<rparr>]"

definition encrypt_health ::
    "platform \<Rightarrow> services \<Rightarrow> jstext \<Rightarrow> VaultListing \<Rightarrow> LendingPoolAccount \<Rightarrow> AdminPriceFeedAccount
     \<Rightarrow> (lend_write, pubkey option) page" where
  "encrypt_health P S amount selectedVault pool priceFeed =
     pg_catch
       (pg_bind (pg_of (parseLgUsd amount)) (\<lambda>debtBaseUnits.
        let collateralValueBaseUnits =
              bigint_div (va_depositedAmount (vl_vault selectedVault) * pf_priceUsd priceFeed) (10 ^ 9);
            liquidationThresholdBps = lp_liquidationThresholdBps pool in
        pg_bind (pg_io (createEncryptInputs P S
            (health_inputs P debtBaseUnits collateralValueBaseUnits liquidationThresholdBps))) (\<lambda>ids.
        case ids of
          [] \<Rightarrow> pg_throw TypeError
        | i # _ \<Rightarrow>
            pg_bind (put [entry LogOk (ascii ''encrypted health factor: debt + collateral + threshold sealed via Encrypt FHE'')
                       None (Some (to_base58 i))]) (\<lambda>_.
            pg_return (Some i)))))
       (\<lambda>encErr.
        pg_bind (put [entry LogWarn (ascii ''Encrypt executor unreachable, falling back to plaintext gate: ''
                   @ friendlyError S encErr) None None]) (\<lambda>_.
        pg_return None))"

definition collateral_type :: "VaultListing \<Rightarrow> jstext" where
  "collateral_type v =
     (if va_assetType (vl_vault v) = ASSET_BTC then ascii ''BTC'' else ascii ''SOL'')"

definition open_debt_message :: jstext where
  "open_debt_message = ascii ''this vault already has an open borrow position. Repay it (use '' @ [39]
     @ ascii ''Repay All'' @ [39] @ ascii '') before opening a new borrow against the same collateral.''"

definition borrow_body ::
    "platform \<Rightarrow> services \<Rightarrow> wallet_env \<Rightarrow> jstext \<Rightarrow> pubkey \<Rightarrow> VaultListing \<Rightarrow> LendingPoolAccount
     \<Rightarrow> AdminPriceFeedAccount \<Rightarrow> (lend_write, unit) page" where
  "borrow_body P S E amount owner selectedVault pool priceFeed =
     pg_bind (pg_of (deriveAssociatedTokenAddress P owner (LGUSD_MINT P) False)) (\<lambda>ataAddress.
     pg_bind (ata_instructions P S owner ataAddress) (\<lambda>ixs.
     pg_bind (encrypt_health P S amount selectedVault pool priceFeed) (\<lambda>healthCiphertext.
     pg_bind (pg_of (js_bind (parseLgUsd amount) (\<lambda>units.
        buildBorrowAgainstCollateralIx P owner (vl_vaultPda selectedVault)
          (va_assetType (vl_vault selectedVault)) (lp_borrowAssetMint pool) (lp_poolTokenVault pool)
          ataAddress units healthCiphertext))) (\<lambda>(ix, _, _, borrowPositionPda).
     pg_bind (send S (Inr (ixs @ [ix])) owner) (\<lambda>sig.
     pg_bind (put (entry LogOk (ascii ''borrow_against_collateral('' @ amount @ ascii '' LGUSD) confirmed ''
           @ [8212] @ ascii '' tokens transferred to your ATA'') (Some sig) (Some (to_base58 borrowPositionPda))
         # recordTorque E ''lendguard_lgusd_borrow_opened''
             [field ''position'' (to_base58 borrowPositionPda),
              field ''vault'' (to_base58 (vl_vaultPda selectedVault)), field ''tx'' sig,
              (ascii ''amount_lgusd'', Some (number_json S amount)),
              field ''collateral_type'' (collateral_type selectedVault)])) (\<lambda>_.
     refresh P S E))))))"

definition borrow :: "platform \<Rightarrow> services \<Rightarrow> wallet_env \<Rightarrow> lend_page \<Rightarrow> (lend_write, unit) page" where
  "borrow P S E c =
     with_wallet E (\<lambda>owner.
     case (ls_selectedVault c, ls_pool c, ls_priceFeed c) of
       (Some selectedVault, Some pool, Some priceFeed) \<Rightarrow>
         if vaultsWithOpenDebt E c (to_base58 (vl_vaultPda selectedVault)) \<noteq> None then
           put [entry LogFail open_debt_message None None]
         else lend_action S (borrow_body P S E (ls_amount c) owner selectedVault pool priceFeed)
     | _ \<Rightarrow> pg_return ())"

section \<open>Repaying\<close>

definition MAX_U64 :: int where "MAX_U64 = 2 ^ 64 - 1"

definition send_amount :: "bool \<Rightarrow> jstext \<Rightarrow> int \<Rightarrow> int \<Rightarrow> int js" where
  "send_amount all amount prin borrowIndex =
     (if all then Inr MAX_U64
      else js_bind (parseLgUsd amount) (\<lambda>repayAmount.
        let debtNow = currentDebt prin borrowIndex in
        Inr (if repayAmount > debtNow then debtNow else repayAmount)))"

definition repaid_json :: "services \<Rightarrow> bool \<Rightarrow> jstext \<Rightarrow> int \<Rightarrow> int \<Rightarrow> json" where
  "repaid_json S all amount prin borrowIndex =
     (if all then number_json S (formatLgUsd (currentDebt prin borrowIndex))
      else number_json S amount)"

definition repay_body ::
    "platform \<Rightarrow> services \<Rightarrow> wallet_env \<Rightarrow> bool \<Rightarrow> jstext \<Rightarrow> pubkey \<Rightarrow> VaultListing
     \<Rightarrow> BorrowPositionAccount \<Rightarrow> LendingPoolAccount \<Rightarrow> (lend_write, unit) page" where
  "repay_body P S E all amount owner selectedVault position pool =
     pg_bind (pg_of (deriveAssociatedTokenAddress P owner (LGUSD_MINT P) False)) (\<lambda>ataAddress.
     pg_bind (pg_of (js_bind (send_amount all amount (bp_principal position) (lp_borrowIndex pool))
        (\<lambda>sendAmount. buildRepayBorrowIx P owner (vl_vaultPda selectedVault) (lp_borrowAssetMint pool)
          (lp_poolTokenVault pool) ataAddress sendAmount))) (\<lambda>(ix, _, borrowPositionPda).
     pg_bind (send S (Inl ix) owner) (\<lambda>sig.
     pg_bind (put (entry LogOk
           (if all then ascii ''repay_borrow(MAX) confirmed '' @ [8212]
              @ ascii '' position fully repaid, account closed, rent refunded''
            else ascii ''repay_borrow() confirmed '' @ [8212] @ ascii '' tokens returned to pool'')
           (Some sig) (Some (to_base58 borrowPositionPda))
         # recordTorque E ''lendguard_lgusd_repaid''
             [field ''position'' (to_base58 borrowPositionPda),
              field ''vault'' (to_base58 (vl_vaultPda selectedVault)), field ''tx'' sig,
              (ascii ''amount_lgusd'', Some (repaid_json S all amount (bp_principal position) (lp_borrowIndex pool))),
              (ascii ''repay_all'', Some (JBool all)),
              field ''collateral_type'' (collateral_type selectedVault)])) (\<lambda>_.
     refresh P S E))))"

definition repay :: "platform \<Rightarrow> services \<Rightarrow> wallet_env \<Rightarrow> lend_page \<Rightarrow> bool \<Rightarrow> (lend_write, unit) page" where
  "repay P S E c all =
     with_wallet E (\<lambda>owner.
     case (ls_selectedVault c, ls_position c, ls_pool c) of
       (Some selectedVault, Some position, Some pool) \<Rightarrow>
         lend_action S (repay_body P S E all (ls_amount c) owner selectedVault position pool)
     | _ \<Rightarrow> pg_return ())"

section \<open>Liquidating\<close>

definition liquidate_body ::
    "platform \<Rightarrow> services \<Rightarrow> wallet_env \<Rightarrow> lend_page \<Rightarrow> pubkey \<Rightarrow> LendingPoolAccount
     \<Rightarrow> BorrowPositionListing \<Rightarrow> (lend_write, unit) page" where
  "liquidate_body P S E c owner pool target =
     (case ls_allVaults c (to_base58 (bp_vault (bl_position target))) of
        None \<Rightarrow> pg_throw (ErrorMsg ''liquidator: target vault not found in cache'')
      | Some targetVault \<Rightarrow>
          pg_bind (pg_of (deriveAssociatedTokenAddress P owner (LGUSD_MINT P) False)) (\<lambda>ataAddress.
          pg_bind (ata_instructions P S owner ataAddress) (\<lambda>ixs.
          pg_bind (pg_of (buildLiquidatePositionIx P owner (bp_vault (bl_position target))
             (va_assetType (vl_vault targetVault)) (lp_borrowAssetMint pool) (lp_poolTokenVault pool)
             ataAddress)) (\<lambda>(ix, _).
          pg_bind (send S (Inr (ixs @ [ix])) owner) (\<lambda>sig.
          pg_bind (put [entry LogOk (ascii ''liquidate_position() confirmed '' @ [8212] @ ascii '' repaid ''
                @ formatLgUsd (bp_principal (bl_position target))
                @ ascii '' LGUSD, seized collateral with bonus'') (Some sig)
                (Some (to_base58 (bl_positionPda target)))]) (\<lambda>_.
          refresh P S E))))))"

definition liquidate ::
    "platform \<Rightarrow> services \<Rightarrow> wallet_env \<Rightarrow> lend_page \<Rightarrow> BorrowPositionListing \<Rightarrow> (lend_write, unit) page" where
  "liquidate P S E c target =
     with_wallet E (\<lambda>owner.
     case ls_pool c of
       None \<Rightarrow> pg_return ()
     | Some pool \<Rightarrow> lend_action S (liquidate_body P S E c owner pool target))"

section \<open>Bitcoin collateral\<close>

text \<open>The vault to load: the one given, as a key or a text, or the one loaded before.\<close>

definition btc_target :: "lend_page \<Rightarrow> (pubkey + jstext) option \<Rightarrow> pubkey option" where
  "btc_target c pdaToLoad =
     (case pdaToLoad of
        Some (Inl k) \<Rightarrow> Some k
      | Some (Inr t) \<Rightarrow>
          if t = [] then ls_btcVaultPda c
          else (case new_PublicKey_base58 t of Inl e \<Rightarrow> None | Inr k \<Rightarrow> Some k)
      | None \<Rightarrow> ls_btcVaultPda c)"

definition refreshBtcVault ::
    "platform \<Rightarrow> services \<Rightarrow> lend_page \<Rightarrow> (pubkey + jstext) option \<Rightarrow> (lend_write, unit) page" where
  "refreshBtcVault P S c pdaToLoad =
     (case btc_target c pdaToLoad of
        None \<Rightarrow> put [SetBtcVault None, SetBtcAttestation None, SetBtcPosition None]
      | Some target \<Rightarrow>
          pg_bind (pg_io (read_accounts S (\<lambda>conn. readBtcVault P conn target))) (\<lambda>res.
          put [SetBtcVaultPda (Some target), SetBtcVault (br_btcVault res),
            SetBtcAttestation (br_btcAttestation res), SetBtcPosition (br_borrowPosition res)]))"

definition generate_dwallet :: "platform \<Rightarrow> services \<Rightarrow> btc_libs \<Rightarrow> (lend_write, unit) page" where
  "generate_dwallet P S L =
     pg_catch
       (pg_bind (\<lambda>h. pg_of (createBtcDwallet P L h) h) (\<lambda>bundle.
        put [SetBtcIkaDwallet (to_base58 (bb_ikaDwallet bundle)),
          SetBtcDwalletPubkeyHex (bytesToHex (bb_compressedPubkey bundle)),
          SetBtcAddress (bb_bitcoinAddress bundle),
          entry LogOk
            (case bb_source bundle of
               RealIka \<Rightarrow> ascii ''Real Ika Secp256k1 dWallet created: ''
                 @ take 8 (to_base58 (bb_ikaDwallet bundle)) @ [8230, 32, 8594, 32]
                 @ take 12 (bb_bitcoinAddress bundle) @ [8230]
             | Synthetic \<Rightarrow> ascii ''Synthetic Secp256k1 dWallet generated (''
                 @ (case bb_fallbackReason bundle of Some r \<Rightarrow> r | None \<Rightarrow> ascii ''Ika pre-alpha gap'')
                 @ ascii ''). dWallet PDA, pubkey, and tb1q'' @ [8230]
                 @ ascii '' address have all been filled in below '' @ [8212]
                 @ ascii '' you can now fund the address from a faucet and click register_btc_vault().'')
            None None]))
       (\<lambda>e. put [entry LogFail (friendlyError S e) None None])"

definition derive_address :: "services \<Rightarrow> btc_libs \<Rightarrow> lend_page \<Rightarrow> (lend_write, unit) page" where
  "derive_address S L c =
     pg_catch
       (pg_bind (pg_of (js_bind (hexToBytes (js_trim (ls_btcDwalletPubkeyHex c)))
          (secp256k1PubkeyToTestnetP2WPKH L))) (\<lambda>address. put [SetBtcAddress address]))
       (\<lambda>e. put [entry LogFail (friendlyError S e) None None])"

definition tb1_message :: jstext where
  "tb1_message = ascii ''Bitcoin address must be a tb1'' @ [8230] @ ascii '' testnet address''"

definition registered_message :: "pubkey \<Rightarrow> jstext \<Rightarrow> jstext" where
  "registered_message vault addr =
     ascii ''register + approve + verify confirmed in one tx '' @ [8212] @ ascii '' tBTC vault ''
     @ take 8 (to_base58 vault) @ [8230] @ ascii '' is verified and ready to borrow against (Bitcoin address ''
     @ take 12 addr @ [8230]
     @ ascii ''). Fund this address from a testnet faucet so the keeper can attest its balance.''"

definition register_instructions ::
    "platform \<Rightarrow> pubkey \<Rightarrow> lend_page \<Rightarrow> (transaction_instruction list \<times> pubkey \<times> pubkey \<times> jstext) js" where
  "register_instructions P owner c =
     js_bind (new_PublicKey_base58 (js_trim (ls_btcIkaDwallet c))) (\<lambda>ikaDwallet.
     js_bind (hexToBytes (js_trim (ls_btcDwalletPubkeyHex c))) (\<lambda>pubkey.
     if length pubkey \<noteq> 33 then Inl (ErrorMsg ''dWallet pubkey must be 33 bytes (66 hex chars)'')
     else
       let addr = js_trim (ls_btcAddress c) in
       if take 3 addr \<noteq> ascii ''tb1'' then Inl (ErrorText tb1_message)
       else
         js_bind (buildRegisterBtcVaultIx P owner ikaDwallet pubkey addr) (\<lambda>(registerIx, newVaultPda, _).
         js_bind (buildDemoCreateMessageApprovalIx P owner (to_buffer ikaDwallet) True)
           (\<lambda>(approveIx, messageApprovalPda).
         js_bind (buildVerifyBtcCustodyProofIx P owner newVaultPda messageApprovalPda) (\<lambda>verifyIx.
         Inr ([registerIx, approveIx, verifyIx], newVaultPda, messageApprovalPda, addr))))))"

definition registerBtcVault :: "platform \<Rightarrow> services \<Rightarrow> wallet_env \<Rightarrow> lend_page \<Rightarrow> (lend_write, unit) page" where
  "registerBtcVault P S E c =
     with_wallet E (\<lambda>owner. lend_action S
       (pg_bind (pg_of (register_instructions P owner c)) (\<lambda>(ixs, newVaultPda, messageApprovalPda, addr).
        pg_bind (send S (Inr ixs) owner) (\<lambda>sig.
        pg_bind (put (entry LogOk (registered_message newVaultPda addr) (Some sig) (Some (to_base58 newVaultPda))
            # recordTorque E ''lendguard_btc_vault_registered''
                [field ''vault'' (to_base58 newVaultPda), field ''tx'' sig,
                 field ''collateral_type'' (ascii ''BTC_TESTNET''), field ''bitcoin_address'' addr,
                 field ''ika_mode'' (ascii ''secp256k1_pre_alpha_fallback'')]
            @ recordTorque E ''lendguard_custody_proof_verified''
                [field ''vault'' (to_base58 newVaultPda), field ''tx'' sig,
                 field ''collateral_type'' (ascii ''BTC_TESTNET''),
                 field ''proof_source'' (ascii ''demo_message_approval'')]
            @ [SetBtcVaultInput (to_base58 newVaultPda),
               SetBtcMessageApproval (to_base58 messageApprovalPda)])) (\<lambda>_.
        refreshBtcVault P S c (Some (Inl newVaultPda)))))))"

definition verifyBtcVault :: "platform \<Rightarrow> services \<Rightarrow> wallet_env \<Rightarrow> lend_page \<Rightarrow> (lend_write, unit) page" where
  "verifyBtcVault P S E c =
     with_wallet E (\<lambda>owner.
     case ls_btcVaultPda c of
       None \<Rightarrow> pg_return ()
     | Some btcVaultPda \<Rightarrow> lend_action S
         (pg_bind (pg_of (js_bind (new_PublicKey_base58 (js_trim (ls_btcMessageApproval c)))
             (buildVerifyBtcCustodyProofIx P owner btcVaultPda))) (\<lambda>ix.
          pg_bind (send S (Inl ix) owner) (\<lambda>sig.
          pg_bind (put (entry LogOk (ascii ''verify_btc_custody_proof() confirmed '' @ [8212]
                @ ascii '' Ika MessageApproval validates the Secp256k1 dWallet'')
                (Some sig) (Some (to_base58 btcVaultPda))
              # recordTorque E ''lendguard_custody_proof_verified''
                  [field ''vault'' (to_base58 btcVaultPda), field ''tx'' sig,
                   field ''collateral_type'' (ascii ''BTC_TESTNET''),
                   field ''proof_source'' (ascii ''manual_message_approval'')])) (\<lambda>_.
          refreshBtcVault P S c None)))))"

text \<open>The button that approves and verifies in one transaction.\<close>

definition refresh_proof_instructions ::
    "platform \<Rightarrow> pubkey \<Rightarrow> pubkey \<Rightarrow> BtcVaultAccount \<Rightarrow> (transaction_instruction list \<times> pubkey) js" where
  "refresh_proof_instructions P owner btcVaultPda btcVault =
     js_bind (buildDemoCreateMessageApprovalIx P owner (to_buffer (bv_ikaDwallet btcVault)) True)
       (\<lambda>(approveIx, messageApprovalPda).
     js_bind (buildVerifyBtcCustodyProofIx P owner btcVaultPda messageApprovalPda) (\<lambda>verifyIx.
     Inr ([approveIx, verifyIx], messageApprovalPda)))"

definition refresh_proof :: "platform \<Rightarrow> services \<Rightarrow> wallet_env \<Rightarrow> lend_page \<Rightarrow> (lend_write, unit) page" where
  "refresh_proof P S E c =
     with_wallet E (\<lambda>owner.
     case (ls_btcVaultPda c, ls_btcVault c) of
       (Some btcVaultPda, Some btcVault) \<Rightarrow> lend_action S
         (pg_bind (pg_of (refresh_proof_instructions P owner btcVaultPda btcVault))
            (\<lambda>(ixs, messageApprovalPda).
          pg_bind (send S (Inr ixs) owner) (\<lambda>sig.
          pg_bind (put ([SetBtcMessageApproval (to_base58 messageApprovalPda),
               entry LogOk (ascii ''Custody proof refreshed '' @ [8212]
                 @ ascii '' MessageApproval re-attested via demo helper and verified on-chain.'')
                 (Some sig) (Some (to_base58 btcVaultPda))]
              @ recordTorque E ''lendguard_custody_proof_verified''
                  [field ''vault'' (to_base58 btcVaultPda), field ''tx'' sig,
                   field ''collateral_type'' (ascii ''BTC_TESTNET''),
                   field ''proof_source'' (ascii ''auto_demo_message_approval'')])) (\<lambda>_.
          refreshBtcVault P S c None))))
     | _ \<Rightarrow> pg_return ())"

definition borrowBtc_body ::
    "platform \<Rightarrow> services \<Rightarrow> wallet_env \<Rightarrow> lend_page \<Rightarrow> pubkey \<Rightarrow> pubkey \<Rightarrow> LendingPoolAccount
     \<Rightarrow> (lend_write, unit) page" where
  "borrowBtc_body P S E c owner btcVaultPda pool =
     pg_bind (pg_of (deriveAssociatedTokenAddress P owner (LGUSD_MINT P) False)) (\<lambda>ataAddress.
     pg_bind (ata_instructions P S owner ataAddress) (\<lambda>ixs.
     pg_bind (pg_of (js_bind (parseLgUsd (ls_btcBorrowAmount c)) (\<lambda>units.
        buildBorrowAgainstBtcCollateralIx P owner btcVaultPda (lp_borrowAssetMint pool)
          (lp_poolTokenVault pool) ataAddress units None))) (\<lambda>(ix, _, _, _, borrowPositionPda).
     pg_bind (send S (Inr (ixs @ [ix])) owner) (\<lambda>sig.
     pg_bind (put (entry LogOk (ascii ''borrow_against_btc_collateral('' @ ls_btcBorrowAmount c
           @ ascii '' LGUSD) confirmed '' @ [8212] @ ascii '' backed by attested tBTC'')
           (Some sig) (Some (to_base58 borrowPositionPda))
         # recordTorque E ''lendguard_lgusd_borrow_opened''
             [field ''position'' (to_base58 borrowPositionPda), field ''vault'' (to_base58 btcVaultPda),
              field ''tx'' sig, (ascii ''amount_lgusd'', Some (number_json S (ls_btcBorrowAmount c))),
              field ''collateral_type'' (ascii ''BTC_TESTNET'')])) (\<lambda>_.
     pg_bind (refreshBtcVault P S c None) (\<lambda>_. put [StartBalanceRefresh owner]))))))"

definition borrowBtc :: "platform \<Rightarrow> services \<Rightarrow> wallet_env \<Rightarrow> lend_page \<Rightarrow> (lend_write, unit) page" where
  "borrowBtc P S E c =
     with_wallet E (\<lambda>owner.
     case (ls_btcVaultPda c, ls_pool c) of
       (Some btcVaultPda, Some pool) \<Rightarrow> lend_action S (borrowBtc_body P S E c owner btcVaultPda pool)
     | _ \<Rightarrow> pg_return ())"

definition repayBtc_body ::
    "platform \<Rightarrow> services \<Rightarrow> wallet_env \<Rightarrow> lend_page \<Rightarrow> bool \<Rightarrow> pubkey \<Rightarrow> pubkey \<Rightarrow> LendingPoolAccount
     \<Rightarrow> BorrowPositionAccount \<Rightarrow> (lend_write, unit) page" where
  "repayBtc_body P S E c all owner btcVaultPda pool position =
     pg_bind (pg_of (deriveAssociatedTokenAddress P owner (LGUSD_MINT P) False)) (\<lambda>ataAddress.
     pg_bind (pg_of (js_bind (send_amount all (ls_btcBorrowAmount c) (bp_principal position) (lp_borrowIndex pool))
        (buildRepayBtcBorrowIx P owner btcVaultPda (lp_borrowAssetMint pool) (lp_poolTokenVault pool)
          ataAddress))) (\<lambda>ix.
     pg_bind (send S (Inl ix) owner) (\<lambda>sig.
     pg_bind (put (entry LogOk
           (if all then ascii ''repay_btc_borrow(MAX) confirmed '' @ [8212]
              @ ascii '' tBTC vault freed, position closed''
            else ascii ''repay_btc_borrow() confirmed'') (Some sig) (Some (to_base58 btcVaultPda))
         # recordTorque E ''lendguard_lgusd_repaid''
             [field ''position'' (to_base58 btcVaultPda), field ''vault'' (to_base58 btcVaultPda),
              field ''tx'' sig,
              (ascii ''amount_lgusd'', Some (repaid_json S all (ls_btcBorrowAmount c) (bp_principal position) (lp_borrowIndex pool))),
              (ascii ''repay_all'', Some (JBool all)), field ''collateral_type'' (ascii ''BTC_TESTNET'')])) (\<lambda>_.
     pg_bind (refreshBtcVault P S c None) (\<lambda>_. put [StartBalanceRefresh owner])))))"

definition repayBtc :: "platform \<Rightarrow> services \<Rightarrow> wallet_env \<Rightarrow> lend_page \<Rightarrow> bool \<Rightarrow> (lend_write, unit) page" where
  "repayBtc P S E c all =
     with_wallet E (\<lambda>owner.
     case (ls_btcVaultPda c, ls_pool c, ls_btcPosition c) of
       (Some btcVaultPda, Some pool, Some position) \<Rightarrow>
         lend_action S (repayBtc_body P S E c all owner btcVaultPda pool position)
     | _ \<Rightarrow> pg_return ())"

text \<open>The mock attestation, at the height of the real chain when it can be read, else 0.\<close>

definition tip_url :: jstext where
  "tip_url = ascii ''https://mempool.space/testnet/api/blocks/tip/height''"

definition tip_height :: "services \<Rightarrow> int io" where
  "tip_height S =
     io_catch
       (io_bind (ask (HttpGet tip_url) (\<lambda>h. http_get S h tip_url)) (\<lambda>res.
        io_of (js_BigInt (let t = js_trim (http_body res) in if t = [] then [48] else t))))
       (\<lambda>_. io_return 0)"

definition inject_attestation :: "platform \<Rightarrow> services \<Rightarrow> wallet_env \<Rightarrow> lend_page \<Rightarrow> (lend_write, unit) page" where
  "inject_attestation P S E c =
     with_wallet E (\<lambda>owner.
     case ls_btcVaultPda c of
       None \<Rightarrow> pg_return ()
     | Some btcVaultPda \<Rightarrow>
         let satoshis = 100000 in
         lend_action S
           (pg_bind (pg_io (tip_height S)) (\<lambda>blockHeight.
            pg_bind (pg_of (buildAttestBtcBalanceIx P owner btcVaultPda satoshis blockHeight (replicate 32 0)))
              (\<lambda>ix.
            pg_bind (send S (Inl ix) owner) (\<lambda>sig.
            pg_bind (put (entry LogOk (ascii ''Mock attestation injected: 0.001 BTC @ block ''
                  @ bigint_to_text blockHeight @ ascii ''. You can now borrow LGUSD against this vault.'')
                  (Some sig) (Some (to_base58 btcVaultPda))
                # recordTorque E ''lendguard_btc_attestation_posted''
                    [field ''vault'' (to_base58 btcVaultPda), field ''tx'' sig,
                     (ascii ''satoshis'', Some (bigint_number_json satoshis)),
                     (ascii ''bitcoin_block_height'', Some (bigint_number_json blockHeight))])) (\<lambda>_.
            refreshBtcVault P S c None))))))"

section \<open>Which buttons are enabled\<close>

definition borrow_disabled :: "wallet_env \<Rightarrow> lend_page \<Rightarrow> bool" where
  "borrow_disabled E c \<longleftrightarrow>
     ls_pool c = None \<or> ls_selectedVault c = None \<or> ls_running c \<or> selectedVaultHasDebt E c"

definition repay_disabled :: "lend_page \<Rightarrow> bool" where
  "repay_disabled c \<longleftrightarrow>
     (case ls_position c of None \<Rightarrow> True | Some p \<Rightarrow> bp_principal p = 0) \<or> ls_running c"

definition borrowBtc_disabled :: "wallet_env \<Rightarrow> lend_page \<Rightarrow> bool" where
  "borrowBtc_disabled E c \<longleftrightarrow>
     \<not> we_connected E \<or> ls_running c \<or> ls_pool c = None
     \<or> (case ls_btcVault c of None \<Rightarrow> True | Some v \<Rightarrow> bv_proofStatus v \<noteq> 1 \<or> bv_frozen v)
     \<or> (case ls_btcAttestation c of None \<Rightarrow> True | Some a \<Rightarrow> ba_satoshis a = 0)"

definition liquidate_disabled :: "wallet_env \<Rightarrow> lend_page \<Rightarrow> BorrowPositionListing \<Rightarrow> bool" where
  "liquidate_disabled E c p \<longleftrightarrow>
     \<not> we_connected E \<or> ls_running c \<or> we_owner E = Some (bp_owner (bl_position p)) \<or> ls_pool c = None"

end
