(* ===== verification/Lend_Safety.thy ===== *)
theory Lend_Safety
  imports Lend_Page
begin

text \<open>
  What is shown of the lending page: its handlers ask the wallet for the transactions they announce and
  no others, the amounts they repay are bounded, and the forms read back what the page fills in; the
  decision of the console is that of the program's health test.
\<close>

section \<open>What the wallet is asked\<close>

text \<open>Every transaction put to the wallet satisfies \<open>G\<close>.\<close>

definition asks :: "(transaction \<Rightarrow> bool) \<Rightarrow> request \<Rightarrow> bool" where
  "asks G r \<longleftrightarrow> (\<forall>tx. r = SignTransaction tx \<longrightarrow> G tx)"

lemma asks_simps [simp]:
  "asks G (SignTransaction tx) \<longleftrightarrow> G tx" "asks G GetLatestBlockhash" "asks G (SimulateTransaction tx)"
  "asks G (SendRawTransaction raw)" "asks G (ConfirmTransaction sig bh n)" "asks G (Warn m)"
  "asks G (NewEncryptClient u)" "asks G (EncryptCreateInput ins a k)" "asks G ReadAccounts"
  "asks G (HttpGet u)"
  by (simp_all add: asks_def)

definition anything :: "lend_write \<Rightarrow> bool" where
  "anything w = True"

lemma anything_simps [simp]: "anything w" "list_all anything ws"
  by (simp_all add: list_all_iff anything_def)

lemma grows_read_accounts: "grows (asks G) (read_accounts S f)"
  by (simp add: read_accounts_def grows_intros)

lemma grows_try: "grows P m \<Longrightarrow> grows P (io_try m)"
  by (auto simp: grows_def)

lemma grows_preflight: "grows (asks G) (preflight S tx)"
  unfolding preflight_def
  by (auto intro!: grows_intros split: option.split)

lemma grows_sendIx:
  assumes "\<And>bh. G (new_transaction (case ix of Inl i \<Rightarrow> [i] | Inr is \<Rightarrow> is) payer bh)"
  shows "grows (asks G) (sendIx S ix payer)"
  unfolding sendIx_def Let_def
  by (auto simp: assms intro!: grows_intros grows_preflight split: prod.split)

lemma grows_createEncryptInputs: "grows (asks G) (createEncryptInputs P S ins)"
proof -
  have "grows (asks G) (encrypt_getClient P S)"
    by (auto simp: grows_def encrypt_getClient_def)
  then show ?thesis
    unfolding createEncryptInputs_def createInput_def
    by (auto intro!: grows_intros split: list.split option.split)
qed

lemma keeps_refresh: "keeps (asks G) anything (refresh P S E)"
  unfolding refresh_def Let_def
  by (auto intro!: keeps_intros grows_read_accounts grows_try split: prod.split option.split)

lemma keeps_refreshBtcVault: "keeps (asks G) anything (refreshBtcVault P S c t)"
  unfolding refreshBtcVault_def
  by (auto intro!: keeps_intros grows_read_accounts split: option.split)

lemma keeps_encrypt_health: "keeps (asks G) anything (encrypt_health P S a v pool feed)"
  unfolding encrypt_health_def Let_def
  by (auto intro!: keeps_intros grows_createEncryptInputs split: list.split)

lemma keeps_ata: "keeps (asks G) anything (ata_instructions P S owner ata)"
  unfolding ata_instructions_def
  by (auto intro!: keeps_intros grows_read_accounts split: prod.split)

lemma ata_instructions_result:
  "ata_instructions P S owner ata h = (Inr ixs, h', ws) \<Longrightarrow>
   ixs = [] \<or> (\<exists>i a. buildCreateAssociatedTokenAccountIx P owner owner (LGUSD_MINT P) = Inr (i, a) \<and> ixs = [i])"
  by (auto simp: ata_instructions_def pg_bind_def pg_io_def read_accounts_def split: sum.splits if_splits prod.splits)

lemma keeps_action_any: "keeps (asks G) anything body \<Longrightarrow> keeps (asks G) anything (lend_action S body)"
  unfolding lend_action_def by (auto intro!: keeps_action)

lemma keeps_send:
  "(\<And>bh. G (new_transaction (case ix of Inl i \<Rightarrow> [i] | Inr is \<Rightarrow> is) payer bh)) \<Longrightarrow>
   keeps (asks G) anything (send S ix payer)"
  unfolding send_def by (intro keeps_intros grows_sendIx)

lemma tx_of_new [simp]:
  "tx_instructions (new_transaction ixs payer bh) = ixs" "tx_feePayer (new_transaction ixs payer bh) = Some payer"
  by (simp_all add: new_transaction_def)

text \<open>The transactions each of the two bodies may ask for.\<close>

definition sol_borrowing :: "platform \<Rightarrow> pubkey \<Rightarrow> VaultListing \<Rightarrow> LendingPoolAccount
     \<Rightarrow> pubkey \<Rightarrow> int \<Rightarrow> pubkey option \<Rightarrow> transaction_instruction js" where
  "sol_borrowing P owner v pool ata units health =
     js_bind (buildBorrowAgainstCollateralIx P owner (vl_vaultPda v) (va_assetType (vl_vault v))
        (lp_borrowAssetMint pool) (lp_poolTokenVault pool) ata units health) (\<lambda>r. Inr (fst r))"

definition borrow_tx ::
    "platform \<Rightarrow> pubkey \<Rightarrow> VaultListing \<Rightarrow> LendingPoolAccount \<Rightarrow> jstext \<Rightarrow> transaction \<Rightarrow> bool" where
  "borrow_tx P owner v pool amount tx \<longleftrightarrow>
     tx_feePayer tx = Some owner
     \<and> (\<exists>ata units health ix before.
          deriveAssociatedTokenAddress P owner (LGUSD_MINT P) False = Inr ata
        \<and> parseLgUsd amount = Inr units
        \<and> sol_borrowing P owner v pool ata units health = Inr ix
        \<and> tx_instructions tx = before @ [ix]
        \<and> (before = [] \<or> (\<exists>i a. buildCreateAssociatedTokenAccountIx P owner owner (LGUSD_MINT P) = Inr (i, a)
                            \<and> before = [i])))"

lemma keeps_borrow_body:
  "keeps (asks (borrow_tx P owner v pool amount)) anything (borrow_body P S E amount owner v pool feed)"
  unfolding borrow_body_def
proof (rule keeps_bind_of, rule keeps_bind_run [OF keeps_ata], rule keeps_bind [OF keeps_encrypt_health],
    rule keeps_bind_of, goal_cases)
  case (1 ata h before h' ws health r)
  obtain ix a b d where ix: "r = (ix, a, b, d)" by (cases r)
  obtain units where "parseLgUsd amount = Inr units" "sol_borrowing P owner v pool ata units health = Inr ix"
    using 1(3) ix by (auto simp: js_bind_eq_Inr sol_borrowing_def)
  then have "borrow_tx P owner v pool amount (new_transaction (before @ [ix]) owner bh)" for bh
    using 1(1) ata_instructions_result [OF 1(2)] unfolding borrow_tx_def tx_of_new by blast
  then show ?case
    unfolding ix by (auto intro!: keeps_intros keeps_send keeps_refresh split: prod.split)
qed

definition sol_repayment :: "platform \<Rightarrow> pubkey \<Rightarrow> VaultListing \<Rightarrow> LendingPoolAccount
     \<Rightarrow> pubkey \<Rightarrow> int \<Rightarrow> transaction_instruction js" where
  "sol_repayment P owner v pool ata units =
     js_bind (buildRepayBorrowIx P owner (vl_vaultPda v) (lp_borrowAssetMint pool) (lp_poolTokenVault pool) ata units)
       (\<lambda>r. Inr (fst r))"

text \<open>The amount of a repayment as the instruction carries it: the largest word, or the parsed amount and at
  most the debt. A negative amount is not refused; it wraps.\<close>

definition repay_amount :: "bool \<Rightarrow> jstext \<Rightarrow> int \<Rightarrow> 64 word \<Rightarrow> bool" where
  "repay_amount all amount debt n \<longleftrightarrow>
     (if all then n = - 1
      else \<exists>parsed. parseLgUsd amount = Inr parsed \<and> uint n = min parsed debt mod 2 ^ 64
        \<and> (0 \<le> parsed \<and> 0 \<le> debt \<longrightarrow> uint n \<le> debt))"

definition repay_tx ::
    "string \<Rightarrow> (pubkey \<Rightarrow> int \<Rightarrow> transaction_instruction js) \<Rightarrow> platform \<Rightarrow> pubkey \<Rightarrow> bool \<Rightarrow> jstext \<Rightarrow> int
     \<Rightarrow> transaction \<Rightarrow> bool" where
  "repay_tx name build P owner all amount debt tx \<longleftrightarrow>
     tx_feePayer tx = Some owner
     \<and> (\<exists>ata n ix.
          deriveAssociatedTokenAddress P owner (LGUSD_MINT P) False = Inr ata
        \<and> build ata (uint n) = Inr ix \<and> tx_instructions tx = [ix]
        \<and> ix_data ix = sighash P name @ word_le 8 n \<and> repay_amount all amount debt n)"

lemma send_amount_word:
  assumes "send_amount all amount prin index = Inr units"
  shows "repay_amount all amount (currentDebt prin index) (word_of_int units)"
proof (cases all)
  case True
  then show ?thesis using assms by (simp add: send_amount_def repay_amount_def MAX_U64_def)
next
  case False
  then obtain parsed where p: "parseLgUsd amount = Inr parsed" "units = min parsed (currentDebt prin index)"
    using assms by (auto simp: send_amount_def js_bind_eq_Inr Let_def min_def split: if_splits)
  have "units mod 2 ^ 64 \<le> currentDebt prin index" if "0 \<le> parsed" "0 \<le> currentDebt prin index"
    using that p(2) zmod_le_nonneg_dividend [of units "2 ^ 64"] by simp
  then show ?thesis using False p by (simp add: repay_amount_def uint_word_of_int)
qed

lemma u64ToLe_uint: "u64ToLe (uint (word_of_int n :: 64 word)) = u64ToLe n"
  by (simp add: u64ToLe_word)

lemma repayment_bytes:
  "sol_repayment P owner v pool ata n = Inr ix \<Longrightarrow>
     sol_repayment P owner v pool ata (uint (word_of_int n :: 64 word)) = Inr ix
     \<and> ix_data ix = sighash P ''repay_borrow'' @ word_le 8 (word_of_int n :: 64 word)"
  "buildRepayBtcBorrowIx P owner k mint vault ata n = Inr ix \<Longrightarrow>
     buildRepayBtcBorrowIx P owner k mint vault ata (uint (word_of_int n :: 64 word)) = Inr ix
     \<and> ix_data ix = sighash P ''repay_btc_borrow'' @ word_le 8 (word_of_int n :: 64 word)"
  by (auto simp: sol_repayment_def buildRepayBorrowIx_def buildRepayBtcBorrowIx_def u64ToLe_uint js_bind_eq_Inr
      Let_def u64ToLe_word split: prod.splits)

lemma keeps_repay_body:
  "keeps (asks (repay_tx ''repay_borrow'' (sol_repayment P owner v pool) P owner all amount
       (currentDebt (bp_principal pos) (lp_borrowIndex pool)))) anything
     (repay_body P S E all amount owner v pos pool)"
  unfolding repay_body_def
proof (rule keeps_bind_of, rule keeps_bind_of, goal_cases)
  case (1 ata r)
  obtain ix a b where ix: "r = (ix, a, b)" by (cases r)
  obtain units where units: "send_amount all amount (bp_principal pos) (lp_borrowIndex pool) = Inr units"
    "sol_repayment P owner v pool ata units = Inr ix"
    using 1(2) ix by (auto simp: js_bind_eq_Inr sol_repayment_def)
  then have "repay_tx ''repay_borrow'' (sol_repayment P owner v pool) P owner all amount
      (currentDebt (bp_principal pos) (lp_borrowIndex pool)) (new_transaction [ix] owner bh)" for bh
    using 1(1) send_amount_word [OF units(1)] repayment_bytes(1) [OF units(2)]
    unfolding repay_tx_def tx_of_new by blast
  then show ?case
    unfolding ix by (auto intro!: keeps_intros keeps_send keeps_refresh split: prod.split)
qed

lemma keeps_repayBtc_body:
  "keeps (asks (repay_tx ''repay_btc_borrow'' (buildRepayBtcBorrowIx P owner k (lp_borrowAssetMint pool) (lp_poolTokenVault pool))
       P owner all (ls_btcBorrowAmount c) (currentDebt (bp_principal pos) (lp_borrowIndex pool)))) anything
     (repayBtc_body P S E c all owner k pool pos)"
  unfolding repayBtc_body_def
proof (rule keeps_bind_of, rule keeps_bind_of, goal_cases)
  case (1 ata ix)
  obtain units where units: "send_amount all (ls_btcBorrowAmount c) (bp_principal pos) (lp_borrowIndex pool) = Inr units"
    "buildRepayBtcBorrowIx P owner k (lp_borrowAssetMint pool) (lp_poolTokenVault pool) ata units = Inr ix"
    using 1(2) by (auto simp: js_bind_eq_Inr)
  then have "repay_tx ''repay_btc_borrow'' (buildRepayBtcBorrowIx P owner k (lp_borrowAssetMint pool) (lp_poolTokenVault pool))
      P owner all (ls_btcBorrowAmount c) (currentDebt (bp_principal pos) (lp_borrowIndex pool)) (new_transaction [ix] owner bh)" for bh
    using 1(1) send_amount_word [OF units(1)] repayment_bytes(2) [OF units(2)] unfolding repay_tx_def tx_of_new by blast
  then show ?case
    by (auto intro!: keeps_intros keeps_send keeps_refreshBtcVault split: prod.split)
qed

section \<open>Open debts\<close>

lemma collect_debts_dom:
  "collect_debts pool owner ps m k \<noteq> None \<longleftrightarrow>
     m k \<noteq> None \<or> (\<exists>p \<in> set ps. bp_owner (bl_position p) = owner
        \<and> currentDebt (bp_principal (bl_position p)) (lp_borrowIndex pool) > 0
        \<and> to_base58 (bp_vault (bl_position p)) = k)"
  by (induction pool owner ps m rule: collect_debts.induct) (auto simp: Let_def)

text \<open>A vault has an open debt when one of the wallet's own positions on it owes something.\<close>

lemma vaultsWithOpenDebt_iff:
  assumes "we_owner E = Some owner" "ls_pool c = Some pool"
  shows "vaultsWithOpenDebt E c (to_base58 k) \<noteq> None \<longleftrightarrow>
    (\<exists>p \<in> set (ls_allPositions c). bp_owner (bl_position p) = owner \<and> bp_vault (bl_position p) = k
       \<and> currentDebt (bp_principal (bl_position p)) (lp_borrowIndex pool) > 0)"
  using assms collect_debts_dom [of pool owner "ls_allPositions c" Map.empty "to_base58 k"]
  by (auto simp: vaultsWithOpenDebt_def)

lemma keeps_asks_mono:
  assumes "keeps (asks G) Q m" "\<And>tx. G tx \<Longrightarrow> H tx"
  shows "keeps (asks H) Q m"
  using assms unfolding keeps_def asks_def list_all_iff by blast

definition borrow_rule :: "platform \<Rightarrow> wallet_env \<Rightarrow> lend_page \<Rightarrow> transaction \<Rightarrow> bool" where
  "borrow_rule P E c tx \<longleftrightarrow>
     (\<exists>owner v pool. we_owner E = Some owner \<and> ls_selectedVault c = Some v \<and> ls_pool c = Some pool
        \<and> \<not> (\<exists>p \<in> set (ls_allPositions c). bp_owner (bl_position p) = owner
              \<and> bp_vault (bl_position p) = vl_vaultPda v
              \<and> currentDebt (bp_principal (bl_position p)) (lp_borrowIndex pool) > 0)
        \<and> borrow_tx P owner v pool (ls_amount c) tx)"

definition repay_rule :: "platform \<Rightarrow> wallet_env \<Rightarrow> lend_page \<Rightarrow> bool \<Rightarrow> transaction \<Rightarrow> bool" where
  "repay_rule P E c all tx \<longleftrightarrow>
     (\<exists>owner v pos pool. we_owner E = Some owner \<and> ls_selectedVault c = Some v
        \<and> ls_position c = Some pos \<and> ls_pool c = Some pool
        \<and> repay_tx ''repay_borrow'' (sol_repayment P owner v pool) P owner all (ls_amount c)
            (currentDebt (bp_principal pos) (lp_borrowIndex pool)) tx)"

definition repayBtc_rule :: "platform \<Rightarrow> wallet_env \<Rightarrow> lend_page \<Rightarrow> bool \<Rightarrow> transaction \<Rightarrow> bool" where
  "repayBtc_rule P E c all tx \<longleftrightarrow>
     (\<exists>owner k pos pool. we_owner E = Some owner \<and> ls_btcVaultPda c = Some k
        \<and> ls_btcPosition c = Some pos \<and> ls_pool c = Some pool
        \<and> repay_tx ''repay_btc_borrow'' (buildRepayBtcBorrowIx P owner k (lp_borrowAssetMint pool) (lp_poolTokenVault pool))
            P owner all (ls_btcBorrowAmount c) (currentDebt (bp_principal pos) (lp_borrowIndex pool)) tx)"

lemma keeps_borrow: "keeps (asks (borrow_rule P E c)) anything (borrow P S E c)"
proof -
  have "keeps (asks (borrow_rule P E c)) anything (borrow_body P S E (ls_amount c) owner v pool feed)"
    if "we_owner E = Some owner" "ls_selectedVault c = Some v" "ls_pool c = Some pool"
      "vaultsWithOpenDebt E c (to_base58 (vl_vaultPda v)) = None" for owner v pool feed
    by (rule keeps_asks_mono [OF keeps_borrow_body])
      (use that vaultsWithOpenDebt_iff [of E owner c pool "vl_vaultPda v"] in \<open>auto simp: borrow_rule_def\<close>)
  then show ?thesis
    by (auto simp: borrow_def with_wallet_def intro!: keeps_intros keeps_action_any split: option.split)
qed

lemma keeps_repay: "keeps (asks (repay_rule P E c all)) anything (repay P S E c all)"
proof -
  have "keeps (asks (repay_rule P E c all)) anything (repay_body P S E all (ls_amount c) owner v pos pool)"
    if "we_owner E = Some owner" "ls_selectedVault c = Some v" "ls_position c = Some pos"
      "ls_pool c = Some pool" for owner v pos pool
    by (rule keeps_asks_mono [OF keeps_repay_body]) (use that in \<open>auto simp: repay_rule_def\<close>)
  then show ?thesis
    by (auto simp: repay_def with_wallet_def intro!: keeps_intros keeps_action_any split: option.split)
qed

lemma keeps_repayBtc: "keeps (asks (repayBtc_rule P E c all)) anything (repayBtc P S E c all)"
proof -
  have "keeps (asks (repayBtc_rule P E c all)) anything (repayBtc_body P S E c all owner k pool pos)"
    if "we_owner E = Some owner" "ls_btcVaultPda c = Some k" "ls_btcPosition c = Some pos"
      "ls_pool c = Some pool" for owner k pos pool
    by (rule keeps_asks_mono [OF keeps_repayBtc_body]) (use that in \<open>auto simp: repayBtc_rule_def\<close>)
  then show ?thesis
    by (auto simp: repayBtc_def with_wallet_def intro!: keeps_intros keeps_action_any split: option.split)
qed

lemma keeps_requests: "keeps P Q m \<Longrightarrow> \<exists>k. fst (snd (m h)) = h @ k \<and> list_all P k"
  using keepsD(1) [of P Q m h "fst (m h)" "fst (snd (m h))" "snd (snd (m h))"] by simp

section \<open>The console\<close>

lemma position_liquidatable_view:
  assumes "allVaults (to_base58 (pos_vault pos)) = Some \<lparr>vl_vaultPda = k, vl_vault = view_Vault v\<rparr>"
    and "current_debt (pos_principal pos) (pool_borrow_index pool) = Inr debt"
  shows "position_liquidatable allVaults (view_LendingPool pool) (view_AdminPriceFeed feed)
      \<lparr>bl_positionPda = pda, bl_position = view_BorrowPosition pos\<rparr>
    \<longleftrightarrow> debt > 0 \<and> is_liquidatable (vault_deposited_amount v) (feed_price_usd feed) debt
        (pool_liquidation_threshold_bps pool) = Inr True"
proof -
  have "unat debt = unat (pos_principal pos) * unat (pool_borrow_index pool) div 10 ^ 18"
    using assms(2) by (auto simp: current_debt_eq Let_def unat_word_of_nat_lt split: if_splits)
  then have "currentDebt (int (unat (pos_principal pos))) (int (unat (pool_borrow_index pool))) = int (unat debt)"
    by (simp only: currentDebt_nat)
  then have debt: "currentDebt (uint (pos_principal pos)) (uint (pool_borrow_index pool)) = uint debt"
    by (simp only: uint_nat)
  have "0 < uint debt \<longleftrightarrow> debt > 0" by (simp add: word_less_def)
  then show ?thesis
    using assms(1) debt
    by (simp add: position_liquidatable_def view_BorrowPosition_def view_LendingPool_def
        view_AdminPriceFeed_def view_Vault_def is_liquidatable_eq isLiquidatable_words Let_def)
qed

section \<open>Accounts of the other kind\<close>

lemma decodeVaultAccount_amount:
  assumes "VAULT_ACCOUNT_LEN \<le> length d"
  shows "\<exists>v. decodeVaultAccount d = Inr (Some v) \<and> va_depositedAmount v = int (le_val (subarray d 105 113))"
  using assms
  by (simp add: decodeVaultAccount_def VAULT_ACCOUNT_LEN_def Let_def decode_long)

lemma btc_vault_amount_bytes:
  assumes "wf_BtcVault b" "length disc = 8"
  shows "subarray (disc @ body_BtcVault b) 105 113 = take 8 (drop 1 (btc_dwallet_pubkey b))"
  using assms by (simp add: subarray_def body_BtcVault_def wf_BtcVault_def)

section \<open>Forms\<close>

lemma hex_digit_value: "d < 16 \<Longrightarrow> digit_value 16 (hex_digit d) = Some d"
  by (simp add: digit_value_def hex_digit_def Let_def)

lemma hex_digit_range:
  "d < 16 \<Longrightarrow> 48 \<le> hex_digit d \<and> hex_digit d \<le> 57 \<or> 97 \<le> hex_digit d \<and> hex_digit d \<le> 102"
  by (auto simp: hex_digit_def)

text \<open>A printed byte has two digits, which \<open>parseInt\<close> reads back: neither white space, nor a sign,
  nor an \<open>x\<close> is among them.\<close>

lemma parse_two_digits:
  assumes "d < 16" "e < 16"
  shows "parseInt16 [hex_digit d, hex_digit e] = Some (int (16 * d + e))"
proof -
  have "\<not> is_white_space (hex_digit d)" "hex_digit d \<noteq> 45" "hex_digit d \<noteq> 43"
    "hex_digit e \<noteq> 120" "hex_digit e \<noteq> 88"
    using hex_digit_range [OF assms(1)] hex_digit_range [OF assms(2)] by (auto simp: is_white_space_def)
  then show ?thesis
    using assms by (simp add: parseInt16_def hex_digit_value Let_def)
qed

lemma byte_hex: "(let t = byte_to_hex b in replicate (2 - length t) 48 @ t)
    = [hex_digit (unat b div 16), hex_digit (unat b mod 16)]"
  by (simp add: byte_to_hex_def Let_def) (simp add: hex_digit_def)

lemma hex_pairs_bytesToHex: "hex_pairs (bytesToHex bs) = bs"
proof (induction bs)
  case (Cons b bs)
  have "unat b div 16 < 16" using less_mult_imp_div_less [of "unat b" 16 16] unat_byte_lt [of b] by simp
  then have "parseInt16 [hex_digit (unat b div 16), hex_digit (unat b mod 16)] = Some (int (unat b))"
    by (subst parse_two_digits) simp_all
  then show ?case using Cons by (simp add: byte_hex to_uint8_def del: parseInt16_def)
qed simp

lemma bytesToHex_even: "length (bytesToHex bs) mod 2 = 0"
  by (induction bs) (simp_all add: byte_hex)

lemma bytesToHex_no_prefix: "take 2 (bytesToHex bs) \<noteq> ascii ''0x''"
proof (cases bs)
  case (Cons b bs)
  have "hex_digit (unat b mod 16) \<noteq> 120" using hex_digit_range [of "unat b mod 16"] by auto
  then show ?thesis using Cons by (simp add: byte_hex ascii_def)
qed (simp add: ascii_def)

section \<open>Properties\<close>

definition demo_wallet :: wallet_env where
  "demo_wallet = \<lparr>we_owner = Some 7, we_signTransaction = True, we_connected = True\<rparr>"

text \<open>C4: \<open>borrow\<close> asks the wallet for nothing but the announced transaction: paid by the wallet's owner,
  its last instruction borrows the parsed amount against the selected vault, before it at most the
  creation of the owner's token account; and for none at all when the owner has an open debt on that
  vault.\<close>

theorem borrow_asks_wallet:
  "\<exists>k. fst (snd (borrow P S E c h)) = h @ k \<and> list_all (asks (borrow_rule P E c)) k"
  by (rule keeps_requests [OF keeps_borrow])

text \<open>C14: a repayment asks the wallet for a single instruction. The amount in its bytes is the largest \<open>u64\<close> when
  all is to be repaid; otherwise it is the smaller of the parsed amount and the debt the page shows, and so
  never more than that debt unless the text is negative, when the number wraps.\<close>

theorem repay_asks_wallet:
  "(\<exists>k. fst (snd (repay P S E c all h)) = h @ k \<and> list_all (asks (repay_rule P E c all)) k)
   \<and> (\<exists>k. fst (snd (repayBtc P S E c all h)) = h @ k \<and> list_all (asks (repayBtc_rule P E c all)) k)"
  using keeps_requests [OF keeps_repay] keeps_requests [OF keeps_repayBtc] by blast

text \<open>The page takes a Bitcoin vault of another wallet for a vault of lamports: eight bytes of its
  public key become the collateral the console judges the position by.\<close>

theorem btc_vault_taken_for_vault:
  assumes "wf_BtcVault b" "length disc = 8"
  shows "\<exists>v. add_missing [(k, Some (disc @ body_BtcVault b))] Map.empty (to_base58 k)
        = Some \<lparr>vl_vaultPda = k, vl_vault = v\<rparr>
    \<and> va_depositedAmount v = int (le_val (take 8 (drop 1 (btc_dwallet_pubkey b))))"
proof -
  have "VAULT_ACCOUNT_LEN \<le> length (disc @ body_BtcVault b)"
    using assms by (simp add: VAULT_ACCOUNT_LEN_def body_BtcVault_def wf_BtcVault_def)
  from decodeVaultAccount_amount [OF this] show ?thesis
    using btc_vault_amount_bytes [OF assms] by auto
qed

lemma btc_vault_taken_for_vault_witness:
  "\<exists>v. add_missing [(5, Some (replicate 8 0 @ body_BtcVault
        \<lparr>btc_vault_id = 1, btc_owner = 2, btc_ika_dwallet = 3, btc_dwallet_pubkey = 2 # replicate 32 1,
         btc_bitcoin_address = replicate 64 0, btc_bitcoin_address_len = 0, btc_deposited_satoshis = 0,
         btc_last_attestation_slot = 0, btc_proof_status = 1, btc_proof_timestamp = 0, btc_frozen = False,
         btc_liquidation_initiated_at = 0, btc_liquidation_sighash = replicate 32 0, btc_bump = 0\<rparr>))]
      Map.empty (to_base58 5) = Some \<lparr>vl_vaultPda = 5, vl_vault = v\<rparr>
    \<and> va_depositedAmount v = 72340172838076673"
proof -
  let ?b = "\<lparr>btc_vault_id = 1, btc_owner = 2, btc_ika_dwallet = 3, btc_dwallet_pubkey = 2 # replicate 32 1,
         btc_bitcoin_address = replicate 64 0, btc_bitcoin_address_len = 0, btc_deposited_satoshis = 0,
         btc_last_attestation_slot = 0, btc_proof_status = 1, btc_proof_timestamp = 0, btc_frozen = False,
         btc_liquidation_initiated_at = 0, btc_liquidation_sighash = replicate 32 0, btc_bump = 0\<rparr>"
  show ?thesis
    using btc_vault_taken_for_vault [of ?b "replicate 8 0" 5]
    by (simp add: wf_BtcVault_def replicate_numeral)
qed

text \<open>What \<open>Generate\<close> writes into the registration form is what \<open>register\<close> reads from it: the dWallet
  account as base58 and the public key as hexadecimal digits.\<close>

theorem registration_form_round_trip:
  "new_PublicKey_base58 (to_base58 k) = Inr k \<and> hexToBytes (bytesToHex pk) = Inr pk"
proof -
  have "new_PublicKey_base58 (to_base58 k) = Inr k"
    by (simp add: new_PublicKey_base58_def to_base58_def bs58Decode_base58_encode)
  moreover have "hexToBytes (bytesToHex pk) = Inr pk"
    using bytesToHex_no_prefix [of pk] bytesToHex_even [of pk] hex_pairs_bytesToHex [of pk]
    by (simp add: hexToBytes_def Let_def)
  ultimately show ?thesis by blast
qed

end
