(* ===== verification/Demo_Page.thy ===== *)
theory Demo_Page
  imports Lend_State
begin

text \<open>
  The demo page, \<open>web/app/demo/page.tsx\<close>: six steps, each a transaction, from the registration of a
  vault to the deposit the frozen protocol rejects. The state has one field per \<open>useState\<close>; a handler
  works on the state \<open>c\<close> and the wallet \<open>E\<close> its render captured. \<open>url_host\<close> stands for
  \<open>new URL(text).host\<close>, a parser of the runtime.
\<close>

section \<open>Constants and helpers of other modules\<close>

text \<open>\<open>BigInt(Math.floor(0.05 * 1_000_000_000))\<close>: the product is exact in double precision.\<close>

definition deposit_lamports :: int where "deposit_lamports = 50000000"
definition DEPOSIT_AMOUNT_SOL :: jstext where "DEPOSIT_AMOUNT_SOL = ascii ''0.05''"
definition NORMAL_BACKING_RATIO :: int where "NORMAL_BACKING_RATIO = 100"
definition EXPLOIT_BACKING_RATIO :: int where "EXPLOIT_BACKING_RATIO = 85"
definition THRESHOLD_RATIO :: int where "THRESHOLD_RATIO = 95"

definition generateDemoDwalletId :: "platform \<Rightarrow> services \<Rightarrow> pubkey \<Rightarrow> jstext \<Rightarrow> history \<Rightarrow> bytes" where
  "generateDemoDwalletId P S owner salt h =
     digest_sha256 P (text_encode (ascii ''lendguard-demo:'' @ to_base58 owner @ [58] @ salt @ [58]
       @ bigint_to_text (date_now S h) @ [58] @ random_text S h 10))"

definition explorerTxUrl :: "jstext \<Rightarrow> jstext" where
  "explorerTxUrl sig = ascii ''https://explorer.solana.com/tx/'' @ sig @ ascii ''?cluster=devnet''"

definition explorerAccountUrl :: "jstext \<Rightarrow> jstext" where
  "explorerAccountUrl addr =
     ascii ''https://explorer.solana.com/address/'' @ addr @ ascii ''?cluster=devnet''"

datatype proof_label = LabelPending | LabelVerified | LabelExpired

record DemoVaultState =
  dv_dwalletId :: jstext
  dv_vaultPda :: jstext
  dv_riskStatePda :: jstext
  dv_protocolStatePda :: jstext
  dv_proofStatus :: proof_label
  dv_depositedAmount :: int
  dv_backingRatio :: int
  dv_frozen :: bool
  dv_lastEvent :: jstext

definition buildInitialDemoState :: "platform \<Rightarrow> pubkey \<Rightarrow> jstext \<Rightarrow> DemoVaultState js" where
  "buildInitialDemoState P ownerPubkey dwalletId =
     (let dwalletBytes = dwalletIdToBytes dwalletId in
      js_bind (deriveVaultPda P ownerPubkey dwalletBytes) (\<lambda>(vaultPda, _).
      js_bind (deriveRiskStatePda P vaultPda) (\<lambda>(riskStatePda, _).
      js_bind (deriveProtocolStatePda P) (\<lambda>(protocolStatePda, _).
      Inr \<lparr>dv_dwalletId = dwalletId, dv_vaultPda = to_base58 vaultPda,
        dv_riskStatePda = to_base58 riskStatePda, dv_protocolStatePda = to_base58 protocolStatePda,
        dv_proofStatus = LabelPending, dv_depositedAmount = 0, dv_backingRatio = 100,
        dv_frozen = False, dv_lastEvent = []\<rparr>))))"

section \<open>State\<close>

record event_log =
  ev_step :: nat
  ev_status :: log_status
  ev_message :: jstext
  ev_tx :: "jstext option"
  ev_account :: "jstext option"

record vault_session =
  vs_vaultPda :: pubkey
  vs_dwalletIdBytes :: bytes
  vs_dwalletIdLabel :: jstext
  vs_messageApprovalPda :: "pubkey option"
  vs_riskStatePda :: "pubkey option"
  vs_thresholdCiphertextPda :: "pubkey option"
  vs_backingCiphertextPda :: "pubkey option"
  vs_resultCiphertextPda :: "pubkey option"

record demo_page =
  dp_currentStep :: nat
  dp_running :: bool
  dp_vaultState :: "DemoVaultState option"
  dp_session :: "vault_session option"
  dp_log :: "event_log list"

definition initial_demo_page :: demo_page where
  "initial_demo_page =
     \<lparr>dp_currentStep = 1, dp_running = False, dp_vaultState = None, dp_session = None, dp_log = []\<rparr>"

text \<open>The setters; \<open>MapVaultState\<close> is \<open>setVaultState\<close> with a function that keeps \<open>null\<close>.\<close>

datatype demo_write =
    PutStep nat
  | PutRunning bool
  | PutVaultState "DemoVaultState option"
  | MapVaultState "DemoVaultState \<Rightarrow> DemoVaultState"
  | PutSession "vault_session option"
  | PutLog event_log
  | ClearLog
  | BeginTorque torque_input

fun apply_demo :: "demo_write \<Rightarrow> demo_page \<Rightarrow> demo_page" where
  "apply_demo (PutStep k) s = s\<lparr>dp_currentStep := k\<rparr>"
| "apply_demo (PutRunning b) s = s\<lparr>dp_running := b\<rparr>"
| "apply_demo (PutVaultState v) s = s\<lparr>dp_vaultState := v\<rparr>"
| "apply_demo (MapVaultState f) s = s\<lparr>dp_vaultState := map_option f (dp_vaultState s)\<rparr>"
| "apply_demo (PutSession v) s = s\<lparr>dp_session := v\<rparr>"
| "apply_demo (PutLog e) s = s\<lparr>dp_log := dp_log s @ [e]\<rparr>"
| "apply_demo ClearLog s = s\<lparr>dp_log := []\<rparr>"
| "apply_demo (BeginTorque i) s = s"

interpretation demo: page_state apply_demo PutRunning dp_running
  by unfold_locales simp

type_synonym 'a demo_io = "(demo_write, 'a) page"

definition mark :: "nat \<Rightarrow> log_status \<Rightarrow> jstext \<Rightarrow> jstext option \<Rightarrow> jstext option \<Rightarrow> demo_write" where
  "mark k st m tx acc =
     PutLog \<lparr>ev_step = k, ev_status = st, ev_message = m, ev_tx = tx, ev_account = acc\<rparr>"

definition say :: "nat \<Rightarrow> log_status \<Rightarrow> jstext \<Rightarrow> demo_write" where
  "say k st m = mark k st m None None"

definition torque :: "wallet_env \<Rightarrow> string \<Rightarrow> (jstext \<times> json option) list \<Rightarrow> demo_write list" where
  "torque E eventName data =
     (case we_owner E of
        None \<Rightarrow> []
      | Some owner \<Rightarrow> [BeginTorque \<lparr>ti_eventName = ascii eventName, ti_userPubkey = to_base58 owner,
           ti_data = data\<rparr>])"

definition wallet_connected :: "platform \<Rightarrow> wallet_env \<Rightarrow> demo_write list" where
  "wallet_connected P E =
     (if we_connected E then
        torque E ''lendguard_wallet_connected''
          [field ''cluster'' (ascii (case process_env P ''NEXT_PUBLIC_CLUSTER'' of
              Some s \<Rightarrow> s | None \<Rightarrow> ''devnet'')),
           field ''source'' (ascii ''demo_page'')]
      else [])"

definition reset :: "demo_write list" where
  "reset = [PutStep 1, PutVaultState None, PutSession None, ClearLog, PutRunning False]"

definition demo_send :: "services \<Rightarrow> transaction_instruction + transaction_instruction list \<Rightarrow> pubkey
     \<Rightarrow> jstext demo_io" where
  "demo_send S ix payer = pg_io (sendIx S ix payer)"

definition signer :: "wallet_env \<Rightarrow> (pubkey \<Rightarrow> unit demo_io) \<Rightarrow> unit demo_io" where
  "signer E f =
     (case we_owner E of
        None \<Rightarrow> pg_return ()
      | Some owner \<Rightarrow> if we_signTransaction E then f owner else pg_return ())"

definition with_session :: "wallet_env \<Rightarrow> demo_page \<Rightarrow> (pubkey \<Rightarrow> vault_session \<Rightarrow> unit demo_io) \<Rightarrow> unit demo_io" where
  "with_session E c f =
     signer E (\<lambda>owner. case dp_session c of None \<Rightarrow> pg_return () | Some session \<Rightarrow> f owner session)"

definition demo_action :: "services \<Rightarrow> nat \<Rightarrow> unit demo_io \<Rightarrow> unit demo_io" where
  "demo_action S k body =
     page_action PutRunning (\<lambda>e. [say k LogFail (ascii ''Failed: '' @ friendlyError S e)]) body"

section \<open>The honest user: steps 1 to 3\<close>

definition ensureProtocolInitialized :: "platform \<Rightarrow> services \<Rightarrow> wallet_env \<Rightarrow> unit demo_io" where
  "ensureProtocolInitialized P S E =
     signer E (\<lambda>owner.
     pg_bind (pg_of (deriveProtocolStatePda P)) (\<lambda>(protocolStatePda, _).
     pg_bind (pg_io (read_accounts S (\<lambda>conn. accountExists conn protocolStatePda))) (\<lambda>exists.
     if \<not> exists then
       pg_bind (put [say 1 LogWarn (ascii ''protocol_state PDA not found '' @ [8212]
                  @ ascii '' initializing now'' @ [8230])]) (\<lambda>_.
       pg_bind (pg_of (buildInitializeProtocolIx P owner)) (\<lambda>ix.
       pg_bind (demo_send S (Inl ix) owner) (\<lambda>sig.
       put [mark 1 LogOk (ascii ''initialize_protocol() confirmed'') (Some sig) None])))
     else
       pg_bind (put [mark 1 LogOk (ascii ''protocol_state PDA already initialized'') None
                  (Some (to_base58 protocolStatePda))]) (\<lambda>_.
       pg_bind (pg_io (read_accounts S (readProtocolFrozen P))) (\<lambda>frozen.
       if frozen = Some True then
         pg_bind (put [say 1 LogWarn (ascii ''protocol_state.frozen = true (carry-over from prior run) ''
                    @ [8212] @ ascii '' calling unfreeze_protocol_state'' @ [8230])]) (\<lambda>_.
         pg_bind (pg_of (buildUnfreezeProtocolStateIx P owner)) (\<lambda>ix.
         pg_bind (demo_send S (Inl ix) owner) (\<lambda>sig.
         put [mark 1 LogOk (ascii ''unfreeze_protocol_state() confirmed'') (Some sig) None])))
       else pg_return ())))))"

text \<open>The id of the new vault, and \<open>Date.now().toString().slice(-4)\<close> in its label.\<close>

definition fresh_dwallet :: "platform \<Rightarrow> services \<Rightarrow> pubkey \<Rightarrow> (bytes \<times> jstext) demo_io" where
  "fresh_dwallet P S owner = (\<lambda>h.
     let now = bigint_to_text (date_now S h) in
     pg_return (generateDemoDwalletId P S owner (ascii ''btc-vault'') h,
       ascii ''ika:btc:'' @ take 6 (to_base58 owner) @ [58] @ drop (length now - 4) now) h)"

definition step1RegisterVault :: "platform \<Rightarrow> services \<Rightarrow> wallet_env \<Rightarrow> unit demo_io" where
  "step1RegisterVault P S E =
     signer E (\<lambda>owner. demo_action S 1
       (pg_bind (put [say 1 LogOk (ascii ''Starting on-chain register_vault'' @ [8230])]) (\<lambda>_.
        pg_bind (ensureProtocolInitialized P S E) (\<lambda>_.
        pg_bind (fresh_dwallet P S owner) (\<lambda>(dwId, dwIdLabel).
        pg_bind (pg_of (buildRegisterVaultIx P owner dwId 0)) (\<lambda>(ix, vaultPda).
        pg_bind (put [mark 1 LogOk (ascii ''Derived vault PDA'') None (Some (to_base58 vaultPda))]) (\<lambda>_.
        pg_bind (demo_send S (Inl ix) owner) (\<lambda>sig.
        pg_bind (put [PutSession (Some \<lparr>vs_vaultPda = vaultPda, vs_dwalletIdBytes = dwId,
            vs_dwalletIdLabel = dwIdLabel, vs_messageApprovalPda = None, vs_riskStatePda = None,
            vs_thresholdCiphertextPda = None, vs_backingCiphertextPda = None,
            vs_resultCiphertextPda = None\<rparr>)]) (\<lambda>_.
        pg_bind (pg_of (buildInitialDemoState P owner dwIdLabel)) (\<lambda>state.
        put ([PutVaultState (Some (state\<lparr>dv_vaultPda := to_base58 vaultPda\<rparr>)),
              mark 1 LogOk (ascii ''register_vault() confirmed on devnet '' @ [9989]) (Some sig) None,
              say 1 LogOk (ascii ''Vault state: PENDING '' @ [8212] @ ascii '' no Ika custody proof yet'')]
          @ torque E ''lendguard_sol_vault_registered''
              [field ''vault'' (to_base58 vaultPda), field ''tx'' sig,
               field ''collateral_type'' (ascii ''SOL_DEVNET'')]
          @ [PutStep 2])))))))))))"

definition step2VerifyProof :: "platform \<Rightarrow> services \<Rightarrow> wallet_env \<Rightarrow> demo_page \<Rightarrow> unit demo_io" where
  "step2VerifyProof P S E c =
     with_session E c (\<lambda>owner session. demo_action S 2
       (pg_bind (put [say 2 LogWarn (ascii ''Production: Ika 2PC-MPC network produces MessageApproval. Demo: program-side mock helper writes the same byte layout.'')]) (\<lambda>_.
        pg_bind (pg_of (buildDemoCreateMessageApprovalIx P owner (vs_dwalletIdBytes session) True))
          (\<lambda>(createIx, messageApprovalPda).
        pg_bind (put [mark 2 LogOk (ascii ''Building demo_create_message_approval()'') None
                   (Some (to_base58 messageApprovalPda))]) (\<lambda>_.
        pg_bind (pg_of (buildVerifyCustodyProofIx P owner (vs_vaultPda session) messageApprovalPda
                   (vs_dwalletIdBytes session))) (\<lambda>verifyIx.
        pg_bind (demo_send S (Inr [createIx, verifyIx]) owner) (\<lambda>sig.
        put ([mark 2 LogOk (ascii ''verify_custody_proof() confirmed '' @ [9989]) (Some sig) None,
              say 2 LogOk (ascii ''parse_message_approval(): is_signed '' @ [10003] @ ascii '', dWallet ID ''
                @ [10003] @ ascii '', freshness '' @ [10003])]
          @ torque E ''lendguard_custody_proof_verified''
              [field ''vault'' (to_base58 (vs_vaultPda session)), field ''tx'' sig,
               field ''collateral_type'' (ascii ''SOL_DEVNET''),
               field ''proof_source'' (ascii ''demo_message_approval'')]
          @ [PutSession (Some (session\<lparr>vs_messageApprovalPda := Some messageApprovalPda\<rparr>)),
             MapVaultState (\<lambda>s. s\<lparr>dv_proofStatus := LabelVerified, dv_lastEvent := ascii ''ProofVerified''\<rparr>),
             PutStep 3]))))))))"

definition step3Deposit :: "platform \<Rightarrow> services \<Rightarrow> wallet_env \<Rightarrow> demo_page \<Rightarrow> unit demo_io" where
  "step3Deposit P S E c =
     with_session E c (\<lambda>owner session. demo_action S 3
       (pg_bind (pg_of (buildDepositCollateralIx P owner (vs_vaultPda session) deposit_lamports)) (\<lambda>ix.
        pg_bind (put [say 3 LogOk (ascii ''deposit_collateral('' @ DEPOSIT_AMOUNT_SOL
                   @ ascii '' SOL): submitting'' @ [8230])]) (\<lambda>_.
        pg_bind (demo_send S (Inl ix) owner) (\<lambda>sig.
        put [mark 3 LogOk (ascii ''Deposit accepted on-chain '' @ [9989]) (Some sig) None,
             say 3 LogOk (ascii ''proof_status == VERIFIED '' @ [10003] @ ascii '', frozen == false '' @ [10003]),
             MapVaultState (\<lambda>s. s\<lparr>dv_depositedAmount := deposit_lamports,
               dv_backingRatio := NORMAL_BACKING_RATIO, dv_lastEvent := ascii ''CollateralDeposited''\<rparr>),
             PutStep 4])))))"

section \<open>The attacker: steps 4 to 6\<close>

definition ratio_text :: "int \<Rightarrow> jstext" where
  "ratio_text r = bigint_to_text r @ [37]"

definition ratio_input :: "platform \<Rightarrow> int \<Rightarrow> encrypt_input" where
  "ratio_input P v =
     \<lparr>ei_value = v, ei_fheType = Some (FHE_TYPES EUint64), ei_authorizedProgram = PROGRAM_ID P\<rparr>"

text \<open>\<open>const [thresholdPda, backingPda] = ids\<close>: a missing one is \<open>undefined\<close>, and its \<open>toBase58\<close> throws.\<close>

definition show_ciphertexts :: "pubkey list \<Rightarrow> (pubkey \<times> pubkey) demo_io" where
  "show_ciphertexts ids =
     (case ids of
        [] \<Rightarrow> pg_throw TypeError
      | thresholdPda # rest \<Rightarrow>
          pg_bind (put [mark 4 LogOk (ascii ''Encrypt threshold ciphertext (EUint64=''
              @ bigint_to_text THRESHOLD_RATIO @ [41]) None (Some (to_base58 thresholdPda))]) (\<lambda>_.
          case rest of
            [] \<Rightarrow> pg_throw TypeError
          | backingPda # _ \<Rightarrow>
              pg_bind (put [mark 4 LogOk (ascii ''Encrypt backing ciphertext (EUint64=''
                  @ bigint_to_text EXPLOIT_BACKING_RATIO @ [41]) None (Some (to_base58 backingPda))]) (\<lambda>_.
              pg_return (thresholdPda, backingPda))))"

definition exploit_notes :: "demo_write list" where
  "exploit_notes =
     [say 4 LogWarn ([9888, 32] @ ascii ''Simulating bridge validator compromise'' @ [8230]),
      say 4 LogWarn (ascii ''Forged bridge message: '' @ [39] @ ascii ''backing ratio still 100%'' @ [39]
        @ ascii '' (NOT via Ika dWallet)''),
      say 4 LogWarn (ascii ''Backing ratio drops silently: 100% '' @ [8594, 32]
        @ ratio_text EXPLOIT_BACKING_RATIO)]"

definition step4Exploit ::
    "platform \<Rightarrow> services \<Rightarrow> (jstext \<Rightarrow> jstext js) \<Rightarrow> wallet_env \<Rightarrow> demo_page \<Rightarrow> unit demo_io" where
  "step4Exploit P S url_host E c =
     with_session E c (\<lambda>owner session. demo_action S 4
       (pg_bind (put exploit_notes) (\<lambda>_.
        pg_bind (pg_of (url_host (ENCRYPT_GRPC_URL P))) (\<lambda>host.
        pg_bind (put [say 4 LogOk (ascii ''Calling Encrypt gRPC '' @ host @ [32, 8594, 32]
                   @ ascii ''createInput'')]) (\<lambda>_.
        pg_bind (pg_io (createEncryptInputs P S
                   [ratio_input P THRESHOLD_RATIO, ratio_input P EXPLOIT_BACKING_RATIO])) (\<lambda>ids.
        pg_bind (show_ciphertexts ids) (\<lambda>(thresholdPda, backingPda).
        pg_bind (pg_of (deriveRiskStatePda P (vs_vaultPda session))) (\<lambda>(riskStatePda, _).
        pg_bind (pg_of (buildInitializeRiskStateIx P owner (vs_vaultPda session) thresholdPda)) (\<lambda>initRiskIx.
        pg_bind (pg_of (buildUpdateBackingStateIx P owner (vs_vaultPda session) backingPda
                   EXPLOIT_BACKING_RATIO)) (\<lambda>updateIx.
        pg_bind (demo_send S (Inr [initRiskIx, updateIx]) owner) (\<lambda>sig.
        put [mark 4 LogOk (ascii ''risk_state PDA initialized'') None (Some (to_base58 riskStatePda)),
             mark 4 LogOk (ascii ''update_backing_state() confirmed '' @ [9989]) (Some sig) None,
             PutSession (Some (session\<lparr>vs_riskStatePda := Some riskStatePda,
               vs_thresholdCiphertextPda := Some thresholdPda, vs_backingCiphertextPda := Some backingPda\<rparr>)),
             MapVaultState (\<lambda>s. s\<lparr>dv_backingRatio := EXPLOIT_BACKING_RATIO,
               dv_lastEvent := ascii ''BackingDropDetected''\<rparr>),
             PutStep 5])))))))))))"

definition inputs_note :: "pubkey \<Rightarrow> pubkey \<Rightarrow> jstext" where
  "inputs_note backing threshold =
     ascii ''Inputs are real Encrypt ciphertexts: backing='' @ take 12 (to_base58 backing) @ [8230]
     @ ascii '', threshold='' @ take 12 (to_base58 threshold) @ [8230]"

definition result_label :: "services \<Rightarrow> jstext demo_io" where
  "result_label S = (\<lambda>h. pg_return (ascii ''res-'' @ subarray (random_text S h 36) 2 8) h)"

definition step5RiskCheck :: "platform \<Rightarrow> services \<Rightarrow> wallet_env \<Rightarrow> demo_page \<Rightarrow> unit demo_io" where
  "step5RiskCheck P S E c =
     with_session E c (\<lambda>owner session.
     case (vs_thresholdCiphertextPda session, vs_backingCiphertextPda session) of
       (Some threshold, Some backing) \<Rightarrow> demo_action S 5
         (pg_bind (put [say 5 LogWarn (ascii ''Production: Encrypt execute_graph(check_backing_ratio) ''
                @ [8594] @ ascii '' EBool. Demo: LendGuard helper writes EBool=false to a sibling account.''),
              say 5 LogOk (inputs_note backing threshold)]) (\<lambda>_.
          pg_bind (result_label S) (\<lambda>label.
          pg_bind (pg_of (buildDemoCreateCiphertextIx P owner label 0)) (\<lambda>(resultIx, resultPda).
          pg_bind (pg_of (buildTriggerRiskCheckIx P owner (vs_vaultPda session) backing threshold
                     resultPda)) (\<lambda>triggerIx.
          pg_bind (put [say 5 LogOk (ascii ''FHE predicate: check_backing_ratio(''
                @ bigint_to_text EXPLOIT_BACKING_RATIO @ ascii '', 100, '' @ bigint_to_text THRESHOLD_RATIO
                @ [41])]) (\<lambda>_.
          pg_bind (demo_send S (Inr [resultIx, triggerIx]) owner) (\<lambda>sig.
          put [say 5 LogFail (ascii ''EBool result: false '' @ [8212, 32] @ ratio_text EXPLOIT_BACKING_RATIO
                 @ ascii '' < '' @ ratio_text THRESHOLD_RATIO),
               mark 5 LogFail (ascii ''circuit_breaker fired: protocol.frozen = true '' @ [55357, 56594])
                 (Some sig) None,
               PutSession (Some (session\<lparr>vs_resultCiphertextPda := Some resultPda\<rparr>)),
               MapVaultState (\<lambda>s. s\<lparr>dv_frozen := True, dv_lastEvent := ascii ''CircuitBreakerFired''\<rparr>),
               PutStep 6])))))))
     | _ \<Rightarrow> put [say 5 LogFail (ascii ''Missing risk-state setup from step 4'')])"

text \<open>The first \<open>0x\<close> with hexadecimal digits, \<open>/0x[0-9a-f]+/i\<close>.\<close>

definition hex_char :: "nat \<Rightarrow> bool" where
  "hex_char c \<longleftrightarrow> 48 \<le> c \<and> c \<le> 57 \<or> 65 \<le> c \<and> c \<le> 70 \<or> 97 \<le> c \<and> c \<le> 102"

fun first_hex :: "jstext \<Rightarrow> jstext option" where
  "first_hex (c # x # cs) =
     (if c = 48 \<and> (x = 120 \<or> x = 88) \<and> takeWhile hex_char cs \<noteq> [] then Some (c # x # takeWhile hex_char cs)
      else first_hex (x # cs))"
| "first_hex _ = None"

text \<open>\<open>/AnchorError [^"]*: ([A-Za-z]+)/\<close>: the last name after a colon, before any quote.\<close>

definition letter :: "nat \<Rightarrow> bool" where
  "letter c \<longleftrightarrow> 65 \<le> c \<and> c \<le> 90 \<or> 97 \<le> c \<and> c \<le> 122"

definition name_here :: "jstext \<Rightarrow> jstext option" where
  "name_here s =
     (case strip_prefix (ascii '': '') s of
        None \<Rightarrow> None
      | Some t \<Rightarrow> if takeWhile letter t = [] then None else Some (takeWhile letter t))"

fun last_name :: "jstext \<Rightarrow> jstext option" where
  "last_name [] = None"
| "last_name (c # cs) =
     (if c = 34 then None
      else (case last_name cs of Some n \<Rightarrow> Some n | None \<Rightarrow> name_here (c # cs)))"

fun anchor_name :: "jstext \<Rightarrow> jstext option" where
  "anchor_name [] = None"
| "anchor_name (c # cs) =
     (case strip_prefix (ascii ''AnchorError '') (c # cs) of
        None \<Rightarrow> anchor_name cs
      | Some t \<Rightarrow> (case last_name t of Some n \<Rightarrow> Some n | None \<Rightarrow> anchor_name cs))"

definition errorCodeMap :: "(jstext \<times> string) list" where
  "errorCodeMap =
     [(ascii ''0x1770'', ''VaultNotVerified''), (ascii ''0x1771'', ''VaultFrozen''),
      (ascii ''0x1772'', ''ProtocolFrozen''), (ascii ''0x1773'', ''ProofExpired''),
      (ascii ''0x1774'', ''InvalidProofAmount''), (ascii ''0x1775'', ''DWalletMismatch''),
      (ascii ''0x1776'', ''InvalidMessageApproval''), (ascii ''0x1777'', ''InsufficientCollateral''),
      (ascii ''0x1778'', ''InvalidAssetType''), (ascii ''0x1779'', ''UnauthorizedCaller''),
      (ascii ''0x177a'', ''RiskCheckFailed''), (ascii ''0x177b'', ''InvalidIkaProgram''),
      (ascii ''0x177c'', ''InvalidEncryptProgram''), (ascii ''0x177d'', ''InvalidCiphertextAccount''),
      (ascii ''0x177e'', ''ArithmeticOverflow''), (ascii ''0x177f'', ''InvalidTimestamp''),
      (ascii ''0x1780'', ''VaultAlreadyVerified''), (ascii ''0x1781'', ''VaultNotFound''),
      (ascii ''0x1782'', ''InvalidWithdrawalAmount''), (ascii ''0x1783'', ''InvalidDepositAmount'')]"

text \<open>The code never returns \<open>null\<close>, though its type and its caller allow for it.\<close>

definition code_name :: "jstext \<Rightarrow> jstext option" where
  "code_name msg =
     (case first_hex msg of
        None \<Rightarrow> None
      | Some m \<Rightarrow>
          (let code = js_toLowerCase m in
           case map_of errorCodeMap code of
             None \<Rightarrow> None
           | Some n \<Rightarrow> Some (ascii n @ ascii '' ('' @ code @ [41])))"

definition parseAnchorError :: "jstext \<Rightarrow> jstext option" where
  "parseAnchorError msg =
     (case code_name msg of
        Some t \<Rightarrow> Some t
      | None \<Rightarrow>
          (case anchor_name msg of
             Some n \<Rightarrow> Some n
           | None \<Rightarrow> Some (takeWhile (\<lambda>c. c \<noteq> 10) msg)))"

definition rejected_writes :: "services \<Rightarrow> wallet_env \<Rightarrow> vault_session \<Rightarrow> js_error \<Rightarrow> demo_write list" where
  "rejected_writes S E session err =
     (let raw = friendlyError S err; detected = parseAnchorError raw in
      [say 6 LogFail (ascii ''Program rejected the deposit on-chain '' @ [10060]),
       say 6 LogFail (ascii ''Error: '' @ (case detected of Some d \<Rightarrow> d | None \<Rightarrow> raw)),
       say 6 LogOk (ascii ''LendGuard blocked the deposit before any funds were at risk '' @ [55357, 57057])]
      @ torque E ''lendguard_attack_demo_completed''
          [field ''vault'' (to_base58 (vs_vaultPda session)), field ''tx'' [],
           field ''attack_type'' (ascii ''fake_collateral_deposit''), (ascii ''blocked'', Some (JBool True))])"

text \<open>Here no exception of the builder is caught: the action ends with it, no longer busy.\<close>

definition step6AttemptDeposit :: "platform \<Rightarrow> services \<Rightarrow> wallet_env \<Rightarrow> demo_page \<Rightarrow> unit demo_io" where
  "step6AttemptDeposit P S E c =
     with_session E c (\<lambda>owner session.
     pg_bind (put [PutRunning True]) (\<lambda>_.
     pg_finally
       (pg_bind (put [say 6 LogOk (ascii ''Attacker attempts new deposit on the now-frozen protocol'' @ [8230])]) (\<lambda>_.
        pg_bind (pg_of (buildDepositCollateralIx P owner (vs_vaultPda session) deposit_lamports)) (\<lambda>ix.
        pg_catch
          (pg_bind (demo_send S (Inl ix) owner) (\<lambda>sig.
           put [mark 6 LogWarn (ascii ''Deposit unexpectedly succeeded: '' @ sig) (Some sig) None]))
          (\<lambda>err. put (rejected_writes S E session err)))))
       [PutRunning False]))"

definition stepAction ::
    "platform \<Rightarrow> services \<Rightarrow> (jstext \<Rightarrow> jstext js) \<Rightarrow> wallet_env \<Rightarrow> demo_page \<Rightarrow> nat \<Rightarrow> unit demo_io" where
  "stepAction P S url_host E c k =
     (if k = 1 then step1RegisterVault P S E
      else if k = 2 then step2VerifyProof P S E c
      else if k = 3 then step3Deposit P S E c
      else if k = 4 then step4Exploit P S url_host E c
      else if k = 5 then step5RiskCheck P S E c
      else if k = 6 then step6AttemptDeposit P S E c
      else pg_return ())"

section \<open>The Ika experiment\<close>

text \<open>The \<open>log\<close> callback of the flow: its calls are the \<open>Log\<close> entries of the history.\<close>

definition flow_note :: "request \<Rightarrow> demo_write list" where
  "flow_note r =
     (case r of
        Log msg payload \<Rightarrow>
          [mark 2 LogOk msg (map_of payload ''tx'')
             (case map_of payload ''messageApproval'' of
                Some a \<Rightarrow> Some a | None \<Rightarrow> map_of payload ''cpiAuthority'')]
      | _ \<Rightarrow> [])"

definition with_flow_log :: "'a io \<Rightarrow> 'a demo_io" where
  "with_flow_log m = (\<lambda>h. case m h of (r, h') \<Rightarrow> (r, h', concat (map flow_note (drop (length h) h'))))"

definition flow_report :: "ika_flow_result \<Rightarrow> demo_write list" where
  "flow_report result =
     (let account = Some (to_base58 (fr_messageApproval result)); tx = Some (fr_approveTxSig result) in
      case fr_approvalSource result of
        RealIkaCpi \<Rightarrow>
          mark 2 LogOk (ascii ''Real Ika flow complete '' @ [8212]
            @ ascii '' MessageApproval (287 bytes, owned by Ika) on devnet'') tx account
          # (case fr_signature result of
               None \<Rightarrow> []
             | Some signature \<Rightarrow>
                 [say 2 LogOk (ascii ''Ika network signature received ('' @ nat_to_text (length signature)
                    @ ascii '' bytes)'')])
      | SimulatedFallback \<Rightarrow>
          [mark 2 LogOk (ascii ''Simulation complete '' @ [8212]
             @ ascii '' MessageApproval committed via LendGuard helper (same byte layout the real Ika executor will write once the dWallet account is materialized on-chain)'')
             tx account])"

definition runRealIkaExperiment ::
    "platform \<Rightarrow> services \<Rightarrow> (jstext \<Rightarrow> jstext js) \<Rightarrow> wallet_env \<Rightarrow> demo_page \<Rightarrow> unit demo_io" where
  "runRealIkaExperiment P S url_host E c =
     with_session E c (\<lambda>owner session.
     page_action PutRunning
       (\<lambda>e. [say 2 LogFail (ascii ''Real Ika experiment failed: '' @ friendlyError S e @ [32, 8212, 32]
          @ ascii ''pre-alpha networks may be unavailable; main demo flow is unaffected.'')])
       (pg_bind (put [say 2 LogWarn (ascii ''Real Ika experiment '' @ [8212] @ ascii '' separate from demo flow'')]) (\<lambda>_.
        pg_bind (pg_of (url_host (IKA_GRPC_URL P))) (\<lambda>host.
        pg_bind (put [say 2 LogOk (ascii ''Ika gRPC '' @ host),
                      say 2 LogOk (ascii ''Ika dWallet program '' @ to_base58 (IKA_PROGRAM_ID P))]) (\<lambda>_.
        pg_bind (with_flow_log (runRealIkaFlow P S owner (vs_vaultPda session)
                   (digest_sha256 P (text_encode (ascii ''lendguard:'' @ to_base58 (vs_vaultPda session)))))) (\<lambda>result.
        put (flow_report result)))))))"

section \<open>What the page shows\<close>

definition step_disabled :: "wallet_env \<Rightarrow> demo_page \<Rightarrow> bool" where
  "step_disabled E c \<longleftrightarrow> dp_running c \<or> \<not> we_connected E"

text \<open>The panel "Attack blocked - demo complete".\<close>

definition shows_blocked :: "demo_page \<Rightarrow> bool" where
  "shows_blocked c \<longleftrightarrow> dp_currentStep c = 6 \<and> \<not> dp_running c \<and> list_ex (\<lambda>l. ev_step l = 6) (dp_log c)"

text \<open>The page as its user drives it. A click starts the handler of the current step, or the experiment, on
  the state the page shows; its first write is made with the click, the others are pending and are made one
  at a time while anything else happens: the effect of a connected wallet, a reset at any moment, and, once a
  reset has cleared the busy flag, further clicks. \<open>dw_disturbed\<close> records that a reset fell into a running
  handler, until a reset at rest.\<close>

record demo_world =
  dw_page :: demo_page
  dw_pending :: "demo_write list list"
  dw_disturbed :: bool

definition initial_demo_world :: demo_world where
  "initial_demo_world = \<lparr>dw_page = initial_demo_page, dw_pending = [], dw_disturbed = False\<rparr>"

definition begun :: "demo_write list \<Rightarrow> demo_world \<Rightarrow> demo_world" where
  "begun ws w = w\<lparr>dw_page := demo.writes (take 1 ws) (dw_page w),
     dw_pending := dw_pending w @ (if drop 1 ws = [] then [] else [drop 1 ws])\<rparr>"

inductive demo_step ::
    "platform \<Rightarrow> services \<Rightarrow> (jstext \<Rightarrow> jstext js) \<Rightarrow> demo_world \<Rightarrow> demo_world \<Rightarrow> bool"
  for P S url_host where
  clicked: "\<not> step_disabled E (dw_page w)
    \<Longrightarrow> stepAction P S url_host E (dw_page w) (dp_currentStep (dw_page w)) h = (r, h', ws)
    \<Longrightarrow> demo_step P S url_host w (begun ws w)"
| ika_experiment: "\<not> step_disabled E (dw_page w)
    \<Longrightarrow> runRealIkaExperiment P S url_host E (dw_page w) h = (r, h', ws)
    \<Longrightarrow> demo_step P S url_host w (begun ws w)"
| proceeded: "dw_pending w = before @ (x # ws) # after
    \<Longrightarrow> demo_step P S url_host w (w\<lparr>dw_page := apply_demo x (dw_page w),
          dw_pending := before @ (if ws = [] then [] else [ws]) @ after\<rparr>)"
| wallet_effect: "demo_step P S url_host w (w\<lparr>dw_page := demo.writes (wallet_connected P E) (dw_page w)\<rparr>)"
| restarted: "demo_step P S url_host w (w\<lparr>dw_page := demo.writes reset (dw_page w),
          dw_disturbed := (dw_pending w \<noteq> [])\<rparr>)"

definition reachable_demo :: "platform \<Rightarrow> services \<Rightarrow> (jstext \<Rightarrow> jstext js) \<Rightarrow> demo_world \<Rightarrow> bool" where
  "reachable_demo P S url_host w \<longleftrightarrow> (demo_step P S url_host)\<^sup>*\<^sup>* initial_demo_world w"

end
