(* ===== verification/Demo_Safety.thy ===== *)
theory Demo_Safety
  imports Demo_Page
begin

text \<open>
  What is shown of the demo page, its handlers' writes interleaved with resets in any way: the data each
  step needs is there when its button is, failures included, as long as no reset has fallen into a running
  step; what the last step reports when the deposit fails, or does not.
\<close>

section \<open>The steps\<close>

lemma apply_mark [simp]:
  "apply_demo (mark k st m tx acc) s
     = s\<lparr>dp_log := dp_log s @ [\<lparr>ev_step = k, ev_status = st, ev_message = m, ev_tx = tx, ev_account = acc\<rparr>]\<rparr>"
  "apply_demo (say k st m) s
     = s\<lparr>dp_log := dp_log s @ [\<lparr>ev_step = k, ev_status = st, ev_message = m, ev_tx = None, ev_account = None\<rparr>]\<rparr>"
  by (simp_all add: mark_def say_def)

lemma torque_writes [simp]: "demo.writes (torque E n d) s = s"
  by (simp add: torque_def split: option.split)

text \<open>The parts of the session and of the displayed vault that step \<open>k\<close> relies on.\<close>

definition session_ok :: "nat \<Rightarrow> vault_session \<Rightarrow> bool" where
  "session_ok k ses \<longleftrightarrow>
     (k < 3 \<or> vs_messageApprovalPda ses \<noteq> None)
     \<and> (k < 5 \<or> vs_riskStatePda ses \<noteq> None \<and> vs_thresholdCiphertextPda ses \<noteq> None
          \<and> vs_backingCiphertextPda ses \<noteq> None)
     \<and> (k < 6 \<or> vs_resultCiphertextPda ses \<noteq> None)"

definition vault_ok :: "nat \<Rightarrow> DemoVaultState \<Rightarrow> bool" where
  "vault_ok k v \<longleftrightarrow>
     (dv_proofStatus v = (if k < 3 then LabelPending else LabelVerified))
     \<and> dv_depositedAmount v = (if k < 4 then 0 else deposit_lamports)
     \<and> dv_backingRatio v = (if k < 5 then NORMAL_BACKING_RATIO else EXPLOIT_BACKING_RATIO)
     \<and> (dv_frozen v \<longleftrightarrow> 6 \<le> k)"

definition demo_ok :: "demo_page \<Rightarrow> bool" where
  "demo_ok s \<longleftrightarrow>
     dp_currentStep s \<in> {1..6}
     \<and> (dp_currentStep s = 1 \<or>
        (case (dp_session s, dp_vaultState s) of
           (Some ses, Some v) \<Rightarrow> session_ok (dp_currentStep s) ses \<and> vault_ok (dp_currentStep s) v
             \<and> dv_vaultPda v = to_base58 (vs_vaultPda ses)
         | _ \<Rightarrow> False))"

lemma demo_okE:
  assumes "demo_ok s" "dp_currentStep s \<noteq> 1"
  obtains ses v where "dp_session s = Some ses" "dp_vaultState s = Some v"
    "session_ok (dp_currentStep s) ses" "vault_ok (dp_currentStep s) v"
    "dv_vaultPda v = to_base58 (vs_vaultPda ses)"
  using assms by (auto simp: demo_ok_def split: option.splits)

lemma demo_ok_fields [simp]:
  "demo_ok (s\<lparr>dp_log := l\<rparr>) = demo_ok s" "demo_ok (s\<lparr>dp_running := b\<rparr>) = demo_ok s"
  by (auto simp: demo_ok_def split: option.split)

text \<open>The page at step \<open>k\<close>, with the session the handler captured.\<close>

definition at_step :: "nat \<Rightarrow> vault_session option \<Rightarrow> demo_page \<Rightarrow> bool" where
  "at_step k ses s \<longleftrightarrow> demo_ok s \<and> dp_currentStep s = k \<and> dp_session s = ses"

lemma at_step_fields [simp]:
  "at_step k ses (s\<lparr>dp_log := l\<rparr>) = at_step k ses s" "at_step k ses (s\<lparr>dp_running := b\<rparr>) = at_step k ses s"
  by (simp_all add: at_step_def)

lemma at_step_ok: "at_step k ses s \<Longrightarrow> demo_ok s"
  by (simp add: at_step_def)

text \<open>The writes with which a step succeeds lead to the next one.\<close>

lemma registered_ok:
  assumes "buildInitialDemoState P owner l = Inr state" "at_step 1 x s" "dp_session s = Some ses"
    "vs_vaultPda ses = vault"
  shows "demo_ok (s\<lparr>dp_vaultState := Some (state\<lparr>dv_vaultPda := to_base58 vault\<rparr>), dp_log := lg, dp_currentStep := 2\<rparr>)"
  using assms
  by (auto simp: buildInitialDemoState_def Let_def js_bind_def demo_ok_def session_ok_def vault_ok_def
      NORMAL_BACKING_RATIO_def split: sum.splits prod.splits)

lemma verified_ok:
  assumes "at_step 2 (Some ses) s"
  shows "demo_ok (s\<lparr>dp_log := lg, dp_session := Some (ses\<lparr>vs_messageApprovalPda := Some m\<rparr>),
    dp_vaultState := map_option (\<lambda>v. v\<lparr>dv_proofStatus := LabelVerified, dv_lastEvent := e\<rparr>) (dp_vaultState s),
    dp_currentStep := 3\<rparr>)"
  using assms by (auto simp: at_step_def demo_ok_def session_ok_def vault_ok_def split: option.splits)

lemma deposited_ok:
  assumes "at_step 3 (Some ses) s"
  shows "demo_ok (s\<lparr>dp_log := lg, dp_vaultState := map_option (\<lambda>v. v\<lparr>dv_depositedAmount := deposit_lamports,
      dv_backingRatio := NORMAL_BACKING_RATIO, dv_lastEvent := e\<rparr>) (dp_vaultState s), dp_currentStep := 4\<rparr>)"
  using assms by (auto simp: at_step_def demo_ok_def session_ok_def vault_ok_def split: option.splits)

lemma exploited_ok:
  assumes "at_step 4 (Some ses) s"
  shows "demo_ok (s\<lparr>dp_log := lg, dp_session := Some (ses\<lparr>vs_riskStatePda := Some r,
      vs_thresholdCiphertextPda := Some t, vs_backingCiphertextPda := Some b\<rparr>),
    dp_vaultState := map_option (\<lambda>v. v\<lparr>dv_backingRatio := EXPLOIT_BACKING_RATIO, dv_lastEvent := e\<rparr>) (dp_vaultState s),
    dp_currentStep := 5\<rparr>)"
  using assms by (auto simp: at_step_def demo_ok_def session_ok_def vault_ok_def split: option.splits)

lemma frozen_ok:
  assumes "at_step 5 (Some ses) s"
  shows "demo_ok (s\<lparr>dp_log := lg, dp_session := Some (ses\<lparr>vs_resultCiphertextPda := Some r\<rparr>),
    dp_vaultState := map_option (\<lambda>v. v\<lparr>dv_frozen := True, dv_lastEvent := e\<rparr>) (dp_vaultState s),
    dp_currentStep := 6\<rparr>)"
  using assms by (auto simp: at_step_def demo_ok_def session_ok_def vault_ok_def split: option.splits)

section \<open>Handlers\<close>

lemma leads_signer:
  "(\<And>owner. demo.leads J K (f owner)) \<Longrightarrow> (\<And>s. J s \<Longrightarrow> K s) \<Longrightarrow> demo.leads J K (signer E f)"
  by (auto simp: signer_def intro: demo.leads_pure split: option.split)

lemma leads_with_session:
  "(\<And>owner ses. dp_session c = Some ses \<Longrightarrow> demo.leads J K (f owner ses)) \<Longrightarrow> (\<And>s. J s \<Longrightarrow> K s)
   \<Longrightarrow> demo.leads J K (with_session E c f)"
  by (auto simp: with_session_def intro!: leads_signer demo.leads_pure split: option.split)

lemma leads_demo_action:
  "demo.leads (at_step k ses) demo_ok body \<Longrightarrow> demo.leads (at_step k ses) demo_ok (demo_action S j body)"
  unfolding demo_action_def by (rule demo.leads_action) (auto intro: at_step_ok)

lemma leads_send: "(\<And>s. J s \<Longrightarrow> K s) \<Longrightarrow> demo.leads J K (demo_send S ix owner)"
  by (simp add: demo_send_def demo.leads_io)

lemmas leads_rules = demo.leads_bind demo.leads_catch demo.leads_pure demo.leads_io leads_send
  demo.leads_put leads_signer

lemma ensure_leads: "demo.leads (at_step k ses) (at_step k ses) (ensureProtocolInitialized P S E)"
  unfolding ensureProtocolInitialized_def
  by (auto intro!: leads_rules split: prod.split)

lemma fresh_dwallet_leads: "(\<And>s. J s \<Longrightarrow> K s) \<Longrightarrow> demo.leads J K (fresh_dwallet P S owner)"
  by (auto simp: fresh_dwallet_def demo.leads_def Let_def)

lemma register_leads:
  assumes ses: "ses = \<lparr>vs_vaultPda = vault, vs_dwalletIdBytes = i, vs_dwalletIdLabel = l,
      vs_messageApprovalPda = None, vs_riskStatePda = None, vs_thresholdCiphertextPda = None,
      vs_backingCiphertextPda = None, vs_resultCiphertextPda = None\<rparr>"
  shows "demo.leads (at_step 1 x) demo_ok
    (pg_bind (put [PutSession (Some ses)]) (\<lambda>_.
     pg_bind (pg_of (buildInitialDemoState P owner l)) (\<lambda>state.
     put ([PutVaultState (Some (state\<lparr>dv_vaultPda := to_base58 vault\<rparr>)), mark 1 LogOk m1 tx acc,
           say 1 LogOk m2] @ torque E n d @ [PutStep 2]))))"
proof (rule demo.leads_seq [where L = "at_step 1 (Some ses)"])
  show "demo.leads (at_step 1 x) (at_step 1 (Some ses)) (put [PutSession (Some ses)])"
    by (rule demo.leads_put) (simp add: at_step_def demo_ok_def)
  show "demo.leads (at_step 1 (Some ses)) demo_ok
    (pg_bind (pg_of (buildInitialDemoState P owner l)) (\<lambda>state.
     put ([PutVaultState (Some (state\<lparr>dv_vaultPda := to_base58 vault\<rparr>)), mark 1 LogOk m1 tx acc,
           say 1 LogOk m2] @ torque E n d @ [PutStep 2])))" for y :: unit
    by (rule demo.leads_bind_of, rule demo.leads_put)
      (auto simp: ses at_step_def dest: registered_ok [where x = "Some ses"] intro: at_step_ok)
qed (rule at_step_ok)

lemma leads_prod: "(\<And>a b. demo.leads J K (f a b)) \<Longrightarrow> demo.leads J K (case p of (a, b) \<Rightarrow> f a b)"
  by (cases p) simp

lemma step1_leads: "demo.leads (at_step 1 ses) demo_ok (step1RegisterVault P S E)"
  unfolding step1RegisterVault_def
  apply (rule leads_signer, rule leads_demo_action)
   apply (rule demo.leads_bind, rule demo.leads_put, simp)
    apply (rule demo.leads_bind, rule ensure_leads)
     apply (rule demo.leads_bind, rule fresh_dwallet_leads, assumption)
      apply (rule leads_prod, rule demo.leads_bind_of, rule leads_prod)
       apply (rule demo.leads_bind, rule demo.leads_put, simp)
        apply (rule demo.leads_bind, rule leads_send, assumption)
         apply (rule register_leads, rule refl)
        apply (erule at_step_ok)+
  done

lemma step2_leads: "demo.leads (at_step 2 (dp_session c)) demo_ok (step2VerifyProof P S E c)"
  unfolding step2VerifyProof_def
  by (rule leads_with_session)
    (auto intro!: leads_demo_action leads_rules verified_ok intro: at_step_ok split: prod.split)

lemma step3_leads: "demo.leads (at_step 3 (dp_session c)) demo_ok (step3Deposit P S E c)"
  unfolding step3Deposit_def
  by (rule leads_with_session)
    (auto intro!: leads_demo_action leads_rules deposited_ok intro: at_step_ok split: prod.split)

lemma show_ciphertexts_leads: "demo.leads (at_step k ses) (at_step k ses) (show_ciphertexts ids)"
  unfolding show_ciphertexts_def by (auto intro!: leads_rules split: list.split)

lemma step4_leads: "demo.leads (at_step 4 (dp_session c)) demo_ok (step4Exploit P S url_host E c)"
  unfolding step4Exploit_def exploit_notes_def
  by (rule leads_with_session)
    (auto intro!: leads_demo_action demo.leads_bind [OF show_ciphertexts_leads] leads_rules exploited_ok
      intro: at_step_ok split: prod.split)

lemma result_label_leads: "(\<And>s. J s \<Longrightarrow> K s) \<Longrightarrow> demo.leads J K (result_label S)"
  by (auto simp: result_label_def demo.leads_def)

lemma step5_leads: "demo.leads (at_step 5 (dp_session c)) demo_ok (step5RiskCheck P S E c)"
  unfolding step5RiskCheck_def
  by (rule leads_with_session)
    (auto intro!: leads_demo_action result_label_leads leads_rules frozen_ok
      intro: at_step_ok split: prod.split option.split)

lemma rejected_leads: "demo_ok s \<Longrightarrow> demo_ok (demo.writes (rejected_writes S E ses e) s)"
  by (simp add: rejected_writes_def Let_def)

lemma step6_leads: "demo.leads demo_ok demo_ok (step6AttemptDeposit P S E c)"
  unfolding step6AttemptDeposit_def
  by (rule leads_with_session)
    (auto intro!: leads_rules demo.leads_finally rejected_leads split: prod.split)

lemma flow_notes_ok: "demo_ok s \<Longrightarrow> demo_ok (demo.writes (concat (map flow_note rs)) s)"
proof (induction rs arbitrary: s)
  case (Cons r rs)
  then show ?case by (cases r) (simp_all add: flow_note_def)
qed simp

lemma flow_log_leads: "demo.leads demo_ok demo_ok (with_flow_log m)"
  by (auto simp: demo.leads_def with_flow_log_def flow_notes_ok split: prod.splits)

lemma experiment_leads: "demo.leads demo_ok demo_ok (runRealIkaExperiment P S url_host E c)"
  unfolding runRealIkaExperiment_def
  by (rule leads_with_session)
    (auto intro!: demo.leads_action demo.leads_bind [OF flow_log_leads] leads_rules
       simp: flow_report_def Let_def split: prod.split approval_source.split option.split)

section \<open>Whole handlers\<close>

lemma stepAction_ok:
  assumes "demo_ok s" "stepAction P S url_host E s (dp_currentStep s) h = (r, h', ws)"
  shows "demo_ok (demo.writes ws s)"
proof -
  have here: "at_step (dp_currentStep s) (dp_session s) s" using assms by (simp add: at_step_def)
  have "dp_currentStep s \<in> {1, 2, 3, 4, 5, 6}" using assms by (auto simp: demo_ok_def)
  then have "demo.leads (at_step (dp_currentStep s) (dp_session s)) demo_ok
      (stepAction P S url_host E s (dp_currentStep s))"
    by (auto simp: stepAction_def step2_leads step3_leads step4_leads step5_leads
        intro: step1_leads [unfolded One_nat_def] demo.leads_put)
      (use step6_leads in \<open>auto simp: demo.leads_def at_step_def\<close>)
  then show ?thesis using assms(2) here by (rule demo.leadsD)
qed

abbreviation idle :: "demo_page \<Rightarrow> bool" where "idle s \<equiv> \<not> dp_running s"

lemma stepAction_idle: "demo.leads idle idle (stepAction P S url_host E s k)"
  unfolding stepAction_def step1RegisterVault_def step2VerifyProof_def step3Deposit_def
    step4Exploit_def step5RiskCheck_def step6AttemptDeposit_def demo_action_def
  by (auto intro!: leads_signer leads_with_session demo.action_free demo.finally_free demo.leads_put
      demo.leads_pure split: option.split)

lemma experiment_idle: "demo.leads idle idle (runRealIkaExperiment P S url_host E s)"
  unfolding runRealIkaExperiment_def by (auto intro!: leads_with_session demo.action_free)

section \<open>The writes of a handler\<close>

text \<open>Besides the first and the last, the writes of a handler leave the busy flag alone, and the steps they set
  are the six of the page.\<close>

fun quiet_write :: "demo_write \<Rightarrow> bool" where
  "quiet_write (PutRunning b) = False"
| "quiet_write (PutStep k) = (k \<in> {1..6})"
| "quiet_write _ = True"

definition quiet :: "'a demo_io \<Rightarrow> bool" where
  "quiet m \<longleftrightarrow> (\<forall>h r h' ws. m h = (r, h', ws) \<longrightarrow> list_all quiet_write ws)"

named_theorems quiet_intros

lemma quietD: "quiet m \<Longrightarrow> m h = (r, h', ws) \<Longrightarrow> list_all quiet_write ws"
  unfolding quiet_def by blast

lemma quiet_basic [quiet_intros]:
  "list_all quiet_write ws \<Longrightarrow> quiet (put ws)" "quiet (pg_return x)" "quiet (pg_throw e)" "quiet (pg_of r)"
  "quiet (pg_io io)" "quiet (demo_send S ix owner)"
  by (auto simp: quiet_def demo_send_def pg_io_def split: prod.splits)

lemma quiet_bind [quiet_intros]: "quiet m \<Longrightarrow> (\<And>x. quiet (f x)) \<Longrightarrow> quiet (pg_bind m f)"
  unfolding quiet_def pg_bind_def by (fastforce split: prod.splits sum.splits)

lemma quiet_catch [quiet_intros]: "quiet m \<Longrightarrow> (\<And>e. quiet (f e)) \<Longrightarrow> quiet (pg_catch m f)"
  unfolding quiet_def pg_catch_def by (fastforce split: prod.splits sum.splits)

lemma quiet_split [quiet_intros]: "(\<And>a b. quiet (f a b)) \<Longrightarrow> quiet (case p of (a, b) \<Rightarrow> f a b)"
  by (cases p) simp

lemma quiet_signer [quiet_intros]: "(\<And>owner. quiet (f owner)) \<Longrightarrow> quiet (signer E f)"
  by (auto simp: signer_def intro: quiet_intros split: option.split)

lemma quiet_notes [simp]:
  "quiet_write (mark k st m tx acc)" "quiet_write (say k st m)" "list_all quiet_write (torque E n d)"
  by (simp_all add: say_def mark_def torque_def split: option.split)

lemma quiet_parts [quiet_intros]:
  "quiet (ensureProtocolInitialized P S E)" "quiet (fresh_dwallet P S owner)" "quiet (show_ciphertexts ids)"
  "quiet (result_label S)" "quiet (with_flow_log m)"
proof -
  show "quiet (ensureProtocolInitialized P S E)"
    unfolding ensureProtocolInitialized_def by (auto intro!: quiet_intros)
  show "quiet (show_ciphertexts ids)"
    unfolding show_ciphertexts_def by (auto intro!: quiet_intros split: list.split)
  have "list_all quiet_write (flow_note q)" for q by (cases q) (simp_all add: flow_note_def)
  then show "quiet (with_flow_log m)"
    by (auto simp: quiet_def with_flow_log_def list_all_iff split: prod.splits)
qed (simp_all add: quiet_def fresh_dwallet_def result_label_def Let_def)

text \<open>The writes of a whole handler: none or a note, or the flag set, quiet writes, the flag cleared.\<close>

definition framed :: "demo_write list \<Rightarrow> bool" where
  "framed ws \<longleftrightarrow> length ws \<le> 1 \<and> list_all quiet_write ws
     \<or> (\<exists>body. ws = PutRunning True # body @ [PutRunning False] \<and> list_all quiet_write body)"

definition frames :: "unit demo_io \<Rightarrow> bool" where
  "frames m \<longleftrightarrow> (\<forall>h r h' ws. m h = (r, h', ws) \<longrightarrow> framed ws)"

lemma frames_finally: "quiet m \<Longrightarrow> frames (pg_bind (put [PutRunning True]) (\<lambda>_. pg_finally m [PutRunning False]))"
  unfolding frames_def framed_def pg_bind_put pg_finally_def by (fastforce dest: quietD split: prod.splits)

lemma frames_action:
  "quiet body \<Longrightarrow> (\<And>e. list_all quiet_write (failed e)) \<Longrightarrow> frames (page_action PutRunning failed body)"
  unfolding page_action_def by (intro frames_finally quiet_intros)

lemma frames_basic:
  "frames (pg_return ())" "quiet_write w \<Longrightarrow> frames (put [w])"
  by (simp_all add: frames_def framed_def)

lemma frames_signer: "(\<And>owner. frames (f owner)) \<Longrightarrow> frames (signer E f)"
  by (auto simp: signer_def frames_basic split: option.split)

lemma frames_with_session: "(\<And>owner ses. frames (f owner ses)) \<Longrightarrow> frames (with_session E c f)"
  by (auto simp: with_session_def frames_basic intro: frames_signer split: option.split)

lemma frames_demo_action: "quiet body \<Longrightarrow> frames (demo_action S k body)"
  unfolding demo_action_def by (rule frames_action) simp_all

lemma stepAction_frames: "frames (stepAction P S url_host E c k)"
proof -
  have "frames (step1RegisterVault P S E)"
    unfolding step1RegisterVault_def
    by (intro frames_signer frames_demo_action quiet_intros) (auto intro!: quiet_intros)
  moreover have "frames (step2VerifyProof P S E c)"
    unfolding step2VerifyProof_def
    by (intro frames_with_session frames_demo_action quiet_intros) auto
  moreover have "frames (step3Deposit P S E c)"
    unfolding step3Deposit_def
    by (intro frames_with_session frames_demo_action quiet_intros) auto
  moreover have "frames (step4Exploit P S url_host E c)"
    unfolding step4Exploit_def exploit_notes_def
    by (intro frames_with_session frames_demo_action quiet_intros) auto
  moreover have "frames (step5RiskCheck P S E c)"
    unfolding step5RiskCheck_def
    by (auto intro!: frames_with_session frames_demo_action frames_basic quiet_intros split: option.split)
  moreover have "frames (step6AttemptDeposit P S E c)"
    unfolding step6AttemptDeposit_def
    by (auto simp: rejected_writes_def Let_def intro!: frames_with_session frames_finally quiet_intros)
  ultimately show ?thesis by (simp add: stepAction_def frames_basic)
qed

lemma experiment_frames: "frames (runRealIkaExperiment P S url_host E c)"
  unfolding runRealIkaExperiment_def
  by (auto intro!: frames_with_session frames_action quiet_intros
      simp: flow_report_def Let_def split: approval_source.split option.split)

section \<open>Reachable pages\<close>

text \<open>What is left of a handler: quiet writes, and the flag cleared at the end.\<close>

definition unfinished :: "demo_write list \<Rightarrow> bool" where
  "unfinished ws \<longleftrightarrow> (\<exists>body. ws = body @ [PutRunning False] \<and> list_all quiet_write body)"

definition on_track :: "demo_page \<Rightarrow> demo_write list list \<Rightarrow> bool" where
  "on_track s pending \<longleftrightarrow>
     (case pending of
        [] \<Rightarrow> demo_ok s \<and> idle s
      | [ws] \<Rightarrow> dp_running s \<and> demo_ok (demo.writes ws s) \<and> idle (demo.writes ws s)
      | _ \<Rightarrow> False)"

definition world_ok :: "demo_world \<Rightarrow> bool" where
  "world_ok w \<longleftrightarrow> dp_currentStep (dw_page w) \<in> {1..6} \<and> list_all unfinished (dw_pending w)
     \<and> (\<not> dw_disturbed w \<longrightarrow> on_track (dw_page w) (dw_pending w))"

lemma step_in_range:
  "dp_currentStep s \<in> {1..6} \<Longrightarrow> quiet_write x \<or> x = PutRunning b \<Longrightarrow> dp_currentStep (apply_demo x s) \<in> {1..6}"
  by (cases x) auto

lemma quiet_running: "quiet_write x \<Longrightarrow> dp_running (apply_demo x s) = dp_running s"
  by (cases x) simp_all

lemma world_begun:
  assumes w: "world_ok w" and "\<not> step_disabled E (dw_page w)" and "framed ws"
    and "demo_ok (dw_page w) \<Longrightarrow> demo_ok (demo.writes ws (dw_page w))"
    and "idle (demo.writes ws (dw_page w))"
  shows "world_ok (begun ws w)"
proof -
  have idle: "idle (dw_page w)" using assms(2) by (simp add: step_disabled_def)
  then have rest: "dw_pending w = []" "demo_ok (dw_page w)" if "\<not> dw_disturbed w"
    using w that by (auto simp: world_ok_def on_track_def split: list.splits)
  from assms(3) consider "ws = []" | x where "ws = [x]" "quiet_write x"
    | body where "ws = PutRunning True # body @ [PutRunning False]" "list_all quiet_write body"
    by (cases ws) (auto simp: framed_def)
  then show ?thesis
  proof cases
    case 1
    then show ?thesis using w by (simp add: begun_def)
  next
    case 2
    then show ?thesis
      using w rest assms(4,5) step_in_range [of "dw_page w" x]
      by (auto simp: begun_def world_ok_def on_track_def)
  next
    case 3
    then show ?thesis
      using w rest assms(4,5) by (auto simp: begun_def world_ok_def on_track_def unfinished_def)
  qed
qed

lemma world_proceeded:
  assumes w: "world_ok w" and pending: "dw_pending w = before @ (x # ws) # after"
  shows "world_ok (w\<lparr>dw_page := apply_demo x (dw_page w),
           dw_pending := before @ (if ws = [] then [] else [ws]) @ after\<rparr>)"
proof -
  have "unfinished (x # ws)" using w pending by (simp add: world_ok_def)
  then consider "ws = []" "x = PutRunning False" | "quiet_write x" "unfinished ws" "ws \<noteq> []"
    by (auto simp: unfinished_def Cons_eq_append_conv)
  note cases = this
  have track: "before = [] \<and> after = [] \<and> dp_running (dw_page w)
      \<and> demo_ok (demo.writes ws (apply_demo x (dw_page w))) \<and> idle (demo.writes ws (apply_demo x (dw_page w)))"
    if "\<not> dw_disturbed w"
    using w that pending by (cases before; cases after) (auto simp: world_ok_def on_track_def split: list.splits)
  from cases show ?thesis
  proof cases
    case 1
    then show ?thesis using w pending track by (auto simp: world_ok_def on_track_def)
  next
    case 2
    then show ?thesis
      using w pending track step_in_range [of "dw_page w" x] quiet_running
      by (auto simp: world_ok_def on_track_def)
  qed
qed

lemma demo_step_ok:
  assumes "demo_step P S url_host w w'" "world_ok w"
  shows "world_ok w'"
  using assms
proof (cases rule: demo_step.cases)
  case (clicked E h r h' ws)
  show ?thesis
    unfolding clicked(1)
  proof (rule world_begun [OF assms(2) clicked(2)])
    show "framed ws" using stepAction_frames clicked(3) unfolding frames_def by blast
    show "idle (demo.writes ws (dw_page w))"
      using demo.leadsD [OF stepAction_idle clicked(3)] clicked(2) by (simp add: step_disabled_def)
  qed (rule stepAction_ok [OF _ clicked(3)])
next
  case (ika_experiment E h r h' ws)
  show ?thesis
    unfolding ika_experiment(1)
  proof (rule world_begun [OF assms(2) ika_experiment(2)])
    show "framed ws" using experiment_frames ika_experiment(3) unfolding frames_def by blast
    show "idle (demo.writes ws (dw_page w))"
      using demo.leadsD [OF experiment_idle ika_experiment(3)] ika_experiment(2) by (simp add: step_disabled_def)
  qed (rule demo.leadsD [OF experiment_leads ika_experiment(3)])
next
  case (proceeded before x ws after)
  show ?thesis unfolding proceeded(1) by (rule world_proceeded [OF assms(2) proceeded(2)])
next
  case (wallet_effect E)
  then show ?thesis using assms(2) by (simp add: wallet_connected_def)
next
  case restarted
  then show ?thesis using assms(2) by (simp add: world_ok_def on_track_def reset_def demo_ok_def)
qed

lemma reachable_world_ok: "reachable_demo P S url_host w \<Longrightarrow> world_ok w"
  unfolding reachable_demo_def
proof (induction rule: rtranclp_induct)
  case base
  then show ?case
    by (simp add: initial_demo_world_def world_ok_def on_track_def initial_demo_page_def demo_ok_def)
next
  case (step y z)
  then show ?case using demo_step_ok by blast
qed

text \<open>C12: On every page the demo can reach, with the writes of running handlers interleaved with resets and
  reconnected wallets in any way, the step shown is one of the six. As long as no reset has fallen into a
  running handler since the last reset at rest, at most one handler runs: while it does the page is busy, and
  its remaining writes lead to a page at rest. On every such page at rest what the current step needs is
  there: from step 2 a vault, displayed under its address, from step 3 its approval and the verified status,
  from step 4 the deposit, from step 5 the risk state with both ciphertexts and the exploited ratio, at step 6
  the result and the frozen flag, never earlier. A reset during a handler does break this:
  \<open>reset_during_deposit\<close> below.\<close>

theorem demo_progress:
  assumes "reachable_demo P S url_host w"
  shows "dp_currentStep (dw_page w) \<in> {1..6}
    \<and> (\<not> dw_disturbed w \<longrightarrow>
        (dw_pending w = [] \<and> demo_ok (dw_page w) \<and> \<not> dp_running (dw_page w))
        \<or> (\<exists>ws. dw_pending w = [ws] \<and> dp_running (dw_page w) \<and> demo_ok (demo.writes ws (dw_page w))
             \<and> \<not> dp_running (demo.writes ws (dw_page w))))"
  using reachable_world_ok [OF assms]
  by (auto simp: world_ok_def on_track_def split: list.splits)

section \<open>The last step\<close>

text \<open>A page at its last step.\<close>

definition last_page :: "wallet_env \<Rightarrow> demo_page \<Rightarrow> pubkey \<Rightarrow> vault_session \<Rightarrow> bool" where
  "last_page E c owner ses \<longleftrightarrow>
     dp_currentStep c = 6 \<and> \<not> step_disabled E c \<and> we_owner E = Some owner \<and> we_signTransaction E
     \<and> dp_session c = Some ses"

lemma rejected_shows:
  "dp_currentStep (demo.writes (rejected_writes S E ses e) s) = dp_currentStep s"
  "list_ex (\<lambda>l. ev_step l = 6) (dp_log (demo.writes (rejected_writes S E ses e) s))"
  by (simp_all add: rejected_writes_def Let_def)

lemma step6_run:
  assumes "last_page E c owner ses"
    "buildDepositCollateralIx P owner (vs_vaultPda ses) deposit_lamports = Inr ix"
    "sendIx S (Inl ix) owner h = (res, h')"
  shows "step6AttemptDeposit P S E c h = (Inr (), h', PutRunning True
     # say 6 LogOk (ascii ''Attacker attempts new deposit on the now-frozen protocol'' @ [8230])
     # (case res of
          Inl e \<Rightarrow> rejected_writes S E ses e
        | Inr sig \<Rightarrow> [mark 6 LogWarn (ascii ''Deposit unexpectedly succeeded: '' @ sig) (Some sig) None])
     @ [PutRunning False])"
  using assms
  by (auto simp: step6AttemptDeposit_def with_session_def signer_def last_page_def pg_bind_put
      pg_finally_def pg_catch_def demo_send_def pg_io_def pg_bind_def split: sum.splits)

text \<open>C35: Clicking the last step always ends with the panel that says the attack was blocked: after a
  rejection by the program, but also after any other failure of the transaction, a declined signature
  or a network error included, which is logged and recorded as a blocked attack as well, and even
  after a deposit that succeeded.\<close>

theorem attack_always_reported_blocked:
  assumes "last_page E c owner ses"
    and "buildDepositCollateralIx P owner (vs_vaultPda ses) deposit_lamports = Inr ix"
    and "sendIx S (Inl ix) owner h = (res, h')"
  shows "\<exists>ws. step6AttemptDeposit P S E c h = (Inr (), h', ws) \<and> shows_blocked (demo.writes ws c)
    \<and> (\<forall>e. res = Inl e \<longrightarrow> set (rejected_writes S E ses e) \<subseteq> set ws)"
  unfolding step6_run [OF assms]
  using assms(1)
  by (auto simp: shows_blocked_def last_page_def rejected_shows split: sum.split)

text \<open>The rejection the code really sees, the failing simulation of \<open>sendIx\<close>, holds neither a hexadecimal
  code nor an \<open>AnchorError\<close>: it is shown as it is, never as a named error.\<close>

lemma first_hex_no_zero: "48 \<notin> set s \<Longrightarrow> first_hex s = None"
  by (induction s rule: first_hex.induct) auto

lemma strip_prefix_Some: "strip_prefix p s = Some t \<Longrightarrow> s = p @ t"
  by (induction p s rule: strip_prefix.induct) (auto split: if_splits)

lemma no_prefix: "a \<in> set p \<Longrightarrow> a \<notin> set s \<Longrightarrow> strip_prefix p s = None"
  using strip_prefix_Some [of p s] by (cases "strip_prefix p s") auto

lemma anchor_name_none: "65 \<notin> set s \<or> 69 \<notin> set s \<Longrightarrow> anchor_name s = None"
proof (induction s)
  case (Cons c cs)
  have "65 \<in> set (ascii ''AnchorError '')" "69 \<in> set (ascii ''AnchorError '')"
    by (simp_all add: ascii_def)
  then have "strip_prefix (ascii ''AnchorError '') (c # cs) = None"
    using Cons.prems no_prefix [of 65 "ascii ''AnchorError ''" "c # cs"]
      no_prefix [of 69 "ascii ''AnchorError ''" "c # cs"] by argo
  moreover have "anchor_name cs = None" using Cons by auto
  ultimately show ?case by simp
qed simp

lemma parse_plain:
  assumes "10 \<notin> set m" "48 \<notin> set m" "65 \<notin> set m \<or> 69 \<notin> set m"
  shows "parseAnchorError m = Some m"
proof -
  have "takeWhile (\<lambda>c. c \<noteq> 10) m = m"
    using assms(1) by (intro takeWhile_eq_all_conv [THEN iffD2]) blast
  then show ?thesis
    using assms by (simp add: parseAnchorError_def code_name_def first_hex_no_zero anchor_name_none)
qed

lemma parse_framed:
  assumes "10 \<notin> set m" "48 \<notin> set m" "65 \<notin> set m \<or> 69 \<notin> set m" "set (a @ b) \<inter> {10, 48, 65, 69} = {}"
  shows "parseAnchorError (a @ m @ b) = Some (a @ m @ b)"
  by (rule parse_plain) (use assms in auto)

lemma error_msg_chars:
  "10 \<notin> set (error_msg e)" "48 \<notin> set (error_msg e)" "65 \<notin> set (error_msg e) \<or> 69 \<notin> set (error_msg e)"
  by (cases e; simp add: ascii_def)+

lemma preflight_rejection_unnamed:
  "parseAnchorError (ascii ''On-chain pre-flight simulation failed: '' @ error_msg e @ preflight_advice)
     = Some (ascii ''On-chain pre-flight simulation failed: '' @ error_msg e @ preflight_advice)"
proof (rule parse_framed [OF error_msg_chars])
  show "set (ascii ''On-chain pre-flight simulation failed: '' @ preflight_advice) \<inter> {10, 48, 65, 69} = {}"
    by (simp add: ascii_def preflight_advice_def)
qed

section \<open>A reset during a step\<close>

text \<open>The reset button works while a step runs. After a reset during the deposit's transaction the page
  is at step 4 without a session, where no handler does anything.\<close>

lemma reset_during_deposit:
  assumes "we_owner E = Some owner" "we_signTransaction E" "dp_session c = Some ses"
    and "buildDepositCollateralIx P owner (vs_vaultPda ses) deposit_lamports = Inr ix"
    and "sendIx S (Inl ix) owner h = (Inr sig, h')"
  shows "\<exists>before after s. step3Deposit P S E c h = (Inr (), h', before @ after)
    \<and> s = demo.writes after (demo.writes reset (demo.writes before c))
    \<and> dp_currentStep s = 4 \<and> dp_session s = None
    \<and> stepAction P S url_host E s (dp_currentStep s) = pg_return ()"
proof -
  let ?before = "[PutRunning True, say 3 LogOk (ascii ''deposit_collateral('' @ DEPOSIT_AMOUNT_SOL
                   @ ascii '' SOL): submitting'' @ [8230])]"
  have run: "\<exists>after. step3Deposit P S E c h = (Inr (), h', ?before @ after)
     \<and> dp_currentStep (demo.writes after s) = 4 \<and> dp_session (demo.writes after s) = dp_session s" for s
    using assms
    by (auto simp: step3Deposit_def with_session_def signer_def demo_action_def page_action_def
        pg_bind_put pg_finally_def pg_catch_def demo_send_def pg_io_def pg_bind_def)
  have cleared: "dp_session (demo.writes reset t) = None" for t by (simp add: reset_def)
  obtain after where after: "step3Deposit P S E c h = (Inr (), h', ?before @ after)"
      "dp_currentStep (demo.writes after (demo.writes reset (demo.writes ?before c))) = 4"
      "dp_session (demo.writes after (demo.writes reset (demo.writes ?before c))) = None"
    using run [of "demo.writes reset (demo.writes ?before c)"] cleared by metis
  have "stepAction P S url_host E s 4 = pg_return ()" if "dp_session s = None" for s
    using that assms(1,2) by (simp add: stepAction_def step4Exploit_def with_session_def signer_def)
  then show ?thesis using after by metis
qed

section \<open>Runs\<close>

definition demo_user :: wallet_env where
  "demo_user = \<lparr>we_owner = Some 7, we_signTransaction = True, we_connected = True\<rparr>"

lemma flat_derives:
  "deriveProtocolStatePda flat_platform = Inr (0, 255)" "deriveRiskStatePda flat_platform v = Inr (0, 255)"
  "deriveVaultPda flat_platform k d = Inr (0, 255)"
  by (simp_all add: flat_platform_def deriveProtocolStatePda_def deriveRiskStatePda_def deriveVaultPda_def)

lemma flat_builds:
  "\<exists>ix. buildInitializeProtocolIx flat_platform k = Inr ix"
  "\<exists>ix. buildRegisterVaultIx flat_platform k d 0 = Inr (ix, 0)"
  "\<exists>ix. buildDepositCollateralIx flat_platform k v n = Inr ix"
  by (simp_all add: buildInitializeProtocolIx_def buildRegisterVaultIx_def buildDepositCollateralIx_def
      flat_derives Let_def)

lemma demo_sends: "\<exists>h'. sendIx demo_services ix k h = (Inr [50], h')"
  by (simp add: sendIx_def demo_services_def io_bind_def preflight_def io_catch_def Let_def)

lemma step1_run:
  "\<exists>h ws. step1RegisterVault flat_platform demo_services demo_user [] = (Inr (), h, ws)
     \<and> dp_currentStep (demo.writes ws initial_demo_page) = 2"
proof -
  obtain i1 i2 where ix: "buildInitializeProtocolIx flat_platform 7 = Inr i1"
      "\<And>d. buildRegisterVaultIx flat_platform 7 d 0 = Inr (i2 d, 0)"
    using flat_builds by metis
  obtain h' where send: "\<And>ix k h. sendIx demo_services ix k h = (Inr [50], h' ix k h)"
    using demo_sends by metis
  have none: "getAccountInfo (rpc_accounts demo_services h) k = Inr None" for h k
    by (simp add: demo_services_def)
  show ?thesis
    by (simp add: step1RegisterVault_def signer_def demo_user_def demo_action_def page_action_def pg_bind_put
        pg_finally_def pg_catch_def ensureProtocolInitialized_def flat_derives ix demo_send_def send
        pg_io_def pg_bind_def read_accounts_def ask_def accountExists_def none
        fresh_dwallet_def buildInitialDemoState_def initial_demo_page_def Let_def)
qed

text \<open>A handler that is left alone makes all its writes.\<close>

lemma handler_finishes:
  assumes "dw_pending w = [ws]" "ws \<noteq> []"
  shows "(demo_step P S url_host)\<^sup>*\<^sup>* w (w\<lparr>dw_page := demo.writes ws (dw_page w), dw_pending := []\<rparr>)"
  using assms
proof (induction ws arbitrary: w)
  case (Cons x ws)
  have step: "demo_step P S url_host w (w\<lparr>dw_page := apply_demo x (dw_page w),
      dw_pending := if ws = [] then [] else [ws]\<rparr>)"
    using proceeded [of w "[]" x ws "[]"] Cons.prems by simp
  show ?case
  proof (cases "ws = []")
    case True
    then show ?thesis using step by auto
  next
    case False
    then show ?thesis
      using step Cons.IH [of "w\<lparr>dw_page := apply_demo x (dw_page w), dw_pending := [ws]\<rparr>"]
      by (auto intro: converse_rtranclp_into_rtranclp)
  qed
qed simp

lemma demo_progress_witness:
  "\<exists>w. reachable_demo flat_platform demo_services (\<lambda>t. Inr t) w \<and> dp_currentStep (dw_page w) = 2
     \<and> demo_ok (dw_page w) \<and> \<not> dp_running (dw_page w)"
proof -
  obtain h ws where run: "step1RegisterVault flat_platform demo_services demo_user [] = (Inr (), h, ws)"
      "dp_currentStep (demo.writes ws initial_demo_page) = 2"
    using step1_run by blast
  let ?step = "demo_step flat_platform demo_services (\<lambda>t. Inr t)"
  have "?step initial_demo_world (begun ws initial_demo_world)"
    by (rule clicked [where E = demo_user and h = "[]" and r = "Inr ()" and h' = h])
      (use run in \<open>simp_all add: step_disabled_def initial_demo_world_def initial_demo_page_def demo_user_def
         stepAction_def\<close>)
  moreover obtain x rest where ws: "ws = x # rest" "rest \<noteq> []"
  proof -
    have "frames (stepAction flat_platform demo_services (\<lambda>t. Inr t) demo_user initial_demo_page 1)"
      by (rule stepAction_frames)
    then have "framed ws" using run(1) by (simp add: frames_def stepAction_def)
    moreover have "\<not> length ws \<le> 1"
    proof
      assume short: "length ws \<le> 1"
      obtain h2 ws2 where "step1RegisterVault flat_platform demo_services demo_user []
          = (Inr (), h2, PutRunning True # ws2 @ [PutRunning False])"
        using page_action_ends [of PutRunning]
        by (fastforce simp: step1RegisterVault_def signer_def demo_user_def demo_action_def)
      then show False using run(1) short by simp
    qed
    ultimately show ?thesis using that by (auto simp: framed_def)
  qed
  moreover have "?step\<^sup>*\<^sup>* (begun ws initial_demo_world)
      (initial_demo_world\<lparr>dw_page := demo.writes ws initial_demo_page\<rparr>)"
    using handler_finishes [of "begun ws initial_demo_world" rest flat_platform demo_services "\<lambda>t. Inr t"]
    by (simp add: begun_def ws initial_demo_world_def)
  ultimately have "reachable_demo flat_platform demo_services (\<lambda>t. Inr t)
      (initial_demo_world\<lparr>dw_page := demo.writes ws initial_demo_page\<rparr>)"
    unfolding reachable_demo_def by (meson converse_rtranclp_into_rtranclp)
  from demo_progress [OF this] this run(2) show ?thesis
    by (auto simp: initial_demo_world_def)
qed

text \<open>A user who declines the signature.\<close>

definition declining :: services where
  "declining = demo_services\<lparr>wallet_signTransaction := (\<lambda>_ _. Inl (ErrorMsg ''User rejected the request.''))\<rparr>"

lemma declined: "\<exists>h'. sendIx declining ix k h = (Inl (ErrorMsg ''User rejected the request.''), h')"
  by (simp add: sendIx_def declining_def demo_services_def io_bind_def preflight_def io_catch_def Let_def)

definition demo_session :: vault_session where
  "demo_session = \<lparr>vs_vaultPda = 3, vs_dwalletIdBytes = replicate 32 1, vs_dwalletIdLabel = [],
     vs_messageApprovalPda = Some 4, vs_riskStatePda = Some 5, vs_thresholdCiphertextPda = Some 6,
     vs_backingCiphertextPda = Some 8, vs_resultCiphertextPda = Some 9\<rparr>"

lemma attack_always_reported_blocked_witness:
  "\<exists>h' ws. step6AttemptDeposit flat_platform declining demo_user
       (initial_demo_page\<lparr>dp_currentStep := 6, dp_session := Some demo_session\<rparr>) [] = (Inr (), h', ws)
     \<and> shows_blocked (demo.writes ws (initial_demo_page\<lparr>dp_currentStep := 6, dp_session := Some demo_session\<rparr>))
     \<and> set (rejected_writes declining demo_user demo_session (ErrorMsg ''User rejected the request.'')) \<subseteq> set ws"
proof -
  let ?c = "initial_demo_page\<lparr>dp_currentStep := 6, dp_session := Some demo_session\<rparr>"
  obtain ix where ix: "buildDepositCollateralIx flat_platform 7 (vs_vaultPda demo_session) deposit_lamports = Inr ix"
    using flat_builds by blast
  obtain h' where send: "sendIx declining (Inl ix) 7 [] = (Inl (ErrorMsg ''User rejected the request.''), h')"
    using declined by blast
  have "last_page demo_user ?c 7 demo_session"
    by (simp add: last_page_def step_disabled_def demo_user_def initial_demo_page_def)
  from attack_always_reported_blocked [OF this ix send] show ?thesis by blast
qed

end
