(* ===== verification/Chain_Ledger.thy ===== *)
theory Chain_Ledger
  imports Approvals Chain_Interface
begin

text \<open>
  The state the on-chain program works on, and what its handlers (\<open>contracts/src/instructions\<close>) share:
  the accounts of a transaction, the errors a transaction can end with, the constraints of the Anchor
  account structs, and the interest accrual of \<open>lending.rs\<close>.

  An account at a program derived address is kept under what its seeds vary in: pools under their mint,
  price feeds under the asset type, positions and attestations under the address of their vault
  (\<open>Pda.pda_domain_separation\<close> shows that distinct accounts hash distinct seeds). A handler is a
  function from the ledger to an error or the new ledger: a failing transaction changes nothing.
\<close>

section \<open>Errors\<close>

datatype anchor_error = AccountNotInitialized | AccountAlreadyInUse | ConstraintSeeds

text \<open>A transaction fails with an error of the program, a failed constraint of the framework, an error
  of a program it calls, or a panic: the release profile checks the arithmetic.\<close>

datatype run_error =
    Custom lendguard_error | Anchor anchor_error | TokenProgramError | SystemProgramError
  | IkaProgramError | ArithmeticPanic

type_synonym 'a run = "run_error + 'a"

definition run_bind :: "'a run \<Rightarrow> ('a \<Rightarrow> 'b run) \<Rightarrow> 'b run" where
  "run_bind m f = (case m of Inl e \<Rightarrow> Inl e | Inr x \<Rightarrow> f x)"

lemma run_bind_simps [simp]:
  "run_bind (Inl e) f = Inl e" "run_bind (Inr x) f = f x"
  by (simp_all add: run_bind_def)

lemma run_bind_Inr: "run_bind m f = Inr y \<longleftrightarrow> (\<exists>x. m = Inr x \<and> f x = Inr y)"
  by (cases m) simp_all

definition of_chain :: "'a chain \<Rightarrow> 'a run" where
  "of_chain m = (case m of Inl e \<Rightarrow> Inl (Custom e) | Inr x \<Rightarrow> Inr x)"

lemma of_chain_simps [simp]: "of_chain (Inl e) = Inl (Custom e)" "of_chain (Inr x) = Inr x"
  by (simp_all add: of_chain_def)

lemma of_chain_Inr: "of_chain m = Inr x \<longleftrightarrow> m = Inr x"
  by (cases m) simp_all

definition of_outcome :: "'a outcome \<Rightarrow> 'a run" where
  "of_outcome r = (case r of Panicked \<Rightarrow> Inl ArithmeticPanic | Refused e \<Rightarrow> Inl (Custom e)
     | Done x \<Rightarrow> Inr x)"

lemma of_outcome_simps [simp]:
  "of_outcome Panicked = Inl ArithmeticPanic" "of_outcome (Refused e) = Inl (Custom e)"
  "of_outcome (Done x) = Inr x"
  by (simp_all add: of_outcome_def)

lemma of_outcome_Inr: "of_outcome r = Inr x \<longleftrightarrow> r = Done x"
  by (cases r) simp_all

text \<open>\<open>require!\<close>, and the load of an initialized account.\<close>

definition demand :: "bool \<Rightarrow> lendguard_error \<Rightarrow> unit run" where
  "demand c e = (if c then Inr () else Inl (Custom e))"

lemma demand_simps [simp]: "demand True e = Inr ()" "demand False e = Inl (Custom e)"
  by (simp_all add: demand_def)

lemma demand_Inr: "demand c e = Inr u \<longleftrightarrow> c"
  by (simp add: demand_def)

definition load :: "'a option \<Rightarrow> 'a run" where
  "load a = (case a of None \<Rightarrow> Inl (Anchor AccountNotInitialized) | Some x \<Rightarrow> Inr x)"

lemma load_simps [simp]: "load None = Inl (Anchor AccountNotInitialized)" "load (Some x) = Inr x"
  by (simp_all add: load_def)

lemma load_Inr: "load a = Inr x \<longleftrightarrow> a = Some x"
  by (cases a) simp_all

definition seeds_match :: "bool \<Rightarrow> unit run" where
  "seeds_match c = (if c then Inr () else Inl (Anchor ConstraintSeeds))"

lemma seeds_match_simps [simp]:
  "seeds_match True = Inr ()" "seeds_match False = Inl (Anchor ConstraintSeeds)"
  by (simp_all add: seeds_match_def)

lemma seeds_match_Inr: "seeds_match c = Inr u \<longleftrightarrow> c"
  by (simp add: seeds_match_def)

text \<open>What a successful handler went through, step by step.\<close>

lemmas run_success = run_bind_Inr of_chain_Inr of_outcome_Inr demand_Inr load_Inr seeds_match_Inr

section \<open>The ledger\<close>

record token_account =
  tok_mint :: pubkey
  tok_owner :: pubkey
  tok_amount :: "64 word"

type_synonym tokens = "pubkey \<Rightarrow> token_account option"
type_synonym lamports = "pubkey \<Rightarrow> 64 word"

text \<open>The accounts of the program; then the token accounts, the mints (their decimals), the lamports of
  every address, and the data of the accounts the program takes unchecked.\<close>

record ledger =
  lg_protocol :: "ProtocolStateAccount option"
  lg_pools :: "pubkey \<Rightarrow> LendingPool option"
  lg_feeds :: "byte \<Rightarrow> AdminPriceFeed option"
  lg_vaults :: "pubkey \<Rightarrow> VaultState option"
  lg_risks :: "pubkey \<Rightarrow> RiskStateAccount option"
  lg_positions :: "pubkey \<Rightarrow> BorrowPosition option"
  lg_btc_vaults :: "pubkey \<Rightarrow> BtcVaultState option"
  lg_attestations :: "pubkey \<Rightarrow> BitcoinBalanceAttestation option"
  lg_btc_positions :: "pubkey \<Rightarrow> BorrowPosition option"
  lg_tokens :: tokens
  lg_mints :: "pubkey \<Rightarrow> byte option"
  lg_lamports :: lamports
  lg_data :: "pubkey \<Rightarrow> bytes"

text \<open>\<open>Clock::get\<close>.\<close>

record clock =
  clock_slot :: "64 word"
  clock_unix_timestamp :: "64 word"

text \<open>
  The programs a handler calls and the services of the runtime: the derivation of an address and its
  bump, the transfer of the SPL token program (from, to, authority, amount), the creation of an account
  by the system program (payer, address, size), Anchor's \<open>close\<close> (account, destination),
  \<open>Rent::minimum_balance\<close>, and Ika's \<open>approve_message\<close> (approval account, dWallet account, payer, the two
  digests, the user key, the signature scheme, the bump), which writes the approval account.
\<close>

record chain_env =
  env_pda :: "bytes list \<Rightarrow> pubkey \<times> byte"
  env_token_transfer :: "tokens \<Rightarrow> pubkey \<Rightarrow> pubkey \<Rightarrow> pubkey \<Rightarrow> 64 word \<Rightarrow> tokens option"
  env_create_account :: "lamports \<Rightarrow> pubkey \<Rightarrow> pubkey \<Rightarrow> nat \<Rightarrow> lamports option"
  env_close_account :: "lamports \<Rightarrow> pubkey \<Rightarrow> pubkey \<Rightarrow> lamports"
  env_minimum_balance :: "nat \<Rightarrow> 64 word"
  env_approve_message :: "(pubkey \<Rightarrow> bytes) \<Rightarrow> pubkey \<Rightarrow> pubkey \<Rightarrow> pubkey \<Rightarrow> bytes \<Rightarrow> bytes \<Rightarrow> bytes
    \<Rightarrow> 16 word \<Rightarrow> byte \<Rightarrow> (pubkey \<Rightarrow> bytes) option"

text \<open>The addresses of the program's accounts, as the \<open>seeds\<close> of the structs give them.\<close>

definition lending_pool_pda :: "chain_env \<Rightarrow> pubkey \<Rightarrow> pubkey \<times> byte" where
  "lending_pool_pda E mint = env_pda E [LENDING_POOL_PDA_SEED, to_buffer mint]"

definition price_feed_pda :: "chain_env \<Rightarrow> byte \<Rightarrow> pubkey \<times> byte" where
  "price_feed_pda E asset_type = env_pda E [ADMIN_PRICE_FEED_PDA_SEED, [asset_type]]"

definition borrow_position_pda :: "chain_env \<Rightarrow> pubkey \<Rightarrow> pubkey \<times> byte" where
  "borrow_position_pda E vault = env_pda E [BORROW_POSITION_PDA_SEED, to_buffer vault]"

definition vault_pda :: "chain_env \<Rightarrow> pubkey \<Rightarrow> bytes \<Rightarrow> pubkey \<times> byte" where
  "vault_pda E owner dwallet_id = env_pda E [VAULT_PDA_SEED, to_buffer owner, dwallet_id]"

definition protocol_state_pda :: "chain_env \<Rightarrow> pubkey \<times> byte" where
  "protocol_state_pda E = env_pda E [PROTOCOL_STATE_PDA_SEED]"

definition risk_state_pda :: "chain_env \<Rightarrow> pubkey \<Rightarrow> pubkey \<times> byte" where
  "risk_state_pda E vault = env_pda E [RISK_STATE_PDA_SEED, to_buffer vault]"

definition btc_vault_pda :: "chain_env \<Rightarrow> pubkey \<Rightarrow> pubkey \<Rightarrow> pubkey \<times> byte" where
  "btc_vault_pda E owner ika_dwallet =
     env_pda E [BTC_VAULT_PDA_SEED, to_buffer owner, to_buffer ika_dwallet]"

definition btc_attestation_pda :: "chain_env \<Rightarrow> pubkey \<Rightarrow> pubkey \<times> byte" where
  "btc_attestation_pda E btc_vault = env_pda E [BTC_ATTESTATION_PDA_SEED, to_buffer btc_vault]"

definition btc_borrow_position_pda :: "chain_env \<Rightarrow> pubkey \<Rightarrow> pubkey \<times> byte" where
  "btc_borrow_position_pda E btc_vault = env_pda E [BTC_BORROW_POSITION_PDA_SEED, to_buffer btc_vault]"

section \<open>What the handlers share\<close>

text \<open>The \<open>init\<close> constraint: no account there yet, and the payer funds it.\<close>

definition init_account :: "chain_env \<Rightarrow> pubkey \<Rightarrow> pubkey \<Rightarrow> nat \<Rightarrow> bool \<Rightarrow> lamports \<Rightarrow> lamports run" where
  "init_account E payer address space in_use lams =
     (if in_use then Inl (Anchor AccountAlreadyInUse)
      else case env_create_account E lams payer address space of
          None \<Rightarrow> Inl SystemProgramError
        | Some lams' \<Rightarrow> Inr lams')"

lemma init_account_Inr:
  "init_account E payer address space in_use lams = Inr lams'
     \<longleftrightarrow> \<not> in_use \<and> env_create_account E lams payer address space = Some lams'"
  by (simp add: init_account_def split: option.splits)

definition token_transfer ::
    "chain_env \<Rightarrow> tokens \<Rightarrow> pubkey \<Rightarrow> pubkey \<Rightarrow> pubkey \<Rightarrow> 64 word \<Rightarrow> tokens run" where
  "token_transfer E toks from_key to_key authority amount =
     (case env_token_transfer E toks from_key to_key authority amount of
        None \<Rightarrow> Inl TokenProgramError
      | Some toks' \<Rightarrow> Inr toks')"

lemma token_transfer_Inr:
  "token_transfer E toks f t a n = Inr toks' \<longleftrightarrow> env_token_transfer E toks f t a n = Some toks'"
  by (simp add: token_transfer_def split: option.splits)

lemmas run_success_env = run_success init_account_Inr token_transfer_Inr

text \<open>\<open>now.checked_sub(then).ok_or(InvalidTimestamp)?\<close>, and \<open>now - then\<close>, which panics.\<close>

definition checked_age :: "64 word \<Rightarrow> 64 word \<Rightarrow> int run" where
  "checked_age now past =
     (if in_i64 (sint now - sint past) then Inr (sint now - sint past)
      else Inl (Custom InvalidTimestamp))"

lemma checked_age_Inr:
  "checked_age now past = Inr a \<longleftrightarrow> in_i64 (sint now - sint past) \<and> a = sint now - sint past"
  by (auto simp: checked_age_def)

definition plain_age :: "64 word \<Rightarrow> 64 word \<Rightarrow> int run" where
  "plain_age now past =
     (if in_i64 (sint now - sint past) then Inr (sint now - sint past) else Inl ArithmeticPanic)"

lemma plain_age_Inr:
  "plain_age now past = Inr a \<longleftrightarrow> in_i64 (sint now - sint past) \<and> a = sint now - sint past"
  by (auto simp: plain_age_def)

section \<open>Interest accrual\<close>

definition chain_SLOTS_PER_YEAR :: "128 word" where "chain_SLOTS_PER_YEAR = 78840000"

definition accrue_interest :: "LendingPool \<Rightarrow> 64 word \<Rightarrow> LendingPool chain" where
  "accrue_interest pool now_slot =
     (if now_slot \<le> pool_last_update_slot pool then Inr pool
      else if pool_total_borrowed pool = 0 \<or> pool_total_liquidity pool = 0
      then Inr (pool\<lparr>pool_last_update_slot := now_slot\<rparr>)
      else
        let elapsed = u128 (now_slot - pool_last_update_slot pool) in
        chain_bind (checked_mul (u128 (pool_total_borrowed pool)) (pool_borrow_index pool)) (\<lambda>a.
        chain_bind (checked_div a LendingPool_RAY) (\<lambda>current_total_debt.
        chain_bind (checked_mul current_total_debt (u128 BASIS_POINTS_DENOMINATOR)) (\<lambda>b.
        chain_bind (checked_div b (u128 (pool_total_liquidity pool))) (\<lambda>c.
        let util_bps = min c (u128 BASIS_POINTS_DENOMINATOR) in
        chain_bind (checked_mul (u128 (pool_rate_slope_bps pool)) util_bps) (\<lambda>d.
        chain_bind (checked_div d (u128 BASIS_POINTS_DENOMINATOR)) (\<lambda>slope.
        chain_bind (checked_add (u128 (pool_base_rate_bps pool)) slope) (\<lambda>annual_rate_bps.
        chain_bind (checked_mul (pool_borrow_index pool) annual_rate_bps) (\<lambda>f.
        chain_bind (checked_mul f elapsed) (\<lambda>g.
        chain_bind (checked_mul chain_SLOTS_PER_YEAR (u128 BASIS_POINTS_DENOMINATOR)) (\<lambda>year.
        chain_bind (checked_div g year) (\<lambda>delta_index.
        chain_bind (checked_add (pool_borrow_index pool) delta_index) (\<lambda>borrow_index.
        Inr (pool\<lparr>pool_borrow_index := borrow_index,
               pool_last_update_slot := now_slot\<rparr>))))))))))))))"

text \<open>Accrual touches only the index and the slot, and neither goes back.\<close>

lemma checked_add_ge: "checked_add a b = Inr c \<Longrightarrow> a \<le> c"
  by (auto simp: checked_add_def word_le_nat_alt unat_add_lem [THEN iffD1] split: if_splits)

lemma accrue_interest_cases:
  assumes "accrue_interest pool slot = Inr pool'"
  obtains index last where
    "pool' = pool\<lparr>pool_borrow_index := index, pool_last_update_slot := last\<rparr>"
    "pool_borrow_index pool \<le> index" "pool_last_update_slot pool \<le> last" "slot \<le> last"
proof -
  have "\<exists>index last. pool' = pool\<lparr>pool_borrow_index := index, pool_last_update_slot := last\<rparr>
      \<and> pool_borrow_index pool \<le> index \<and> pool_last_update_slot pool \<le> last \<and> slot \<le> last"
  proof (cases "slot \<le> pool_last_update_slot pool")
    case True
    then have "pool' = pool" using assms by (simp add: accrue_interest_def)
    then show ?thesis using True
      by (intro exI [of _ "pool_borrow_index pool"] exI [of _ "pool_last_update_slot pool"]) simp
  next
    case later: False
    show ?thesis
    proof (cases "pool_total_borrowed pool = 0 \<or> pool_total_liquidity pool = 0")
      case True
      then have "pool' = pool\<lparr>pool_last_update_slot := slot\<rparr>"
        using assms later by (auto simp: accrue_interest_def)
      then show ?thesis using later
        by (intro exI [of _ "pool_borrow_index pool"] exI [of _ slot]) simp
    next
      case False
      then obtain delta index where "checked_add (pool_borrow_index pool) delta = Inr index"
        and "pool' = pool\<lparr>pool_borrow_index := index, pool_last_update_slot := slot\<rparr>"
        using assms later by (auto simp: accrue_interest_def chain_bind_eq_Inr Let_def)
      then show ?thesis using later
        by (intro exI [of _ index] exI [of _ slot]) (simp add: checked_add_ge)
    qed
  qed
  then show ?thesis using that by blast
qed

section \<open>Sums over the accounts of a kind\<close>

definition total :: "('a \<Rightarrow> nat) \<Rightarrow> ('k::finite \<Rightarrow> 'a option) \<Rightarrow> nat" where
  "total f m = (\<Sum>k\<in>UNIV. case m k of None \<Rightarrow> 0 | Some x \<Rightarrow> f x)"

lemma total_empty [simp]: "total f (\<lambda>_. None) = 0"
  by (simp add: total_def)

lemma total_split: "total f m = (case m k of None \<Rightarrow> 0 | Some x \<Rightarrow> f x)
    + (\<Sum>j\<in>UNIV - {k}. case m j of None \<Rightarrow> 0 | Some x \<Rightarrow> f x)"
  unfolding total_def by (rule sum.remove) simp_all

lemma total_update:
  "total f (m(k := v)) + (case m k of None \<Rightarrow> 0 | Some x \<Rightarrow> f x)
     = total f m + (case v of None \<Rightarrow> 0 | Some x \<Rightarrow> f x)"
proof -
  have "(\<Sum>j\<in>UNIV - {k}. case (m(k := v)) j of None \<Rightarrow> 0 | Some x \<Rightarrow> f x)
      = (\<Sum>j\<in>UNIV - {k}. case m j of None \<Rightarrow> 0 | Some x \<Rightarrow> f x)"
    by (rule sum.cong) simp_all
  then show ?thesis
    using total_split [of f m k] total_split [of f "m(k := v)" k] by simp
qed

lemma total_insert: "m k = None \<Longrightarrow> total f (m(k \<mapsto> x)) = total f m + f x"
  using total_update [of f m k "Some x"] by simp

lemma total_replace: "m k = Some y \<Longrightarrow> total f (m(k \<mapsto> x)) + f y = total f m + f x"
  using total_update [of f m k "Some x"] by simp

lemma total_delete: "m k = Some y \<Longrightarrow> total f (m(k := None)) + f y = total f m"
  using total_update [of f m k None] by simp

lemma total_member: "m k = Some y \<Longrightarrow> f y \<le> total f m"
  using total_delete [of m k y f] by simp

end
