(* ===== verification/Chain_Lending.thy ===== *)
theory Chain_Lending
  imports Chain_Ledger Lending_Math
begin

text \<open>
  The handlers of \<open>contracts/src/instructions/lending.rs\<close>: the pool and its price feeds, borrowing
  against a vault, repaying, liquidating. Each loads the accounts of its struct in order, checks their
  constraints in order, and runs the body; what it emits as events or log lines is left out.
\<close>

section \<open>Pool and price feeds\<close>

definition initialize_lending_pool ::
    "chain_env \<Rightarrow> clock \<Rightarrow> pubkey \<Rightarrow> pubkey \<Rightarrow> pubkey \<Rightarrow> byte \<Rightarrow> 64 word \<Rightarrow> 64 word \<Rightarrow> 16 word \<Rightarrow> 16 word
      \<Rightarrow> 16 word \<Rightarrow> 16 word \<Rightarrow> 16 word \<Rightarrow> ledger \<Rightarrow> ledger run" where
  "initialize_lending_pool E now mint vault_key admin asset_type initial_liquidity initial_price_usd
       ltv_basis_points liquidation_threshold_bps liquidation_bonus_bps base_rate_bps rate_slope_bps L =
     run_bind (load (lg_mints L mint)) (\<lambda>decimals.
     run_bind (load (lg_tokens L vault_key)) (\<lambda>pool_vault.
     run_bind (init_account E admin (fst (lending_pool_pda E mint)) LendingPool_LEN
       (lg_pools L mint \<noteq> None) (lg_lamports L)) (\<lambda>lams.
     run_bind (init_account E admin (fst (price_feed_pda E asset_type)) AdminPriceFeed_LEN
       (lg_feeds L asset_type \<noteq> None) lams) (\<lambda>lams.
     run_bind (demand (tok_mint pool_vault = mint) BorrowAssetMintMismatch) (\<lambda>_.
     run_bind (demand (tok_owner pool_vault = fst (lending_pool_pda E mint))
       TokenAccountOwnerMismatch) (\<lambda>_.
     run_bind (demand (initial_liquidity > 0) InvalidLendingPoolParameter) (\<lambda>_.
     run_bind (demand (initial_price_usd > 0) InvalidLendingPoolParameter) (\<lambda>_.
     run_bind (of_chain (validate_asset_type asset_type)) (\<lambda>_.
     run_bind (of_chain (validate_bps ltv_basis_points liquidation_threshold_bps
       liquidation_bonus_bps)) (\<lambda>_.
     run_bind (demand (tok_amount pool_vault \<ge> initial_liquidity) InsufficientPoolLiquidity) (\<lambda>_.
     Inr (L\<lparr>lg_lamports := lams,
       lg_pools := (lg_pools L)(mint \<mapsto> \<lparr>
         pool_borrow_asset = mint, pool_borrow_asset_mint = mint, pool_token_vault = vault_key,
         pool_total_liquidity = initial_liquidity, pool_total_borrowed = 0, pool_admin = admin,
         pool_ltv_basis_points = ltv_basis_points,
         pool_liquidation_threshold_bps = liquidation_threshold_bps,
         pool_liquidation_bonus_bps = liquidation_bonus_bps, pool_mint_decimals = decimals,
         pool_borrow_index = LendingPool_RAY, pool_last_update_slot = clock_slot now,
         pool_base_rate_bps = base_rate_bps, pool_rate_slope_bps = rate_slope_bps,
         pool_bump = snd (lending_pool_pda E mint)\<rparr>),
       lg_feeds := (lg_feeds L)(asset_type \<mapsto> \<lparr>
         feed_asset_type = asset_type, feed_price_usd = initial_price_usd,
         feed_updated_at = clock_unix_timestamp now, feed_admin = admin,
         feed_bump = snd (price_feed_pda E asset_type)\<rparr>)\<rparr>))))))))))))"

definition initialize_admin_price_feed ::
    "chain_env \<Rightarrow> clock \<Rightarrow> pubkey \<Rightarrow> byte \<Rightarrow> 64 word \<Rightarrow> ledger \<Rightarrow> ledger run" where
  "initialize_admin_price_feed E now admin asset_type initial_price_usd L =
     run_bind (init_account E admin (fst (price_feed_pda E asset_type)) AdminPriceFeed_LEN
       (lg_feeds L asset_type \<noteq> None) (lg_lamports L)) (\<lambda>lams.
     run_bind (demand (initial_price_usd > 0) InvalidLendingPoolParameter) (\<lambda>_.
     run_bind (of_chain (validate_asset_type asset_type)) (\<lambda>_.
     Inr (L\<lparr>lg_lamports := lams, lg_feeds := (lg_feeds L)(asset_type \<mapsto> \<lparr>
         feed_asset_type = asset_type, feed_price_usd = initial_price_usd,
         feed_updated_at = clock_unix_timestamp now, feed_admin = admin,
         feed_bump = snd (price_feed_pda E asset_type)\<rparr>)\<rparr>))))"

text \<open>The address seeds of both operations on an existing feed name the asset type stored in it.\<close>

definition close_admin_price_feed :: "chain_env \<Rightarrow> pubkey \<Rightarrow> byte \<Rightarrow> ledger \<Rightarrow> ledger run" where
  "close_admin_price_feed E admin asset_type L =
     run_bind (load (lg_feeds L asset_type)) (\<lambda>price_feed.
     run_bind (seeds_match (feed_asset_type price_feed = asset_type)) (\<lambda>_.
     run_bind (demand (feed_admin price_feed = admin) UnauthorizedCaller) (\<lambda>_.
     Inr (L\<lparr>lg_feeds := (lg_feeds L)(asset_type := None),
       lg_lamports := env_close_account E (lg_lamports L) (fst (price_feed_pda E asset_type)) admin\<rparr>))))"

definition update_admin_price :: "clock \<Rightarrow> pubkey \<Rightarrow> byte \<Rightarrow> 64 word \<Rightarrow> ledger \<Rightarrow> ledger run" where
  "update_admin_price now admin asset_type new_price_usd L =
     run_bind (load (lg_feeds L asset_type)) (\<lambda>price_feed.
     run_bind (seeds_match (feed_asset_type price_feed = asset_type)) (\<lambda>_.
     run_bind (demand (feed_admin price_feed = admin) UnauthorizedCaller) (\<lambda>_.
     run_bind (demand (new_price_usd > 0) InvalidLendingPoolParameter) (\<lambda>_.
     Inr (L\<lparr>lg_feeds := (lg_feeds L)(asset_type \<mapsto> price_feed\<lparr>feed_price_usd := new_price_usd,
       feed_updated_at := clock_unix_timestamp now\<rparr>)\<rparr>)))))"

section \<open>Borrowing\<close>

definition borrow_against_collateral ::
    "chain_env \<Rightarrow> clock \<Rightarrow> pubkey \<Rightarrow> pubkey \<Rightarrow> pubkey \<Rightarrow> pubkey \<Rightarrow> pubkey \<Rightarrow> 64 word \<Rightarrow> pubkey
      \<Rightarrow> ledger \<Rightarrow> ledger run" where
  "borrow_against_collateral E c vault_key mint pool_token_key borrower_key owner amount
       health_ciphertext L =
     run_bind (load (lg_vaults L vault_key)) (\<lambda>vault.
     run_bind (load (lg_protocol L)) (\<lambda>protocol.
     run_bind (load (lg_pools L mint)) (\<lambda>pool.
     run_bind (load (lg_feeds L (vault_asset_type vault))) (\<lambda>price_feed.
     run_bind (load (lg_tokens L pool_token_key)) (\<lambda>pool_tokens.
     run_bind (load (lg_tokens L borrower_key)) (\<lambda>borrower_tokens.
     run_bind (init_account E owner (fst (borrow_position_pda E vault_key)) BorrowPosition_LEN
       (lg_positions L vault_key \<noteq> None) (lg_lamports L)) (\<lambda>lams.
     run_bind (demand (vault_owner vault = owner) UnauthorizedCaller) (\<lambda>_.
     run_bind (seeds_match (pool_borrow_asset_mint pool = mint)) (\<lambda>_.
     run_bind (demand (pool_token_key = pool_token_vault pool) PoolTokenVaultMismatch) (\<lambda>_.
     run_bind (demand (tok_mint borrower_tokens = pool_borrow_asset_mint pool)
       BorrowAssetMintMismatch) (\<lambda>_.
     run_bind (demand (tok_owner borrower_tokens = owner) TokenAccountOwnerMismatch) (\<lambda>_.
     run_bind (demand (amount > 0) InvalidBorrowAmount) (\<lambda>_.
     run_bind (demand (\<not> proto_frozen protocol) ProtocolFrozen) (\<lambda>_.
     run_bind (demand (\<not> vault_frozen vault) VaultFrozen) (\<lambda>_.
     run_bind (demand (vault_proof_status vault = PROOF_STATUS_VERIFIED) VaultNotVerified) (\<lambda>_.
     run_bind (demand (vault_deposited_amount vault > 0) InsufficientCollateral) (\<lambda>_.
     let now = clock_unix_timestamp c in
     run_bind (checked_age now (vault_proof_timestamp vault)) (\<lambda>proof_age.
     run_bind (demand (proof_age \<le> PROOF_EXPIRY_SECONDS) ProofExpired) (\<lambda>_.
     run_bind (checked_age now (feed_updated_at price_feed)) (\<lambda>price_age.
     run_bind (demand (price_age \<le> PRICE_STALENESS_SECONDS) PriceFeedStale) (\<lambda>_.
     run_bind (of_chain (calculate_max_borrow (vault_deposited_amount vault)
       (feed_price_usd price_feed) (pool_ltv_basis_points pool))) (\<lambda>max_borrow.
     run_bind (demand (amount \<le> max_borrow) BorrowExceedsCollateralLtv) (\<lambda>_.
     run_bind (of_chain (accrue_interest pool (clock_slot c))) (\<lambda>pool.
     run_bind (of_chain (current_debt (pool_total_borrowed pool) (pool_borrow_index pool)))
       (\<lambda>current_total_debt.
     run_bind (of_chain (checked_sub (pool_total_liquidity pool) current_total_debt)) (\<lambda>available.
     run_bind (demand (amount \<le> available) InsufficientPoolLiquidity) (\<lambda>_.
     run_bind (of_chain (to_scaled amount (pool_borrow_index pool))) (\<lambda>scaled.
     run_bind (of_chain (checked_add (pool_total_borrowed pool) scaled)) (\<lambda>total_borrowed.
     let pool = pool\<lparr>pool_total_borrowed := total_borrowed\<rparr> in
     run_bind (token_transfer E (lg_tokens L) pool_token_key borrower_key
       (fst (lending_pool_pda E mint)) amount) (\<lambda>toks.
     Inr (L\<lparr>lg_lamports := lams, lg_tokens := toks, lg_pools := (lg_pools L)(mint \<mapsto> pool),
       lg_positions := (lg_positions L)(vault_key \<mapsto> \<lparr>
         pos_vault = vault_key, pos_owner = owner, pos_borrow_asset = pool_borrow_asset_mint pool,
         pos_principal = scaled, pos_borrowed_at = now, pos_last_updated_at = now,
         pos_borrow_index_snapshot = pool_borrow_index pool,
         pos_health_ciphertext = health_ciphertext,
         pos_bump = snd (borrow_position_pda E vault_key)\<rparr>)\<rparr>)))))))))))))))))))))))))))))))"

section \<open>Repaying\<close>

definition repay_borrow ::
    "chain_env \<Rightarrow> clock \<Rightarrow> pubkey \<Rightarrow> pubkey \<Rightarrow> pubkey \<Rightarrow> pubkey \<Rightarrow> pubkey \<Rightarrow> 64 word
      \<Rightarrow> ledger \<Rightarrow> ledger run" where
  "repay_borrow E c vault_key mint pool_token_key borrower_key owner amount L =
     run_bind (load (lg_vaults L vault_key)) (\<lambda>vault.
     run_bind (load (lg_pools L mint)) (\<lambda>pool.
     run_bind (load (lg_positions L vault_key)) (\<lambda>position.
     run_bind (load (lg_tokens L pool_token_key)) (\<lambda>pool_tokens.
     run_bind (load (lg_tokens L borrower_key)) (\<lambda>borrower_tokens.
     run_bind (demand (vault_owner vault = owner) UnauthorizedCaller) (\<lambda>_.
     run_bind (seeds_match (pool_borrow_asset_mint pool = mint)) (\<lambda>_.
     run_bind (demand (pos_vault position = vault_key) UnauthorizedCaller) (\<lambda>_.
     run_bind (demand (pos_owner position = owner) UnauthorizedCaller) (\<lambda>_.
     run_bind (demand (pool_token_key = pool_token_vault pool) PoolTokenVaultMismatch) (\<lambda>_.
     run_bind (demand (tok_mint borrower_tokens = pool_borrow_asset_mint pool)
       BorrowAssetMintMismatch) (\<lambda>_.
     run_bind (demand (tok_owner borrower_tokens = owner) TokenAccountOwnerMismatch) (\<lambda>_.
     run_bind (demand (amount > 0) InvalidRepayAmount) (\<lambda>_.
     run_bind (of_chain (accrue_interest pool (clock_slot c))) (\<lambda>pool.
     run_bind (of_chain (current_debt (pos_principal position) (pool_borrow_index pool)))
       (\<lambda>outstanding_raw.
     run_bind (demand (outstanding_raw > 0) NoOutstandingDebt) (\<lambda>_.
     let actual_amount = min amount outstanding_raw in
     run_bind (demand (actual_amount > 0) InvalidRepayAmount) (\<lambda>_.
     run_bind (if actual_amount = outstanding_raw then Inr (pos_principal position)
       else run_bind (of_chain (to_scaled actual_amount (pool_borrow_index pool)))
         (\<lambda>s. Inr (min s (pos_principal position)))) (\<lambda>scaled_repay.
     run_bind (token_transfer E (lg_tokens L) borrower_key pool_token_key owner actual_amount) (\<lambda>toks.
     run_bind (of_chain (checked_sub (pos_principal position) scaled_repay)) (\<lambda>remaining_principal.
     run_bind (of_chain (checked_sub (pool_total_borrowed pool) scaled_repay)) (\<lambda>total_borrowed.
     let position = position\<lparr>pos_principal := remaining_principal,
           pos_last_updated_at := clock_unix_timestamp c,
           pos_borrow_index_snapshot := pool_borrow_index pool\<rparr>;
         L = L\<lparr>lg_tokens := toks,
           lg_pools := (lg_pools L)(mint \<mapsto> pool\<lparr>pool_total_borrowed := total_borrowed\<rparr>)\<rparr> in
     Inr (if remaining_principal = 0
       then L\<lparr>lg_positions := (lg_positions L)(vault_key := None),
              lg_lamports := env_close_account E (lg_lamports L)
                (fst (borrow_position_pda E vault_key)) owner\<rparr>
       else L\<lparr>lg_positions := (lg_positions L)(vault_key \<mapsto> position)\<rparr>))))))))))))))))))))))"

section \<open>Liquidating\<close>

definition liquidate_position ::
    "chain_env \<Rightarrow> clock \<Rightarrow> pubkey \<Rightarrow> pubkey \<Rightarrow> pubkey \<Rightarrow> pubkey \<Rightarrow> pubkey \<Rightarrow> ledger \<Rightarrow> ledger run" where
  "liquidate_position E c vault_key mint pool_token_key liquidator_key liquidator L =
     run_bind (load (lg_vaults L vault_key)) (\<lambda>vault.
     run_bind (load (lg_protocol L)) (\<lambda>protocol.
     run_bind (load (lg_pools L mint)) (\<lambda>pool.
     run_bind (load (lg_feeds L (vault_asset_type vault))) (\<lambda>price_feed.
     run_bind (load (lg_positions L vault_key)) (\<lambda>position.
     run_bind (load (lg_tokens L pool_token_key)) (\<lambda>pool_tokens.
     run_bind (load (lg_tokens L liquidator_key)) (\<lambda>liquidator_tokens.
     run_bind (seeds_match (pool_borrow_asset_mint pool = mint)) (\<lambda>_.
     run_bind (demand (pool_token_key = pool_token_vault pool) PoolTokenVaultMismatch) (\<lambda>_.
     run_bind (demand (tok_mint liquidator_tokens = pool_borrow_asset_mint pool)
       BorrowAssetMintMismatch) (\<lambda>_.
     run_bind (demand (tok_owner liquidator_tokens = liquidator) TokenAccountOwnerMismatch) (\<lambda>_.
     run_bind (of_chain (accrue_interest pool (clock_slot c))) (\<lambda>pool.
     run_bind (demand (\<not> proto_frozen protocol) ProtocolFrozen) (\<lambda>_.
     run_bind (demand (pos_principal position > 0) NoOutstandingDebt) (\<lambda>_.
     run_bind (demand (pos_owner position \<noteq> liquidator) SelfLiquidation) (\<lambda>_.
     run_bind (checked_age (clock_unix_timestamp c) (feed_updated_at price_feed)) (\<lambda>price_age.
     run_bind (demand (price_age \<le> PRICE_STALENESS_SECONDS) PriceFeedStale) (\<lambda>_.
     run_bind (of_chain (current_debt (pos_principal position) (pool_borrow_index pool)))
       (\<lambda>outstanding_raw.
     run_bind (of_chain (is_liquidatable (vault_deposited_amount vault) (feed_price_usd price_feed)
       outstanding_raw (pool_liquidation_threshold_bps pool))) (\<lambda>unhealthy.
     run_bind (demand unhealthy PositionHealthy) (\<lambda>_.
     let scaled_to_close = pos_principal position in
     run_bind (token_transfer E (lg_tokens L) liquidator_key pool_token_key liquidator
       outstanding_raw) (\<lambda>toks.
     run_bind (of_chain (collateral_with_bonus (vault_deposited_amount vault)
       (pool_liquidation_bonus_bps pool))) (\<lambda>seizable_lamports.
     let vault_lamports = lg_lamports L vault_key;
         rent_exempt_min = env_minimum_balance E VaultAccount_LEN;
         movable = (if rent_exempt_min \<le> vault_lamports then vault_lamports - rent_exempt_min else 0);
         seized = min seizable_lamports movable in
     run_bind (demand (seized > 0) InsufficientCollateralLamports) (\<lambda>_.
     run_bind (of_chain (checked_sub vault_lamports seized)) (\<lambda>vault_left.
     let lams = (lg_lamports L)(vault_key := vault_left) in
     run_bind (of_chain (checked_add (lams liquidator) seized)) (\<lambda>liquidator_has.
     let lams = lams(liquidator := liquidator_has) in
     run_bind (of_chain (checked_sub (pool_total_borrowed pool) scaled_to_close)) (\<lambda>total_borrowed.
     run_bind (of_chain (checked_sub (vault_deposited_amount vault) seized)) (\<lambda>deposited_amount.
     Inr (L\<lparr>lg_tokens := toks,
       lg_lamports := env_close_account E lams (fst (borrow_position_pda E vault_key)) liquidator,
       lg_pools := (lg_pools L)(mint \<mapsto> pool\<lparr>pool_total_borrowed := total_borrowed\<rparr>),
       lg_positions := (lg_positions L)(vault_key := None),
       lg_vaults := (lg_vaults L)(vault_key \<mapsto> vault\<lparr>vault_deposited_amount := deposited_amount,
         vault_proof_status := PROOF_STATUS_PENDING\<rparr>)\<rparr>))))))))))))))))))))))))))))"

end
