(* ===== verification/Chain_Vaults.thy ===== *)
theory Chain_Vaults
  imports Chain_Ledger
begin

text \<open>
  The vault side of the program: the handlers of \<open>initialize_protocol.rs\<close>, \<open>register_vault.rs\<close>,
  \<open>verify_custody_proof.rs\<close> (on \<open>Approvals\<close>), \<open>approve_custody_signature.rs\<close>, \<open>deposit_collateral.rs\<close>,
  \<open>close_vault.rs\<close>, \<open>circuit_breaker.rs\<close>, \<open>initialize_risk_state.rs\<close>, \<open>update_backing_state.rs\<close>,
  \<open>trigger_risk_check.rs\<close> with the ciphertext reader of \<open>integrations/encrypt.rs\<close>, and
  \<open>demo_helpers.rs\<close>.
\<close>

section \<open>Protocol and vaults\<close>

definition initialize_protocol :: "chain_env \<Rightarrow> pubkey \<Rightarrow> ledger \<Rightarrow> ledger run" where
  "initialize_protocol E admin L =
     run_bind (init_account E admin (fst (protocol_state_pda E)) ProtocolStateAccount_LEN
       (lg_protocol L \<noteq> None) (lg_lamports L)) (\<lambda>lams.
     Inr (L\<lparr>lg_lamports := lams, lg_protocol := Some \<lparr>
       proto_admin = admin, proto_frozen = False, proto_total_vaults = 0, proto_total_verified = 0,
       proto_total_rejected = 0, proto_total_collateral_verified = 0,
       proto_bump = snd (protocol_state_pda E)\<rparr>\<rparr>))"

definition register_vault ::
    "chain_env \<Rightarrow> pubkey \<Rightarrow> bytes \<Rightarrow> byte \<Rightarrow> ledger \<Rightarrow> ledger run" where
  "register_vault E owner dwallet_id asset_type L =
     (let vault_key = fst (vault_pda E owner dwallet_id) in
     run_bind (load (lg_protocol L)) (\<lambda>protocol_state.
     run_bind (init_account E owner vault_key VaultAccount_LEN (lg_vaults L vault_key \<noteq> None)
       (lg_lamports L)) (\<lambda>lams.
     run_bind (demand (asset_type = 0 \<or> asset_type = 1 \<or> asset_type = 2) InvalidAssetType) (\<lambda>_.
     run_bind (of_chain (checked_add (proto_total_vaults protocol_state) 1)) (\<lambda>total_vaults.
     Inr (L\<lparr>lg_lamports := lams,
       lg_vaults := (lg_vaults L)(vault_key \<mapsto> \<lparr>
         vault_vault_id = vault_key, vault_owner = owner, vault_dwallet_id = dwallet_id,
         vault_asset_type = asset_type, vault_deposited_amount = 0,
         vault_proof_status = PROOF_STATUS_PENDING, vault_proof_timestamp = 0, vault_frozen = False,
         vault_bump = snd (vault_pda E owner dwallet_id)\<rparr>),
       lg_protocol := Some (protocol_state\<lparr>proto_total_vaults := total_vaults\<rparr>)\<rparr>))))))"

definition on_vault ::
    "(VaultState \<Rightarrow> VaultState run) \<Rightarrow> pubkey \<Rightarrow> ledger \<Rightarrow> ledger run" where
  "on_vault f vault_key L =
     run_bind (load (lg_vaults L vault_key)) (\<lambda>vault.
     run_bind (f vault) (\<lambda>vault.
     Inr (L\<lparr>lg_vaults := (lg_vaults L)(vault_key \<mapsto> vault)\<rparr>)))"

definition run_verify_custody_proof ::
    "clock \<Rightarrow> pubkey \<Rightarrow> pubkey \<Rightarrow> pubkey \<Rightarrow> bytes \<Rightarrow> ledger \<Rightarrow> ledger run" where
  "run_verify_custody_proof c vault_key approval_key signer expected_dwallet_id L =
     on_vault (\<lambda>vault. of_outcome (verify_custody_proof vault signer approval_key
       (lg_data L approval_key) expected_dwallet_id (sint (clock_unix_timestamp c)))) vault_key L"

definition run_refresh_custody_proof ::
    "clock \<Rightarrow> pubkey \<Rightarrow> pubkey \<Rightarrow> pubkey \<Rightarrow> bytes \<Rightarrow> ledger \<Rightarrow> ledger run" where
  "run_refresh_custody_proof c vault_key approval_key signer expected_dwallet_id L =
     on_vault (\<lambda>vault. of_outcome (refresh_custody_proof vault signer approval_key
       (lg_data L approval_key) expected_dwallet_id (sint (clock_unix_timestamp c)))) vault_key L"

definition approve_message ::
    "chain_env \<Rightarrow> (pubkey \<Rightarrow> bytes) \<Rightarrow> pubkey \<Rightarrow> pubkey \<Rightarrow> pubkey \<Rightarrow> bytes \<Rightarrow> bytes \<Rightarrow> bytes
      \<Rightarrow> 16 word \<Rightarrow> byte \<Rightarrow> (pubkey \<Rightarrow> bytes) run" where
  "approve_message E data approval_key dwallet payer message_digest metadata_digest user_pubkey
       signature_scheme bump =
     (case env_approve_message E data approval_key dwallet payer message_digest metadata_digest
        user_pubkey signature_scheme bump of
        None \<Rightarrow> Inl IkaProgramError
      | Some data' \<Rightarrow> Inr data')"

lemma approve_message_Inr:
  "approve_message E data k d p m md u s b = Inr data'
     \<longleftrightarrow> env_approve_message E data k d p m md u s b = Some data'"
  by (simp add: approve_message_def split: option.splits)

text \<open>The handler neither reads the vault's dWallet nor compares it with the one it is given.\<close>

definition approve_custody_signature ::
    "chain_env \<Rightarrow> pubkey \<Rightarrow> pubkey \<Rightarrow> pubkey \<Rightarrow> pubkey \<Rightarrow> bytes \<Rightarrow> bytes \<Rightarrow> bytes \<Rightarrow> 16 word \<Rightarrow> byte
      \<Rightarrow> ledger \<Rightarrow> ledger run" where
  "approve_custody_signature E vault_key dwallet approval_key owner message_digest
       message_metadata_digest user_pubkey signature_scheme message_approval_bump L =
     run_bind (load (lg_vaults L vault_key)) (\<lambda>vault.
     run_bind (demand (vault_owner vault = owner) UnauthorizedCaller) (\<lambda>_.
     run_bind (approve_message E (lg_data L) approval_key dwallet owner message_digest
       message_metadata_digest user_pubkey signature_scheme message_approval_bump) (\<lambda>data.
     Inr (L\<lparr>lg_data := data\<rparr>))))"

section \<open>Deposits and withdrawals\<close>

definition deposit_collateral :: "clock \<Rightarrow> pubkey \<Rightarrow> pubkey \<Rightarrow> 64 word \<Rightarrow> ledger \<Rightarrow> ledger run" where
  "deposit_collateral c vault_key depositor amount L =
     run_bind (load (lg_vaults L vault_key)) (\<lambda>vault.
     run_bind (load (lg_protocol L)) (\<lambda>protocol.
     run_bind (demand (vault_owner vault = depositor) UnauthorizedCaller) (\<lambda>_.
     run_bind (demand (vault_proof_status vault = PROOF_STATUS_VERIFIED) VaultNotVerified) (\<lambda>_.
     run_bind (demand (\<not> proto_frozen protocol) ProtocolFrozen) (\<lambda>_.
     run_bind (demand (\<not> vault_frozen vault) VaultFrozen) (\<lambda>_.
     run_bind (demand (amount > 0) InvalidDepositAmount) (\<lambda>_.
     run_bind (plain_age (clock_unix_timestamp c) (vault_proof_timestamp vault)) (\<lambda>time_since_proof.
     run_bind (demand (time_since_proof \<le> PROOF_EXPIRY_SECONDS) ProofExpired) (\<lambda>_.
     run_bind (of_chain (checked_add (vault_deposited_amount vault) amount)) (\<lambda>deposited.
     run_bind (of_chain (checked_add (proto_total_collateral_verified protocol) (u128 amount))) (\<lambda>tot.
     Inr (L\<lparr>lg_vaults := (lg_vaults L)(vault_key \<mapsto> vault\<lparr>vault_deposited_amount := deposited\<rparr>),
       lg_protocol := Some (protocol\<lparr>proto_total_collateral_verified := tot\<rparr>)\<rparr>))))))))))))"

definition withdraw_collateral :: "pubkey \<Rightarrow> pubkey \<Rightarrow> 64 word \<Rightarrow> ledger \<Rightarrow> ledger run" where
  "withdraw_collateral vault_key depositor amount L =
     run_bind (load (lg_vaults L vault_key)) (\<lambda>vault.
     run_bind (load (lg_protocol L)) (\<lambda>protocol.
     run_bind (demand (vault_owner vault = depositor) UnauthorizedCaller) (\<lambda>_.
     run_bind (demand (\<not> proto_frozen protocol) ProtocolFrozen) (\<lambda>_.
     run_bind (demand (amount > 0 \<and> amount \<le> vault_deposited_amount vault)
       InvalidWithdrawalAmount) (\<lambda>_.
     run_bind (of_chain (checked_sub (vault_deposited_amount vault) amount)) (\<lambda>deposited.
     run_bind (of_chain (checked_sub (proto_total_collateral_verified protocol) (u128 amount))) (\<lambda>tot.
     Inr (L\<lparr>lg_vaults := (lg_vaults L)(vault_key \<mapsto> vault\<lparr>vault_deposited_amount := deposited\<rparr>),
       lg_protocol := Some (protocol\<lparr>proto_total_collateral_verified := tot\<rparr>)\<rparr>))))))))"

definition reject_unverified_deposit :: "pubkey \<Rightarrow> pubkey \<Rightarrow> ledger \<Rightarrow> ledger run" where
  "reject_unverified_deposit vault_key depositor L =
     run_bind (load (lg_vaults L vault_key)) (\<lambda>vault.
     run_bind (load (lg_protocol L)) (\<lambda>protocol.
     run_bind (demand (proto_admin protocol = depositor) UnauthorizedCaller) (\<lambda>_.
     run_bind (of_chain (checked_add (proto_total_rejected protocol) 1)) (\<lambda>rejected.
     Inr (L\<lparr>lg_protocol := Some (protocol\<lparr>proto_total_rejected := rejected\<rparr>)\<rparr>)))))"

definition close_vault :: "chain_env \<Rightarrow> pubkey \<Rightarrow> pubkey \<Rightarrow> ledger \<Rightarrow> ledger run" where
  "close_vault E vault_key owner L =
     run_bind (load (lg_vaults L vault_key)) (\<lambda>vault.
     run_bind (demand (vault_owner vault = owner) UnauthorizedCaller) (\<lambda>_.
     run_bind (demand (vault_deposited_amount vault = 0) InvalidWithdrawalAmount) (\<lambda>_.
     Inr (L\<lparr>lg_vaults := (lg_vaults L)(vault_key := None),
       lg_lamports := env_close_account E (lg_lamports L) vault_key owner\<rparr>))))"

section \<open>The circuit breaker\<close>

definition circuit_breaker_freeze :: "pubkey \<Rightarrow> pubkey \<Rightarrow> ledger \<Rightarrow> ledger run" where
  "circuit_breaker_freeze vault_key caller L =
     run_bind (load (lg_vaults L vault_key)) (\<lambda>vault.
     run_bind (load (lg_protocol L)) (\<lambda>protocol_state.
     run_bind (demand (proto_admin protocol_state = caller) UnauthorizedCaller) (\<lambda>_.
     Inr (L\<lparr>lg_vaults := (lg_vaults L)(vault_key \<mapsto> vault\<lparr>vault_frozen := True\<rparr>),
       lg_protocol := Some (protocol_state\<lparr>proto_frozen := True\<rparr>)\<rparr>))))"

definition admin_unfreeze :: "pubkey \<Rightarrow> pubkey \<Rightarrow> ledger \<Rightarrow> ledger run" where
  "admin_unfreeze vault_key admin L =
     run_bind (load (lg_vaults L vault_key)) (\<lambda>vault.
     run_bind (load (lg_protocol L)) (\<lambda>protocol_state.
     run_bind (demand (proto_admin protocol_state = admin) UnauthorizedCaller) (\<lambda>_.
     Inr (L\<lparr>lg_vaults := (lg_vaults L)(vault_key \<mapsto> vault\<lparr>vault_frozen := False\<rparr>)\<rparr>))))"

text \<open>Any signer may call this one.\<close>

definition unfreeze_protocol_state :: "ledger \<Rightarrow> ledger run" where
  "unfreeze_protocol_state L =
     run_bind (load (lg_protocol L)) (\<lambda>protocol_state.
     Inr (L\<lparr>lg_protocol := Some (protocol_state\<lparr>proto_frozen := False\<rparr>)\<rparr>))"

section \<open>Risk checks\<close>

definition CT_DIGEST_OFFSET :: nat where "CT_DIGEST_OFFSET = 2"
definition CT_FHE_TYPE_OFFSET :: nat where "CT_FHE_TYPE_OFFSET = 98"
definition CT_STATUS_OFFSET :: nat where "CT_STATUS_OFFSET = 99"
definition CT_LEN :: nat where "CT_LEN = 100"
definition CT_STATUS_VERIFIED :: byte where "CT_STATUS_VERIFIED = 1"
definition FHE_TYPE_EBOOL :: byte where "FHE_TYPE_EBOOL = 1"

datatype ebool_source = RealEncrypt | DemoHelperCiphertext

definition looks_like_real_encrypt :: "bytes \<Rightarrow> bool" where
  "looks_like_real_encrypt data \<longleftrightarrow>
     (if length data < CT_LEN then False
      else data ! CT_FHE_TYPE_OFFSET = FHE_TYPE_EBOOL \<and> data ! CT_STATUS_OFFSET \<le> CT_STATUS_VERIFIED)"

definition read_real_encrypt_ebool :: "bytes \<Rightarrow> bool run" where
  "read_real_encrypt_ebool data =
     run_bind (demand (data ! CT_STATUS_OFFSET = CT_STATUS_VERIFIED) InvalidCiphertextAccount) (\<lambda>_.
     let digest = subarray data CT_DIGEST_OFFSET (CT_DIGEST_OFFSET + 32) in
     Inr (digest ! 0 \<noteq> 0))"

definition parse_ebool :: "pubkey \<Rightarrow> bytes \<Rightarrow> (bool \<times> ebool_source) run" where
  "parse_ebool key data =
     run_bind (demand (key \<noteq> PublicKey_default) InvalidCiphertextAccount) (\<lambda>_.
     run_bind (demand (data \<noteq> []) InvalidCiphertextAccount) (\<lambda>_.
     if looks_like_real_encrypt data
     then run_bind (read_real_encrypt_ebool data) (\<lambda>b. Inr (b, RealEncrypt))
     else Inr (data ! 0 \<noteq> 0, DemoHelperCiphertext)))"

definition read_mocked_ebool :: "pubkey \<Rightarrow> bytes \<Rightarrow> bool run" where
  "read_mocked_ebool key data = run_bind (parse_ebool key data) (\<lambda>(b, _). Inr b)"

definition initialize_risk_state ::
    "chain_env \<Rightarrow> pubkey \<Rightarrow> pubkey \<Rightarrow> pubkey \<Rightarrow> ledger \<Rightarrow> ledger run" where
  "initialize_risk_state E vault_key owner threshold_ciphertext L =
     run_bind (load (lg_vaults L vault_key)) (\<lambda>vault.
     run_bind (init_account E owner (fst (risk_state_pda E vault_key)) RiskStateAccount_LEN
       (lg_risks L vault_key \<noteq> None) (lg_lamports L)) (\<lambda>lams.
     run_bind (demand (vault_owner vault = owner) UnauthorizedCaller) (\<lambda>_.
     Inr (L\<lparr>lg_lamports := lams, lg_risks := (lg_risks L)(vault_key \<mapsto> \<lparr>
       risk_vault_id = vault_key, risk_backing_ciphertext = PublicKey_default,
       risk_threshold_ciphertext = threshold_ciphertext, risk_last_check_result = True,
       risk_last_check_timestamp = 0, risk_bump = snd (risk_state_pda E vault_key)\<rparr>)\<rparr>))))"

definition update_backing_state :: "pubkey \<Rightarrow> pubkey \<Rightarrow> pubkey \<Rightarrow> ledger \<Rightarrow> ledger run" where
  "update_backing_state vault_key backing_ciphertext oracle L =
     run_bind (load (lg_vaults L vault_key)) (\<lambda>vault.
     run_bind (load (lg_risks L vault_key)) (\<lambda>risk_state.
     run_bind (load (lg_protocol L)) (\<lambda>protocol_state.
     run_bind (demand (proto_admin protocol_state = oracle \<or> vault_owner vault = oracle)
       UnauthorizedCaller) (\<lambda>_.
     run_bind (demand (risk_vault_id risk_state = vault_key) VaultNotFound) (\<lambda>_.
     run_bind (demand (backing_ciphertext \<noteq> PublicKey_default) InvalidCiphertextAccount) (\<lambda>_.
     Inr (L\<lparr>lg_risks := (lg_risks L)(vault_key \<mapsto>
       risk_state\<lparr>risk_backing_ciphertext := backing_ciphertext\<rparr>)\<rparr>)))))))"

definition trigger_risk_check ::
    "clock \<Rightarrow> pubkey \<Rightarrow> pubkey \<Rightarrow> pubkey \<Rightarrow> pubkey \<Rightarrow> pubkey \<Rightarrow> ledger \<Rightarrow> ledger run" where
  "trigger_risk_check c vault_key backing_ciphertext threshold_ciphertext result_ciphertext payer L =
     run_bind (load (lg_vaults L vault_key)) (\<lambda>vault.
     run_bind (load (lg_risks L vault_key)) (\<lambda>risk_state.
     run_bind (load (lg_protocol L)) (\<lambda>protocol_state.
     run_bind (demand (risk_vault_id risk_state = vault_key) VaultNotFound) (\<lambda>_.
     run_bind (demand (proto_admin protocol_state = payer \<or> vault_owner vault = payer)
       UnauthorizedCaller) (\<lambda>_.
     run_bind (demand (backing_ciphertext \<noteq> PublicKey_default) InvalidCiphertextAccount) (\<lambda>_.
     run_bind (demand (threshold_ciphertext \<noteq> PublicKey_default) InvalidCiphertextAccount) (\<lambda>_.
     run_bind (demand (risk_backing_ciphertext risk_state = backing_ciphertext)
       InvalidCiphertextAccount) (\<lambda>_.
     run_bind (demand (risk_threshold_ciphertext risk_state = threshold_ciphertext)
       InvalidCiphertextAccount) (\<lambda>_.
     run_bind (read_mocked_ebool result_ciphertext (lg_data L result_ciphertext)) (\<lambda>is_safe.
     let L = (if is_safe then L
          else L\<lparr>lg_vaults := (lg_vaults L)(vault_key \<mapsto> vault\<lparr>vault_frozen := True\<rparr>),
                 lg_protocol := Some (protocol_state\<lparr>proto_frozen := True\<rparr>)\<rparr>) in
     Inr (L\<lparr>lg_risks := (lg_risks L)(vault_key \<mapsto> risk_state\<lparr>risk_last_check_result := is_safe,
       risk_last_check_timestamp := clock_unix_timestamp c\<rparr>)\<rparr>)))))))))))"

section \<open>Demo helpers\<close>

definition CIPHERTEXT_SIZE :: nat where "CIPHERTEXT_SIZE = 1"

text \<open>An account in use is one with data; \<open>init\<close> gives the new one zeroed bytes.\<close>

definition run_demo_create_message_approval ::
    "chain_env \<Rightarrow> clock \<Rightarrow> pubkey \<Rightarrow> bytes \<Rightarrow> bool \<Rightarrow> ledger \<Rightarrow> ledger run" where
  "run_demo_create_message_approval E c payer dwallet_id is_signed L =
     (let key = fst (env_pda E [DEMO_MESSAGE_APPROVAL_SEED, to_buffer payer, dwallet_id]) in
     run_bind (init_account E payer key MESSAGE_APPROVAL_SIZE (lg_data L key \<noteq> [])
       (lg_lamports L)) (\<lambda>lams.
     run_bind (of_outcome (demo_create_message_approval (replicate MESSAGE_APPROVAL_SIZE 0)
       dwallet_id is_signed (sint (clock_unix_timestamp c)))) (\<lambda>data.
     Inr (L\<lparr>lg_lamports := lams, lg_data := (lg_data L)(key := data)\<rparr>))))"

definition demo_create_ciphertext ::
    "chain_env \<Rightarrow> pubkey \<Rightarrow> bytes \<Rightarrow> byte \<Rightarrow> ledger \<Rightarrow> ledger run" where
  "demo_create_ciphertext E payer label ebool L =
     (let key = fst (env_pda E [CIPHERTEXT_SEED, to_buffer payer, label]) in
     run_bind (init_account E payer key CIPHERTEXT_SIZE (lg_data L key \<noteq> []) (lg_lamports L)) (\<lambda>lams.
     let data = replicate CIPHERTEXT_SIZE 0 in
     run_bind (demand (length data = CIPHERTEXT_SIZE) InvalidCiphertextAccount) (\<lambda>_.
     Inr (L\<lparr>lg_lamports := lams, lg_data := (lg_data L)(key := data[0 := ebool])\<rparr>))))"

end
