(* ===== verification/Chain_Btc.thy ===== *)
theory Chain_Btc
  imports Chain_Vaults
begin

text \<open>
  The Bitcoin side of the program: \<open>register_btc_vault.rs\<close>, \<open>attest_btc_balance.rs\<close>,
  \<open>verify_btc_custody_proof.rs\<close> with its parser of \<open>integrations/ika.rs\<close>, and the handlers of
  \<open>btc_lending.rs\<close>. A liquidation has two halves: the liquidator's transaction pays the debt, empties
  the position and marks the vault; the keeper's finalization clears the mark and closes the position.
\<close>

section \<open>Registration and attestation\<close>

definition padded_address :: "bytes \<Rightarrow> bytes" where
  "padded_address bitcoin_address =
     bitcoin_address @ replicate (64 - length bitcoin_address) 0"

definition new_btc_vault :: "chain_env \<Rightarrow> pubkey \<Rightarrow> pubkey \<Rightarrow> bytes \<Rightarrow> bytes \<Rightarrow> BtcVaultState" where
  "new_btc_vault E owner ika_dwallet dwallet_pubkey bitcoin_address = \<lparr>
     btc_vault_id = fst (btc_vault_pda E owner ika_dwallet), btc_owner = owner,
     btc_ika_dwallet = ika_dwallet, btc_dwallet_pubkey = dwallet_pubkey,
     btc_bitcoin_address = padded_address bitcoin_address,
     btc_bitcoin_address_len = word_of_nat (length bitcoin_address),
     btc_deposited_satoshis = 0, btc_last_attestation_slot = 0,
     btc_proof_status = PROOF_STATUS_PENDING, btc_proof_timestamp = 0, btc_frozen = False,
     btc_liquidation_initiated_at = 0, btc_liquidation_sighash = replicate 32 0,
     btc_bump = snd (btc_vault_pda E owner ika_dwallet)\<rparr>"

definition new_attestation :: "chain_env \<Rightarrow> pubkey \<Rightarrow> bytes \<Rightarrow> BitcoinBalanceAttestation" where
  "new_attestation E key bitcoin_address = \<lparr>
     att_btc_vault = key, att_bitcoin_address = padded_address bitcoin_address,
     att_bitcoin_address_len = word_of_nat (length bitcoin_address), att_satoshis = 0,
     att_bitcoin_block_height = 0, att_bitcoin_block_hash = replicate 32 0,
     att_attested_at_slot = 0, att_attested_at_unix = 0, att_keeper = PublicKey_default,
     att_bump = snd (btc_attestation_pda E key)\<rparr>"

definition register_btc_vault ::
    "chain_env \<Rightarrow> pubkey \<Rightarrow> pubkey \<Rightarrow> bytes \<Rightarrow> bytes \<Rightarrow> ledger \<Rightarrow> ledger run" where
  "register_btc_vault E owner ika_dwallet dwallet_pubkey bitcoin_address L =
     (let key = fst (btc_vault_pda E owner ika_dwallet) in
     run_bind (load (lg_protocol L)) (\<lambda>protocol_state.
     run_bind (init_account E owner key BtcVaultAccount_LEN (lg_btc_vaults L key \<noteq> None)
       (lg_lamports L)) (\<lambda>lams.
     run_bind (init_account E owner (fst (btc_attestation_pda E key)) BitcoinBalanceAttestation_LEN
       (lg_attestations L key \<noteq> None) lams) (\<lambda>lams.
     run_bind (demand (length bitcoin_address \<ge> 4 \<and> length bitcoin_address \<le> 64)
       InvalidBitcoinAddress) (\<lambda>_.
     run_bind (demand (bitcoin_address ! 0 = 116 \<and> bitcoin_address ! 1 = 98 \<and> bitcoin_address ! 2 = 49)
       InvalidBitcoinAddress) (\<lambda>_.
     run_bind (demand (bitcoin_address ! 3 = 113 \<or> bitcoin_address ! 3 = 112)
       InvalidBitcoinAddress) (\<lambda>_.
     run_bind (demand (dwallet_pubkey ! 0 = 2 \<or> dwallet_pubkey ! 0 = 3) InvalidDwalletPubkey) (\<lambda>_.
     run_bind (of_chain (checked_add (proto_total_vaults protocol_state) 1)) (\<lambda>total_vaults.
     Inr (L\<lparr>lg_lamports := lams,
       lg_btc_vaults := (lg_btc_vaults L)(key \<mapsto>
         new_btc_vault E owner ika_dwallet dwallet_pubkey bitcoin_address),
       lg_attestations := (lg_attestations L)(key \<mapsto> new_attestation E key bitcoin_address),
       lg_protocol := Some (protocol_state\<lparr>proto_total_vaults := total_vaults\<rparr>)\<rparr>))))))))))"

definition attest_btc_balance ::
    "clock \<Rightarrow> pubkey \<Rightarrow> pubkey \<Rightarrow> 64 word \<Rightarrow> 64 word \<Rightarrow> bytes \<Rightarrow> ledger \<Rightarrow> ledger run" where
  "attest_btc_balance c key keeper satoshis bitcoin_block_height bitcoin_block_hash L =
     run_bind (load (lg_btc_vaults L key)) (\<lambda>btc_vault.
     run_bind (load (lg_attestations L key)) (\<lambda>btc_attestation.
     run_bind (load (lg_protocol L)) (\<lambda>protocol_state.
     run_bind (demand (att_btc_vault btc_attestation = key) BitcoinAttestationMismatch) (\<lambda>_.
     run_bind (demand (keeper = proto_admin protocol_state) KeeperNotAuthorised) (\<lambda>_.
     run_bind (demand (att_bitcoin_address btc_attestation = btc_bitcoin_address btc_vault
         \<and> att_bitcoin_address_len btc_attestation = btc_bitcoin_address_len btc_vault)
       BitcoinAttestationMismatch) (\<lambda>_.
     Inr (L\<lparr>lg_attestations := (lg_attestations L)(key \<mapsto> btc_attestation\<lparr>
         att_satoshis := satoshis, att_bitcoin_block_height := bitcoin_block_height,
         att_bitcoin_block_hash := bitcoin_block_hash, att_attested_at_slot := clock_slot c,
         att_attested_at_unix := clock_unix_timestamp c, att_keeper := keeper\<rparr>),
       lg_btc_vaults := (lg_btc_vaults L)(key \<mapsto> btc_vault\<lparr>
         btc_deposited_satoshis := satoshis, btc_last_attestation_slot := clock_slot c\<rparr>)\<rparr>)))))))"

section \<open>Custody proofs\<close>

definition REAL_MA_SIGNATURE_SCHEME_OFFSET :: nat where "REAL_MA_SIGNATURE_SCHEME_OFFSET = 98"
definition REAL_MA_SIGNATURE_SCHEME_SECP256K1 :: byte where
  "REAL_MA_SIGNATURE_SCHEME_SECP256K1 = 1"

definition parse_message_approval_for_btc_dwallet ::
    "bytes \<Rightarrow> pubkey \<Rightarrow> int \<Rightarrow> ParsedMessageApproval outcome" where
  "parse_message_approval_for_btc_dwallet data expected_dwallet current_time =
     (if data = [] then Refused InvalidMessageApproval
      else if data ! 0 = REAL_MA_DISCRIMINATOR \<and> REAL_MA_MIN_LEN \<le> length data then
        if data ! 1 \<noteq> REAL_MA_VERSION then Refused InvalidMessageApproval
        else
          let dwallet_id = subarray data REAL_MA_DWALLET_OFFSET (REAL_MA_DWALLET_OFFSET + 32) in
          if dwallet_id \<noteq> to_buffer expected_dwallet then Refused DWalletMismatch
          else if data ! REAL_MA_SIGNATURE_SCHEME_OFFSET \<noteq> REAL_MA_SIGNATURE_SCHEME_SECP256K1
          then Refused InvalidMessageApproval
          else if data ! REAL_MA_STATUS_OFFSET \<noteq> REAL_MA_STATUS_SIGNED
          then Refused InvalidMessageApproval
          else Done \<lparr>pa_dwallet_id = dwallet_id, pa_approved_at = 0, pa_is_signed = True,
                 pa_source = RealIkaApproval\<rparr>
      else if length data = DEMO_MA_LEN then
        let dwallet_id = subarray data DEMO_MA_DWALLET_OFFSET (DEMO_MA_DWALLET_OFFSET + 32) in
        if dwallet_id \<noteq> to_buffer expected_dwallet then Refused DWalletMismatch
        else
          let approved_at = i64_le (subarray data DEMO_MA_APPROVED_AT_OFFSET (DEMO_MA_APPROVED_AT_OFFSET + 8));
              is_signed = (data ! DEMO_MA_SIGNED_OFFSET = 1) in
          if \<not> is_signed then Refused InvalidMessageApproval
          else if \<not> in_i64 (current_time - approved_at) then Panicked
          else if \<not> current_time - approved_at \<le> PROOF_EXPIRY_SECONDS then Refused ProofExpired
          else Done \<lparr>pa_dwallet_id = dwallet_id, pa_approved_at = approved_at,
                 pa_is_signed = is_signed, pa_source = DemoHelper\<rparr>
      else Refused InvalidMessageApproval)"

definition parse_real_message_approval_for_dwallet ::
    "bytes \<Rightarrow> pubkey \<Rightarrow> ParsedMessageApproval outcome" where
  "parse_real_message_approval_for_dwallet data expected_dwallet =
     (if \<not> (REAL_MA_MIN_LEN \<le> length data \<and> data ! 0 = REAL_MA_DISCRIMINATOR \<and> data ! 1 = REAL_MA_VERSION)
      then Refused InvalidMessageApproval
      else
        let dwallet_id = subarray data REAL_MA_DWALLET_OFFSET (REAL_MA_DWALLET_OFFSET + 32) in
        if dwallet_id \<noteq> to_buffer expected_dwallet then Refused DWalletMismatch
        else if data ! REAL_MA_SIGNATURE_SCHEME_OFFSET \<noteq> REAL_MA_SIGNATURE_SCHEME_SECP256K1
        then Refused InvalidMessageApproval
        else if data ! REAL_MA_STATUS_OFFSET \<noteq> REAL_MA_STATUS_SIGNED
        then Refused InvalidMessageApproval
        else Done \<lparr>pa_dwallet_id = dwallet_id, pa_approved_at = 0, pa_is_signed = True,
               pa_source = RealIkaApproval\<rparr>)"

text \<open>
  The parser without the demo layout, which no instruction calls: where it accepts, the parser of the
  Bitcoin vaults and that of the other vaults accept the same, at any time. What the other two accept
  beyond it is the layout of the demo helper, which anybody can have written, and for the other vaults
  an approval under another signature scheme.
\<close>

lemma real_approval_accepted:
  assumes "parse_real_message_approval_for_dwallet data k = Done a"
  shows "parse_message_approval_for_btc_dwallet data k now = Done a"
    and "parse_message_approval data (to_buffer k) now = Done a"
proof -
  have d: "data \<noteq> []"
    using assms by (auto simp: parse_real_message_approval_for_dwallet_def REAL_MA_MIN_LEN_def split: if_splits)
  show "parse_message_approval_for_btc_dwallet data k now = Done a"
    and "parse_message_approval data (to_buffer k) now = Done a"
    using assms d by (auto simp: parse_real_message_approval_for_dwallet_def parse_message_approval_def
      parse_message_approval_for_btc_dwallet_def parse_real_def Let_def split: if_splits)
qed

lemma btc_approval_real_or_demo:
  assumes "parse_message_approval_for_btc_dwallet data k now = Done a"
  shows "parse_real_message_approval_for_dwallet data k = Done a
    \<or> pa_source a = DemoHelper \<and> length data = DEMO_MA_LEN \<and> now - pa_approved_at a \<le> PROOF_EXPIRY_SECONDS"
  using assms by (auto simp: parse_real_message_approval_for_dwallet_def
    parse_message_approval_for_btc_dwallet_def Let_def split: if_splits)

definition verify_btc_custody_proof ::
    "clock \<Rightarrow> pubkey \<Rightarrow> pubkey \<Rightarrow> pubkey \<Rightarrow> ledger \<Rightarrow> ledger run" where
  "verify_btc_custody_proof c key approval_key owner L =
     run_bind (load (lg_btc_vaults L key)) (\<lambda>btc_vault.
     run_bind (demand (btc_owner btc_vault = owner) UnauthorizedCaller) (\<lambda>_.
     run_bind (demand (btc_proof_status btc_vault = PROOF_STATUS_PENDING
         \<or> btc_proof_status btc_vault = PROOF_STATUS_EXPIRED) VaultAlreadyVerified) (\<lambda>_.
     run_bind (of_outcome (parse_message_approval_for_btc_dwallet (lg_data L approval_key)
       (btc_ika_dwallet btc_vault) (sint (clock_unix_timestamp c)))) (\<lambda>_.
     Inr (L\<lparr>lg_btc_vaults := (lg_btc_vaults L)(key \<mapsto> btc_vault\<lparr>
       btc_proof_status := PROOF_STATUS_VERIFIED,
       btc_proof_timestamp := clock_unix_timestamp c\<rparr>)\<rparr>)))))"

definition refresh_btc_custody_proof ::
    "clock \<Rightarrow> pubkey \<Rightarrow> pubkey \<Rightarrow> pubkey \<Rightarrow> ledger \<Rightarrow> ledger run" where
  "refresh_btc_custody_proof c key approval_key owner L =
     run_bind (load (lg_btc_vaults L key)) (\<lambda>btc_vault.
     run_bind (demand (btc_owner btc_vault = owner) UnauthorizedCaller) (\<lambda>_.
     run_bind (demand (btc_proof_status btc_vault = PROOF_STATUS_VERIFIED) BtcVaultNotVerified) (\<lambda>_.
     run_bind (of_outcome (parse_message_approval_for_btc_dwallet (lg_data L approval_key)
       (btc_ika_dwallet btc_vault) (sint (clock_unix_timestamp c)))) (\<lambda>_.
     Inr (L\<lparr>lg_btc_vaults := (lg_btc_vaults L)(key \<mapsto> btc_vault\<lparr>
       btc_proof_timestamp := clock_unix_timestamp c\<rparr>)\<rparr>)))))"

section \<open>Borrowing\<close>

definition BTC_ATTESTATION_MAX_AGE_SECONDS :: int where "BTC_ATTESTATION_MAX_AGE_SECONDS = 600"

definition borrow_against_btc_collateral ::
    "chain_env \<Rightarrow> clock \<Rightarrow> pubkey \<Rightarrow> pubkey \<Rightarrow> pubkey \<Rightarrow> pubkey \<Rightarrow> pubkey \<Rightarrow> 64 word \<Rightarrow> pubkey
      \<Rightarrow> ledger \<Rightarrow> ledger run" where
  "borrow_against_btc_collateral E c key mint pool_token_key borrower_key owner amount
       health_ciphertext L =
     run_bind (load (lg_btc_vaults L key)) (\<lambda>btc_vault.
     run_bind (load (lg_protocol L)) (\<lambda>protocol.
     run_bind (load (lg_pools L mint)) (\<lambda>pool.
     run_bind (load (lg_feeds L 0)) (\<lambda>price_feed.
     run_bind (load (lg_attestations L key)) (\<lambda>attestation.
     run_bind (load (lg_tokens L pool_token_key)) (\<lambda>pool_tokens.
     run_bind (load (lg_tokens L borrower_key)) (\<lambda>borrower_tokens.
     run_bind (init_account E owner (fst (btc_borrow_position_pda E key)) BorrowPosition_LEN
       (lg_btc_positions L key \<noteq> None) (lg_lamports L)) (\<lambda>lams.
     run_bind (demand (btc_owner btc_vault = owner) UnauthorizedCaller) (\<lambda>_.
     run_bind (seeds_match (pool_borrow_asset_mint pool = mint)) (\<lambda>_.
     run_bind (demand (att_btc_vault attestation = key) BitcoinAttestationMismatch) (\<lambda>_.
     run_bind (demand (pool_token_key = pool_token_vault pool) PoolTokenVaultMismatch) (\<lambda>_.
     run_bind (demand (tok_mint borrower_tokens = pool_borrow_asset_mint pool)
       BorrowAssetMintMismatch) (\<lambda>_.
     run_bind (demand (tok_owner borrower_tokens = owner) TokenAccountOwnerMismatch) (\<lambda>_.
     run_bind (demand (amount > 0) InvalidBorrowAmount) (\<lambda>_.
     let now = clock_unix_timestamp c in
     run_bind (demand (\<not> proto_frozen protocol) ProtocolFrozen) (\<lambda>_.
     run_bind (demand (\<not> btc_frozen btc_vault) BtcVaultFrozen) (\<lambda>_.
     run_bind (demand (btc_liquidation_initiated_at btc_vault = 0)
       BtcLiquidationAlreadyInitiated) (\<lambda>_.
     run_bind (demand (btc_proof_status btc_vault = PROOF_STATUS_VERIFIED) BtcVaultNotVerified) (\<lambda>_.
     run_bind (demand (att_satoshis attestation > 0) InsufficientBtcCollateral) (\<lambda>_.
     run_bind (checked_age now (btc_proof_timestamp btc_vault)) (\<lambda>proof_age.
     run_bind (demand (proof_age \<le> PROOF_EXPIRY_SECONDS) ProofExpired) (\<lambda>_.
     run_bind (checked_age now (att_attested_at_unix attestation)) (\<lambda>attestation_age.
     run_bind (demand (attestation_age \<le> BTC_ATTESTATION_MAX_AGE_SECONDS)
       BitcoinAttestationStale) (\<lambda>_.
     run_bind (checked_age now (feed_updated_at price_feed)) (\<lambda>price_age.
     run_bind (demand (price_age \<le> PRICE_STALENESS_SECONDS) PriceFeedStale) (\<lambda>_.
     run_bind (of_chain (calculate_max_btc_borrow (att_satoshis attestation)
       (feed_price_usd price_feed) (pool_ltv_basis_points pool))) (\<lambda>max_borrow.
     run_bind (demand (amount \<le> max_borrow) BorrowExceedsCollateralLtv) (\<lambda>_.
     run_bind (of_chain (accrue_interest pool (clock_slot c))) (\<lambda>pool.
     run_bind (of_chain (current_debt (pool_total_borrowed pool) (pool_borrow_index pool)))
       (\<lambda>current_total_debt.
     run_bind (of_chain (checked_sub (pool_total_liquidity pool) current_total_debt)) (\<lambda>available.
     run_bind (demand (amount \<le> available) InsufficientPoolLiquidity) (\<lambda>_.
     run_bind (of_chain (to_scaled amount (pool_borrow_index pool))) (\<lambda>scaled.
     run_bind (of_chain (checked_add (pool_total_borrowed pool) scaled)) (\<lambda>total_borrowed.
     let pool = pool\<lparr>pool_total_borrowed := total_borrowed\<rparr> in
     run_bind (token_transfer E (lg_tokens L) pool_token_key borrower_key
       (fst (lending_pool_pda E mint)) amount) (\<lambda>toks.
     Inr (L\<lparr>lg_lamports := lams, lg_tokens := toks, lg_pools := (lg_pools L)(mint \<mapsto> pool),
       lg_btc_positions := (lg_btc_positions L)(key \<mapsto> \<lparr>
         pos_vault = key, pos_owner = owner, pos_borrow_asset = pool_borrow_asset_mint pool,
         pos_principal = scaled, pos_borrowed_at = now, pos_last_updated_at = now,
         pos_borrow_index_snapshot = pool_borrow_index pool,
         pos_health_ciphertext = health_ciphertext,
         pos_bump = snd (btc_borrow_position_pda E key)\<rparr>)\<rparr>))))))))))))))))))))))))))))))))))))"

section \<open>Repaying\<close>

definition repay_btc_borrow ::
    "chain_env \<Rightarrow> clock \<Rightarrow> pubkey \<Rightarrow> pubkey \<Rightarrow> pubkey \<Rightarrow> pubkey \<Rightarrow> pubkey \<Rightarrow> 64 word
      \<Rightarrow> ledger \<Rightarrow> ledger run" where
  "repay_btc_borrow E c key mint pool_token_key borrower_key owner amount L =
     run_bind (load (lg_btc_vaults L key)) (\<lambda>btc_vault.
     run_bind (load (lg_pools L mint)) (\<lambda>pool.
     run_bind (load (lg_btc_positions L key)) (\<lambda>position.
     run_bind (load (lg_tokens L pool_token_key)) (\<lambda>pool_tokens.
     run_bind (load (lg_tokens L borrower_key)) (\<lambda>borrower_tokens.
     run_bind (demand (btc_owner btc_vault = owner) UnauthorizedCaller) (\<lambda>_.
     run_bind (seeds_match (pool_borrow_asset_mint pool = mint)) (\<lambda>_.
     run_bind (demand (pos_owner position = owner) UnauthorizedCaller) (\<lambda>_.
     run_bind (demand (pool_token_key = pool_token_vault pool) PoolTokenVaultMismatch) (\<lambda>_.
     run_bind (demand (tok_mint borrower_tokens = pool_borrow_asset_mint pool)
       BorrowAssetMintMismatch) (\<lambda>_.
     run_bind (demand (tok_owner borrower_tokens = owner) TokenAccountOwnerMismatch) (\<lambda>_.
     run_bind (demand (amount > 0) InvalidRepayAmount) (\<lambda>_.
     run_bind (of_chain (accrue_interest pool (clock_slot c))) (\<lambda>pool.
     run_bind (of_chain (current_debt (pos_principal position) (pool_borrow_index pool)))
       (\<lambda>outstanding_raw.
     run_bind (demand (outstanding_raw > 0) NoOutstandingDebt) (\<lambda>_.
     let is_repay_all = (amount = 18446744073709551615);
         actual_amount = (if is_repay_all then min (tok_amount borrower_tokens) outstanding_raw
           else min amount outstanding_raw) in
     run_bind (demand (actual_amount > 0) InvalidRepayAmount) (\<lambda>_.
     run_bind (if is_repay_all \<or> actual_amount = outstanding_raw then Inr (pos_principal position)
       else run_bind (of_chain (to_scaled actual_amount (pool_borrow_index pool)))
         (\<lambda>s. Inr (min s (pos_principal position)))) (\<lambda>scaled_repay.
     run_bind (token_transfer E (lg_tokens L) borrower_key pool_token_key owner actual_amount) (\<lambda>toks.
     run_bind (of_chain (checked_sub (pos_principal position) scaled_repay)) (\<lambda>remaining_principal.
     run_bind (of_chain (checked_sub (pool_total_borrowed pool) scaled_repay)) (\<lambda>total_borrowed.
     let position = position\<lparr>pos_principal := remaining_principal,
           pos_last_updated_at := clock_unix_timestamp c,
           pos_borrow_index_snapshot := pool_borrow_index pool\<rparr>;
         L = L\<lparr>lg_tokens := toks,
           lg_pools := (lg_pools L)(mint \<mapsto> pool\<lparr>pool_total_borrowed := total_borrowed\<rparr>)\<rparr> in
     Inr (if remaining_principal = 0
       then L\<lparr>lg_btc_positions := (lg_btc_positions L)(key := None),
              lg_lamports := env_close_account E (lg_lamports L)
                (fst (btc_borrow_position_pda E key)) owner\<rparr>
       else L\<lparr>lg_btc_positions := (lg_btc_positions L)(key \<mapsto> position)\<rparr>)))))))))))))))))))))"

section \<open>Liquidating\<close>

definition IKA_SIGNATURE_SCHEME_SECP256K1 :: "16 word" where "IKA_SIGNATURE_SCHEME_SECP256K1 = 0"

text \<open>The satoshis the event announces as seized, which are nowhere stored.\<close>

definition seized_satoshis ::
    "64 word \<Rightarrow> AdminPriceFeed \<Rightarrow> LendingPool \<Rightarrow> BitcoinBalanceAttestation \<Rightarrow> 64 word run" where
  "seized_satoshis repaid_amount price_feed pool attestation =
     run_bind (of_chain (debt_to_satoshis_with_bonus repaid_amount (feed_price_usd price_feed)
       (pool_liquidation_bonus_bps pool))) (\<lambda>s. Inr (min s (att_satoshis attestation)))"

definition liquidate_btc_position ::
    "chain_env \<Rightarrow> clock \<Rightarrow> pubkey \<Rightarrow> pubkey \<Rightarrow> pubkey \<Rightarrow> pubkey \<Rightarrow> pubkey \<Rightarrow> pubkey \<Rightarrow> pubkey
      \<Rightarrow> bytes \<Rightarrow> bytes \<Rightarrow> bytes \<Rightarrow> byte \<Rightarrow> ledger \<Rightarrow> ledger run" where
  "liquidate_btc_position E c key mint pool_token_key liquidator_key dwallet approval_key liquidator
       bitcoin_sighash message_metadata_digest user_pubkey message_approval_bump L =
     run_bind (load (lg_btc_vaults L key)) (\<lambda>btc_vault.
     run_bind (load (lg_protocol L)) (\<lambda>protocol.
     run_bind (load (lg_pools L mint)) (\<lambda>pool.
     run_bind (load (lg_feeds L 0)) (\<lambda>price_feed.
     run_bind (load (lg_attestations L key)) (\<lambda>attestation.
     run_bind (load (lg_btc_positions L key)) (\<lambda>position.
     run_bind (load (lg_tokens L pool_token_key)) (\<lambda>pool_tokens.
     run_bind (load (lg_tokens L liquidator_key)) (\<lambda>liquidator_tokens.
     run_bind (seeds_match (pool_borrow_asset_mint pool = mint)) (\<lambda>_.
     run_bind (demand (pool_token_key = pool_token_vault pool) PoolTokenVaultMismatch) (\<lambda>_.
     run_bind (demand (tok_mint liquidator_tokens = pool_borrow_asset_mint pool)
       BorrowAssetMintMismatch) (\<lambda>_.
     run_bind (demand (tok_owner liquidator_tokens = liquidator) TokenAccountOwnerMismatch) (\<lambda>_.
     run_bind (demand (dwallet = btc_ika_dwallet btc_vault) DWalletMismatch) (\<lambda>_.
     let now = clock_unix_timestamp c in
     run_bind (of_chain (accrue_interest pool (clock_slot c))) (\<lambda>pool.
     run_bind (demand (\<not> proto_frozen protocol) ProtocolFrozen) (\<lambda>_.
     run_bind (demand (pos_principal position > 0) NoOutstandingDebt) (\<lambda>_.
     run_bind (demand (pos_owner position \<noteq> liquidator) SelfLiquidation) (\<lambda>_.
     run_bind (demand (btc_liquidation_initiated_at btc_vault = 0)
       BtcLiquidationAlreadyInitiated) (\<lambda>_.
     run_bind (checked_age now (att_attested_at_unix attestation)) (\<lambda>attestation_age.
     run_bind (demand (attestation_age \<le> BTC_ATTESTATION_MAX_AGE_SECONDS)
       BitcoinAttestationStale) (\<lambda>_.
     run_bind (checked_age now (feed_updated_at price_feed)) (\<lambda>price_age.
     run_bind (demand (price_age \<le> PRICE_STALENESS_SECONDS) PriceFeedStale) (\<lambda>_.
     run_bind (of_chain (current_debt (pos_principal position) (pool_borrow_index pool)))
       (\<lambda>outstanding_raw.
     run_bind (of_chain (is_btc_liquidatable (att_satoshis attestation) (feed_price_usd price_feed)
       outstanding_raw (pool_liquidation_threshold_bps pool))) (\<lambda>unhealthy.
     run_bind (demand unhealthy PositionHealthy) (\<lambda>_.
     let scaled_to_close = pos_principal position in
     run_bind (token_transfer E (lg_tokens L) liquidator_key pool_token_key liquidator
       outstanding_raw) (\<lambda>toks.
     run_bind (seized_satoshis outstanding_raw price_feed pool attestation) (\<lambda>_.
     run_bind (approve_message E (lg_data L) approval_key dwallet liquidator bitcoin_sighash
       message_metadata_digest user_pubkey IKA_SIGNATURE_SCHEME_SECP256K1 message_approval_bump) (\<lambda>data.
     run_bind (of_chain (checked_sub (pool_total_borrowed pool) scaled_to_close)) (\<lambda>total_borrowed.
     let pool = pool\<lparr>pool_total_borrowed := total_borrowed\<rparr> in
     Inr (L\<lparr>lg_tokens := toks, lg_data := data, lg_pools := (lg_pools L)(mint \<mapsto> pool),
       lg_btc_positions := (lg_btc_positions L)(key \<mapsto> position\<lparr>pos_principal := 0,
         pos_last_updated_at := now, pos_borrow_index_snapshot := pool_borrow_index pool\<rparr>),
       lg_btc_vaults := (lg_btc_vaults L)(key \<mapsto> btc_vault\<lparr>btc_frozen := True,
         btc_liquidation_initiated_at := now,
         btc_liquidation_sighash := bitcoin_sighash\<rparr>)\<rparr>))))))))))))))))))))))))))))))"

definition BTC_LIQUIDATION_MIN_CONFIRMATIONS :: "32 word" where
  "BTC_LIQUIDATION_MIN_CONFIRMATIONS = 1"

definition finalize_btc_liquidation ::
    "chain_env \<Rightarrow> clock \<Rightarrow> pubkey \<Rightarrow> pubkey \<Rightarrow> 64 word \<Rightarrow> 32 word \<Rightarrow> 64 word \<Rightarrow> ledger \<Rightarrow> ledger run" where
  "finalize_btc_liquidation E c key keeper bitcoin_block_height confirmations remaining_satoshis L =
     run_bind (load (lg_btc_vaults L key)) (\<lambda>btc_vault.
     run_bind (load (lg_attestations L key)) (\<lambda>attestation.
     run_bind (load (lg_btc_positions L key)) (\<lambda>position.
     run_bind (load (lg_protocol L)) (\<lambda>protocol_state.
     run_bind (demand (keeper = proto_admin protocol_state) KeeperNotAuthorised) (\<lambda>_.
     run_bind (demand (sint (btc_liquidation_initiated_at btc_vault) > 0)
       BtcLiquidationNotInitiated) (\<lambda>_.
     run_bind (demand (confirmations \<ge> BTC_LIQUIDATION_MIN_CONFIRMATIONS)
       BitcoinConfirmationsInsufficient) (\<lambda>_.
     run_bind (demand (pos_principal position = 0) OutstandingDebt) (\<lambda>_.
     Inr (L\<lparr>
       lg_btc_vaults := (lg_btc_vaults L)(key \<mapsto> btc_vault\<lparr>
         btc_deposited_satoshis := remaining_satoshis, btc_last_attestation_slot := clock_slot c,
         btc_proof_status := PROOF_STATUS_PENDING, btc_proof_timestamp := 0, btc_frozen := False,
         btc_liquidation_initiated_at := 0, btc_liquidation_sighash := replicate 32 0\<rparr>),
       lg_attestations := (lg_attestations L)(key \<mapsto> attestation\<lparr>
         att_satoshis := remaining_satoshis, att_bitcoin_block_height := bitcoin_block_height,
         att_attested_at_slot := clock_slot c, att_attested_at_unix := clock_unix_timestamp c,
         att_keeper := keeper\<rparr>),
       lg_btc_positions := (lg_btc_positions L)(key := None),
       lg_lamports := env_close_account E (lg_lamports L)
         (fst (btc_borrow_position_pda E key)) keeper\<rparr>)))))))))"

end
