(* ===== verification/Chain_Program.thy ===== *)
theory Chain_Program
  imports Chain_Lending Chain_Btc
begin

text \<open>
  The program as a whole: the instructions of \<open>contracts/src/lib.rs\<close> with the accounts and arguments
  each takes, their dispatch to the handlers, and the ledgers that transactions can reach. Between two
  instructions of the program, other programs may change whatever is not the program's own account.
\<close>

section \<open>Instructions\<close>

datatype instruction =
    InitializeProtocol pubkey
  | RegisterVault pubkey bytes byte
  | InitializeRiskState pubkey pubkey pubkey
  | VerifyCustodyProof pubkey pubkey pubkey bytes
  | RefreshCustodyProof pubkey pubkey pubkey bytes
  | DepositCollateral pubkey pubkey "64 word"
  | WithdrawCollateral pubkey pubkey "64 word"
  | RejectUnverifiedDeposit pubkey pubkey
  | UpdateBackingState pubkey pubkey pubkey
  | TriggerRiskCheck pubkey pubkey pubkey pubkey pubkey
  | CircuitBreakerFreeze pubkey pubkey
  | AdminUnfreeze pubkey pubkey
  | UnfreezeProtocolState
  | CloseVault pubkey pubkey
  | ApproveCustodySignature pubkey pubkey pubkey pubkey bytes bytes bytes "16 word" byte
  | InitializeLendingPool pubkey pubkey pubkey byte "64 word" "64 word" "16 word" "16 word" "16 word"
      "16 word" "16 word"
  | UpdateAdminPrice pubkey byte "64 word"
  | CloseAdminPriceFeed pubkey byte
  | InitializeAdminPriceFeed pubkey byte "64 word"
  | BorrowAgainstCollateral pubkey pubkey pubkey pubkey pubkey "64 word" pubkey
  | RepayBorrow pubkey pubkey pubkey pubkey pubkey "64 word"
  | LiquidatePosition pubkey pubkey pubkey pubkey pubkey
  | RegisterBtcVault pubkey pubkey bytes bytes
  | AttestBtcBalance pubkey pubkey "64 word" "64 word" bytes
  | VerifyBtcCustodyProof pubkey pubkey pubkey
  | RefreshBtcCustodyProof pubkey pubkey pubkey
  | BorrowAgainstBtcCollateral pubkey pubkey pubkey pubkey pubkey "64 word" pubkey
  | RepayBtcBorrow pubkey pubkey pubkey pubkey pubkey "64 word"
  | LiquidateBtcPosition pubkey pubkey pubkey pubkey pubkey pubkey pubkey bytes bytes bytes byte
  | FinalizeBtcLiquidation pubkey pubkey "64 word" "32 word" "64 word"
  | DemoCreateMessageApproval pubkey bytes bool
  | DemoCreateCiphertext pubkey bytes byte

fun execute :: "chain_env \<Rightarrow> clock \<Rightarrow> instruction \<Rightarrow> ledger \<Rightarrow> ledger run" where
  "execute E c (InitializeProtocol admin) L = initialize_protocol E admin L"
| "execute E c (RegisterVault owner dwallet asset) L = register_vault E owner dwallet asset L"
| "execute E c (InitializeRiskState v owner threshold) L = initialize_risk_state E v owner threshold L"
| "execute E c (VerifyCustodyProof v appr signer dwallet) L =
     run_verify_custody_proof c v appr signer dwallet L"
| "execute E c (RefreshCustodyProof v appr signer dwallet) L =
     run_refresh_custody_proof c v appr signer dwallet L"
| "execute E c (DepositCollateral v depositor n) L = deposit_collateral c v depositor n L"
| "execute E c (WithdrawCollateral v depositor n) L = withdraw_collateral v depositor n L"
| "execute E c (RejectUnverifiedDeposit v depositor) L = reject_unverified_deposit v depositor L"
| "execute E c (UpdateBackingState v backing oracle) L = update_backing_state v backing oracle L"
| "execute E c (TriggerRiskCheck v backing threshold result payer) L =
     trigger_risk_check c v backing threshold result payer L"
| "execute E c (CircuitBreakerFreeze v caller) L = circuit_breaker_freeze v caller L"
| "execute E c (AdminUnfreeze v admin) L = admin_unfreeze v admin L"
| "execute E c UnfreezeProtocolState L = unfreeze_protocol_state L"
| "execute E c (CloseVault v owner) L = close_vault E v owner L"
| "execute E c (ApproveCustodySignature v dw appr owner dg md user scheme bump) L =
     approve_custody_signature E v dw appr owner dg md user scheme bump L"
| "execute E c (InitializeLendingPool m pv admin asset liq price ltv thr bonus base slope) L =
     initialize_lending_pool E c m pv admin asset liq price ltv thr bonus base slope L"
| "execute E c (UpdateAdminPrice admin asset price) L = update_admin_price c admin asset price L"
| "execute E c (CloseAdminPriceFeed admin asset) L = close_admin_price_feed E admin asset L"
| "execute E c (InitializeAdminPriceFeed admin asset price) L =
     initialize_admin_price_feed E c admin asset price L"
| "execute E c (BorrowAgainstCollateral v m pv ata owner n ct) L =
     borrow_against_collateral E c v m pv ata owner n ct L"
| "execute E c (RepayBorrow v m pv ata owner n) L = repay_borrow E c v m pv ata owner n L"
| "execute E c (LiquidatePosition v m pv ata liquidator) L =
     liquidate_position E c v m pv ata liquidator L"
| "execute E c (RegisterBtcVault owner dw dwkey addr) L = register_btc_vault E owner dw dwkey addr L"
| "execute E c (AttestBtcBalance v keeper sats height hash) L =
     attest_btc_balance c v keeper sats height hash L"
| "execute E c (VerifyBtcCustodyProof v appr owner) L = verify_btc_custody_proof c v appr owner L"
| "execute E c (RefreshBtcCustodyProof v appr owner) L = refresh_btc_custody_proof c v appr owner L"
| "execute E c (BorrowAgainstBtcCollateral v m pv ata owner n ct) L =
     borrow_against_btc_collateral E c v m pv ata owner n ct L"
| "execute E c (RepayBtcBorrow v m pv ata owner n) L = repay_btc_borrow E c v m pv ata owner n L"
| "execute E c (LiquidateBtcPosition v m pv ata dw appr liquidator sh md user bump) L =
     liquidate_btc_position E c v m pv ata dw appr liquidator sh md user bump L"
| "execute E c (FinalizeBtcLiquidation v keeper height conf left) L =
     finalize_btc_liquidation E c v keeper height conf left L"
| "execute E c (DemoCreateMessageApproval payer dwallet sg) L =
     run_demo_create_message_approval E c payer dwallet sg L"
| "execute E c (DemoCreateCiphertext payer label v) L = demo_create_ciphertext E payer label v L"

section \<open>Reachable ledgers\<close>

definition no_program_accounts :: "ledger \<Rightarrow> bool" where
  "no_program_accounts L \<longleftrightarrow> lg_protocol L = None \<and> lg_pools L = Map.empty \<and> lg_feeds L = Map.empty
     \<and> lg_vaults L = Map.empty \<and> lg_risks L = Map.empty \<and> lg_positions L = Map.empty
     \<and> lg_btc_vaults L = Map.empty \<and> lg_attestations L = Map.empty \<and> lg_btc_positions L = Map.empty"

inductive reachable :: "chain_env \<Rightarrow> ledger \<Rightarrow> bool" for E where
  reachable_start: "no_program_accounts L \<Longrightarrow> reachable E L"
| reachable_step: "reachable E L \<Longrightarrow> execute E c ix L = Inr L' \<Longrightarrow> reachable E L'"
| reachable_others: "reachable E L \<Longrightarrow>
    reachable E (L\<lparr>lg_tokens := toks, lg_mints := mints, lg_lamports := lams, lg_data := data\<rparr>)"

text \<open>What every instruction keeps, and no other program can touch, holds in every reachable ledger.\<close>

locale ledger_invariant =
  fixes E :: chain_env
    and inv :: "ledger \<Rightarrow> bool"
  assumes initially: "no_program_accounts L \<Longrightarrow> inv L"
    and kept: "inv L \<Longrightarrow> execute E c ix L = Inr L' \<Longrightarrow> inv L'"
    and own: "inv (L\<lparr>lg_tokens := toks, lg_mints := mints, lg_lamports := lams, lg_data := data\<rparr>) = inv L"
begin

lemma always: "reachable E L \<Longrightarrow> inv L"
  by (induction rule: reachable.induct) (simp_all add: initially kept own)

lemma later: "reachable E L \<Longrightarrow> execute E c ix L = Inr L' \<Longrightarrow> inv L \<and> inv L'"
  using always kept by blast

end

end
