(* ===== verification/Chain_Dispatch.thy ===== *)
theory Chain_Dispatch
  imports Chain_Program
begin

text \<open>
  From the bytes of a transaction to the handlers: which call of \<open>lib.rs\<close> an instruction on the wire is,
  given the ledger. The discriminator selects the handler, the data behind it are its arguments, the
  accounts in the order of its \<open>Accounts\<close> struct are checked against its rule (\<open>Chain_Interface\<close>) and
  name the accounts it works on. Bytes behind the arguments and accounts behind the listed ones are
  ignored, as Anchor does. An instruction that is no call is refused before any handler runs.
\<close>

section \<open>Calls on the wire\<close>

text \<open>The price feed a vault is valued with is that of the asset stored in it.\<close>

definition vault_asset :: "ledger \<Rightarrow> pubkey \<Rightarrow> int" where
  "vault_asset L v = (case lg_vaults L v of None \<Rightarrow> 0 | Some vault \<Rightarrow> uint (vault_asset_type vault))"

fun rule_of :: "platform \<Rightarrow> ledger \<Rightarrow> instruction \<Rightarrow> instruction_rule" where
  "rule_of P L (InitializeProtocol admin) = rule_initialize_protocol"
| "rule_of P L (RegisterVault owner dwallet asset) = rule_register_vault dwallet"
| "rule_of P L (InitializeRiskState v owner threshold) = rule_initialize_risk_state"
| "rule_of P L (VerifyCustodyProof v appr signer dwallet) = rule_verify_custody_proof"
| "rule_of P L (RefreshCustodyProof v appr signer dwallet) = rule_refresh_custody_proof"
| "rule_of P L (DepositCollateral v depositor n) = rule_deposit_collateral"
| "rule_of P L (WithdrawCollateral v depositor n) = rule_withdraw_collateral"
| "rule_of P L (RejectUnverifiedDeposit v depositor) = rule_reject_unverified_deposit"
| "rule_of P L (UpdateBackingState v backing oracle) = rule_update_backing_state"
| "rule_of P L (TriggerRiskCheck v backing threshold result payer) = rule_trigger_risk_check"
| "rule_of P L (CircuitBreakerFreeze v caller) = rule_circuit_breaker_freeze"
| "rule_of P L (AdminUnfreeze v admin) = rule_admin_unfreeze"
| "rule_of P L UnfreezeProtocolState = rule_unfreeze_protocol_state"
| "rule_of P L (CloseVault v owner) = rule_close_vault"
| "rule_of P L (ApproveCustodySignature v dw appr owner dg md user scheme bump) =
     rule_approve_custody_signature P"
| "rule_of P L (InitializeLendingPool m pv admin asset liq price ltv thr bonus base slope) =
     rule_initialize_lending_pool (uint asset)"
| "rule_of P L (UpdateAdminPrice admin asset price) = rule_update_admin_price (uint asset)"
| "rule_of P L (CloseAdminPriceFeed admin asset) = rule_close_admin_price_feed (uint asset)"
| "rule_of P L (InitializeAdminPriceFeed admin asset price) =
     rule_initialize_admin_price_feed (uint asset)"
| "rule_of P L (BorrowAgainstCollateral v m pv ata owner n ct) =
     rule_borrow_against_collateral (vault_asset L v) m"
| "rule_of P L (RepayBorrow v m pv ata owner n) = rule_repay_borrow m"
| "rule_of P L (LiquidatePosition v m pv ata liquidator) =
     rule_liquidate_position (vault_asset L v) m"
| "rule_of P L (RegisterBtcVault owner dw dwkey addr) = rule_register_btc_vault dw"
| "rule_of P L (AttestBtcBalance v keeper sats height blk) = rule_attest_btc_balance"
| "rule_of P L (VerifyBtcCustodyProof v appr owner) = rule_verify_btc_custody_proof"
| "rule_of P L (RefreshBtcCustodyProof v appr owner) = rule_refresh_btc_custody_proof"
| "rule_of P L (BorrowAgainstBtcCollateral v m pv ata owner n ct) =
     rule_borrow_against_btc_collateral m"
| "rule_of P L (RepayBtcBorrow v m pv ata owner n) = rule_repay_btc_borrow m"
| "rule_of P L (LiquidateBtcPosition v m pv ata dw appr liquidator sh md user bump) =
     rule_liquidate_btc_position P dw m"
| "rule_of P L (FinalizeBtcLiquidation v keeper height conf left) = rule_finalize_btc_liquidation"
| "rule_of P L (DemoCreateMessageApproval payer dwallet sg) =
     rule_demo_create_message_approval dwallet"
| "rule_of P L (DemoCreateCiphertext payer label n) = rule_demo_create_ciphertext label"

text \<open>Where the accounts of a call stand. Ika's program is any executable account to the program; the
  handlers are modelled for Ika's own.\<close>

fun keys_of :: "platform \<Rightarrow> instruction \<Rightarrow> (nat \<times> pubkey) list" where
  "keys_of P (InitializeProtocol admin) = [(1, admin)]"
| "keys_of P (RegisterVault owner dwallet asset) = [(2, owner)]"
| "keys_of P (InitializeRiskState v owner threshold) = [(1, v), (2, owner)]"
| "keys_of P (VerifyCustodyProof v appr signer dwallet) = [(0, v), (1, appr), (2, signer)]"
| "keys_of P (RefreshCustodyProof v appr signer dwallet) = [(0, v), (1, appr), (2, signer)]"
| "keys_of P (DepositCollateral v depositor n) = [(0, v), (2, depositor)]"
| "keys_of P (WithdrawCollateral v depositor n) = [(0, v), (2, depositor)]"
| "keys_of P (RejectUnverifiedDeposit v depositor) = [(0, v), (2, depositor)]"
| "keys_of P (UpdateBackingState v backing oracle) = [(0, v), (4, backing), (5, oracle)]"
| "keys_of P (TriggerRiskCheck v backing threshold result payer) =
     [(0, v), (4, backing), (5, threshold), (6, result), (7, payer)]"
| "keys_of P (CircuitBreakerFreeze v caller) = [(0, v), (2, caller)]"
| "keys_of P (AdminUnfreeze v admin) = [(0, v), (2, admin)]"
| "keys_of P UnfreezeProtocolState = []"
| "keys_of P (CloseVault v owner) = [(0, v), (1, owner)]"
| "keys_of P (ApproveCustodySignature v dw appr owner dg md user scheme bump) =
     [(0, v), (3, IKA_DWALLET_PROGRAM_ID P), (5, dw), (6, appr), (7, owner)]"
| "keys_of P (InitializeLendingPool m pv admin asset liq price ltv thr bonus base slope) =
     [(2, m), (3, pv), (4, admin)]"
| "keys_of P (UpdateAdminPrice admin asset price) = [(1, admin)]"
| "keys_of P (CloseAdminPriceFeed admin asset) = [(1, admin)]"
| "keys_of P (InitializeAdminPriceFeed admin asset price) = [(1, admin)]"
| "keys_of P (BorrowAgainstCollateral v m pv ata owner n ct) =
     [(0, v), (5, pv), (6, ata), (7, owner)]"
| "keys_of P (RepayBorrow v m pv ata owner n) = [(0, v), (3, pv), (4, ata), (5, owner)]"
| "keys_of P (LiquidatePosition v m pv ata liquidator) =
     [(0, v), (5, pv), (6, ata), (7, liquidator)]"
| "keys_of P (RegisterBtcVault owner dw dwkey addr) = [(3, owner)]"
| "keys_of P (AttestBtcBalance v keeper sats height blk) = [(0, v), (3, keeper)]"
| "keys_of P (VerifyBtcCustodyProof v appr owner) = [(0, v), (1, appr), (2, owner)]"
| "keys_of P (RefreshBtcCustodyProof v appr owner) = [(0, v), (1, appr), (2, owner)]"
| "keys_of P (BorrowAgainstBtcCollateral v m pv ata owner n ct) =
     [(0, v), (6, pv), (7, ata), (8, owner)]"
| "keys_of P (RepayBtcBorrow v m pv ata owner n) = [(0, v), (3, pv), (4, ata), (5, owner)]"
| "keys_of P (LiquidateBtcPosition v m pv ata dw appr liquidator sh md user bump) =
     [(0, v), (6, pv), (7, ata), (10, IKA_DWALLET_PROGRAM_ID P), (12, dw), (13, appr), (14,
      liquidator)]"
| "keys_of P (FinalizeBtcLiquidation v keeper height conf left) = [(0, v), (4, keeper)]"
| "keys_of P (DemoCreateMessageApproval payer dwallet sg) = [(1, payer)]"
| "keys_of P (DemoCreateCiphertext payer label n) = [(1, payer)]"

text \<open>The arguments; \<open>None\<close> is one the handler only logs.\<close>

fun args_of :: "instruction \<Rightarrow> borsh_value option list" where
  "args_of (InitializeProtocol admin) = []"
| "args_of (RegisterVault owner dwallet asset) = [Some (VBytes dwallet), Some (VInt (unat asset))]"
| "args_of (InitializeRiskState v owner threshold) = [Some (VBytes (to_buffer threshold))]"
| "args_of (VerifyCustodyProof v appr signer dwallet) = [Some (VBytes dwallet)]"
| "args_of (RefreshCustodyProof v appr signer dwallet) = [Some (VBytes dwallet)]"
| "args_of (DepositCollateral v depositor n) = [Some (VInt (unat n))]"
| "args_of (WithdrawCollateral v depositor n) = [Some (VInt (unat n))]"
| "args_of (RejectUnverifiedDeposit v depositor) = [None, None]"
| "args_of (UpdateBackingState v backing oracle) = [None]"
| "args_of (TriggerRiskCheck v backing threshold result payer) = []"
| "args_of (CircuitBreakerFreeze v caller) = [None]"
| "args_of (AdminUnfreeze v admin) = []"
| "args_of UnfreezeProtocolState = []"
| "args_of (CloseVault v owner) = []"
| "args_of (ApproveCustodySignature v dw appr owner dg md user scheme bump) =
     [Some (VBytes dg), Some (VBytes md), Some (VBytes user), Some (VInt (unat scheme)),
      Some (VInt (unat bump))]"
| "args_of (InitializeLendingPool m pv admin asset liq price ltv thr bonus base slope) =
     [Some (VInt (unat asset)), Some (VInt (unat liq)), Some (VInt (unat price)), Some (VInt
      (unat ltv)), Some (VInt (unat thr)), Some (VInt (unat bonus)), Some (VInt (unat
      base)), Some (VInt (unat slope))]"
| "args_of (UpdateAdminPrice admin asset price) = [Some (VInt (unat price))]"
| "args_of (CloseAdminPriceFeed admin asset) = []"
| "args_of (InitializeAdminPriceFeed admin asset price) =
     [Some (VInt (unat asset)), Some (VInt (unat price))]"
| "args_of (BorrowAgainstCollateral v m pv ata owner n ct) =
     [Some (VInt (unat n)), Some (VBytes (to_buffer ct))]"
| "args_of (RepayBorrow v m pv ata owner n) = [Some (VInt (unat n))]"
| "args_of (LiquidatePosition v m pv ata liquidator) = []"
| "args_of (RegisterBtcVault owner dw dwkey addr) =
     [Some (VBytes (to_buffer dw)), Some (VBytes dwkey), Some (VBytes addr)]"
| "args_of (AttestBtcBalance v keeper sats height blk) =
     [Some (VInt (unat sats)), Some (VInt (unat height)), Some (VBytes blk)]"
| "args_of (VerifyBtcCustodyProof v appr owner) = []"
| "args_of (RefreshBtcCustodyProof v appr owner) = []"
| "args_of (BorrowAgainstBtcCollateral v m pv ata owner n ct) =
     [Some (VInt (unat n)), Some (VBytes (to_buffer ct))]"
| "args_of (RepayBtcBorrow v m pv ata owner n) = [Some (VInt (unat n))]"
| "args_of (LiquidateBtcPosition v m pv ata dw appr liquidator sh md user bump) =
     [Some (VBytes sh), Some (VBytes md), Some (VBytes user), Some (VInt (unat bump))]"
| "args_of (FinalizeBtcLiquidation v keeper height conf left) =
     [None, Some (VInt (unat height)), Some (VInt (unat conf)), Some (VInt (unat left))]"
| "args_of (DemoCreateMessageApproval payer dwallet sg) = [Some (VBytes dwallet), Some (VBool sg)]"
| "args_of (DemoCreateCiphertext payer label n) = [Some (VBytes label), Some (VInt (unat n))]"

text \<open>Accounts whose address is derived from what is stored in them: the pool with its place, the feed.\<close>

fun pool_of :: "instruction \<Rightarrow> (nat \<times> pubkey) option" where
  "pool_of (BorrowAgainstCollateral v m pv ata owner n ct) = Some (2, m)"
| "pool_of (RepayBorrow v m pv ata owner n) = Some (1, m)"
| "pool_of (LiquidatePosition v m pv ata liquidator) = Some (2, m)"
| "pool_of (BorrowAgainstBtcCollateral v m pv ata owner n ct) = Some (2, m)"
| "pool_of (RepayBtcBorrow v m pv ata owner n) = Some (1, m)"
| "pool_of (LiquidateBtcPosition v m pv ata dw appr liquidator sh md user bump) = Some (2, m)"
| "pool_of _ = None"

fun feed_of :: "instruction \<Rightarrow> byte option" where
  "feed_of (UpdateAdminPrice admin asset price) = Some asset"
| "feed_of (CloseAdminPriceFeed admin asset) = Some asset"
| "feed_of _ = None"

fun vault_of :: "instruction \<Rightarrow> pubkey option" where
  "vault_of (BorrowAgainstCollateral v m pv ata owner n ct) = Some v"
| "vault_of (LiquidatePosition v m pv ata liquidator) = Some v"
| "vault_of _ = None"

text \<open>The accounts that addresses are derived from can be loaded.\<close>

definition loadable :: "ledger \<Rightarrow> instruction \<Rightarrow> bool" where
  "loadable L i \<longleftrightarrow>
     (case pool_of i of None \<Rightarrow> True | Some (j, m) \<Rightarrow> lg_pools L m \<noteq> None)
     \<and> (case feed_of i of None \<Rightarrow> True | Some asset \<Rightarrow> lg_feeds L asset \<noteq> None)
     \<and> (case vault_of i of None \<Rightarrow> True | Some v \<Rightarrow> lg_vaults L v \<noteq> None)"

definition fits :: "borsh_value option \<Rightarrow> borsh_value \<Rightarrow> bool" where
  "fits a v \<longleftrightarrow> a = None \<or> a = Some v"

definition arguments :: "instruction_rule \<Rightarrow> transaction_instruction \<Rightarrow> borsh_value list option" where
  "arguments r ix = map_option fst (borsh_args (ir_args r) (drop 8 (ix_data ix)))"

definition accepts :: "platform \<Rightarrow> instruction_rule \<Rightarrow> transaction_instruction \<Rightarrow> bool" where
  "accepts P r ix \<longleftrightarrow>
     ix_program_id ix = PROGRAM_ID P
     \<and> take 8 (ix_data ix) = sighash P (ir_name r)
     \<and> length (ir_accounts r) \<le> length (ix_keys ix)
     \<and> list_all2 (account_ok P (map meta_pubkey (ix_keys ix))) (ir_accounts r)
         (take (length (ir_accounts r)) (ix_keys ix))"

definition account_at :: "transaction_instruction \<Rightarrow> nat \<Rightarrow> pubkey" where
  "account_at ix j = meta_pubkey (ix_keys ix ! j)"

definition runs :: "platform \<Rightarrow> ledger \<Rightarrow> transaction_instruction \<Rightarrow> instruction \<Rightarrow> bool" where
  "runs P L ix i \<longleftrightarrow>
     accepts P (rule_of P L i) ix \<and> loadable L i
     \<and> list_all (\<lambda>(j, k). account_at ix j = k) (keys_of P i)
     \<and> (case arguments (rule_of P L i) ix of None \<Rightarrow> False
        | Some vals \<Rightarrow> list_all2 fits (args_of i) vals)"

definition processes ::
    "platform \<Rightarrow> chain_env \<Rightarrow> clock \<Rightarrow> transaction_instruction \<Rightarrow> ledger \<Rightarrow> ledger run \<Rightarrow> bool" where
  "processes P E c ix L r \<longleftrightarrow> (\<exists>i. runs P L ix i \<and> r = execute E c i L)"

section \<open>At most one call\<close>

definition instruction_names :: "string list" where
  "instruction_names =
     [''initialize_protocol'',
      ''register_vault'',
      ''initialize_risk_state'',
      ''verify_custody_proof'',
      ''refresh_custody_proof'',
      ''deposit_collateral'',
      ''withdraw_collateral'',
      ''reject_unverified_deposit'',
      ''update_backing_state'',
      ''trigger_risk_check'',
      ''circuit_breaker_freeze'',
      ''admin_unfreeze'',
      ''unfreeze_protocol_state'',
      ''close_vault'',
      ''approve_custody_signature'',
      ''initialize_lending_pool'',
      ''update_admin_price'',
      ''close_admin_price_feed'',
      ''initialize_admin_price_feed'',
      ''borrow_against_collateral'',
      ''repay_borrow'',
      ''liquidate_position'',
      ''register_btc_vault'',
      ''attest_btc_balance'',
      ''verify_btc_custody_proof'',
      ''refresh_btc_custody_proof'',
      ''borrow_against_btc_collateral'',
      ''repay_btc_borrow'',
      ''liquidate_btc_position'',
      ''finalize_btc_liquidation'',
      ''demo_create_message_approval'',
      ''demo_create_ciphertext'']"

fun handler_index :: "instruction \<Rightarrow> nat" where
  "handler_index (InitializeProtocol admin) = 0"
| "handler_index (RegisterVault owner dwallet asset) = 1"
| "handler_index (InitializeRiskState v owner threshold) = 2"
| "handler_index (VerifyCustodyProof v appr signer dwallet) = 3"
| "handler_index (RefreshCustodyProof v appr signer dwallet) = 4"
| "handler_index (DepositCollateral v depositor n) = 5"
| "handler_index (WithdrawCollateral v depositor n) = 6"
| "handler_index (RejectUnverifiedDeposit v depositor) = 7"
| "handler_index (UpdateBackingState v backing oracle) = 8"
| "handler_index (TriggerRiskCheck v backing threshold result payer) = 9"
| "handler_index (CircuitBreakerFreeze v caller) = 10"
| "handler_index (AdminUnfreeze v admin) = 11"
| "handler_index UnfreezeProtocolState = 12"
| "handler_index (CloseVault v owner) = 13"
| "handler_index (ApproveCustodySignature v dw appr owner dg md user scheme bump) = 14"
| "handler_index (InitializeLendingPool m pv admin asset liq price ltv thr bonus base slope) = 15"
| "handler_index (UpdateAdminPrice admin asset price) = 16"
| "handler_index (CloseAdminPriceFeed admin asset) = 17"
| "handler_index (InitializeAdminPriceFeed admin asset price) = 18"
| "handler_index (BorrowAgainstCollateral v m pv ata owner n ct) = 19"
| "handler_index (RepayBorrow v m pv ata owner n) = 20"
| "handler_index (LiquidatePosition v m pv ata liquidator) = 21"
| "handler_index (RegisterBtcVault owner dw dwkey addr) = 22"
| "handler_index (AttestBtcBalance v keeper sats height blk) = 23"
| "handler_index (VerifyBtcCustodyProof v appr owner) = 24"
| "handler_index (RefreshBtcCustodyProof v appr owner) = 25"
| "handler_index (BorrowAgainstBtcCollateral v m pv ata owner n ct) = 26"
| "handler_index (RepayBtcBorrow v m pv ata owner n) = 27"
| "handler_index (LiquidateBtcPosition v m pv ata dw appr liquidator sh md user bump) = 28"
| "handler_index (FinalizeBtcLiquidation v keeper height conf left) = 29"
| "handler_index (DemoCreateMessageApproval payer dwallet sg) = 30"
| "handler_index (DemoCreateCiphertext payer label n) = 31"

definition discriminators_distinct :: "platform \<Rightarrow> bool" where
  "discriminators_distinct P \<longleftrightarrow> distinct (map (sighash P) instruction_names)"

text \<open>Two accounts of the ledger do not lie at one address.\<close>

definition own_addresses :: "platform \<Rightarrow> ledger \<Rightarrow> bool" where
  "own_addresses P L \<longleftrightarrow>
     (\<forall>m m' k b b'. lg_pools L m \<noteq> None \<longrightarrow> lg_pools L m' \<noteq> None
        \<longrightarrow> find_program_address P [LENDING_POOL_PDA_SEED, to_buffer m] (PROGRAM_ID P) = Inr (k, b)
        \<longrightarrow> find_program_address P [LENDING_POOL_PDA_SEED, to_buffer m'] (PROGRAM_ID P) = Inr (k, b')
        \<longrightarrow> m = m')
     \<and> (\<forall>a a' k b b'. lg_feeds L a \<noteq> None \<longrightarrow> lg_feeds L a' \<noteq> None
        \<longrightarrow> find_program_address P [ADMIN_PRICE_FEED_PDA_SEED, [a]] (PROGRAM_ID P) = Inr (k, b)
        \<longrightarrow> find_program_address P [ADMIN_PRICE_FEED_PDA_SEED, [a']] (PROGRAM_ID P) = Inr (k, b')
        \<longrightarrow> a = a')"

lemmas rule_defs = rule_initialize_protocol_def rule_register_vault_def rule_initialize_risk_state_def
  rule_verify_custody_proof_def rule_refresh_custody_proof_def rule_deposit_collateral_def
  rule_withdraw_collateral_def rule_reject_unverified_deposit_def rule_update_backing_state_def
  rule_trigger_risk_check_def rule_circuit_breaker_freeze_def rule_admin_unfreeze_def
  rule_unfreeze_protocol_state_def rule_close_vault_def rule_approve_custody_signature_def
  rule_initialize_lending_pool_def rule_update_admin_price_def rule_close_admin_price_feed_def
  rule_initialize_admin_price_feed_def rule_borrow_against_collateral_def rule_repay_borrow_def
  rule_liquidate_position_def rule_register_btc_vault_def rule_attest_btc_balance_def
  rule_verify_btc_custody_proof_def rule_refresh_btc_custody_proof_def
  rule_borrow_against_btc_collateral_def rule_repay_btc_borrow_def
  rule_liquidate_btc_position_def rule_finalize_btc_liquidation_def
  rule_demo_create_message_approval_def rule_demo_create_ciphertext_def

lemma rule_name: "ir_name (rule_of P L i) = instruction_names ! handler_index i"
  by (cases i) (simp_all add: rule_defs instruction_names_def)

lemma handler_index_less: "handler_index i < length instruction_names"
  by (cases i) (simp_all add: instruction_names_def)

lemma same_handler:
  assumes "discriminators_distinct P" "runs P L ix i" "runs P L ix i'"
  shows "handler_index i = handler_index i'"
proof -
  have "map (sighash P) instruction_names ! handler_index i = map (sighash P) instruction_names ! handler_index i'"
    using assms(2,3) by (simp add: runs_def accepts_def rule_name handler_index_less)
  then show ?thesis
    using assms(1) handler_index_less [of i] handler_index_less [of i']
    by (simp add: discriminators_distinct_def nth_eq_iff_index_eq del: nth_map)
qed

text \<open>The shape of a call is that of its handler, and what it names besides determines it.\<close>

lemma same_shape:
  assumes "handler_index i = handler_index i'"
  shows "ir_args (rule_of P L i) = ir_args (rule_of P L i')"
    and "map fst (keys_of P i) = map fst (keys_of P i')"
    and "map (\<lambda>a. a = None) (args_of i) = map (\<lambda>a. a = None) (args_of i')"
    and "map_option fst (pool_of i) = map_option fst (pool_of i')"
    and "feed_of i = None \<longleftrightarrow> feed_of i' = None"
  using assms by (cases i; cases i'; simp add: rule_defs)+

lemma same_call:
  assumes "handler_index i = handler_index i'" "keys_of P i = keys_of P i'" "args_of i = args_of i'"
    and "pool_of i = pool_of i'" "feed_of i = feed_of i'"
  shows "i = i'"
  using assms by (cases i; cases i'; simp add: word_unat_eq_iff)

lemma same_keys:
  assumes "list_all (\<lambda>(j, k). f j = k) xs" "list_all (\<lambda>(j, k). f j = k) ys" "map fst xs = map fst ys"
  shows "xs = ys"
  using assms
proof (induction xs arbitrary: ys)
  case (Cons x xs)
  then show ?case by (cases ys) (auto split: prod.splits)
qed simp

lemma same_args:
  assumes "list_all2 fits xs vals" "list_all2 fits ys vals" "map (\<lambda>a. a = None) xs = map (\<lambda>a. a = None) ys"
  shows "xs = ys"
  using assms
proof (induction xs arbitrary: ys vals)
  case (Cons x xs)
  then show ?case
    by (cases ys; cases vals) (auto simp: fits_def)
qed simp

lemma runs_account:
  assumes "runs P L ix i" "j < length (ir_accounts (rule_of P L i))"
  shows "account_ok P (map meta_pubkey (ix_keys ix)) (ir_accounts (rule_of P L i) ! j) (ix_keys ix ! j)"
  using assms by (auto simp: runs_def accepts_def list_all2_conv_all_nth)

lemma runs_pool:
  assumes "runs P L ix i" "pool_of i = Some (j, m)"
  shows "lg_pools L m \<noteq> None
    \<and> (\<exists>b. find_program_address P [LENDING_POOL_PDA_SEED, to_buffer m] (PROGRAM_ID P) = Inr (account_at ix j, b))"
  using assms runs_account [OF assms(1), of j]
  by (cases i) (auto simp: runs_def loadable_def rule_defs acc_def account_ok_def address_ok_pda account_at_def
      simp del: address_ok.simps(3))

lemma runs_feed:
  assumes "runs P L ix i" "feed_of i = Some a"
  shows "lg_feeds L a \<noteq> None
    \<and> (\<exists>b. find_program_address P [ADMIN_PRICE_FEED_PDA_SEED, [a]] (PROGRAM_ID P) = Inr (account_at ix 0, b))"
  using assms runs_account [OF assms(1), of 0]
  by (cases i) (auto simp: runs_def loadable_def rule_defs acc_def account_ok_def address_ok_pda account_at_def
      to_uint8_def simp del: address_ok.simps(3))

lemma runs_unique:
  assumes "discriminators_distinct P" "own_addresses P L" "runs P L ix i" "runs P L ix i'"
  shows "i = i'"
proof (rule same_call)
  show same: "handler_index i = handler_index i'" by (rule same_handler [OF assms(1,3,4)])
  show "keys_of P i = keys_of P i'"
    using assms(3,4) same_shape(2) [OF same] by (intro same_keys [where f = "account_at ix"]) (auto simp: runs_def)
  have "arguments (rule_of P L i) ix = arguments (rule_of P L i') ix"
    by (simp add: arguments_def same_shape(1) [OF same])
  then show "args_of i = args_of i'"
    using assms(3,4) same_shape(3) [OF same]
    by (auto simp: runs_def split: option.splits intro: same_args)
  show "pool_of i = pool_of i'"
  proof (cases "pool_of i")
    case None
    then show ?thesis using same_shape(4) [OF same] by simp
  next
    case (Some p)
    then obtain j m m' where p: "pool_of i = Some (j, m)" "pool_of i' = Some (j, m')"
      using same_shape(4) [OF same] by (cases p; cases "pool_of i'") auto
    then show ?thesis
      using runs_pool [OF assms(3) p(1)] runs_pool [OF assms(4) p(2)]
        assms(2) [unfolded own_addresses_def, THEN conjunct1] by (metis option.inject)
  qed
  show "feed_of i = feed_of i'"
  proof (cases "feed_of i")
    case None
    then show ?thesis using same_shape(5) [OF same] by simp
  next
    case (Some a)
    then obtain a' where a': "feed_of i' = Some a'" using same_shape(5) [OF same] by auto
    then show ?thesis
      using Some runs_feed [OF assms(3) Some] runs_feed [OF assms(4) a']
        assms(2) [unfolded own_addresses_def, THEN conjunct2] by metis
  qed
qed

section \<open>What the frontend's transactions execute\<close>

fun intended :: "builder_call \<Rightarrow> instruction" where
  "intended (CallInitializeProtocol admin) = InitializeProtocol admin"
| "intended (CallRegisterVault owner dwalletId assetType) =
     RegisterVault owner dwalletId (word_of_int assetType)"
| "intended (CallDepositCollateral owner vaultPda amountLamports) =
     DepositCollateral vaultPda owner (word_of_int amountLamports)"
| "intended (CallVerifyCustodyProof owner vaultPda messageApprovalPda expectedDwalletId) =
     VerifyCustodyProof vaultPda messageApprovalPda owner expectedDwalletId"
| "intended (CallInitializeRiskState owner vaultPda thresholdCiphertext) =
     InitializeRiskState vaultPda owner thresholdCiphertext"
| "intended (CallUpdateBackingState owner vaultPda backingCiphertextPda newBackingAmount) =
     UpdateBackingState vaultPda backingCiphertextPda owner"
| "intended (CallTriggerRiskCheck owner vaultPda backingCiphertextPda thresholdCiphertextPda
       resultCiphertextPda) =
     TriggerRiskCheck vaultPda backingCiphertextPda thresholdCiphertextPda resultCiphertextPda owner"
| "intended (CallUnfreezeProtocolState admin) = UnfreezeProtocolState"
| "intended (CallApproveCustodySignature owner vaultPda callerProgram cpiAuthority dwalletProgram
       coordinator dwallet messageApproval messageApprovalBump messageDigest messageMetadataDigest
       userPubkey signatureScheme) =
     ApproveCustodySignature vaultPda dwallet messageApproval owner messageDigest
       (js_default messageMetadataDigest (replicate 32 0)) userPubkey (word_of_int signatureScheme)
       (word_of_int messageApprovalBump)"
| "intended (CallInitializeLendingPool admin borrowAssetMint poolTokenVault assetType initialLiquidity
       initialPriceUsd ltvBasisPoints liquidationThresholdBps liquidationBonusBps baseRateBps
       rateSlopeBps) =
     InitializeLendingPool borrowAssetMint poolTokenVault admin (word_of_int assetType)
       (word_of_int initialLiquidity) (word_of_int initialPriceUsd) (word_of_int ltvBasisPoints)
       (word_of_int liquidationThresholdBps) (word_of_int liquidationBonusBps)
       (word_of_int baseRateBps) (word_of_int rateSlopeBps)"
| "intended (CallCloseAdminPriceFeed admin assetType) = CloseAdminPriceFeed admin (word_of_int assetType)"
| "intended (CallUpdateAdminPrice admin assetType newPriceUsd) =
     UpdateAdminPrice admin (word_of_int assetType) (word_of_int newPriceUsd)"
| "intended (CallBorrowAgainstCollateral owner vaultPda assetType borrowAssetMint poolTokenVault
       borrowerTokenAccount amount healthCiphertext) =
     BorrowAgainstCollateral vaultPda borrowAssetMint poolTokenVault borrowerTokenAccount owner
       (word_of_int amount) (js_default healthCiphertext PublicKey_default)"
| "intended (CallRepayBorrow owner vaultPda borrowAssetMint poolTokenVault borrowerTokenAccount amount) =
     RepayBorrow vaultPda borrowAssetMint poolTokenVault borrowerTokenAccount owner (word_of_int amount)"
| "intended (CallLiquidatePosition liquidator vaultPda assetType borrowAssetMint poolTokenVault
       liquidatorTokenAccount) =
     LiquidatePosition vaultPda borrowAssetMint poolTokenVault liquidatorTokenAccount liquidator"
| "intended (CallDemoCreateMessageApproval payer dwalletId isSigned) =
     DemoCreateMessageApproval payer dwalletId isSigned"
| "intended (CallDemoCreateCiphertext payer label byteValue) =
     DemoCreateCiphertext payer (labelToBytes8 label) (word_of_int byteValue)"
| "intended (CallRegisterBtcVault owner ikaDwallet dwalletPubkey bitcoinAddress) =
     RegisterBtcVault owner ikaDwallet dwalletPubkey (text_encode bitcoinAddress)"
| "intended (CallAttestBtcBalance keeper btcVaultPda satoshis bitcoinBlockHeight bitcoinBlockHash) =
     AttestBtcBalance btcVaultPda keeper (word_of_int satoshis) (word_of_int bitcoinBlockHeight)
       bitcoinBlockHash"
| "intended (CallVerifyBtcCustodyProof owner btcVaultPda messageApprovalPda) =
     VerifyBtcCustodyProof btcVaultPda messageApprovalPda owner"
| "intended (CallRefreshBtcCustodyProof owner btcVaultPda messageApprovalPda) =
     RefreshBtcCustodyProof btcVaultPda messageApprovalPda owner"
| "intended (CallBorrowAgainstBtcCollateral owner btcVaultPda borrowAssetMint poolTokenVault
       borrowerTokenAccount amount healthCiphertext) =
     BorrowAgainstBtcCollateral btcVaultPda borrowAssetMint poolTokenVault borrowerTokenAccount owner
       (word_of_int amount) (js_default healthCiphertext PublicKey_default)"
| "intended (CallRepayBtcBorrow owner btcVaultPda borrowAssetMint poolTokenVault borrowerTokenAccount
       amount) =
     RepayBtcBorrow btcVaultPda borrowAssetMint poolTokenVault borrowerTokenAccount owner
       (word_of_int amount)"
| "intended (CallLiquidateBtcPosition liquidator btcVaultPda ikaDwallet borrowAssetMint poolTokenVault
       liquidatorTokenAccount coordinator messageApproval bitcoinSighash messageMetadataDigest
       userPubkey messageApprovalBump) =
     LiquidateBtcPosition btcVaultPda borrowAssetMint poolTokenVault liquidatorTokenAccount ikaDwallet
       messageApproval liquidator bitcoinSighash (js_default messageMetadataDigest (replicate 32 0))
       userPubkey (word_of_int messageApprovalBump)"
| "intended (CallFinalizeBtcLiquidation keeper btcVaultPda bitcoinTxId bitcoinBlockHeight confirmations
       remainingSatoshis) =
     FinalizeBtcLiquidation btcVaultPda keeper (word_of_int bitcoinBlockHeight)
       (word_of_int confirmations) (word_of_int remainingSatoshis)"

text \<open>The call agrees with the ledger: it names the asset the vault holds, and Ika's program.\<close>

fun consistent :: "platform \<Rightarrow> ledger \<Rightarrow> builder_call \<Rightarrow> bool" where
  "consistent P L (CallBorrowAgainstCollateral owner vaultPda assetType borrowAssetMint poolTokenVault
       borrowerTokenAccount amount healthCiphertext) \<longleftrightarrow>
     vault_asset L vaultPda = assetType"
| "consistent P L (CallLiquidatePosition liquidator vaultPda assetType borrowAssetMint poolTokenVault
       liquidatorTokenAccount) \<longleftrightarrow>
     vault_asset L vaultPda = assetType"
| "consistent P L (CallApproveCustodySignature owner vaultPda callerProgram cpiAuthority dwalletProgram
       coordinator dwallet messageApproval messageApprovalBump messageDigest messageMetadataDigest
       userPubkey signatureScheme) \<longleftrightarrow>
     dwalletProgram = IKA_DWALLET_PROGRAM_ID P"
| "consistent P L _ \<longleftrightarrow> True"

lemma admits_accepts:
  "admits P r ix vals \<Longrightarrow> accepts P r ix \<and> arguments r ix = Some vals"
  using list_all2_lengthD [of "account_ok P (map meta_pubkey (ix_keys ix))" "ir_accounts r" "ix_keys ix"]
  by (simp add: admits_def accepts_def arguments_def)

lemma unat_word_of_int: "unat (word_of_int v :: 'a::len word) = nat (v mod 2 ^ LENGTH('a))"
  by (simp add: unat_eq_nat_uint uint_word_of_int)

lemma intended_rule: "consistent P L c \<Longrightarrow> rule_of P L (intended c) = call_rule P c"
  by (cases c) (simp_all add: rule_defs to_uint8_def word_of_int_uint)

lemma intended_args: "list_all2 fits (args_of (intended c)) (call_args c)"
  by (cases c) (simp_all add: fits_def unat_word_of_int)

lemmas builder_defs = buildInitializeProtocolIx_def buildRegisterVaultIx_def buildDepositCollateralIx_def
  buildVerifyCustodyProofIx_def buildInitializeRiskStateIx_def buildUpdateBackingStateIx_def
  buildTriggerRiskCheckIx_def buildUnfreezeProtocolStateIx_def buildApproveCustodySignatureIx_def
  buildInitializeLendingPoolIx_def buildCloseAdminPriceFeedIx_def buildUpdateAdminPriceIx_def
  buildBorrowAgainstCollateralIx_def buildRepayBorrowIx_def buildLiquidatePositionIx_def
  buildDemoCreateMessageApprovalIx_def buildDemoCreateCiphertextIx_def buildRegisterBtcVaultIx_def
  buildAttestBtcBalanceIx_def buildVerifyBtcCustodyProofIx_def buildRefreshBtcCustodyProofIx_def
  buildBorrowAgainstBtcCollateralIx_def buildRepayBtcBorrowIx_def buildLiquidateBtcPositionIx_def
  buildFinalizeBtcLiquidationIx_def

lemma intended_keys:
  assumes "build_call P c = Inr ix" "consistent P L c"
  shows "list_all (\<lambda>(j, k). account_at ix j = k) (keys_of P (intended c))"
  using assms
  by (cases c) (auto simp: builder_defs first_of_eq_Inr js_bind_eq_Inr Let_def account_at_def split: if_splits)

lemma intended_runs:
  assumes "digests_long P" "call_ok P c" "consistent P L c" "loadable L (intended c)"
    and "build_call P c = Inr ix"
  shows "runs P L ix (intended c)"
proof -
  have "admits P (rule_of P L (intended c)) ix (call_args c)"
    using call_admitted [of P c] assms by (simp add: admitted_def intended_rule [OF assms(3)])
  from admits_accepts [OF this] intended_keys [OF assms(5,3)] intended_args [of c] assms(4)
  show ?thesis by (simp add: runs_def)
qed

text \<open>C10: every transaction the frontend builds executes exactly the handler it was built for: on a
  ledger that holds the accounts its addresses are derived from, the program processes it by running
  that handler with the parameters of the builder, reduced to their Rust width, and in no other way.\<close>

theorem frontend_call_executes:
  assumes "digests_long P" "discriminators_distinct P" "own_addresses P L"
    and "call_ok P c" "consistent P L c" "loadable L (intended c)"
    and "build_call P c = Inr ix"
  shows "processes P E now ix L r \<longleftrightarrow> r = execute E now (intended c) L"
  using intended_runs [OF assms(1,4-7)] runs_unique [OF assms(2,3)] by (auto simp: processes_def)

end
