(* ===== verification/Chain_Effects.thy ===== *)
theory Chain_Effects
  imports Chain_Program
begin

text \<open>
  What a successful lending instruction has checked and changed, one elimination rule per handler of
  \<open>lending.rs\<close> and \<open>btc_lending.rs\<close>.
\<close>

lemma borrow_effect:
  assumes "borrow_against_collateral E c v mint ptk btk owner amount ct L = Inr L'"
  obtains vault protocol pool feed borrower lams limit pool' debt scaled tot toks where
    "lg_vaults L v = Some vault" "lg_protocol L = Some protocol" "lg_pools L mint = Some pool"
    "lg_feeds L (vault_asset_type vault) = Some feed" "lg_tokens L btk = Some borrower"
    "vault_owner vault = owner" "pool_borrow_asset_mint pool = mint" "lg_positions L v = None"
    "ptk = pool_token_vault pool" "tok_mint borrower = mint" "tok_owner borrower = owner"
    "0 < amount" "\<not> proto_frozen protocol" "\<not> vault_frozen vault"
    "vault_proof_status vault = PROOF_STATUS_VERIFIED"
    "sint (clock_unix_timestamp c) - sint (vault_proof_timestamp vault) \<le> PROOF_EXPIRY_SECONDS"
    "sint (clock_unix_timestamp c) - sint (feed_updated_at feed) \<le> PRICE_STALENESS_SECONDS"
    "calculate_max_borrow (vault_deposited_amount vault) (feed_price_usd feed)
       (pool_ltv_basis_points pool) = Inr limit" "amount \<le> limit"
    "accrue_interest pool (clock_slot c) = Inr pool'"
    "current_debt (pool_total_borrowed pool') (pool_borrow_index pool') = Inr debt"
    "debt \<le> pool_total_liquidity pool'" "amount \<le> pool_total_liquidity pool' - debt"
    "to_scaled amount (pool_borrow_index pool') = Inr scaled"
    "checked_add (pool_total_borrowed pool') scaled = Inr tot"
    "env_token_transfer E (lg_tokens L) ptk btk (fst (lending_pool_pda E mint)) amount = Some toks"
    "L' = L\<lparr>lg_lamports := lams, lg_tokens := toks,
       lg_pools := (lg_pools L)(mint \<mapsto> pool'\<lparr>pool_total_borrowed := tot\<rparr>),
       lg_positions := (lg_positions L)(v \<mapsto> \<lparr>
         pos_vault = v, pos_owner = owner, pos_borrow_asset = pool_borrow_asset_mint pool',
         pos_principal = scaled, pos_borrowed_at = clock_unix_timestamp c,
         pos_last_updated_at = clock_unix_timestamp c,
         pos_borrow_index_snapshot = pool_borrow_index pool', pos_health_ciphertext = ct,
         pos_bump = snd (borrow_position_pda E v)\<rparr>)\<rparr>"
  using assms
  unfolding borrow_against_collateral_def run_success_env Let_def checked_age_Inr
  by (auto simp: checked_sub_def split: if_splits)

lemma borrow_btc_effect:
  assumes "borrow_against_btc_collateral E c v mint ptk btk owner amount ct L = Inr L'"
  obtains vault protocol pool feed att borrower lams limit pool' debt scaled tot toks where
    "lg_btc_vaults L v = Some vault" "lg_protocol L = Some protocol" "lg_pools L mint = Some pool"
    "lg_feeds L 0 = Some feed" "lg_attestations L v = Some att" "lg_tokens L btk = Some borrower"
    "btc_owner vault = owner" "pool_borrow_asset_mint pool = mint" "lg_btc_positions L v = None"
    "ptk = pool_token_vault pool" "tok_mint borrower = mint" "tok_owner borrower = owner"
    "0 < amount" "\<not> proto_frozen protocol" "\<not> btc_frozen vault"
    "btc_liquidation_initiated_at vault = 0" "btc_proof_status vault = PROOF_STATUS_VERIFIED"
    "sint (clock_unix_timestamp c) - sint (btc_proof_timestamp vault) \<le> PROOF_EXPIRY_SECONDS"
    "sint (clock_unix_timestamp c) - sint (att_attested_at_unix att) \<le> BTC_ATTESTATION_MAX_AGE_SECONDS"
    "sint (clock_unix_timestamp c) - sint (feed_updated_at feed) \<le> PRICE_STALENESS_SECONDS"
    "calculate_max_btc_borrow (att_satoshis att) (feed_price_usd feed)
       (pool_ltv_basis_points pool) = Inr limit" "amount \<le> limit"
    "accrue_interest pool (clock_slot c) = Inr pool'"
    "current_debt (pool_total_borrowed pool') (pool_borrow_index pool') = Inr debt"
    "debt \<le> pool_total_liquidity pool'" "amount \<le> pool_total_liquidity pool' - debt"
    "to_scaled amount (pool_borrow_index pool') = Inr scaled"
    "checked_add (pool_total_borrowed pool') scaled = Inr tot"
    "env_token_transfer E (lg_tokens L) ptk btk (fst (lending_pool_pda E mint)) amount = Some toks"
    "L' = L\<lparr>lg_lamports := lams, lg_tokens := toks,
       lg_pools := (lg_pools L)(mint \<mapsto> pool'\<lparr>pool_total_borrowed := tot\<rparr>),
       lg_btc_positions := (lg_btc_positions L)(v \<mapsto> \<lparr>
         pos_vault = v, pos_owner = owner, pos_borrow_asset = pool_borrow_asset_mint pool',
         pos_principal = scaled, pos_borrowed_at = clock_unix_timestamp c,
         pos_last_updated_at = clock_unix_timestamp c,
         pos_borrow_index_snapshot = pool_borrow_index pool', pos_health_ciphertext = ct,
         pos_bump = snd (btc_borrow_position_pda E v)\<rparr>)\<rparr>"
  using assms
  unfolding borrow_against_btc_collateral_def run_success_env Let_def checked_age_Inr
  by (auto simp: checked_sub_def split: if_splits)

text \<open>A repayment pays \<open>actual\<close> and takes \<open>part\<close> off the scaled principal: all of it when the debt is
  paid in full, what the amount scales to otherwise.\<close>

lemma part_spec:
  "(if all then Inr p else run_bind (of_chain (to_scaled a i)) (\<lambda>s. Inr (min s p))) = Inr part \<longleftrightarrow>
     part \<le> p \<and> (all \<longrightarrow> part = p) \<and> (\<not> all \<longrightarrow> (\<exists>s. to_scaled a i = Inr s \<and> part = min s p))"
  by (auto simp: run_success)

definition position_after :: "BorrowPosition \<Rightarrow> 64 word \<Rightarrow> clock \<Rightarrow> LendingPool \<Rightarrow> BorrowPosition option" where
  "position_after position part c pool =
     (if part = pos_principal position then None
      else Some (position\<lparr>pos_principal := pos_principal position - part,
             pos_last_updated_at := clock_unix_timestamp c,
             pos_borrow_index_snapshot := pool_borrow_index pool\<rparr>))"

lemma repay_effect:
  assumes "repay_borrow E c v mint ptk btk owner amount L = Inr L'"
  obtains pool position pool' debt actual part toks tot lams where
    "lg_pools L mint = Some pool" "lg_positions L v = Some position"
    "pool_borrow_asset_mint pool = mint" "ptk = pool_token_vault pool" "pos_owner position = owner"
    "pos_vault position = v"
    "accrue_interest pool (clock_slot c) = Inr pool'"
    "current_debt (pos_principal position) (pool_borrow_index pool') = Inr debt" "0 < debt"
    "actual = min amount debt" "0 < actual" "part \<le> pos_principal position"
    "actual = debt \<longrightarrow> part = pos_principal position"
    "actual \<noteq> debt \<longrightarrow> (\<exists>s. to_scaled actual (pool_borrow_index pool') = Inr s
       \<and> part = min s (pos_principal position))"
    "env_token_transfer E (lg_tokens L) btk ptk owner actual = Some toks"
    "checked_sub (pool_total_borrowed pool') part = Inr tot"
    "L' = L\<lparr>lg_tokens := toks, lg_lamports := lams,
       lg_pools := (lg_pools L)(mint \<mapsto> pool'\<lparr>pool_total_borrowed := tot\<rparr>),
       lg_positions := (lg_positions L)(v := position_after position part c pool')\<rparr>"
proof -
  obtain pool position pool' debt part toks tot where facts:
    "lg_pools L mint = Some pool" "lg_positions L v = Some position"
    "pool_borrow_asset_mint pool = mint" "ptk = pool_token_vault pool" "pos_owner position = owner"
    "pos_vault position = v"
    "accrue_interest pool (clock_slot c) = Inr pool'"
    "current_debt (pos_principal position) (pool_borrow_index pool') = Inr debt" "0 < debt"
    "0 < min amount debt"
    and part: "(if min amount debt = debt then Inr (pos_principal position)
       else run_bind (of_chain (to_scaled (min amount debt) (pool_borrow_index pool')))
         (\<lambda>s. Inr (min s (pos_principal position)))) = Inr part"
    and moved: "env_token_transfer E (lg_tokens L) btk ptk owner (min amount debt) = Some toks"
    "checked_sub (pool_total_borrowed pool') part = Inr tot"
    and L': "L' = (let L = L\<lparr>lg_tokens := toks,
           lg_pools := (lg_pools L)(mint \<mapsto> pool'\<lparr>pool_total_borrowed := tot\<rparr>)\<rparr> in
       if pos_principal position - part = 0
       then L\<lparr>lg_positions := (lg_positions L)(v := None),
              lg_lamports := env_close_account E (lg_lamports L) (fst (borrow_position_pda E v)) owner\<rparr>
       else L\<lparr>lg_positions := (lg_positions L)(v \<mapsto> position\<lparr>
           pos_principal := pos_principal position - part,
           pos_last_updated_at := clock_unix_timestamp c,
           pos_borrow_index_snapshot := pool_borrow_index pool'\<rparr>)\<rparr>)"
    using assms unfolding repay_borrow_def run_success_env Let_def
    by (elim exE conjE) (auto simp: checked_sub_def [of "pos_principal p" for p] split: if_splits)
  show ?thesis
    by (rule that [OF facts(1-9) refl facts(10) part [unfolded part_spec, THEN conjunct1]
          part [unfolded part_spec, THEN conjunct2, THEN conjunct1]
          part [unfolded part_spec, THEN conjunct2, THEN conjunct2] moved, of "if part = pos_principal position
        then env_close_account E (lg_lamports L) (fst (borrow_position_pda E v)) owner
        else lg_lamports L"])
      (simp add: L' Let_def position_after_def)
qed

definition u64_MAX :: "64 word" where "u64_MAX = 18446744073709551615"

lemma repay_btc_effect:
  assumes "repay_btc_borrow E c v mint ptk btk owner amount L = Inr L'"
  obtains pool position borrower pool' debt actual part toks tot lams where
    "lg_pools L mint = Some pool" "lg_btc_positions L v = Some position"
    "lg_tokens L btk = Some borrower"
    "pool_borrow_asset_mint pool = mint" "ptk = pool_token_vault pool" "pos_owner position = owner"
    "accrue_interest pool (clock_slot c) = Inr pool'"
    "current_debt (pos_principal position) (pool_borrow_index pool') = Inr debt" "0 < debt"
    "actual = (if amount = u64_MAX then min (tok_amount borrower) debt else min amount debt)"
    "0 < actual" "part \<le> pos_principal position"
    "amount = u64_MAX \<or> actual = debt \<longrightarrow> part = pos_principal position"
    "\<not> (amount = u64_MAX \<or> actual = debt) \<longrightarrow> (\<exists>s. to_scaled actual (pool_borrow_index pool') = Inr s
       \<and> part = min s (pos_principal position))"
    "env_token_transfer E (lg_tokens L) btk ptk owner actual = Some toks"
    "checked_sub (pool_total_borrowed pool') part = Inr tot"
    "L' = L\<lparr>lg_tokens := toks, lg_lamports := lams,
       lg_pools := (lg_pools L)(mint \<mapsto> pool'\<lparr>pool_total_borrowed := tot\<rparr>),
       lg_btc_positions := (lg_btc_positions L)(v := position_after position part c pool')\<rparr>"
proof -
  obtain pool position borrower pool' debt actual part toks tot where facts:
    "lg_pools L mint = Some pool" "lg_btc_positions L v = Some position"
    "lg_tokens L btk = Some borrower"
    "pool_borrow_asset_mint pool = mint" "ptk = pool_token_vault pool" "pos_owner position = owner"
    "accrue_interest pool (clock_slot c) = Inr pool'"
    "current_debt (pos_principal position) (pool_borrow_index pool') = Inr debt" "0 < debt"
    and actual: "actual = (if amount = u64_MAX then min (tok_amount borrower) debt else min amount debt)"
    "0 < actual"
    and part: "(if amount = u64_MAX \<or> actual = debt then Inr (pos_principal position)
       else run_bind (of_chain (to_scaled actual (pool_borrow_index pool')))
         (\<lambda>s. Inr (min s (pos_principal position)))) = Inr part"
    and moved: "env_token_transfer E (lg_tokens L) btk ptk owner actual = Some toks"
    "checked_sub (pool_total_borrowed pool') part = Inr tot"
    and L': "L' = (let L = L\<lparr>lg_tokens := toks,
           lg_pools := (lg_pools L)(mint \<mapsto> pool'\<lparr>pool_total_borrowed := tot\<rparr>)\<rparr> in
       if pos_principal position - part = 0
       then L\<lparr>lg_btc_positions := (lg_btc_positions L)(v := None),
              lg_lamports := env_close_account E (lg_lamports L) (fst (btc_borrow_position_pda E v)) owner\<rparr>
       else L\<lparr>lg_btc_positions := (lg_btc_positions L)(v \<mapsto> position\<lparr>
           pos_principal := pos_principal position - part,
           pos_last_updated_at := clock_unix_timestamp c,
           pos_borrow_index_snapshot := pool_borrow_index pool'\<rparr>)\<rparr>)"
    using assms unfolding repay_btc_borrow_def run_success_env Let_def u64_MAX_def
    by (elim exE conjE) (auto simp: checked_sub_def [of "pos_principal p" for p] split: if_splits)
  show ?thesis
    by (rule that [OF facts actual part [unfolded part_spec, THEN conjunct1]
          part [unfolded part_spec, THEN conjunct2, THEN conjunct1]
          part [unfolded part_spec, THEN conjunct2, THEN conjunct2] moved, of
        "if part = pos_principal position
         then env_close_account E (lg_lamports L) (fst (btc_borrow_position_pda E v)) owner
         else lg_lamports L"])
      (simp add: L' Let_def position_after_def)
qed

lemma liquidate_effect:
  assumes "liquidate_position E c v mint ptk ltk liquidator L = Inr L'"
  obtains vault protocol pool feed position pool' debt toks seizable movable seized tot lams where
    "lg_vaults L v = Some vault" "lg_protocol L = Some protocol" "lg_pools L mint = Some pool"
    "lg_feeds L (vault_asset_type vault) = Some feed" "lg_positions L v = Some position"
    "\<not> proto_frozen protocol" "0 < pos_principal position" "pos_owner position \<noteq> liquidator"
    "accrue_interest pool (clock_slot c) = Inr pool'"
    "current_debt (pos_principal position) (pool_borrow_index pool') = Inr debt"
    "is_liquidatable (vault_deposited_amount vault) (feed_price_usd feed) debt
       (pool_liquidation_threshold_bps pool') = Inr True"
    "env_token_transfer E (lg_tokens L) ltk ptk liquidator debt = Some toks"
    "collateral_with_bonus (vault_deposited_amount vault) (pool_liquidation_bonus_bps pool')
       = Inr seizable"
    "movable = (if env_minimum_balance E VaultAccount_LEN \<le> lg_lamports L v
       then lg_lamports L v - env_minimum_balance E VaultAccount_LEN else 0)"
    "seized = min seizable movable" "0 < seized" "seized \<le> vault_deposited_amount vault"
    "checked_sub (pool_total_borrowed pool') (pos_principal position) = Inr tot"
    "L' = L\<lparr>lg_tokens := toks, lg_lamports := lams,
       lg_pools := (lg_pools L)(mint \<mapsto> pool'\<lparr>pool_total_borrowed := tot\<rparr>),
       lg_positions := (lg_positions L)(v := None),
       lg_vaults := (lg_vaults L)(v \<mapsto> vault\<lparr>
         vault_deposited_amount := vault_deposited_amount vault - seized,
         vault_proof_status := PROOF_STATUS_PENDING\<rparr>)\<rparr>"
proof -
  define movable where "movable = (if env_minimum_balance E VaultAccount_LEN \<le> lg_lamports L v
       then lg_lamports L v - env_minimum_balance E VaultAccount_LEN else 0)"
  obtain vault protocol pool feed position pool' debt toks seizable tot lams where facts:
    "lg_vaults L v = Some vault" "lg_protocol L = Some protocol" "lg_pools L mint = Some pool"
    "lg_feeds L (vault_asset_type vault) = Some feed" "lg_positions L v = Some position"
    "\<not> proto_frozen protocol" "0 < pos_principal position" "pos_owner position \<noteq> liquidator"
    "accrue_interest pool (clock_slot c) = Inr pool'"
    "current_debt (pos_principal position) (pool_borrow_index pool') = Inr debt"
    "is_liquidatable (vault_deposited_amount vault) (feed_price_usd feed) debt
       (pool_liquidation_threshold_bps pool') = Inr True"
    "env_token_transfer E (lg_tokens L) ltk ptk liquidator debt = Some toks"
    "collateral_with_bonus (vault_deposited_amount vault) (pool_liquidation_bonus_bps pool')
       = Inr seizable"
    and seized: "0 < min seizable movable" "min seizable movable \<le> vault_deposited_amount vault"
    "checked_sub (pool_total_borrowed pool') (pos_principal position) = Inr tot"
    "L' = L\<lparr>lg_tokens := toks, lg_lamports := lams,
       lg_pools := (lg_pools L)(mint \<mapsto> pool'\<lparr>pool_total_borrowed := tot\<rparr>),
       lg_positions := (lg_positions L)(v := None),
       lg_vaults := (lg_vaults L)(v \<mapsto> vault\<lparr>
         vault_deposited_amount := vault_deposited_amount vault - min seizable movable,
         vault_proof_status := PROOF_STATUS_PENDING\<rparr>)\<rparr>"
    using assms unfolding liquidate_position_def run_success_env Let_def
      movable_def [symmetric] checked_sub_def [of "vault_deposited_amount p" for p]
    by (elim exE conjE) (auto split: if_splits)
  show ?thesis by (rule that [OF facts movable_def refl seized])
qed

lemma liquidate_btc_effect:
  assumes "liquidate_btc_position E c v mint ptk ltk dw appr liquidator digest md user bump L = Inr L'"
  obtains vault protocol pool feed att position pool' debt toks data seized tot where
    "lg_btc_vaults L v = Some vault" "lg_protocol L = Some protocol" "lg_pools L mint = Some pool"
    "lg_feeds L 0 = Some feed" "lg_attestations L v = Some att" "lg_btc_positions L v = Some position"
    "dw = btc_ika_dwallet vault" "\<not> proto_frozen protocol" "0 < pos_principal position"
    "pos_owner position \<noteq> liquidator" "btc_liquidation_initiated_at vault = 0"
    "accrue_interest pool (clock_slot c) = Inr pool'"
    "current_debt (pos_principal position) (pool_borrow_index pool') = Inr debt"
    "is_btc_liquidatable (att_satoshis att) (feed_price_usd feed) debt
       (pool_liquidation_threshold_bps pool') = Inr True"
    "env_token_transfer E (lg_tokens L) ltk ptk liquidator debt = Some toks"
    "seized_satoshis debt feed pool' att = Inr seized"
    "env_approve_message E (lg_data L) appr dw liquidator digest md user
       IKA_SIGNATURE_SCHEME_SECP256K1 bump = Some data"
    "checked_sub (pool_total_borrowed pool') (pos_principal position) = Inr tot"
    "L' = L\<lparr>lg_tokens := toks, lg_data := data,
       lg_pools := (lg_pools L)(mint \<mapsto> pool'\<lparr>pool_total_borrowed := tot\<rparr>),
       lg_btc_positions := (lg_btc_positions L)(v \<mapsto> position\<lparr>pos_principal := 0,
         pos_last_updated_at := clock_unix_timestamp c,
         pos_borrow_index_snapshot := pool_borrow_index pool'\<rparr>),
       lg_btc_vaults := (lg_btc_vaults L)(v \<mapsto> vault\<lparr>btc_frozen := True,
         btc_liquidation_initiated_at := clock_unix_timestamp c,
         btc_liquidation_sighash := digest\<rparr>)\<rparr>"
  using assms unfolding liquidate_btc_position_def run_success_env approve_message_Inr Let_def
  by (auto)

lemma finalize_effect:
  assumes "finalize_btc_liquidation E c v keeper height conf left L = Inr L'"
  obtains vault att position protocol lams where
    "lg_btc_vaults L v = Some vault" "lg_attestations L v = Some att"
    "lg_btc_positions L v = Some position" "lg_protocol L = Some protocol"
    "keeper = proto_admin protocol" "0 < sint (btc_liquidation_initiated_at vault)" "1 \<le> conf"
    "pos_principal position = 0"
    "L' = L\<lparr>
       lg_btc_vaults := (lg_btc_vaults L)(v \<mapsto> vault\<lparr>
         btc_deposited_satoshis := left, btc_last_attestation_slot := clock_slot c,
         btc_proof_status := PROOF_STATUS_PENDING, btc_proof_timestamp := 0, btc_frozen := False,
         btc_liquidation_initiated_at := 0, btc_liquidation_sighash := replicate 32 0\<rparr>),
       lg_attestations := (lg_attestations L)(v \<mapsto> att\<lparr>
         att_satoshis := left, att_bitcoin_block_height := height,
         att_attested_at_slot := clock_slot c, att_attested_at_unix := clock_unix_timestamp c,
         att_keeper := keeper\<rparr>),
       lg_btc_positions := (lg_btc_positions L)(v := None), lg_lamports := lams\<rparr>"
  using assms
  unfolding finalize_btc_liquidation_def run_success_env BTC_LIQUIDATION_MIN_CONFIRMATIONS_def
  by (elim exE conjE) (drule Inr_inject, rule that, assumption+, erule sym)

end
