(* ===== verification/Chain_Invariants.thy ===== *)
theory Chain_Invariants
  imports Chain_Effects
begin

text \<open>
  Invariants of the program's ledger, each an interpretation of \<open>ledger_invariant\<close>: the accounts are
  well formed, the debt of the pools is the debt of the positions, the
  counter of verified collateral covers the vaults, and a Bitcoin vault under liquidation can always
  be settled.
\<close>

section \<open>What the instructions leave alone\<close>

fun lends :: "instruction \<Rightarrow> bool" where
  "lends (InitializeLendingPool _ _ _ _ _ _ _ _ _ _ _) = True"
| "lends (BorrowAgainstCollateral _ _ _ _ _ _ _) = True"
| "lends (RepayBorrow _ _ _ _ _ _) = True"
| "lends (LiquidatePosition _ _ _ _ _) = True"
| "lends (BorrowAgainstBtcCollateral _ _ _ _ _ _ _) = True"
| "lends (RepayBtcBorrow _ _ _ _ _ _) = True"
| "lends (LiquidateBtcPosition _ _ _ _ _ _ _ _ _ _ _) = True"
| "lends (FinalizeBtcLiquidation _ _ _ _ _) = True"
| "lends _ = False"

lemmas vault_handlers =
  initialize_protocol_def register_vault_def on_vault_def run_verify_custody_proof_def
  run_refresh_custody_proof_def approve_custody_signature_def deposit_collateral_def
  withdraw_collateral_def reject_unverified_deposit_def close_vault_def circuit_breaker_freeze_def
  admin_unfreeze_def unfreeze_protocol_state_def initialize_risk_state_def update_backing_state_def
  trigger_risk_check_def run_demo_create_message_approval_def demo_create_ciphertext_def

lemmas feed_handlers =
  update_admin_price_def close_admin_price_feed_def initialize_admin_price_feed_def

lemmas btc_vault_handlers =
  register_btc_vault_def attest_btc_balance_def verify_btc_custody_proof_def
  refresh_btc_custody_proof_def

lemma lending_frame:
  assumes "execute E c ix L = Inr L'" and "\<not> lends ix"
  shows "lg_pools L' = lg_pools L \<and> lg_positions L' = lg_positions L
    \<and> lg_btc_positions L' = lg_btc_positions L"
  using assms
  by (cases ix)
    (auto simp: vault_handlers feed_handlers btc_vault_handlers run_success_env Let_def)

section \<open>Conservation of debt\<close>

definition pool_debt :: "ledger \<Rightarrow> nat" where
  "pool_debt L = total (\<lambda>p. unat (pool_total_borrowed p)) (lg_pools L)"

definition position_debt :: "ledger \<Rightarrow> nat" where
  "position_debt L = total (\<lambda>p. unat (pos_principal p)) (lg_positions L)
     + total (\<lambda>p. unat (pos_principal p)) (lg_btc_positions L)"

definition debt_balanced :: "ledger \<Rightarrow> bool" where
  "debt_balanced L \<longleftrightarrow> pool_debt L = position_debt L"

lemma unat_checked_add: "checked_add a b = Inr c \<Longrightarrow> unat c = unat a + unat b"
  by (auto simp: checked_add_def unat_add_lem [THEN iffD1] split: if_splits)

lemma unat_checked_sub: "checked_sub a b = Inr c \<Longrightarrow> unat a = unat c + unat b"
  by (auto simp: checked_sub_def unat_sub word_le_nat_alt split: if_splits)

lemma accrue_total_borrowed:
  "accrue_interest pool slot = Inr pool' \<Longrightarrow> pool_total_borrowed pool' = pool_total_borrowed pool"
  by (erule accrue_interest_cases) simp

text \<open>A pool takes on, or gets rid of, the same number of scaled units as the positions.\<close>

lemma pool_debt_add:
  assumes "lg_pools L mint = Some pool" "accrue_interest pool slot = Inr pool'"
    and "checked_add (pool_total_borrowed pool') n = Inr tot"
  shows "total (\<lambda>p. unat (pool_total_borrowed p))
      ((lg_pools L)(mint \<mapsto> pool'\<lparr>pool_total_borrowed := tot\<rparr>)) = pool_debt L + unat n"
  using total_replace [where m = "lg_pools L", OF assms(1), of "\<lambda>p. unat (pool_total_borrowed p)"
      "pool'\<lparr>pool_total_borrowed := tot\<rparr>"]
    unat_checked_add [OF assms(3)] accrue_total_borrowed [OF assms(2)]
  by (simp add: pool_debt_def)

lemma pool_debt_sub:
  assumes "lg_pools L mint = Some pool" "accrue_interest pool slot = Inr pool'"
    and "checked_sub (pool_total_borrowed pool') n = Inr tot"
  shows "total (\<lambda>p. unat (pool_total_borrowed p))
      ((lg_pools L)(mint \<mapsto> pool'\<lparr>pool_total_borrowed := tot\<rparr>)) + unat n = pool_debt L"
  using total_replace [where m = "lg_pools L", OF assms(1), of "\<lambda>p. unat (pool_total_borrowed p)"
      "pool'\<lparr>pool_total_borrowed := tot\<rparr>"]
    unat_checked_sub [OF assms(3)] accrue_total_borrowed [OF assms(2)]
  by (simp add: pool_debt_def)

lemma position_after_debt:
  assumes "m v = Some position" "part \<le> pos_principal position"
  shows "total (\<lambda>p. unat (pos_principal p)) (m(v := position_after position part c pool)) + unat part
     = total (\<lambda>p. unat (pos_principal p)) m"
proof (cases "part = pos_principal position")
  case True
  then show ?thesis using total_delete [where m = m, OF assms(1)] by (simp add: position_after_def)
next
  case False
  have "unat (pos_principal position - part) + unat part = unat (pos_principal position)"
    using assms(2) by (simp add: unat_sub word_le_nat_alt)
  with False show ?thesis
    using total_replace [where m = m, OF assms(1), of "\<lambda>p. unat (pos_principal p)"
        "the (position_after position part c pool)"]
    by (simp add: position_after_def)
qed

lemmas debt_defs = debt_balanced_def position_debt_def pool_debt_def

lemma borrow_debt:
  assumes "borrow_against_collateral E c v mint ptk btk owner amount ct L = Inr L'"
  shows "pool_debt L' + position_debt L = pool_debt L + position_debt L'"
  using assms
proof (cases rule: borrow_effect)
  case (1 vault protocol pool feed borrower lams limit pool' debt scaled tot toks)
  show ?thesis
    using pool_debt_add [OF 1(3,20,25)] 1(8) by (simp add: debt_defs total_insert 1(27))
qed

lemma borrow_btc_debt:
  assumes "borrow_against_btc_collateral E c v mint ptk btk owner amount ct L = Inr L'"
  shows "pool_debt L' + position_debt L = pool_debt L + position_debt L'"
  using assms
proof (cases rule: borrow_btc_effect)
  case (1 vault protocol pool feed att borrower lams limit pool' debt scaled tot toks)
  show ?thesis
    using pool_debt_add [OF 1(3,23,28)] 1(9) by (simp add: debt_defs total_insert 1(30))
qed

lemma repay_debt:
  assumes "repay_borrow E c v mint ptk btk owner amount L = Inr L'"
  shows "pool_debt L' + position_debt L = pool_debt L + position_debt L'"
  using assms
proof (cases rule: repay_effect)
  case (1 pool position pool' debt actual part toks tot lams)
  show ?thesis
    using pool_debt_sub [OF 1(1,7,16)] position_after_debt [where m = "lg_positions L", OF 1(2,12), of c pool']
    by (simp add: debt_defs 1(17))
qed

lemma repay_btc_debt:
  assumes "repay_btc_borrow E c v mint ptk btk owner amount L = Inr L'"
  shows "pool_debt L' + position_debt L = pool_debt L + position_debt L'"
  using assms
proof (cases rule: repay_btc_effect)
  case (1 pool position borrower pool' debt actual part toks tot lams)
  show ?thesis
    using pool_debt_sub [OF 1(1,7,16)] position_after_debt [where m = "lg_btc_positions L", OF 1(2,12), of c pool']
    by (simp add: debt_defs 1(17))
qed

lemma liquidate_debt:
  assumes "liquidate_position E c v mint ptk ltk liquidator L = Inr L'"
  shows "pool_debt L' + position_debt L = pool_debt L + position_debt L'"
  using assms
proof (cases rule: liquidate_effect)
  case (1 vault protocol pool feed position pool' debt toks seizable movable seized tot lams)
  show ?thesis
    using pool_debt_sub [OF 1(3,9,18)] total_delete [where m = "lg_positions L", OF 1(5), of "\<lambda>p. unat (pos_principal p)"]
    by (simp add: debt_defs 1(19))
qed

lemma liquidate_btc_debt:
  assumes "liquidate_btc_position E c v mint ptk ltk dw appr liquidator digest md user bump L = Inr L'"
  shows "pool_debt L' + position_debt L = pool_debt L + position_debt L'"
  using assms
proof (cases rule: liquidate_btc_effect)
  case (1 vault protocol pool feed att position pool' debt toks data seized tot)
  show ?thesis
    using pool_debt_sub [OF 1(3,12,18)] total_replace [where m = "lg_btc_positions L", OF 1(6), of "\<lambda>p. unat (pos_principal p)"
        "position\<lparr>pos_principal := 0, pos_last_updated_at := clock_unix_timestamp c,
           pos_borrow_index_snapshot := pool_borrow_index pool'\<rparr>"]
    by (simp add: debt_defs 1(19))
qed

lemma finalize_debt:
  assumes "finalize_btc_liquidation E c v keeper height conf left L = Inr L'"
  shows "pool_debt L' + position_debt L = pool_debt L + position_debt L'"
  using assms
proof (cases rule: finalize_effect)
  case (1 vault att position protocol lams)
  show ?thesis
    using total_delete [where m = "lg_btc_positions L", OF 1(3), of "\<lambda>p. unat (pos_principal p)"] by (simp add: debt_defs 1(8,9))
qed

lemma new_pool_debt:
  assumes "initialize_lending_pool E c m pv admin asset liq price ltv thr bonus base slope L = Inr L'"
  shows "pool_debt L' + position_debt L = pool_debt L + position_debt L'"
  using assms
  by (auto simp: initialize_lending_pool_def run_success_env debt_defs total_insert)

lemma debt_step:
  assumes "execute E c ix L = Inr L'"
  shows "pool_debt L' + position_debt L = pool_debt L + position_debt L'"
proof (cases "lends ix")
  case True
  then show ?thesis using assms
    by (cases ix) (simp_all add: borrow_debt borrow_btc_debt repay_debt repay_btc_debt liquidate_debt
        liquidate_btc_debt finalize_debt new_pool_debt)
next
  case False
  with lending_frame [OF assms] show ?thesis by (simp add: debt_defs)
qed

interpretation debt: ledger_invariant E debt_balanced for E
  using debt_step
  by unfold_locales (simp_all add: debt_balanced_def no_program_accounts_def pool_debt_def
      position_debt_def, metis add_right_cancel add.commute)

text \<open>C1: The units the pools have lent out are the units the positions owe, to the last one, in every
  ledger that can be reached.\<close>

theorem debt_conserved:
  assumes "reachable E L"
  shows "pool_debt L = position_debt L"
  using debt.always [OF assms] by (simp add: debt_balanced_def)

section \<open>Well-formed ledgers\<close>

definition everywhere :: "('k \<Rightarrow> 'a \<Rightarrow> bool) \<Rightarrow> ('k \<Rightarrow> 'a option) \<Rightarrow> bool" where
  "everywhere P m \<longleftrightarrow> (\<forall>k x. m k = Some x \<longrightarrow> P k x)"

lemma everywhere_empty [simp]: "everywhere P Map.empty"
  by (simp add: everywhere_def)

lemma everywhere_update: "everywhere P m \<Longrightarrow> P k x \<Longrightarrow> everywhere P (m(k \<mapsto> x))"
  by (simp add: everywhere_def)

lemma everywhere_delete: "everywhere P m \<Longrightarrow> everywhere P (m(k := None))"
  by (simp add: everywhere_def)

lemma everywhereD: "everywhere P m \<Longrightarrow> m k = Some x \<Longrightarrow> P k x"
  by (simp add: everywhere_def)

definition pool_ok :: "pubkey \<Rightarrow> LendingPool \<Rightarrow> bool" where
  "pool_ok mint p \<longleftrightarrow> pool_borrow_asset p = mint \<and> pool_borrow_asset_mint p = mint
     \<and> LendingPool_RAY \<le> pool_borrow_index p
     \<and> validate_bps (pool_ltv_basis_points p) (pool_liquidation_threshold_bps p)
         (pool_liquidation_bonus_bps p) = Inr ()"

definition feed_ok :: "byte \<Rightarrow> AdminPriceFeed \<Rightarrow> bool" where
  "feed_ok asset f \<longleftrightarrow> feed_asset_type f = asset \<and> validate_asset_type asset = Inr ()
     \<and> 0 < feed_price_usd f"

definition status_ok :: "byte \<Rightarrow> bool" where
  "status_ok st \<longleftrightarrow> st = PROOF_STATUS_PENDING \<or> st = PROOF_STATUS_VERIFIED"

definition vault_ok :: "pubkey \<Rightarrow> VaultState \<Rightarrow> bool" where
  "vault_ok key v \<longleftrightarrow> vault_vault_id v = key \<and> validate_asset_type (vault_asset_type v) = Inr ()
     \<and> status_ok (vault_proof_status v)"

definition position_ok :: "pubkey \<Rightarrow> BorrowPosition \<Rightarrow> bool" where
  "position_ok key p \<longleftrightarrow> pos_vault p = key"

definition btc_vault_ok :: "pubkey \<Rightarrow> BtcVaultState \<Rightarrow> bool" where
  "btc_vault_ok key v \<longleftrightarrow> btc_vault_id v = key \<and> status_ok (btc_proof_status v)
     \<and> length (btc_bitcoin_address v) = 64"

text \<open>A Bitcoin vault and its attestation are created together and name the same address.\<close>

definition attested_ok :: "pubkey \<Rightarrow> BtcVaultState option \<Rightarrow> BitcoinBalanceAttestation option \<Rightarrow> bool" where
  "attested_ok key v a \<longleftrightarrow> (case (v, a) of
       (None, None) \<Rightarrow> True
     | (Some v, Some a) \<Rightarrow> att_btc_vault a = key \<and> att_bitcoin_address a = btc_bitcoin_address v
         \<and> att_bitcoin_address_len a = btc_bitcoin_address_len v
     | _ \<Rightarrow> False)"

definition ledger_typed :: "ledger \<Rightarrow> bool" where
  "ledger_typed L \<longleftrightarrow> everywhere pool_ok (lg_pools L) \<and> everywhere feed_ok (lg_feeds L)
     \<and> everywhere vault_ok (lg_vaults L) \<and> everywhere position_ok (lg_positions L)
     \<and> everywhere btc_vault_ok (lg_btc_vaults L) \<and> everywhere position_ok (lg_btc_positions L)
     \<and> (\<forall>k. attested_ok k (lg_btc_vaults L k) (lg_attestations L k))
     \<and> (lg_protocol L = None \<longrightarrow> lg_vaults L = Map.empty \<and> lg_btc_vaults L = Map.empty)"

lemmas typed_defs = pool_ok_def feed_ok_def vault_ok_def position_ok_def btc_vault_ok_def status_ok_def

lemma accrue_pool_ok: "accrue_interest pool slot = Inr pool' \<Longrightarrow> pool_ok mint pool
    \<Longrightarrow> pool_ok mint (pool'\<lparr>pool_total_borrowed := n\<rparr>)"
  by (erule accrue_interest_cases) (auto simp: pool_ok_def intro: order.trans)

lemma verify_ok: "verify_custody_proof v s k d dw now = Done v' \<Longrightarrow> vault_ok key v \<Longrightarrow> vault_ok key v'"
  "refresh_custody_proof v s k d dw now = Done v' \<Longrightarrow> vault_ok key v \<Longrightarrow> vault_ok key v'"
  by (auto simp: verify_custody_proof_def refresh_custody_proof_def Let_def vault_ok_def status_ok_def
      split: if_splits outcome.splits)

lemma feed_update_ok:
  "everywhere feed_ok m \<Longrightarrow> m a = Some f \<Longrightarrow> 0 < price \<Longrightarrow>
     everywhere feed_ok (m(a \<mapsto> f\<lparr>feed_price_usd := price, feed_updated_at := t\<rparr>))"
  using everywhereD [of feed_ok m a f] by (intro everywhere_update) (simp_all add: feed_ok_def)

lemma feed_instructions_typed:
  assumes "ledger_typed L"
  shows "initialize_lending_pool E c m pv ad asset liq price ltv thr bonus base slope L = Inr L'
      \<Longrightarrow> ledger_typed L'"
    and "update_admin_price c ad asset price L = Inr L' \<Longrightarrow> ledger_typed L'"
    and "close_admin_price_feed E ad asset L = Inr L' \<Longrightarrow> ledger_typed L'"
    and "initialize_admin_price_feed E c ad asset price L = Inr L' \<Longrightarrow> ledger_typed L'"
  subgoal using assms
    by (auto simp: initialize_lending_pool_def run_success_env ledger_typed_def pool_ok_def feed_ok_def
        intro!: everywhere_update)
  subgoal using assms
    by (auto simp: feed_handlers run_success_env ledger_typed_def intro: feed_update_ok)
  subgoal using assms
    by (auto simp: feed_handlers run_success_env ledger_typed_def intro: everywhere_delete)
  subgoal using assms
    by (auto simp: feed_handlers run_success_env ledger_typed_def feed_ok_def intro!: everywhere_update)
  done

lemma position_after_ok:
  assumes "everywhere position_ok m" "m v = Some position"
  shows "everywhere position_ok (m(v := position_after position part c pool))"
  using assms everywhereD [OF assms]
  by (auto simp: position_after_def position_ok_def intro!: everywhere_update everywhere_delete)

lemma lending_typed:
  assumes "ledger_typed L"
  shows "borrow_against_collateral E c v mint ptk btk owner amount ct L = Inr L' \<Longrightarrow> ledger_typed L'"
    and "repay_borrow E c v mint ptk btk owner amount L = Inr L' \<Longrightarrow> ledger_typed L'"
    and "borrow_against_btc_collateral E c v mint ptk btk owner amount ct L = Inr L' \<Longrightarrow> ledger_typed L'"
    and "repay_btc_borrow E c v mint ptk btk owner amount L = Inr L' \<Longrightarrow> ledger_typed L'"
  using assms
  by (auto elim!: borrow_effect repay_effect borrow_btc_effect repay_btc_effect simp: ledger_typed_def
      position_ok_def [of v] intro!: everywhere_update position_after_ok accrue_pool_ok dest: everywhereD)

lemma attested_update:
  assumes "\<forall>k. attested_ok k (vs k) (as k)" "vs v = Some vault" "as v = Some att"
    and "att_btc_vault att' = att_btc_vault att" "att_bitcoin_address att' = att_bitcoin_address att"
    "att_bitcoin_address_len att' = att_bitcoin_address_len att"
    "btc_bitcoin_address vault' = btc_bitcoin_address vault"
    "btc_bitcoin_address_len vault' = btc_bitcoin_address_len vault"
  shows "attested_ok k ((vs(v \<mapsto> vault')) k) ((as(v \<mapsto> att')) k)"
  using assms(1) [rule_format, of v] assms by (auto simp: attested_ok_def)

lemma attested_vault_update:
  assumes "\<forall>k. attested_ok k (vs k) (as k)" "vs v = Some vault"
    "btc_bitcoin_address vault' = btc_bitcoin_address vault"
    "btc_bitcoin_address_len vault' = btc_bitcoin_address_len vault"
  shows "attested_ok k ((vs(v \<mapsto> vault')) k) (as k)"
  using assms(1) [rule_format, of v] assms by (auto simp: attested_ok_def split: option.splits)

lemma vault_update_ok:
  assumes "everywhere vault_ok m" "m v = Some vault"
    and "vault_vault_id vault' = vault_vault_id vault" "vault_asset_type vault' = vault_asset_type vault"
    "status_ok (vault_proof_status vault) \<longrightarrow> status_ok (vault_proof_status vault')"
  shows "everywhere vault_ok (m(v \<mapsto> vault'))"
  using everywhereD [OF assms(1,2)] assms by (intro everywhere_update) (simp_all add: vault_ok_def)

lemma btc_vault_update_ok:
  assumes "everywhere btc_vault_ok m" "m v = Some vault"
    and "btc_vault_id vault' = btc_vault_id vault"
    "btc_bitcoin_address vault' = btc_bitcoin_address vault"
    "status_ok (btc_proof_status vault) \<longrightarrow> status_ok (btc_proof_status vault')"
  shows "everywhere btc_vault_ok (m(v \<mapsto> vault'))"
  using everywhereD [OF assms(1,2)] assms by (intro everywhere_update) (simp_all add: btc_vault_ok_def)

lemma status_ok_simps [simp]: "status_ok PROOF_STATUS_PENDING" "status_ok PROOF_STATUS_VERIFIED"
  by (simp_all add: status_ok_def)

lemma liquidate_typed:
  assumes "ledger_typed L" "liquidate_position E c v mint ptk ltk liquidator L = Inr L'"
  shows "ledger_typed L'"
  using assms(2)
proof (cases rule: liquidate_effect)
  case (1 vault protocol pool feed position pool' debt toks seizable movable seized tot lams)
  have t: "everywhere pool_ok (lg_pools L)" "everywhere vault_ok (lg_vaults L)"
    using assms(1) by (simp_all add: ledger_typed_def)
  have "everywhere pool_ok ((lg_pools L)(mint \<mapsto> pool'\<lparr>pool_total_borrowed := tot\<rparr>))"
    by (intro everywhere_update t accrue_pool_ok [OF 1(9)] everywhereD [OF t(1) 1(3)])
  moreover have "everywhere vault_ok ((lg_vaults L)(v \<mapsto> vault\<lparr>
         vault_deposited_amount := vault_deposited_amount vault - seized,
         vault_proof_status := PROOF_STATUS_PENDING\<rparr>))"
    by (rule vault_update_ok [OF t(2) 1(1)]) simp_all
  ultimately show ?thesis
    using assms(1) 1(2) by (auto simp: 1(19) ledger_typed_def intro: everywhere_delete)
qed

lemma liquidate_btc_typed:
  assumes "ledger_typed L"
    and "liquidate_btc_position E c v mint ptk ltk dw appr liquidator digest md user bump L = Inr L'"
  shows "ledger_typed L'"
  using assms(2)
proof (cases rule: liquidate_btc_effect)
  case (1 vault protocol pool feed att position pool' debt toks data seized tot)
  have t: "everywhere pool_ok (lg_pools L)" "everywhere btc_vault_ok (lg_btc_vaults L)"
      "everywhere position_ok (lg_btc_positions L)"
      "\<forall>k. attested_ok k (lg_btc_vaults L k) (lg_attestations L k)"
    using assms(1) by (simp_all add: ledger_typed_def)
  define vault' where "vault' = vault\<lparr>btc_frozen := True,
         btc_liquidation_initiated_at := clock_unix_timestamp c, btc_liquidation_sighash := digest\<rparr>"
  define position' where "position' = position\<lparr>pos_principal := 0,
         pos_last_updated_at := clock_unix_timestamp c,
         pos_borrow_index_snapshot := pool_borrow_index pool'\<rparr>"
  have "everywhere pool_ok ((lg_pools L)(mint \<mapsto> pool'\<lparr>pool_total_borrowed := tot\<rparr>))"
    by (intro everywhere_update t accrue_pool_ok [OF 1(12)] everywhereD [OF t(1) 1(3)])
  moreover have "everywhere btc_vault_ok ((lg_btc_vaults L)(v \<mapsto> vault'))"
    by (rule btc_vault_update_ok [OF t(2) 1(1)]) (simp_all add: vault'_def)
  moreover have "\<forall>k. attested_ok k (((lg_btc_vaults L)(v \<mapsto> vault')) k) (lg_attestations L k)"
    by (intro allI, rule attested_vault_update [OF t(4) 1(1)]) (simp_all add: vault'_def)
  moreover have "everywhere position_ok ((lg_btc_positions L)(v \<mapsto> position'))"
    using everywhereD [OF t(3) 1(6)]
    by (intro everywhere_update t) (simp add: position_ok_def position'_def)
  ultimately show ?thesis
    using assms(1) 1(2) by (simp add: 1(19) ledger_typed_def flip: vault'_def position'_def)
qed

lemma finalize_typed:
  assumes "ledger_typed L"
    and "finalize_btc_liquidation E c v keeper height conf left L = Inr L'"
  shows "ledger_typed L'"
  using assms(2)
proof (cases rule: finalize_effect)
  case (1 vault att position protocol lams)
  have t: "everywhere btc_vault_ok (lg_btc_vaults L)"
      "\<forall>k. attested_ok k (lg_btc_vaults L k) (lg_attestations L k)"
    using assms(1) by (simp_all add: ledger_typed_def)
  define vault' where "vault' = vault\<lparr>btc_deposited_satoshis := left,
         btc_last_attestation_slot := clock_slot c,
         btc_proof_status := PROOF_STATUS_PENDING, btc_proof_timestamp := 0, btc_frozen := False,
         btc_liquidation_initiated_at := 0, btc_liquidation_sighash := replicate 32 0\<rparr>"
  define att' where "att' = att\<lparr>att_satoshis := left, att_bitcoin_block_height := height,
         att_attested_at_slot := clock_slot c, att_attested_at_unix := clock_unix_timestamp c,
         att_keeper := keeper\<rparr>"
  have "everywhere btc_vault_ok ((lg_btc_vaults L)(v \<mapsto> vault'))"
    by (rule btc_vault_update_ok [OF t(1) 1(1)]) (simp_all add: vault'_def)
  moreover have "\<forall>k. attested_ok k (((lg_btc_vaults L)(v \<mapsto> vault')) k) (((lg_attestations L)(v \<mapsto> att')) k)"
    by (intro allI, rule attested_update [OF t(2) 1(1,2)]) (simp_all add: vault'_def att'_def)
  ultimately show ?thesis
    using assms(1) 1(4)
    by (simp add: 1(9) ledger_typed_def everywhere_delete flip: vault'_def att'_def)
qed

lemma validate_asset_type_iff:
  "validate_asset_type a = Inr () \<longleftrightarrow> a = 0 \<or> a = 1 \<or> a = 2"
  by (simp add: validate_asset_type_def)

lemma on_vault_typed:
  assumes "ledger_typed L" "on_vault f v L = Inr L'"
    and "\<And>vault vault'. f vault = Inr vault' \<Longrightarrow> vault_ok v vault \<Longrightarrow> vault_ok v vault'"
  shows "ledger_typed L'"
proof -
  obtain vault vault' where "lg_vaults L v = Some vault" "f vault = Inr vault'"
      and L': "L' = L\<lparr>lg_vaults := (lg_vaults L)(v \<mapsto> vault')\<rparr>"
    using assms(2) by (auto simp: on_vault_def run_success)
  moreover have "everywhere vault_ok (lg_vaults L)" using assms(1) by (simp add: ledger_typed_def)
  ultimately have "everywhere vault_ok ((lg_vaults L)(v \<mapsto> vault'))"
    by (intro everywhere_update) (auto dest: everywhereD intro: assms(3))
  with \<open>lg_vaults L v = Some vault\<close> show ?thesis
    using assms(1) by (auto simp: L' ledger_typed_def)
qed

lemma vault_instructions_typed:
  assumes "ledger_typed L"
  shows "initialize_protocol E ad L = Inr L' \<Longrightarrow> ledger_typed L'"
    and "register_vault E owner dwallet asset L = Inr L' \<Longrightarrow> ledger_typed L'"
    and "run_verify_custody_proof c v appr signer dwallet L = Inr L' \<Longrightarrow> ledger_typed L'"
    and "run_refresh_custody_proof c v appr signer dwallet L = Inr L' \<Longrightarrow> ledger_typed L'"
    and "approve_custody_signature E v dw appr owner dg md user scheme bump L = Inr L'
      \<Longrightarrow> ledger_typed L'"
    and "deposit_collateral c v depositor n L = Inr L' \<Longrightarrow> ledger_typed L'"
    and "withdraw_collateral v depositor n L = Inr L' \<Longrightarrow> ledger_typed L'"
    and "reject_unverified_deposit v depositor L = Inr L' \<Longrightarrow> ledger_typed L'"
    and "close_vault E v owner L = Inr L' \<Longrightarrow> ledger_typed L'"
    and "circuit_breaker_freeze v caller L = Inr L' \<Longrightarrow> ledger_typed L'"
    and "admin_unfreeze v caller L = Inr L' \<Longrightarrow> ledger_typed L'"
    and "unfreeze_protocol_state L = Inr L' \<Longrightarrow> ledger_typed L'"
    and "initialize_risk_state E v owner threshold L = Inr L' \<Longrightarrow> ledger_typed L'"
    and "update_backing_state v backing oracle L = Inr L' \<Longrightarrow> ledger_typed L'"
    and "trigger_risk_check c v backing threshold res payer L = Inr L' \<Longrightarrow> ledger_typed L'"
    and "run_demo_create_message_approval E c payer dwallet sg L = Inr L' \<Longrightarrow> ledger_typed L'"
    and "demo_create_ciphertext E payer label b L = Inr L' \<Longrightarrow> ledger_typed L'"
proof -
  note t = assms [unfolded ledger_typed_def]
  show "register_vault E owner dwallet asset L = Inr L' \<Longrightarrow> ledger_typed L'"
    using t by (auto simp: register_vault_def run_success_env Let_def ledger_typed_def vault_ok_def
        validate_asset_type_iff simp del: disj_not1 intro!: everywhere_update)
  show "run_verify_custody_proof c v appr signer dwallet L = Inr L' \<Longrightarrow> ledger_typed L'"
    unfolding run_verify_custody_proof_def
    by (erule on_vault_typed [OF assms]) (auto simp: of_outcome_Inr intro: verify_ok)
  show "run_refresh_custody_proof c v appr signer dwallet L = Inr L' \<Longrightarrow> ledger_typed L'"
    unfolding run_refresh_custody_proof_def
    by (erule on_vault_typed [OF assms]) (auto simp: of_outcome_Inr intro: verify_ok)
qed (use assms in \<open>auto simp: vault_handlers run_success_env Let_def ledger_typed_def
    intro!: vault_update_ok everywhere_delete split: if_splits\<close>)

lemma attested_new:
  "\<forall>k. attested_ok k (vs k) (as k) \<Longrightarrow> attested_ok v (Some vault) (Some att) \<Longrightarrow>
     attested_ok k ((vs(v \<mapsto> vault)) k) ((as(v \<mapsto> att)) k)"
  by simp

lemma register_btc_effect:
  assumes "register_btc_vault E owner dw dwkey addr L = Inr L'"
  obtains key protocol lams tot where
    "key = fst (btc_vault_pda E owner dw)" "lg_protocol L = Some protocol"
    "lg_btc_vaults L key = None" "lg_attestations L key = None"
    "4 \<le> length addr" "length addr \<le> 64"
    "L' = L\<lparr>lg_lamports := lams,
       lg_btc_vaults := (lg_btc_vaults L)(key \<mapsto> new_btc_vault E owner dw dwkey addr),
       lg_attestations := (lg_attestations L)(key \<mapsto> new_attestation E key addr),
       lg_protocol := Some (protocol\<lparr>proto_total_vaults := tot\<rparr>)\<rparr>"
  using assms by (auto simp: register_btc_vault_def run_success_env Let_def)

lemma register_btc_typed:
  assumes "ledger_typed L" "register_btc_vault E owner dw dwkey addr L = Inr L'"
  shows "ledger_typed L'"
  using assms(2)
proof (cases rule: register_btc_effect)
  case (1 key protocol lams tot)
  have t: "everywhere btc_vault_ok (lg_btc_vaults L)"
      "\<forall>k. attested_ok k (lg_btc_vaults L k) (lg_attestations L k)"
    using assms(1) by (simp_all add: ledger_typed_def)
  have "btc_vault_ok key (new_btc_vault E owner dw dwkey addr)"
    using 1(5,6) by (simp add: btc_vault_ok_def new_btc_vault_def padded_address_def 1(1))
  with t(1) have "everywhere btc_vault_ok ((lg_btc_vaults L)(key \<mapsto> new_btc_vault E owner dw dwkey addr))"
    by (rule everywhere_update)
  moreover have "\<forall>k. attested_ok k (((lg_btc_vaults L)(key \<mapsto> new_btc_vault E owner dw dwkey addr)) k)
      (((lg_attestations L)(key \<mapsto> new_attestation E key addr)) k)"
    by (intro allI, rule attested_new [OF t(2)]) (simp add: attested_ok_def new_btc_vault_def new_attestation_def)
  ultimately show ?thesis
    using assms(1) 1(2) by (simp add: 1(7) ledger_typed_def)
qed

lemma btc_vault_instructions_typed:
  assumes "ledger_typed L"
  shows "attest_btc_balance c v keeper sats height h L = Inr L' \<Longrightarrow> ledger_typed L'"
    and "verify_btc_custody_proof c v appr owner L = Inr L' \<Longrightarrow> ledger_typed L'"
    and "refresh_btc_custody_proof c v appr owner L = Inr L' \<Longrightarrow> ledger_typed L'"
  subgoal using assms
    by (auto simp: attest_btc_balance_def run_success_env ledger_typed_def
        simp del: fun_upd_apply intro!: btc_vault_update_ok attested_update)
  subgoal using assms
    by (auto simp: verify_btc_custody_proof_def run_success_env ledger_typed_def
        simp del: fun_upd_apply intro!: btc_vault_update_ok attested_vault_update)
  subgoal using assms
    by (auto simp: refresh_btc_custody_proof_def run_success_env ledger_typed_def
        simp del: fun_upd_apply intro!: btc_vault_update_ok attested_vault_update)
  done

lemma typed_step:
  assumes "ledger_typed L" "execute E c ix L = Inr L'"
  shows "ledger_typed L'"
  using assms
  by (cases ix) (auto intro: vault_instructions_typed feed_instructions_typed lending_typed
      liquidate_typed liquidate_btc_typed finalize_typed register_btc_typed btc_vault_instructions_typed)

interpretation typed: ledger_invariant E ledger_typed for E
proof
  show "ledger_typed L \<Longrightarrow> execute E c ix L = Inr L' \<Longrightarrow> ledger_typed L'" for L c ix L'
    by (rule typed_step)
qed (simp_all add: no_program_accounts_def ledger_typed_def attested_ok_def)

end
