(* ===== verification/Chain_Safety.thy ===== *)
theory Chain_Safety
  imports Chain_Invariants
begin

text \<open>
  What the program guarantees, and what it fails to: verified collateral and withdrawals, the settlement
  of Bitcoin liquidations, the freeze, the terms of a pool, fresh loans, and the repayments and
  liquidations that do not do what they are for.
\<close>

section \<open>Verified collateral\<close>

definition deposits :: "ledger \<Rightarrow> nat" where
  "deposits L = total (\<lambda>v. unat (vault_deposited_amount v)) (lg_vaults L)"

definition collateral_covered :: "ledger \<Rightarrow> bool" where
  "collateral_covered L \<longleftrightarrow> (case lg_protocol L of
       None \<Rightarrow> lg_vaults L = Map.empty
     | Some p \<Rightarrow> deposits L \<le> unat (proto_total_collateral_verified p))"

lemma unat_u128 [simp]: "unat (u128 x) = unat (x :: 64 word)"
proof -
  have "unat x < 2 ^ 64" using unat_u64_lt [of x] by simp
  then have "unat x < 2 ^ 128" by (rule less_le_trans) simp
  then show ?thesis unfolding u128_def by (intro unat_word_of_nat_lt) simp
qed

lemma total_same:
  "m k = Some x \<Longrightarrow> f y = f x \<Longrightarrow> total f (m(k \<mapsto> y)) = total f m"
  using total_replace [where m = m and k = k, of x f y] by simp

lemma vaults_kept_covered:
  assumes "collateral_covered L" "lg_vaults L v = Some x"
    and "vault_deposited_amount y \<le> vault_deposited_amount x"
    and "lg_vaults L' = (lg_vaults L)(v \<mapsto> y)"
    and "lg_protocol L' = Some p'" "\<And>p. lg_protocol L = Some p \<Longrightarrow>
      proto_total_collateral_verified p' = proto_total_collateral_verified p"
  shows "collateral_covered L'"
proof -
  obtain p where p: "lg_protocol L = Some p"
    using assms(1,2) by (auto simp: collateral_covered_def split: option.splits)
  have "deposits L' \<le> deposits L"
    using total_replace [where m = "lg_vaults L" and k = v, OF assms(2),
        of "\<lambda>v. unat (vault_deposited_amount v)" y] assms(3)
    by (simp add: deposits_def assms(4) word_le_nat_alt)
  then show ?thesis
    using assms(1) p assms(5) assms(6) [OF p] by (simp add: collateral_covered_def)
qed

fun moves_collateral :: "instruction \<Rightarrow> bool" where
  "moves_collateral (RegisterVault _ _ _) = True"
| "moves_collateral (DepositCollateral _ _ _) = True"
| "moves_collateral (WithdrawCollateral _ _ _) = True"
| "moves_collateral (CloseVault _ _) = True"
| "moves_collateral (InitializeProtocol _) = True"
| "moves_collateral (LiquidatePosition _ _ _ _ _) = True"
| "moves_collateral _ = False"

text \<open>Every other instruction leaves each vault's deposit, and the counter, as they are.\<close>

lemma custody_keeps_deposit:
  "verify_custody_proof v s k d dw now = Done v' \<Longrightarrow> vault_deposited_amount v' = vault_deposited_amount v"
  "refresh_custody_proof v s k d dw now = Done v' \<Longrightarrow> vault_deposited_amount v' = vault_deposited_amount v"
  by (auto simp: verify_custody_proof_def refresh_custody_proof_def Let_def
      split: if_splits outcome.splits)

definition same_deposits :: "ledger \<Rightarrow> ledger \<Rightarrow> bool" where
  "same_deposits L L' \<longleftrightarrow>
     (\<forall>k. map_option vault_deposited_amount (lg_vaults L' k)
        = map_option vault_deposited_amount (lg_vaults L k))
     \<and> map_option proto_total_collateral_verified (lg_protocol L')
        = map_option proto_total_collateral_verified (lg_protocol L)"

lemma same_deposits_covered:
  assumes "same_deposits L L'" "collateral_covered L"
  shows "collateral_covered L'"
proof -
  have v: "(case lg_vaults L' k of None \<Rightarrow> 0 | Some x \<Rightarrow> unat (vault_deposited_amount x))
      = (case lg_vaults L k of None \<Rightarrow> 0 | Some x \<Rightarrow> unat (vault_deposited_amount x))"
    and n: "lg_vaults L' k = None \<longleftrightarrow> lg_vaults L k = None" for k
    using assms(1) unfolding same_deposits_def
    by (auto dest!: spec [where x = k] split: option.splits)
  have "deposits L' = deposits L" by (simp add: deposits_def total_def v)
  moreover have "lg_vaults L = Map.empty \<Longrightarrow> lg_vaults L' = Map.empty"
    using n by (simp add: fun_eq_iff)
  ultimately show ?thesis
    using assms by (auto simp: collateral_covered_def same_deposits_def split: option.splits)
qed

lemma other_instructions_same_deposits:
  assumes "execute E c ix L = Inr L'" "\<not> moves_collateral ix"
  shows "same_deposits L L'"
  using assms
proof (cases ix)
  case (VerifyCustodyProof v appr signer dwallet)
  with assms show ?thesis
    by (auto simp: run_verify_custody_proof_def on_vault_def run_success same_deposits_def
        custody_keeps_deposit)
next
  case (RefreshCustodyProof v appr signer dwallet)
  with assms show ?thesis
    by (auto simp: run_refresh_custody_proof_def on_vault_def run_success same_deposits_def
        custody_keeps_deposit)
next
  case (TriggerRiskCheck v b t r pay)
  with assms show ?thesis
    by (auto simp: trigger_risk_check_def run_success same_deposits_def Let_def)
next
  case (RegisterBtcVault owner dw dwkey addr)
  with assms show ?thesis
    by (auto elim!: register_btc_effect simp: same_deposits_def)
qed (auto elim!: borrow_effect repay_effect borrow_btc_effect repay_btc_effect liquidate_btc_effect
      finalize_effect simp: vault_handlers feed_handlers btc_vault_handlers initialize_lending_pool_def
      run_success_env same_deposits_def Let_def)

lemma deposits_update:
  "lg_vaults L v = Some x \<Longrightarrow> lg_vaults L' = (lg_vaults L)(v \<mapsto> y) \<Longrightarrow>
     deposits L' + unat (vault_deposited_amount x) = deposits L + unat (vault_deposited_amount y)"
  using total_replace [where m = "lg_vaults L" and k = v, of x
      "\<lambda>v. unat (vault_deposited_amount v)" y]
  by (simp add: deposits_def)

lemma deposit_effect:
  assumes "deposit_collateral c v depositor n L = Inr L'"
  obtains vault p sum tot where "lg_vaults L v = Some vault" "lg_protocol L = Some p"
    "vault_owner vault = depositor" "vault_proof_status vault = PROOF_STATUS_VERIFIED"
    "\<not> proto_frozen p" "\<not> vault_frozen vault" "0 < n"
    "checked_add (vault_deposited_amount vault) n = Inr sum"
    "checked_add (proto_total_collateral_verified p) (u128 n) = Inr tot"
    "L' = L\<lparr>lg_vaults := (lg_vaults L)(v \<mapsto> vault\<lparr>vault_deposited_amount := sum\<rparr>),
       lg_protocol := Some (p\<lparr>proto_total_collateral_verified := tot\<rparr>)\<rparr>"
  using assms by (auto simp: deposit_collateral_def run_success)

lemma withdraw_effect:
  assumes "withdraw_collateral v depositor n L = Inr L'"
  obtains vault p left tot where "lg_vaults L v = Some vault" "lg_protocol L = Some p"
    "vault_owner vault = depositor" "\<not> proto_frozen p" "0 < n" "n \<le> vault_deposited_amount vault"
    "checked_sub (vault_deposited_amount vault) n = Inr left"
    "checked_sub (proto_total_collateral_verified p) (u128 n) = Inr tot"
    "L' = L\<lparr>lg_vaults := (lg_vaults L)(v \<mapsto> vault\<lparr>vault_deposited_amount := left\<rparr>),
       lg_protocol := Some (p\<lparr>proto_total_collateral_verified := tot\<rparr>)\<rparr>"
  using assms by (auto simp: withdraw_collateral_def run_success)

lemma collateral_step:
  assumes "collateral_covered L" "execute E c ix L = Inr L'"
  shows "collateral_covered L'"
proof (cases "moves_collateral ix")
  case False
  then show ?thesis
    using other_instructions_same_deposits same_deposits_covered assms by blast
next
  case True
  then show ?thesis
  proof (cases ix)
    case (DepositCollateral v depositor n)
    with assms(2) have "deposit_collateral c v depositor n L = Inr L'" by simp
    then show ?thesis
    proof (cases rule: deposit_effect)
      case (1 vault p sum tot)
      show ?thesis
        using assms(1) 1(2) deposits_update [OF 1(1), of L' "vault\<lparr>vault_deposited_amount := sum\<rparr>"]
          unat_checked_add [OF 1(8)]
          unat_checked_add [OF 1(9)]
        by (simp add: collateral_covered_def 1(10))
    qed
  next
    case (WithdrawCollateral v depositor n)
    with assms(2) have "withdraw_collateral v depositor n L = Inr L'" by simp
    then show ?thesis
    proof (cases rule: withdraw_effect)
      case (1 vault p left tot)
      show ?thesis
        using assms(1) 1(2) deposits_update [OF 1(1), of L' "vault\<lparr>vault_deposited_amount := left\<rparr>"]
          unat_checked_sub [OF 1(7)]
          unat_checked_sub [OF 1(8)]
        by (simp add: collateral_covered_def 1(9))
    qed
  next
    case (LiquidatePosition v mint ptk ltk liquidator)
    with assms(2) have "liquidate_position E c v mint ptk ltk liquidator L = Inr L'" by simp
    then show ?thesis
    proof (cases rule: liquidate_effect)
      case (1 vault protocol pool feed position pool' debt toks seizable movable seized tot lams)
      show ?thesis
        by (rule vaults_kept_covered [OF assms(1) 1(1), of _ L' protocol])
          (use 1(2,17) in \<open>simp_all add: 1(19) word_sub_le\<close>)
    qed
  next
    case (RegisterVault owner dwallet asset)
    with assms show ?thesis
      by (auto simp: register_vault_def run_success_env Let_def collateral_covered_def deposits_def
          total_insert simp del: disj_not1)
  next
    case (CloseVault v owner)
    with assms(2) obtain x where x: "lg_vaults L v = Some x" "vault_deposited_amount x = 0"
        "lg_vaults L' = (lg_vaults L)(v := None)" "lg_protocol L' = lg_protocol L"
      by (auto simp: close_vault_def run_success)
    have "deposits L' = deposits L"
      using total_delete [where m = "lg_vaults L" and k = v, OF x(1),
          of "\<lambda>v. unat (vault_deposited_amount v)"] x(2,3) by (simp add: deposits_def)
    with assms(1) x show ?thesis by (auto simp: collateral_covered_def split: option.splits)
  next
    case (InitializeProtocol ad)
    with assms show ?thesis
      by (auto simp: initialize_protocol_def run_success_env collateral_covered_def deposits_def)
  qed simp_all
qed

interpretation covered: ledger_invariant E collateral_covered for E
proof
  show "collateral_covered L \<Longrightarrow> execute E c ix L = Inr L' \<Longrightarrow> collateral_covered L'" for L c ix L'
    by (rule collateral_step)
qed (simp_all add: no_program_accounts_def collateral_covered_def deposits_def split: option.split)

text \<open>C9: A withdrawal succeeds exactly when the owner of the vault asks for a positive amount of at most
  the deposit while the protocol is not frozen. An open debt of the vault plays no part.\<close>

theorem withdraw_succeeds_iff:
  assumes "reachable E L"
  shows "(\<exists>L'. execute E c (WithdrawCollateral v depositor n) L = Inr L') \<longleftrightarrow>
    (\<exists>vault p. lg_vaults L v = Some vault \<and> lg_protocol L = Some p \<and> vault_owner vault = depositor
       \<and> \<not> proto_frozen p \<and> 0 < n \<and> n \<le> vault_deposited_amount vault)" (is "?l \<longleftrightarrow> ?r")
proof
  assume ?l
  then show ?r by (auto elim!: withdraw_effect)
next
  assume ?r
  then obtain vault p where r: "lg_vaults L v = Some vault" "lg_protocol L = Some p"
      "vault_owner vault = depositor" "\<not> proto_frozen p" "0 < n" "n \<le> vault_deposited_amount vault"
    by blast
  have "unat n \<le> unat (vault_deposited_amount vault)" using r(6) by (simp add: word_le_nat_alt)
  also have "\<dots> \<le> deposits L"
    unfolding deposits_def by (rule total_member [where m = "lg_vaults L" and k = v, OF r(1)])
  also have "\<dots> \<le> unat (proto_total_collateral_verified p)"
    using covered.always [OF assms] r(2) by (simp add: collateral_covered_def)
  finally have "u128 n \<le> proto_total_collateral_verified p" by (simp add: word_le_nat_alt)
  then show ?l using r by (simp add: withdraw_collateral_def checked_sub_def)
qed

end
