(* ===== verification/Chain_Settlement.thy ===== *)
theory Chain_Settlement
  imports Chain_Safety
begin

text \<open>
  The life of a Bitcoin liquidation, the effect of a freeze, and what can change about a pool.
\<close>

section \<open>Settling a Bitcoin liquidation\<close>

text \<open>A vault marked for liquidation is frozen, and its position is there with nothing left to owe.\<close>

definition settling :: "BtcVaultState \<Rightarrow> bool" where
  "settling v \<longleftrightarrow> btc_frozen v \<or> btc_liquidation_initiated_at v \<noteq> 0"

definition settlement_open :: "ledger \<Rightarrow> bool" where
  "settlement_open L \<longleftrightarrow> (\<forall>k v. lg_btc_vaults L k = Some v \<and> settling v \<longrightarrow>
     btc_frozen v \<and> (\<exists>p. lg_btc_positions L k = Some p \<and> pos_principal p = 0))"

lemma settlement_openD:
  "settlement_open L \<Longrightarrow> lg_btc_vaults L k = Some v \<Longrightarrow> settling v \<Longrightarrow>
     btc_frozen v \<and> (\<exists>p. lg_btc_positions L k = Some p \<and> pos_principal p = 0)"
  by (auto simp: settlement_open_def)

lemma settlement_frame:
  assumes "settlement_open L" "lg_btc_positions L' = lg_btc_positions L"
    and "\<And>k v'. lg_btc_vaults L' k = Some v' \<Longrightarrow> settling v' \<Longrightarrow>
      \<exists>v. lg_btc_vaults L k = Some v \<and> settling v \<and> btc_frozen v' = btc_frozen v"
  shows "settlement_open L'"
  unfolding settlement_open_def using assms settlement_openD [OF assms(1)] by (metis (no_types))

fun touches_btc :: "instruction \<Rightarrow> bool" where
  "touches_btc (RegisterBtcVault _ _ _ _) = True"
| "touches_btc (AttestBtcBalance _ _ _ _ _) = True"
| "touches_btc (VerifyBtcCustodyProof _ _ _) = True"
| "touches_btc (RefreshBtcCustodyProof _ _ _) = True"
| "touches_btc (BorrowAgainstBtcCollateral _ _ _ _ _ _ _) = True"
| "touches_btc (RepayBtcBorrow _ _ _ _ _ _) = True"
| "touches_btc (LiquidateBtcPosition _ _ _ _ _ _ _ _ _ _ _) = True"
| "touches_btc (FinalizeBtcLiquidation _ _ _ _ _) = True"
| "touches_btc _ = False"

lemma btc_frame:
  assumes "execute E c ix L = Inr L'" "\<not> touches_btc ix"
  shows "lg_btc_vaults L' = lg_btc_vaults L \<and> lg_btc_positions L' = lg_btc_positions L"
  using assms
  by (cases ix)
    (auto simp: vault_handlers feed_handlers initialize_lending_pool_def run_success_env Let_def
      elim!: borrow_effect repay_effect liquidate_effect split: if_splits)

lemma current_debt_zero: "current_debt 0 index = Inr d \<Longrightarrow> d = 0"
  by (auto simp: current_debt_eq Let_def split: if_splits)

lemma repay_btc_principal:
  assumes "repay_btc_borrow E c v mint ptk btk owner amount L = Inr L'"
    and "lg_btc_positions L v = Some p"
  shows "pos_principal p \<noteq> 0"
  using assms by (elim repay_btc_effect) (auto dest: current_debt_zero)

lemma settlement_step:
  assumes I: "settlement_open L" and x: "execute E c ix L = Inr L'"
  shows "settlement_open L'"
proof (cases "touches_btc ix")
  case False
  then show ?thesis
    using btc_frame [OF x] I by (simp add: settlement_open_def)
next
  case True
  then show ?thesis
  proof (cases ix)
    case (RegisterBtcVault owner dw dwkey addr)
    with x have "register_btc_vault E owner dw dwkey addr L = Inr L'" by simp
    then show ?thesis
      by (cases rule: register_btc_effect)
        (rule settlement_frame [OF I], auto simp: settling_def new_btc_vault_def split: if_splits)
  next
    case (AttestBtcBalance v keeper sats height h)
    with x show ?thesis
      by (intro settlement_frame [OF I])
        (auto simp: attest_btc_balance_def run_success settling_def split: if_splits)
  next
    case (VerifyBtcCustodyProof v appr owner)
    with x show ?thesis
      by (intro settlement_frame [OF I])
        (auto simp: verify_btc_custody_proof_def run_success settling_def split: if_splits)
  next
    case (RefreshBtcCustodyProof v appr owner)
    with x show ?thesis
      by (intro settlement_frame [OF I])
        (auto simp: refresh_btc_custody_proof_def run_success settling_def split: if_splits)
  next
    case (BorrowAgainstBtcCollateral v mint ptk btk owner amount ct)
    with x have "borrow_against_btc_collateral E c v mint ptk btk owner amount ct L = Inr L'" by simp
    then show ?thesis
      by (cases rule: borrow_btc_effect) (use I in \<open>auto simp: settlement_open_def settling_def\<close>)
  next
    case (RepayBtcBorrow v mint ptk btk owner amount)
    with x have r: "repay_btc_borrow E c v mint ptk btk owner amount L = Inr L'" by simp
    then show ?thesis
    proof (cases rule: repay_btc_effect)
      case (1 pool position borrower pool' debt actual part toks tot lams)
      have "\<not> settling va" if "lg_btc_vaults L v = Some va" for va
        using settlement_openD [OF I that] repay_btc_principal [OF r 1(2)] 1(2) by auto
      then show ?thesis using I by (auto simp: settlement_open_def 1(17))
    qed
  next
    case (LiquidateBtcPosition v mint ptk ltk dw appr liquidator sh md user bump)
    with x have "liquidate_btc_position E c v mint ptk ltk dw appr liquidator sh md user bump L = Inr L'"
      by simp
    then show ?thesis
      by (cases rule: liquidate_btc_effect) (use I in \<open>auto simp: settlement_open_def\<close>)
  next
    case (FinalizeBtcLiquidation v keeper height conf left)
    with x have "finalize_btc_liquidation E c v keeper height conf left L = Inr L'" by simp
    then show ?thesis
      by (cases rule: finalize_effect) (use I in \<open>auto simp: settlement_open_def settling_def\<close>)
  qed simp_all
qed

interpretation settlement: ledger_invariant E settlement_open for E
proof
  show "settlement_open L \<Longrightarrow> execute E c ix L = Inr L' \<Longrightarrow> settlement_open L'" for L c ix L'
    by (rule settlement_step)
qed (simp_all add: no_program_accounts_def settlement_open_def)

text \<open>C7: Whatever happened since a Bitcoin liquidation was started, the admin can settle it with one
  confirmation: the finalization succeeds, opens the vault again and closes its position.\<close>

theorem liquidation_can_be_finalized:
  assumes "reachable E L" "lg_btc_vaults L v = Some vault" "0 < sint (btc_liquidation_initiated_at vault)"
    and "lg_protocol L = Some p" "1 \<le> confirmations"
  shows "\<exists>L' vault'. execute E c (FinalizeBtcLiquidation v (proto_admin p) height confirmations left) L = Inr L'
    \<and> lg_btc_vaults L' v = Some vault' \<and> \<not> settling vault' \<and> btc_deposited_satoshis vault' = left
    \<and> lg_btc_positions L' v = None"
proof -
  have "settling vault" using assms(3) by (auto simp: settling_def)
  with settlement.always [OF assms(1)] assms(2)
  obtain pos where pos: "lg_btc_positions L v = Some pos" "pos_principal pos = 0"
    using settlement_openD by blast
  have "attested_ok v (lg_btc_vaults L v) (lg_attestations L v)"
    using typed.always [OF assms(1)] by (simp add: ledger_typed_def)
  with assms(2) obtain att where att: "lg_attestations L v = Some att"
    by (auto simp: attested_ok_def split: option.splits)
  show ?thesis
    using assms pos att
    by (simp add: finalize_btc_liquidation_def BTC_LIQUIDATION_MIN_CONFIRMATIONS_def settling_def)
qed

section \<open>The freeze\<close>

text \<open>The two instructions that write what a Bitcoin vault holds: they record the network's balance and ask
  nothing of the freeze (\<open>attest_btc_balance.rs\<close>, \<open>btc_lending.rs\<close>).\<close>

fun records_satoshis :: "pubkey \<Rightarrow> instruction \<Rightarrow> bool" where
  "records_satoshis k (AttestBtcBalance v _ _ _ _) = (v = k)"
| "records_satoshis k (FinalizeBtcLiquidation v _ _ _ _) = (v = k)"
| "records_satoshis k _ = False"

fun repays :: "instruction \<Rightarrow> bool" where
  "repays (RepayBorrow _ _ _ _ _ _) = True"
| "repays (RepayBtcBorrow _ _ _ _ _ _) = True"
| "repays _ = False"

text \<open>C22: While the protocol is frozen, tokens move only in repayments, no vault of lamports changes its
  deposit, a Bitcoin vault changes its satoshis only by an attestation or by the finalization of a liquidation
  of that vault, and only the reset lifts the freeze.\<close>

theorem freeze_holds:
  assumes "lg_protocol L = Some p" "proto_frozen p" "execute E c ix L = Inr L'"
  shows "(lg_tokens L' = lg_tokens L \<or> repays ix)
    \<and> (\<forall>k x y. lg_vaults L k = Some x \<and> lg_vaults L' k = Some y \<longrightarrow>
         vault_deposited_amount y = vault_deposited_amount x)
    \<and> (\<forall>k x y. lg_btc_vaults L k = Some x \<and> lg_btc_vaults L' k = Some y \<longrightarrow>
         btc_deposited_satoshis y = btc_deposited_satoshis x \<or> records_satoshis k ix)
    \<and> (ix = UnfreezeProtocolState \<or> (\<exists>p'. lg_protocol L' = Some p' \<and> proto_frozen p'))"
  using assms
  by (cases ix)
    (auto simp: vault_handlers feed_handlers btc_vault_handlers initialize_lending_pool_def
      run_success_env Let_def custody_keeps_deposit split: if_splits
      elim!: borrow_effect repay_effect borrow_btc_effect repay_btc_effect liquidate_effect
        liquidate_btc_effect finalize_effect deposit_effect withdraw_effect register_btc_effect)

section \<open>The terms of a pool\<close>

definition same_terms :: "LendingPool \<Rightarrow> LendingPool \<Rightarrow> bool" where
  "same_terms p q \<longleftrightarrow> (\<exists>n i s. q = p\<lparr>pool_total_borrowed := n, pool_borrow_index := i,
       pool_last_update_slot := s\<rparr> \<and> pool_borrow_index p \<le> i \<and> pool_last_update_slot p \<le> s)"

lemma same_terms_refl: "same_terms p p"
  unfolding same_terms_def
  by (intro exI [of _ "pool_total_borrowed p"] exI [of _ "pool_borrow_index p"]
      exI [of _ "pool_last_update_slot p"]) simp

lemma accrue_same_terms:
  assumes "accrue_interest p slot = Inr q"
  shows "same_terms p (q\<lparr>pool_total_borrowed := n\<rparr>)"
  using assms
proof (cases rule: accrue_interest_cases)
  case (1 index last)
  then show ?thesis
    unfolding same_terms_def by (intro exI [of _ n] exI [of _ index] exI [of _ last]) simp
qed

text \<open>C23: No instruction removes a pool, or changes of it more than the borrowed total, the index and the
  slot of the last accrual; the latter two never go back.\<close>

theorem pool_terms_kept:
  assumes "execute E c ix L = Inr L'" "lg_pools L mint = Some pool"
  shows "\<exists>pool'. lg_pools L' mint = Some pool' \<and> same_terms pool pool'"
proof (cases "lends ix")
  case False
  then show ?thesis using lending_frame [OF assms(1)] assms(2) same_terms_refl by auto
next
  case True
  then show ?thesis using assms
    by (cases ix)
      (auto simp: initialize_lending_pool_def run_success_env same_terms_refl split: if_splits
        elim!: borrow_effect repay_effect borrow_btc_effect repay_btc_effect liquidate_effect
          liquidate_btc_effect finalize_effect
        intro!: accrue_same_terms)
qed

end
