(* ===== verification/Chain_Loans.thy ===== *)
theory Chain_Loans
  imports Chain_Settlement
begin

text \<open>
  Loans over their life: a fresh loan within its limit, the repayment of everything, the position that
  owes nothing, and the liquidation of a vault of lamports.
\<close>

section \<open>Fresh loans\<close>

lemma scaled_debt_le:
  assumes "to_scaled amount index = Inr prin" "current_debt prin index = Inr debt"
  shows "debt \<le> amount"
proof -
  have p: "unat prin = unat amount * 10 ^ 18 div unat index"
    using assms(1) by (auto simp: to_scaled_eq Let_def unat_word_of_nat_lt split: if_splits)
  have "unat debt = unat prin * unat index div 10 ^ 18"
    using assms(2) by (auto simp: current_debt_eq Let_def unat_word_of_nat_lt split: if_splits)
  also have "\<dots> \<le> unat amount * 10 ^ 18 div 10 ^ 18"
    unfolding p by (intro div_le_mono) (simp add: mult.commute)
  finally show ?thesis by (simp add: word_le_nat_alt)
qed

lemma accrue_again:
  assumes "accrue_interest pool slot = Inr pool'"
  shows "accrue_interest (pool'\<lparr>pool_total_borrowed := n\<rparr>) slot = Inr (pool'\<lparr>pool_total_borrowed := n\<rparr>)"
  using assms by (elim accrue_interest_cases) (simp add: accrue_interest_def)

text \<open>Within the limit of a pool whose parameters were validated, the debt is below the value at which
  liquidation starts, as soon as the collateral is worth as many units as the limit has basis points.\<close>

lemma within_limit_healthy:
  assumes "validate_bps ltv thr bonus = Inr ()" "calculate_max_borrow dep price ltv = Inr limit"
    and "debt \<le> limit" "unat ltv \<le> unat dep * unat price div 10 ^ 9 div 100"
  shows "is_liquidatable dep price debt thr = Inr False"
proof -
  have "unat limit = max_borrow_nat (10 ^ 9) (unat dep) (unat price) (unat ltv)"
    using assms(2) by (auto simp: calculate_max_borrow_eq Let_def unat_word_of_nat_lt split: if_splits)
  moreover have "max_borrow_nat (10 ^ 9) (unat dep) (unat price) (unat ltv)
      \<le> liquidation_value_nat (10 ^ 9) (unat dep) (unat price) (unat thr)"
    using assms(1,4) by (intro max_borrow_le_liquidation_value) (simp_all add: validate_bps_iff)
  moreover have "unat debt \<le> unat limit" using assms(3) by (simp add: word_le_nat_alt)
  ultimately show ?thesis by (simp add: is_liquidatable_eq)
qed

lemma within_btc_limit_healthy:
  assumes "validate_bps ltv thr bonus = Inr ()" "calculate_max_btc_borrow sats price ltv = Inr limit"
    and "debt \<le> limit" "unat ltv \<le> unat sats * unat price div 10 ^ 8 div 100"
  shows "is_btc_liquidatable sats price debt thr = Inr False"
proof -
  have "unat limit = max_borrow_nat (10 ^ 8) (unat sats) (unat price) (unat ltv)"
    using assms(2) by (auto simp: calculate_max_btc_borrow_eq Let_def unat_word_of_nat_lt split: if_splits)
  moreover have "max_borrow_nat (10 ^ 8) (unat sats) (unat price) (unat ltv)
      \<le> liquidation_value_nat (10 ^ 8) (unat sats) (unat price) (unat thr)"
    using assms(1,4) by (intro max_borrow_le_liquidation_value) (simp_all add: validate_bps_iff)
  moreover have "unat debt \<le> unat limit" using assms(3) by (simp add: word_le_nat_alt)
  ultimately show ?thesis by (simp add: is_btc_liquidatable_eq)
qed

lemma accrue_bps:
  assumes "accrue_interest pool slot = Inr pool'"
  shows "pool_ltv_basis_points pool' = pool_ltv_basis_points pool"
    "pool_liquidation_threshold_bps pool' = pool_liquidation_threshold_bps pool"
    "pool_liquidation_bonus_bps pool' = pool_liquidation_bonus_bps pool"
    "pool_total_liquidity pool' = pool_total_liquidity pool"
    "pool_borrow_asset_mint pool' = pool_borrow_asset_mint pool"
  using assms by (elim accrue_interest_cases; simp)+

text \<open>The collateral is worth at least one borrow unit per basis point of the limit.\<close>

definition worth_a_loan :: "nat \<Rightarrow> 64 word \<Rightarrow> AdminPriceFeed \<Rightarrow> LendingPool \<Rightarrow> bool" where
  "worth_a_loan K dep feed pool \<longleftrightarrow>
     unat (pool_ltv_basis_points pool) \<le> unat dep * unat (feed_price_usd feed) div K div 100"

text \<open>C8: A loan just given from a pool cannot be liquidated in that pool at the same time and price, if the
  collateral is no dust: worth at least one borrow unit per basis point of the limit. Without this
  condition the two roundings can cross (\<open>Lending_Math.fresh_dust_loan_unsafe\<close>).\<close>

theorem fresh_borrow_not_liquidatable:
  assumes "reachable E L"
    and "execute E c (BorrowAgainstCollateral v mint ptk btk owner amount ct) L = Inr L1"
    and "lg_vaults L v = Some vault" "lg_feeds L (vault_asset_type vault) = Some feed"
    and "lg_pools L mint = Some pool" "worth_a_loan (10 ^ 9) (vault_deposited_amount vault) feed pool"
  shows "execute E c (LiquidatePosition v mint ptk' ltk liquidator) L1 \<noteq> Inr L2"
proof
  assume "execute E c (LiquidatePosition v mint ptk' ltk liquidator) L1 = Inr L2"
  then have liq: "liquidate_position E c v mint ptk' ltk liquidator L1 = Inr L2" by simp
  have ok: "validate_bps (pool_ltv_basis_points pool) (pool_liquidation_threshold_bps pool)
      (pool_liquidation_bonus_bps pool) = Inr ()"
    using typed.always [OF assms(1)] assms(5) by (auto simp: ledger_typed_def pool_ok_def dest: everywhereD)
  from assms(2) have "borrow_against_collateral E c v mint ptk btk owner amount ct L = Inr L1" by simp
  then show False
  proof (cases rule: borrow_effect)
    case b: (1 vault0 protocol pool0 feed0 borrower lams limit pool' debt scaled tot toks)
    have same: "vault0 = vault" "pool0 = pool" "feed0 = feed" using b assms by simp_all
    from liq show False
    proof (cases rule: liquidate_effect)
      case l: (1 vault1 protocol1 pool1 feed1 position1 pool2 debt1 toks1 seizable movable seized tot1 lams1)
      have L1: "vault1 = vault" "feed1 = feed" "pool1 = pool'\<lparr>pool_total_borrowed := tot\<rparr>"
          "pos_principal position1 = scaled"
        using l(1,3,4,5) b(1) same assms(4) by (auto simp: b(27))
      have "pool2 = pool'\<lparr>pool_total_borrowed := tot\<rparr>"
        using l(9) accrue_again [OF b(20)] by (simp add: L1)
      then have "debt1 \<le> amount" and thr: "pool_liquidation_threshold_bps pool2
          = pool_liquidation_threshold_bps pool"
        using l(10) scaled_debt_le [OF b(24)] accrue_bps [OF b(20)] same by (simp_all add: L1)
      then have "is_liquidatable (vault_deposited_amount vault) (feed_price_usd feed) debt1
          (pool_liquidation_threshold_bps pool) = Inr False"
        using within_limit_healthy [OF ok] b(18,19) same assms(6)
        by (auto simp: worth_a_loan_def intro: order.trans)
      with l(11) show False by (simp add: L1 thr)
    qed
  qed
qed

theorem fresh_btc_borrow_not_liquidatable:
  assumes "reachable E L"
    and "execute E c (BorrowAgainstBtcCollateral v mint ptk btk owner amount ct) L = Inr L1"
    and "lg_attestations L v = Some att" "lg_feeds L 0 = Some feed"
    and "lg_pools L mint = Some pool" "worth_a_loan (10 ^ 8) (att_satoshis att) feed pool"
  shows "execute E c (LiquidateBtcPosition v mint ptk' ltk dw appr liquidator sh md user bump) L1 \<noteq> Inr L2"
proof
  assume "execute E c (LiquidateBtcPosition v mint ptk' ltk dw appr liquidator sh md user bump) L1 = Inr L2"
  then have liq: "liquidate_btc_position E c v mint ptk' ltk dw appr liquidator sh md user bump L1 = Inr L2"
    by simp
  have ok: "validate_bps (pool_ltv_basis_points pool) (pool_liquidation_threshold_bps pool)
      (pool_liquidation_bonus_bps pool) = Inr ()"
    using typed.always [OF assms(1)] assms(5) by (auto simp: ledger_typed_def pool_ok_def dest: everywhereD)
  from assms(2) have "borrow_against_btc_collateral E c v mint ptk btk owner amount ct L = Inr L1" by simp
  then show False
  proof (cases rule: borrow_btc_effect)
    case b: (1 vault protocol pool0 feed0 att0 borrower lams limit pool' debt scaled tot toks)
    have same: "att0 = att" "pool0 = pool" "feed0 = feed" using b assms by simp_all
    from liq show False
    proof (cases rule: liquidate_btc_effect)
      case l: (1 vault1 protocol1 pool1 feed1 att1 position1 pool2 debt1 toks1 data1 seized1 tot1)
      have L1: "att1 = att" "feed1 = feed" "pool1 = pool'\<lparr>pool_total_borrowed := tot\<rparr>"
          "pos_principal position1 = scaled"
        using l(3,4,5,6) same assms(3,4) by (auto simp: b(30))
      have "pool2 = pool'\<lparr>pool_total_borrowed := tot\<rparr>"
        using l(12) accrue_again [OF b(23)] by (simp add: L1)
      then have "debt1 \<le> amount" and thr: "pool_liquidation_threshold_bps pool2
          = pool_liquidation_threshold_bps pool"
        using l(13) scaled_debt_le [OF b(27)] accrue_bps [OF b(23)] same by (simp_all add: L1)
      then have "is_btc_liquidatable (att_satoshis att) (feed_price_usd feed) debt1
          (pool_liquidation_threshold_bps pool) = Inr False"
        using within_btc_limit_healthy [OF ok] b(21,22) same assms(6)
        by (auto simp: worth_a_loan_def intro: order.trans)
      with l(14) show False by (simp add: L1 thr)
    qed
  qed
qed

section \<open>Repaying\<close>

lemma current_debt_unat:
  "current_debt prin index = Inr d \<Longrightarrow> unat d = unat prin * unat index div 10 ^ 18"
  by (auto simp: current_debt_eq Let_def unat_word_of_nat_lt split: if_splits)

lemma to_scaled_unat:
  "to_scaled a index = Inr s \<Longrightarrow> unat s = unat a * 10 ^ 18 div unat index \<and> 0 < unat index"
  by (auto simp: to_scaled_eq Let_def unat_word_of_nat_lt split: if_splits)

text \<open>What a part of the debt scales to stays below the principal, and takes off the debt at most what
  is paid.\<close>

lemma partial_scaled:
  fixes p i a :: nat
  assumes "0 < i" "a < p * i div 10 ^ 18"
  shows "a * 10 ^ 18 div i < p"
    and "p * i div 10 ^ 18 - a \<le> (p - a * 10 ^ 18 div i) * i div 10 ^ 18"
proof -
  define s where "s = a * 10 ^ 18 div i"
  have s: "s * i \<le> a * 10 ^ 18" by (simp add: s_def)
  have "(a + 1) * 10 ^ 18 \<le> p * i div 10 ^ 18 * 10 ^ 18" using assms(2) by (intro mult_le_mono1) simp
  also have "\<dots> \<le> p * i" by simp
  finally have "a * 10 ^ 18 < p * i" by simp
  then have "s * i < p * i" by (rule le_less_trans [OF s])
  then have lt: "s < p" by simp
  then show "a * 10 ^ 18 div i < p" unfolding s_def .
  have "p * i \<le> (p - s) * i + s * i" using lt by (simp flip: add_mult_distrib)
  then have "p * i \<le> (p - s) * i + a * 10 ^ 18" using s by linarith
  then have "p * i div 10 ^ 18 \<le> ((p - s) * i + a * 10 ^ 18) div 10 ^ 18" by (rule div_le_mono)
  then have "p * i div 10 ^ 18 - a \<le> (p - s) * i div 10 ^ 18" by simp
  then show "p * i div 10 ^ 18 - a \<le> (p - a * 10 ^ 18 div i) * i div 10 ^ 18" unfolding s_def .
qed

text \<open>C15: A repayment of at least the debt pays the debt and closes the position. A smaller one pays its
  amount, leaves the position open, and takes off the debt no more than was paid.\<close>

theorem repay_outcome:
  assumes "execute E c (RepayBorrow v mint ptk btk owner amount) L = Inr L'"
  shows "\<exists>pool position pool' debt. lg_pools L mint = Some pool \<and> lg_positions L v = Some position
    \<and> accrue_interest pool (clock_slot c) = Inr pool'
    \<and> current_debt (pos_principal position) (pool_borrow_index pool') = Inr debt
    \<and> env_token_transfer E (lg_tokens L) btk ptk owner (min amount debt) = Some (lg_tokens L')
    \<and> (if debt \<le> amount then lg_positions L' v = None
       else \<exists>left. lg_positions L' v = Some left \<and> 0 < pos_principal left
         \<and> unat debt - unat amount
           \<le> unat (pos_principal left) * unat (pool_borrow_index pool') div 10 ^ 18)"
proof -
  from assms have "repay_borrow E c v mint ptk btk owner amount L = Inr L'" by simp
  then show ?thesis
  proof (cases rule: repay_effect)
    case (1 pool position pool' debt actual part toks tot lams)
    have L': "lg_tokens L' = toks" "lg_positions L' v = position_after position part c pool'"
      by (simp_all add: 1(17))
    have "if debt \<le> amount then lg_positions L' v = None
       else \<exists>left. lg_positions L' v = Some left \<and> 0 < pos_principal left
         \<and> unat debt - unat amount
           \<le> unat (pos_principal left) * unat (pool_borrow_index pool') div 10 ^ 18"
    proof (cases "debt \<le> amount")
      case True
      then have "part = pos_principal position" using 1(10,13) by (simp add: min_def)
      then show ?thesis using True by (simp add: L' position_after_def)
    next
      case False
      then have actual: "actual = amount" "actual \<noteq> debt" "unat amount < unat debt"
        using 1(10) by (auto simp: min_def word_less_nat_alt [symmetric])
      then obtain s where s: "to_scaled amount (pool_borrow_index pool') = Inr s"
          "part = min s (pos_principal position)"
        using 1(14) by auto
      note small = partial_scaled [of "unat (pool_borrow_index pool')" "unat amount"
          "unat (pos_principal position)", folded current_debt_unat [OF 1(8)]]
      have "unat s < unat (pos_principal position)"
        using small(1) to_scaled_unat [OF s(1)] actual(3) by simp
      then have part: "part = s" "s < pos_principal position"
        using s(2) by (auto simp: min_def word_less_nat_alt [symmetric])
      have left: "unat (pos_principal position - part) = unat (pos_principal position) - unat s"
        using part by (simp add: unat_sub order.strict_implies_order)
      have "0 < pos_principal position - part"
        using part left by (simp add: word_less_nat_alt)
      moreover have "unat debt - unat amount \<le>
          unat (pos_principal position - part) * unat (pool_borrow_index pool') div 10 ^ 18"
        using small(2) to_scaled_unat [OF s(1)] actual(3) by (simp add: left)
      moreover have "part \<noteq> pos_principal position" using part by auto
      ultimately show ?thesis using False by (simp add: L' position_after_def)
    qed
    then show ?thesis using 1(1,2,7,8,15) by (auto simp: L' 1(10))
  qed
qed

text \<open>C24: The same request on a Bitcoin position, with the largest amount: the position is closed whatever the
  token account holds, and only what it holds is paid.\<close>

theorem btc_repay_all_closes:
  assumes "execute E c (RepayBtcBorrow v mint ptk btk owner u64_MAX) L = Inr L'"
  shows "\<exists>pool position borrower pool' debt. lg_pools L mint = Some pool
    \<and> lg_btc_positions L v = Some position \<and> lg_tokens L btk = Some borrower
    \<and> accrue_interest pool (clock_slot c) = Inr pool'
    \<and> current_debt (pos_principal position) (pool_borrow_index pool') = Inr debt
    \<and> env_token_transfer E (lg_tokens L) btk ptk owner (min (tok_amount borrower) debt) = Some (lg_tokens L')
    \<and> lg_btc_positions L' v = None"
proof -
  from assms have "repay_btc_borrow E c v mint ptk btk owner u64_MAX L = Inr L'" by simp
  then show ?thesis
  proof (cases rule: repay_btc_effect)
    case (1 pool position borrower pool' debt actual part toks tot lams)
    have "part = pos_principal position" using 1(13) by simp
    then show ?thesis using 1(1,2,3,7,8,10,15) by (simp add: 1(17) position_after_def)
  qed
qed

text \<open>Which pool takes the repayment is the sender's choice: the asset the position was borrowed in is
  not looked at.\<close>

definition succeeds :: "'a run \<Rightarrow> bool" where
  "succeeds r \<longleftrightarrow> (case r of Inl _ \<Rightarrow> False | Inr _ \<Rightarrow> True)"

lemma succeeds_simps:
  "succeeds (Inr x)" "\<not> succeeds (Inl e)"
  "succeeds (run_bind m f) \<longleftrightarrow> (\<exists>x. m = Inr x \<and> succeeds (f x))"
  by (auto simp: succeeds_def run_bind_def split: sum.splits)

lemma repay_ignores_borrow_asset:
  assumes "lg_positions L v = Some p"
  shows "succeeds (repay_borrow E c v mint ptk btk owner amount L) \<longleftrightarrow>
    succeeds (repay_borrow E c v mint ptk btk owner amount
       (L\<lparr>lg_positions := (lg_positions L)(v \<mapsto> p\<lparr>pos_borrow_asset := other\<rparr>)\<rparr>))"
  using assms by (simp add: repay_borrow_def succeeds_simps Let_def)

section \<open>Positions that owe nothing\<close>

lemma empty_position_frame:
  assumes "lg_positions L v = Some p" "pos_principal p = 0"
  shows "repay_borrow E c v mint ptk btk owner amount L \<noteq> Inr L'"
    and "liquidate_position E c v mint ptk ltk liquidator L \<noteq> Inr L'"
    and "borrow_against_collateral E c v mint ptk btk owner amount ct L \<noteq> Inr L'"
  using assms by (auto elim!: repay_effect liquidate_effect borrow_effect dest!: current_debt_zero)

text \<open>C27: A position without principal on a vault of lamports stays for ever: no instruction repays, liquidates
  or closes it, and its vault can never borrow again. (A Bitcoin position emptied by a liquidation is closed
  by the finalization.) Borrowing one unit makes such a position as soon as interest has
  accrued (\<open>to_scaled_one\<close>).\<close>

theorem empty_position_is_for_ever:
  assumes "lg_positions L v = Some p" "pos_principal p = 0" "execute E c ix L = Inr L'"
  shows "lg_positions L' v = Some p"
proof (cases "lends ix")
  case False
  then show ?thesis using lending_frame [OF assms(3)] assms(1) by simp
next
  case True
  note frame = empty_position_frame [OF assms(1,2)]
  show ?thesis
  proof (cases ix)
    case (BorrowAgainstCollateral w mint ptk btk owner amount ct)
    then have "w \<noteq> v" using assms(3) frame(3) by auto
    then show ?thesis using assms BorrowAgainstCollateral by (auto elim!: borrow_effect)
  next
    case (RepayBorrow w mint ptk btk owner amount)
    then have "w \<noteq> v" using assms(3) frame(1) by auto
    then show ?thesis using assms RepayBorrow by (auto elim!: repay_effect)
  next
    case (LiquidatePosition w mint ptk ltk liquidator)
    then have "w \<noteq> v" using assms(3) frame(2) by auto
    then show ?thesis using assms LiquidatePosition by (auto elim!: liquidate_effect)
  qed (use True assms in \<open>auto simp: initialize_lending_pool_def run_success_env
      elim!: borrow_btc_effect repay_btc_effect liquidate_btc_effect finalize_effect\<close>)
qed

lemma to_scaled_one:
  assumes "LendingPool_RAY < index"
  shows "to_scaled 1 index = Inr 0"
proof -
  have "(10::nat) ^ 18 < unat index" using assms
    by (simp add: LendingPool_RAY_def word_less_nat_alt)
  then show ?thesis by (simp add: to_scaled_eq)
qed

section \<open>Liquidating a vault of lamports\<close>

text \<open>A liquidation only seizes what the vault's account holds beyond its rent.\<close>

lemma liquidation_needs_lamports:
  assumes "liquidate_position E c v mint ptk ltk liquidator L = Inr L'"
  shows "env_minimum_balance E VaultAccount_LEN < lg_lamports L v"
proof (rule ccontr)
  assume "\<not> ?thesis"
  then have "(if env_minimum_balance E VaultAccount_LEN \<le> lg_lamports L v
      then lg_lamports L v - env_minimum_balance E VaultAccount_LEN else 0) = 0" by auto
  with assms show False by (elim liquidate_effect) simp
qed

text \<open>C26: Depositing moves no lamports: a vault whose account holds no more than its rent cannot be
  liquidated after a deposit either, whatever it owes, unless somebody sends it lamports besides.\<close>

theorem deposit_cannot_be_seized:
  assumes "lg_lamports L v \<le> env_minimum_balance E VaultAccount_LEN"
    and "execute E c (DepositCollateral v depositor n) L = Inr L1"
  shows "execute E c' (LiquidatePosition v mint ptk ltk liquidator) L1 \<noteq> Inr L2"
proof
  assume "execute E c' (LiquidatePosition v mint ptk ltk liquidator) L1 = Inr L2"
  then have "env_minimum_balance E VaultAccount_LEN < lg_lamports L1 v"
    using liquidation_needs_lamports by simp
  moreover have "lg_lamports L1 = lg_lamports L" using assms(2) by (auto elim!: deposit_effect)
  ultimately show False using assms(1) by simp
qed

text \<open>C25: A few lamports sent to a vault protect its loan. What a liquidation seizes is what the account
  holds beyond its rent, up to the deposit with the bonus, and it is then taken off the deposit without
  the bonus: as soon as the account holds more than its deposit, no liquidation succeeds, however low
  the price.\<close>

theorem donation_blocks_liquidation:
  assumes "lg_vaults L v = Some vault" "lg_pools L mint = Some pool"
    and "collateral_with_bonus (vault_deposited_amount vault) (pool_liquidation_bonus_bps pool)
      = Inr seizable" "vault_deposited_amount vault < seizable"
    and "unat (env_minimum_balance E VaultAccount_LEN) + unat (vault_deposited_amount vault)
      < unat (lg_lamports L v)"
  shows "execute E c (LiquidatePosition v mint ptk ltk liquidator) L \<noteq> Inr L'"
proof
  assume "execute E c (LiquidatePosition v mint ptk ltk liquidator) L = Inr L'"
  then have "liquidate_position E c v mint ptk ltk liquidator L = Inr L'" by simp
  then show False
  proof (cases rule: liquidate_effect)
    case l: (1 vault1 protocol pool1 feed position pool' debt toks seizable1 movable seized tot lams)
    have bonus: "pool_liquidation_bonus_bps pool' = pool_liquidation_bonus_bps pool"
      using l(3,9) assms(2) by (auto elim: accrue_interest_cases)
    have "vault1 = vault" "seizable1 = seizable" using l(1,13) assms(1,3) bonus by simp_all
    moreover have rent: "env_minimum_balance E VaultAccount_LEN \<le> lg_lamports L v"
      using assms(5) by (simp add: word_le_nat_alt)
    then have "unat movable = unat (lg_lamports L v) - unat (env_minimum_balance E VaultAccount_LEN)"
      by (simp add: l(14) unat_sub)
    then have "vault_deposited_amount vault < movable"
      using assms(5) by (simp add: word_less_nat_alt)
    ultimately show False using l(15,17) assms(4) by (simp add: min_def split: if_splits)
  qed
qed

end
