(* ===== verification/Chain_Example.thy ===== *)
theory Chain_Example
  imports Chain_Loans
begin

text \<open>
  A run of the program from an empty ledger: a pool is opened, a loan taken against lamports and one
  against Bitcoin, the price falls, and the Bitcoin loan is liquidated. It shows the properties of the
  program at work on ledgers that can be reached.
\<close>

section \<open>The environment of the run\<close>

definition demo_transfer :: "tokens \<Rightarrow> pubkey \<Rightarrow> pubkey \<Rightarrow> pubkey \<Rightarrow> 64 word \<Rightarrow> tokens option" where
  "demo_transfer toks f t authority n = (case (toks f, toks t) of
       (Some x, Some y) \<Rightarrow>
         if tok_owner x = authority \<and> tok_mint x = tok_mint y \<and> n \<le> tok_amount x
         then Some (if f = t then toks
           else toks(f \<mapsto> x\<lparr>tok_amount := tok_amount x - n\<rparr>, t \<mapsto> y\<lparr>tok_amount := tok_amount y + n\<rparr>))
         else None
     | _ \<Rightarrow> None)"

definition demo_env :: chain_env where
  "demo_env = \<lparr>
     env_pda = (\<lambda>seeds. (word_of_nat (length (concat seeds)), 255)),
     env_token_transfer = demo_transfer,
     env_create_account = (\<lambda>lams payer new space.
       if 1 \<le> lams payer then Some (lams(payer := lams payer - 1, new := lams new + 1)) else None),
     env_close_account = (\<lambda>lams a dest. lams(a := 0, dest := lams dest + lams a)),
     env_minimum_balance = (\<lambda>_. 1),
     env_approve_message = (\<lambda>data k d p m md u s b. Some (data(k := [14])))\<rparr>"

definition demo_clock :: clock where
  "demo_clock = \<lparr>clock_slot = 5, clock_unix_timestamp = 1000\<rparr>"

abbreviation demo_pool_key :: pubkey where "demo_pool_key \<equiv> 44"
abbreviation demo_vault_key :: pubkey where "demo_vault_key \<equiv> 69"
abbreviation demo_btc_key :: pubkey where "demo_btc_key \<equiv> 73"

text \<open>Approvals of both dWallets, as the demo helper writes them.\<close>

definition demo_approval :: "bytes \<Rightarrow> bytes" where
  "demo_approval dwallet = replicate 8 0 @ dwallet @ word_le 8 (1000 :: 64 word) @ [1]"

definition demo_dwallet :: bytes where "demo_dwallet = replicate 32 7"

text \<open>The tokens of the pool, the borrower and the liquidator.\<close>

definition demo_tokens :: "64 word \<Rightarrow> 64 word \<Rightarrow> 64 word \<Rightarrow> tokens" where
  "demo_tokens pool borrower liquidator = (\<lambda>k.
     if k = 4 then Some \<lparr>tok_mint = 3, tok_owner = demo_pool_key, tok_amount = pool\<rparr>
     else if k = 5 then Some \<lparr>tok_mint = 3, tok_owner = 2, tok_amount = borrower\<rparr>
     else if k = 8 then Some \<lparr>tok_mint = 3, tok_owner = 9, tok_amount = liquidator\<rparr> else None)"

lemma demo_tokens [simp]:
  "demo_tokens p b l 4 = Some \<lparr>tok_mint = 3, tok_owner = demo_pool_key, tok_amount = p\<rparr>"
  "demo_tokens p b l 5 = Some \<lparr>tok_mint = 3, tok_owner = 2, tok_amount = b\<rparr>"
  "demo_tokens p b l 8 = Some \<lparr>tok_mint = 3, tok_owner = 9, tok_amount = l\<rparr>"
  by (simp_all add: demo_tokens_def)

lemma demo_transfers [simp]:
  "n \<le> p \<Longrightarrow> demo_transfer (demo_tokens p b l) 4 5 demo_pool_key n = Some (demo_tokens (p - n) (b + n) l)"
  "n \<le> b \<Longrightarrow> demo_transfer (demo_tokens p b l) 5 4 2 n = Some (demo_tokens (p + n) (b - n) l)"
  "n \<le> l \<Longrightarrow> demo_transfer (demo_tokens p b l) 8 4 9 n = Some (demo_tokens (p + n) b (l - n))"
  by (simp_all add: demo_transfer_def fun_eq_iff) (simp_all add: demo_tokens_def)

definition demo_start :: ledger where
  "demo_start = \<lparr>lg_protocol = None, lg_pools = Map.empty, lg_feeds = Map.empty, lg_vaults = Map.empty,
     lg_risks = Map.empty, lg_positions = Map.empty, lg_btc_vaults = Map.empty,
     lg_attestations = Map.empty, lg_btc_positions = Map.empty,
     lg_tokens = demo_tokens 1000000000 0 1000000000,
     lg_mints = [3 \<mapsto> 6], lg_lamports = (\<lambda>k. if k = 1 \<or> k = 2 then 100 else 0),
     lg_data = (\<lambda>k. if k = 81 then demo_approval demo_dwallet
       else if k = 82 then demo_approval (to_buffer 6) else [])\<rparr>"

lemma length_demo_dwallet [simp]: "length demo_dwallet = 32"
  by (simp add: demo_dwallet_def)

lemma demo_approval_parsed:
  "vault_owner v = owner \<Longrightarrow> verify_custody_proof v owner 81 (demo_approval demo_dwallet) demo_dwallet 1000 =
     (if vault_proof_status v = 0 \<or> vault_proof_status v = 2 then
        if vault_dwallet_id v = demo_dwallet then
          Done (v\<lparr>vault_proof_status := 1, vault_proof_timestamp := 1000\<rparr>)
        else Refused DWalletMismatch
      else Refused VaultAlreadyVerified)"
  using parse_helper_bytes [of demo_dwallet 1000 True demo_dwallet 1000]
  by (simp add: verify_custody_proof_def demo_approval_def demo_dwallet_def in_i64_def
      PROOF_EXPIRY_SECONDS_def PROOF_STATUS_PENDING_def PROOF_STATUS_EXPIRED_def
      PROOF_STATUS_VERIFIED_def PublicKey_default_def)

lemma demo_pdas [simp]:
  "env_pda demo_env seeds = (word_of_nat (length (concat seeds)), 255)"
  "env_token_transfer demo_env = demo_transfer"
  "env_minimum_balance demo_env n = 1"
  "env_create_account demo_env lams payer new n =
     (if 1 \<le> lams payer then Some (lams(payer := lams payer - 1, new := lams new + 1)) else None)"
  "env_close_account demo_env lams k dest = lams(k := 0, dest := lams dest + lams k)"
  "env_approve_message demo_env data k d p m md u sc b = Some (data(k := [14]))"
  by (simp_all add: demo_env_def)

section \<open>The run\<close>

fun execute_all :: "chain_env \<Rightarrow> clock \<Rightarrow> instruction list \<Rightarrow> ledger \<Rightarrow> ledger run" where
  "execute_all E c [] L = Inr L"
| "execute_all E c (ix # ixs) L = run_bind (execute E c ix L) (execute_all E c ixs)"

lemma reachable_all: "reachable E L \<Longrightarrow> execute_all E c ixs L = Inr L' \<Longrightarrow> reachable E L'"
  by (induction ixs arbitrary: L) (auto simp: run_bind_Inr intro: reachable_step)

text \<open>The protocol, a pool of a thousand dollars with its Bitcoin feed at 60000 dollars, the feed of SOL
  at 150 dollars, and a verified vault of one SOL.\<close>

definition demo_setup :: "instruction list" where
  "demo_setup = [
     InitializeProtocol 1,
     InitializeLendingPool 3 4 1 0 1000000000 6000000000000 5000 8000 500 200 1500,
     InitializeAdminPriceFeed 1 2 15000000000,
     RegisterVault 2 demo_dwallet 2,
     VerifyCustodyProof demo_vault_key 81 2 demo_dwallet,
     DepositCollateral demo_vault_key 2 1000000000]"

definition demo_pool :: LendingPool where
  "demo_pool = \<lparr>pool_borrow_asset = 3, pool_borrow_asset_mint = 3, pool_token_vault = 4,
     pool_total_liquidity = 1000000000, pool_total_borrowed = 0, pool_admin = 1,
     pool_ltv_basis_points = 5000, pool_liquidation_threshold_bps = 8000,
     pool_liquidation_bonus_bps = 500, pool_mint_decimals = 6, pool_borrow_index = LendingPool_RAY,
     pool_last_update_slot = 5, pool_base_rate_bps = 200, pool_rate_slope_bps = 1500, pool_bump = 255\<rparr>"

definition demo_feed :: "byte \<Rightarrow> 64 word \<Rightarrow> AdminPriceFeed" where
  "demo_feed a price = \<lparr>feed_asset_type = a, feed_price_usd = price, feed_updated_at = 1000,
     feed_admin = 1, feed_bump = 255\<rparr>"

definition demo_vault :: VaultState where
  "demo_vault = \<lparr>vault_vault_id = demo_vault_key, vault_owner = 2, vault_dwallet_id = demo_dwallet,
     vault_asset_type = 2, vault_deposited_amount = 1000000000, vault_proof_status = 1,
     vault_proof_timestamp = 1000, vault_frozen = False, vault_bump = 255\<rparr>"

definition demo_protocol :: "64 word \<Rightarrow> ProtocolStateAccount" where
  "demo_protocol n = \<lparr>proto_admin = 1, proto_frozen = False, proto_total_vaults = n,
     proto_total_verified = 0, proto_total_rejected = 0, proto_total_collateral_verified = 1000000000,
     proto_bump = 255\<rparr>"

lemmas demo_simps =
  demo_start_def demo_clock_def
  vault_pda_def lending_pool_pda_def price_feed_pda_def protocol_state_pda_def
  borrow_position_pda_def btc_vault_pda_def btc_attestation_pda_def btc_borrow_position_pda_def
  VAULT_PDA_SEED_def LENDING_POOL_PDA_SEED_def ADMIN_PRICE_FEED_PDA_SEED_def
  PROTOCOL_STATE_PDA_SEED_def BORROW_POSITION_PDA_SEED_def BTC_VAULT_PDA_SEED_def
  BTC_ATTESTATION_PDA_SEED_def BTC_BORROW_POSITION_PDA_SEED_def byte_string_def

lemma demo_terms: "validate_bps 5000 8000 500 = Inr ()"
  by (simp add: validate_bps_iff)

lemma demo_setup_run:
  "\<exists>lams. execute_all demo_env demo_clock demo_setup demo_start = Inr (demo_start\<lparr>
     lg_protocol := Some (demo_protocol 1), lg_pools := [3 \<mapsto> demo_pool],
     lg_feeds := [0 \<mapsto> demo_feed 0 6000000000000, 2 \<mapsto> demo_feed 2 15000000000],
     lg_vaults := [demo_vault_key \<mapsto> demo_vault], lg_lamports := lams\<rparr>) \<and> lams demo_vault_key = 1"
  by (simp add: demo_setup_def initialize_protocol_def init_account_def demo_simps
      initialize_lending_pool_def validate_asset_type_def demo_terms demo_pool_def demo_feed_def
      demo_vault_def demo_protocol_def PROOF_STATUS_PENDING_def PROOF_STATUS_VERIFIED_def
      PROOF_EXPIRY_SECONDS_def
      initialize_admin_price_feed_def register_vault_def run_verify_custody_proof_def on_vault_def
      demo_approval_parsed deposit_collateral_def checked_add_def plain_age_def in_i64_def u128_def)

text \<open>A loan of 50 dollars against the SOL.\<close>

definition demo_position :: "pubkey \<Rightarrow> 64 word \<Rightarrow> BorrowPosition" where
  "demo_position key n = \<lparr>pos_vault = key, pos_owner = 2, pos_borrow_asset = 3, pos_principal = n,
     pos_borrowed_at = 1000, pos_last_updated_at = 1000, pos_borrow_index_snapshot = LendingPool_RAY,
     pos_health_ciphertext = 0, pos_bump = 255\<rparr>"

definition demo_lent :: "lamports \<Rightarrow> ledger" where
  "demo_lent lams = demo_start\<lparr>
     lg_protocol := Some (demo_protocol 1),
     lg_pools := [3 \<mapsto> demo_pool\<lparr>pool_total_borrowed := 50000000\<rparr>],
     lg_feeds := [0 \<mapsto> demo_feed 0 6000000000000, 2 \<mapsto> demo_feed 2 15000000000],
     lg_vaults := [demo_vault_key \<mapsto> demo_vault],
     lg_positions := [demo_vault_key \<mapsto> demo_position demo_vault_key 50000000],
     lg_tokens := demo_tokens 950000000 50000000 1000000000,
     lg_lamports := lams\<rparr>"

lemmas demo_lending =
  borrow_against_collateral_def init_account_def demo_pool_def demo_feed_def demo_vault_def
  demo_protocol_def demo_position_def PROOF_STATUS_VERIFIED_def PROOF_EXPIRY_SECONDS_def
  PRICE_STALENESS_SECONDS_def checked_age_def in_i64_def calculate_max_borrow_eq max_borrow_nat_def
  accrue_interest_def current_debt_eq to_scaled_eq LendingPool_RAY_def token_transfer_def
  checked_add_def checked_sub_def Let_def

definition demo_vaulted :: "lamports \<Rightarrow> ledger" where
  "demo_vaulted lams = demo_start\<lparr>
     lg_protocol := Some (demo_protocol 1), lg_pools := [3 \<mapsto> demo_pool],
     lg_feeds := [0 \<mapsto> demo_feed 0 6000000000000, 2 \<mapsto> demo_feed 2 15000000000],
     lg_vaults := [demo_vault_key \<mapsto> demo_vault], lg_lamports := lams\<rparr>"

lemma demo_borrow_run:
  assumes "1 \<le> lams 2"
  shows "\<exists>lams'. execute demo_env demo_clock
      (BorrowAgainstCollateral demo_vault_key 3 4 5 2 50000000 0) (demo_vaulted lams) = Inr (demo_lent lams')"
  using assms by (simp add: demo_vaulted_def demo_lent_def demo_simps demo_lending)

text \<open>A Bitcoin vault of one coin, and a loan of 500 dollars against it.\<close>

definition demo_btc_address :: bytes where "demo_btc_address = [116, 98, 49, 113]"
definition demo_dwallet_pubkey :: bytes where "demo_dwallet_pubkey = 2 # replicate 32 0"

definition demo_btc_vault :: BtcVaultState where
  "demo_btc_vault = (new_btc_vault demo_env 2 6 demo_dwallet_pubkey demo_btc_address)\<lparr>
     btc_proof_status := 1, btc_proof_timestamp := 1000, btc_deposited_satoshis := 100000000,
     btc_last_attestation_slot := 5\<rparr>"

definition demo_attestation :: BitcoinBalanceAttestation where
  "demo_attestation = (new_attestation demo_env demo_btc_key demo_btc_address)\<lparr>
     att_satoshis := 100000000, att_bitcoin_block_height := 100,
     att_bitcoin_block_hash := replicate 32 1, att_attested_at_slot := 5,
     att_attested_at_unix := 1000, att_keeper := 1\<rparr>"

definition demo_attested :: "lamports \<Rightarrow> ledger" where
  "demo_attested lams = (demo_lent lams)\<lparr>
     lg_protocol := Some (demo_protocol 2), lg_btc_vaults := [demo_btc_key \<mapsto> demo_btc_vault],
     lg_attestations := [demo_btc_key \<mapsto> demo_attestation]\<rparr>"

lemma demo_btc_approval_parsed:
  "parse_message_approval_for_btc_dwallet (demo_approval (to_buffer 6)) 6 1000
     = Done \<lparr>pa_dwallet_id = to_buffer 6, pa_approved_at = 1000, pa_is_signed = True, pa_source = DemoHelper\<rparr>"
  using i64_le_word_le [of 1000]
  by (simp add: demo_approval_def parse_message_approval_for_btc_dwallet_def DEMO_MA_LEN_def
      REAL_MA_DISCRIMINATOR_def DEMO_MA_DWALLET_OFFSET_def DEMO_MA_APPROVED_AT_OFFSET_def
      DEMO_MA_SIGNED_OFFSET_def subarray_def nth_append in_i64_def PROOF_EXPIRY_SECONDS_def Let_def)

lemma demo_btc_setup_run:
  assumes "2 \<le> lams 2"
  shows "\<exists>lams'. execute_all demo_env demo_clock [
       RegisterBtcVault 2 6 demo_dwallet_pubkey demo_btc_address,
       VerifyBtcCustodyProof demo_btc_key 82 2,
       AttestBtcBalance demo_btc_key 1 100000000 100 (replicate 32 1)] (demo_lent lams)
     = Inr (demo_attested lams')"
proof -
  have "1 \<le> lams 2" "1 \<le> lams 2 - 1" using assms by (unat_arith)+
  then show ?thesis
    by (simp add: demo_simps demo_lent_def demo_attested_def register_btc_vault_def init_account_def
        demo_btc_vault_def demo_attestation_def new_btc_vault_def new_attestation_def
        verify_btc_custody_proof_def attest_btc_balance_def demo_btc_approval_parsed
        demo_dwallet_pubkey_def demo_btc_address_def demo_protocol_def checked_add_def
        PROOF_STATUS_PENDING_def PROOF_STATUS_VERIFIED_def)
qed

definition demo_both :: "lamports \<Rightarrow> ledger" where
  "demo_both lams = (demo_attested lams)\<lparr>
     lg_pools := [3 \<mapsto> demo_pool\<lparr>pool_total_borrowed := 550000000\<rparr>],
     lg_btc_positions := [demo_btc_key \<mapsto> demo_position demo_btc_key 500000000],
     lg_tokens := demo_tokens 450000000 550000000 1000000000\<rparr>"

lemma demo_btc_borrow_run:
  assumes "1 \<le> lams 2"
  shows "\<exists>lams'. execute demo_env demo_clock
      (BorrowAgainstBtcCollateral demo_btc_key 3 4 5 2 500000000 0) (demo_attested lams) = Inr (demo_both lams')"
  using assms
  by (simp add: demo_both_def demo_attested_def demo_lent_def demo_simps demo_lending
      borrow_against_btc_collateral_def calculate_max_btc_borrow_eq demo_btc_vault_def
      demo_attestation_def new_btc_vault_def new_attestation_def BTC_ATTESTATION_MAX_AGE_SECONDS_def)

text \<open>Bitcoin falls to 100 dollars, and the loan against it is liquidated.\<close>

definition demo_fallen :: "lamports \<Rightarrow> ledger" where
  "demo_fallen lams = (demo_both lams)\<lparr>
     lg_feeds := [0 \<mapsto> demo_feed 0 10000000000, 2 \<mapsto> demo_feed 2 15000000000]\<rparr>"

definition demo_liquidated :: "lamports \<Rightarrow> ledger" where
  "demo_liquidated lams = (demo_fallen lams)\<lparr>
     lg_pools := [3 \<mapsto> demo_pool\<lparr>pool_total_borrowed := 50000000\<rparr>],
     lg_btc_positions := [demo_btc_key \<mapsto> demo_position demo_btc_key 0],
     lg_btc_vaults := [demo_btc_key \<mapsto> demo_btc_vault\<lparr>btc_frozen := True,
       btc_liquidation_initiated_at := 1000, btc_liquidation_sighash := replicate 32 3\<rparr>],
     lg_tokens := demo_tokens 950000000 550000000 500000000,
     lg_data := (lg_data demo_start)(90 := [14])\<rparr>"

lemma demo_fall_run:
  "execute demo_env demo_clock (UpdateAdminPrice 1 0 10000000000) (demo_both lams) = Inr (demo_fallen lams)"
  by (simp add: demo_fallen_def demo_both_def demo_attested_def demo_lent_def demo_simps
      update_admin_price_def demo_feed_def fun_upd_twist)

lemma demo_liquidate_run:
  "execute demo_env demo_clock (LiquidateBtcPosition demo_btc_key 3 4 8 6 90 9 (replicate 32 3)
      (replicate 32 0) (replicate 32 0) 255) (demo_fallen lams) = Inr (demo_liquidated lams)"
proof -
  have "debt_to_satoshis_with_bonus 500000000 10000000000 500 = Inr 525000000"
    by (simp add: debt_to_satoshis_with_bonus_def checked_mul_eq checked_div_eq checked_add_eq u128_def
        u64_try_from_def PRICE_DECIMALS_def chain_SATOSHIS_PER_BTC_def BORROW_ASSET_DECIMALS_def
        BASIS_POINTS_DENOMINATOR_def)
  then show ?thesis
  by (simp add: demo_liquidated_def demo_fallen_def demo_both_def demo_attested_def demo_lent_def
      demo_simps demo_lending liquidate_btc_position_def demo_btc_vault_def demo_attestation_def
      new_btc_vault_def new_attestation_def BTC_ATTESTATION_MAX_AGE_SECONDS_def
      is_btc_liquidatable_eq liquidation_value_nat_def seized_satoshis_def approve_message_def)
qed

section \<open>The ledgers of the run are reachable\<close>

lemma demo_start_reachable: "reachable E demo_start"
  by (rule reachable_start) (simp add: no_program_accounts_def demo_start_def)

lemma reachable_lamports: "reachable E L \<Longrightarrow> reachable E (L\<lparr>lg_lamports := lams\<rparr>)"
  using reachable_others [where L = L and toks = "lg_tokens L" and mints = "lg_mints L" and lams = lams
      and data = "lg_data L"] by simp

lemma demo_relamped:
  "(demo_vaulted a)\<lparr>lg_lamports := b\<rparr> = demo_vaulted b"
  "(demo_lent a)\<lparr>lg_lamports := b\<rparr> = demo_lent b"
  "(demo_attested a)\<lparr>lg_lamports := b\<rparr> = demo_attested b"
  "(demo_both a)\<lparr>lg_lamports := b\<rparr> = demo_both b"
  by (auto intro!: ledger.equality
      simp: demo_vaulted_def demo_lent_def demo_attested_def demo_both_def)

lemma demo_vaulted_reachable: "reachable demo_env (demo_vaulted lams)"
proof -
  obtain lams' where "reachable demo_env (demo_vaulted lams')"
    using demo_setup_run reachable_all [OF demo_start_reachable] unfolding demo_vaulted_def by blast
  then show ?thesis
    using reachable_lamports [of demo_env "demo_vaulted lams'" lams] by (simp only: demo_relamped)
qed

lemma demo_lent_reachable: "reachable demo_env (demo_lent lams)"
proof -
  have "1 \<le> (\<lambda>_. 1 :: 64 word) (2 :: pubkey)" by simp
  from demo_borrow_run [OF this] obtain lams' where "reachable demo_env (demo_lent lams')"
    using reachable_step [OF demo_vaulted_reachable] by blast
  then show ?thesis
    using reachable_lamports [of demo_env "demo_lent lams'" lams] by (simp only: demo_relamped)
qed

lemma demo_attested_reachable: "reachable demo_env (demo_attested lams)"
proof -
  have "2 \<le> (\<lambda>_. 2 :: 64 word) (2 :: pubkey)" by simp
  from demo_btc_setup_run [OF this] obtain lams' where "reachable demo_env (demo_attested lams')"
    using reachable_all [OF demo_lent_reachable] by blast
  then show ?thesis
    using reachable_lamports [of demo_env "demo_attested lams'" lams] by (simp only: demo_relamped)
qed

lemma demo_both_reachable: "reachable demo_env (demo_both lams)"
proof -
  have "1 \<le> (\<lambda>_. 1 :: 64 word) (2 :: pubkey)" by simp
  from demo_btc_borrow_run [OF this] obtain lams' where "reachable demo_env (demo_both lams')"
    using reachable_step [OF demo_attested_reachable] by blast
  then show ?thesis
    using reachable_lamports [of demo_env "demo_both lams'" lams] by (simp only: demo_relamped)
qed

lemma demo_liquidated_reachable: "reachable demo_env (demo_liquidated lams)"
  using reachable_step [OF reachable_step [OF demo_both_reachable demo_fall_run] demo_liquidate_run] .

section \<open>The properties on the run\<close>

abbreviation no_lamports :: lamports where "no_lamports \<equiv> \<lambda>_. 0"

lemma debt_conserved_witness:
  "pool_debt (demo_both no_lamports) = position_debt (demo_both no_lamports)"
  by (rule debt_conserved [OF demo_both_reachable])

text \<open>The owner takes out the whole collateral of an open loan.\<close>

lemma withdraw_succeeds_iff_witness:
  "(\<exists>L. execute demo_env demo_clock (WithdrawCollateral demo_vault_key 2 1000000000)
      (demo_lent no_lamports) = Inr L)
   \<and> lg_positions (demo_lent no_lamports) demo_vault_key = Some (demo_position demo_vault_key 50000000)"
  using withdraw_succeeds_iff [OF demo_lent_reachable [of no_lamports],
      of demo_clock demo_vault_key 2 1000000000]
  by (simp add: demo_lent_def demo_vault_def demo_protocol_def)

lemma liquidation_can_be_finalized_witness:
  "\<exists>L' vault'. execute demo_env demo_clock (FinalizeBtcLiquidation demo_btc_key 1 101 1 0)
      (demo_liquidated no_lamports) = Inr L'
    \<and> lg_btc_vaults L' demo_btc_key = Some vault' \<and> \<not> settling vault'
    \<and> lg_btc_positions L' demo_btc_key = None"
  using liquidation_can_be_finalized [OF demo_liquidated_reachable [of no_lamports],
      of demo_btc_key _ "demo_protocol 2" 1 demo_clock 101 0]
  by (auto simp: demo_liquidated_def demo_fallen_def demo_both_def demo_attested_def demo_protocol_def)

definition demo_frozen :: ledger where
  "demo_frozen = (demo_lent no_lamports)\<lparr>lg_protocol := Some ((demo_protocol 1)\<lparr>proto_frozen := True\<rparr>)\<rparr>"

lemma demo_repay_run:
  "\<exists>L. execute demo_env demo_clock (RepayBorrow demo_vault_key 3 4 5 2 10000000)
     ((demo_lent lams)\<lparr>lg_protocol := p\<rparr>) = Inr L"
  by (simp add: demo_lent_def demo_simps demo_lending repay_borrow_def)

lemma freeze_holds_witness:
  "\<exists>L p. execute demo_env demo_clock (RepayBorrow demo_vault_key 3 4 5 2 10000000) demo_frozen = Inr L
     \<and> lg_protocol L = Some p \<and> proto_frozen p"
proof -
  obtain L where L: "execute demo_env demo_clock (RepayBorrow demo_vault_key 3 4 5 2 10000000) demo_frozen = Inr L"
    using demo_repay_run unfolding demo_frozen_def by blast
  moreover have "lg_protocol demo_frozen = Some ((demo_protocol 1)\<lparr>proto_frozen := True\<rparr>)"
    by (simp add: demo_frozen_def)
  ultimately show ?thesis using freeze_holds [OF _ _ L] by auto
qed

lemma pool_terms_kept_witness:
  "\<exists>L pool. execute demo_env demo_clock (BorrowAgainstCollateral demo_vault_key 3 4 5 2 50000000 0)
     (demo_vaulted (\<lambda>_. 1)) = Inr L \<and> lg_pools L 3 = Some pool \<and> same_terms demo_pool pool"
proof -
  obtain L where L: "execute demo_env demo_clock
      (BorrowAgainstCollateral demo_vault_key 3 4 5 2 50000000 0) (demo_vaulted (\<lambda>_. 1)) = Inr L"
    using demo_borrow_run [of "\<lambda>_. 1"] by auto
  then show ?thesis
    using pool_terms_kept [OF L, of 3 demo_pool] by (auto simp: demo_vaulted_def)
qed

lemma fresh_borrow_not_liquidatable_witness:
  "\<exists>L. execute demo_env demo_clock (BorrowAgainstCollateral demo_vault_key 3 4 5 2 50000000 0)
     (demo_vaulted (\<lambda>_. 1)) = Inr L
   \<and> (\<forall>L'. execute demo_env demo_clock (LiquidatePosition demo_vault_key 3 4 8 9) L \<noteq> Inr L')"
proof -
  obtain L where L: "execute demo_env demo_clock
      (BorrowAgainstCollateral demo_vault_key 3 4 5 2 50000000 0) (demo_vaulted (\<lambda>_. 1)) = Inr L"
    using demo_borrow_run [of "\<lambda>_. 1"] by auto
  have "execute demo_env demo_clock (LiquidatePosition demo_vault_key 3 4 8 9) L \<noteq> Inr L'" for L'
    by (rule fresh_borrow_not_liquidatable [OF demo_vaulted_reachable L, of demo_vault
          "demo_feed 2 15000000000" demo_pool])
      (simp_all add: demo_vaulted_def demo_vault_def demo_pool_def demo_feed_def worth_a_loan_def)
  with L show ?thesis by blast
qed

lemma repay_outcome_witness:
  "\<exists>L left. execute demo_env demo_clock (RepayBorrow demo_vault_key 3 4 5 2 10000000)
     (demo_lent no_lamports) = Inr L \<and> lg_positions L demo_vault_key = Some left \<and> 0 < pos_principal left"
proof -
  have "(demo_lent no_lamports)\<lparr>lg_protocol := Some (demo_protocol 1)\<rparr> = demo_lent no_lamports"
    by (simp add: demo_lent_def)
  then obtain L where L: "execute demo_env demo_clock (RepayBorrow demo_vault_key 3 4 5 2 10000000)
     (demo_lent no_lamports) = Inr L"
    using demo_repay_run [where lams = no_lamports and p = "Some (demo_protocol 1)"] by metis
  then show ?thesis
    using repay_outcome [OF L]
    by (auto simp: demo_lent_def demo_clock_def demo_pool_def demo_position_def accrue_interest_def
        current_debt_eq LendingPool_RAY_def Let_def)
qed

text \<open>One unit in the token account closes a Bitcoin position of 500 dollars.\<close>

definition demo_poor :: ledger where
  "demo_poor = (demo_both no_lamports)\<lparr>lg_tokens := demo_tokens 450000000 1 1000000000\<rparr>"

lemma demo_btc_repay_run:
  "\<exists>L. execute demo_env demo_clock (RepayBtcBorrow demo_btc_key 3 4 5 2 u64_MAX) demo_poor = Inr L"
  by (simp add: demo_poor_def demo_both_def demo_attested_def demo_lent_def demo_simps demo_lending
      repay_btc_borrow_def u64_MAX_def demo_btc_vault_def new_btc_vault_def)

lemma btc_repay_all_closes_witness:
  "\<exists>L. execute demo_env demo_clock (RepayBtcBorrow demo_btc_key 3 4 5 2 u64_MAX) demo_poor = Inr L
     \<and> lg_btc_positions L demo_btc_key = None \<and> lg_tokens L = demo_tokens 450000001 0 1000000000"
proof -
  obtain L where L: "execute demo_env demo_clock (RepayBtcBorrow demo_btc_key 3 4 5 2 u64_MAX) demo_poor
      = Inr L"
    using demo_btc_repay_run by blast
  then show ?thesis
    using btc_repay_all_closes [OF L]
    by (auto simp: demo_poor_def demo_both_def demo_clock_def demo_pool_def demo_position_def
        accrue_interest_def current_debt_eq LendingPool_RAY_def Let_def)
qed

lemma empty_position_is_for_ever_witness:
  "\<exists>L. execute demo_env demo_clock UnfreezeProtocolState
      ((demo_lent no_lamports)\<lparr>lg_positions := [demo_vault_key \<mapsto> demo_position demo_vault_key 0]\<rparr>) = Inr L
    \<and> lg_positions L demo_vault_key = Some (demo_position demo_vault_key 0)"
proof -
  obtain L where L: "execute demo_env demo_clock UnfreezeProtocolState
      ((demo_lent no_lamports)\<lparr>lg_positions := [demo_vault_key \<mapsto> demo_position demo_vault_key 0]\<rparr>) = Inr L"
    by (simp add: unfreeze_protocol_state_def demo_lent_def)
  then show ?thesis
    using empty_position_is_for_ever [OF _ _ L] by (simp add: demo_position_def)
qed

lemma deposit_cannot_be_seized_witness:
  "\<exists>L. execute demo_env demo_clock (DepositCollateral demo_vault_key 2 7) (demo_lent (\<lambda>_. 1)) = Inr L
    \<and> (\<forall>L'. execute demo_env demo_clock (LiquidatePosition demo_vault_key 3 4 8 9) L \<noteq> Inr L')"
proof -
  obtain L where L: "execute demo_env demo_clock (DepositCollateral demo_vault_key 2 7) (demo_lent (\<lambda>_. 1))
      = Inr L"
    by (simp add: deposit_collateral_def demo_lent_def demo_simps demo_lending plain_age_def u128_def)
  have "execute demo_env demo_clock (LiquidatePosition demo_vault_key 3 4 8 9) L \<noteq> Inr L'" for L'
    by (rule deposit_cannot_be_seized [OF _ L]) (simp add: demo_lent_def)
  with L show ?thesis by blast
qed

text \<open>SOL falls to 10 dollars. The vault whose account holds its rent and its deposit is liquidated, the
  one that was sent one lamport more is not.\<close>

definition demo_cheap :: "64 word \<Rightarrow> ledger" where
  "demo_cheap n = (demo_lent (\<lambda>_. n))\<lparr>
     lg_feeds := [0 \<mapsto> demo_feed 0 6000000000000, 2 \<mapsto> demo_feed 2 1000000000]\<rparr>"

lemma demo_seizable: "collateral_with_bonus 1000000000 500 = Inr 1050000000"
  by (simp add: collateral_with_bonus_def checked_mul_eq checked_div_eq checked_add_eq u128_def
      u64_try_from_def BASIS_POINTS_DENOMINATOR_def)

lemma demo_seize_run:
  "\<exists>L'. execute demo_env demo_clock (LiquidatePosition demo_vault_key 3 4 8 9)
     (demo_cheap 1000000001) = Inr L'"
  by (simp add: demo_cheap_def demo_lent_def demo_simps demo_lending liquidate_position_def
      is_liquidatable_eq liquidation_value_nat_def demo_seizable)

lemma donation_blocks_liquidation_witness:
  "(\<exists>L'. execute demo_env demo_clock (LiquidatePosition demo_vault_key 3 4 8 9)
     (demo_cheap 1000000001) = Inr L')
   \<and> (\<forall>L'. execute demo_env demo_clock (LiquidatePosition demo_vault_key 3 4 8 9)
     (demo_cheap 1000000002) \<noteq> Inr L')"
proof (intro conjI allI demo_seize_run)
  fix L'
  show "execute demo_env demo_clock (LiquidatePosition demo_vault_key 3 4 8 9)
     (demo_cheap 1000000002) \<noteq> Inr L'"
    by (rule donation_blocks_liquidation [where vault = demo_vault and pool = "demo_pool
          \<lparr>pool_total_borrowed := 50000000\<rparr>" and seizable = 1050000000])
      (simp_all add: demo_cheap_def demo_lent_def demo_vault_def demo_pool_def demo_seizable)
qed

end
