(* ===== verification/Chain_Entry.thy ===== *)
theory Chain_Entry
  imports Chain_Dispatch Chain_Example
begin

text \<open>
  Who must have signed: what the dispatch and the handlers together ask of a transaction before it
  touches somebody's collateral, and concrete transactions of the frontend run against the ledger.
\<close>

section \<open>Signatures\<close>

definition signed_by :: "transaction_instruction \<Rightarrow> pubkey \<Rightarrow> bool" where
  "signed_by ix k \<longleftrightarrow> list_ex (\<lambda>m. meta_pubkey m = k \<and> is_signer m) (ix_keys ix)"

fun owner_call :: "instruction \<Rightarrow> pubkey option" where
  "owner_call (WithdrawCollateral v depositor n) = Some depositor"
| "owner_call (CloseVault v owner) = Some owner"
| "owner_call (BorrowAgainstCollateral v m pv ata owner n ct) = Some owner"
| "owner_call (BorrowAgainstBtcCollateral v m pv ata owner n ct) = Some owner"
| "owner_call _ = None"

lemma runs_key: "runs P L ix i \<Longrightarrow> (j, k) \<in> set (keys_of P i) \<Longrightarrow> account_at ix j = k"
  by (auto simp: runs_def list_all_iff)

lemma runs_signature:
  assumes "runs P L ix i" "(j, k) \<in> set (keys_of P i)" "j < length (ir_accounts (rule_of P L i))"
    and "ar_signer (ir_accounts (rule_of P L i) ! j)"
  shows "signed_by ix k"
proof -
  have "j < length (ix_keys ix)" using assms(1,3) by (simp add: runs_def accepts_def)
  moreover have "is_signer (ix_keys ix ! j)"
    using runs_account [OF assms(1,3)] assms(4) by (simp add: account_ok_def)
  ultimately show ?thesis
    using runs_key [OF assms(1,2)] by (auto simp: signed_by_def account_at_def list_ex_iff)
qed

lemma owner_call_signed:
  assumes "runs P L ix i" "owner_call i = Some k"
  shows "signed_by ix k"
proof (cases i)
  case (WithdrawCollateral v depositor n)
  then show ?thesis
    using runs_signature [OF assms(1), of 2 k] assms(2) by (simp add: rule_withdraw_collateral_def acc_def)
next
  case (CloseVault v owner)
  then show ?thesis
    using runs_signature [OF assms(1), of 1 k] assms(2) by (simp add: rule_close_vault_def acc_def)
next
  case (BorrowAgainstCollateral v m pv ata owner n ct)
  then show ?thesis
    using runs_signature [OF assms(1), of 7 k] assms(2)
    by (simp add: rule_borrow_against_collateral_def acc_def)
next
  case (BorrowAgainstBtcCollateral v m pv ata owner n ct)
  then show ?thesis
    using runs_signature [OF assms(1), of 8 k] assms(2)
    by (simp add: rule_borrow_against_btc_collateral_def acc_def)
qed (use assms(2) in simp_all)

section \<open>What only the owner can start\<close>

lemma liquidation_settles:
  assumes "execute E c (LiquidatePosition w m ptk ltk who) L = Inr L'"
  shows "lg_positions L w \<noteq> None" "lg_positions L' w = None" "\<forall>k. k \<noteq> w \<longrightarrow> lg_vaults L' k = lg_vaults L k"
    "\<forall>k. lg_positions L k = None \<longrightarrow> lg_positions L' k = None" "lg_btc_positions L' = lg_btc_positions L"
    "lg_vaults L' w \<noteq> None"
proof -
  from assms have "liquidate_position E c w m ptk ltk who L = Inr L'" by simp
  from this show "lg_positions L w \<noteq> None" "lg_positions L' w = None"
    "\<forall>k. k \<noteq> w \<longrightarrow> lg_vaults L' k = lg_vaults L k"
    "\<forall>k. lg_positions L k = None \<longrightarrow> lg_positions L' k = None" "lg_btc_positions L' = lg_btc_positions L"
    "lg_vaults L' w \<noteq> None"
    by (auto elim!: liquidate_effect)
qed

definition releases :: "ledger \<Rightarrow> ledger \<Rightarrow> pubkey \<Rightarrow> bool" where
  "releases L L' v \<longleftrightarrow> (case lg_vaults L' v of
       None \<Rightarrow> True
     | Some vault' \<Rightarrow> (case lg_vaults L v of
           None \<Rightarrow> False | Some vault \<Rightarrow> vault_deposited_amount vault' < vault_deposited_amount vault))"

definition opens :: "(pubkey \<Rightarrow> BorrowPosition option) \<Rightarrow> (pubkey \<Rightarrow> BorrowPosition option) \<Rightarrow> pubkey \<Rightarrow> bool" where
  "opens before after v \<longleftrightarrow> before v = None \<and> after v \<noteq> None"

lemma release_needs_owner:
  assumes "execute E c i L = Inr L'" "lg_vaults L v = Some vault" "releases L L' v"
    and "\<forall>m ptk ltk who. i \<noteq> LiquidatePosition v m ptk ltk who"
  shows "owner_call i = Some (vault_owner vault)"
proof (cases "moves_collateral i")
  case False
  then have "map_option vault_deposited_amount (lg_vaults L' v) = map_option vault_deposited_amount (lg_vaults L v)"
    using other_instructions_same_deposits [OF assms(1)] by (simp add: same_deposits_def)
  then show ?thesis using assms(2,3) by (auto simp: releases_def split: option.splits)
next
  case True
  then show ?thesis
  proof (cases i)
    case (LiquidatePosition w m ptk ltk who)
    then have "v \<noteq> w" using assms(4) by auto
    then have "lg_vaults L' v = lg_vaults L v"
      using liquidation_settles(3) [OF assms(1) [unfolded LiquidatePosition]] by simp
    then show ?thesis using assms(2,3) by (simp add: releases_def)
  next
    case (DepositCollateral w depositor n)
    from assms(1) have "deposit_collateral c w depositor n L = Inr L'" by (simp add: DepositCollateral)
    then show ?thesis
    proof (cases rule: deposit_effect)
      case (1 x p sum tot)
      have "x\<lparr>vault_deposited_amount := sum\<rparr> = x\<lparr>vault_deposited_amount := sum\<rparr>" by simp
      moreover have "\<not> sum < vault_deposited_amount x"
        using unat_checked_add [OF 1(8)] by (simp add: word_less_nat_alt)
      ultimately show ?thesis
        using assms(2,3) 1(1) by (auto simp: releases_def 1(10) split: if_splits)
    qed
  qed (use assms in \<open>auto simp: register_vault_def initialize_protocol_def close_vault_def Let_def
      run_success_env releases_def elim!: withdraw_effect split: if_splits\<close>)
qed

lemma opening_needs_owner:
  assumes "execute E c i L = Inr L'" "opens (lg_positions L) (lg_positions L') v" "lg_vaults L v = Some vault"
  shows "owner_call i = Some (vault_owner vault)"
proof (cases "lends i")
  case False
  then show ?thesis using lending_frame [OF assms(1)] assms(2) by (auto simp: opens_def)
next
  case True
  then show ?thesis
    using assms by (cases i)
      (auto simp: opens_def initialize_lending_pool_def run_success_env split: if_splits
        elim!: borrow_effect repay_effect borrow_btc_effect repay_btc_effect liquidate_effect
          liquidate_btc_effect finalize_effect)
qed

lemma btc_opening_needs_owner:
  assumes "execute E c i L = Inr L'" "opens (lg_btc_positions L) (lg_btc_positions L') v"
    and "lg_btc_vaults L v = Some vault"
  shows "owner_call i = Some (btc_owner vault)"
proof (cases "lends i")
  case False
  then show ?thesis using lending_frame [OF assms(1)] assms(2) by (auto simp: opens_def)
next
  case True
  then show ?thesis
    using assms by (cases i)
      (auto simp: opens_def initialize_lending_pool_def run_success_env split: if_splits
        elim!: borrow_effect repay_effect borrow_btc_effect repay_btc_effect liquidate_effect
          liquidate_btc_effect finalize_effect)
qed

text \<open>C11: No transaction takes from a vault, closes it or opens a loan on it without the signature of its
  owner, with one exception: the liquidation of a loan that is open, which settles it. A loan against
  Bitcoin needs the signature of the owner of the Bitcoin vault.\<close>

theorem owner_signs:
  assumes "processes P E now ix L (Inr L')"
  shows "(\<forall>vault. lg_vaults L v = Some vault \<and> (releases L L' v \<or> opens (lg_positions L) (lg_positions L') v)
      \<longrightarrow> signed_by ix (vault_owner vault)
        \<or> (take 8 (ix_data ix) = sighash P ''liquidate_position'' \<and> lg_positions L v \<noteq> None
           \<and> lg_positions L' v = None \<and> lg_vaults L' v \<noteq> None))
    \<and> (\<forall>vault. lg_btc_vaults L v = Some vault \<and> opens (lg_btc_positions L) (lg_btc_positions L') v
      \<longrightarrow> signed_by ix (btc_owner vault))"
proof -
  obtain i where i: "runs P L ix i" "execute E now i L = Inr L'"
    using assms by (auto simp: processes_def)
  note signed = owner_call_signed [OF i(1)]
  have btc: "\<forall>vault. lg_btc_vaults L v = Some vault \<and> opens (lg_btc_positions L) (lg_btc_positions L') v
      \<longrightarrow> signed_by ix (btc_owner vault)"
    using btc_opening_needs_owner [OF i(2)] signed by blast
  have "take 8 (ix_data ix) = sighash P ''liquidate_position'' \<and> lg_positions L v \<noteq> None
      \<and> lg_positions L' v = None \<and> lg_vaults L' v \<noteq> None" if "i = LiquidatePosition v m ptk ltk who" for m ptk ltk who
    using i that liquidation_settles [OF i(2) [unfolded that]]
    by (simp add: runs_def accepts_def rule_liquidate_position_def)
  then show ?thesis
    using release_needs_owner [OF i(2)] opening_needs_owner [OF i(2)] signed btc by blast
qed

section \<open>A borrow of the frontend, run\<close>

text \<open>A platform whose digests begin with the place of the instruction in the program.\<close>

definition wire_platform :: platform where
  "wire_platform = demo_platform\<lparr>digest_sha256 := (\<lambda>m.
     word_of_nat (length (takeWhile (\<lambda>n. text_encode (ascii (''global:'' @ n)) \<noteq> m) instruction_names))
       # replicate 31 0)\<rparr>"

lemma takeWhile_index:
  "distinct (map g xs) \<Longrightarrow> i < length xs \<Longrightarrow> length (takeWhile (\<lambda>n. g n \<noteq> g (xs ! i)) xs) = i"
proof (induction xs arbitrary: i)
  case (Cons x xs)
  then show ?case by (cases i) (auto simp: image_iff dest: nth_mem)
qed simp

lemma byte_string_inject:
  "list_all (\<lambda>c. of_char c < (128::nat)) s \<Longrightarrow> list_all (\<lambda>c. of_char c < (128::nat)) t
    \<Longrightarrow> buffer_from s = buffer_from t \<longleftrightarrow> s = t"
proof (induction s arbitrary: t)
  case Nil
  then show ?case by (auto simp: buffer_from_ascii)
next
  case (Cons c s)
  then show ?case
    by (cases t) (auto simp: buffer_from_ascii word_of_nat_eq_iff take_bit_eq_mod)
qed

lemma instruction_names_distinct: "distinct instruction_names"
  by (simp add: instruction_names_def)

lemma instruction_names_ascii: "n \<in> set instruction_names \<Longrightarrow> list_all (\<lambda>c. of_char c < (128::nat)) n"
  by (auto simp: instruction_names_def)

lemma wire_discriminators: "discriminators_distinct wire_platform"
proof -
  let ?g = "\<lambda>n. text_encode (ascii (''global:'' @ n))"
  have "inj_on ?g (set instruction_names)"
    using byte_string_inject instruction_names_ascii
    by (intro inj_onI) (force simp: buffer_from_def [symmetric])
  then have d: "distinct (map ?g instruction_names)"
    by (simp add: distinct_map instruction_names_distinct)
  have "map (sighash wire_platform) instruction_names
      = map (\<lambda>i. word_of_nat i # replicate 7 0) [0..<length instruction_names]"
    using takeWhile_index [OF d]
    by (intro nth_equalityI) (simp_all add: sighash_def wire_platform_def)
  moreover have "distinct (map (\<lambda>i. (word_of_nat i :: byte) # replicate 7 0) [0..<length instruction_names])"
    by (auto simp: distinct_map inj_on_def instruction_names_def word_of_nat_eq_iff take_bit_eq_mod)
  ultimately show ?thesis by (simp add: discriminators_distinct_def)
qed

lemma wire_digests: "digests_long wire_platform"
  by (simp add: digests_long_def wire_platform_def)

lemma wire_addresses: "own_addresses wire_platform (demo_vaulted lams)"
proof -
  have "be_val (ADMIN_PRICE_FEED_PDA_SEED @ [0]) < 2 ^ 256"
    using be_val_lt [of "ADMIN_PRICE_FEED_PDA_SEED @ [0]"] by (simp add: program_seeds)
  show ?thesis
    by (auto simp: own_addresses_def demo_vaulted_def demo_start_def wire_platform_def demo_platform_def
        ADMIN_PRICE_FEED_PDA_SEED_def byte_string_def be_val_Cons split: if_splits)
qed

definition demo_borrow :: builder_call where
  "demo_borrow = CallBorrowAgainstCollateral 2 demo_vault_key 2 3 4 5 50000000 None"

lemma demo_borrow_built: "\<exists>ix. build_call wire_platform demo_borrow = Inr ix"
  by (simp add: demo_borrow_def buildBorrowAgainstCollateralIx_def derivation_defs wire_platform_def
      demo_platform_def first_of_def)

lemma demo_borrow_intended: "intended demo_borrow = BorrowAgainstCollateral demo_vault_key 3 4 5 2 50000000 0"
  by (simp add: demo_borrow_def PublicKey_default_def)

lemma demo_borrow_ok:
  "call_ok wire_platform demo_borrow" "consistent wire_platform (demo_vaulted lams) demo_borrow"
  "loadable (demo_vaulted lams) (intended demo_borrow)"
  by (simp_all add: demo_borrow_def vault_asset_def demo_vaulted_def demo_vault_def loadable_def)

lemma frontend_call_executes_witness:
  "\<exists>ix lams. build_call wire_platform demo_borrow = Inr ix
    \<and> processes wire_platform demo_env demo_clock ix (demo_vaulted (\<lambda>_. 9)) (Inr (demo_lent lams))"
proof -
  obtain ix where ix: "build_call wire_platform demo_borrow = Inr ix" using demo_borrow_built ..
  obtain lams where "execute demo_env demo_clock (intended demo_borrow) (demo_vaulted (\<lambda>_. 9)) = Inr (demo_lent lams)"
    using demo_borrow_run [of "\<lambda>_. 9"] by (auto simp: demo_borrow_intended)
  then show ?thesis
    using frontend_call_executes [OF wire_digests wire_discriminators wire_addresses demo_borrow_ok ix] ix
    by metis
qed

lemma owner_signs_witness:
  "\<exists>ix lams. processes wire_platform demo_env demo_clock ix (demo_vaulted (\<lambda>_. 9)) (Inr (demo_lent lams))
    \<and> signed_by ix 2"
proof -
  obtain ix where ix: "build_call wire_platform demo_borrow = Inr ix" using demo_borrow_built ..
  obtain lams where "execute demo_env demo_clock (intended demo_borrow) (demo_vaulted (\<lambda>_. 9)) = Inr (demo_lent lams)"
    using demo_borrow_run [of "\<lambda>_. 9"] by (auto simp: demo_borrow_intended)
  then have run: "processes wire_platform demo_env demo_clock ix (demo_vaulted (\<lambda>_. 9)) (Inr (demo_lent lams))"
    using intended_runs [OF wire_digests demo_borrow_ok ix] unfolding processes_def by metis
  have "lg_vaults (demo_vaulted (\<lambda>_. 9)) demo_vault_key = Some demo_vault"
      "opens (lg_positions (demo_vaulted (\<lambda>_. 9))) (lg_positions (demo_lent lams)) demo_vault_key"
      "vault_owner demo_vault = 2" "lg_positions (demo_vaulted (\<lambda>_. 9)) demo_vault_key = None"
    by (simp_all add: demo_vaulted_def demo_lent_def demo_start_def demo_vault_def opens_def)
  with owner_signs [OF run, of demo_vault_key] run show ?thesis by metis
qed

end
