(* ===== verification/Page_To_Chain.thy ===== *)
theory Page_To_Chain
  imports Chain_Entry Lend_Safety
begin

text \<open>
  From a click on the lending page to the ledger: the transactions \<open>repay\<close> and \<open>borrow\<close> of
  \<open>web/app/lend/page.tsx\<close> ask the wallet for, as the program processes them. The page may show old
  numbers; what is said here is said of the ledger at the time the instruction runs.
\<close>

section \<open>The instructions of the two handlers\<close>

lemma asked_rule:
  assumes "keeps (asks G) anything m" "m h = (r, h @ k, ws)" "SignTransaction tx \<in> set k"
  shows "G tx"
  using keeps_requests [OF assms(1), of h] assms(2,3) by (auto simp: list_all_iff)

lemma built_call_processed:
  assumes "digests_long P" "discriminators_distinct P" "own_addresses P L"
    and "call_ok P call" "consistent P L call" "loadable L (intended call)" "build_call P call = Inr ix"
    and "processes P E now ix L (Inr L')"
  shows "execute E now (intended call) L = Inr L'"
  using runs_unique [OF assms(2,3) intended_runs [OF assms(1,4-7)]] assms(8) by (auto simp: processes_def)

lemma repay_tx_executes:
  assumes "digests_long P" "discriminators_distinct P" "own_addresses P L"
    and "repay_tx ''repay_borrow'' (sol_repayment P owner v pool) P owner all amount debt tx"
    and "lg_pools L (lp_borrowAssetMint pool) \<noteq> None"
    and "ix \<in> set (tx_instructions tx)" "processes P E now ix L (Inr L')"
  obtains ata n where "deriveAssociatedTokenAddress P owner (LGUSD_MINT P) False = Inr ata"
    "repay_amount all amount debt n"
    "repay_borrow E now (vl_vaultPda v) (lp_borrowAssetMint pool) (lp_poolTokenVault pool) ata owner n L = Inr L'"
proof -
  from assms(4,6) obtain ata n where t:
      "deriveAssociatedTokenAddress P owner (LGUSD_MINT P) False = Inr ata"
      "sol_repayment P owner v pool ata (uint n) = Inr ix" "repay_amount all amount debt n"
    by (auto simp: repay_tx_def)
  let ?call = "CallRepayBorrow owner (vl_vaultPda v) (lp_borrowAssetMint pool) (lp_poolTokenVault pool) ata (uint n)"
  have "build_call P ?call = Inr ix"
    using t(2) by (auto simp: sol_repayment_def first_of_eq_Inr js_bind_eq_Inr)
  from built_call_processed [OF assms(1-3) _ _ _ this assms(7)] that [OF t(1,3)] assms(5)
  show ?thesis by (simp add: loadable_def)
qed

lemma borrow_tx_executes:
  assumes "digests_long P" "discriminators_distinct P" "own_addresses P L"
    and "borrow_tx P owner v pool amount tx"
    and "lg_pools L (lp_borrowAssetMint pool) \<noteq> None" "lg_vaults L (vl_vaultPda v) = Some stored"
    and "uint (vault_asset_type stored) = va_assetType (vl_vault v)"
    and "processes P E now (last (tx_instructions tx)) L (Inr L')"
  obtains ata units health where "deriveAssociatedTokenAddress P owner (LGUSD_MINT P) False = Inr ata"
    "parseLgUsd amount = Inr units"
    "borrow_against_collateral E now (vl_vaultPda v) (lp_borrowAssetMint pool) (lp_poolTokenVault pool) ata owner
       (word_of_int units) (js_default health PublicKey_default) L = Inr L'"
proof -
  from assms(4) obtain ata units health ix where t:
      "deriveAssociatedTokenAddress P owner (LGUSD_MINT P) False = Inr ata"
      "parseLgUsd amount = Inr units" "sol_borrowing P owner v pool ata units health = Inr ix"
      "last (tx_instructions tx) = ix"
    by (auto simp: borrow_tx_def)
  let ?call = "CallBorrowAgainstCollateral owner (vl_vaultPda v) (va_assetType (vl_vault v))
     (lp_borrowAssetMint pool) (lp_poolTokenVault pool) ata units health"
  have "build_call P ?call = Inr ix"
    using t(3) by (auto simp: sol_borrowing_def first_of_eq_Inr js_bind_eq_Inr)
  from built_call_processed [OF assms(1-3) _ _ _ this assms(8) [unfolded t(4)]] that [OF t(1,2)] assms(5-7)
  show ?thesis by (simp add: loadable_def vault_asset_def)
qed

section \<open>What arrives\<close>

text \<open>C2: what the page's \<open>repay all\<close> asks the wallet to sign settles the loan: when the program accepts it,
  at whatever time and whatever debt the page showed, exactly the debt then due has moved from the
  account derived for the wallet's owner to the pool, and the position is gone.\<close>

theorem repay_all_settles:
  assumes "digests_long P" "discriminators_distinct P" "own_addresses P L"
    and "repay P S W c True h = (r, h @ k, ws)" "SignTransaction tx \<in> set k"
    and "ls_pool c = Some pool" "lg_pools L (lp_borrowAssetMint pool) = Some stored"
    and "ix \<in> set (tx_instructions tx)" "processes P E now ix L (Inr L')"
  shows "\<exists>owner v ata position accrued debt. we_owner W = Some owner \<and> ls_selectedVault c = Some v
    \<and> deriveAssociatedTokenAddress P owner (LGUSD_MINT P) False = Inr ata
    \<and> lg_positions L (vl_vaultPda v) = Some position \<and> pos_owner position = owner
    \<and> accrue_interest stored (clock_slot now) = Inr accrued
    \<and> current_debt (pos_principal position) (pool_borrow_index accrued) = Inr debt
    \<and> env_token_transfer E (lg_tokens L) ata (pool_token_vault stored) owner debt = Some (lg_tokens L')
    \<and> lg_positions L' (vl_vaultPda v) = None"
proof -
  obtain owner v and pos :: BorrowPositionAccount where page:
      "we_owner W = Some owner" "ls_selectedVault c = Some v"
      "repay_tx ''repay_borrow'' (sol_repayment P owner v pool) P owner True (ls_amount c)
         (currentDebt (bp_principal pos) (lp_borrowIndex pool)) tx"
    using asked_rule [OF keeps_repay assms(4,5)] assms(6) by (auto simp: repay_rule_def)
  obtain ata where run: "deriveAssociatedTokenAddress P owner (LGUSD_MINT P) False = Inr ata"
      "repay_borrow E now (vl_vaultPda v) (lp_borrowAssetMint pool) (lp_poolTokenVault pool) ata owner
         (- 1) L = Inr L'"
    using repay_tx_executes [OF assms(1-3) page(3) _ assms(8,9)] assms(7) by (auto simp: repay_amount_def)
  show ?thesis
    using run(2)
  proof (cases rule: repay_effect)
    case (1 stored' position accrued debt actual part toks tot lams)
    then have "actual = debt" "part = pos_principal position"
      using word_order.extremum [of debt] by (simp_all add: min_absorb2)
    then show ?thesis
      using 1 page(1,2) run(1) assms(7) by (auto simp: position_after_def)
  qed
qed

text \<open>C3: what the page's \<open>borrow\<close> asks the wallet to sign lends within the limit: when the program accepts
  it, the vault belongs to the wallet's owner and had no loan, the parsed amount has moved from the
  pool to the account derived for the owner, and it is no more than the stored collateral allows at the
  stored price, neither of which is older than the program permits.\<close>

theorem borrow_within_limit:
  assumes "digests_long P" "discriminators_distinct P" "own_addresses P L"
    and "borrow P S W c h = (r, h @ k, ws)" "SignTransaction tx \<in> set k"
    and "ls_pool c = Some pool" "lg_pools L (lp_borrowAssetMint pool) = Some stored"
    and "ls_selectedVault c = Some v" "lg_vaults L (vl_vaultPda v) = Some vault"
    and "uint (vault_asset_type vault) = va_assetType (vl_vault v)"
    and "processes P E now (last (tx_instructions tx)) L (Inr L')"
  shows "\<exists>owner ata units feed limit. we_owner W = Some owner \<and> vault_owner vault = owner
    \<and> deriveAssociatedTokenAddress P owner (LGUSD_MINT P) False = Inr ata
    \<and> parseLgUsd (ls_amount c) = Inr units
    \<and> lg_feeds L (vault_asset_type vault) = Some feed
    \<and> calculate_max_borrow (vault_deposited_amount vault) (feed_price_usd feed)
        (pool_ltv_basis_points stored) = Inr limit \<and> word_of_int units \<le> limit
    \<and> sint (clock_unix_timestamp now) - sint (feed_updated_at feed) \<le> PRICE_STALENESS_SECONDS
    \<and> sint (clock_unix_timestamp now) - sint (vault_proof_timestamp vault) \<le> PROOF_EXPIRY_SECONDS
    \<and> env_token_transfer E (lg_tokens L) (pool_token_vault stored) ata
        (fst (lending_pool_pda E (lp_borrowAssetMint pool))) (word_of_int units) = Some (lg_tokens L')
    \<and> lg_positions L (vl_vaultPda v) = None
    \<and> (\<exists>position. lg_positions L' (vl_vaultPda v) = Some position \<and> pos_owner position = owner)"
proof -
  obtain owner where page: "we_owner W = Some owner" "borrow_tx P owner v pool (ls_amount c) tx"
    using asked_rule [OF keeps_borrow assms(4,5)] assms(6,8) by (auto simp: borrow_rule_def)
  obtain ata units health where run: "deriveAssociatedTokenAddress P owner (LGUSD_MINT P) False = Inr ata"
      "parseLgUsd (ls_amount c) = Inr units"
      "borrow_against_collateral E now (vl_vaultPda v) (lp_borrowAssetMint pool) (lp_poolTokenVault pool) ata owner
         (word_of_int units) (js_default health PublicKey_default) L = Inr L'"
    using borrow_tx_executes [OF assms(1-3) page(2) _ assms(9,10,11)] assms(7) by auto
  show ?thesis
    using run(3)
  proof (cases rule: borrow_effect)
    case (1 vault' protocol stored' feed borrower lams limit accrued debt scaled tot toks)
    then have "vault' = vault" "stored' = stored" using assms(7,9) by simp_all
    then show ?thesis
      using 1 page(1) run(1,2) by auto
  qed
qed

section \<open>Two clicks, run\<close>

text \<open>The mint in the settings is such that the token account derived for the owner is the demo's account
  5. The services lose the confirmation, so that the handlers end at the transaction.\<close>

definition paged_platform :: platform where
  "paged_platform = wire_platform\<lparr>process_env :=
     (\<lambda>n. if n = ''NEXT_PUBLIC_LGUSD_MINT'' then Some ''11111111111111111111111111111116'' else None)\<rparr>"

definition paged_services :: services where
  "paged_services = demo_services\<lparr>rpc_confirmTransaction := (\<lambda>_ _. Inl (ErrorMsg ''timeout'')),
     encrypt_createInput := (\<lambda>_ _ _ _. Inl (ErrorMsg ''unreachable'')),
     rpc_accounts := (\<lambda>_. \<lparr>getAccountInfo = (\<lambda>_. Inr (Some [])), getProgramAccounts = (\<lambda>_ _. Inr [])\<rparr>)\<rparr>"

definition paged_wallet :: wallet_env where
  "paged_wallet = \<lparr>we_owner = Some 2, we_signTransaction = True, we_connected = True\<rparr>"

definition paged_vault :: VaultListing where
  "paged_vault = \<lparr>vl_vaultPda = demo_vault_key, vl_vault = view_Vault Chain_Example.demo_vault\<rparr>"

definition paged_lend :: lend_page where
  "paged_lend = initial_lend_page\<lparr>ls_selectedVault := Some paged_vault,
     ls_pool := Some (view_LendingPool Chain_Example.demo_pool),
     ls_priceFeed := Some (view_AdminPriceFeed (Chain_Example.demo_feed 2 15000000000)),
     ls_amount := ascii ''50''\<rparr>"

lemma paged_platform:
  "find_program_address paged_platform = find_program_address wire_platform"
  "is_on_curve paged_platform = is_on_curve wire_platform"
  "sighash paged_platform = sighash wire_platform" "PROGRAM_ID paged_platform = PROGRAM_ID wire_platform"
  by (simp_all add: paged_platform_def sighash_def fun_eq_iff PROGRAM_ID_def env_pubkey_def wire_platform_def
      demo_platform_def)

lemma paged_laws:
  "digests_long paged_platform" "discriminators_distinct paged_platform"
  "own_addresses paged_platform L = own_addresses wire_platform L"
  using wire_digests wire_discriminators
  by (simp_all add: digests_long_def discriminators_distinct_def own_addresses_def paged_platform)
     (simp add: paged_platform_def)

lemma be_val_last: "word_of_nat (be_val (bs @ to_buffer k)) = k"
proof (induction bs)
  case (Cons b bs)
  have "(256 :: 256 word) ^ 32 = 0" by simp
  then have "(256 :: 256 word) ^ (length bs + 32) = 0" by (simp only: power_add mult_zero_right)
  with Cons show ?case by (simp add: be_val_Cons)
qed simp

lemma paged_account: "deriveAssociatedTokenAddress paged_platform 2 (LGUSD_MINT paged_platform) False = Inr 5"
proof -
  have "LGUSD_MINT paged_platform = 5"
    by (simp add: LGUSD_MINT_def env_pubkey_def paged_platform_def pubkey_of_base58_def
        base58_value_def base58_digit_def base58_alphabet_def)
  then show ?thesis
    using be_val_last [of "to_buffer 2 @ to_buffer TOKEN_PROGRAM_ID" 5]
    by (simp add: deriveAssociatedTokenAddress_def paged_platform wire_platform_def demo_platform_def
        del: word_be_val_to_buffer)
qed

lemma paged_built:
  "\<exists>r. buildRepayBorrowIx paged_platform 2 demo_vault_key 3 4 5 MAX_U64 = Inr r"
  "\<exists>r. buildBorrowAgainstCollateralIx paged_platform 2 demo_vault_key 2 3 4 5 50000000 None = Inr r"
  by (simp_all add: buildRepayBorrowIx_def buildBorrowAgainstCollateralIx_def derivation_defs paged_platform
      wire_platform_def demo_platform_def)

lemma paged_send:
  fixes x payer
  defines "tx \<equiv> new_transaction (case x of Inl i \<Rightarrow> [i] | Inr is \<Rightarrow> is) payer [65]"
  shows "sendIx paged_services x payer h = (Inl (ErrorMsg ''timeout''), h @ [GetLatestBlockhash,
     SimulateTransaction tx, SignTransaction tx, SendRawTransaction [1], ConfirmTransaction [50] [65] 100])"
  by (simp add: tx_def sendIx_def io_bind_def ask_def preflight_def io_catch_def io_of_def Let_def paged_services_def
      demo_services_def)

lemma paged_repay:
  assumes "buildRepayBorrowIx paged_platform 2 demo_vault_key 3 4 5 MAX_U64 = Inr (ix, b)"
    and "c = paged_lend\<lparr>ls_position := Some (view_BorrowPosition (Chain_Example.demo_position demo_vault_key 50000000))\<rparr>"
  shows "\<exists>r k ws. repay paged_platform paged_services paged_wallet c True [] = (r, [] @ k, ws)
    \<and> SignTransaction (new_transaction [ix] 2 [65]) \<in> set k"
  using assms by (cases b) (simp add: repay_def with_wallet_def lend_action_def page_action_def pg_bind_def
      pg_finally_def pg_catch_def repay_body_def paged_lend_def paged_wallet_def paged_account send_amount_def
      paged_vault_def Chain_Example.demo_pool_def view_LendingPool_def send_def pg_io_def paged_send)

lemma paged_encrypt: "\<exists>e h'. createEncryptInputs P paged_services (i # is) h = (Inl e, h')"
  by (simp add: createEncryptInputs_def encrypt_getClient_def createInput_def io_bind_def ask_def tell_def
      paged_services_def demo_services_def split: prod.split sum.split)

lemma paged_borrow:
  assumes "buildBorrowAgainstCollateralIx paged_platform 2 demo_vault_key 2 3 4 5 50000000 None = Inr (ix, b)"
  shows "\<exists>r k ws. borrow paged_platform paged_services paged_wallet paged_lend [] = (r, [] @ k, ws)
    \<and> SignTransaction (new_transaction [ix] 2 [65]) \<in> set k"
proof -
  have units: "parseLgUsd (ascii ''50'') = Inr 50000000" by (simp add: amount_eval)
  have account: "read_accounts paged_services (\<lambda>conn. getAccountInfo conn 5) [] = (Inr (Some []), [ReadAccounts])"
    by (simp add: read_accounts_def ask_def paged_services_def)
  obtain e h' where sealed: "createEncryptInputs paged_platform paged_services
      (health_inputs paged_platform 50000000 15000000000 8000) [ReadAccounts] = (Inl e, h')"
    unfolding health_inputs_def using paged_encrypt by blast
  show ?thesis
    using assms by (cases b) (simp add: units account sealed borrow_def with_wallet_def lend_action_def page_action_def
        pg_bind_def pg_finally_def pg_catch_def borrow_body_def paged_lend_def paged_wallet_def paged_account
        ata_instructions_def paged_vault_def Chain_Example.demo_pool_def view_LendingPool_def send_def pg_io_def
        paged_send encrypt_health_def vaultsWithOpenDebt_def initial_lend_page_def Chain_Example.demo_vault_def
        Chain_Example.demo_feed_def view_Vault_def view_AdminPriceFeed_def)
qed

lemma paged_addresses:
  "own_addresses paged_platform (demo_vaulted lams)" "own_addresses paged_platform (demo_lent lams)"
proof -
  have "own_addresses wire_platform (demo_lent lams) = own_addresses wire_platform (demo_vaulted lams)"
    by (simp add: own_addresses_def demo_lent_def demo_vaulted_def)
  then show "own_addresses paged_platform (demo_vaulted lams)" "own_addresses paged_platform (demo_lent lams)"
    using wire_addresses [of lams] by (simp_all add: paged_laws)
qed

lemma demo_repay_all:
  "\<exists>L. execute demo_env demo_clock (RepayBorrow demo_vault_key 3 4 5 2 (word_of_int MAX_U64)) (demo_lent lams) = Inr L"
  by (simp add: demo_lent_def demo_simps demo_lending repay_borrow_def MAX_U64_def)

lemma paged_repayment_runs:
  assumes "buildRepayBorrowIx paged_platform 2 demo_vault_key 3 4 5 MAX_U64 = Inr (ix, b)"
  shows "\<exists>L. processes paged_platform demo_env demo_clock ix (demo_lent lams) (Inr L)"
proof -
  let ?call = "CallRepayBorrow 2 demo_vault_key 3 4 5 MAX_U64"
  have "loadable (demo_lent lams) (intended ?call)" by (simp add: loadable_def demo_lent_def)
  moreover have "build_call paged_platform ?call = Inr ix" using assms by (simp add: first_of_def)
  ultimately have "runs paged_platform (demo_lent lams) ix (intended ?call)"
    by (intro intended_runs paged_laws) simp_all
  then show ?thesis
    using demo_repay_all [of lams] unfolding processes_def intended.simps by metis
qed

lemma paged_borrow_runs:
  assumes "buildBorrowAgainstCollateralIx paged_platform 2 demo_vault_key 2 3 4 5 50000000 None = Inr (ix, b)"
  shows "\<exists>L. processes paged_platform demo_env demo_clock ix (demo_vaulted (\<lambda>_. 9)) (Inr L)"
proof -
  have "build_call paged_platform demo_borrow = Inr ix" using assms by (simp add: demo_borrow_def first_of_def)
  moreover have "call_ok paged_platform demo_borrow" "consistent paged_platform (demo_vaulted lams) demo_borrow" for lams
    using demo_borrow_ok(2) by (simp_all add: demo_borrow_def)
  ultimately have "runs paged_platform (demo_vaulted (\<lambda>_. 9)) ix (intended demo_borrow)"
    by (intro intended_runs paged_laws demo_borrow_ok(3))
  then show ?thesis
    using demo_borrow_run [of "\<lambda>_. 9"] unfolding processes_def demo_borrow_intended by (fastforce simp del: execute.simps)
qed

lemma repay_all_settles_witness:
  "\<exists>ix L. processes paged_platform demo_env demo_clock ix (demo_lent no_lamports) (Inr L)
     \<and> lg_positions L demo_vault_key = None"
proof -
  let ?c = "paged_lend\<lparr>ls_position := Some (view_BorrowPosition (Chain_Example.demo_position demo_vault_key 50000000))\<rparr>"
  obtain ix b where built: "buildRepayBorrowIx paged_platform 2 demo_vault_key 3 4 5 MAX_U64 = Inr (ix, b)"
    using paged_built(1) by auto
  obtain r k ws where click: "repay paged_platform paged_services paged_wallet ?c True [] = (r, [] @ k, ws)"
      "SignTransaction (new_transaction [ix] 2 [65]) \<in> set k"
    using paged_repay [OF built refl] by blast
  obtain L where run: "processes paged_platform demo_env demo_clock ix (demo_lent no_lamports) (Inr L)"
    using paged_repayment_runs [OF built] by blast
  have page: "ls_pool ?c = Some (view_LendingPool Chain_Example.demo_pool)"
      "ls_selectedVault ?c = Some paged_vault" "vl_vaultPda paged_vault = demo_vault_key"
      "lg_pools (demo_lent no_lamports) (lp_borrowAssetMint (view_LendingPool Chain_Example.demo_pool))
         = Some (Chain_Example.demo_pool\<lparr>pool_total_borrowed := 50000000\<rparr>)"
    by (simp_all add: paged_lend_def paged_vault_def demo_lent_def view_LendingPool_def Chain_Example.demo_pool_def)
  have "lg_positions L demo_vault_key = None"
    using repay_all_settles [OF paged_laws(1,2) paged_addresses(2) click page(1,4) _ run] page(2,3) by auto
  then show ?thesis using run by blast
qed

lemma borrow_within_limit_witness:
  "\<exists>ix L position. processes paged_platform demo_env demo_clock ix (demo_vaulted (\<lambda>_. 9)) (Inr L)
     \<and> lg_positions L demo_vault_key = Some position \<and> pos_owner position = 2"
proof -
  obtain ix b where built: "buildBorrowAgainstCollateralIx paged_platform 2 demo_vault_key 2 3 4 5 50000000 None = Inr (ix, b)"
    using paged_built(2) by auto
  let ?tx = "new_transaction [ix] 2 [65]"
  obtain r k ws where click: "borrow paged_platform paged_services paged_wallet paged_lend [] = (r, [] @ k, ws)"
      "SignTransaction ?tx \<in> set k"
    using paged_borrow [OF built] by blast
  obtain L where run: "processes paged_platform demo_env demo_clock (last (tx_instructions ?tx)) (demo_vaulted (\<lambda>_. 9)) (Inr L)"
    using paged_borrow_runs [OF built] by auto
  have page: "ls_pool paged_lend = Some (view_LendingPool Chain_Example.demo_pool)"
      "lg_pools (demo_vaulted (\<lambda>_. 9)) (lp_borrowAssetMint (view_LendingPool Chain_Example.demo_pool))
         = Some Chain_Example.demo_pool"
      "ls_selectedVault paged_lend = Some paged_vault"
      "lg_vaults (demo_vaulted (\<lambda>_. 9)) (vl_vaultPda paged_vault) = Some Chain_Example.demo_vault"
      "uint (vault_asset_type Chain_Example.demo_vault) = va_assetType (vl_vault paged_vault)"
    by (simp_all add: paged_lend_def paged_vault_def demo_vaulted_def view_LendingPool_def view_Vault_def
        Chain_Example.demo_pool_def Chain_Example.demo_vault_def)
  obtain position where "lg_positions L demo_vault_key = Some position" "pos_owner position = 2"
    using borrow_within_limit [OF paged_laws(1,2) paged_addresses(1) click page run]
    by (auto simp: paged_vault_def paged_wallet_def)
  then show ?thesis using run by blast
qed

end
