(* ===== verification/Bootstrap_Safety.thy ===== *)
theory Bootstrap_Safety
  imports Bootstrap
begin

text \<open>
  The bootstrap script does what its header says, with one exception. Rules for computations that only
  read (\<open>quietly\<close>, \<open>stops\<close>, one per combinator and step); the laws of a cluster that keeps what it was
  told; what each step of a successful run leaves behind; then: a run on a market that stands only reads, a
  rerun after the pool has lent always fails, and the instructions are those of the other builders.
\<close>

section \<open>Runs that only read\<close>

fun reads :: "request \<Rightarrow> bool" where
  "reads ReadAccounts = True"
| "reads (ReadFile _) = True"
| "reads (TokenCall (ReadTokenAccount _)) = True"
| "reads (TokenCall (ReadMint _)) = True"
| "reads (Log _ _) = True"
| "reads _ = False"

text \<open>Started after \<open>h\<close> and any reads, the computation returns a value in \<open>R\<close> and only reads.\<close>

definition quietly :: "history \<Rightarrow> 'a io \<Rightarrow> ('a \<Rightarrow> bool) \<Rightarrow> bool" where
  "quietly h m R \<longleftrightarrow> (\<forall>j. list_all reads j \<longrightarrow>
     (\<exists>x k. m (h @ j) = (Inr x, h @ j @ k) \<and> R x \<and> list_all reads k))"

named_theorems quiet

lemma quietly_return [quiet]: "R x \<Longrightarrow> quietly h (io_return x) R"
  by (simp add: quietly_def)

lemma quietly_Pair [simp]: "quietly h (Pair (Inr x)) R \<longleftrightarrow> R x"
proof
  assume "quietly h (Pair (Inr x)) R"
  then have "list_all reads [] \<longrightarrow> (\<exists>y k. (Inr x, h @ []) = (Inr y, h @ [] @ k) \<and> R y)"
    unfolding quietly_def by blast
  then show "R x" by simp
qed (simp add: quietly_def)

lemma quietly_of [quiet]: "r = Inr x \<Longrightarrow> R x \<Longrightarrow> quietly h (io_of r) R"
  by (simp add: quietly_def)

lemma quietly_log [quiet]: "R () \<Longrightarrow> quietly h (console_log t) R"
  by (simp add: quietly_def console_log_def)

lemma quietly_ask:
  assumes "reads q" "\<And>j. list_all reads j \<Longrightarrow> \<exists>x. a (h @ j) = Inr x \<and> R x"
  shows "quietly h (ask q a) R"
  using assms by (fastforce simp: quietly_def)

lemma quietly_bind:
  assumes "quietly h m R" "\<And>x. R x \<Longrightarrow> quietly h (f x) Q"
  shows "quietly h (io_bind m f) Q"
  unfolding quietly_def
proof (intro allI impI)
  fix j assume j: "list_all reads j"
  then obtain x k where m: "m (h @ j) = (Inr x, h @ j @ k)" "R x" "list_all reads k"
    using assms(1) unfolding quietly_def by blast
  have "list_all reads (j @ k)" using j m(3) by simp
  then obtain y l where "f x (h @ j @ k) = (Inr y, h @ (j @ k) @ l)" "Q y" "list_all reads l"
    using assms(2) [OF m(2)] unfolding quietly_def by blast
  then show "\<exists>y k. io_bind m f (h @ j) = (Inr y, h @ j @ k) \<and> Q y \<and> list_all reads k"
    using m by (intro exI [of _ y] exI [of _ "k @ l"]) (simp add: io_bind_def)
qed

lemma quietly_now: "quietly h m R \<Longrightarrow> \<exists>x k. m h = (Inr x, h @ k) \<and> R x \<and> list_all reads k"
  unfolding quietly_def by (drule spec [of _ "[]"]) simp

section \<open>What a rerun finds\<close>

definition present :: "services \<Rightarrow> history \<Rightarrow> pubkey \<Rightarrow> bool" where
  "present S h k \<longleftrightarrow> (\<exists>d. getAccountInfo (rpc_accounts S h) k = Inr (Some d))"

text \<open>The mint record names \<open>mint\<close>, the accounts \<open>ks\<close> exist, and the pool has the mint's authority, after
  \<open>h\<close> and any reads.\<close>

definition finds :: "services \<Rightarrow> token_library \<Rightarrow> file_system \<Rightarrow> pubkey \<Rightarrow> pubkey \<Rightarrow> pubkey set \<Rightarrow> history \<Rightarrow> bool" where
  "finds S T F mint pool ks h \<longleftrightarrow> (\<forall>j. list_all reads j \<longrightarrow>
     (\<exists>r t. fs_read F (h @ j) MINT_RECORD_PATH = Some (Inr r) \<and> json_mint F r = Inr (Some t)
        \<and> new_PublicKey_base58 t = Inr mint)
     \<and> (\<forall>k \<in> ks. present S (h @ j) k) \<and> spl_getMint T (h @ j) mint = Inr (Some pool))"

lemma quietly_exists:
  assumes "finds S T F mint pool ks h" "k \<in> ks"
  shows "quietly h (account_exists S k) (\<lambda>found. found)"
  unfolding account_exists_def
proof (rule quietly_bind)
  show "quietly h (ask ReadAccounts (\<lambda>h. getAccountInfo (rpc_accounts S h) k)) (\<lambda>i. i \<noteq> None)"
    using assms by (intro quietly_ask) (fastforce simp: finds_def present_def)+
qed (simp add: quietly_return)

lemma quietly_recorded:
  assumes "finds S T F mint pool ks h"
  shows "quietly h (recorded_mint F) (\<lambda>m. m = Some mint)"
  unfolding recorded_mint_def
proof (rule quietly_bind)
  show "quietly h (ask (ReadFile MINT_RECORD_PATH) (\<lambda>h. case fs_read F h MINT_RECORD_PATH of
       None \<Rightarrow> Inr None | Some r \<Rightarrow> js_bind r (json_mint F)))
     (\<lambda>field. \<exists>t. field = Some t \<and> new_PublicKey_base58 t = Inr mint)"
    using assms by (intro quietly_ask) (auto simp: finds_def)
  fix field assume "\<exists>t. field = Some t \<and> new_PublicKey_base58 t = Inr mint"
  then show "quietly h (case field of None \<Rightarrow> io_return None
      | Some t \<Rightarrow> io_bind (io_of (new_PublicKey_base58 t)) (\<lambda>k. io_return (Some k))) (\<lambda>m. m = Some mint)"
    by (auto intro!: quietly_return)
qed

lemma quietly_mint:
  assumes "finds S T F mint pool ks h" "mint \<in> ks"
  shows "quietly h (getOrCreateLgUsdMint S T F admin) (\<lambda>m. m = mint)"
  unfolding getOrCreateLgUsdMint_def
  by (rule quietly_bind [OF quietly_recorded [OF assms(1)]])
    (auto intro!: quietly_bind [OF quietly_exists [OF assms]] quietly_bind [OF quietly_log] quietly_return)

lemma quietly_authority:
  assumes "finds S T F mint pool ks h"
  shows "quietly h (read_mint_authority T mint) (\<lambda>a. a = Some pool)"
  unfolding read_mint_authority_def
  using assms by (intro quietly_ask) (auto simp: finds_def)

lemma quietly_hand_over:
  assumes "finds S T F mint pool ks h"
  shows "quietly h (hand_over_mint T admin mint pool) (\<lambda>_. True)"
  unfolding hand_over_mint_def
  by (rule quietly_bind [OF quietly_authority [OF assms]]) (auto intro!: quietly_log)

lemma quietly_balance:
  assumes "\<And>j. list_all reads j \<Longrightarrow> \<exists>n. spl_getAccount T (h @ j) ata = Inr n \<and> R n"
  shows "quietly h (read_token_account T ata) R"
  unfolding read_token_account_def using assms by (intro quietly_ask) auto

lemma quietly_vault:
  assumes "finds S T F mint pool ks h" "spl_associatedTokenAddress T mint pool True = Inr ata" "ata \<in> ks"
    and "\<And>j. list_all reads j \<Longrightarrow> \<exists>n. spl_getAccount T (h @ j) ata = Inr n \<and> INITIAL_LIQUIDITY \<le> n"
  shows "quietly h (ensurePoolTokenVault S T admin mint pool) (\<lambda>a. a = ata)"
proof -
  have "quietly h (fill_vault T admin mint ata) (\<lambda>_. True)"
    unfolding fill_vault_def
    by (rule quietly_bind [OF quietly_balance [OF assms(4)]]) (auto intro!: quietly_log)
  then have rest: "quietly h (io_bind (fill_vault T admin mint ata)
      (\<lambda>_. io_bind (hand_over_mint T admin mint pool) (\<lambda>_. io_return ata))) (\<lambda>a. a = ata)"
    by (rule quietly_bind) (rule quietly_bind [OF quietly_hand_over [OF assms(1)]], simp add: quietly_return)
  show ?thesis
    unfolding ensurePoolTokenVault_def assms(2) io_simps
    by (rule quietly_bind [OF quietly_exists [OF assms(1,3)]]) (simp add: rest)
qed

lemma quietly_protocol:
  assumes "finds S T F mint pool ks h" "protocol \<in> ks"
  shows "quietly h (initializeProtocol P S admin protocol) (\<lambda>_. True)"
  unfolding initializeProtocol_def
  by (rule quietly_bind [OF quietly_exists [OF assms]])
    (auto intro!: quietly_bind [OF quietly_log] quietly_return)

lemma quietly_pool:
  assumes "finds S T F mint pool ks h" "pool \<in> ks"
  shows "quietly h (initializeLendingPool P S admin mint ata pool feed) (\<lambda>_. True)"
  unfolding initializeLendingPool_def
  by (rule quietly_bind [OF quietly_exists [OF assms]])
    (auto intro!: quietly_bind [OF quietly_log] quietly_return)

lemma quietly_feed:
  assumes "finds S T F mint pool ks h" "priceFeedPda P a = Inr feed" "feed \<in> ks"
  shows "quietly h (initializeAdminPriceFeed P S admin a price) (\<lambda>_. True)"
  unfolding initializeAdminPriceFeed_def assms(2) io_simps
  by (rule quietly_bind [OF quietly_exists [OF assms(1,3)]])
    (auto intro!: quietly_bind [OF quietly_log] quietly_return)

text \<open>Where every account exists, the vault is full and the pool has the mint, the script only reads.\<close>

definition complete :: "platform \<Rightarrow> services \<Rightarrow> token_library \<Rightarrow> file_system \<Rightarrow> history \<Rightarrow> bool" where
  "complete P S T F h \<longleftrightarrow> (\<exists>mint pool bump ata protocol btc eth sol.
     keeper_protocolStatePda P = Inr protocol \<and> lending_pool_address P mint = Inr (pool, bump)
     \<and> spl_associatedTokenAddress T mint pool True = Inr ata
     \<and> priceFeedPda P bootstrap_ASSET_BTC = Inr btc \<and> priceFeedPda P bootstrap_ASSET_ETH = Inr eth
     \<and> priceFeedPda P bootstrap_ASSET_SOL = Inr sol
     \<and> finds S T F mint pool {protocol, mint, ata, pool, btc, eth, sol} h
     \<and> (\<forall>j. list_all reads j \<longrightarrow>
          (\<exists>n. spl_getAccount T (h @ j) ata = Inr n \<and> INITIAL_LIQUIDITY \<le> n)))"

lemma complete_reads:
  assumes "complete P S T F h"
  shows "\<exists>k. bootstrap P S T F admin h = (Inr 0, h @ k) \<and> list_all reads k"
proof -
  obtain mint pool bump ata protocol btc eth sol where d:
    "keeper_protocolStatePda P = Inr protocol" "lending_pool_address P mint = Inr (pool, bump)"
    "spl_associatedTokenAddress T mint pool True = Inr ata"
    "priceFeedPda P bootstrap_ASSET_BTC = Inr btc" "priceFeedPda P bootstrap_ASSET_ETH = Inr eth"
    "priceFeedPda P bootstrap_ASSET_SOL = Inr sol"
    and f: "finds S T F mint pool {protocol, mint, ata, pool, btc, eth, sol} h"
    and n: "\<And>j. list_all reads j \<Longrightarrow>
       \<exists>n. spl_getAccount T (h @ j) ata = Inr n \<and> INITIAL_LIQUIDITY \<le> n"
    using assms unfolding complete_def by blast
  have accounts: "quietly h (bootstrap_accounts P S T admin mint pool) (\<lambda>_. True)"
    unfolding bootstrap_accounts_def d(4-6) io_simps
    by (rule quietly_bind [OF quietly_vault [OF f d(3) _ n]], simp_all)
      (rule quietly_bind [OF quietly_pool [OF f]], simp,
       rule quietly_bind [OF quietly_feed [OF f d(4)]], simp,
       rule quietly_bind [OF quietly_feed [OF f d(5)]], simp,
       rule quietly_bind [OF quietly_feed [OF f d(6)]], simp, simp add: quietly_return)
  have "quietly h (bootstrap_main P S T F admin protocol) (\<lambda>_. True)"
    unfolding bootstrap_main_def
    by (rule quietly_bind [OF quietly_log [of "\<lambda>_. True"]], simp)
      (rule quietly_bind [OF quietly_log [of "\<lambda>_. True"]], simp,
       rule quietly_bind [OF quietly_protocol [OF f]], simp,
       rule quietly_bind [OF quietly_mint [OF f]], simp,
       simp add: d(2), rule quietly_bind [OF accounts],
       rule quietly_bind [OF quietly_log [of "\<lambda>_. True"]], simp, rule quietly_log, simp)
  then obtain k where "bootstrap_main P S T F admin protocol h = (Inr (), h @ k)" "list_all reads k"
    using quietly_now by fastforce
  then show ?thesis
    by (simp add: bootstrap_def d io_bind_def io_catch_def io_return_def)
qed

section \<open>A cluster that keeps what it was told\<close>

text \<open>Laws of a cluster that nobody but the script uses: what a successful run leaves behind there is a market
  that stands. The program's other instructions break them (a borrow lowers the vault, an admin can close a
  feed), so no property rests on them; they hold of the concrete cluster of \<open>Bootstrap_Example\<close>.\<close>

fun keeps_record :: "request \<Rightarrow> bool" where
  "keeps_record (WriteFile _ _) = False"
| "keeps_record _ = True"

fun keeps_authority :: "request \<Rightarrow> bool" where
  "keeps_authority (TokenCall (SetMintAuthority _ _ _)) = False"
| "keeps_authority _ = True"

definition initializes :: "platform \<Rightarrow> transaction_instruction \<Rightarrow> bool" where
  "initializes P ix \<longleftrightarrow> (\<exists>name \<in> {''initialize_protocol'', ''initialize_lending_pool'',
     ''initialize_admin_price_feed''}. \<exists>rest. ix_data ix = sighash P name @ rest)"

text \<open>Accounts stay; the writable accounts of a confirmed initialization exist; a token account that can
  be read exists.\<close>

definition accounts_last :: "platform \<Rightarrow> services \<Rightarrow> token_library \<Rightarrow> bool" where
  "accounts_last P S T \<longleftrightarrow>
     (\<forall>h j k. present S h k \<longrightarrow> present S (h @ j) k)
   \<and> (\<forall>h tx sig ix m. rpc_sendAndConfirm S h tx = Inr sig \<and> ix \<in> set (tx_instructions tx)
        \<and> initializes P ix \<and> m \<in> set (ix_keys ix) \<and> is_writable m
        \<longrightarrow> present S (h @ [SendAndConfirm tx]) (meta_pubkey m))
   \<and> (\<forall>h a d m. spl_createMint T h a d = Inr m \<longrightarrow> present S (h @ [TokenCall (CreateMint a d)]) m)
   \<and> (\<forall>h a n. spl_getAccount T h a = Inr n \<longrightarrow> present S h a)"

text \<open>A balance does not fall, minting raises it, and the mint's authority changes only when it is set.\<close>

definition tokens_last :: "token_library \<Rightarrow> bool" where
  "tokens_last T \<longleftrightarrow>
     (\<forall>h j a n. spl_getAccount T h a = Inr n \<longrightarrow> (\<exists>n' \<ge> n. spl_getAccount T (h @ j) a = Inr n'))
   \<and> (\<forall>h j m a adm n x. spl_getAccount T h a = Inr x \<and> spl_mintTo T (h @ j) m a n = Inr ()
        \<longrightarrow> (\<exists>y \<ge> x + n. spl_getAccount T (h @ j @ [TokenCall (MintTo m a adm n)]) a = Inr y))
   \<and> (\<forall>h m adm k. spl_setAuthority T h m k = Inr ()
        \<longrightarrow> spl_getMint T (h @ [TokenCall (SetMintAuthority m adm k)]) m = Inr (Some k))
   \<and> (\<forall>h j m k. spl_getMint T h m = Inr (Some k) \<and> list_all keeps_authority j
        \<longrightarrow> spl_getMint T (h @ j) m = Inr (Some k))"

text \<open>A file holds what was last written to it, and \<open>JSON.parse\<close> reads the record the script writes.\<close>

definition files_last :: "file_system \<Rightarrow> bool" where
  "files_last F \<longleftrightarrow>
     (\<forall>h p t. fs_write F h p t = Inr () \<longrightarrow> fs_read F (h @ [WriteFile p t]) p = Some (Inr t))
   \<and> (\<forall>h j p t. fs_read F h p = Some (Inr t) \<and> list_all keeps_record j
        \<longrightarrow> fs_read F (h @ j) p = Some (Inr t))
   \<and> (\<forall>k. json_mint F (json_object [(''mint'', quoted k), (''decimals'', bigint_to_text LGUSD_DECIMALS)])
        = Inr (Some (to_base58 k)))"

lemma reads_keep: "list_all reads j \<Longrightarrow> list_all keeps_record j" "list_all reads j \<Longrightarrow> list_all keeps_authority j"
proof -
  have "reads q \<Longrightarrow> keeps_record q \<and> keeps_authority q" for q
    by (cases q rule: reads.cases) simp_all
  then show "list_all reads j \<Longrightarrow> list_all keeps_record j" "list_all reads j \<Longrightarrow> list_all keeps_authority j"
    by (auto simp: list_all_iff)
qed

section \<open>What a run leaves behind\<close>

lemma run_grows: "grows P m \<Longrightarrow> m h = (r, h') \<Longrightarrow> \<exists>j. h' = h @ j \<and> list_all P j"
  by (rule growsD)

lemma account_exists_run:
  assumes "account_exists S k h = (Inr found, h1)"
  shows "h1 = h @ [ReadAccounts] \<and> (found \<longleftrightarrow> present S h k)"
  using assms by (auto simp: account_exists_def io_bind_eq_Inr present_def)

lemma send_run:
  assumes "send_and_confirm S [ix] h = (Inr sig, h1)"
    and "accounts_last P S T" "initializes P ix" "m \<in> set (ix_keys ix)" "is_writable m"
  shows "present S h1 (meta_pubkey m)"
  using assms by (auto simp: send_and_confirm_def Let_def accounts_last_def)

lemma present_later: "accounts_last P S T \<Longrightarrow> present S h k \<Longrightarrow> present S (h @ j) k"
  by (simp add: accounts_last_def)

lemma bootstrap_initializes:
  "initializes P (bootstrap_protocol_ix P admin k)"
  "bootstrap_pool_ix P admin mint ata pool feed = Inr ix \<Longrightarrow> initializes P ix"
  "bootstrap_feed_ix P admin feed a price = Inr ix \<Longrightarrow> initializes P ix"
  by (auto simp: initializes_def bootstrap_protocol_ix_def bootstrap_pool_ix_def bootstrap_feed_ix_def
      js_bind_eq_Inr)

text \<open>The shape of the three steps that create an account of the program.\<close>

lemma created_or_found:
  assumes "accounts_last P S T"
    and "io_bind (account_exists S k) (\<lambda>found.
       if found then io_bind (console_log a) (\<lambda>_. io_return None)
       else io_bind (io_of r) (\<lambda>ix. io_bind (send_and_confirm S [ix]) (\<lambda>sig.
         io_bind (console_log (b sig)) (\<lambda>_. io_return (Some sig))))) h = (Inr x, h1)"
    and "\<And>ix. r = Inr ix \<Longrightarrow> initializes P ix \<and> meta k False True \<in> set (ix_keys ix)"
  shows "present S h1 k"
proof -
  obtain found h2 where f: "account_exists S k h = (Inr found, h2)" and rest:
    "(if found then io_bind (console_log a) (\<lambda>_. io_return None)
      else io_bind (io_of r) (\<lambda>ix. io_bind (send_and_confirm S [ix]) (\<lambda>sig.
         io_bind (console_log (b sig)) (\<lambda>_. io_return (Some sig))))) h2 = (Inr x, h1)"
    using assms(2) unfolding io_bind_eq_Inr by blast
  have f': "h2 = h @ [ReadAccounts]" "found \<longleftrightarrow> present S h k" using account_exists_run [OF f] by auto
  show ?thesis
  proof (cases found)
    case True
    then have "h1 = h @ [ReadAccounts, Log a []]" using rest f' by (auto simp: io_bind_eq_Inr console_log_def)
    then show ?thesis using True f' present_later [OF assms(1)] by simp
  next
    case False
    then obtain ix sig h3 where s: "r = Inr ix" "send_and_confirm S [ix] h2 = (Inr sig, h3)"
      and l: "h1 = h3 @ [Log (b sig) []]"
      using rest by (auto simp: io_bind_eq_Inr console_log_def)
    have "present S h3 (meta_pubkey (meta k False True))"
      using assms(3) [OF s(1)] by (intro send_run [OF s(2) assms(1)]) auto
    then show ?thesis using present_later [OF assms(1)] l by simp
  qed
qed

lemma protocol_run:
  assumes "accounts_last P S T" "initializeProtocol P S admin k h = (Inr x, h1)"
  shows "present S h1 k"
  by (rule created_or_found [OF assms(1), where r = "Inr (bootstrap_protocol_ix P admin k)"
        and b = "\<lambda>sig. ascii ''initialize_protocol tx: '' @ sig"])
    (use assms(2) in \<open>simp_all add: initializeProtocol_def bootstrap_initializes cong: if_cong\<close>,
     simp add: bootstrap_protocol_ix_def)

lemma pool_run:
  assumes "accounts_last P S T" "initializeLendingPool P S admin mint ata pool feed h = (Inr x, h1)"
  shows "present S h1 pool"
  by (rule created_or_found [OF assms(1) assms(2) [unfolded initializeLendingPool_def]])
    (auto simp: bootstrap_initializes bootstrap_pool_ix_def js_bind_eq_Inr)

lemma feed_run:
  assumes "accounts_last P S T" "initializeAdminPriceFeed P S admin a price h = (Inr x, h1)"
  shows "\<exists>feed. priceFeedPda P a = Inr feed \<and> present S h1 feed"
proof -
  obtain feed where feed: "priceFeedPda P a = Inr feed"
    using assms(2) unfolding initializeAdminPriceFeed_def io_bind_eq_Inr by auto
  have "present S h1 feed"
    by (rule created_or_found [OF assms(1) assms(2) [unfolded initializeAdminPriceFeed_def feed io_simps]])
      (auto simp: bootstrap_initializes bootstrap_feed_ix_def js_bind_eq_Inr)
  with feed show ?thesis by blast
qed

text \<open>The record after the mint's step.\<close>

definition records :: "file_system \<Rightarrow> history \<Rightarrow> pubkey \<Rightarrow> bool" where
  "records F h mint \<longleftrightarrow> (\<exists>r t. fs_read F h MINT_RECORD_PATH = Some (Inr r) \<and> json_mint F r = Inr (Some t)
     \<and> new_PublicKey_base58 t = Inr mint)"

lemma records_later:
  assumes "files_last F" "records F h mint" "list_all keeps_record j"
  shows "records F (h @ j) mint"
  using assms unfolding records_def files_last_def by blast

lemma create_mint_run:
  assumes "accounts_last P S T" "files_last F" "create_mint T F admin h = (Inr mint, h1)"
  shows "records F h1 mint \<and> present S h1 mint"
proof -
  define t where "t = json_object [(''mint'', quoted mint), (''decimals'', bigint_to_text LGUSD_DECIMALS)]"
  obtain h2 where m: "spl_createMint T h2 admin LGUSD_DECIMALS = Inr mint"
    and w: "fs_write F (h2 @ [TokenCall (CreateMint admin LGUSD_DECIMALS)]) MINT_RECORD_PATH t = Inr ()"
    and h1: "h1 = h2 @ [TokenCall (CreateMint admin LGUSD_DECIMALS), WriteFile MINT_RECORD_PATH t,
        ChangeMode MINT_RECORD_PATH 384, Log (ascii ''LGUSD mint: '' @ to_base58 mint) []]"
    using assms(3) by (auto simp: create_mint_def io_bind_eq_Inr console_log_def Let_def t_def)
  have "present S (h2 @ [TokenCall (CreateMint admin LGUSD_DECIMALS)]) mint"
    using assms(1) m by (auto simp: accounts_last_def)
  then have "present S h1 mint" using present_later [OF assms(1)] h1
    by (metis append_Cons append_Nil append_assoc)
  moreover have "fs_read F ((h2 @ [TokenCall (CreateMint admin LGUSD_DECIMALS)])
      @ [WriteFile MINT_RECORD_PATH t]) MINT_RECORD_PATH = Some (Inr t)"
    using assms(2) w unfolding files_last_def by blast
  moreover have "json_mint F t = Inr (Some (to_base58 mint))"
    using assms(2) by (auto simp: files_last_def t_def)
  ultimately have "records F (h2 @ [TokenCall (CreateMint admin LGUSD_DECIMALS), WriteFile MINT_RECORD_PATH t]) mint"
    by (auto simp: records_def)
  from records_later [OF assms(2) this, of "[ChangeMode MINT_RECORD_PATH 384,
      Log (ascii ''LGUSD mint: '' @ to_base58 mint) []]"] \<open>present S h1 mint\<close>
  show ?thesis by (simp add: h1)
qed

lemma mint_run:
  assumes "accounts_last P S T" "files_last F" "getOrCreateLgUsdMint S T F admin h = (Inr mint, h1)"
  shows "records F h1 mint \<and> present S h1 mint"
proof -
  obtain m h2 where r: "recorded_mint F h = (Inr m, h2)" and rest:
    "(case m of None \<Rightarrow> create_mint T F admin
      | Some mintPubkey \<Rightarrow> io_bind (account_exists S mintPubkey) (\<lambda>found.
         if found then io_bind (console_log (ascii ''reusing existing LGUSD mint: '' @ to_base58 mintPubkey))
             (\<lambda>_. io_return mintPubkey)
         else create_mint T F admin)) h2 = (Inr mint, h1)"
    using assms(3) unfolding getOrCreateLgUsdMint_def io_bind_eq_Inr by blast
  show ?thesis
  proof (cases m)
    case None
    then show ?thesis using rest create_mint_run [OF assms(1,2)] by simp
  next
    case (Some k)
    then obtain found h3 where f: "account_exists S k h2 = (Inr found, h3)" and c:
      "(if found then io_bind (console_log (ascii ''reusing existing LGUSD mint: '' @ to_base58 k))
             (\<lambda>_. io_return k) else create_mint T F admin) h3 = (Inr mint, h1)"
      using rest by (auto simp: io_bind_eq_Inr)
    show ?thesis
    proof (cases found)
      case False
      then show ?thesis using c create_mint_run [OF assms(1,2)] by simp
    next
      case True
      then have e: "mint = k" "h1 = h2 @ [ReadAccounts, Log (ascii ''reusing existing LGUSD mint: '' @ to_base58 k) []]"
          "present S h2 k"
        using c account_exists_run [OF f] by (auto simp: io_bind_eq_Inr console_log_def)
      have "h2 = h @ [ReadFile MINT_RECORD_PATH]" "records F h k"
        using r Some by (auto simp: recorded_mint_def records_def io_bind_eq_Inr js_bind_eq_Inr split: option.splits)
      then show ?thesis
        using records_later [OF assms(2), of h k] present_later [OF assms(1) e(3)] by (simp add: e)
    qed
  qed
qed

lemma fill_vault_run:
  assumes "tokens_last T" "fill_vault T admin mint ata h = (Inr u, h1)"
  shows "\<exists>n. spl_getAccount T h1 ata = Inr n \<and> INITIAL_LIQUIDITY \<le> n"
proof -
  let ?read = "TokenCall (ReadTokenAccount ata)"
  obtain amount where a: "spl_getAccount T h ata = Inr amount"
    using assms(2) unfolding fill_vault_def io_bind_eq_Inr by (auto simp: read_token_account_def)
  show ?thesis
  proof (cases "amount < INITIAL_LIQUIDITY")
    case False
    then obtain j where "h1 = h @ j"
      using assms(2) a
      by (auto simp: fill_vault_def read_token_account_def console_log_def io_bind_eq_Inr)
    then show ?thesis using assms(1) a False unfolding tokens_last_def by (meson linorder_not_less order_trans)
  next
    case True
    then obtain j where j: "spl_mintTo T (h @ j) mint ata (INITIAL_LIQUIDITY - amount) = Inr ()"
        "h1 = h @ j @ [TokenCall (MintTo mint ata admin (INITIAL_LIQUIDITY - amount))]"
      using assms(2) a
      by (auto simp: fill_vault_def read_token_account_def read_mint_authority_def console_log_def
          io_bind_eq_Inr Let_def split: if_splits)
    then obtain y where "amount + (INITIAL_LIQUIDITY - amount) \<le> y" "spl_getAccount T h1 ata = Inr y"
      using assms(1) a unfolding tokens_last_def by blast
    then show ?thesis by auto
  qed
qed

lemma hand_over_run:
  assumes "tokens_last T" "hand_over_mint T admin mint pool h = (Inr u, h1)"
  shows "spl_getMint T h1 mint = Inr (Some pool)"
proof -
  let ?read = "TokenCall (ReadMint mint)"
  obtain a where a: "spl_getMint T h mint = Inr a"
    using assms(2) unfolding hand_over_mint_def io_bind_eq_Inr by (auto simp: read_mint_authority_def)
  show ?thesis
  proof (cases "a = Some pool")
    case True
    then obtain t where "h1 = h @ [?read, Log t []]"
      using assms(2) a by (auto simp: hand_over_mint_def read_mint_authority_def console_log_def io_bind_eq_Inr)
    moreover have "list_all keeps_authority [?read, Log t []]" by simp
    ultimately show ?thesis using assms(1) a True unfolding tokens_last_def by blast
  next
    case False
    then obtain h2 where "spl_setAuthority T h2 mint pool = Inr ()"
        "h1 = h2 @ [TokenCall (SetMintAuthority mint admin pool)]"
      using assms(2) a by (auto simp: hand_over_mint_def read_mint_authority_def console_log_def io_bind_eq_Inr)
    then show ?thesis using assms(1) unfolding tokens_last_def by blast
  qed
qed

text \<open>What the steps do not touch.\<close>

lemma grows_console [grows_intros]: "P (Log t []) \<Longrightarrow> grows P (console_log t)"
  by (simp add: console_log_def grows_intros)

lemma grows_exists [grows_intros]: "P ReadAccounts \<Longrightarrow> grows P (account_exists S k)"
  unfolding account_exists_def by (intro grows_intros)

lemma grows_send [grows_intros]: "(\<And>tx. P (SendAndConfirm tx)) \<Longrightarrow> grows P (send_and_confirm S ixs)"
  unfolding send_and_confirm_def Let_def by (intro grows_intros)

lemma grows_hand_over:
  "(\<And>t. P (Log t [])) \<Longrightarrow> (\<And>c. P (TokenCall c)) \<Longrightarrow> grows P (hand_over_mint T admin mint pool)"
  unfolding hand_over_mint_def read_mint_authority_def by (intro grows_intros) auto

lemma grows_vault:
  "P ReadAccounts \<Longrightarrow> (\<And>t. P (Log t [])) \<Longrightarrow> (\<And>c. P (TokenCall c))
    \<Longrightarrow> grows P (ensurePoolTokenVault S T admin mint pool)"
  unfolding ensurePoolTokenVault_def create_vault_def fill_vault_def Let_def read_token_account_def
    read_mint_authority_def
  by (intro grows_intros grows_hand_over) auto

lemma grows_init:
  assumes "P ReadAccounts" "\<And>t. P (Log t [])" "\<And>tx. P (SendAndConfirm tx)"
  shows "grows P (initializeLendingPool Q S admin mint ata pool feed)"
    "grows P (initializeAdminPriceFeed Q S admin a price)"
    "grows P (initializeProtocol Q S admin k)"
  unfolding initializeLendingPool_def initializeAdminPriceFeed_def initializeProtocol_def
  using assms by (intro grows_intros; simp)+

lemma grows_mint: "(\<And>q. keeps_authority q \<Longrightarrow> P q) \<Longrightarrow> grows P (getOrCreateLgUsdMint S T F admin)"
  unfolding getOrCreateLgUsdMint_def recorded_mint_def create_mint_def Let_def
  by (intro grows_intros) (auto split: option.split intro!: grows_intros)

lemma vault_run:
  assumes "accounts_last P S T" "tokens_last T" "ensurePoolTokenVault S T admin mint pool h = (Inr ata, h1)"
  shows "spl_associatedTokenAddress T mint pool True = Inr ata \<and> present S h1 ata
    \<and> (\<exists>n. spl_getAccount T h1 ata = Inr n \<and> INITIAL_LIQUIDITY \<le> n)
    \<and> spl_getMint T h1 mint = Inr (Some pool)"
proof -
  obtain u v h2 h3 where s: "spl_associatedTokenAddress T mint pool True = Inr ata"
      "fill_vault T admin mint ata h2 = (Inr u, h3)" "hand_over_mint T admin mint pool h3 = (Inr v, h1)"
    using assms(3) unfolding ensurePoolTokenVault_def io_bind_eq_Inr by auto
  obtain n where n: "spl_getAccount T h3 ata = Inr n" "INITIAL_LIQUIDITY \<le> n"
    using fill_vault_run [OF assms(2) s(2)] by blast
  obtain j where j: "h1 = h3 @ j"
    using run_grows [OF grows_hand_over s(3), of "\<lambda>_. True"] by auto
  obtain m where m: "spl_getAccount T h1 ata = Inr m" "n \<le> m"
    using assms(2) n(1) unfolding tokens_last_def j by blast
  then have "present S h1 ata" using assms(1) unfolding accounts_last_def by blast
  with s(1) n(2) m hand_over_run [OF assms(2) s(3)] show ?thesis by auto
qed

lemma accounts_run:
  assumes laws: "accounts_last P S T" "tokens_last T"
    and run: "bootstrap_accounts P S T admin mint pool h = (Inr (ata, btc, eth, sol), h')"
  shows "spl_associatedTokenAddress T mint pool True = Inr ata \<and> priceFeedPda P bootstrap_ASSET_BTC = Inr btc
    \<and> priceFeedPda P bootstrap_ASSET_ETH = Inr eth \<and> priceFeedPda P bootstrap_ASSET_SOL = Inr sol
    \<and> (\<forall>k \<in> {ata, pool, btc, eth, sol}. present S h' k)
    \<and> (\<exists>n. spl_getAccount T h' ata = Inr n \<and> INITIAL_LIQUIDITY \<le> n)
    \<and> spl_getMint T h' mint = Inr (Some pool)"
proof -
  obtain x1 x2 x3 x4 h4 h5 h6 h7 where
    r: "ensurePoolTokenVault S T admin mint pool h = (Inr ata, h4)"
       "initializeLendingPool P S admin mint ata pool btc h4 = (Inr x1, h5)"
       "initializeAdminPriceFeed P S admin bootstrap_ASSET_BTC INITIAL_BTC_PRICE h5 = (Inr x2, h6)"
       "initializeAdminPriceFeed P S admin bootstrap_ASSET_ETH INITIAL_ETH_PRICE h6 = (Inr x3, h7)"
       "initializeAdminPriceFeed P S admin bootstrap_ASSET_SOL INITIAL_SOL_PRICE h7 = (Inr x4, h')"
    and d: "priceFeedPda P bootstrap_ASSET_BTC = Inr btc" "priceFeedPda P bootstrap_ASSET_ETH = Inr eth"
       "priceFeedPda P bootstrap_ASSET_SOL = Inr sol"
    using run unfolding bootstrap_accounts_def io_bind_eq_Inr by (elim exE conjE) auto
  note grow = run_grows [OF grows_init(1) r(2), of keeps_authority]
    run_grows [OF grows_init(2) r(3), of keeps_authority] run_grows [OF grows_init(2) r(4), of keeps_authority]
    run_grows [OF grows_init(2) r(5), of keeps_authority]
  obtain j4 where j4: "h5 = h4 @ j4" "list_all keeps_authority j4" using grow(1) by auto
  obtain j5 where j5: "h6 = h5 @ j5" "list_all keeps_authority j5" using grow(2) by auto
  obtain j6 where j6: "h7 = h6 @ j6" "list_all keeps_authority j6" using grow(3) by auto
  obtain j7 where j7: "h' = h7 @ j7" "list_all keeps_authority j7" using grow(4) by auto
  have h': "h' = h4 @ (j4 @ j5 @ j6 @ j7)" by (simp add: j4 j5 j6 j7)
  have v: "spl_associatedTokenAddress T mint pool True = Inr ata" "present S h4 ata"
      "\<exists>n. spl_getAccount T h4 ata = Inr n \<and> INITIAL_LIQUIDITY \<le> n"
      "spl_getMint T h4 mint = Inr (Some pool)"
    using vault_run [OF laws r(1)] by auto
  note keep = present_later [OF laws(1)]
  have feeds: "present S h6 btc" "present S h7 eth" "present S h' sol"
    using feed_run [OF laws(1) r(3)] feed_run [OF laws(1) r(4)] feed_run [OF laws(1) r(5)] d by auto
  have "\<forall>k \<in> {ata, pool, btc, eth, sol}. present S h' k"
    using keep [OF v(2), of "j4 @ j5 @ j6 @ j7"] keep [OF pool_run [OF laws(1) r(2)], of "j5 @ j6 @ j7"]
      keep [OF feeds(1), of "j6 @ j7"] keep [OF feeds(2), of j7] feeds(3)
    by (simp add: j4 j5 j6 j7)
  moreover have "spl_getMint T h' mint = Inr (Some pool)"
    using laws(2) v(4) j4(2) j5(2) j6(2) j7(2) unfolding tokens_last_def h' by (metis list_all_append)
  moreover have "\<exists>n. spl_getAccount T h' ata = Inr n \<and> INITIAL_LIQUIDITY \<le> n"
    using laws(2) v(3) unfolding tokens_last_def h' by (meson order_trans)
  ultimately show ?thesis using v(1) d by blast
qed

lemma grows_accounts: "grows keeps_record (bootstrap_accounts P S T admin mint pool)"
  unfolding bootstrap_accounts_def
  by (intro grows_intros grows_vault grows_init) auto

text \<open>A run that ends with code 0 leaves everything a rerun looks for.\<close>

lemma bootstrap_completes:
  assumes laws: "accounts_last P S T" "tokens_last T" "files_last F"
    and run: "bootstrap P S T F admin h = (Inr 0, h')"
  shows "complete P S T F h'"
proof -
  obtain protocol where p: "keeper_protocolStatePda P = Inr protocol"
    using run by (auto simp: bootstrap_def io_bind_eq_Inr)
  have main: "bootstrap_main P S T F admin protocol h = (Inr (), h')"
    using run p
    by (cases "bootstrap_main P S T F admin protocol h")
      (auto simp: bootstrap_def io_bind_eq_Inr io_catch_def io_bind_def split: sum.splits prod.splits)
  obtain x mint pool bump ata btc eth sol h1 h2 h3 h4 where
    s: "initializeProtocol P S admin protocol h1 = (Inr x, h2)"
       "getOrCreateLgUsdMint S T F admin h2 = (Inr mint, h3)"
       "lending_pool_address P mint = Inr (pool, bump)"
       "bootstrap_accounts P S T admin mint pool h3 = (Inr (ata, btc, eth, sol), h4)"
    and last: "\<exists>t u. h' = h4 @ [Log t [], Log u []]"
    using main unfolding bootstrap_main_def io_bind_eq_Inr
    by (elim exE conjE) (auto simp: console_log_def)
  obtain j2 where j2: "h3 = h2 @ j2" using run_grows [OF grows_mint s(2), of "\<lambda>_. True"] by auto
  obtain j3 where j3: "h4 = h3 @ j3" "list_all keeps_record j3" using run_grows [OF grows_accounts s(4)] by auto
  obtain t v where h': "h' = h4 @ [Log t [], Log v []]" using last by blast
  have m: "records F h3 mint" "present S h3 mint" using mint_run [OF laws(1,3) s(2)] by auto
  have a: "spl_associatedTokenAddress T mint pool True = Inr ata" "priceFeedPda P bootstrap_ASSET_BTC = Inr btc"
      "priceFeedPda P bootstrap_ASSET_ETH = Inr eth" "priceFeedPda P bootstrap_ASSET_SOL = Inr sol"
      "\<forall>k \<in> {ata, pool, btc, eth, sol}. present S h4 k" "spl_getMint T h4 mint = Inr (Some pool)"
      "\<exists>n. spl_getAccount T h4 ata = Inr n \<and> INITIAL_LIQUIDITY \<le> n"
    using accounts_run [OF laws(1,2) s(4)] by auto
  have "present S h4 protocol" "present S h4 mint"
    using present_later [OF laws(1) protocol_run [OF laws(1) s(1)], of "j2 @ j3"]
      present_later [OF laws(1) m(2)] by (simp_all add: j2 j3(1))
  then have there: "present S (h4 @ j) k" if "k \<in> {protocol, mint, ata, pool, btc, eth, sol}" for j k
    using a(5) that by (intro present_later [OF laws(1)]) auto
  have later: "records F (h4 @ j) mint" "spl_getMint T (h4 @ j) mint = Inr (Some pool)" if "list_all reads j" for j
    using records_later [OF laws(3) m(1), of "j3 @ j"] laws(2) a(6) j3 reads_keep [OF that]
    unfolding tokens_last_def by (simp, blast)
  have balance: "\<exists>n. spl_getAccount T (h4 @ j) ata = Inr n \<and> INITIAL_LIQUIDITY \<le> n" for j
    using laws(2) a(7) unfolding tokens_last_def by (meson order_trans)
  have logs: "list_all reads j \<Longrightarrow> list_all reads ([Log t [], Log v []] @ j)" for j by simp
  have "finds S T F mint pool {protocol, mint, ata, pool, btc, eth, sol} h'"
    unfolding finds_def h' using there later [OF logs, unfolded records_def] by (auto simp: records_def)
  moreover have "\<exists>n. spl_getAccount T (h' @ j) ata = Inr n \<and> INITIAL_LIQUIDITY \<le> n" for j
    unfolding h' using balance by simp
  ultimately show ?thesis
    unfolding complete_def using p s(3) a(1-4) by blast
qed

section \<open>Runs that stop\<close>

definition stops :: "history \<Rightarrow> 'a io \<Rightarrow> bool" where
  "stops h m \<longleftrightarrow> (\<forall>j. list_all reads j \<longrightarrow> (\<exists>e k. m (h @ j) = (Inl e, h @ j @ k) \<and> list_all reads k))"

lemma stops_throw: "stops h (io_throw e)"
  by (simp add: stops_def)

lemma stops_now: "stops h m \<Longrightarrow> stops h (io_bind m f)"
  unfolding stops_def io_bind_def by fastforce

lemma stops_later:
  assumes "quietly h m R" "\<And>x. R x \<Longrightarrow> stops h (f x)"
  shows "stops h (io_bind m f)"
  unfolding stops_def
proof (intro allI impI)
  fix j assume j: "list_all reads j"
  then obtain x k where m: "m (h @ j) = (Inr x, h @ j @ k)" "R x" "list_all reads k"
    using assms(1) unfolding quietly_def by blast
  have "list_all reads (j @ k)" using j m(3) by simp
  then obtain e l where "f x (h @ j @ k) = (Inl e, h @ (j @ k) @ l)" "list_all reads l"
    using assms(2) [OF m(2)] unfolding stops_def by blast
  then show "\<exists>e k. io_bind m f (h @ j) = (Inl e, h @ j @ k) \<and> list_all reads k"
    using m by (intro exI [of _ e] exI [of _ "k @ l"]) (simp add: io_bind_def)
qed

lemma stops_found: "stops h m \<Longrightarrow> \<exists>e k. m h = (Inl e, h @ k) \<and> list_all reads k"
  unfolding stops_def by (drule spec [of _ "[]"]) simp

lemma stops_vault:
  assumes "finds S T F mint pool ks h" "spl_associatedTokenAddress T mint pool True = Inr ata" "ata \<in> ks"
    and "\<And>j. list_all reads j \<Longrightarrow> \<exists>n. spl_getAccount T (h @ j) ata = Inr n \<and> n < INITIAL_LIQUIDITY"
    and "pool \<noteq> admin"
  shows "stops h (ensurePoolTokenVault S T admin mint pool)"
proof -
  have "stops h (fill_vault T admin mint ata)"
    unfolding fill_vault_def
    by (rule stops_later [OF quietly_balance [OF assms(4)]], assumption)
      (simp, rule stops_later [OF quietly_authority [OF assms(1)]], simp add: assms(5) stops_throw)
  then show ?thesis
    unfolding ensurePoolTokenVault_def assms(2) io_simps
    by (intro stops_later [OF quietly_exists [OF assms(1,3)]]) (simp add: stops_now)
qed

section \<open>The properties\<close>

text \<open>C37: On a market that stands, a run of the bootstrap script by any admin only reads and exits with code 0:
  it sends no transaction, calls no instruction of the token library and writes no file. The market stands
  when the mint is recorded in the script's file, the protocol, the mint, the pool, its vault and the three
  feeds exist, the pool has the mint's authority and its vault holds at least the initial liquidity, now and
  after any reads. Borrowing or closing a feed ends this: \<open>bootstrap_stuck_once_lent\<close> is the rerun then.\<close>

theorem bootstrap_rerun_reads:
  assumes "complete P S T F h"
  shows "\<exists>k. bootstrap P S T F admin h = (Inr 0, h @ k) \<and> list_all reads k"
  by (rule complete_reads [OF assms])

text \<open>C38: Once the pool has lent, so that its vault holds less than the initial liquidity, a rerun of the
  bootstrap script fails whoever runs it: the mint's authority was given away, and the script stops with
  an error before it looks at the pool or at a price feed. A feed that was closed is not recreated.\<close>

theorem bootstrap_stuck_once_lent:
  assumes "keeper_protocolStatePda P = Inr protocol" "priceFeedPda P bootstrap_ASSET_BTC = Inr btc"
    and "lending_pool_address P mint = Inr (pool, bump)"
    and "spl_associatedTokenAddress T mint pool True = Inr ata"
    and "finds S T F mint pool {protocol, mint, ata} h" "pool \<noteq> admin"
    and "\<And>j. list_all reads j \<Longrightarrow> \<exists>n. spl_getAccount T (h @ j) ata = Inr n \<and> n < INITIAL_LIQUIDITY"
  shows "\<exists>k. bootstrap P S T F admin h = (Inr 1, h @ k @ [Warn (ascii ''bootstrap failed:'')])
    \<and> list_all reads k"
proof -
  have "stops h (bootstrap_accounts P S T admin mint pool)"
    unfolding bootstrap_accounts_def assms(2) io_simps
    by (rule stops_now [OF stops_vault [OF assms(5,4) _ assms(7) assms(6)]]) simp_all
  then have "stops h (bootstrap_main P S T F admin protocol)"
    unfolding bootstrap_main_def
    by (intro stops_later [OF quietly_log [of "\<lambda>_. True"]] stops_later [OF quietly_protocol [OF assms(5)]]
        stops_later [OF quietly_mint [OF assms(5)]])
      (simp_all add: assms(3) stops_now)
  from stops_found [OF this] show ?thesis
    by (auto simp: bootstrap_def assms(1,2) io_bind_def io_catch_def io_return_def)
qed

text \<open>The instructions the bootstrap script builds are those the frontend and the SDK build for the
  same accounts and settings.\<close>

theorem bootstrap_builders_agree:
  assumes "PROGRAM_ID P = scripts_PROGRAM_ID"
  shows "js_bind (keeper_protocolStatePda P) (\<lambda>k. Inr (bootstrap_protocol_ix P admin k))
      = buildInitializeProtocolIx P admin
    \<and> js_bind (lending_pool_address P mint) (\<lambda>(pool, _). js_bind (priceFeedPda P bootstrap_ASSET_BTC) (\<lambda>feed.
        js_bind (bootstrap_pool_ix P admin mint ata pool feed) (\<lambda>ix. Inr (ix, pool, feed))))
      = buildInitializeLendingPoolIx P admin mint ata 0 INITIAL_LIQUIDITY INITIAL_BTC_PRICE 6500 7500 500 200 1500
    \<and> (0 \<le> price \<and> price < 2 ^ 64 \<longrightarrow>
        js_bind (priceFeedPda P a) (\<lambda>feed. js_bind (bootstrap_feed_ix P admin feed a price) (\<lambda>ix. Inr (ix, feed)))
        = sdk_buildInitializeAdminPriceFeedIx P admin a price (Some (PROGRAM_ID P)))"
proof -
  have d: "lending_pool_address P mint = deriveLendingPoolPda P mint"
    by (simp add: lending_pool_address_def deriveLendingPoolPda_def assms)
  have "js_bind (keeper_protocolStatePda P) (\<lambda>k. Inr (bootstrap_protocol_ix P admin k))
      = buildInitializeProtocolIx P admin"
    by (simp add: bootstrap_protocol_ix_def buildInitializeProtocolIx_def keeper_derivations [OF assms]
        js_bind_assoc case_prod_beta Let_def assms)
  moreover have "js_bind (lending_pool_address P mint) (\<lambda>(pool, _). js_bind (priceFeedPda P bootstrap_ASSET_BTC)
      (\<lambda>feed. js_bind (bootstrap_pool_ix P admin mint ata pool feed) (\<lambda>ix. Inr (ix, pool, feed))))
    = buildInitializeLendingPoolIx P admin mint ata 0 INITIAL_LIQUIDITY INITIAL_BTC_PRICE 6500 7500 500 200 1500"
    by (simp add: bootstrap_pool_ix_def buildInitializeLendingPoolIx_def keeper_derivations [OF assms] d
        js_bind_assoc case_prod_beta Let_def assms bootstrap_settings bootstrap_u16ToLe_def u16ToLe_def)
  moreover have "js_bind (priceFeedPda P a) (\<lambda>feed. js_bind (bootstrap_feed_ix P admin feed a price)
      (\<lambda>ix. Inr (ix, feed))) = sdk_buildInitializeAdminPriceFeedIx P admin a price (Some (PROGRAM_ID P))"
    if "0 \<le> price \<and> price < 2 ^ 64"
    using that
    by (simp add: bootstrap_feed_ix_def sdk_buildInitializeAdminPriceFeedIx_def keeper_derivations [OF assms]
        sdk_deriveAdminPriceFeedPda_def deriveAdminPriceFeedPda_def js_default_def
        js_bind_assoc case_prod_beta Let_def assms)
  ultimately show ?thesis by blast
qed

end
