(* ===== verification/Bootstrap_Example.thy ===== *)
theory Bootstrap_Example
  imports Bootstrap_Safety
begin

text \<open>
  A cluster on which the bootstrap script runs from nothing to the end, and then again: the properties
  of \<open>Bootstrap_Safety\<close> on that run.
\<close>

section \<open>A concrete cluster\<close>

text \<open>
  The history is the state: an account exists once a transaction or a call has named it, a balance is
  the sum of what was minted, an authority or a file what was set last. Mints are at 99, the pool's
  vault at 77, the admin is 1.
\<close>

fun demo_footprint :: "request \<Rightarrow> pubkey list" where
  "demo_footprint (SendAndConfirm tx) =
     concat (map (\<lambda>ix. map meta_pubkey (ix_keys ix)) (tx_instructions tx))"
| "demo_footprint (TokenCall (CreateMint _ _)) = [99]"
| "demo_footprint (TokenCall (CreateTokenAccount _ _)) = [77]"
| "demo_footprint _ = []"

fun demo_minted :: "request \<Rightarrow> int" where
  "demo_minted (TokenCall (MintTo _ _ _ n)) = max 0 n"
| "demo_minted _ = 0"

fun demo_authority :: "pubkey \<Rightarrow> request \<Rightarrow> pubkey" where
  "demo_authority a (TokenCall (SetMintAuthority _ _ k)) = k"
| "demo_authority a _ = a"

fun demo_file :: "jstext \<Rightarrow> jstext js option \<Rightarrow> request \<Rightarrow> jstext js option" where
  "demo_file p a (WriteFile q t) = (if q = p then Some (Inr t) else a)"
| "demo_file p a _ = a"

definition demo_there :: "history \<Rightarrow> pubkey \<Rightarrow> bool" where
  "demo_there h k \<longleftrightarrow> list_ex (\<lambda>q. k \<in> set (demo_footprint q)) h"

definition demo_cluster :: services where
  "demo_cluster = demo_services\<lparr>
     rpc_accounts := (\<lambda>h. \<lparr>getAccountInfo = (\<lambda>k. Inr (if demo_there h k then Some [] else None)),
       getProgramAccounts = (\<lambda>_ _. Inr [])\<rparr>)\<rparr>"

definition demo_tokens_library :: token_library where
  "demo_tokens_library = \<lparr>
     spl_associatedTokenAddress = (\<lambda>_ _ _. Inr 77),
     spl_createMint = (\<lambda>_ _ _. Inr 99),
     spl_createTokenAccount = (\<lambda>_ _ _. Inr 77),
     spl_getAccount = (\<lambda>h k. if k = 77 \<and> demo_there h 77 then Inr (sum_list (map demo_minted h))
       else Inl TypeError),
     spl_getMint = (\<lambda>h _. Inr (Some (foldl demo_authority 1 h))),
     spl_mintTo = (\<lambda>_ _ _ _. Inr ()),
     spl_setAuthority = (\<lambda>_ _ _. Inr ())\<rparr>"

definition demo_files :: file_system where
  "demo_files = \<lparr>
     fs_read = (\<lambda>h p. foldl (demo_file p) None h),
     fs_write = (\<lambda>_ _ _. Inr ()),
     fs_chmod = (\<lambda>_ _ _. Inr ()),
     json_mint = (\<lambda>t. Inr (Some (takeWhile (\<lambda>c. c \<noteq> 34) (drop 13 t))))\<rparr>"

definition bootstrap_platform :: platform where
  "bootstrap_platform = demo_platform\<lparr>
     find_program_address := (\<lambda>seeds _. Inr (case seeds of
         [_, bs] \<Rightarrow> if length bs = 1 then 200 + ucast (hd bs) else 44 | _ \<Rightarrow> 14, 255))\<rparr>"

lemma present_demo [simp]: "present demo_cluster h k \<longleftrightarrow> demo_there h k"
  by (simp add: present_def demo_cluster_def)

lemma demo_there_append [simp]: "demo_there (h @ j) k \<longleftrightarrow> demo_there h k \<or> demo_there j k"
  by (simp add: demo_there_def)

lemma demo_minted_nonneg: "0 \<le> sum_list (map demo_minted h)"
proof (induction h)
  case (Cons q h)
  have "0 \<le> demo_minted q" by (cases q rule: demo_minted.cases) simp_all
  with Cons show ?case by simp
qed simp

lemma demo_accounts_last: "accounts_last P demo_cluster demo_tokens_library"
  by (auto simp: accounts_last_def demo_tokens_library_def) (auto simp: demo_there_def)

lemma demo_authority_kept: "list_all keeps_authority j \<Longrightarrow> foldl demo_authority a j = a"
proof (induction j)
  case (Cons q j)
  then have "demo_authority a q = a" by (cases q rule: keeps_authority.cases) auto
  with Cons show ?case by simp
qed simp

lemma demo_file_kept: "list_all keeps_record j \<Longrightarrow> foldl (demo_file p) a j = a"
proof (induction j)
  case (Cons q j)
  then have "demo_file p a q = a" by (cases q rule: keeps_record.cases) auto
  with Cons show ?case by simp
qed simp

lemma demo_tokens_last: "tokens_last demo_tokens_library"
  by (auto simp: tokens_last_def demo_tokens_library_def demo_authority_kept demo_minted_nonneg
      intro!: add_increasing split: if_splits)

lemma base58_no_quote: "34 \<notin> set (to_base58 k)"
proof -
  have "set (to_base58 k) \<subseteq> insert 49 (set alphabet58)"
    using digits58_lt [of "be_val (to_buffer k)"]
    by (auto simp: to_base58_def base58_encode_def list_all_iff alphabet58(2) intro!: nth_mem)
  then show ?thesis by (auto simp: alphabet58_def ascii_def base58_alphabet_def)
qed

lemma demo_files_last: "files_last demo_files"
proof -
  have "takeWhile (\<lambda>c. c \<noteq> 34) (to_base58 k @ 34 # t) = to_base58 k" for k t
    using base58_no_quote [of k] by (subst takeWhile_append2) auto
  then show ?thesis
    by (auto simp: files_last_def demo_files_def demo_file_kept json_object_def quoted_def ascii_def)
qed

lemma bootstrap_addresses [simp]:
  "keeper_protocolStatePda bootstrap_platform = Inr 14"
  "priceFeedPda bootstrap_platform bootstrap_ASSET_BTC = Inr 200"
  "priceFeedPda bootstrap_platform bootstrap_ASSET_ETH = Inr 201"
  "priceFeedPda bootstrap_platform bootstrap_ASSET_SOL = Inr 202"
  "lending_pool_address bootstrap_platform mint = Inr (44, 255)"
  by (simp_all add: keeper_protocolStatePda_def priceFeedPda_def lending_pool_address_def bootstrap_platform_def
      bootstrap_settings to_uint8_def)

lemma demo_there_Cons: "demo_there (q # h) k \<longleftrightarrow> k \<in> set (demo_footprint q) \<or> demo_there h k"
  "\<not> demo_there [] k"
  by (simp_all add: demo_there_def)

text \<open>On this cluster every step succeeds.\<close>

lemma demo_init_succeeds:
  "\<exists>x h'. initializeProtocol P demo_cluster 1 k h = (Inr x, h')"
  "\<exists>x h'. initializeLendingPool P demo_cluster 1 mint ata pool feed h = (Inr x, h')"
  "\<exists>x h'. initializeAdminPriceFeed bootstrap_platform demo_cluster 1 bootstrap_ASSET_BTC INITIAL_BTC_PRICE h = (Inr x, h')"
  "\<exists>x h'. initializeAdminPriceFeed bootstrap_platform demo_cluster 1 bootstrap_ASSET_ETH INITIAL_ETH_PRICE h = (Inr x, h')"
  "\<exists>x h'. initializeAdminPriceFeed bootstrap_platform demo_cluster 1 bootstrap_ASSET_SOL INITIAL_SOL_PRICE h = (Inr x, h')"
  by (simp_all add: initializeProtocol_def initializeLendingPool_def initializeAdminPriceFeed_def
      account_exists_def demo_cluster_def demo_services_def io_bind_def console_log_def send_and_confirm_def
      bootstrap_pool_ix_def bootstrap_feed_ix_def bootstrap_u16ToLe_def bootstrap_settings
      priceFeedPda_def bootstrap_platform_def)

lemma demo_mint_succeeds:
  assumes "list_all keeps_record h"
  shows "\<exists>h'. getOrCreateLgUsdMint demo_cluster demo_tokens_library demo_files 1 h = (Inr 99, h')"
  using assms
  by (simp add: getOrCreateLgUsdMint_def recorded_mint_def create_mint_def demo_files_def demo_file_kept
      demo_tokens_library_def io_bind_def console_log_def Let_def)

lemma demo_vault_succeeds:
  assumes "list_all keeps_authority h"
  shows "\<exists>h'. ensurePoolTokenVault demo_cluster demo_tokens_library 1 99 44 h = (Inr 77, h')"
  using assms
  by (simp add: ensurePoolTokenVault_def account_exists_def demo_cluster_def demo_tokens_library_def
      create_vault_def fill_vault_def hand_over_mint_def read_token_account_def read_mint_authority_def
      io_bind_def console_log_def Let_def demo_there_Cons demo_authority_kept)

lemma demo_accounts_succeed:
  assumes "list_all keeps_authority h"
  shows "\<exists>x h'. bootstrap_accounts bootstrap_platform demo_cluster demo_tokens_library 1 99 44 h = (Inr x, h')"
proof -
  obtain h1 where "ensurePoolTokenVault demo_cluster demo_tokens_library 1 99 44 h = (Inr 77, h1)"
    using demo_vault_succeeds [OF assms] by blast
  moreover obtain x2 h2 where
    "initializeLendingPool bootstrap_platform demo_cluster 1 99 77 44 200 h1 = (Inr x2, h2)"
    using demo_init_succeeds(2) by blast
  moreover obtain x3 h3 where "initializeAdminPriceFeed bootstrap_platform demo_cluster 1
      bootstrap_ASSET_BTC INITIAL_BTC_PRICE h2 = (Inr x3, h3)" using demo_init_succeeds(3) by blast
  moreover obtain x4 h4 where "initializeAdminPriceFeed bootstrap_platform demo_cluster 1
      bootstrap_ASSET_ETH INITIAL_ETH_PRICE h3 = (Inr x4, h4)" using demo_init_succeeds(4) by blast
  moreover obtain x5 h5 where "initializeAdminPriceFeed bootstrap_platform demo_cluster 1
      bootstrap_ASSET_SOL INITIAL_SOL_PRICE h4 = (Inr x5, h5)" using demo_init_succeeds(5) by blast
  ultimately show ?thesis by (simp add: bootstrap_accounts_def io_bind_run)
qed

lemma demo_bootstrap_run:
  "\<exists>h. bootstrap bootstrap_platform demo_cluster demo_tokens_library demo_files 1 [] = (Inr 0, h)"
proof -
  let ?P = bootstrap_platform and ?S = demo_cluster and ?T = demo_tokens_library
  let ?start = "[Log (ascii ''admin: '' @ to_base58 1) [], Log (ascii ''program: '' @ to_base58 scripts_PROGRAM_ID) []]"
  obtain x h1 where p: "initializeProtocol ?P ?S 1 14 ?start = (Inr x, h1)"
    using demo_init_succeeds(1) by blast
  have "\<exists>j. h1 = ?start @ j \<and> list_all (\<lambda>q. keeps_record q \<and> keeps_authority q) j"
    by (rule run_grows [OF grows_init(3) p]) simp_all
  then have h1: "list_all keeps_record h1" "list_all keeps_authority h1" by (auto simp: list_all_iff)
  obtain h2 where m: "getOrCreateLgUsdMint ?S ?T demo_files 1 h1 = (Inr 99, h2)"
    using demo_mint_succeeds [OF h1(1)] by blast
  have "\<exists>j. h2 = h1 @ j \<and> list_all keeps_authority j" by (rule run_grows [OF grows_mint m])
  then obtain y h3 where "bootstrap_accounts ?P ?S ?T 1 99 44 h2 = (Inr y, h3)"
    using demo_accounts_succeed h1(2) by (metis list_all_append)
  with p m show ?thesis
    by (simp add: bootstrap_def bootstrap_main_def io_bind_run io_catch_def console_log_def)
qed

text \<open>A first run from nothing, and the rerun.\<close>

lemma bootstrap_rerun_reads_witness:
  "\<exists>h k. bootstrap bootstrap_platform demo_cluster demo_tokens_library demo_files 1 [] = (Inr 0, h)
    \<and> bootstrap bootstrap_platform demo_cluster demo_tokens_library demo_files 5 h = (Inr 0, h @ k)
    \<and> list_all reads k"
proof -
  obtain h where h: "bootstrap bootstrap_platform demo_cluster demo_tokens_library demo_files 1 [] = (Inr 0, h)"
    using demo_bootstrap_run by blast
  have "complete bootstrap_platform demo_cluster demo_tokens_library demo_files h"
    by (rule bootstrap_completes [OF demo_accounts_last demo_tokens_last demo_files_last h])
  from bootstrap_rerun_reads [OF this, of 5] h show ?thesis by blast
qed

text \<open>The same run, after which half of the vault was lent.\<close>

definition demo_lent_library :: token_library where
  "demo_lent_library = demo_tokens_library\<lparr>spl_getAccount := (\<lambda>_ _. Inr 500000000)\<rparr>"

lemma bootstrap_stuck_once_lent_witness:
  "\<exists>h k. bootstrap bootstrap_platform demo_cluster demo_tokens_library demo_files 1 [] = (Inr 0, h)
    \<and> bootstrap bootstrap_platform demo_cluster demo_lent_library demo_files 1 h
        = (Inr 1, h @ k @ [Warn (ascii ''bootstrap failed:'')])
    \<and> list_all reads k"
proof -
  obtain h where h: "bootstrap bootstrap_platform demo_cluster demo_tokens_library demo_files 1 [] = (Inr 0, h)"
    using demo_bootstrap_run by blast
  have "complete bootstrap_platform demo_cluster demo_tokens_library demo_files h"
    by (rule bootstrap_completes [OF demo_accounts_last demo_tokens_last demo_files_last h])
  then obtain mint pool ata ks where "pool = 44" "ata = 77"
      "finds demo_cluster demo_tokens_library demo_files mint pool ({14, mint, ata} \<union> ks) h"
    by (auto simp: complete_def demo_tokens_library_def)
  then have f: "finds demo_cluster demo_lent_library demo_files mint 44 {14, mint, 77} h"
    by (auto simp: finds_def demo_lent_library_def)
  have a: "spl_associatedTokenAddress demo_lent_library mint 44 True = Inr 77"
    by (simp add: demo_lent_library_def demo_tokens_library_def)
  obtain k where "bootstrap bootstrap_platform demo_cluster demo_lent_library demo_files 1 h
        = (Inr 1, h @ k @ [Warn (ascii ''bootstrap failed:'')])" "list_all reads k"
    using bootstrap_stuck_once_lent [OF bootstrap_addresses(1,2,5) a f, of 1]
    by (auto simp: demo_lent_library_def INITIAL_LIQUIDITY_def)
  with h show ?thesis by blast
qed

lemma bootstrap_builders_agree_witness:
  "js_bind (keeper_protocolStatePda demo_platform) (\<lambda>k. Inr (bootstrap_protocol_ix demo_platform 1 k))
     = buildInitializeProtocolIx demo_platform 1"
proof -
  have "PROGRAM_ID demo_platform = scripts_PROGRAM_ID"
    by (simp add: PROGRAM_ID_def env_pubkey_def demo_platform_def scripts_PROGRAM_ID_def)
  from bootstrap_builders_agree [OF this, of 1] show ?thesis by blast
qed

end
