(* ===== verification/Deployment_Safety.thy ===== *)
theory Deployment_Safety
  imports Deployment Bootstrap_Safety
begin

text \<open>
  What the deployment scripts guarantee: the order of what \<open>deploy.js\<close> does, and that the upgrade
  authority is only handed over by its holder.
\<close>

section \<open>Phases of a script\<close>

text \<open>Requests satisfying \<open>P\<close> first, then requests satisfying \<open>Q\<close>.\<close>

definition phases :: "(request \<Rightarrow> bool) \<Rightarrow> (request \<Rightarrow> bool) \<Rightarrow> 'a io \<Rightarrow> bool" where
  "phases P Q m \<longleftrightarrow> (\<forall>h. \<exists>a b. snd (m h) = h @ a @ b \<and> list_all P a \<and> list_all Q b)"

lemma phases_last: "grows Q m \<Longrightarrow> phases P Q m"
  unfolding grows_def phases_def by (metis append_Nil list.pred_inject(1))

lemma phases_bind:
  assumes "grows P m" "\<And>x. phases P Q (f x)"
  shows "phases P Q (io_bind m f)"
  unfolding phases_def
proof
  fix h
  obtain r k where m: "m h = (r, h @ k)" "list_all P k"
    using assms(1) by (metis grows_def prod.collapse)
  show "\<exists>a b. snd (io_bind m f h) = h @ a @ b \<and> list_all P a \<and> list_all Q b"
  proof (cases r)
    case (Inl e)
    then show ?thesis using m by (intro exI [of _ k] exI [of _ "[]"]) (simp add: io_bind_def)
  next
    case (Inr x)
    obtain a b where "snd (f x (h @ k)) = (h @ k) @ a @ b" "list_all P a" "list_all Q b"
      using assms(2) [of x] phases_def by blast
    then show ?thesis using m Inr by (intro exI [of _ "k @ a"] exI [of _ b]) (simp add: io_bind_def)
  qed
qed

lemma phases_then:
  assumes "phases P Q m" "\<And>x. grows Q (f x)"
  shows "phases P Q (io_bind m f)"
  unfolding phases_def
proof
  fix h
  obtain r a b where m: "m h = (r, h @ a @ b)" "list_all P a" "list_all Q b"
    using assms(1) by (metis phases_def prod.collapse)
  show "\<exists>a b. snd (io_bind m f h) = h @ a @ b \<and> list_all P a \<and> list_all Q b"
  proof (cases r)
    case (Inl e)
    then show ?thesis using m by (auto simp: io_bind_def)
  next
    case (Inr x)
    obtain c where "snd (f x (h @ a @ b)) = (h @ a @ b) @ c" "list_all Q c"
      using assms(2) [of x] grows_def by blast
    then show ?thesis using m Inr by (intro exI [of _ a] exI [of _ "b @ c"]) (simp add: io_bind_def)
  qed
qed

lemma phases_catch:
  assumes "phases P Q m" "\<And>e. grows Q (f e)"
  shows "phases P Q (io_catch m f)"
  unfolding phases_def
proof
  fix h
  obtain r a b where m: "m h = (r, h @ a @ b)" "list_all P a" "list_all Q b"
    using assms(1) by (metis phases_def prod.collapse)
  show "\<exists>a b. snd (io_catch m f h) = h @ a @ b \<and> list_all P a \<and> list_all Q b"
  proof (cases r)
    case (Inr x)
    then show ?thesis using m by (auto simp: io_catch_def)
  next
    case (Inl e)
    obtain c where "snd (f e (h @ a @ b)) = (h @ a @ b) @ c" "list_all Q c"
      using assms(2) [of e] grows_def by blast
    then show ?thesis using m Inl by (intro exI [of _ a] exI [of _ "b @ c"]) (simp add: io_catch_def)
  qed
qed

lemma phases_go_on: "grows P m \<Longrightarrow> (\<And>x. phases P Q (f x)) \<Longrightarrow> phases P Q (go_on m f)"
  unfolding go_on_def
  by (intro phases_bind) (auto split: option.split intro: phases_last grows_intros)

lemma grows_go_on: "grows P m \<Longrightarrow> (\<And>x. grows P (f x)) \<Longrightarrow> grows P (go_on m f)"
  unfolding go_on_def by (intro grows_intros) (auto split: option.split intro: grows_intros)

section \<open>Deploying\<close>

fun writes_file :: "request \<Rightarrow> bool" where
  "writes_file (WriteFile _ _) = True"
| "writes_file _ = False"

lemma grows_deploy_log [grows_intros]: "P (Log (colors type @ 32 # msg) []) \<Longrightarrow> grows P (deploy_log type msg)"
  unfolding deploy_log_def by (intro grows_intros)

lemma grows_run_command:
  assumes "P (Exec cmd)" "\<And>t. P (Log t [])"
  shows "grows P (run_command N cmd done failed)"
  unfolding run_command_def execSync_def give_up_def using assms by (intro grows_intros)

lemma grows_check_keypair:
  assumes "\<And>p. P (ReadFile p)" "\<And>t. P (Log t [])"
  shows "grows P (check_keypair Q N)"
  unfolding check_keypair_def existsSync_def Let_def using assms by (intro grows_intros)

lemma grows_program_id:
  assumes "\<And>p. P (ReadFile p)" "\<And>t. P (Log t [])"
  shows "grows P (program_id N F)"
  unfolding program_id_def existsSync_def readFile_def give_up_def Let_def using assms by (intro grows_intros)

lemma grows_update_file:
  assumes "\<And>p. P (ReadFile p)" "\<And>p t. P (WriteFile p t)" "\<And>t. P (Log t [])"
  shows "grows P (update_file F p change done)"
  unfolding update_file_def readFile_def writeFile_def using assms by (intro grows_intros)

lemma deploy_phases: "phases (\<lambda>q. \<not> writes_file q) (\<lambda>q. q \<noteq> Exec anchor_build) (deploy_steps P N F)"
proof -
  have "anchor_deploy \<noteq> anchor_build"
    by (simp add: anchor_deploy_def anchor_build_def ascii_def)
  then show ?thesis
    unfolding deploy_steps_def
    by (intro phases_bind phases_go_on phases_last [OF grows_bind] grows_run_command grows_check_keypair
        grows_deploy_log grows_go_on grows_program_id grows_update_file)
      (auto simp: execSync_def give_up_def intro!: grows_intros grows_go_on grows_program_id grows_update_file)
qed

text \<open>C40: The deployment script never builds the program again after it has written a file: the binary it
  deploys was built before \<open>lib.rs\<close> declared the id it is deployed under.\<close>

theorem deploy_never_rebuilds:
  assumes "deploy P S N F h = (r, h @ before @ WriteFile p t # after)"
  shows "Exec anchor_build \<notin> set after"
proof -
  have "phases (\<lambda>q. \<not> writes_file q) (\<lambda>q. q \<noteq> Exec anchor_build) (deploy P S N F)"
    unfolding deploy_def
    by (intro phases_catch phases_then deploy_phases grows_intros) simp_all
  then obtain a b where "before @ WriteFile p t # after = a @ b"
      "list_all (\<lambda>q. \<not> writes_file q) a" "list_all (\<lambda>q. q \<noteq> Exec anchor_build) b"
    using assms unfolding phases_def by (metis same_append_eq snd_conv)
  then show ?thesis
    by (auto simp: append_eq_append_conv2 Cons_eq_append_conv list_all_iff)
qed

section \<open>The ids in the files\<close>

lemma after_last_here:
  assumes "suf \<noteq> []" "after_last suf (tl (suf @ r)) = None"
  shows "after_last suf (x @ suf @ r) = Some r"
proof (induction x)
  case Nil
  obtain c cs where suf: "suf = c # cs" using assms(1) by (cases suf) auto
  then have "after_last suf (c # cs @ r) = strip_prefix suf (suf @ r)" using assms(2) by simp
  then show ?case by (simp add: suf)
qed simp

lemma match_here_at:
  assumes "suf \<noteq> []" "list_all (\<lambda>c. \<not> line_terminator c) (old @ suf)"
    and "after_last suf (tl (suf @ takeWhile (\<lambda>c. \<not> line_terminator c) b)) = None"
  shows "match_here pre suf (pre @ old @ suf @ b) = Some b"
proof -
  let ?t = "takeWhile (\<lambda>c. \<not> line_terminator c)"
  have line: "?t (old @ suf @ b) = old @ suf @ ?t b"
    using assms(2) by (simp add: list_all_iff)
  have "?t b @ drop (length (?t b)) b = b" by (metis dropWhile_eq_drop takeWhile_dropWhile_id)
  then show ?thesis
    using after_last_here [OF assms(1,3), of old] by (simp add: match_here_def line Let_def)
qed

text \<open>Where the first place that starts like the pattern is a whole one, exactly it is replaced.\<close>

lemma replace_first_at:
  assumes "\<forall>i < length a. strip_prefix pre (drop i (a @ pre @ old @ suf @ b)) = None"
    and "suf \<noteq> []" "list_all (\<lambda>c. \<not> line_terminator c) (old @ suf)"
    and "after_last suf (tl (suf @ takeWhile (\<lambda>c. \<not> line_terminator c) b)) = None"
  shows "replace_first pre suf new (a @ pre @ old @ suf @ b) = a @ new @ b"
  using assms(1)
proof (induction a)
  case Nil
  have "match_here pre suf s = Some r \<Longrightarrow> replace_first pre suf new s = new @ r" for s r by (cases s) simp_all
  then show ?case using match_here_at [OF assms(2-4)] by simp
next
  case (Cons c a)
  from Cons.prems have "strip_prefix pre ((c # a) @ pre @ old @ suf @ b) = None" by (metis drop0 length_greater_0_conv list.distinct(1))
  moreover from Cons.prems have "\<forall>i < length a. strip_prefix pre (drop i (a @ pre @ old @ suf @ b)) = None"
    by (metis Suc_less_eq append_Cons drop_Suc_Cons length_Cons)
  ultimately show ?case using Cons.IH by (simp add: match_here_def)
qed

section \<open>Key files\<close>

text \<open>An imported key is 64 bytes long and its file is made private; a generated one stays as the
  process's mask leaves it.\<close>

lemma import_authority_restricts:
  assumes "import_authority P N F out h = (Inr 0, h')"
  shows "\<exists>bs t. length bs = 64 \<and> h' = h @ [WriteFile out (json_byte_array bs), ChangeMode out 384, Log t []]"
  using assms
  by (auto simp: import_authority_def io_bind_eq_Inr console_error_def console_log_def writeFile_def
      chmodFile_def split: option.splits if_splits)

lemma create_keypair_never_restricts: "grows (\<lambda>q. \<forall>p m. q \<noteq> ChangeMode p m) (create_keypair N F)"
proof -
  have "grows (\<lambda>q. \<forall>p m. q \<noteq> ChangeMode p m) (log_lines ts)" for ts
    by (induction ts) (auto intro!: grows_intros simp del: io_run)
  then show ?thesis
    unfolding create_keypair_def existsSync_def writeFile_def Let_def
    by (intro grows_intros) (auto intro!: grows_intros split: prod.split)
qed

section \<open>Handing over\<close>

definition quiet_request :: "request \<Rightarrow> bool" where
  "quiet_request q \<longleftrightarrow> (\<forall>tx. q \<noteq> SendAndConfirm tx)"

lemma quiet_requests [simp]:
  "quiet_request ReadAccounts" "quiet_request (Log t fs)" "quiet_request (Warn t)" "quiet_request (ReadFile p)"
  by (simp_all add: quiet_request_def)

lemma transfer_checked_sends:
  assumes "transfer_checked P S programData current newAuthority rpc h = (r, h')"
  shows "\<exists>k. h' = h @ k \<and> (\<forall>tx. SendAndConfirm tx \<in> set k \<longrightarrow>
      (\<exists>data. getAccountInfo (rpc_accounts S h) programData = Inr (Some data)
        \<and> declared_authority data = Inr (Some current))
      \<and> process_env P ''LENDGUARD_DRY_RUN'' \<noteq> Some ''1''
      \<and> tx_instructions tx = [set_authority_ix programData current newAuthority])"
  using assms
  by (auto simp: transfer_checked_def io_bind_def console_log_def send_and_confirm_def Let_def
      split: sum.splits option.splits if_splits)

text \<open>C39: The script that hands over the upgrade authority asks for at most the one transaction it
  announces, only to the key that was named in the settings, never in a dry run, and only when the
  program's data account names the signing key as the present authority.\<close>

theorem transfer_only_by_authority:
  assumes "transfer_upgrade_authority P S N F h = (r, h')" "SendAndConfirm tx \<in> set h'" "SendAndConfirm tx \<notin> set h"
  shows "\<exists>t newAuthority programData bump current h1 data.
      setting P ''LENDGUARD_NEW_AUTHORITY'' = Some t \<and> new_PublicKey_base58 t = Inr newAuthority
    \<and> find_program_address P [to_buffer scripts_PROGRAM_ID] BPF_LOADER_UPGRADEABLE = Inr (programData, bump)
    \<and> getAccountInfo (rpc_accounts S h1) programData = Inr (Some data)
    \<and> declared_authority data = Inr (Some current)
    \<and> process_env P ''LENDGUARD_DRY_RUN'' \<noteq> Some ''1''
    \<and> tx_instructions tx = [set_authority_ix programData current newAuthority]"
proof -
  obtain path t where s: "setting P ''LENDGUARD_AUTHORITY_KEYPAIR'' = Some path"
      "setting P ''LENDGUARD_NEW_AUTHORITY'' = Some t"
    using assms by (cases "setting P ''LENDGUARD_AUTHORITY_KEYPAIR''"; cases "setting P ''LENDGUARD_NEW_AUTHORITY''")
      (auto simp: transfer_upgrade_authority_def Let_def io_bind_def console_error_def)
  obtain content where f: "readFile F path h = (Inr content, h @ [ReadFile path])"
    using assms s
    by (cases "readFile F path h")
      (auto simp: transfer_upgrade_authority_def Let_def io_bind_def readFile_def split: sum.splits)
  obtain secret current newAuthority programData bump where d: "json_bytes N content = Inr secret"
      "keypair_fromSecretKey N secret = Inr current" "new_PublicKey_base58 t = Inr newAuthority"
      "find_program_address P [to_buffer scripts_PROGRAM_ID] BPF_LOADER_UPGRADEABLE = Inr (programData, bump)"
    using assms s f
    by (auto simp: transfer_upgrade_authority_def Let_def io_bind_def split: sum.splits)
  let ?rpc = "env_text P ''LENDGUARD_RPC'' ''https://api.devnet.solana.com''"
  obtain l m where c: "transfer_checked P S programData current newAuthority ?rpc
      (h @ [ReadFile path, Log l [], Log [] m]) = (r, h')"
    using assms(1) s f d by (auto simp: transfer_upgrade_authority_def Let_def io_bind_def console_log_def)
  from transfer_checked_sends [OF this] assms(2,3) d s(2) show ?thesis
    by auto blast
qed

section \<open>Concrete runs\<close>

definition demo_node :: node where
  "demo_node = \<lparr>
     node_dirname = [47], node_homedir = [47], path_join = concat, path_exists = (\<lambda>_ _. True),
     exec_sync = (\<lambda>_ _. Inr ()), make_directory = (\<lambda>_ _. Inr ()),
     json_bytes = (\<lambda>_. Inr (replicate 32 0 @ to_buffer 9)), json_quote = (\<lambda>t. [34] @ t @ [34]),
     keypair_fromSecretKey = (\<lambda>_. Inr 7), keypair_generate = (\<lambda>_. (7, replicate 64 0)),
     bs58_decode = (\<lambda>_. Inr (replicate 64 0))\<rparr>"

definition demo_disk :: file_system where
  "demo_disk = \<lparr>fs_read = (\<lambda>_ _. Some (Inr [])), fs_write = (\<lambda>_ _ _. Inr ()), fs_chmod = (\<lambda>_ _ _. Inr ()),
     json_mint = (\<lambda>_. Inr None)\<rparr>"

definition demo_settings :: platform where
  "demo_settings = demo_platform\<lparr>
     process_env := (\<lambda>name. if name = ''LENDGUARD_DRY_RUN'' then None else Some ''11111111111111111111111111111111'')\<rparr>"

lemma demo_deploy_run:
  "\<exists>h. deploy demo_settings demo_services demo_node demo_disk [] = (Inr 0, h)
    \<and> WriteFile (47 # ascii ''Anchor.toml'') [] \<in> set h"
  by (simp add: deploy_def deploy_steps_def go_on_def run_command_def execSync_def check_keypair_def
      existsSync_def program_id_def readFile_def writeFile_def update_file_def io_bind_def io_catch_def
      deploy_log_def console_log_def demo_node_def demo_disk_def Let_def home_def setting_def
      demo_settings_def with_toml_id_def with_declared_id_def match_here_def toml_key_def
      declare_id_open_def ascii_def)

lemma deploy_never_rebuilds_witness:
  "\<exists>before after. deploy demo_settings demo_services demo_node demo_disk []
      = (Inr 0, before @ WriteFile (47 # ascii ''Anchor.toml'') [] # after)
    \<and> Exec anchor_build \<notin> set after"
proof -
  obtain h where h: "deploy demo_settings demo_services demo_node demo_disk [] = (Inr 0, h)"
      "WriteFile (47 # ascii ''Anchor.toml'') [] \<in> set h"
    using demo_deploy_run by blast
  from split_list [OF h(2)] obtain before after where
    "h = [] @ before @ WriteFile (47 # ascii ''Anchor.toml'') [] # after" by auto
  with deploy_never_rebuilds [OF h(1) [unfolded this]] h(1) show ?thesis by auto
qed

definition demo_program_data :: services where
  "demo_program_data = demo_services\<lparr>
     rpc_accounts := (\<lambda>_. \<lparr>getAccountInfo = (\<lambda>_. Inr (Some (replicate 12 0 @ 1 # to_buffer 7))),
       getProgramAccounts = (\<lambda>_ _. Inr [])\<rparr>)\<rparr>"

lemma demo_transfer_run:
  "\<exists>h tx. transfer_upgrade_authority demo_settings demo_program_data demo_node demo_disk [] = (Inr 0, h)
    \<and> SendAndConfirm tx \<in> set h"
proof -
  have k: "new_PublicKey_base58 (ascii ''11111111111111111111111111111111'') = Inr 0"
    by (simp add: new_PublicKey_base58_def bs58Decode_def ascii_def new_PublicKey_def be_val_def)
  have d: "declared_authority (replicate 12 0 @ 1 # to_buffer 7) = Inr (Some 7)"
    by (simp add: declared_authority_def get_byte_def subarray_def nth_append)
  show ?thesis
    by (simp add: transfer_upgrade_authority_def transfer_checked_def demo_settings_def setting_def Let_def
        io_bind_def demo_disk_def demo_node_def readFile_def k d demo_program_data_def demo_platform_def
        console_log_def send_and_confirm_def demo_services_def)
qed

lemma transfer_only_by_authority_witness:
  "\<exists>h tx newAuthority programData current.
      transfer_upgrade_authority demo_settings demo_program_data demo_node demo_disk [] = (Inr 0, h)
    \<and> SendAndConfirm tx \<in> set h
    \<and> tx_instructions tx = [set_authority_ix programData current newAuthority]"
proof -
  obtain h tx where h: "transfer_upgrade_authority demo_settings demo_program_data demo_node demo_disk [] = (Inr 0, h)"
      "SendAndConfirm tx \<in> set h"
    using demo_transfer_run by blast
  from transfer_only_by_authority [OF h] h show ?thesis by auto
qed

end
