(* ===== verification/Console_To_Chain.thy ===== *)
theory Console_To_Chain
  imports Chain_Entry Lend_Safety
begin

text \<open>
  The liquidation console of \<open>web/app/lend/page.tsx\<close> against \<open>liquidate_position\<close> of the program.
  The console decides by the numbers it loaded and by the Bitcoin feed alone; the program loads the feed of
  the vault's asset, accrues interest first and checks the proof, the freeze and the liquidator. Listed
  positions are compared with what the whole instruction answers, not with its health test only.
\<close>

section \<open>Errors that say a position is sound\<close>

text \<open>None of the arithmetic of a liquidation ends in the two errors that say a position is sound.\<close>

definition sound :: "lendguard_error \<Rightarrow> bool" where
  "sound e \<longleftrightarrow> e = PositionHealthy \<or> e = NoOutstandingDebt"

lemma run_bind_Inl: "run_bind m f = Inl e \<longleftrightarrow> m = Inl e \<or> (\<exists>x. m = Inr x \<and> f x = Inl e)"
  by (cases m) simp_all

lemma of_chain_Inl: "of_chain m = Inl e \<longleftrightarrow> (\<exists>x. m = Inl x \<and> e = Custom x)"
  by (cases m) auto

lemma chain_bind_Inl: "chain_bind m f = Inl e \<longleftrightarrow> m = Inl e \<or> (\<exists>x. m = Inr x \<and> f x = Inl e)"
  by (cases m) simp_all

lemma checked_unsound:
  "checked_add a b = Inl e \<Longrightarrow> \<not> sound e" "checked_sub a b = Inl e \<Longrightarrow> \<not> sound e"
  "checked_mul a b = Inl e \<Longrightarrow> \<not> sound e" "checked_div a b = Inl e \<Longrightarrow> \<not> sound e"
  "u64_try_from n = Inl e \<Longrightarrow> \<not> sound e"
  by (auto simp: checked_add_def checked_sub_def checked_mul_def checked_div_def u64_try_from_def sound_def
      split: if_splits)

lemma accrual_unsound: "accrue_interest pool slot = Inl e \<Longrightarrow> \<not> sound e"
  by (auto simp: accrue_interest_def chain_bind_Inl Let_def dest: checked_unsound split: if_splits)

lemma arithmetic_unsound:
  "current_debt p i = Inl e \<Longrightarrow> \<not> sound e" "collateral_with_bonus d b = Inl e \<Longrightarrow> \<not> sound e"
  by (auto simp: current_debt_eq collateral_with_bonus_def chain_bind_Inl Let_def sound_def
      dest: checked_unsound split: if_splits)

text \<open>A computation whose errors are none of the two.\<close>

definition unsound :: "'a run \<Rightarrow> bool" where
  "unsound m \<longleftrightarrow> (\<forall>e. m = Inl (Custom e) \<longrightarrow> \<not> sound e)"

lemma unsound_bind: "unsound m \<Longrightarrow> (\<And>x. m = Inr x \<Longrightarrow> unsound (f x)) \<Longrightarrow> unsound (run_bind m f)"
  by (cases m) (auto simp: unsound_def)

lemma unsound_steps:
  "unsound (Inr x)" "unsound (load l)" "unsound (seeds_match b)" "unsound (token_transfer E t f k a n)"
  "c \<or> \<not> sound e \<Longrightarrow> unsound (demand c e)" "unsound (checked_age now past)"
  by (auto simp: unsound_def load_def seeds_match_def token_transfer_def demand_def checked_age_def sound_def
      split: option.splits if_splits)

lemma unsound_arithmetic:
  "unsound (of_chain (accrue_interest pool slot))" "unsound (of_chain (current_debt p i))"
  "unsound (of_chain (collateral_with_bonus d b))" "unsound (of_chain (checked_add x y))"
  "unsound (of_chain (checked_sub x y))" "unsound (of_chain (is_liquidatable d q n t))"
  by (auto simp: unsound_def of_chain_Inl is_liquidatable_eq
      dest: accrual_unsound arithmetic_unsound checked_unsound)

text \<open>A position that is unhealthy at a stored index stays so while interest accrues.\<close>

lemma current_debt_grows:
  assumes "current_debt p i = Inr d" "current_debt p j = Inr d'" "i \<le> j"
  shows "d \<le> d'"
proof -
  have "unat p * unat i div 10 ^ 18 \<le> unat p * unat j div 10 ^ 18"
    using assms(3) by (intro div_le_mono mult_le_mono2) (simp add: word_le_nat_alt)
  then show ?thesis
    using assms(1,2) by (auto simp: current_debt_eq Let_def word_le_nat_alt unat_word_of_nat_lt split: if_splits)
qed

lemma liquidation_not_sound:
  assumes "lg_vaults L v = Some vault" "lg_pools L mint = Some pool" "lg_positions L v = Some pos"
    and "lg_feeds L (vault_asset_type vault) = Some feed"
    and "current_debt (pos_principal pos) (pool_borrow_index pool) = Inr debt" "0 < debt"
    and "is_liquidatable (vault_deposited_amount vault) (feed_price_usd feed) debt
       (pool_liquidation_threshold_bps pool) = Inr True"
    and "liquidate_position E now v mint ptk ltk who L = Inl (Custom e)"
  shows "\<not> sound e"
proof -
  have principal: "0 < pos_principal pos"
  proof (rule ccontr)
    assume "\<not> 0 < pos_principal pos"
    then have "pos_principal pos = 0" by (simp add: word_less_nat_alt unat_eq_zero)
    then have "debt = 0" using assms(5) by (simp add: current_debt_eq)
    then show False using assms(6) by simp
  qed
  have unhealthy: "is_liquidatable (vault_deposited_amount vault) (feed_price_usd feed) d
      (pool_liquidation_threshold_bps pool') = Inr True"
    if accrued: "accrue_interest pool (clock_slot now) = Inr pool'"
      and owed: "current_debt (pos_principal pos) (pool_borrow_index pool') = Inr d" for pool' d
  proof -
    obtain index last where a: "pool' = pool\<lparr>pool_borrow_index := index, pool_last_update_slot := last\<rparr>"
        "pool_borrow_index pool \<le> index"
      using accrue_interest_cases [OF accrued] by metis
    then have "unat debt \<le> unat d"
      using current_debt_grows [OF assms(5)] owed by (simp add: word_le_nat_alt)
    then show ?thesis using assms(7) a(1) by (auto simp: is_liquidatable_eq)
  qed
  have "unsound (liquidate_position E now v mint ptk ltk who L)"
    unfolding liquidate_position_def Let_def
    by (intro unsound_bind unsound_steps unsound_arithmetic)
      (use principal unhealthy in \<open>auto simp: assms(1-4) of_chain_Inr sound_def\<close>)
  then show ?thesis using assms(8) by (simp add: unsound_def)
qed

lemma position_listed:
  assumes "ls_pool c = Some (view_LendingPool pool)" "ls_priceFeed c = Some (view_AdminPriceFeed feed)"
    and "\<lparr>bl_positionPda = pda, bl_position = view_BorrowPosition pos\<rparr> \<in> set (ls_allPositions c)"
    and "ls_allVaults c (to_base58 (pos_vault pos)) = Some \<lparr>vl_vaultPda = k, vl_vault = view_Vault v\<rparr>"
    and "current_debt (pos_principal pos) (pool_borrow_index pool) = Inr debt"
  shows "\<lparr>bl_positionPda = pda, bl_position = view_BorrowPosition pos\<rparr> \<in> set (liquidatablePositions c)
    \<longleftrightarrow> debt > 0 \<and> is_liquidatable (vault_deposited_amount v) (feed_price_usd feed) debt
        (pool_liquidation_threshold_bps pool) = Inr True"
  using assms position_liquidatable_view [of "ls_allVaults c" pos k v pool debt feed pda]
  by (simp add: liquidatablePositions_def)

text \<open>C18: for a vault whose asset is Bitcoin, on a page that shows what the ledger stores: when the console
  lists the position, the whole \<open>LiquidatePosition\<close> instruction, at any later slot and by anybody, is never
  refused because the position is healthy or owes nothing; and when the program accepts the liquidation with
  no interest accrued since, the console lists the position. For other assets the console reads the wrong
  feed: \<open>console_misses_sol_liquidation\<close> below.\<close>

theorem console_agrees_with_program:
  assumes "ls_pool c = Some (view_LendingPool pool)" "ls_priceFeed c = Some (view_AdminPriceFeed feed)"
    and "\<lparr>bl_positionPda = pda, bl_position = view_BorrowPosition pos\<rparr> \<in> set (ls_allPositions c)"
    and "ls_allVaults c (to_base58 (pos_vault pos)) = Some \<lparr>vl_vaultPda = k, vl_vault = view_Vault vault\<rparr>"
    and "lg_pools L mint = Some pool" "lg_feeds L 0 = Some feed" "lg_positions L (pos_vault pos) = Some pos"
    and "lg_vaults L (pos_vault pos) = Some vault" "vault_asset_type vault = 0"
    and "current_debt (pos_principal pos) (pool_borrow_index pool) = Inr debt"
  shows "(\<lparr>bl_positionPda = pda, bl_position = view_BorrowPosition pos\<rparr> \<in> set (liquidatablePositions c)
      \<longrightarrow> execute E now (LiquidatePosition (pos_vault pos) mint ptk ltk who) L
        \<notin> {Inl (Custom PositionHealthy), Inl (Custom NoOutstandingDebt)})
    \<and> (clock_slot now \<le> pool_last_update_slot pool
       \<and> execute E now (LiquidatePosition (pos_vault pos) mint ptk ltk who) L = Inr L'
      \<longrightarrow> \<lparr>bl_positionPda = pda, bl_position = view_BorrowPosition pos\<rparr> \<in> set (liquidatablePositions c))"
proof -
  note listed = position_listed [OF assms(1-4,10)]
  have feed: "lg_feeds L (vault_asset_type vault) = Some feed" using assms(6,9) by simp
  have "\<not> sound e" if "debt > 0" "is_liquidatable (vault_deposited_amount vault) (feed_price_usd feed) debt
        (pool_liquidation_threshold_bps pool) = Inr True"
      "liquidate_position E now (pos_vault pos) mint ptk ltk who L = Inl (Custom e)" for e
    by (rule liquidation_not_sound [OF assms(8,5,7) feed assms(10) that])
  moreover have "debt > 0 \<and> is_liquidatable (vault_deposited_amount vault) (feed_price_usd feed) debt
        (pool_liquidation_threshold_bps pool) = Inr True"
    if "clock_slot now \<le> pool_last_update_slot pool"
      "liquidate_position E now (pos_vault pos) mint ptk ltk who L = Inr L'"
    using that(2)
  proof (cases rule: liquidate_effect)
    case (1 vault1 protocol1 pool1 feed1 position1 pool2 debt1 toks1 seizable movable seized tot1 lams1)
    then have "vault1 = vault" "feed1 = feed" "position1 = pos" "pool2 = pool"
      using assms(5,7,8) feed that(1) by (simp_all add: accrue_interest_def)
    with 1(10,11) assms(10) have "is_liquidatable (vault_deposited_amount vault) (feed_price_usd feed) debt
        (pool_liquidation_threshold_bps pool) = Inr True" by simp
    moreover from this have "debt > 0" by (auto simp: is_liquidatable_eq word_less_nat_alt)
    ultimately show ?thesis by blast
  qed
  ultimately show ?thesis unfolding listed by (auto simp: sound_def)
qed

section \<open>A liquidation, listed and not\<close>

text \<open>A loan of 50 dollars on a vault of 1000000000 lamports of the given asset, Bitcoin (0) or SOL (2); the
  feed of the asset says 50 dollars, the feed of the other one 60000.\<close>

definition sinking :: "byte \<Rightarrow> ledger" where
  "sinking asset = (demo_lent (\<lambda>_. 9))\<lparr>
     lg_feeds := [asset \<mapsto> demo_feed asset 5000000000, 2 - asset \<mapsto> demo_feed (2 - asset) 6000000000000],
     lg_vaults := [demo_vault_key \<mapsto> demo_vault\<lparr>vault_asset_type := asset\<rparr>]\<rparr>"

definition sinking_page :: "byte \<Rightarrow> 64 word \<Rightarrow> lend_page" where
  "sinking_page asset price = initial_lend_page\<lparr>
     ls_pool := Some (view_LendingPool (demo_pool\<lparr>pool_total_borrowed := 50000000\<rparr>)),
     ls_priceFeed := Some (view_AdminPriceFeed (demo_feed 0 price)),
     ls_allPositions := [\<lparr>bl_positionPda = 6,
        bl_position = view_BorrowPosition (demo_position demo_vault_key 50000000)\<rparr>],
     ls_allVaults := [to_base58 demo_vault_key \<mapsto> \<lparr>vl_vaultPda = demo_vault_key,
        vl_vault = view_Vault (demo_vault\<lparr>vault_asset_type := asset\<rparr>)\<rparr>]\<rparr>"

lemma sinking_liquidated:
  "asset = 0 \<or> asset = 2 \<Longrightarrow> \<exists>L'. execute demo_env demo_clock (LiquidatePosition demo_vault_key 3 4 8 9) (sinking asset) = Inr L'"
  by (auto simp: sinking_def demo_lent_def demo_simps demo_lending liquidate_position_def is_liquidatable_eq
      liquidation_value_nat_def demo_seizable VaultAccount_LEN_def)

lemma sinking_stored:
  assumes "asset = 0 \<or> asset = 2"
  shows "lg_feeds (sinking asset) asset = Some (demo_feed asset 5000000000)"
    and "lg_feeds (sinking 2) 0 = Some (demo_feed 0 6000000000000)"
  using assms by (auto simp: sinking_def demo_lent_def demo_simps)

lemma sinking_ledger:
  "lg_pools (sinking asset) 3 = Some (demo_pool\<lparr>pool_total_borrowed := 50000000\<rparr>)"
  "lg_positions (sinking asset) demo_vault_key = Some (demo_position demo_vault_key 50000000)"
  "lg_vaults (sinking asset) demo_vault_key = Some (demo_vault\<lparr>vault_asset_type := asset\<rparr>)"
  by (auto simp: sinking_def demo_lent_def demo_simps)

lemma sinking_debt:
  "current_debt 50000000 (pool_borrow_index (demo_pool\<lparr>pool_total_borrowed := 50000000\<rparr>)) = Inr 50000000"
  by (simp add: demo_pool_def current_debt_eq LendingPool_RAY_def)

lemma sinking_fields:
  "pos_vault (demo_position v n) = v" "pos_principal (demo_position v n) = n"
  "vault_deposited_amount demo_vault = 1000000000"
  "feed_price_usd (demo_feed a p) = p"
  "pool_liquidation_threshold_bps demo_pool = 8000" "pool_last_update_slot demo_pool = 5"
  by (simp_all add: demo_position_def demo_vault_def demo_feed_def demo_pool_def)

text \<open>The console judges every vault by the Bitcoin feed it loads: the SOL loan the program lets anyone
  liquidate is not listed.\<close>

lemma console_misses_sol_liquidation:
  "(\<exists>L'. execute demo_env demo_clock (LiquidatePosition demo_vault_key 3 4 8 9) (sinking 2) = Inr L')
   \<and> \<lparr>bl_positionPda = 6, bl_position = view_BorrowPosition (demo_position demo_vault_key 50000000)\<rparr>
       \<notin> set (liquidatablePositions (sinking_page 2 6000000000000))"
proof -
  have "\<not> is_liquidatable 1000000000 6000000000000 50000000 8000 = Inr True"
    by (simp add: is_liquidatable_eq liquidation_value_nat_def)
  then show ?thesis
    using sinking_liquidated [of 2] sinking_debt
      position_listed [of "sinking_page 2 6000000000000" "demo_pool\<lparr>pool_total_borrowed := 50000000\<rparr>"
        "demo_feed 0 6000000000000" 6 "demo_position demo_vault_key 50000000"
        demo_vault_key "demo_vault\<lparr>vault_asset_type := 2\<rparr>" 50000000]
    by (simp add: sinking_page_def sinking_stored sinking_fields)
qed

text \<open>A Bitcoin vault of lamports under the same loan is listed, and liquidated.\<close>

lemma console_agrees_with_program_witness:
  "\<lparr>bl_positionPda = 6, bl_position = view_BorrowPosition (demo_position demo_vault_key 50000000)\<rparr>
     \<in> set (liquidatablePositions (sinking_page 0 5000000000))"
proof -
  obtain L' where "execute demo_env demo_clock (LiquidatePosition demo_vault_key 3 4 8 9) (sinking 0) = Inr L'"
    using sinking_liquidated [of 0] by blast
  moreover have "clock_slot demo_clock
      \<le> pool_last_update_slot (demo_pool\<lparr>pool_total_borrowed := 50000000\<rparr>)"
    by (simp add: demo_clock_def demo_pool_def)
  ultimately show ?thesis
    using console_agrees_with_program [of "sinking_page 0 5000000000"
        "demo_pool\<lparr>pool_total_borrowed := 50000000\<rparr>" "demo_feed 0 5000000000"
        6 "demo_position demo_vault_key 50000000" demo_vault_key
        "demo_vault\<lparr>vault_asset_type := 0\<rparr>" "sinking 0" 3 50000000 demo_env demo_clock 4 8 9 L']
      sinking_debt
    by (simp add: sinking_page_def sinking_stored sinking_fields sinking_ledger)
qed

end
