(* ===== verification/Gate_To_Chain.thy ===== *)
theory Gate_To_Chain
  imports Gate Chain_Entry
begin

text \<open>
  The collateral gate of \<open>web/lib/lendguard-gate.ts\<close> against the \<open>deposit_collateral\<close> handler of the
  program it speaks for: the gate reads the accounts of a ledger, the handler runs on the same ledger at
  the same time. The two freshness limits, one day and 600 seconds, are written as numbers.
\<close>

text \<open>The deposit, by cases on its guards.\<close>

lemma deposit_answer:
  assumes "lg_protocol L = Some ps" "lg_vaults L k = Some v"
    and "0 \<le> sint (clock_unix_timestamp c)"
  shows "(\<exists>L'. execute E c (DepositCollateral k (vault_owner v) n) L = Inr L') \<longleftrightarrow>
      vault_proof_status v = 1 \<and> \<not> proto_frozen ps \<and> \<not> vault_frozen v \<and> 0 < n
      \<and> sint (clock_unix_timestamp c) - sint (vault_proof_timestamp v) \<le> 600
      \<and> unat (vault_deposited_amount v) + unat n < 2 ^ 64
      \<and> unat (proto_total_collateral_verified ps) + unat n < 2 ^ 128"
    and "execute E c (DepositCollateral k (vault_owner v) n) L = Inl (Custom e) \<Longrightarrow>
      (e = VaultNotVerified \<longrightarrow> vault_proof_status v \<noteq> 1)
      \<and> (e = ProtocolFrozen \<longrightarrow> vault_proof_status v = 1 \<and> proto_frozen ps)
      \<and> (e = VaultFrozen \<longrightarrow> vault_proof_status v = 1 \<and> \<not> proto_frozen ps \<and> vault_frozen v)
      \<and> (e = ProofExpired \<longrightarrow> vault_proof_status v = 1 \<and> \<not> proto_frozen ps \<and> \<not> vault_frozen v
          \<and> sint (clock_unix_timestamp c) - sint (vault_proof_timestamp v) > 600)"
proof -
  define age where "age = sint (clock_unix_timestamp c) - sint (vault_proof_timestamp v)"
  have age: "- (2 ^ 63) \<le> age"
    using assms(3) sint_lt [of "vault_proof_timestamp v"] by (simp add: age_def)
  note steps = deposit_collateral_def assms(1,2) PROOF_STATUS_VERIFIED_def PROOF_EXPIRY_SECONDS_def
    plain_age_def in_i64_def age_def [symmetric]
  show "(\<exists>L'. execute E c (DepositCollateral k (vault_owner v) n) L = Inr L') \<longleftrightarrow>
      vault_proof_status v = 1 \<and> \<not> proto_frozen ps \<and> \<not> vault_frozen v \<and> 0 < n \<and> age \<le> 600
      \<and> unat (vault_deposited_amount v) + unat n < 2 ^ 64
      \<and> unat (proto_total_collateral_verified ps) + unat n < 2 ^ 128"
    using age by (auto simp: steps demand_def checked_add_eq)
  show "(e = VaultNotVerified \<longrightarrow> vault_proof_status v \<noteq> 1)
      \<and> (e = ProtocolFrozen \<longrightarrow> vault_proof_status v = 1 \<and> proto_frozen ps)
      \<and> (e = VaultFrozen \<longrightarrow> vault_proof_status v = 1 \<and> \<not> proto_frozen ps \<and> vault_frozen v)
      \<and> (e = ProofExpired \<longrightarrow> vault_proof_status v = 1 \<and> \<not> proto_frozen ps \<and> \<not> vault_frozen v \<and> age > 600)"
    if "execute E c (DepositCollateral k (vault_owner v) n) L = Inl (Custom e)"
    using that by (auto simp: steps demand_def checked_add_eq split: if_splits)
qed

text \<open>C5: the gate's answer for a wallet's own vault against the program's, on the same accounts and at the
  same time. The gate always answers, with the evidence of the stored vault when it allows. It never blocks a
  deposit the program accepts. When it allows, the proof is at most 86400 seconds old and a deposit that
  overflows no total is accepted exactly when it is at most 600 seconds old: between the two limits the gate
  promises what the program refuses. The reason it gives is the program's for a frozen protocol and a frozen
  vault; a vault the program calls not verified is pending unless a freeze is reported first; an expired
  proof is reported as expired only after a day.\<close>

theorem gate_agrees_with_deposit:
  assumes "length d1 = 8" "length d2 = 8" "wf_Vault v"
    and "0 \<le> date_now" "date_now < 2 ^ 53"
    and "deriveProtocolStatePda P = Inr (pp, b1)" "deriveVaultPda P (vault_owner v) dwallet = Inr (vp, b2)"
    and "getAccountInfo conn pp = Inr (Some (d1 @ body_ProtocolState ps))"
    and "getAccountInfo conn vp = Inr (Some (d2 @ body_Vault v))"
    and "lg_protocol L = Some ps" "lg_vaults L vp = Some v"
    and "sint (clock_unix_timestamp c) = date_now div 1000"
  shows "\<exists>r. checkLendGuardGate P conn date_now (Some (vault_owner v)) (Inr dwallet) = Inr r
    \<and> (\<forall>n. (\<exists>L'. execute E c (DepositCollateral vp (vault_owner v) n) L = Inr L') \<longrightarrow> gate_reason r = None)
    \<and> (gate_reason r = None \<longrightarrow> date_now div 1000 - sint (vault_proof_timestamp v) \<le> 86400
       \<and> (\<forall>n. 0 < n \<and> unat (vault_deposited_amount v) + unat n < 2 ^ 64
           \<and> unat (proto_total_collateral_verified ps) + unat n < 2 ^ 128 \<longrightarrow>
         ((\<exists>L'. execute E c (DepositCollateral vp (vault_owner v) n) L = Inr L')
           \<longleftrightarrow> date_now div 1000 - sint (vault_proof_timestamp v) \<le> 600)))
    \<and> (\<forall>n e. execute E c (DepositCollateral vp (vault_owner v) n) L = Inl (Custom e) \<longrightarrow>
         (e = ProtocolFrozen \<longrightarrow> gate_reason r = Some PROTOCOL_FROZEN)
       \<and> (e = VaultFrozen \<longrightarrow> gate_reason r = Some VAULT_FROZEN)
       \<and> (e = VaultNotVerified \<longrightarrow> gate_reason r \<in> {Some PROTOCOL_FROZEN, Some VAULT_FROZEN, Some PROOF_PENDING})
       \<and> (e = ProofExpired \<longrightarrow> gate_reason r =
           (if date_now div 1000 - sint (vault_proof_timestamp v) \<le> 86400 then None else Some PROOF_EXPIRED)))
    \<and> (\<forall>a. r = Allowed a \<longrightarrow> ga_vaultPda a = vp
        \<and> ga_depositedLamports a = uint (vault_deposited_amount v)
        \<and> ga_proofTimestamp a = js_number (sint (vault_proof_timestamp v)))"
proof -
  have "0 \<le> sint (clock_unix_timestamp c)" using assms(4,12) by (simp add: pos_imp_zdiv_nonneg_iff)
  note answer = deposit_answer [OF assms(10,11) this, of E, unfolded assms(12)]
  obtain r where r: "checkLendGuardGate P conn date_now (Some (vault_owner v)) (Inr dwallet) = Inr r"
    "gate_reason r = (if proto_frozen ps then Some PROTOCOL_FROZEN
        else if vault_frozen v then Some VAULT_FROZEN
        else if vault_proof_status v \<noteq> 1 then Some PROOF_PENDING
        else if date_now div 1000 - sint (vault_proof_timestamp v) > 86400 then Some PROOF_EXPIRED
        else None)"
    "\<forall>a. r = Allowed a \<longrightarrow> ga_vaultPda a = vp
        \<and> ga_depositedLamports a = uint (vault_deposited_amount v)
        \<and> ga_proofTimestamp a = js_number (sint (vault_proof_timestamp v))"
    using gate_on_stored_accounts [OF assms(1-9)] by blast
  have accepted: "gate_reason r = None" if "\<exists>L'. execute E c (DepositCollateral vp (vault_owner v) n) L = Inr L'" for n
    using that unfolding answer(1) r(2) by simp
  have allowed: "date_now div 1000 - sint (vault_proof_timestamp v) \<le> 86400"
    "\<not> proto_frozen ps" "\<not> vault_frozen v" "vault_proof_status v = 1" if "gate_reason r = None"
    using that unfolding r(2) by (auto split: if_splits)
  have refused: "(e = ProtocolFrozen \<longrightarrow> gate_reason r = Some PROTOCOL_FROZEN)
       \<and> (e = VaultFrozen \<longrightarrow> gate_reason r = Some VAULT_FROZEN)
       \<and> (e = VaultNotVerified \<longrightarrow> gate_reason r \<in> {Some PROTOCOL_FROZEN, Some VAULT_FROZEN, Some PROOF_PENDING})
       \<and> (e = ProofExpired \<longrightarrow> gate_reason r =
           (if date_now div 1000 - sint (vault_proof_timestamp v) \<le> 86400 then None else Some PROOF_EXPIRED))"
    if "execute E c (DepositCollateral vp (vault_owner v) n) L = Inl (Custom e)" for n e
    using answer(2) [OF that] by (simp add: r(2))
  have decides: "(\<exists>L'. execute E c (DepositCollateral vp (vault_owner v) n) L = Inr L')
      \<longleftrightarrow> date_now div 1000 - sint (vault_proof_timestamp v) \<le> 600"
    if "gate_reason r = None" "0 < n" "unat (vault_deposited_amount v) + unat n < 2 ^ 64"
      "unat (proto_total_collateral_verified ps) + unat n < 2 ^ 128" for n
    unfolding answer(1) using allowed(2-4) [OF that(1)] that(2-4) by blast
  show ?thesis
    by (intro exI [of _ r] conjI r(1,3) allI impI) (use accepted allowed(1) refused decides in blast)+
qed

text \<open>A proof of time 1000: at 1500 the program takes the deposit and the gate says so; at 2000 the program
  refuses it as expired and the gate still says yes.\<close>

definition gated :: ledger where
  "gated = demo_start\<lparr>lg_protocol := Some sample_protocol, lg_vaults := [3 \<mapsto> sample_vault]\<rparr>"

definition at_time :: "64 word \<Rightarrow> clock" where
  "at_time t = \<lparr>clock_slot = 5, clock_unix_timestamp = t\<rparr>"

lemma gated_runs:
  "\<exists>L'. execute demo_env (at_time 1500) (DepositCollateral 3 7 1) gated = Inr L'"
  "execute demo_env (at_time 2000) (DepositCollateral 3 7 1) gated = Inl (Custom ProofExpired)"
  by (simp_all add: gated_def at_time_def deposit_collateral_def sample_protocol_def sample_vault_def
      PROOF_STATUS_VERIFIED_def PROOF_EXPIRY_SECONDS_def plain_age_def in_i64_def checked_add_eq demand_def)

lemma gate_agrees_with_deposit_witness:
  "\<exists>r r'. checkLendGuardGate counting_platform sample_connection 1500000 (Some 7) (Inr (replicate 32 1)) = Inr r
     \<and> gate_reason r = None
     \<and> checkLendGuardGate counting_platform sample_connection 2000000 (Some 7) (Inr (replicate 32 1)) = Inr r'
     \<and> gate_reason r' = None"
proof -
  have p: "deriveProtocolStatePda counting_platform = Inr (1, 255)"
    by (simp add: deriveProtocolStatePda_def counting_platform_def)
  have v: "deriveVaultPda counting_platform (vault_owner sample_vault) (replicate 32 1) = Inr (3, 255)"
    by (simp add: deriveVaultPda_def counting_platform_def)
  have wf: "wf_Vault sample_vault" by (simp add: wf_Vault_def sample_vault_def)
  have stored: "getAccountInfo sample_connection 1 = Inr (Some (replicate 8 0 @ body_ProtocolState sample_protocol))"
    "getAccountInfo sample_connection 3 = Inr (Some (replicate 8 0 @ body_Vault sample_vault))"
    "lg_protocol gated = Some sample_protocol" "lg_vaults gated 3 = Some sample_vault"
    by (simp_all add: sample_connection_def gated_def)
  have owner: "vault_owner sample_vault = 7" "vault_proof_timestamp sample_vault = 1000"
    by (simp_all add: sample_vault_def)
  have times: "sint (clock_unix_timestamp (at_time 1500)) = 1500000 div 1000"
    "sint (clock_unix_timestamp (at_time 2000)) = 2000000 div 1000"
    by (simp_all add: at_time_def)
  note law = gate_agrees_with_deposit [OF _ _ wf _ _ p v stored, unfolded owner]
  obtain r where "checkLendGuardGate counting_platform sample_connection 1500000 (Some 7) (Inr (replicate 32 1)) = Inr r"
    "gate_reason r = None"
    using law [OF _ _ _ _ times(1), of demo_env] gated_runs(1) by (auto simp del: execute.simps)
  moreover obtain r' where
    "checkLendGuardGate counting_platform sample_connection 2000000 (Some 7) (Inr (replicate 32 1)) = Inr r'"
    "gate_reason r' = None"
    using law [OF _ _ _ _ times(2), of demo_env] gated_runs(2) by (fastforce simp del: execute.simps)
  ultimately show ?thesis by blast
qed

end
