(* ===== verification/Chain_Placement.thy ===== *)
theory Chain_Placement
  imports Chain_Example
begin

text \<open>
  Every account of the program sits at the address its seeds give: the keys and the bump a handler wrote at
  \<open>init\<close> are those of the derivation it did, and no later handler changes them. Pools, feeds, positions,
  attestations and risk states are stored under their seed, vaults under their address.
\<close>

section \<open>Placement\<close>

definition protocol_at :: "chain_env \<Rightarrow> ProtocolStateAccount \<Rightarrow> bool" where
  "protocol_at E p \<longleftrightarrow> proto_bump p = snd (protocol_state_pda E)"

definition pool_at :: "chain_env \<Rightarrow> pubkey \<Rightarrow> LendingPool \<Rightarrow> bool" where
  "pool_at E mint p \<longleftrightarrow> pool_borrow_asset_mint p = mint \<and> pool_bump p = snd (lending_pool_pda E mint)"

definition feed_at :: "chain_env \<Rightarrow> byte \<Rightarrow> AdminPriceFeed \<Rightarrow> bool" where
  "feed_at E asset f \<longleftrightarrow> feed_asset_type f = asset \<and> feed_bump f = snd (price_feed_pda E asset)"

definition vault_at :: "chain_env \<Rightarrow> pubkey \<Rightarrow> VaultState \<Rightarrow> bool" where
  "vault_at E key v \<longleftrightarrow> vault_vault_id v = key
     \<and> (key, vault_bump v) = vault_pda E (vault_owner v) (vault_dwallet_id v)"

definition risk_at :: "chain_env \<Rightarrow> pubkey \<Rightarrow> RiskStateAccount \<Rightarrow> bool" where
  "risk_at E vault r \<longleftrightarrow> risk_vault_id r = vault \<and> risk_bump r = snd (risk_state_pda E vault)"

definition position_at :: "chain_env \<Rightarrow> pubkey \<Rightarrow> BorrowPosition \<Rightarrow> bool" where
  "position_at E vault p \<longleftrightarrow> pos_vault p = vault \<and> pos_bump p = snd (borrow_position_pda E vault)"

definition btc_position_at :: "chain_env \<Rightarrow> pubkey \<Rightarrow> BorrowPosition \<Rightarrow> bool" where
  "btc_position_at E vault p \<longleftrightarrow> pos_vault p = vault \<and> pos_bump p = snd (btc_borrow_position_pda E vault)"

definition btc_vault_at :: "chain_env \<Rightarrow> pubkey \<Rightarrow> BtcVaultState \<Rightarrow> bool" where
  "btc_vault_at E key v \<longleftrightarrow> btc_vault_id v = key
     \<and> (key, btc_bump v) = btc_vault_pda E (btc_owner v) (btc_ika_dwallet v)"

definition attestation_at :: "chain_env \<Rightarrow> pubkey \<Rightarrow> BitcoinBalanceAttestation \<Rightarrow> bool" where
  "attestation_at E vault a \<longleftrightarrow> att_btc_vault a = vault \<and> att_bump a = snd (btc_attestation_pda E vault)"

definition placed :: "chain_env \<Rightarrow> ledger \<Rightarrow> bool" where
  "placed E L \<longleftrightarrow> (\<forall>p. lg_protocol L = Some p \<longrightarrow> protocol_at E p)
     \<and> everywhere (pool_at E) (lg_pools L) \<and> everywhere (feed_at E) (lg_feeds L)
     \<and> everywhere (vault_at E) (lg_vaults L) \<and> everywhere (risk_at E) (lg_risks L)
     \<and> everywhere (position_at E) (lg_positions L) \<and> everywhere (btc_vault_at E) (lg_btc_vaults L)
     \<and> everywhere (attestation_at E) (lg_attestations L)
     \<and> everywhere (btc_position_at E) (lg_btc_positions L)"

lemmas places = protocol_at_def pool_at_def feed_at_def vault_at_def risk_at_def position_at_def
  btc_position_at_def btc_vault_at_def attestation_at_def

section \<open>It is kept\<close>

lemma everywhere_at:
  "everywhere P m \<Longrightarrow> everywhere P (m(k \<mapsto> y)) = P k y" "everywhere P m \<Longrightarrow> everywhere P (m(k := None))"
  by (auto simp: everywhere_def)

lemma custody_keeps_place:
  "verify_custody_proof v s k d dw now = Done v' \<Longrightarrow> vault_at E key v' = vault_at E key v"
  "refresh_custody_proof v s k d dw now = Done v' \<Longrightarrow> vault_at E key v' = vault_at E key v"
  by (auto simp: verify_custody_proof_def refresh_custody_proof_def Let_def vault_at_def
      split: if_splits outcome.splits)

lemma accrue_keeps_place:
  "accrue_interest pool slot = Inr pool' \<Longrightarrow> pool_at E mint (pool'\<lparr>pool_total_borrowed := n\<rparr>) = pool_at E mint pool"
  by (erule accrue_interest_cases) (simp add: pool_at_def)

lemma placedD:
  assumes "placed E L"
  shows "lg_protocol L = Some p \<Longrightarrow> protocol_at E p" "lg_pools L k = Some pool \<Longrightarrow> pool_at E k pool"
    "lg_vaults L k = Some v \<Longrightarrow> vault_at E k v" "lg_positions L k = Some pos \<Longrightarrow> position_at E k pos"
    "lg_btc_vaults L k = Some bv \<Longrightarrow> btc_vault_at E k bv"
    "lg_attestations L k = Some att \<Longrightarrow> attestation_at E k att"
    "lg_btc_positions L k = Some bp \<Longrightarrow> btc_position_at E k bp"
    "lg_feeds L asset = Some feed \<Longrightarrow> feed_at E asset feed" "lg_risks L k = Some risk \<Longrightarrow> risk_at E k risk"
  using assms by (auto simp: placed_def dest: everywhereD)

lemma position_after_at:
  assumes "everywhere P m" "P v position"
    and "\<And>n t i. P v (position\<lparr>pos_principal := n, pos_last_updated_at := t,
         pos_borrow_index_snapshot := i\<rparr>) = P v position"
  shows "everywhere P (m(v := position_after position part c pool))"
  using assms by (simp add: position_after_def everywhere_at)

lemma borrow_placed:
  assumes I: "placed E L" and x: "borrow_against_collateral E c v mint ptk btk owner amount ct L = Inr L'"
  shows "placed E L'"
  using x
proof (cases rule: borrow_effect)
  case (1 vault protocol pool feed borrower lams limit pool' debt scaled tot toks)
  show ?thesis
    using I placedD(2) [OF I 1(3)] unfolding 1(27) placed_def
    by (simp add: everywhere_at accrue_keeps_place [OF 1(20)] position_at_def)
qed

lemma borrow_btc_placed:
  assumes I: "placed E L" and x: "borrow_against_btc_collateral E c v mint ptk btk owner amount ct L = Inr L'"
  shows "placed E L'"
  using x
proof (cases rule: borrow_btc_effect)
  case (1 vault protocol pool feed att borrower lams limit pool' debt scaled tot toks)
  show ?thesis
    using I placedD(2) [OF I 1(3)] unfolding 1(30) placed_def
    by (simp add: everywhere_at accrue_keeps_place [OF 1(23)] btc_position_at_def)
qed

lemma repay_placed:
  assumes I: "placed E L" and x: "repay_borrow E c v mint ptk btk owner amount L = Inr L'"
  shows "placed E L'"
  using x
proof (cases rule: repay_effect)
  case (1 pool position pool' debt actual part toks tot lams)
  have "everywhere (position_at E) ((lg_positions L)(v := position_after position part c pool'))"
    using I placedD(4) [OF I 1(2)] by (intro position_after_at) (simp_all add: placed_def position_at_def)
  then show ?thesis
    using I placedD(2) [OF I 1(1)] unfolding 1(17) placed_def
    by (simp add: everywhere_at accrue_keeps_place [OF 1(7)])
qed

lemma repay_btc_placed:
  assumes I: "placed E L" and x: "repay_btc_borrow E c v mint ptk btk owner amount L = Inr L'"
  shows "placed E L'"
  using x
proof (cases rule: repay_btc_effect)
  case (1 pool position borrower pool' debt actual part toks tot lams)
  have "everywhere (btc_position_at E) ((lg_btc_positions L)(v := position_after position part c pool'))"
    using I placedD(7) [OF I 1(2)] by (intro position_after_at) (simp_all add: placed_def btc_position_at_def)
  then show ?thesis
    using I placedD(2) [OF I 1(1)] unfolding 1(17) placed_def
    by (simp add: everywhere_at accrue_keeps_place [OF 1(7)])
qed

lemma liquidate_placed:
  assumes I: "placed E L" and x: "liquidate_position E c v mint ptk ltk liquidator L = Inr L'"
  shows "placed E L'"
  using x
proof (cases rule: liquidate_effect)
  case (1 vault protocol pool feed position pool' debt toks seizable movable seized tot lams)
  show ?thesis
    using I placedD(1) [OF I 1(2)] placedD(2) [OF I 1(3)] placedD(3) [OF I 1(1)] unfolding 1(19) placed_def
    by (simp add: everywhere_at accrue_keeps_place [OF 1(9)] vault_at_def protocol_at_def)
qed

lemma liquidate_btc_placed:
  assumes I: "placed E L"
    and x: "liquidate_btc_position E c v mint ptk ltk dw appr liquidator digest md user bump L = Inr L'"
  shows "placed E L'"
  using x
proof (cases rule: liquidate_btc_effect)
  case (1 vault protocol pool feed att position pool' debt toks data seized tot)
  show ?thesis
    using I placedD(2) [OF I 1(3)] placedD(5) [OF I 1(1)] placedD(7) [OF I 1(6)] unfolding 1(19) placed_def
    by (simp add: everywhere_at accrue_keeps_place [OF 1(12)] btc_vault_at_def btc_position_at_def)
qed

lemma finalize_placed:
  assumes I: "placed E L" and x: "finalize_btc_liquidation E c v keeper height conf left L = Inr L'"
  shows "placed E L'"
  using x
proof (cases rule: finalize_effect)
  case (1 vault att position protocol lams)
  show ?thesis
    using I placedD(5) [OF I 1(1)] placedD(6) [OF I 1(2)] unfolding 1(9) placed_def
    by (simp add: everywhere_at btc_vault_at_def attestation_at_def)
qed

lemma register_btc_placed:
  assumes I: "placed E L" and x: "register_btc_vault E owner dw dwkey addr L = Inr L'"
  shows "placed E L'"
  using x
proof (cases rule: register_btc_effect)
  case (1 key protocol lams tot)
  show ?thesis
    using I placedD(1) [OF I 1(2)] unfolding 1(7) placed_def
    by (simp add: everywhere_at btc_vault_at_def attestation_at_def protocol_at_def new_btc_vault_def
        new_attestation_def 1(1))
qed

lemma feed_placed:
  assumes I: "placed E L"
  shows "initialize_lending_pool E c m pv ad asset liq price ltv thr bonus base slope L = Inr L' \<Longrightarrow> placed E L'"
    and "update_admin_price c ad asset price L = Inr L' \<Longrightarrow> placed E L'"
    and "close_admin_price_feed E ad asset L = Inr L' \<Longrightarrow> placed E L'"
    and "initialize_admin_price_feed E c ad asset price L = Inr L' \<Longrightarrow> placed E L'"
  subgoal using I by (auto simp: initialize_lending_pool_def run_success_env placed_def everywhere_at pool_at_def feed_at_def)
  subgoal using I by (auto simp: update_admin_price_def run_success_env placed_def everywhere_at feed_at_def
        dest!: placedD(8) [OF I])
  subgoal using I by (auto simp: close_admin_price_feed_def run_success_env placed_def everywhere_at)
  subgoal using I by (auto simp: initialize_admin_price_feed_def run_success_env placed_def everywhere_at feed_at_def)
  done

lemma on_vault_placed:
  assumes "placed E L" "on_vault f v L = Inr L'"
    and "\<And>vault vault'. f vault = Inr vault' \<Longrightarrow> vault_at E v vault' = vault_at E v vault"
  shows "placed E L'"
  using assms(1,2)
  by (auto simp: on_vault_def run_success placed_def everywhere_at assms(3) dest: everywhereD)

lemma totals_placed:
  assumes "placed E L" "lg_protocol L = Some p" "proto_bump p' = proto_bump p"
    and "lg_vaults L v = Some vault" "vault_at E v vault' = vault_at E v vault"
  shows "placed E (L\<lparr>lg_protocol := Some p'\<rparr>)"
    and "placed E (L\<lparr>lg_vaults := (lg_vaults L)(v \<mapsto> vault'), lg_protocol := Some p'\<rparr>)"
    and "placed E (L\<lparr>lg_vaults := (lg_vaults L)(v \<mapsto> vault')\<rparr>)"
  using assms(1,3,5) placedD(1) [OF assms(1,2)] placedD(3) [OF assms(1,4)]
  by (simp_all add: placed_def everywhere_at protocol_at_def)

lemma vault_placed:
  assumes I: "placed E L"
  shows "initialize_protocol E ad L = Inr L' \<Longrightarrow> placed E L'"
    and "register_vault E owner dwallet asset L = Inr L' \<Longrightarrow> placed E L'"
    and "run_verify_custody_proof c v appr signer dwallet L = Inr L' \<Longrightarrow> placed E L'"
    and "run_refresh_custody_proof c v appr signer dwallet L = Inr L' \<Longrightarrow> placed E L'"
    and "approve_custody_signature E v dw appr owner dg md user scheme bump L = Inr L' \<Longrightarrow> placed E L'"
  subgoal using I by (auto simp: initialize_protocol_def run_success_env placed_def protocol_at_def)
  subgoal using I by (auto simp: register_vault_def run_success_env Let_def placed_def everywhere_at
        protocol_at_def vault_at_def)
  subgoal unfolding run_verify_custody_proof_def
    by (erule on_vault_placed [OF I]) (auto simp: of_outcome_Inr custody_keeps_place)
  subgoal unfolding run_refresh_custody_proof_def
    by (erule on_vault_placed [OF I]) (auto simp: of_outcome_Inr custody_keeps_place)
  subgoal using I by (auto simp: approve_custody_signature_def run_success_env placed_def split: if_splits)
  done

lemma deposit_placed:
  assumes I: "placed E L"
  shows "deposit_collateral c v depositor n L = Inr L' \<Longrightarrow> placed E L'"
    and "withdraw_collateral v depositor n L = Inr L' \<Longrightarrow> placed E L'"
    and "reject_unverified_deposit v depositor L = Inr L' \<Longrightarrow> placed E L'"
    and "close_vault E v owner L = Inr L' \<Longrightarrow> placed E L'"
    and "circuit_breaker_freeze v caller L = Inr L' \<Longrightarrow> placed E L'"
    and "admin_unfreeze v caller L = Inr L' \<Longrightarrow> placed E L'"
    and "unfreeze_protocol_state L = Inr L' \<Longrightarrow> placed E L'"
  subgoal using I by (elim deposit_effect) (auto simp: vault_at_def intro: totals_placed)
  subgoal using I by (elim withdraw_effect) (auto simp: vault_at_def intro: totals_placed)
  subgoal by (auto simp: reject_unverified_deposit_def run_success split: if_splits intro!: totals_placed [OF I])
  subgoal using I by (auto simp: close_vault_def run_success placed_def everywhere_at)
  subgoal by (auto simp: circuit_breaker_freeze_def run_success vault_at_def intro!: totals_placed [OF I])
  subgoal by (auto simp: admin_unfreeze_def run_success vault_at_def intro!: totals_placed [OF I])
  subgoal using I by (auto simp: unfreeze_protocol_state_def run_success placed_def protocol_at_def)
  done

lemma risk_placed:
  assumes I: "placed E L"
  shows "initialize_risk_state E v owner threshold L = Inr L' \<Longrightarrow> placed E L'"
    and "update_backing_state v backing oracle L = Inr L' \<Longrightarrow> placed E L'"
    and "trigger_risk_check c v backing threshold res payer L = Inr L' \<Longrightarrow> placed E L'"
    and "run_demo_create_message_approval E c payer dwallet sg L = Inr L' \<Longrightarrow> placed E L'"
    and "demo_create_ciphertext E payer label b L = Inr L' \<Longrightarrow> placed E L'"
  subgoal using I by (auto simp: initialize_risk_state_def run_success_env placed_def everywhere_at risk_at_def)
  subgoal using I by (auto simp: update_backing_state_def run_success placed_def everywhere_at risk_at_def
        dest!: placedD(9) [OF I])
  subgoal using I by (auto simp: trigger_risk_check_def run_success placed_def everywhere_at risk_at_def
        vault_at_def protocol_at_def dest!: placedD(3,9) [OF I] split: if_splits)
  subgoal using I by (auto simp: run_demo_create_message_approval_def run_success_env Let_def placed_def)
  subgoal using I by (auto simp: demo_create_ciphertext_def run_success_env Let_def placed_def)
  done

lemma btc_vault_placed:
  assumes I: "placed E L"
  shows "attest_btc_balance c v keeper sats height h L = Inr L' \<Longrightarrow> placed E L'"
    and "verify_btc_custody_proof c v appr owner L = Inr L' \<Longrightarrow> placed E L'"
    and "refresh_btc_custody_proof c v appr owner L = Inr L' \<Longrightarrow> placed E L'"
  subgoal using I by (auto simp: attest_btc_balance_def run_success placed_def everywhere_at btc_vault_at_def
        attestation_at_def dest!: placedD(5,6) [OF I])
  subgoal using I by (auto simp: verify_btc_custody_proof_def run_success placed_def everywhere_at btc_vault_at_def
        dest!: placedD(5) [OF I])
  subgoal using I by (auto simp: refresh_btc_custody_proof_def run_success placed_def everywhere_at btc_vault_at_def
        dest!: placedD(5) [OF I])
  done

lemma placed_step:
  assumes "placed E L" "execute E c ix L = Inr L'"
  shows "placed E L'"
  using assms
  by (cases ix) (auto intro: vault_placed deposit_placed risk_placed feed_placed btc_vault_placed
      borrow_placed borrow_btc_placed repay_placed repay_btc_placed liquidate_placed liquidate_btc_placed
      finalize_placed register_btc_placed)

interpretation placement: ledger_invariant E "placed E" for E
proof
  show "placed E L \<Longrightarrow> execute E c ix L = Inr L' \<Longrightarrow> placed E L'" for L c ix L'
    by (rule placed_step)
qed (simp_all add: no_program_accounts_def placed_def)

text \<open>C13: In every ledger that can be reached the fields of the accounts have their meaning and every account
  sits where its seeds say. A pool's terms passed validation and its index is at least one, a price is
  positive, an asset is one of the three, a proof is pending or verified, a Bitcoin vault comes with an
  attestation for its own address, and no vault is without a protocol account. The protocol account, the
  pools, feeds, vaults, risk states, positions, attestations and Bitcoin vaults name the account they belong
  to and carry the bump of their derivation, a vault is stored at the address of its owner and its dWallet,
  and the protocol's total of verified collateral covers the deposits of all vaults.\<close>

theorem ledger_always_typed:
  assumes "reachable E L"
  shows "ledger_typed L \<and> placed E L \<and> collateral_covered L"
  using typed.always [OF assms] placement.always [OF assms] covered.always [OF assms] by blast

lemma ledger_always_typed_witness: "ledger_typed (demo_both no_lamports) \<and> placed demo_env (demo_both no_lamports)"
  using ledger_always_typed [OF demo_both_reachable] by blast

end
