(* ===== verification/Lend_Reports.thy ===== *)
theory Lend_Reports
  imports Lend_Safety
begin

text \<open>
  What the lending page reports: a transaction id that a handler of \<open>web/app/lend/page.tsx\<close> writes to the log
  or records as an event is one the RPC returned for a transaction of that very action.
\<close>

section \<open>Announced and submitted transactions\<close>

text \<open>The transaction id a write shows in the log, or hands to the event record.\<close>

fun announced :: "lend_write \<Rightarrow> jstext option" where
  "announced (AddLog e) = log_tx e"
| "announced (StartTorque i) =
     (case map_of (ti_data i) (ascii ''tx'') of Some (Some (JText t)) \<Rightarrow> Some t | _ \<Rightarrow> None)"
| "announced _ = None"

text \<open>Since \<open>h0\<close> the wallet signed a transaction, the RPC took it and returned this id, and its confirmation was
  awaited.\<close>

definition submitted :: "services \<Rightarrow> history \<Rightarrow> jstext \<Rightarrow> history \<Rightarrow> bool" where
  "submitted S h0 sig h \<longleftrightarrow>
     (\<exists>k tx signed raw bh n rest.
        h = h0 @ k @ [SignTransaction tx, SendRawTransaction raw, ConfirmTransaction sig bh n] @ rest
        \<and> wallet_signTransaction S (h0 @ k) tx = Inr signed \<and> transaction_serialize S signed = Inr raw
        \<and> rpc_sendRawTransaction S (h0 @ k @ [SignTransaction tx]) raw = Inr sig)"

lemma submitted_later: "submitted S h0 sig h \<Longrightarrow> submitted S h0 sig (h @ k)"
  unfolding submitted_def by (elim exE conjE) (intro exI conjI, simp, assumption+)

lemma all_submitted_later:
  assumes "\<forall>sig \<in> G. submitted S h0 sig (h0 @ j)" "h' = h0 @ j @ k"
  shows "\<forall>sig \<in> G. submitted S h0 sig h'"
  using assms submitted_later [of S h0 _ "h0 @ j" k] by simp

lemma sendIx_submits:
  assumes "sendIx S ix payer (h0 @ j) = (Inr sig, h')"
  shows "submitted S h0 sig h'"
proof -
  obtain pre tx signed raw bh n k where
    s: "pre = h0 @ j @ k" "wallet_signTransaction S pre tx = Inr signed"
      "transaction_serialize S signed = Inr raw"
      "rpc_sendRawTransaction S (pre @ [SignTransaction tx]) raw = Inr sig"
      "h' = pre @ [SignTransaction tx, SendRawTransaction raw, ConfirmTransaction sig bh n]"
    using sendIx_success [OF assms] by (elim exE conjE disjE) (simp add: that)+
  then show ?thesis
    unfolding submitted_def
    by (intro exI [of _ "j @ k"] exI [of _ tx] exI [of _ signed] exI [of _ raw] exI [of _ bh] exI [of _ n]
        exI [of _ "[]"]) simp
qed

section \<open>Rules\<close>

text \<open>Started after \<open>h0\<close>, when the ids in \<open>G\<close> have been submitted since, the computation announces only
  submitted ids.\<close>

definition reports :: "services \<Rightarrow> history \<Rightarrow> jstext set \<Rightarrow> (lend_write, 'a) page \<Rightarrow> bool" where
  "reports S h0 G m \<longleftrightarrow>
     (\<forall>j r h' ws. (\<forall>sig \<in> G. submitted S h0 sig (h0 @ j)) \<longrightarrow> m (h0 @ j) = (r, h', ws) \<longrightarrow>
        (\<exists>k. h' = h0 @ j @ k) \<and> (\<forall>w \<in> set ws. \<forall>sig. announced w = Some sig \<longrightarrow> submitted S h0 sig h'))"

lemma reportsD:
  assumes "reports S h0 G m" "\<forall>sig \<in> G. submitted S h0 sig (h0 @ j)" "m (h0 @ j) = (r, h', ws)"
  obtains k where "h' = h0 @ j @ k" "\<And>w sig. w \<in> set ws \<Longrightarrow> announced w = Some sig \<Longrightarrow> submitted S h0 sig h'"
proof -
  note spec = assms(1) [unfolded reports_def, THEN spec [of _ j], THEN spec [of _ r], THEN spec [of _ h'],
    THEN spec [of _ ws], THEN mp [OF _ assms(2)], THEN mp [OF _ assms(3)]]
  from spec obtain k where "h' = h0 @ j @ k" by (elim conjE exE)
  then show ?thesis by (rule that) (use spec in simp)
qed

named_theorems reports_intros

definition silent :: "lend_write \<Rightarrow> bool" where
  "silent w \<longleftrightarrow> announced w = None"

abbreviation any_request :: "request \<Rightarrow> bool" where
  "any_request \<equiv> asks (\<lambda>_. True)"

lemma reports_silent: "keeps any_request silent m \<Longrightarrow> reports S h0 G m"
proof -
  assume m: "keeps any_request silent m"
  show "reports S h0 G m"
    unfolding reports_def
  proof (intro allI impI)
    fix j r h' ws assume "m (h0 @ j) = (r, h', ws)"
    from keepsD [OF m this] show "(\<exists>k. h' = h0 @ j @ k)
        \<and> (\<forall>w \<in> set ws. \<forall>sig. announced w = Some sig \<longrightarrow> submitted S h0 sig h')"
      by (auto simp: list_all_iff silent_def)
  qed
qed

lemma reports_put [reports_intros]:
  "(\<And>w sig. w \<in> set ws \<Longrightarrow> announced w = Some sig \<Longrightarrow> sig \<in> G) \<Longrightarrow> reports S h0 G (put ws)"
  by (auto simp: reports_def)

lemma reports_bind_run:
  assumes m: "reports S h0 G m"
    and f: "\<And>j x h' ws. m (h0 @ j) = (Inr x, h', ws) \<Longrightarrow> \<forall>sig \<in> G. submitted S h0 sig (h0 @ j)
      \<Longrightarrow> \<exists>G'. (\<forall>sig \<in> G'. submitted S h0 sig h') \<and> reports S h0 G' (f x)"
  shows "reports S h0 G (pg_bind m f)"
  unfolding reports_def
proof (intro allI impI)
  fix j r h' ws
  assume G: "\<forall>sig \<in> G. submitted S h0 sig (h0 @ j)" and run: "pg_bind m f (h0 @ j) = (r, h', ws)"
  obtain q h1 ws1 where q: "m (h0 @ j) = (q, h1, ws1)" by (metis prod_cases3)
  obtain k where k: "h1 = h0 @ j @ k" "\<And>w sig. w \<in> set ws1 \<Longrightarrow> announced w = Some sig \<Longrightarrow> submitted S h0 sig h1"
    by (rule reportsD [OF m G q]) (rule that, assumption+)
  show "(\<exists>k. h' = h0 @ j @ k) \<and> (\<forall>w \<in> set ws. \<forall>sig. announced w = Some sig \<longrightarrow> submitted S h0 sig h')"
  proof (cases q)
    case (Inl e)
    then show ?thesis using run q k by (auto simp: pg_bind_def)
  next
    case (Inr x)
    obtain r2 h2 ws2 where x: "f x h1 = (r2, h2, ws2)" by (metis prod_cases3)
    obtain G' where G': "\<forall>sig \<in> G'. submitted S h0 sig (h0 @ (j @ k))" "reports S h0 G' (f x)"
      using f [OF _ G] q Inr k(1) by force
    have x': "f x (h0 @ (j @ k)) = (r2, h2, ws2)" using x k(1) by simp
    obtain l where l: "h2 = h0 @ (j @ k) @ l"
      "\<And>w sig. w \<in> set ws2 \<Longrightarrow> announced w = Some sig \<Longrightarrow> submitted S h0 sig h2"
      by (rule reportsD [OF G'(2,1) x']) (rule that, assumption+)
    have res: "r = r2" "h' = h2" "ws = ws1 @ ws2" using run q Inr x by (simp_all add: pg_bind_def)
    have "submitted S h0 sig h2" if "w \<in> set ws1" "announced w = Some sig" for w sig
      using submitted_later [OF k(2) [OF that], of l] k(1) l(1) by simp
    then show ?thesis using l res by auto
  qed
qed

lemma reports_bind [reports_intros]:
  assumes "reports S h0 G m" "\<And>x. reports S h0 G (f x)"
  shows "reports S h0 G (pg_bind m f)"
proof (rule reports_bind_run [OF assms(1)])
  fix j x h' ws assume run: "m (h0 @ j) = (Inr x, h', ws)" and G: "\<forall>sig \<in> G. submitted S h0 sig (h0 @ j)"
  obtain k where "h' = h0 @ j @ k" by (rule reportsD [OF assms(1) G run])
  then have "\<forall>sig \<in> G. submitted S h0 sig h'" by (rule all_submitted_later [OF G])
  then show "\<exists>G'. (\<forall>sig \<in> G'. submitted S h0 sig h') \<and> reports S h0 G' (f x)" using assms(2) by blast
qed

text \<open>After a transaction was sent its id may be announced.\<close>

lemma reports_send [reports_intros]:
  assumes "\<And>sig. reports S h0 (insert sig G) (f sig)"
  shows "reports S h0 G (pg_bind (send S ix payer) f)"
proof (rule reports_bind_run)
  have keeps: "keeps any_request silent (send S ix payer)"
    unfolding send_def by (intro keeps_intros grows_sendIx) simp
  show quiet: "reports S h0 G (send S ix payer)" by (rule reports_silent [OF keeps])
  fix j sig h' ws
  assume run: "send S ix payer (h0 @ j) = (Inr sig, h', ws)" and G: "\<forall>sig \<in> G. submitted S h0 sig (h0 @ j)"
  obtain k where "h' = h0 @ j @ k" by (rule reportsD [OF quiet G run])
  then have "\<forall>sig \<in> G. submitted S h0 sig h'" by (rule all_submitted_later [OF G])
  moreover have "submitted S h0 sig h'"
    using run by (intro sendIx_submits [of S ix payer h0 j]) (simp add: send_def pg_io_def split: prod.splits)
  ultimately have "\<forall>s \<in> insert sig G. submitted S h0 s h'" by blast
  then show "\<exists>G'. (\<forall>sig \<in> G'. submitted S h0 sig h') \<and> reports S h0 G' (f sig)" using assms by blast
qed

lemma reports_catch_silent:
  assumes m: "reports S h0 G m" and k: "\<And>e. keeps any_request silent (f e)"
  shows "reports S h0 G (pg_catch m f)"
  unfolding reports_def
proof (intro allI impI)
  fix j r h' ws
  assume G: "\<forall>sig \<in> G. submitted S h0 sig (h0 @ j)" and run: "pg_catch m f (h0 @ j) = (r, h', ws)"
  obtain q h1 ws1 where q: "m (h0 @ j) = (q, h1, ws1)" by (metis prod_cases3)
  obtain i where i: "h1 = h0 @ j @ i" "\<And>w sig. w \<in> set ws1 \<Longrightarrow> announced w = Some sig \<Longrightarrow> submitted S h0 sig h1"
    by (rule reportsD [OF m G q]) (rule that, assumption+)
  show "(\<exists>k. h' = h0 @ j @ k) \<and> (\<forall>w \<in> set ws. \<forall>sig. announced w = Some sig \<longrightarrow> submitted S h0 sig h')"
  proof (cases q)
    case (Inr x)
    then show ?thesis using run q i by (auto simp: pg_catch_def)
  next
    case (Inl e)
    obtain r2 h2 ws2 where x: "f e h1 = (r2, h2, ws2)" by (metis prod_cases3)
    obtain l where l: "h2 = h1 @ l" "list_all silent ws2" using keepsD [OF k x] by blast
    have res: "h' = h2" "ws = ws1 @ ws2" using run q Inl x by (simp_all add: pg_catch_def)
    have "submitted S h0 sig h2" if "w \<in> set ws" "announced w = Some sig" for w sig
      using that res(2) l(2) submitted_later [OF i(2), of w sig l]
      by (auto simp: l(1) list_all_iff silent_def)
    then show ?thesis using i(1) l(1) res(1) by simp
  qed
qed

lemma reports_finally:
  "reports S h0 G m \<Longrightarrow> list_all silent final \<Longrightarrow> reports S h0 G (pg_finally m final)"
  by (fastforce simp: reports_def pg_finally_def list_all_iff silent_def split: prod.splits)

lemma silent_simps [simp]:
  "silent (entry st m None acc)" "silent (SetRunning b)" "announced (entry st m tx acc) = tx"
  by (simp_all add: silent_def entry_def)

lemma reports_action [reports_intros]: "reports S h0 G body \<Longrightarrow> reports S h0 G (lend_action S' body)"
  unfolding lend_action_def page_action_def
  by (intro reports_bind reports_finally reports_catch_silent reports_silent [OF keeps_put] keeps_put) simp_all

lemma reports_with_wallet [reports_intros]:
  "(\<And>owner. reports S h0 G (f owner)) \<Longrightarrow> reports S h0 G (with_wallet E f)"
  by (auto simp: with_wallet_def intro: reports_silent keeps_pure split: option.split)

lemma reports_pure [reports_intros]:
  "reports S h0 G (pg_return x)" "reports S h0 G (pg_throw e)" "reports S h0 G (pg_of r)"
  by (intro reports_silent keeps_pure)+

section \<open>The parts of the handlers that announce nothing\<close>

lemma silent_parts:
  "keeps any_request silent (refresh P S E)" "keeps any_request silent (refreshBtcVault P S c t)"
  "keeps any_request silent (encrypt_health P S a v pool feed)"
  "keeps any_request silent (ata_instructions P S owner ata)"
  "keeps any_request silent (pg_io (tip_height S))" "keeps any_request silent (put [StartBalanceRefresh owner])"
proof -
  show "keeps any_request silent (refresh P S E)"
    unfolding refresh_def Let_def
    by (auto intro!: keeps_intros grows_read_accounts grows_try simp: silent_def split: prod.split option.split)
  show "keeps any_request silent (refreshBtcVault P S c t)"
    unfolding refreshBtcVault_def
    by (auto intro!: keeps_intros grows_read_accounts simp: silent_def split: option.split)
  show "keeps any_request silent (encrypt_health P S a v pool feed)"
    unfolding encrypt_health_def Let_def
    by (auto intro!: keeps_intros grows_createEncryptInputs split: list.split)
  show "keeps any_request silent (ata_instructions P S owner ata)"
    unfolding ata_instructions_def
    by (auto intro!: keeps_intros grows_read_accounts split: prod.split)
  show "keeps any_request silent (pg_io (tip_height S))"
    unfolding tip_height_def by (auto intro!: keeps_intros grows_intros)
  show "keeps any_request silent (put [StartBalanceRefresh owner])"
    by (intro keeps_intros) (simp add: silent_def)
qed

lemmas reports_parts = silent_parts [THEN reports_silent]

section \<open>The handlers\<close>

lemma ascii_eq_iff: "ascii a = ascii b \<longleftrightarrow> a = b"
proof -
  have "inj (of_char :: char \<Rightarrow> nat)" by (rule injI) simp
  then show ?thesis by (simp add: ascii_def inj_map_eq_map)
qed

lemma field_parts [simp]: "fst (field k t) = ascii k" "snd (field k t) = Some (JText t)"
  by (simp_all add: field_def)

lemma event_member: "w \<in> set (recordTorque E n d) \<longleftrightarrow> (\<exists>owner. we_owner E = Some owner
    \<and> w = StartTorque \<lparr>ti_eventName = ascii n, ti_userPubkey = to_base58 owner, ti_data = d\<rparr>)"
  by (auto simp: recordTorque_def split: option.splits)

lemmas written = event_member ascii_eq_iff

lemma reports_split [reports_intros]: "(\<And>a b. reports S h0 G (f a b)) \<Longrightarrow> reports S h0 G (case p of (a, b) \<Rightarrow> f a b)"
  by (cases p) simp

lemma handlers_report:
  "reports S h0 {} (setPrice P S E x)" "reports S h0 {} (unfreeze P S E)" "reports S h0 {} (borrow P S E c)"
  "reports S h0 {} (repay P S E c all)" "reports S h0 {} (liquidate P S E c t)" "reports S h0 {} (registerBtcVault P S E c)"
  "reports S h0 {} (verifyBtcVault P S E c)" "reports S h0 {} (refresh_proof P S E c)"
  "reports S h0 {} (borrowBtc P S E c)" "reports S h0 {} (repayBtc P S E c all)"
  "reports S h0 {} (inject_attestation P S E c)"
  subgoal unfolding setPrice_def by (auto intro!: reports_intros reports_parts)
  subgoal unfolding unfreeze_def by (auto intro!: reports_intros reports_parts)
  subgoal unfolding borrow_def borrow_body_def
    by (auto intro!: reports_intros reports_parts simp: written split: option.split)
  subgoal unfolding repay_def repay_body_def
    by (auto intro!: reports_intros reports_parts simp: written split: option.split)
  subgoal unfolding liquidate_def liquidate_body_def
    by (auto intro!: reports_intros reports_parts simp: written split: option.split)
  subgoal unfolding registerBtcVault_def
    by (auto intro!: reports_intros reports_parts simp: written)
  subgoal unfolding verifyBtcVault_def
    by (auto intro!: reports_intros reports_parts simp: written split: option.split)
  subgoal unfolding refresh_proof_def
    by (auto intro!: reports_intros reports_parts simp: written split: option.split)
  subgoal unfolding borrowBtc_def borrowBtc_body_def
    by (auto intro!: reports_intros reports_parts simp: written split: option.split)
  subgoal unfolding repayBtc_def repayBtc_body_def
    by (auto intro!: reports_intros reports_parts simp: written split: option.split)
  subgoal unfolding inject_attestation_def Let_def
    by (auto intro!: reports_intros reports_parts simp: written split: option.split)
  done

text \<open>C34: no handler that sends a transaction invents one. Whatever fails, a transaction id the handler writes to
  the log or records as an event was returned by the RPC for a transaction the wallet signed in this very
  action, and was handed to the confirmation, all before the handler ended.\<close>

theorem reported_transactions_submitted:
  assumes "m \<in> {setPrice P S E x, unfreeze P S E, borrow P S E c, repay P S E c all,
      liquidate P S E c t, registerBtcVault P S E c, verifyBtcVault P S E c, refresh_proof P S E c,
      borrowBtc P S E c, repayBtc P S E c all, inject_attestation P S E c}"
    and "m h = (r, h', ws)" "w \<in> set ws" "announced w = Some sig"
  shows "submitted S h sig h'"
proof -
  have "reports S h {} m" using assms(1) handlers_report by (elim insertE emptyE) simp_all
  moreover have "m (h @ []) = (r, h', ws)" using assms(2) by simp
  ultimately show ?thesis using assms(3,4) by (elim reportsD [where j = "[]"]) auto
qed

lemma reported_transactions_submitted_witness:
  "\<exists>h' ws w. unfreeze flat_platform demo_services demo_wallet [] = (Inr (), h', ws) \<and> w \<in> set ws
     \<and> announced w = Some [50] \<and> submitted demo_services [] [50] h'"
proof -
  obtain ix where ix: "buildUnfreezeProtocolStateIx flat_platform 7 = Inr ix"
    by (simp add: buildUnfreezeProtocolStateIx_def deriveProtocolStatePda_def flat_platform_def Let_def)
  have "\<exists>h'. sendIx demo_services (Inl ix) 7 [] = (Inr [50], h')"
    by (simp add: sendIx_def demo_services_def io_bind_def preflight_def io_catch_def Let_def)
  then obtain h1 where send: "sendIx demo_services (Inl ix) 7 [] = (Inr [50], h1)" by blast
  obtain r h2 ws where fresh: "refresh flat_platform demo_services demo_wallet h1 = (r, h2, ws)"
    by (metis prod_cases3)
  let ?e = "entry LogOk (ascii ''unfreeze_protocol_state() confirmed'') (Some [50]) None"
  have "\<exists>h' ws. unfreeze flat_platform demo_services demo_wallet [] = (Inr (), h', ws) \<and> ?e \<in> set ws"
    using fresh
    by (cases r) (auto simp: unfreeze_def with_wallet_def demo_wallet_def lend_action_def page_action_def
        pg_bind_put pg_finally_def pg_catch_def pg_bind_def send_def pg_io_def ix send)
  then obtain h' ws' where run: "unfreeze flat_platform demo_services demo_wallet [] = (Inr (), h', ws')"
    "?e \<in> set ws'" by blast
  have "submitted demo_services [] [50] h'"
    by (rule reported_transactions_submitted [where m = "unfreeze flat_platform demo_services demo_wallet"
          and h = "[]" and P = flat_platform and E = demo_wallet and w = ?e, OF _ run(1) run(2)]) simp_all
  then show ?thesis using run by auto
qed

end
