(* ===== verification/Spec2Isabelle.thy ===== *)
theory Spec2Isabelle
  imports Pda Sdk_Accounts Lending_Math Amounts Builders_Sdk Chain_Interface Gate Send_Tx Base58 Executors Ika_Flow
    Keepers Sdk_Client Torque Btc_Wallet Approval_Tools Toast_Views Lend_Safety Demo_Safety Page_To_Chain Bootstrap_Example
    Deployment_Safety Console_To_Chain Gate_To_Chain Chain_Placement Lend_Reports
begin

text \<open>
  LendGuard lends a dollar token (LGUSD) on Solana against collateral in vaults whose custody an Ika
  dWallet proves: lamports, or Bitcoin on the test network. A program (\<open>contracts/src\<close>) keeps the
  accounts; a frontend (\<open>web\<close>) and an SDK (\<open>packages/sdk\<close>) read them and build transactions; keeper
  scripts (\<open>contracts/scripts\<close>) post prices and Bitcoin balances and finish Bitcoin liquidations. This
  development models the program's handlers over one ledger and the TypeScript and JavaScript around them.

  \<^bold>\<open>The runtime.\<close> \<open>Prelude\<close> has shared lemmas and the result type \<open>'a js\<close>, an error or a value.
  \<open>Text_Codec\<close> models strings as UTF-16 code units with UTF-8 encoding; \<open>Js_Runtime\<close> typed arrays,
  buffers, \<open>bigint\<close> division and the rounding of \<open>Number(bigint)\<close> to 53 bits; \<open>Platform\<close> the parameters
  for code outside the repository (SHA-256, the program address search, the environment). \<open>Services\<close>
  models asynchronous code: a computation maps the history of requests to a result and the longer history,
  and every service (RPC, wallet, gRPC, fetch, clock, randomness) is a function of the history, so that
  its answers may depend on all that was asked. \<open>Page_Io\<close> adds the writes of React handlers: a handler
  reads the state its render captured, so its writes are an output, applied in order.

  \<^bold>\<open>Accounts.\<close> \<open>Wire\<close> has the integer encodings of the builders and \<open>Pda\<close> all derived addresses
  (\<open>program-actions.ts\<close>, \<open>lendguard-client.ts\<close>, \<open>ika-pda.ts\<close>, SDK constants): accounts of different kind
  or owner hash different bytes. \<open>Chain_Layout\<close> has the records the program stores and their bytes;
  \<open>Accounts\<close> and \<open>Readers\<close> the decoders and readers of \<open>lending-client.ts\<close>, \<open>Sdk_Accounts\<close> those of the
  SDK. The locale \<open>account_layout\<close> is the contract of a decoder (it reads back what the program stores, at
  its length), interpreted for each account; the SDK readers equal the frontend's.

  \<^bold>\<open>Numbers.\<close> \<open>Chain_Math\<close> is the checked integer arithmetic of the program's lending handlers,
  \<open>Lending_Math\<close> that of frontend and SDK: debts and liquidation tests agree on all stored values,
  overflows included, and a loan within the limit is safe at the same price. \<open>Amounts\<close> prints and parses
  amounts, each the other's inverse.

  \<^bold>\<open>Instructions.\<close> \<open>Builders_Web\<close> and \<open>Builders_Sdk\<close> model every instruction builder, byte by byte; they
  agree. \<open>Chain_Interface\<close> states what every instruction of the program demands (signers, writable
  accounts, addresses, argument types) and shows that what the frontend builds is admitted, with no
  privilege beyond what is demanded, one builder apart. \<open>Chain_Dispatch\<close> joins them to the handlers: an
  instruction as it is on the wire (a program id, account metas, bytes) picks an instruction by its
  discriminator, is checked by that rule and read into the call the handler runs. The bytes of a frontend
  builder run the one call it is named after, with the arguments it was given, and no other. The
  hypotheses say that the discriminators (prefixes of hashes) differ and are eight bytes, that hashes are
  32 bytes and that the addresses of one kind of account differ; \<open>wire_platform\<close> in \<open>Chain_Entry\<close> has all
  of them. \<open>Chain_Entry\<close> adds who must have signed: what borrows against a vault, releases its collateral
  or closes it carries the signature of its owner.

  \<^bold>\<open>Submission.\<close> \<open>Send_Tx\<close> models \<open>sendIx\<close> (simulate, sign, send, confirm) and the retrying transport of
  \<open>rpc-fetch.ts\<close>: its recursion counts the attempts up to \<open>MAX_ATTEMPTS\<close> = 4, so it needs no fuel.
  \<open>Executors\<close> are the lazily created gRPC clients of Ika and Encrypt (locale \<open>lazy_client\<close>), \<open>Ika_Flow\<close>
  the flow from key generation to a message approval with its fallback, \<open>Base58\<close> its decoder.

  \<^bold>\<open>Decisions.\<close> \<open>Gate\<close> is the deposit gate of \<open>lendguard-gate.ts\<close>. \<open>Gate_To_Chain\<close> compares its answer
  with that of \<open>deposit_collateral\<close> on the same accounts at the same time: it never blocks what the
  program accepts, but lets a proof pass for a day that the program takes for 600 seconds. \<open>Approvals\<close> is
  the program's parser of message approvals with the instructions that verify and refresh a custody proof,
  and the frontend's mock of an approval.

  \<^bold>\<open>The program.\<close> \<open>Chain_Ledger\<close> has the state of the chain: one map per kind of account, keyed by what
  the seeds of its address vary in, the token accounts, mints and lamports, and the interest accrual of
  \<open>lending.rs\<close>. A handler maps a ledger to an error or the next ledger, its account constraints and
  \<open>require!\<close>s in the order Anchor checks them: \<open>Chain_Lending\<close> (\<open>lending.rs\<close>), \<open>Chain_Vaults\<close> (vaults,
  custody proofs, deposits, freezes, risk checks), \<open>Chain_Btc\<close> (\<open>btc_lending.rs\<close> and the Bitcoin vaults).
  The token and system programs, Ika's approval, rents and the address search are the fields of
  \<open>chain_env\<close>. \<open>Chain_Program\<close> is the dispatch of \<open>lib.rs\<close> (\<open>execute\<close>) and \<open>reachable\<close>: from a ledger
  without accounts of the program, any sequence of instructions, between which the world outside may
  change tokens, mints, lamports and foreign data at will. Its locale \<open>ledger_invariant\<close> is the rule for
  invariants. \<open>Chain_Effects\<close> has one elimination rule per lending handler: what a success went through.
  On these rest the invariants (interpretations of the locale): debts of pools and positions balance and
  accounts are well formed (\<open>Chain_Invariants\<close>), every account carries the keys and the bump its address
  was derived with (\<open>Chain_Placement\<close>), deposits are covered by the verified total (\<open>Chain_Safety\<close>), a
  Bitcoin liquidation can be finalized, terms and freezes hold (\<open>Chain_Settlement\<close>); \<open>Chain_Loans\<close> has
  what borrowing, repaying and liquidating do. \<open>Chain_Example\<close> runs the program from an empty ledger to a
  liquidation and instantiates every one of these theorems on that run.

  \<^bold>\<open>Clients.\<close> \<open>Keepers\<close> are the scripts. The balance keeper posts for every vault what the explorer shows
  of its address (\<open>explorer_shows\<close>), whatever fails with the others; the wait for confirmations, cut after
  \<open>n + 1\<close> polls, returns when the explorer confirms the transaction from the \<open>n\<close>-th wait on
  (\<open>explorer_confirms\<close>), with the block the explorer names. \<open>Sdk_Client\<close> is the class \<open>LendGuard\<close>.
  \<open>Torque\<close> is the event client, the local record and the proxy route; \<open>Btc_Wallet\<close> the derivation of
  Bitcoin addresses; \<open>Toasts\<close> the toast store with its reachable states, and \<open>Toast_Views\<close> what a
  component subscribed to it has on its screen.

  \<^bold>\<open>Scripts of the deployment.\<close> \<open>Bootstrap\<close> is \<open>bootstrap-devnet.mjs\<close> with its helpers, one definition per
  step, over the services of \<open>Services\<close>; \<open>Bootstrap_Safety\<close> shows that a run on a market that stands only
  reads, the conditions for that spelled out in \<open>complete\<close> (accounts there, the mint handed over, the
  vault of the pool still full), and that a rerun fails once the pool has lent. \<open>Bootstrap_Example\<close> is a
  cluster on which both happen. \<open>Deployment\<close> models the deployment, the scripts that read and hand over
  the upgrade authority, and their key files; \<open>Deployment_Safety\<close> shows that a deployment never builds
  again after it has written a file and when and to whom the authority is handed over. \<open>Approval_Tools\<close>
  has the scripts about Ika's approvals, compared with the frontend and the program's parser.

  \<^bold>\<open>Pages.\<close> \<open>Lend_State\<close> and \<open>Lend_Page\<close> are \<open>web/app/lend/page.tsx\<close>: one record field per \<open>useState\<close>, one
  constructor of \<open>lend_write\<close> per setter, one definition per effect and handler. \<open>Lend_Safety\<close> shows which
  transactions the wallet is asked to sign, \<open>Lend_Reports\<close> that a transaction the page reports was
  submitted by that very action, \<open>Console_To_Chain\<close> what the console of liquidatable positions is worth to
  the program: for Bitcoin-priced vaults it agrees, for others it reads the wrong feed. \<open>Demo_Page\<close> is
  \<open>web/app/demo/page.tsx\<close> in the same style, with a step relation in which the writes of running handlers
  interleave with resets and further clicks, and \<open>Demo_Safety\<close> the invariant of its reachable pages. Both
  pages are interpretations of the locale \<open>page_state\<close>, whose rules for invariants and busy flags their
  proofs use. \<open>Page_To_Chain\<close> follows \<open>repay\<close> and \<open>borrow\<close> from the click to the ledger: through the
  transaction the wallet is asked for, its bytes, the dispatch and the handler; its example runs both
  clicks.

  \<^bold>\<open>Not modelled.\<close> The rendered markup, the UI kit and the landing page, which keep no state of the
  protocol; the configuration of the wallet library; of the scripts the environment and directory they
  hand to the commands they start, and their printing; of the program the events and log lines it emits,
  and the graph of \<open>check_backing_ratio.rs\<close>, which the Encrypt macro compiles. An address of an account is
  identified with its seeds, so a bump other than the canonical one is not considered. A handler of the
  demo asks its services as of the click that began it, whatever happens between its writes; the handlers
  of the lending page, whose sending buttons are disabled while one runs, are stated one at a time. A
  clock or random number read twice with no request between gives the same value.
\<close>

end
